(* ===== verification/AimPrelude.thy ===== *)
theory AimPrelude
  imports Complex_Main "HOL-Library.Word" "HOL-Library.Char_ord" "HOL-Library.List_Lexorder"
    "HOL-Library.Sublist"
begin

text \<open>
  Shared vocabulary of the development: Python exceptions as values, the bind of the
  error monad, insertion-ordered dictionaries as association lists, and two locales
  that many components share: an operation system with an invariant
  (\<open>op_system\<close>) and an encoder with its decoder (\<open>codec\<close>).
\<close>

named_theorems model_defs \<open>definitions a component's proofs unfold together\<close>
named_theorems py_simps \<open>equations of the Python built-ins the model uses\<close>

section \<open>Exceptions as values\<close>

text \<open>
  One constructor per exception class the sources raise or catch. The argument is the
  text of the exception where the sources give one. \<open>UnicodeDecodeError\<close>,
  \<open>UnicodeEncodeError\<close>, \<open>JSONDecodeError\<close> and \<open>BinasciiError\<close> are
  subclasses of \<open>ValueError\<close> in Python (\<open>is_value_error\<close>). \<open>LibError\<close> is an
  exception of a third-party library; \<open>Unrepresentable\<close> marks a text with a code
  point above 255, which the model's strings cannot hold: it is never an outcome of
  the code.
\<close>

datatype exn =
    ValueError string
  | UnicodeDecodeError
  | UnicodeEncodeError
  | JSONDecodeError
  | BinasciiError
  | TypeError
  | KeyError string
  | AttributeError
  | RuntimeError string
  | OverflowError
  | TimeoutExn
  | ConnectionClosed
  | OSError
  | InvalidSignature
  | InvalidTag
  | LibError string
  | Unrepresentable

type_synonym 'a res = "exn + 'a"

fun is_value_error :: "exn \<Rightarrow> bool" where
  "is_value_error (ValueError _) = True"
| "is_value_error UnicodeDecodeError = True"
| "is_value_error UnicodeEncodeError = True"
| "is_value_error JSONDecodeError = True"
| "is_value_error BinasciiError = True"
| "is_value_error _ = False"

fun rbind :: "'e + 'a \<Rightarrow> ('a \<Rightarrow> 'e + 'b) \<Rightarrow> 'e + 'b" where
  "rbind (Inl e) f = Inl e"
| "rbind (Inr x) f = f x"

lemma rbind_Inr_iff: "rbind m f = Inr y \<longleftrightarrow> (\<exists>x. m = Inr x \<and> f x = Inr y)"
  by (cases m) auto

lemma rbind_Inl_iff: "rbind m f = Inl e \<longleftrightarrow> m = Inl e \<or> (\<exists>x. m = Inr x \<and> f x = Inl e)"
  by (cases m) auto

lemma rbind_InrE:
  assumes "rbind m f = Inr y"
  obtains x where "m = Inr x" "f x = Inr y"
  using assms by (auto simp: rbind_Inr_iff)

definition guard_res :: "bool \<Rightarrow> 'e \<Rightarrow> 'e + unit" where
  "guard_res b e = (if b then Inr () else Inl e)"

lemma guard_res_simps [simp]:
  "guard_res True e = Inr ()" "guard_res False e = Inl e"
  by (simp_all add: guard_res_def)

lemma guard_res_Inr_iff [simp]: "guard_res b e = Inr u \<longleftrightarrow> b"
  by (simp add: guard_res_def)

section \<open>Dictionaries\<close>

text \<open>
  A Python \<open>dict\<close> is an association list in insertion order: \<open>map_of\<close> is the
  lookup, \<open>dict_set\<close> overwrites in place or appends, \<open>dict_del\<close> removes.
\<close>

type_synonym ('k, 'v) dict = "('k \<times> 'v) list"

fun dict_set :: "'k \<Rightarrow> 'v \<Rightarrow> ('k, 'v) dict \<Rightarrow> ('k, 'v) dict" where
  "dict_set k v [] = [(k, v)]"
| "dict_set k v ((k', v') # d) = (if k' = k then (k, v) # d else (k', v') # dict_set k v d)"

definition dict_del :: "'k \<Rightarrow> ('k, 'v) dict \<Rightarrow> ('k, 'v) dict" where
  "dict_del k d = filter (\<lambda>kv. fst kv \<noteq> k) d"

abbreviation dict_keys :: "('k, 'v) dict \<Rightarrow> 'k list" where
  "dict_keys d \<equiv> map fst d"

lemma map_of_dict_set [simp]: "map_of (dict_set k v d) = (map_of d)(k \<mapsto> v)"
  by (induction d) auto

lemma map_of_dict_del [simp]: "map_of (dict_del k d) = (map_of d)(k := None)"
  by (induction d) (auto simp: dict_del_def fun_eq_iff)

lemma set_dict_keys_set [simp]: "fst ` set (dict_set k v d) = insert k (fst ` set d)"
  by (induction k v d rule: dict_set.induct) auto

lemma distinct_dict_set [simp]: "distinct (dict_keys d) \<Longrightarrow> distinct (dict_keys (dict_set k v d))"
  by (induction d) auto

lemma distinct_dict_del [simp]: "distinct (dict_keys d) \<Longrightarrow> distinct (dict_keys (dict_del k d))"
  by (induction d) (auto simp: dict_del_def)

lemma dict_set_append:
  "k \<notin> set (dict_keys d) \<Longrightarrow> dict_set k v d = d @ [(k, v)]"
  by (induction d) auto

lemma dict_del_notin: "k \<notin> set (dict_keys d) \<Longrightarrow> dict_del k d = d"
  by (induction d) (auto simp: dict_del_def)

lemma length_dict_del_le [simp]: "length (dict_del k d) \<le> length d"
  by (simp add: dict_del_def)

locale lookup_table =
  fixes get :: "'t \<Rightarrow> 'k \<Rightarrow> 'v option"
    and put :: "'k \<Rightarrow> 'v \<Rightarrow> 't \<Rightarrow> 't"
    and del :: "'k \<Rightarrow> 't \<Rightarrow> 't"
  assumes get_put: "get (put k v t) k' = (if k' = k then Some v else get t k')"
    and get_del: "get (del k t) k' = (if k' = k then None else get t k')"
begin

lemma get_put_same: "get (put k v t) k = Some v"
  by (simp add: get_put)

lemma get_del_same: "get (del k t) k = None"
  by (simp add: get_del)

lemma del_put_other: "k' \<noteq> k \<Longrightarrow> get (del k (put k v t)) k' = get t k'"
  by (simp add: get_put get_del)

lemma del_put: "get (del k (put k v t)) = get (del k t)"
  by (rule ext) (simp add: get_put get_del)

end

interpretation pydict: lookup_table "map_of :: ('k, 'v) dict \<Rightarrow> 'k \<Rightarrow> 'v option" dict_set dict_del
  by unfold_locales auto

section \<open>Operation systems with an invariant\<close>

text \<open>
  A component with state is a step function over its operations. A run is a fold of
  steps; an invariant every step keeps holds after every run, and along it.
\<close>

locale op_system =
  fixes step :: "'s \<Rightarrow> 'op \<Rightarrow> 's"
    and inv :: "'s \<Rightarrow> bool"
  assumes step_keeps: "inv s \<Longrightarrow> inv (step s x)"
begin

lemma run_keeps: "inv s \<Longrightarrow> inv (foldl step s xs)"
  by (induction xs arbitrary: s) (auto simp: step_keeps)

lemma run_prefix_keeps: "inv s \<Longrightarrow> prefix ys xs \<Longrightarrow> inv (foldl step s ys)"
  by (rule run_keeps)

end

text \<open>A quantity no step decreases: it is monotone along every run.\<close>

locale monotone_system = op_system +
  fixes reading :: "'s \<Rightarrow> 'o :: order"
  assumes reading_step: "inv s \<Longrightarrow> reading s \<le> reading (step s x)"
begin

lemma reading_run: "inv s \<Longrightarrow> reading s \<le> reading (foldl step s xs)"
proof (induction xs arbitrary: s)
  case Nil
  then show ?case by simp
next
  case (Cons x xs)
  from Cons.prems have "reading s \<le> reading (step s x)" and "inv (step s x)"
    by (auto simp: reading_step step_keeps)
  with Cons.IH [of "step s x"] show ?case by simp
qed

lemma reading_prefix:
  assumes "inv s" and "prefix ys xs"
  shows "reading (foldl step s ys) \<le> reading (foldl step s xs)"
proof -
  from assms(2) obtain zs where "xs = ys @ zs" by (auto elim: prefixE)
  with assms(1) show ?thesis by (simp add: reading_run run_keeps)
qed

end

section \<open>Bounded queues\<close>

text \<open>
  The contract of a queue with a capacity, seen through its contents: putting an element appends
  it while there is room and changes nothing once the queue is full.
\<close>

locale bounded_fifo =
  fixes contents :: "'s \<Rightarrow> 'a list"
    and put :: "'a \<Rightarrow> 's \<Rightarrow> 's"
    and good :: "'s \<Rightarrow> bool"
    and okay :: "'a \<Rightarrow> bool"
    and cap :: nat
  assumes put_contents: "good s \<Longrightarrow> okay x \<Longrightarrow>
      contents (put x s) = (if length (contents s) < cap then contents s @ [x] else contents s)"
    and put_good: "good s \<Longrightarrow> okay x \<Longrightarrow> good (put x s)"
begin

abbreviation puts :: "'s \<Rightarrow> 'a list \<Rightarrow> 's" where
  "puts \<equiv> foldl (\<lambda>s x. put x s)"

lemma puts_good: "good s \<Longrightarrow> list_all okay xs \<Longrightarrow> good (puts s xs)"
  by (induction xs arbitrary: s) (auto simp: put_good)

lemma puts_contents:
  "good s \<Longrightarrow> list_all okay xs \<Longrightarrow>
     contents (puts s xs) = contents s @ take (cap - length (contents s)) xs"
proof (induction xs arbitrary: s)
  case (Cons x xs)
  then have "good (put x s)" and "list_all okay xs" by (auto simp: put_good)
  from Cons.IH [OF this] Cons.prems show ?case
    by (cases "length (contents s) < cap") (auto simp: put_contents Suc_diff_Suc take_Cons')
qed simp

lemma puts_fit:
  "good s \<Longrightarrow> list_all okay xs \<Longrightarrow> length (contents s) + length xs \<le> cap \<Longrightarrow>
     contents (puts s xs) = contents s @ xs"
  by (simp add: puts_contents)

lemma puts_bounded:
  "good s \<Longrightarrow> list_all okay xs \<Longrightarrow> length (contents s) \<le> cap \<Longrightarrow> length (contents (puts s xs)) \<le> cap"
  by (simp add: puts_contents)

end

section \<open>Encoders and decoders\<close>

text \<open>
  The contract every wire format of the code has: on its domain, decoding an encoded
  value gives it back, so the encoder is injective there.
\<close>

locale codec =
  fixes enc :: "'a \<Rightarrow> 'b"
    and dec :: "'b \<Rightarrow> exn + 'a"
    and good :: "'a \<Rightarrow> bool"
  assumes dec_enc: "good x \<Longrightarrow> dec (enc x) = Inr x"
begin

lemma enc_inj: "good x \<Longrightarrow> good y \<Longrightarrow> enc x = enc y \<Longrightarrow> x = y"
  using dec_enc by (metis sum.inject(2))

lemma enc_eq_iff: "good x \<Longrightarrow> good y \<Longrightarrow> enc x = enc y \<longleftrightarrow> x = y"
  using enc_inj by blast

lemma enc_dec_total: "good x \<Longrightarrow> \<exists>y. dec (enc x) = Inr y"
  by (simp add: dec_enc)

end

section \<open>Lists\<close>

lemma list_all_filter_id: "list_all P xs \<Longrightarrow> filter P xs = xs"
  by (induction xs) auto

lemma last_drop_take: "length (drop (length xs - n) xs) = min n (length xs)"
  by simp

lemma foldl_append_singletons: "foldl (\<lambda>acc x. acc @ [f x]) ys xs = ys @ map f xs"
  by (induction xs arbitrary: ys) auto

text \<open>\<open>xs[-n:]\<close> of Python for a positive \<open>n\<close>: the last \<open>n\<close> elements.\<close>

definition last_n :: "nat \<Rightarrow> 'a list \<Rightarrow> 'a list" where
  "last_n n xs = drop (length xs - n) xs"

lemma length_last_n [simp]: "length (last_n n xs) = min n (length xs)"
  by (simp add: last_n_def)

lemma last_n_all [simp]: "length xs \<le> n \<Longrightarrow> last_n n xs = xs"
  by (simp add: last_n_def)

lemma last_n_suffix: "suffix (last_n n xs) xs"
  by (simp add: last_n_def suffix_drop)

lemma last_n_snoc: "0 < n \<Longrightarrow> last_n n (xs @ [x]) = last_n (n - 1) xs @ [x]"
  by (cases "length xs < n") (auto simp: last_n_def Suc_diff_le)

end
