(* ===== verification/PyText.thy ===== *)
theory PyText
  imports AimPrelude
begin

text \<open>
  The text and byte operations of Python's standard library that the sources call:
  decimal printing and reading of integers, \<open>strip\<close>, \<open>split\<close>, UTF-8, big-endian
  integers and Base64. A \<open>string\<close> is a Python \<open>str\<close> whose code points are below 256
  (one \<open>char\<close> per code point); \<open>bytes\<close> is a list of 8-bit words. Every function is
  exact on that range, and a decoder that meets a larger code point answers
  \<open>Unrepresentable\<close>.
\<close>

type_synonym byte = "8 word"
type_synonym bytes = "byte list"

abbreviation code :: "char \<Rightarrow> nat" where
  "code c \<equiv> of_char c"

abbreviation chr :: "nat \<Rightarrow> char" where
  "chr n \<equiv> char_of n"

lemma code_lt_256 [simp]: "code c < 256"
  by (cases c) (simp add: of_char_def horner_sum_simps)

lemma code_chr [simp]: "n < 256 \<Longrightarrow> code (chr n) = n"
  by simp

lemma unat_byte_lt [simp]: "unat (b :: byte) < 256"
  using unsigned_less [of b, where 'a = nat] by simp

lemma unat_byte_of_nat: "n < 256 \<Longrightarrow> unat (of_nat n :: byte) = n"
  by (simp add: unat_of_nat take_bit_nat_eq_self)

lemma byte_of_nat_unat [simp]: "(of_nat (unat (b :: byte)) :: byte) = b"
  by simp

section \<open>Decimal integers\<close>

definition digit_char :: "nat \<Rightarrow> char" where
  "digit_char d = chr (48 + d)"

definition is_digit :: "char \<Rightarrow> bool" where
  "is_digit c \<longleftrightarrow> 48 \<le> code c \<and> code c \<le> 57"

definition digit_val :: "char \<Rightarrow> nat" where
  "digit_val c = code c - 48"

lemma is_digit_char [simp]: "d < 10 \<Longrightarrow> is_digit (digit_char d)"
  by (simp add: is_digit_def digit_char_def)

lemma digit_val_char [simp]: "d < 10 \<Longrightarrow> digit_val (digit_char d) = d"
  by (simp add: digit_val_def digit_char_def)

fun str_of_nat :: "nat \<Rightarrow> string" where
  "str_of_nat n = (if n < 10 then [digit_char n]
                   else str_of_nat (n div 10) @ [digit_char (n mod 10)])"

declare str_of_nat.simps [simp del]

definition str_of_int :: "int \<Rightarrow> string" where
  "str_of_int i = (if i < 0 then CHR ''-'' # str_of_nat (nat (- i)) else str_of_nat (nat i))"

definition nat_of_digits :: "string \<Rightarrow> nat" where
  "nat_of_digits = foldl (\<lambda>n c. n * 10 + digit_val c) 0"

lemma nat_of_digits_Nil [simp]: "nat_of_digits [] = 0"
  by (simp add: nat_of_digits_def)

lemma nat_of_digits_snoc [simp]: "nat_of_digits (s @ [c]) = nat_of_digits s * 10 + digit_val c"
  by (simp add: nat_of_digits_def)

lemma nat_of_digits_str [simp]: "nat_of_digits (str_of_nat n) = n"
proof (induction n rule: str_of_nat.induct)
  case (1 n)
  show ?case
  proof (cases "n < 10")
    case True
    then show ?thesis
      using nat_of_digits_snoc [of "[]"] by (simp add: str_of_nat.simps)
  next
    case False
    with "1.IH" show ?thesis by (subst str_of_nat.simps) simp
  qed
qed

lemma str_of_nat_digits: "list_all is_digit (str_of_nat n)"
proof (induction n rule: str_of_nat.induct)
  case (1 n)
  then show ?case by (subst str_of_nat.simps) simp
qed

lemma str_of_nat_ne [simp]: "str_of_nat n \<noteq> []"
  by (subst str_of_nat.simps) simp

lemma str_of_nat_hd_digit: "is_digit (hd (str_of_nat n))"
  using str_of_nat_digits [of n] by (cases "str_of_nat n") auto

lemma str_of_nat_hd_zero: "hd (str_of_nat n) = CHR ''0'' \<Longrightarrow> n = 0"
proof (induction n rule: str_of_nat.induct)
  case (1 n)
  show ?case
  proof (cases "n < 10")
    case True
    with "1.prems" have "digit_val (digit_char n) = digit_val CHR ''0''"
      by (simp add: str_of_nat.simps)
    with True show ?thesis by (simp add: digit_val_def digit_char_def)
  next
    case False
    with "1.prems" have "hd (str_of_nat (n div 10)) = CHR ''0''"
      by (subst (asm) str_of_nat.simps) simp
    with "1.IH" False show ?thesis by simp
  qed
qed

lemma str_of_nat_zero [simp]: "str_of_nat 0 = ''0''"
  by (simp add: str_of_nat.simps digit_char_def char_of_eq_iff take_bit_eq_mod)

text \<open>The number of digits, used to bound the size of encoded frames.\<close>

lemma length_str_of_nat: "0 < k \<Longrightarrow> n < 10 ^ k \<Longrightarrow> length (str_of_nat n) \<le> k"
proof (induction k arbitrary: n)
  case 0
  then show ?case by simp
next
  case (Suc k)
  show ?case
  proof (cases "n < 10")
    case True
    then show ?thesis by (simp add: str_of_nat.simps)
  next
    case False
    from Suc.prems have "n < 10 ^ k * 10" by (simp add: mult.commute)
    then have "n div 10 < 10 ^ k" by (rule less_mult_imp_div_less)
    moreover from False Suc.prems have "0 < k" by (cases k) auto
    ultimately
    have "length (str_of_nat (n div 10)) \<le> k" using Suc.IH by blast
    with False show ?thesis by (subst str_of_nat.simps) simp
  qed
qed

section \<open>White space, stripping, splitting\<close>

text \<open>\<open>str.isspace\<close> on code points below 256.\<close>

definition is_space :: "char \<Rightarrow> bool" where
  "is_space c \<longleftrightarrow> (9 \<le> code c \<and> code c \<le> 13) \<or> (28 \<le> code c \<and> code c \<le> 32)
     \<or> code c = 133 \<or> code c = 160"

lemma digit_not_space: "is_digit c \<Longrightarrow> \<not> is_space c"
  by (auto simp: is_digit_def is_space_def)

definition lstrip :: "string \<Rightarrow> string" where
  "lstrip s = dropWhile is_space s"

definition rstrip :: "string \<Rightarrow> string" where
  "rstrip s = rev (dropWhile is_space (rev s))"

definition strip :: "string \<Rightarrow> string" where
  "strip s = rstrip (lstrip s)"

text \<open>\<open>s.rstrip(c)\<close> and \<open>s.lstrip(c)\<close> with one character.\<close>

definition rstrip_char :: "char \<Rightarrow> string \<Rightarrow> string" where
  "rstrip_char c s = rev (dropWhile (\<lambda>x. x = c) (rev s))"

definition lstrip_char :: "char \<Rightarrow> string \<Rightarrow> string" where
  "lstrip_char c s = dropWhile (\<lambda>x. x = c) s"

text \<open>\<open>s.split(c)\<close> with a one-character separator.\<close>

fun split_char :: "char \<Rightarrow> string \<Rightarrow> string list" where
  "split_char c [] = [[]]"
| "split_char c (x # xs) =
     (if x = c then [] # split_char c xs
      else (case split_char c xs of [] \<Rightarrow> [[x]] | p # ps \<Rightarrow> (x # p) # ps))"

lemma split_char_ne [simp]: "split_char c s \<noteq> []"
  by (cases s) (auto split: list.splits)

text \<open>\<open>s.split(sep, 1)\<close>: the text before the first occurrence and the rest, if any.\<close>

fun split_once :: "string \<Rightarrow> string \<Rightarrow> string \<times> string option" where
  "split_once sep s =
     (if prefix sep s then ([], Some (drop (length sep) s))
      else case s of [] \<Rightarrow> ([], None)
           | x # xs \<Rightarrow> (let (p, r) = split_once sep xs in (x # p, r)))"

declare split_once.simps [simp del]

definition lower_char :: "char \<Rightarrow> char" where
  "lower_char c = (let n = code c in
     if (65 \<le> n \<and> n \<le> 90) \<or> (192 \<le> n \<and> n \<le> 222 \<and> n \<noteq> 215) then chr (n + 32) else c)"

definition lower :: "string \<Rightarrow> string" where
  "lower s = map lower_char s"

definition contains :: "string \<Rightarrow> string \<Rightarrow> bool" where
  "contains sub s \<longleftrightarrow> sublist sub s"

definition str_all_ascii :: "string \<Rightarrow> bool" where
  "str_all_ascii s \<longleftrightarrow> list_all (\<lambda>c. code c < 128) s"

section \<open>Strings as bytes\<close>

definition byte_of_char :: "char \<Rightarrow> byte" where
  "byte_of_char c = of_nat (code c)"

definition char_of_byte :: "byte \<Rightarrow> char" where
  "char_of_byte b = chr (unat b)"

lemma char_of_byte_of_char [simp]: "char_of_byte (byte_of_char c) = c"
  by (simp add: char_of_byte_def byte_of_char_def unat_byte_of_nat)

lemma unat_byte_of_char [simp]: "unat (byte_of_char c) = code c"
  by (simp add: byte_of_char_def unat_byte_of_nat)

definition ascii_encode :: "string \<Rightarrow> bytes res" where
  "ascii_encode s = (if str_all_ascii s then Inr (map byte_of_char s) else Inl UnicodeEncodeError)"

text \<open>\<open>s.encode("utf-8")\<close>: one byte below 128, two bytes for 128 to 255.\<close>

definition utf8_char :: "char \<Rightarrow> bytes" where
  "utf8_char c = (let n = code c in
     if n < 128 then [of_nat n] else [of_nat (192 + n div 64), of_nat (128 + n mod 64)])"

definition utf8_encode :: "string \<Rightarrow> bytes" where
  "utf8_encode s = concat (map utf8_char s)"

lemma utf8_encode_Nil [simp]: "utf8_encode [] = []"
  by (simp add: utf8_encode_def)

lemma utf8_encode_Cons [simp]: "utf8_encode (c # s) = utf8_char c @ utf8_encode s"
  by (simp add: utf8_encode_def)

lemma utf8_encode_append [simp]: "utf8_encode (s @ t) = utf8_encode s @ utf8_encode t"
  by (simp add: utf8_encode_def)

lemma utf8_encode_ascii: "str_all_ascii s \<Longrightarrow> utf8_encode s = map byte_of_char s"
  by (induction s) (auto simp: str_all_ascii_def utf8_char_def byte_of_char_def)

lemma length_utf8_ascii: "str_all_ascii s \<Longrightarrow> length (utf8_encode s) = length s"
  by (simp add: utf8_encode_ascii)

definition cont_byte :: "byte \<Rightarrow> bool" where
  "cont_byte b \<longleftrightarrow> 128 \<le> unat b \<and> unat b < 192"

text \<open>
  The code points of a well-formed UTF-8 text (the table of the Unicode standard: no
  overlong forms, no surrogates, nothing above U+10FFFF).
\<close>

fun utf8_points :: "bytes \<Rightarrow> nat list option" where
  "utf8_points [] = Some []"
| "utf8_points (b # bs) =
    (let n = unat b in
     if n < 128 then map_option ((#) n) (utf8_points bs)
     else if 194 \<le> n \<and> n \<le> 223 then
       (case bs of c # r \<Rightarrow>
          if cont_byte c
          then map_option ((#) ((n - 192) * 64 + (unat c - 128))) (utf8_points r) else None
        | _ \<Rightarrow> None)
     else if 224 \<le> n \<and> n \<le> 239 then
       (case bs of c # d # r \<Rightarrow>
          if cont_byte c \<and> cont_byte d \<and> (n = 224 \<longrightarrow> 160 \<le> unat c) \<and> (n = 237 \<longrightarrow> unat c < 160)
          then map_option ((#) ((n - 224) * 4096 + (unat c - 128) * 64 + (unat d - 128)))
                 (utf8_points r)
          else None
        | _ \<Rightarrow> None)
     else if 240 \<le> n \<and> n \<le> 244 then
       (case bs of c # d # e # r \<Rightarrow>
          if cont_byte c \<and> cont_byte d \<and> cont_byte e
             \<and> (n = 240 \<longrightarrow> 144 \<le> unat c) \<and> (n = 244 \<longrightarrow> unat c < 144)
          then map_option ((#) ((n - 240) * 262144 + (unat c - 128) * 4096
                 + (unat d - 128) * 64 + (unat e - 128))) (utf8_points r)
          else None
        | _ \<Rightarrow> None)
     else None)"

definition utf8_decode :: "bytes \<Rightarrow> string res" where
  "utf8_decode bs = (case utf8_points bs of None \<Rightarrow> Inl UnicodeDecodeError
     | Some ps \<Rightarrow> if list_all (\<lambda>p. p < 256) ps then Inr (map chr ps) else Inl Unrepresentable)"

lemma utf8_points_char: "utf8_points (utf8_char c @ bs) = map_option ((#) (code c)) (utf8_points bs)"
proof (cases "code c < 128")
  case True
  then show ?thesis by (simp add: utf8_char_def unat_byte_of_nat)
next
  case False
  have lt: "code c < 256" by simp
  have q: "code c div 64 < 4" using less_mult_imp_div_less [of "code c" 4 64] lt by simp
  have hi: "192 + code c div 64 < 256" "194 \<le> 192 + code c div 64" "192 + code c div 64 \<le> 223"
    using False q by (auto intro: order.trans)
  have lo: "128 + code c mod 64 < 256" by (simp add: trans_less_add1)
  have "(192 + code c div 64 - 192) * 64 + (128 + code c mod 64 - 128) = code c" by simp
  with False hi lo show ?thesis
    by (simp add: utf8_char_def cont_byte_def unat_byte_of_nat Let_def del: of_nat_add)
qed

lemma utf8_points_encode: "utf8_points (utf8_encode s) = Some (map code s)"
  by (induction s) (auto simp: utf8_points_char)

lemma utf8_decode_encode [simp]: "utf8_decode (utf8_encode s) = Inr s"
  by (auto simp: utf8_decode_def utf8_points_encode list_all_iff comp_def)

interpretation utf8: codec utf8_encode utf8_decode "\<lambda>_. True"
  by unfold_locales simp

section \<open>Big-endian integers\<close>

fun be_bytes :: "nat \<Rightarrow> nat \<Rightarrow> bytes" where
  "be_bytes 0 n = []"
| "be_bytes (Suc k) n = be_bytes k (n div 256) @ [of_nat (n mod 256)]"

definition be_val :: "bytes \<Rightarrow> nat" where
  "be_val = foldl (\<lambda>n b. n * 256 + unat b) 0"

text \<open>\<open>n.to_bytes(k, "big")\<close>: an \<open>OverflowError\<close> when \<open>n\<close> is negative or too big.\<close>

definition to_bytes :: "nat \<Rightarrow> int \<Rightarrow> bytes res" where
  "to_bytes k n = (if n < 0 \<or> 256 ^ k \<le> n then Inl OverflowError else Inr (be_bytes k (nat n)))"

lemma length_be_bytes [simp]: "length (be_bytes k n) = k"
  by (induction k arbitrary: n) auto

lemma be_val_Nil [simp]: "be_val [] = 0"
  by (simp add: be_val_def)

lemma be_val_snoc [simp]: "be_val (bs @ [b]) = be_val bs * 256 + unat b"
  by (simp add: be_val_def)

lemma be_val_be_bytes: "n < 256 ^ k \<Longrightarrow> be_val (be_bytes k n) = n"
proof (induction k arbitrary: n)
  case 0
  then show ?case by simp
next
  case (Suc k)
  then have "n div 256 < 256 ^ k" by (simp add: less_mult_imp_div_less)
  with Suc.IH have "be_val (be_bytes k (n div 256)) = n div 256" .
  then show ?case by (simp add: unat_byte_of_nat)
qed

lemma be_val_lt: "be_val bs < 256 ^ length bs"
proof (induction bs rule: rev_induct)
  case Nil
  then show ?case by simp
next
  case (snoc b bs)
  have "unat b < 256" by simp
  with snoc have "be_val bs * 256 + unat b < (be_val bs + 1) * 256" and "be_val bs + 1 \<le> 256 ^ length bs"
    by auto
  then have "be_val bs * 256 + unat b < 256 ^ length bs * 256"
    by (meson less_le_trans mult_le_mono1)
  then show ?case by simp
qed

lemma be_bytes_be_val: "be_bytes (length bs) (be_val bs) = bs"
proof (induction bs rule: rev_induct)
  case Nil
  then show ?case by simp
next
  case (snoc b bs)
  have "unat b < 256" by simp
  then have "(be_val bs * 256 + unat b) div 256 = be_val bs"
    and "(be_val bs * 256 + unat b) mod 256 = unat b"
    by auto
  with snoc show ?case by simp
qed

lemma be_bytes_inj: "be_bytes k m = be_bytes k n \<Longrightarrow> m < 256 ^ k \<Longrightarrow> n < 256 ^ k \<Longrightarrow> m = n"
  by (metis be_val_be_bytes)

end
