(* ===== verification/Base64.thy ===== *)
theory Base64
  imports PyText
begin

text \<open>
  \<open>base64.b64encode\<close> and \<open>base64.b64decode(s, validate=True)\<close> of Python 3.11, which
  the relay protocol, the handshake and the session code use for keys, signatures and
  bodies. The strict decoder accepts exactly the alphabet, padding only at the end of
  an incomplete quad, and (as CPython does) redundant padding after complete quads.
\<close>

definition b64_char :: "nat \<Rightarrow> char" where
  "b64_char n = (if n < 26 then chr (65 + n) else if n < 52 then chr (71 + n)
     else if n < 62 then chr (n - 4) else if n = 62 then CHR ''+'' else CHR ''/'')"

definition b64_val :: "char \<Rightarrow> nat option" where
  "b64_val c = (let n = code c in
     if 65 \<le> n \<and> n \<le> 90 then Some (n - 65)
     else if 97 \<le> n \<and> n \<le> 122 then Some (n - 71)
     else if 48 \<le> n \<and> n \<le> 57 then Some (n + 4)
     else if n = 43 then Some 62 else if n = 47 then Some 63 else None)"

abbreviation pad :: char where
  "pad \<equiv> CHR ''=''"

fun b64encode :: "bytes \<Rightarrow> string" where
  "b64encode [] = []"
| "b64encode [a] =
     [b64_char (unat a div 4), b64_char (unat a mod 4 * 16), pad, pad]"
| "b64encode [a, b] =
     [b64_char (unat a div 4), b64_char (unat a mod 4 * 16 + unat b div 16),
      b64_char (unat b mod 16 * 4), pad]"
| "b64encode (a # b # c # r) =
     b64_char (unat a div 4) # b64_char (unat a mod 4 * 16 + unat b div 16)
     # b64_char (unat b mod 16 * 4 + unat c div 64) # b64_char (unat c mod 64)
     # b64encode r"

fun b64_quads :: "string \<Rightarrow> bytes option" where
  "b64_quads (a # b # c # d # r) =
     (if list_all (\<lambda>x. x = pad) (a # b # c # d # r) then Some []
      else case b64_val a of None \<Rightarrow> None | Some x \<Rightarrow>
        (case b64_val b of None \<Rightarrow> None | Some y \<Rightarrow>
          (if c = pad
           then (if d = pad \<and> r = [] then Some [of_nat (x * 4 + y div 16)] else None)
           else case b64_val c of None \<Rightarrow> None | Some z \<Rightarrow>
             (if d = pad
              then (if r = [] then Some [of_nat (x * 4 + y div 16), of_nat (y mod 16 * 16 + z div 4)]
                    else None)
              else case b64_val d of None \<Rightarrow> None | Some w \<Rightarrow>
                map_option (\<lambda>t. of_nat (x * 4 + y div 16) # of_nat (y mod 16 * 16 + z div 4)
                                # of_nat (z mod 4 * 64 + w) # t) (b64_quads r)))))"
| "b64_quads s = (if list_all (\<lambda>x. x = pad) s then Some [] else None)"

definition b64decode :: "string \<Rightarrow> bytes res" where
  "b64decode s =
     (if \<not> str_all_ascii s
      then Inl (ValueError ''string argument should contain only ASCII characters'')
      else if s \<noteq> [] \<and> hd s = pad then Inl BinasciiError
      else case b64_quads s of None \<Rightarrow> Inl BinasciiError | Some bs \<Rightarrow> Inr bs)"

lemma b64_char_cases:
  "n < 64 \<Longrightarrow> code (b64_char n) = (if n < 26 then 65 + n else if n < 52 then 71 + n
     else if n < 62 then n - 4 else if n = 62 then 43 else 47)"
  by (auto simp: b64_char_def)

lemma b64_val_char [simp]: "n < 64 \<Longrightarrow> b64_val (b64_char n) = Some n"
  by (auto simp: b64_val_def b64_char_cases Let_def)

lemma b64_char_not_pad [simp]: "n < 64 \<Longrightarrow> b64_char n \<noteq> pad"
proof
  assume n: "n < 64" and eq: "b64_char n = pad"
  then have "b64_val (b64_char n) = None" by (simp add: b64_val_def)
  with n show False by simp
qed

text \<open>The characters of an encoding are printable ASCII and need no JSON escape.\<close>

definition plain_char :: "char \<Rightarrow> bool" where
  "plain_char c \<longleftrightarrow> 32 \<le> code c \<and> code c < 127 \<and> code c \<noteq> 34 \<and> code c \<noteq> 92"

lemma plain_b64_char: "n < 64 \<Longrightarrow> plain_char (b64_char n)"
  by (auto simp: plain_char_def b64_char_cases)

lemma plain_pad: "plain_char pad"
  by (simp add: plain_char_def)

lemma byte_div_16: "unat (b :: byte) div 16 < 16"
  by (rule less_mult_imp_div_less) simp

lemma byte_div_64: "unat (b :: byte) div 64 < 4"
  by (rule less_mult_imp_div_less) simp

lemma byte_div_4: "unat (b :: byte) div 4 < 64"
  by (rule less_mult_imp_div_less) simp

lemma mod4_lt: "(n :: nat) mod 4 < 4" and mod16_lt: "(n :: nat) mod 16 < 16"
  by simp_all

lemma sextet_bounds [simp]:
  fixes a b c :: byte
  shows "unat a div 4 < 64" "unat a mod 4 * 16 < 64" "unat a mod 4 * 16 + unat b div 16 < 64"
    "unat b mod 16 * 4 < 64" "unat b mod 16 * 4 + unat c div 64 < 64" "unat c mod 64 < 64"
  using byte_div_4 [of a] byte_div_16 [of b] byte_div_64 [of c]
    mod4_lt [of "unat a"] mod16_lt [of "unat b"]
  by (linarith, linarith, linarith, linarith, linarith, simp)

lemma split16: "x < 16 \<Longrightarrow> (r * 16 + x) div 16 = (r :: nat)" "x < 16 \<Longrightarrow> (r * 16 + x) mod 16 = x"
  by simp_all

lemma split4: "x < 4 \<Longrightarrow> (r * 4 + x) div 4 = (r :: nat)" "x < 4 \<Longrightarrow> (r * 4 + x) mod 4 = x"
  by simp_all

lemmas regroup = split16 split4 byte_div_16 byte_div_64

lemma b64_quads_encode: "b64_quads (b64encode bs) = Some bs"
proof (induction bs rule: b64encode.induct)
  case 1
  then show ?case by simp
next
  case (2 a)
  then show ?case by (simp add: regroup del: of_nat_add of_nat_mult)
next
  case (3 a b)
  then show ?case by (simp add: regroup del: of_nat_add of_nat_mult)
next
  case (4 a b c r)
  then show ?case by (simp add: regroup del: of_nat_add of_nat_mult)
qed

lemma b64encode_plain: "list_all plain_char (b64encode bs)"
  by (induction bs rule: b64encode.induct) (simp_all add: plain_b64_char plain_pad)

lemma b64encode_ascii [simp]: "str_all_ascii (b64encode bs)"
  using b64encode_plain [of bs] by (auto simp: str_all_ascii_def list_all_iff plain_char_def)

lemma b64encode_hd: "b64encode bs \<noteq> [] \<Longrightarrow> hd (b64encode bs) \<noteq> pad"
  by (induction bs rule: b64encode.induct) auto

lemma b64decode_encode [simp]: "b64decode (b64encode bs) = Inr bs"
  using b64encode_hd [of bs] by (auto simp: b64decode_def b64_quads_encode)

interpretation b64: codec b64encode b64decode "\<lambda>_. True"
  by unfold_locales simp

lemma length_b64encode: "length (b64encode bs) = 4 * ((length bs + 2) div 3)"
proof (induction bs rule: b64encode.induct)
  case (4 a b c r)
  have "(length (a # b # c # r) + 2) div 3 = (length r + 2) div 3 + 1"
    using div_add_self2 [of 3 "length r + 2"] by (simp add: algebra_simps)
  moreover have "4 * (q + 1) = 4 * q + Suc 0 + Suc 0 + Suc 0 + Suc 0" for q :: nat by simp
  ultimately show ?case using 4 by (simp only: b64encode.simps list.size)
qed simp_all

lemma b64encode_Nil_iff [simp]: "b64encode bs = [] \<longleftrightarrow> bs = []"
  by (cases bs rule: b64encode.cases) auto

lemma b64decode_err: "b64decode s = Inl e \<Longrightarrow> is_value_error e"
  by (auto simp: b64decode_def split: if_splits option.splits)

end
