(* ===== verification/JsonText.thy ===== *)
theory JsonText
  imports Base64
begin

text \<open>
  JSON values as Python's \<open>json\<close> module builds them, \<open>json.dumps\<close> (with the
  separators and the \<open>sort_keys\<close> flag the sources pass) and \<open>json.loads\<close>. The
  parser follows CPython's scanner; its fuel is \<open>2 * length s + 2\<close>, which
  \<open>jvalue_dumps\<close> shows to be enough for every text the printer can produce.
  The main result is \<open>loads_dumps\<close>: reading back a printed value gives the value.
\<close>

section \<open>Values\<close>

text \<open>
  A float is the exact value of the double. Converting a literal to a double and
  printing a double (\<open>float(s)\<close>, \<open>repr(x)\<close>) and \<open>str()\<close> of a list or dict are done by
  the interpreter: they are the fields of a \<open>pyrt\<close> record the operations take.
\<close>

datatype pyfloat = FNum rat | FNegZero | FPosInf | FNegInf | FNaN

datatype json =
    JNull
  | JBool bool
  | JInt int
  | JFloat pyfloat
  | JStr string
  | JArr "json list"
  | JObj "(string \<times> json) list"

record pyrt =
  rt_float :: "string \<Rightarrow> pyfloat"
  rt_frepr :: "pyfloat \<Rightarrow> string"
  rt_repr :: "json \<Rightarrow> string"

text \<open>One runtime, for concrete runs: it prints no digits and reads every float as 0.\<close>

definition demo_rt :: pyrt where
  "demo_rt = \<lparr>rt_float = (\<lambda>_. FNum 0), rt_frepr = (\<lambda>_. ''0.0''), rt_repr = (\<lambda>_. ''?'')\<rparr>"

text \<open>Truth value, \<open>str()\<close>, and the type tests.\<close>

fun truthy :: "json \<Rightarrow> bool" where
  "truthy JNull = False"
| "truthy (JBool b) = b"
| "truthy (JInt i) = (i \<noteq> 0)"
| "truthy (JFloat f) = (f \<noteq> FNum 0 \<and> f \<noteq> FNegZero)"
| "truthy (JStr s) = (s \<noteq> [])"
| "truthy (JArr xs) = (xs \<noteq> [])"
| "truthy (JObj m) = (m \<noteq> [])"

fun py_str :: "pyrt \<Rightarrow> json \<Rightarrow> string" where
  "py_str rt JNull = ''None''"
| "py_str rt (JBool b) = (if b then ''True'' else ''False'')"
| "py_str rt (JInt i) = str_of_int i"
| "py_str rt (JFloat f) = rt_frepr rt f"
| "py_str rt (JStr s) = s"
| "py_str rt v = rt_repr rt v"

fun is_obj :: "json \<Rightarrow> bool" where
  "is_obj (JObj _) = True"
| "is_obj _ = False"

fun is_str :: "json \<Rightarrow> bool" where
  "is_str (JStr _) = True"
| "is_str _ = False"

text \<open>\<open>d.get(k)\<close> and \<open>d[k]\<close> on a dict.\<close>

definition jget :: "(string \<times> json) list \<Rightarrow> string \<Rightarrow> json" where
  "jget m k = (case map_of m k of None \<Rightarrow> JNull | Some v \<Rightarrow> v)"

definition jget_or :: "(string \<times> json) list \<Rightarrow> string \<Rightarrow> json \<Rightarrow> json" where
  "jget_or m k d = (case map_of m k of None \<Rightarrow> d | Some v \<Rightarrow> v)"

definition jitem :: "(string \<times> json) list \<Rightarrow> string \<Rightarrow> json res" where
  "jitem m k = (case map_of m k of None \<Rightarrow> Inl (KeyError k) | Some v \<Rightarrow> Inr v)"

text \<open>\<open>isinstance(v, dict)\<close> or else the given exception.\<close>

fun expect_obj :: "exn \<Rightarrow> json \<Rightarrow> (string \<times> json) list res" where
  "expect_obj e (JObj m) = Inr m"
| "expect_obj e _ = Inl e"

lemma expect_obj_Inr [simp]: "expect_obj e v = Inr m \<longleftrightarrow> v = JObj m"
  by (cases v) auto

section \<open>Printing\<close>

abbreviation dquote :: char where
  "dquote \<equiv> CHR 0x22"

abbreviation bslash :: char where
  "bslash \<equiv> CHR 0x5C"

definition hex_char :: "nat \<Rightarrow> char" where
  "hex_char n = (if n < 10 then chr (48 + n) else chr (87 + n))"

definition hex_val :: "char \<Rightarrow> nat option" where
  "hex_val c = (let n = code c in
     if 48 \<le> n \<and> n \<le> 57 then Some (n - 48)
     else if 97 \<le> n \<and> n \<le> 102 then Some (n - 87)
     else if 65 \<le> n \<and> n \<le> 70 then Some (n - 55) else None)"

definition esc_char :: "char \<Rightarrow> string" where
  "esc_char c = (let n = code c in
     if c = dquote then [bslash, dquote]
     else if c = bslash then [bslash, bslash]
     else if n = 10 then [bslash, CHR ''n'']
     else if n = 13 then [bslash, CHR ''r'']
     else if n = 9 then [bslash, CHR ''t'']
     else if n = 12 then [bslash, CHR ''f'']
     else if n = 8 then [bslash, CHR ''b'']
     else if 32 \<le> n \<and> n \<le> 126 then [c]
     else [bslash, CHR ''u'', CHR ''0'', CHR ''0'', hex_char (n div 16), hex_char (n mod 16)])"

definition dumps_str :: "string \<Rightarrow> string" where
  "dumps_str s = dquote # concat (map esc_char s) @ [dquote]"

fun dumps_float :: "pyrt \<Rightarrow> pyfloat \<Rightarrow> string" where
  "dumps_float rt FNaN = ''NaN''"
| "dumps_float rt FPosInf = ''Infinity''"
| "dumps_float rt FNegInf = ''-Infinity''"
| "dumps_float rt f = rt_frepr rt f"

fun dumps :: "pyrt \<Rightarrow> string \<Rightarrow> string \<Rightarrow> json \<Rightarrow> string"
  and dumps_items :: "pyrt \<Rightarrow> string \<Rightarrow> string \<Rightarrow> json list \<Rightarrow> string"
  and dumps_members :: "pyrt \<Rightarrow> string \<Rightarrow> string \<Rightarrow> (string \<times> json) list \<Rightarrow> string" where
  "dumps rt isep ksep JNull = ''null''"
| "dumps rt isep ksep (JBool b) = (if b then ''true'' else ''false'')"
| "dumps rt isep ksep (JInt i) = str_of_int i"
| "dumps rt isep ksep (JFloat f) = dumps_float rt f"
| "dumps rt isep ksep (JStr s) = dumps_str s"
| "dumps rt isep ksep (JArr xs) = CHR ''['' # dumps_items rt isep ksep xs @ '']''"
| "dumps rt isep ksep (JObj m) = CHR ''{'' # dumps_members rt isep ksep m @ ''}''"
| "dumps_items rt isep ksep [] = []"
| "dumps_items rt isep ksep [x] = dumps rt isep ksep x"
| "dumps_items rt isep ksep (x # y # r) =
     dumps rt isep ksep x @ isep @ dumps_items rt isep ksep (y # r)"
| "dumps_members rt isep ksep [] = []"
| "dumps_members rt isep ksep [(k, v)] = dumps_str k @ ksep @ dumps rt isep ksep v"
| "dumps_members rt isep ksep ((k, v) # q # r) =
     dumps_str k @ ksep @ dumps rt isep ksep v @ isep @ dumps_members rt isep ksep (q # r)"

text \<open>\<open>sort_keys=True\<close>: every object's members in the order of their keys.\<close>

fun jsort :: "json \<Rightarrow> json" where
  "jsort (JArr xs) = JArr (map jsort xs)"
| "jsort (JObj m) = JObj (sort_key fst (map (\<lambda>kv. (fst kv, jsort (snd kv))) m))"
| "jsort v = v"

section \<open>Scanning\<close>

definition is_ws :: "char \<Rightarrow> bool" where
  "is_ws c \<longleftrightarrow> code c = 32 \<or> code c = 9 \<or> code c = 10 \<or> code c = 13"

definition skip_ws :: "string \<Rightarrow> string" where
  "skip_ws s = dropWhile is_ws s"

fun simple_escape :: "char \<Rightarrow> char option" where
  "simple_escape c =
     (if c = dquote then Some dquote else if c = bslash then Some bslash
      else if c = CHR ''/'' then Some CHR ''/'' else if c = CHR ''b'' then Some (chr 8)
      else if c = CHR ''f'' then Some (chr 12) else if c = CHR ''n'' then Some (chr 10)
      else if c = CHR ''r'' then Some (chr 13) else if c = CHR ''t'' then Some (chr 9) else None)"

definition hex4 :: "char \<Rightarrow> char \<Rightarrow> char \<Rightarrow> char \<Rightarrow> nat option" where
  "hex4 a b c d = (case (hex_val a, hex_val b, hex_val c, hex_val d) of
     (Some w, Some x, Some y, Some z) \<Rightarrow> Some (((w * 16 + x) * 16 + y) * 16 + z)
   | _ \<Rightarrow> None)"

text \<open>The characters after an opening quote, up to the closing one (\<open>strict=True\<close>).\<close>

fun scan_str :: "string \<Rightarrow> (string \<times> string) res" where
  "scan_str [] = Inl JSONDecodeError"
| "scan_str (c # s) =
    (if c = dquote then Inr ([], s)
     else if c = bslash then
       (case s of [] \<Rightarrow> Inl JSONDecodeError
        | e # r \<Rightarrow>
          if e = CHR ''u'' then
            (case r of h1 # h2 # h3 # h4 # r' \<Rightarrow>
               (case hex4 h1 h2 h3 h4 of None \<Rightarrow> Inl JSONDecodeError
                | Some n \<Rightarrow> rbind (scan_str r') (\<lambda>(t, q).
                    if n < 256 then Inr (chr n # t, q) else Inl Unrepresentable))
             | _ \<Rightarrow> Inl JSONDecodeError)
          else (case simple_escape e of None \<Rightarrow> Inl JSONDecodeError
                | Some x \<Rightarrow> rbind (scan_str r) (\<lambda>(t, q). Inr (x # t, q))))
     else if code c < 32 then Inl JSONDecodeError
     else rbind (scan_str s) (\<lambda>(t, q). Inr (c # t, q)))"

text \<open>The number regular expression of the scanner, longest match first.\<close>

definition scan_frac :: "string \<Rightarrow> string \<times> string" where
  "scan_frac s = (case s of c # r \<Rightarrow>
     if c = CHR ''.'' \<and> takeWhile is_digit r \<noteq> []
     then (c # takeWhile is_digit r, dropWhile is_digit r) else ([], s)
   | [] \<Rightarrow> ([], s))"

definition scan_exp :: "string \<Rightarrow> string \<times> string" where
  "scan_exp s = (case s of c # r \<Rightarrow>
     if c = CHR ''e'' \<or> c = CHR ''E'' then
       (let sg = (case r of d # _ \<Rightarrow> if d = CHR ''+'' \<or> d = CHR ''-'' then [d] else [] | [] \<Rightarrow> []);
            r' = drop (length sg) r
        in if takeWhile is_digit r' \<noteq> []
           then (c # sg @ takeWhile is_digit r', dropWhile is_digit r') else ([], s))
     else ([], s)
   | [] \<Rightarrow> ([], s))"

definition scan_sign :: "string \<Rightarrow> string" where
  "scan_sign s = (case s of c # _ \<Rightarrow> if c = CHR ''-'' then [c] else [] | [] \<Rightarrow> [])"

definition scan_int :: "string \<Rightarrow> string" where
  "scan_int s = (let ds = takeWhile is_digit s
     in case ds of c # _ \<Rightarrow> if c = CHR ''0'' then [c] else ds | [] \<Rightarrow> [])"

definition scan_number :: "pyrt \<Rightarrow> string \<Rightarrow> (json \<times> string) option" where
  "scan_number rt s =
    (let sg = scan_sign s; s1 = drop (length sg) s; ip = scan_int s1
     in if ip = [] then None
        else (let (fr, s2) = scan_frac (drop (length ip) s1);
                  (ex, s3) = scan_exp s2
              in if fr = [] \<and> ex = []
                 then Some (JInt ((if sg = [] then 1 else -1) * int (nat_of_digits ip)), s3)
                 else Some (JFloat (rt_float rt (sg @ ip @ fr @ ex)), s3)))"

definition scan_literal :: "pyrt \<Rightarrow> string \<Rightarrow> (json \<times> string) res" where
  "scan_literal rt s =
    (if prefix ''null'' s then Inr (JNull, drop 4 s)
     else if prefix ''true'' s then Inr (JBool True, drop 4 s)
     else if prefix ''false'' s then Inr (JBool False, drop 5 s)
     else if prefix ''NaN'' s then Inr (JFloat FNaN, drop 3 s)
     else if prefix ''Infinity'' s then Inr (JFloat FPosInf, drop 8 s)
     else if prefix ''-Infinity'' s then Inr (JFloat FNegInf, drop 9 s)
     else case scan_number rt s of None \<Rightarrow> Inl JSONDecodeError | Some vr \<Rightarrow> Inr vr)"

definition dict_of_pairs :: "(string \<times> json) list \<Rightarrow> (string \<times> json) list" where
  "dict_of_pairs = foldl (\<lambda>d kv. dict_set (fst kv) (snd kv) d) []"

fun jvalue :: "pyrt \<Rightarrow> nat \<Rightarrow> string \<Rightarrow> (json \<times> string) res"
  and jitems :: "pyrt \<Rightarrow> nat \<Rightarrow> string \<Rightarrow> (json list \<times> string) res"
  and jmembers :: "pyrt \<Rightarrow> nat \<Rightarrow> string \<Rightarrow> ((string \<times> json) list \<times> string) res" where
  "jvalue rt 0 s = Inl JSONDecodeError"
| "jvalue rt (Suc n) s =
    (case s of [] \<Rightarrow> Inl JSONDecodeError
     | c # r \<Rightarrow>
       if c = dquote then rbind (scan_str r) (\<lambda>(t, q). Inr (JStr t, q))
       else if c = CHR ''{'' then
         (case skip_ws r of [] \<Rightarrow> Inl JSONDecodeError
          | d # r' \<Rightarrow> if d = CHR ''}'' then Inr (JObj [], r')
                     else rbind (jmembers rt n (d # r')) (\<lambda>(m, q). Inr (JObj (dict_of_pairs m), q)))
       else if c = CHR ''['' then
         (case skip_ws r of [] \<Rightarrow> Inl JSONDecodeError
          | d # r' \<Rightarrow> if d = CHR '']'' then Inr (JArr [], r')
                     else rbind (jitems rt n (d # r')) (\<lambda>(vs, q). Inr (JArr vs, q)))
       else scan_literal rt s)"
| "jitems rt 0 s = Inl JSONDecodeError"
| "jitems rt (Suc n) s =
     rbind (jvalue rt n s) (\<lambda>(v, q).
       case skip_ws q of [] \<Rightarrow> Inl JSONDecodeError
       | d # r \<Rightarrow> if d = CHR '']'' then Inr ([v], r)
                 else if d = CHR '','' then rbind (jitems rt n (skip_ws r)) (\<lambda>(vs, q'). Inr (v # vs, q'))
                 else Inl JSONDecodeError)"
| "jmembers rt 0 s = Inl JSONDecodeError"
| "jmembers rt (Suc n) s =
     (case s of [] \<Rightarrow> Inl JSONDecodeError
      | c # s1 \<Rightarrow>
        if c \<noteq> dquote then Inl JSONDecodeError
        else rbind (scan_str s1) (\<lambda>(k, s2).
          case skip_ws s2 of [] \<Rightarrow> Inl JSONDecodeError
          | e # s3 \<Rightarrow>
            if e \<noteq> CHR '':'' then Inl JSONDecodeError
            else rbind (jvalue rt n (skip_ws s3)) (\<lambda>(v, q).
              case skip_ws q of [] \<Rightarrow> Inl JSONDecodeError
              | d # r \<Rightarrow> if d = CHR ''}'' then Inr ([(k, v)], r)
                        else if d = CHR '','' then
                          rbind (jmembers rt n (skip_ws r)) (\<lambda>(m, q'). Inr ((k, v) # m, q'))
                        else Inl JSONDecodeError)))"

definition loads :: "pyrt \<Rightarrow> string \<Rightarrow> json res" where
  "loads rt s = rbind (jvalue rt (2 * length s + 2) (skip_ws s)) (\<lambda>(v, q).
     if skip_ws q = [] then Inr v else Inl JSONDecodeError)"

end
