(* ===== verification/JsonCodec.thy ===== *)
theory JsonCodec
  imports JsonText
begin

text \<open>
  The printer and the parser of \<open>JsonText\<close> agree: a value with no float and no
  duplicate key, printed with any of the separators the sources use, reads back as
  itself (\<open>loads_dumps\<close>), and the printed text is ASCII (\<open>dumps_ascii\<close>). Both
  separator styles are interpretations of the \<open>codec\<close> interface.
\<close>

section \<open>Reading back what was printed\<close>

lemma hex_val_char [simp]: "n < 16 \<Longrightarrow> hex_val (hex_char n) = Some n"
  by (auto simp: hex_val_def hex_char_def Let_def)

lemma hex_val_0: "hex_val CHR ''0'' = Some 0"
  by (simp add: hex_val_def)

lemma hex4_byte: "hex4 CHR ''0'' CHR ''0'' (hex_char (code c div 16)) (hex_char (code c mod 16)) = Some (code c)"
proof -
  have "code c div 16 < 16" by (rule less_mult_imp_div_less) simp
  then show ?thesis by (simp add: hex4_def hex_val_0)
qed

lemma code_eq_char: "code c = n \<Longrightarrow> n < 256 \<Longrightarrow> c = chr n"
  by auto

lemma scan_str_esc: "scan_str (esc_char c @ t) = rbind (scan_str t) (\<lambda>(u, q). Inr (c # u, q))"
proof -
  have ctl: "simple_escape CHR ''n'' = Some (chr 10)" "simple_escape CHR ''r'' = Some (chr 13)"
    "simple_escape CHR ''t'' = Some (chr 9)" "simple_escape CHR ''f'' = Some (chr 12)"
    "simple_escape CHR ''b'' = Some (chr 8)"
    by simp_all
  show ?thesis
    by (auto simp: esc_char_def Let_def ctl hex4_byte dest: code_eq_char simp del: simple_escape.simps) auto
qed

lemma scan_str_dumps: "scan_str (concat (map esc_char s) @ dquote # rest) = Inr (s, rest)"
proof (induction s)
  case Nil
  then show ?case by simp
next
  case (Cons c s)
  then show ?case by (simp add: scan_str_esc)
qed

definition num_stop :: "string \<Rightarrow> bool" where
  "num_stop s \<longleftrightarrow> (case s of [] \<Rightarrow> True
     | c # _ \<Rightarrow> \<not> is_digit c \<and> c \<noteq> CHR ''.'' \<and> c \<noteq> CHR ''e'' \<and> c \<noteq> CHR ''E'')"

lemma takeWhile_digits: "num_stop s \<Longrightarrow> takeWhile is_digit (str_of_nat n @ s) = str_of_nat n"
  using str_of_nat_digits [of n]
  by (subst takeWhile_append2) (auto simp: list_all_iff num_stop_def split: list.splits)

lemma frac_stop: "num_stop s \<Longrightarrow> scan_frac s = ([], s)"
  by (auto simp: num_stop_def scan_frac_def split: list.splits)

lemma exp_stop: "num_stop s \<Longrightarrow> scan_exp s = ([], s)"
  by (auto simp: num_stop_def scan_exp_def split: list.splits)

lemma scan_int_str:
  assumes "num_stop s"
  shows "scan_int (str_of_nat n @ s) = str_of_nat n"
  unfolding scan_int_def Let_def takeWhile_digits [OF assms]
  using str_of_nat_hd_zero [of n] by (cases "str_of_nat n") auto

lemma scan_sign_nat: "scan_sign (str_of_nat n @ s) = []"
  using str_of_nat_hd_digit [of n] by (cases "str_of_nat n") (auto simp: scan_sign_def is_digit_def)

lemma scan_number_int:
  assumes "num_stop s"
  shows "scan_number rt (str_of_int i @ s) = Some (JInt i, s)"
proof (cases "i < 0")
  case True
  then have "scan_sign (str_of_int i @ s) = ''-''" by (simp add: scan_sign_def str_of_int_def)
  with True assms show ?thesis
    by (simp add: scan_number_def str_of_int_def scan_int_str frac_stop exp_stop)
next
  case False
  with assms show ?thesis
    by (simp add: scan_number_def str_of_int_def scan_sign_nat scan_int_str frac_stop exp_stop)
qed

lemma str_of_int_hd: "\<exists>c t. str_of_int i = c # t \<and> (is_digit c \<or> c = CHR ''-'' \<and> t \<noteq> [] \<and> is_digit (hd t))"
proof (cases "i < 0")
  case True
  then show ?thesis using str_of_nat_hd_digit by (simp add: str_of_int_def)
next
  case False
  then show ?thesis
    using str_of_nat_hd_digit [of "nat i"] by (cases "str_of_nat (nat i)") (auto simp: str_of_int_def)
qed

lemma scan_literal_int:
  assumes "num_stop s"
  shows "scan_literal rt (str_of_int i @ s) = Inr (JInt i, s)"
proof -
  obtain c t where ct: "str_of_int i = c # t" "is_digit c \<or> c = CHR ''-'' \<and> t \<noteq> [] \<and> is_digit (hd t)"
    using str_of_int_hd by blast
  then have "\<not> prefix p (str_of_int i @ s)" if "p \<in> {''null'', ''true'', ''false'', ''NaN'', ''Infinity'', ''-Infinity''}" for p
    using that by (cases t) (auto simp: is_digit_def)
  with assms show ?thesis by (simp add: scan_literal_def scan_number_int)
qed

text \<open>The values the round trip is about: no floats, and no key twice in an object.\<close>

fun jwf :: "json \<Rightarrow> bool" where
  "jwf (JFloat f) = False"
| "jwf (JArr xs) = list_all jwf xs"
| "jwf (JObj m) = (distinct (dict_keys m) \<and> list_all (\<lambda>kv. jwf (snd kv)) m)"
| "jwf v = True"

definition sep_ok :: "char \<Rightarrow> string \<Rightarrow> bool" where
  "sep_ok c s \<longleftrightarrow> s \<noteq> [] \<and> hd s = c \<and> list_all is_ws (tl s)"

lemma sep_okE:
  assumes "sep_ok c s"
  obtains w where "s = c # w" "list_all is_ws w"
  using assms by (cases s) (auto simp: sep_ok_def)

lemma skip_ws_app: "list_all is_ws w \<Longrightarrow> skip_ws (w @ s) = skip_ws s"
  by (induction w) (auto simp: skip_ws_def)

lemma skip_ws_stop: "s = [] \<or> \<not> is_ws (hd s) \<Longrightarrow> skip_ws s = s"
  by (cases s) (auto simp: skip_ws_def)

lemma digit_facts: "is_digit c \<Longrightarrow> \<not> is_ws c" "\<not> is_digit CHR '',''" "\<not> is_digit CHR '']''" "\<not> is_digit CHR ''}''"
  by (auto simp: is_digit_def is_ws_def)

definition value_hd :: "char \<Rightarrow> bool" where
  "value_hd c \<longleftrightarrow> \<not> is_ws c \<and> c \<noteq> CHR '']'' \<and> c \<noteq> CHR ''}''"

lemma dumps_hd: "jwf v \<Longrightarrow> \<exists>c t. dumps rt i k v = c # t \<and> value_hd c"
  using str_of_int_hd
  by (cases v) (fastforce simp: value_hd_def is_ws_def dumps_str_def is_digit_def)+

lemma dumps_items_hd: "list_all jwf (x # xs) \<Longrightarrow> \<exists>c t. dumps_items rt i k (x # xs) = c # t \<and> value_hd c"
  using dumps_hd [of x rt i k] by (cases xs) auto

lemma dumps_members_hd: "\<exists>t. dumps_members rt i k (q # m) = dquote # t"
  by (cases q; cases m) (auto simp: dumps_str_def)

lemma dict_of_pairs_id_aux:
  "distinct (dict_keys (d @ m)) \<Longrightarrow> foldl (\<lambda>d kv. dict_set (fst kv) (snd kv) d) d m = d @ m"
proof (induction m arbitrary: d)
  case Nil
  then show ?case by simp
next
  case (Cons kv m)
  then have "fst kv \<notin> set (dict_keys d)" by auto
  then have "dict_set (fst kv) (snd kv) d = d @ [kv]" by (simp add: dict_set_append)
  with Cons show ?case by simp
qed

lemma dict_of_pairs_id: "distinct (dict_keys m) \<Longrightarrow> dict_of_pairs m = m"
  using dict_of_pairs_id_aux [of "[]" m] by (simp add: dict_of_pairs_def)


lemma num_stop_Cons: "c = CHR '','' \<or> c = CHR '']'' \<or> c = CHR ''}'' \<Longrightarrow> num_stop (c # s)"
  by (auto simp: num_stop_def is_digit_def)

lemma is_ws_facts: "\<not> is_ws CHR '',''" "\<not> is_ws CHR '']''" "\<not> is_ws CHR ''}''" "\<not> is_ws CHR '':''" "\<not> is_ws dquote"
  "is_ws c \<Longrightarrow> \<not> is_digit c"
  by (auto simp: is_ws_def is_digit_def)

lemma skip_ws_value: "value_hd c \<Longrightarrow> skip_ws (c # t) = c # t"
  by (simp add: skip_ws_def value_hd_def)

lemma length_dumps_pos: "jwf v \<Longrightarrow> 0 < length (dumps rt i k v)"
  using dumps_hd [of v rt i k] by auto

text \<open>The heads of printed values, so that no white space is skipped in front of them.\<close>

lemma skip_ws_dumps [simp]: "jwf v \<Longrightarrow> skip_ws (dumps rt i k v @ s) = dumps rt i k v @ s"
  using dumps_hd [of v rt i k] by (auto simp: skip_ws_value)

lemma skip_ws_items: "list_all jwf (x # xs) \<Longrightarrow> skip_ws (dumps_items rt i k (x # xs) @ s) = dumps_items rt i k (x # xs) @ s"
  using dumps_items_hd [of x xs rt i k] by (auto simp: skip_ws_value simp del: dumps_items.simps)

lemma skip_ws_members: "skip_ws (dumps_members rt i k (q # m) @ s) = dumps_members rt i k (q # m) @ s"
  using dumps_members_hd [of rt i k q m] by (auto simp: skip_ws_def is_ws_facts simp del: dumps_members.simps)

text \<open>One step of the reader each, for texts of the shape the printer makes.\<close>

lemma jvalue_int: "num_stop rest \<Longrightarrow> jvalue rt (Suc n) (str_of_int i @ rest) = Inr (JInt i, rest)"
proof -
  assume r: "num_stop rest"
  obtain c t where ct: "str_of_int i = c # t" "is_digit c \<or> c = CHR ''-''"
    using str_of_int_hd by blast
  then have "c \<noteq> dquote" "c \<noteq> CHR ''{''" "c \<noteq> CHR ''[''" by (auto simp: is_digit_def)
  with ct scan_literal_int [OF r, of rt i] show ?thesis by simp
qed

lemma jvalue_array:
  assumes "list_all jwf (x # xs)"
    and "jitems rt n (dumps_items rt i k (x # xs) @ CHR '']'' # rest) = Inr (x # xs, rest)"
  shows "jvalue rt (Suc n) (CHR ''['' # dumps_items rt i k (x # xs) @ CHR '']'' # rest) = Inr (JArr (x # xs), rest)"
proof -
  obtain c t where ct: "dumps_items rt i k (x # xs) = c # t" "value_hd c" using dumps_items_hd [OF assms(1)] by blast
  show ?thesis using assms(2) unfolding ct(1)
    by (auto simp: skip_ws_value [OF ct(2)]) (use ct(2) in \<open>auto simp: value_hd_def\<close>)
qed

lemma jvalue_object:
  assumes "distinct (dict_keys (q # m))"
    and "jmembers rt n (dumps_members rt i k (q # m) @ CHR ''}'' # rest) = Inr (q # m, rest)"
  shows "jvalue rt (Suc n) (CHR ''{'' # dumps_members rt i k (q # m) @ CHR ''}'' # rest) = Inr (JObj (q # m), rest)"
proof -
  obtain t where t: "dumps_members rt i k (q # m) = dquote # t" using dumps_members_hd by blast
  show ?thesis using assms(2) dict_of_pairs_id [OF assms(1)] unfolding t
    by (simp add: skip_ws_def is_ws_facts)
qed

lemma jitems_last:
  "jvalue rt n (s @ CHR '']'' # rest) = Inr (x, CHR '']'' # rest) \<Longrightarrow> jitems rt (Suc n) (s @ CHR '']'' # rest) = Inr ([x], rest)"
  by (simp add: skip_ws_def is_ws_facts)

lemma jitems_more:
  assumes "sep_ok CHR '','' isep" and "jvalue rt n (s @ isep @ tail) = Inr (x, isep @ tail)"
    and "skip_ws tail = tail" and "jitems rt n tail = Inr (xs, rest)"
  shows "jitems rt (Suc n) (s @ isep @ tail) = Inr (x # xs, rest)"
proof -
  obtain w where w: "isep = CHR '','' # w" "list_all is_ws w" using assms(1) by (rule sep_okE)
  show ?thesis using assms(2-4) unfolding w(1) by (simp add: skip_ws_app [OF w(2)] skip_ws_def [of "CHR '','' # _"] is_ws_facts)
qed

lemma jmembers_last:
  assumes "sep_ok CHR '':'' ksep" and "skip_ws (s @ CHR ''}'' # rest) = s @ CHR ''}'' # rest"
    and "jvalue rt n (s @ CHR ''}'' # rest) = Inr (v, CHR ''}'' # rest)"
  shows "jmembers rt (Suc n) (dumps_str key @ ksep @ s @ CHR ''}'' # rest) = Inr ([(key, v)], rest)"
proof -
  obtain w where w: "ksep = CHR '':'' # w" "list_all is_ws w" using assms(1) by (rule sep_okE)
  show ?thesis using assms(2,3) unfolding w(1)
    by (simp add: dumps_str_def scan_str_dumps skip_ws_app [OF w(2)] skip_ws_def [of "CHR '':'' # _"]
        skip_ws_def [of "CHR ''}'' # _"] is_ws_facts)
qed

lemma jmembers_more:
  assumes "sep_ok CHR '':'' ksep" and "sep_ok CHR '','' isep" and "skip_ws (s @ isep @ tail) = s @ isep @ tail"
    and "jvalue rt n (s @ isep @ tail) = Inr (v, isep @ tail)"
    and "skip_ws tail = tail" and "jmembers rt n tail = Inr (m, rest)"
  shows "jmembers rt (Suc n) (dumps_str key @ ksep @ s @ isep @ tail) = Inr ((key, v) # m, rest)"
proof -
  obtain w where w: "ksep = CHR '':'' # w" "list_all is_ws w" using assms(1) by (rule sep_okE)
  obtain u where u: "isep = CHR '','' # u" "list_all is_ws u" using assms(2) by (rule sep_okE)
  show ?thesis using assms(3-6) unfolding w(1) u(1)
    by (simp add: dumps_str_def scan_str_dumps skip_ws_app [OF w(2)] skip_ws_app [OF u(2)] skip_ws_def [of "CHR '':'' # _"]
        skip_ws_def [of "CHR '','' # _"] is_ws_facts)
qed

lemma sep_ok_length: "sep_ok c s \<Longrightarrow> \<exists>j. length s = Suc j"
  by (auto elim!: sep_okE)

lemma num_stop_sep: "sep_ok CHR '','' s \<Longrightarrow> num_stop (s @ t)"
  by (auto elim!: sep_okE simp: num_stop_Cons)

lemma jvalue_dumps_aux:
  "\<lbrakk>jwf v; sep_ok CHR '','' isep; sep_ok CHR '':'' ksep; num_stop rest; 2 * length (dumps rt isep ksep v) \<le> n\<rbrakk>
     \<Longrightarrow> jvalue rt n (dumps rt isep ksep v @ rest) = Inr (v, rest)"
  "\<lbrakk>xs \<noteq> []; list_all jwf xs; sep_ok CHR '','' isep; sep_ok CHR '':'' ksep;
     2 * length (dumps_items rt isep ksep xs) + 1 \<le> n\<rbrakk>
     \<Longrightarrow> jitems rt n (dumps_items rt isep ksep xs @ CHR '']'' # rest) = Inr (xs, rest)"
  "\<lbrakk>m \<noteq> []; list_all (\<lambda>kv. jwf (snd kv)) m; sep_ok CHR '','' isep; sep_ok CHR '':'' ksep;
     2 * length (dumps_members rt isep ksep m) + 1 \<le> n\<rbrakk>
     \<Longrightarrow> jmembers rt n (dumps_members rt isep ksep m @ CHR ''}'' # rest) = Inr (m, rest)"
proof (induction rt isep ksep v and rt isep ksep xs and rt isep ksep m
    arbitrary: n rest and n rest and n rest rule: dumps_dumps_items_dumps_members.induct)
  case (1 rt isep ksep)
  then show ?case by (cases n) (auto simp: scan_literal_def)
next
  case (2 rt isep ksep b)
  then show ?case by (cases n; cases b) (auto simp: scan_literal_def)
next
  case (5 rt isep ksep s)
  then show ?case by (cases n) (auto simp: dumps_str_def scan_str_dumps)
next
  case (3 rt isep ksep i)
  then show ?case using str_of_int_hd [of i] by (cases n) (auto simp: jvalue_int simp del: jvalue.simps)
next
  case (6 rt isep ksep xs)
  then obtain n' where n: "n = Suc n'" by (cases n) auto
  show ?case
  proof (cases xs)
    case Nil
    then show ?thesis using n by (simp add: skip_ws_def is_ws_facts)
  next
    case (Cons x xs')
    have "jvalue rt (Suc n') (CHR ''['' # dumps_items rt isep ksep (x # xs') @ CHR '']'' # rest) = Inr (JArr (x # xs'), rest)"
      using 6 n Cons by (intro jvalue_array) simp_all
    with n Cons show ?thesis by simp
  qed
next
  case (7 rt isep ksep m)
  then obtain n' where n: "n = Suc n'" by (cases n) auto
  show ?case
  proof (cases m)
    case Nil
    then show ?thesis using n by (simp add: skip_ws_def is_ws_facts)
  next
    case (Cons q m')
    have "jvalue rt (Suc n') (CHR ''{'' # dumps_members rt isep ksep (q # m') @ CHR ''}'' # rest) = Inr (JObj (q # m'), rest)"
      using 7 n Cons by (intro jvalue_object) simp_all
    with n Cons show ?thesis by simp
  qed
next
  case (9 rt isep ksep x)
  then show ?case by (cases n) (auto intro!: jitems_last simp: num_stop_Cons simp del: jitems.simps)
next
  case (10 rt isep ksep x y r)
  then obtain n' where n: "n = Suc n'" by (cases n) auto
  have "jitems rt (Suc n') (dumps rt isep ksep x @ isep @ dumps_items rt isep ksep (y # r) @ CHR '']'' # rest)
      = Inr (x # y # r, rest)"
    using 10 n sep_ok_length [OF 10(5)] by (intro jitems_more) (auto simp: skip_ws_items num_stop_sep simp del: dumps_items.simps(3) simp: dumps_items.simps(3) [of _ _ _ x])
  with n show ?case by simp
next
  case (12 rt isep ksep k v)
  then show ?case by (cases n) (auto intro!: jmembers_last simp: num_stop_Cons simp del: jmembers.simps)
next
  case (13 rt isep ksep k v q r)
  then obtain n' where n: "n = Suc n'" by (cases n) auto
  have "jmembers rt (Suc n') (dumps_str k @ ksep @ dumps rt isep ksep v @ isep @
      dumps_members rt isep ksep (q # r) @ CHR ''}'' # rest) = Inr ((k, v) # q # r, rest)"
    using 13 n sep_ok_length [OF 13(5)] by (intro jmembers_more) (auto simp: skip_ws_members num_stop_sep simp del: dumps_members.simps(3) simp: dumps_members.simps(3) [of _ _ _ k])
  with n show ?case by simp
qed auto

lemma sep_ok_std [simp]: "sep_ok CHR '','' '',''" "sep_ok CHR '','' '', ''" "sep_ok CHR '':'' '':''" "sep_ok CHR '':'' '': ''"
  by (simp_all add: sep_ok_def is_ws_def)

lemma loads_dumps:
  assumes "jwf v" and "sep_ok CHR '','' isep" and "sep_ok CHR '':'' ksep"
  shows "loads rt (dumps rt isep ksep v) = Inr v"
proof -
  have "skip_ws (dumps rt isep ksep v) = dumps rt isep ksep v"
    using dumps_hd [OF assms(1), of rt isep ksep] by (auto simp: skip_ws_value)
  moreover have "jvalue rt (2 * length (dumps rt isep ksep v) + 2) (dumps rt isep ksep v @ []) = Inr (v, [])"
    using assms by (intro jvalue_dumps_aux) (auto simp: num_stop_def)
  ultimately show ?thesis by (simp add: loads_def skip_ws_def)
qed

interpretation json_compact: codec "dumps rt '','' '':''" "loads rt" jwf for rt
  by unfold_locales (simp add: loads_dumps)

interpretation json_spaced: codec "dumps rt '', '' '': ''" "loads rt" jwf for rt
  by unfold_locales (simp add: loads_dumps)

lemma jwf_jsort: "jwf v \<Longrightarrow> jwf (jsort v)"
proof (induction v rule: jsort.induct)
  case (1 xs)
  then show ?case by (auto simp: list_all_iff)
next
  case (2 m)
  define M where "M = map (\<lambda>kv. (fst kv, jsort (snd kv))) m"
  have "dict_keys M = dict_keys m" unfolding M_def by (induction m) auto
  with "2.prems" have "distinct (dict_keys M)" by simp
  then have "distinct (dict_keys (sort_key fst M))" by (auto simp: distinct_map)
  moreover have "list_all (\<lambda>kv. jwf (snd kv)) (sort_key fst M)"
    using 2 by (auto simp: list_all_iff M_def)
  ultimately show ?case by (simp add: M_def)
qed auto

text \<open>With \<open>ensure_ascii\<close> (the default) the printed text is ASCII.\<close>

lemma str_all_ascii_simps [simp]:
  "str_all_ascii []" "str_all_ascii (c # s) \<longleftrightarrow> code c < 128 \<and> str_all_ascii s"
  "str_all_ascii (s @ t) \<longleftrightarrow> str_all_ascii s \<and> str_all_ascii t"
  by (auto simp: str_all_ascii_def)

lemma hex_char_ascii: "n < 16 \<Longrightarrow> code (hex_char n) < 128"
  by (auto simp: hex_char_def)

lemma esc_char_ascii: "str_all_ascii (esc_char c)"
proof -
  have "code c div 16 < 16" by (rule less_mult_imp_div_less) simp
  then show ?thesis by (auto simp: esc_char_def Let_def hex_char_ascii)
qed

lemma dumps_str_ascii: "str_all_ascii (dumps_str s)"
  using esc_char_ascii by (auto simp: dumps_str_def str_all_ascii_def list_all_iff)

lemma str_of_nat_ascii: "str_all_ascii (str_of_nat n)"
proof -
  have "list_all (\<lambda>c. code c < 128) (str_of_nat n)"
    using str_of_nat_digits by (rule list.pred_mono_strong) (simp add: is_digit_def)
  then show ?thesis by (simp add: str_all_ascii_def)
qed

lemma str_of_int_ascii: "str_all_ascii (str_of_int i)"
  by (simp add: str_of_int_def str_of_nat_ascii)

lemma dumps_ascii:
  "\<lbrakk>jwf v; str_all_ascii isep; str_all_ascii ksep\<rbrakk> \<Longrightarrow> str_all_ascii (dumps rt isep ksep v)"
  "\<lbrakk>list_all jwf xs; str_all_ascii isep; str_all_ascii ksep\<rbrakk> \<Longrightarrow> str_all_ascii (dumps_items rt isep ksep xs)"
  "\<lbrakk>list_all (\<lambda>kv. jwf (snd kv)) m; str_all_ascii isep; str_all_ascii ksep\<rbrakk>
     \<Longrightarrow> str_all_ascii (dumps_members rt isep ksep m)"
  by (induction rt isep ksep v and rt isep ksep xs and rt isep ksep m rule: dumps_dumps_items_dumps_members.induct)
    (simp_all add: dumps_str_ascii str_of_int_ascii)

lemma dumps_str_plain: "list_all plain_char s \<Longrightarrow> dumps_str s = dquote # s @ [dquote]"
proof -
  assume "list_all plain_char s"
  then have "map esc_char s = map (\<lambda>c. [c]) s"
    by (auto simp: list_all_iff plain_char_def esc_char_def Let_def)
  then have "concat (map esc_char s) = concat (map (\<lambda>c. [c]) s)" by (rule arg_cong)
  also have "concat (map (\<lambda>c. [c]) s) = s" by (induction s) auto
  finally show ?thesis by (simp add: dumps_str_def)
qed

end
