(* ===== verification/RelayCrypto.thy ===== *)
theory RelayCrypto
  imports JsonCodec
begin

text \<open>
  \<open>aim_node/core/relay_crypto.py\<close>: traffic keys, nonces, the relay frame format and
  the sequence tracker. The \<open>cryptography\<close> package and the hash primitives are the
  fields of a \<open>crypto_lib\<close> record every operation takes; what the code relies on is
  \<open>aead_ok\<close> (decryption inverts encryption, 16-byte tag) and \<open>aead_exact\<close>
  (only what encryption produces decrypts).
\<close>

section \<open>The cryptographic library\<close>

record crypto_lib =
  seal :: "bytes \<Rightarrow> bytes \<Rightarrow> bytes \<Rightarrow> bytes \<Rightarrow> bytes"
  unseal :: "bytes \<Rightarrow> bytes \<Rightarrow> bytes \<Rightarrow> bytes \<Rightarrow> bytes option"
  hmac_sha256 :: "bytes \<Rightarrow> bytes \<Rightarrow> bytes"
  hkdf_expand :: "bytes \<Rightarrow> bytes \<Rightarrow> nat \<Rightarrow> bytes"
  x_public :: "bytes \<Rightarrow> bytes"
  x_exchange :: "bytes \<Rightarrow> bytes \<Rightarrow> bytes res"
  ed_public :: "bytes \<Rightarrow> bytes"
  ed_sign :: "bytes \<Rightarrow> bytes \<Rightarrow> bytes"
  ed_verify :: "bytes \<Rightarrow> bytes \<Rightarrow> bytes \<Rightarrow> bool"

definition aead_ok :: "crypto_lib \<Rightarrow> bool" where
  "aead_ok C \<longleftrightarrow> (\<forall>k n p a. unseal C k n (seal C k n p a) a = Some p
                         \<and> length (seal C k n p a) = length p + 16)"

definition aead_exact :: "crypto_lib \<Rightarrow> bool" where
  "aead_exact C \<longleftrightarrow> (\<forall>k n c a p. unseal C k n c a = Some p \<longrightarrow> c = seal C k n p a)"

section \<open>Traffic keys\<close>

record traffic_keys =
  buyer_to_seller_key :: bytes
  seller_to_buyer_key :: bytes
  buyer_to_seller_nonce_prefix :: bytes
  seller_to_buyer_nonce_prefix :: bytes

definition derive_traffic_keys :: "crypto_lib \<Rightarrow> bytes \<Rightarrow> string \<Rightarrow> traffic_keys" where
  "derive_traffic_keys C shared_secret session_id =
    (let prk = hmac_sha256 C (utf8_encode session_id) shared_secret
     in \<lparr>buyer_to_seller_key = hkdf_expand C prk (utf8_encode ''AIM/1.0 buyer-to-seller key'') 32,
         seller_to_buyer_key = hkdf_expand C prk (utf8_encode ''AIM/1.0 seller-to-buyer key'') 32,
         buyer_to_seller_nonce_prefix = hkdf_expand C prk (utf8_encode ''AIM/1.0 buyer-to-seller nonce'') 4,
         seller_to_buyer_nonce_prefix = hkdf_expand C prk (utf8_encode ''AIM/1.0 seller-to-buyer nonce'') 4\<rparr>)"

text \<open>\<open>HKDFExpand(length=n)\<close> returns \<open>n\<close> bytes.\<close>

definition hkdf_len_ok :: "crypto_lib \<Rightarrow> bool" where
  "hkdf_len_ok C \<longleftrightarrow> (\<forall>prk info n. length (hkdf_expand C prk info n) = n)"

definition keys_wf :: "traffic_keys \<Rightarrow> bool" where
  "keys_wf ks \<longleftrightarrow> length (buyer_to_seller_key ks) = 32 \<and> length (seller_to_buyer_key ks) = 32
     \<and> length (buyer_to_seller_nonce_prefix ks) = 4 \<and> length (seller_to_buyer_nonce_prefix ks) = 4"

lemma derive_keys_wf: "hkdf_len_ok C \<Longrightarrow> keys_wf (derive_traffic_keys C z sid)"
  by (simp add: hkdf_len_ok_def keys_wf_def derive_traffic_keys_def Let_def)

section \<open>Nonces and frames\<close>

definition build_nonce :: "bytes \<Rightarrow> int \<Rightarrow> bytes res" where
  "build_nonce direction_prefix sequence_number =
    (if length direction_prefix \<noteq> 4 then Inl (ValueError ''nonce prefix must be exactly 4 bytes'')
     else if sequence_number < 0 \<or> sequence_number > 0xFFFFFFFFFFFFFFFF
     then Inl (ValueError ''sequence number must fit in uint64'')
     else rbind (to_bytes 8 sequence_number) (\<lambda>sb. Inr (direction_prefix @ sb)))"

definition encrypt_frame :: "crypto_lib \<Rightarrow> bytes \<Rightarrow> bytes \<Rightarrow> int \<Rightarrow> int \<Rightarrow> bytes \<Rightarrow> bytes res" where
  "encrypt_frame C key nonce_prefix sequence_number frame_type plaintext =
    (if length key \<noteq> 32 then Inl (ValueError ''key must be exactly 32 bytes'')
     else if frame_type < 0 \<or> frame_type > 0xFF then Inl (ValueError ''frame_type must fit in uint8'')
     else if length plaintext > 0xFFFF then Inl (ValueError ''plaintext too large for uint16 length field'')
     else rbind (to_bytes 2 (int (length plaintext))) (\<lambda>lb.
          rbind (to_bytes 1 frame_type) (\<lambda>tb.
          rbind (to_bytes 8 sequence_number) (\<lambda>sb.
          rbind (build_nonce nonce_prefix sequence_number) (\<lambda>nonce.
            let header = lb @ tb @ sb
            in Inr (header @ seal C key nonce plaintext header))))))"

definition decrypt_frame :: "crypto_lib \<Rightarrow> bytes \<Rightarrow> bytes \<Rightarrow> bytes \<Rightarrow> (int \<times> int \<times> bytes) res" where
  "decrypt_frame C key nonce_prefix raw_frame =
    (if length key \<noteq> 32 then Inl (ValueError ''key must be exactly 32 bytes'')
     else if length raw_frame < 27 then Inl (ValueError ''frame too short'')
     else
       let header = take 11 raw_frame;
           plaintext_length = be_val (take 2 header);
           frame_type = int (unat (header ! 2));
           sequence_number = int (be_val (take 8 (drop 3 header)));
           ciphertext = drop 11 raw_frame
       in if length ciphertext < 16 then Inl (ValueError ''frame missing authentication tag'')
          else rbind (build_nonce nonce_prefix sequence_number) (\<lambda>nonce.
            case unseal C key nonce ciphertext header of
              None \<Rightarrow> Inl (ValueError ''frame authentication failed'')
            | Some plaintext \<Rightarrow>
                if length plaintext \<noteq> plaintext_length then Inl (ValueError ''plaintext length mismatch'')
                else Inr (frame_type, sequence_number, plaintext)))"

lemma to_bytes_Inr_iff: "to_bytes k n = Inr bs \<longleftrightarrow> 0 \<le> n \<and> n < 256 ^ k \<and> bs = be_bytes k (nat n)"
  by (auto simp: to_bytes_def)

lemma build_nonce_Inr_iff:
  "build_nonce p s = Inr n \<longleftrightarrow> length p = 4 \<and> 0 \<le> s \<and> s < 2 ^ 64 \<and> n = p @ be_bytes 8 (nat s)"
  by (auto simp: build_nonce_def to_bytes_def)

lemma encrypt_frame_Inr_iff:
  "encrypt_frame C key p s t pt = Inr raw \<longleftrightarrow>
     length key = 32 \<and> 0 \<le> t \<and> t \<le> 0xFF \<and> length pt \<le> 0xFFFF \<and> length p = 4 \<and> 0 \<le> s \<and> s < 2 ^ 64
     \<and> raw = (let h = be_bytes 2 (length pt) @ be_bytes 1 (nat t) @ be_bytes 8 (nat s)
              in h @ seal C key (p @ be_bytes 8 (nat s)) pt h)"
  by (auto simp: encrypt_frame_def rbind_Inr_iff to_bytes_Inr_iff build_nonce_Inr_iff Let_def)

lemma encrypt_frame_ok:
  assumes "length key = 32" "length p = 4" "0 \<le> t" "t \<le> 0xFF" "length pt \<le> 0xFFFF" "0 \<le> s" "s < 2 ^ 64"
  shows "\<exists>raw. encrypt_frame C key p s t pt = Inr raw"
  using assms by (simp add: encrypt_frame_Inr_iff Let_def)

lemma length_encrypt_frame:
  "aead_ok C \<Longrightarrow> encrypt_frame C key p s t pt = Inr raw \<Longrightarrow> length raw = length pt + 27"
  by (auto simp: encrypt_frame_Inr_iff Let_def aead_ok_def)

text \<open>The eleven header bytes, and reading the three fields back from them.\<close>

definition frame_header :: "nat \<Rightarrow> nat \<Rightarrow> nat \<Rightarrow> bytes" where
  "frame_header len ty sq = be_bytes 2 len @ be_bytes 1 ty @ be_bytes 8 sq"

lemma length_frame_header [simp]: "length (frame_header l t s) = 11"
  by (simp add: frame_header_def)

lemma frame_header_take [simp]: "take 2 (frame_header l t s) = be_bytes 2 l"
  by (simp add: frame_header_def)

lemma frame_header_nth: "frame_header l t s ! 2 = of_nat (t mod 256)"
  by (simp add: frame_header_def nth_append)

lemma frame_header_drop [simp]: "take 8 (drop 3 (frame_header l t s)) = be_bytes 8 s"
  by (simp add: frame_header_def)

lemma decrypt_encrypt_frame:
  assumes "aead_ok C" and "encrypt_frame C key p s t pt = Inr raw"
  shows "decrypt_frame C key p raw = Inr (t, s, pt)"
proof -
  let ?h = "frame_header (length pt) (nat t) (nat s)"
  from assms(2) have b: "length key = 32" "0 \<le> t" "t \<le> 0xFF" "length pt \<le> 0xFFFF" "length p = 4" "0 \<le> s" "s < 2 ^ 64"
    and raw: "raw = ?h @ seal C key (p @ be_bytes 8 (nat s)) pt ?h"
    by (auto simp: encrypt_frame_Inr_iff Let_def frame_header_def)
  have "nat t mod 256 = nat t" and "nat t < 256" using b by (simp_all add: nat_less_iff)
  then have "unat (?h ! 2) = nat t"
    by (simp only: frame_header_nth unat_byte_of_nat)
  then have "int (unat (?h ! 2)) = t" using b by simp
  then have ty: "uint (?h ! 2) = t" by simp
  have sq: "int (be_val (be_bytes 8 (nat s))) = s"
    using b by (simp add: be_val_be_bytes nat_less_iff)
  have ln: "be_val (be_bytes 2 (length pt)) = length pt"
    using b by (simp add: be_val_be_bytes)
  have nonce: "build_nonce p s = Inr (p @ be_bytes 8 (nat s))"
    using b by (simp add: build_nonce_Inr_iff)
  from assms(1) b nonce show ?thesis
    unfolding decrypt_frame_def raw
    by (simp add: aead_ok_def Let_def ty sq ln)
qed

text \<open>Conversely, with an exact cipher a frame that decrypts is one that encryption made.\<close>

lemma frame_header_of_bytes:
  assumes "length h = 11"
  shows "frame_header (be_val (take 2 h)) (unat (h ! 2)) (be_val (take 8 (drop 3 h))) = h"
proof -
  have "be_bytes 2 (be_val (take 2 h)) = take 2 h"
    using be_bytes_be_val [of "take 2 h"] assms by simp
  moreover have "be_bytes 8 (be_val (take 8 (drop 3 h))) = drop 3 h"
    using be_bytes_be_val [of "drop 3 h"] assms by simp
  moreover have "be_bytes 1 (unat (h ! 2)) = [h ! 2]" by simp
  moreover have "take 2 h @ [h ! 2] @ drop 3 h = h"
    using id_take_nth_drop [of 2 h] assms by (simp add: eval_nat_numeral)
  ultimately show ?thesis by (simp add: frame_header_def)
qed

lemma encrypt_decrypt_frame:
  assumes "aead_exact C" and "decrypt_frame C key p raw = Inr (t, s, pt)"
  shows "encrypt_frame C key p s t pt = Inr raw"
proof -
  define h where "h = take 11 raw"
  from assms(2) have len: "length key = 32" "27 \<le> length raw"
    by (auto simp: decrypt_frame_def split: if_splits)
  then have h11: "length h = 11" by (simp add: h_def)
  from assms(2) len obtain nonce where
    nonce: "build_nonce p s = Inr nonce" and
    un: "unseal C key nonce (drop 11 raw) h = Some pt" and
    pt: "length pt = be_val (take 2 h)" and t: "t = int (unat (h ! 2))" and
    s: "s = int (be_val (take 8 (drop 3 h)))"
    by (auto simp: decrypt_frame_def Let_def rbind_Inr_iff h_def split: if_splits option.splits)
  have hd: "be_bytes 2 (length pt) @ be_bytes 1 (nat t) @ be_bytes 8 (nat s) = h"
    using frame_header_of_bytes [OF h11] pt t s by (simp only: frame_header_def nat_int)
  have "length pt \<le> 0xFFFF"
    using be_val_lt [of "take 2 h"] pt h11 by simp
  moreover have "raw = h @ seal C key nonce pt h"
    using assms(1) un by (metis aead_exact_def append_take_drop_id h_def)
  moreover have "t \<le> 0xFF" "0 \<le> t"
    using unat_byte_lt [of "h ! 2"] t by linarith+
  ultimately show ?thesis
    using len nonce hd by (auto simp: encrypt_frame_Inr_iff build_nonce_Inr_iff Let_def)
qed

text \<open>Within one direction, different sequence numbers never share a nonce.\<close>

lemma build_nonce_inj:
  assumes "build_nonce p s = Inr n" and "build_nonce p s' = Inr n"
  shows "s = s'"
proof -
  from assms have "be_bytes 8 (nat s) = be_bytes 8 (nat s')" and "0 \<le> s" "0 \<le> s'"
    and "nat s < 256 ^ 8" "nat s' < 256 ^ 8"
    by (auto simp: build_nonce_Inr_iff nat_less_iff)
  then show ?thesis using be_bytes_inj by (metis eq_nat_nat_iff)
qed

lemma length_build_nonce: "build_nonce p s = Inr n \<Longrightarrow> length n = 12"
  by (auto simp: build_nonce_Inr_iff)

section \<open>SequenceTracker\<close>

record seq_tracker =
  next_expected :: int

definition new_tracker :: seq_tracker where
  "new_tracker = \<lparr>next_expected = 0\<rparr>"

definition validate_and_advance :: "seq_tracker \<Rightarrow> int \<Rightarrow> unit res \<times> seq_tracker" where
  "validate_and_advance t sequence_number =
    (if sequence_number \<noteq> next_expected t
     then (Inl (ValueError (''unexpected sequence number: got '' @ str_of_int sequence_number
                @ '', expected '' @ str_of_int (next_expected t))), t)
     else (Inr (), t\<lparr>next_expected := next_expected t + 1\<rparr>))"

definition next_sequence :: "seq_tracker \<Rightarrow> int" where
  "next_sequence t = next_expected t"

text \<open>Feeding a tracker a list of numbers; the numbers it accepted, in order.\<close>

fun accepted :: "seq_tracker \<Rightarrow> int list \<Rightarrow> int list" where
  "accepted t [] = []"
| "accepted t (n # ns) = (case validate_and_advance t n of
      (Inr _, t') \<Rightarrow> n # accepted t' ns
    | (Inl _, t') \<Rightarrow> accepted t' ns)"

interpretation tracker: monotone_system "\<lambda>t n. snd (validate_and_advance t n)" "\<lambda>t. 0 \<le> next_expected t" next_expected
  by unfold_locales (auto simp: validate_and_advance_def)

lemma accepted_consecutive:
  "accepted t ns = map (\<lambda>i. next_expected t + int i) [0..<length (accepted t ns)]"
proof (induction ns arbitrary: t)
  case Nil
  then show ?case by simp
next
  case (Cons n ns)
  show ?case
  proof (cases "n = next_expected t")
    case False
    with Cons show ?thesis by (simp add: validate_and_advance_def)
  next
    case True
    let ?t = "t\<lparr>next_expected := next_expected t + 1\<rparr>"
    have "accepted t (n # ns) = n # accepted ?t ns"
      using True by (simp add: validate_and_advance_def)
    moreover have "map (\<lambda>i. next_expected t + int i) [0..<Suc (length (accepted ?t ns))]
        = n # map (\<lambda>i. next_expected ?t + int i) [0..<length (accepted ?t ns)]"
      using True by (simp add: upt_conv_Cons map_Suc_upt [symmetric] comp_def add.assoc del: upt_Suc)
    ultimately show ?thesis using Cons.IH [of ?t] by simp
  qed
qed

lemma validate_advance_error_keeps: "validate_and_advance t n = (Inl e, t') \<Longrightarrow> t' = t"
  by (auto simp: validate_and_advance_def split: if_splits)

section \<open>A library with the promised laws\<close>

text \<open>
  A concrete instance of the promises (it keeps no secrets), on which the hypotheses about
  the cryptographic library are discharged.
\<close>

definition demo_crypto :: crypto_lib where
  "demo_crypto =
    \<lparr>seal = (\<lambda>k n p a. p @ replicate 16 0),
     unseal = (\<lambda>k n c a. if 16 \<le> length c \<and> drop (length c - 16) c = replicate 16 0
                 then Some (take (length c - 16) c) else None),
     hmac_sha256 = (\<lambda>k m. k @ m),
     hkdf_expand = (\<lambda>prk info n. take n (prk @ info @ replicate n 0)),
     x_public = (\<lambda>k. take 32 (k @ replicate 32 0)),
     x_exchange = (\<lambda>k p. Inr (map2 (+) (take 32 (k @ replicate 32 0)) p)),
     ed_public = (\<lambda>k. k),
     ed_sign = (\<lambda>k m. k @ m),
     ed_verify = (\<lambda>pk sig m. sig = pk @ m)\<rparr>"

lemma demo_aead_ok: "aead_ok demo_crypto"
  by (simp add: aead_ok_def demo_crypto_def)

lemma demo_aead_exact: "aead_exact demo_crypto"
  unfolding aead_exact_def demo_crypto_def
  by (auto split: if_splits) (metis append_take_drop_id)

lemma demo_hkdf_len: "hkdf_len_ok demo_crypto"
  by (auto simp: hkdf_len_ok_def demo_crypto_def min_def)

end
