(* ===== verification/Handshake.thy ===== *)
theory Handshake
  imports RelayCrypto
begin

text \<open>
  \<open>aim_node/core/handshake.py\<close>: the two-message authenticated key exchange of a relay
  session, as a state machine over \<open>HandshakeState\<close>. Every method takes the manager
  and returns its result (an exception is \<open>Inl\<close>) with the manager after the call, so
  that what a failing call leaves behind is part of the model. The clock, the fresh
  ephemeral key and the cryptographic library are arguments. A received message has
  the fields of an unchecked dataclass: any JSON value.
\<close>

datatype handshake_state = IDLE | INIT_SENT | INIT_RECEIVED | ESTABLISHED | REJECTED | FAILED

fun handshake_state_value :: "handshake_state \<Rightarrow> string" where
  "handshake_state_value IDLE = ''idle''"
| "handshake_state_value INIT_SENT = ''init_sent''"
| "handshake_state_value INIT_RECEIVED = ''init_received''"
| "handshake_state_value ESTABLISHED = ''established''"
| "handshake_state_value REJECTED = ''rejected''"
| "handshake_state_value FAILED = ''failed''"

record handshake_result =
  hr_traffic_keys :: traffic_keys
  hr_peer_node_id :: json
  hr_peer_ephemeral_pubkey :: bytes
  hr_session_id :: json

text \<open>
  \<open>HandshakeInitMessage\<close> and \<open>HandshakeAcceptMessage\<close> differ only in the name of the
  node field (\<open>initiator_node_id\<close>, \<open>responder_node_id\<close>).
\<close>

record handshake_msg =
  hm_session_id :: json
  hm_node_id :: json
  hm_ephemeral_pubkey :: json
  hm_timestamp :: json
  hm_signature :: json
  hm_protocol_version :: json

record handshake_manager =
  hs_node_id :: string
  hs_ed_priv :: bytes
  hs_state :: handshake_state
  hs_eph_private :: "bytes option"
  hs_eph_public :: "bytes option"
  hs_peer_eph_public :: "bytes option"
  hs_session_id :: "string option"

definition new_handshake :: "string \<Rightarrow> bytes \<Rightarrow> handshake_manager" where
  "new_handshake node_id priv = \<lparr>hs_node_id = node_id, hs_ed_priv = priv, hs_state = IDLE,
     hs_eph_private = None, hs_eph_public = None, hs_peer_eph_public = None, hs_session_id = None\<rparr>"

definition protocol_version :: string where
  "protocol_version = ''AIM/1.0''"

definition max_clock_skew_ms :: int where
  "max_clock_skew_ms = 30000"

section \<open>Signed payloads\<close>

text \<open>\<open>"".join\<close> raises a \<open>TypeError\<close> on a part that is not a string.\<close>

fun join_parts :: "json list \<Rightarrow> string res" where
  "join_parts [] = Inr []"
| "join_parts (JStr s # r) = rbind (join_parts r) (\<lambda>t. Inr (s @ t))"
| "join_parts (_ # r) = Inl TypeError"

definition build_init_payload :: "pyrt \<Rightarrow> json \<Rightarrow> json \<Rightarrow> json \<Rightarrow> json \<Rightarrow> bytes res" where
  "build_init_payload rt session_id node_id eph_pubkey_b64 timestamp =
    rbind (join_parts [JStr ''AIM-HANDSHAKE-INIT'', session_id, node_id, eph_pubkey_b64,
                       JStr (py_str rt timestamp)])
      (\<lambda>s. Inr (utf8_encode s))"

definition build_accept_payload :: "pyrt \<Rightarrow> json \<Rightarrow> json \<Rightarrow> json \<Rightarrow> json \<Rightarrow> json \<Rightarrow> bytes res" where
  "build_accept_payload rt session_id node_id eph_pubkey_b64 buyer_eph_pubkey_b64 timestamp =
    rbind (join_parts [JStr ''AIM-HANDSHAKE-ACCEPT'', session_id, node_id, eph_pubkey_b64,
                       buyer_eph_pubkey_b64, JStr (py_str rt timestamp)])
      (\<lambda>s. Inr (utf8_encode s))"

section \<open>Checks\<close>

text \<open>\<open>abs(now - timestamp) > 30000\<close> on any JSON value; a NaN compares false.\<close>

definition validate_timestamp :: "int \<Rightarrow> json \<Rightarrow> unit res" where
  "validate_timestamp now timestamp =
    (let late = Inl (ValueError ''timestamp outside allowed window'')
     in case timestamp of
       JInt i \<Rightarrow> if \<bar>now - i\<bar> > max_clock_skew_ms then late else Inr ()
     | JBool b \<Rightarrow> if \<bar>now - of_bool b\<bar> > max_clock_skew_ms then late else Inr ()
     | JFloat (FNum r) \<Rightarrow> if \<bar>of_int now - r\<bar> > of_int max_clock_skew_ms then late else Inr ()
     | JFloat FNegZero \<Rightarrow> if \<bar>now\<bar> > max_clock_skew_ms then late else Inr ()
     | JFloat FNaN \<Rightarrow> Inr ()
     | JFloat _ \<Rightarrow> late
     | _ \<Rightarrow> Inl TypeError)"

text \<open>\<open>base64.b64decode(v, validate=True)\<close> on a JSON value.\<close>

fun b64decode_json :: "json \<Rightarrow> bytes res" where
  "b64decode_json (JStr s) = b64decode s"
| "b64decode_json _ = Inl TypeError"

definition verify_signature :: "crypto_lib \<Rightarrow> bytes \<Rightarrow> bytes \<Rightarrow> json \<Rightarrow> unit res" where
  "verify_signature C public_key payload signature_b64 =
    (let bad = ValueError ''invalid handshake signature''
     in case b64decode_json signature_b64 of
       Inl e \<Rightarrow> Inl (if is_value_error e then bad else e)
     | Inr sig \<Rightarrow> if ed_verify C public_key sig payload then Inr () else Inl bad)"

text \<open>\<open>X25519PublicKey.from_public_bytes\<close> accepts 32 bytes.\<close>

definition x_from_public_bytes :: "bytes \<Rightarrow> bytes res" where
  "x_from_public_bytes bs = (if length bs = 32 then Inr bs
     else Inl (ValueError ''An X25519 public key is 32 bytes long''))"

definition compute_shared_secret_and_keys ::
    "crypto_lib \<Rightarrow> handshake_manager \<Rightarrow> bytes \<Rightarrow> string \<Rightarrow> traffic_keys res" where
  "compute_shared_secret_and_keys C m peer_eph_public_bytes session_id =
    (case hs_eph_private m of
       None \<Rightarrow> Inl (ValueError ''local ephemeral key not initialized'')
     | Some priv \<Rightarrow>
         rbind (x_from_public_bytes peer_eph_public_bytes) (\<lambda>peer.
         rbind (x_exchange C priv peer) (\<lambda>z. Inr (derive_traffic_keys C z session_id))))"

section \<open>The buyer: create_init, verify_accept\<close>

definition state_error :: "string \<Rightarrow> handshake_manager \<Rightarrow> exn" where
  "state_error what m =
     RuntimeError (''cannot '' @ what @ '' from state '' @ handshake_state_value (hs_state m))"

definition create_init ::
    "crypto_lib \<Rightarrow> pyrt \<Rightarrow> bytes \<Rightarrow> int \<Rightarrow> handshake_manager \<Rightarrow> string
      \<Rightarrow> handshake_msg res \<times> handshake_manager" where
  "create_init C rt eph now m session_id =
    (if hs_state m \<noteq> IDLE then (Inl (state_error ''create init'' m), m)
     else
       let m1 = m\<lparr>hs_eph_private := Some eph, hs_eph_public := Some (x_public C eph),
                  hs_session_id := Some session_id\<rparr>;
           eph_b64 = b64encode (x_public C eph)
       in case build_init_payload rt (JStr session_id) (JStr (hs_node_id m)) (JStr eph_b64) (JInt now) of
            Inl e \<Rightarrow> (Inl e, m1)
          | Inr payload \<Rightarrow>
              (Inr \<lparr>hm_session_id = JStr session_id, hm_node_id = JStr (hs_node_id m),
                    hm_ephemeral_pubkey = JStr eph_b64, hm_timestamp = JInt now,
                    hm_signature = JStr (b64encode (ed_sign C (hs_ed_priv m) payload)),
                    hm_protocol_version = JStr protocol_version\<rparr>,
               m1\<lparr>hs_state := INIT_SENT\<rparr>))"

definition verify_accept ::
    "crypto_lib \<Rightarrow> pyrt \<Rightarrow> int \<Rightarrow> handshake_manager \<Rightarrow> handshake_msg \<Rightarrow> bytes
      \<Rightarrow> handshake_result res \<times> handshake_manager" where
  "verify_accept C rt now m msg seller_ed25519_pubkey =
    (if hs_state m \<noteq> INIT_SENT then (Inl (state_error ''verify accept'' m), m)
     else case (hs_eph_public m, hs_session_id m) of
       (Some eph_pub, Some sid) \<Rightarrow>
         let buyer_b64 = b64encode eph_pub;
             checked =
               rbind (guard_res (hm_session_id msg = JStr sid) (ValueError ''session_id mismatch'')) (\<lambda>_.
               rbind (validate_timestamp now (hm_timestamp msg)) (\<lambda>_.
               rbind (build_accept_payload rt (hm_session_id msg) (hm_node_id msg)
                        (hm_ephemeral_pubkey msg) (JStr buyer_b64) (hm_timestamp msg)) (\<lambda>payload.
               rbind (verify_signature C seller_ed25519_pubkey payload (hm_signature msg)) (\<lambda>_.
               b64decode_json (hm_ephemeral_pubkey msg)))))
         in (case checked of
               Inl e \<Rightarrow> (Inl e, m\<lparr>hs_state := FAILED\<rparr>)
             | Inr peer_bytes \<Rightarrow>
                 (case x_from_public_bytes peer_bytes of
                    Inl e \<Rightarrow> (Inl e, m\<lparr>hs_state := FAILED\<rparr>)
                  | Inr peer \<Rightarrow>
                      let m1 = m\<lparr>hs_peer_eph_public := Some peer\<rparr>
                      in case compute_shared_secret_and_keys C m1 peer_bytes sid of
                           Inl e \<Rightarrow> (Inl e, m1\<lparr>hs_state := FAILED\<rparr>)
                         | Inr keys \<Rightarrow>
                             (Inr \<lparr>hr_traffic_keys = keys, hr_peer_node_id = hm_node_id msg,
                                   hr_peer_ephemeral_pubkey = peer_bytes,
                                   hr_session_id = hm_session_id msg\<rparr>,
                              m1\<lparr>hs_state := ESTABLISHED\<rparr>)))
     | _ \<Rightarrow> (Inl (ValueError ''initiator ephemeral key not initialized''), m\<lparr>hs_state := FAILED\<rparr>))"

section \<open>The seller: verify_init, create_accept\<close>

definition verify_init ::
    "crypto_lib \<Rightarrow> pyrt \<Rightarrow> int \<Rightarrow> handshake_manager \<Rightarrow> handshake_msg \<Rightarrow> string \<Rightarrow> string \<Rightarrow> bytes
      \<Rightarrow> unit res \<times> handshake_manager" where
  "verify_init C rt now m msg expected_session_id expected_buyer_node_id buyer_ed25519_pubkey =
    (if hs_state m \<noteq> IDLE then (Inl (state_error ''verify init'' m), m)
     else
       let checked =
         rbind (guard_res (hm_session_id msg = JStr expected_session_id)
                  (ValueError ''session_id mismatch'')) (\<lambda>_.
         rbind (guard_res (hm_node_id msg = JStr expected_buyer_node_id)
                  (ValueError ''initiator_node_id mismatch'')) (\<lambda>_.
         rbind (validate_timestamp now (hm_timestamp msg)) (\<lambda>_.
         rbind (build_init_payload rt (hm_session_id msg) (hm_node_id msg)
                  (hm_ephemeral_pubkey msg) (hm_timestamp msg)) (\<lambda>payload.
         rbind (verify_signature C buyer_ed25519_pubkey payload (hm_signature msg)) (\<lambda>_.
         rbind (b64decode_json (hm_ephemeral_pubkey msg)) x_from_public_bytes)))))
       in case checked of
            Inl e \<Rightarrow> (Inl e, m\<lparr>hs_state := FAILED\<rparr>)
          | Inr peer \<Rightarrow> (Inr (), m\<lparr>hs_peer_eph_public := Some peer,
                                hs_session_id := Some expected_session_id,
                                hs_state := INIT_RECEIVED\<rparr>))"

definition create_accept ::
    "crypto_lib \<Rightarrow> pyrt \<Rightarrow> bytes \<Rightarrow> int \<Rightarrow> handshake_manager \<Rightarrow> string \<Rightarrow> string
      \<Rightarrow> handshake_msg res \<times> handshake_manager" where
  "create_accept C rt eph now m session_id buyer_eph_pubkey_b64 =
    (if hs_state m \<noteq> INIT_RECEIVED then (Inl (state_error ''create accept'' m), m)
     else if hs_session_id m \<noteq> Some session_id then (Inl (ValueError ''session_id mismatch''), m)
     else case b64decode buyer_eph_pubkey_b64 of
       Inl e \<Rightarrow> (Inl e, m)
     | Inr buyer_bytes \<Rightarrow>
         let peer = (case hs_peer_eph_public m of
                       None \<Rightarrow> x_from_public_bytes buyer_bytes
                     | Some p \<Rightarrow> Inr p)
         in (case peer of
               Inl e \<Rightarrow> (Inl e, m)
             | Inr p \<Rightarrow>
                 if hs_peer_eph_public m \<noteq> None \<and> p \<noteq> buyer_bytes
                 then (Inl (ValueError ''buyer ephemeral pubkey mismatch''), m\<lparr>hs_state := FAILED\<rparr>)
                 else
                   let m1 = m\<lparr>hs_peer_eph_public := Some p, hs_eph_private := Some eph,
                              hs_eph_public := Some (x_public C eph)\<rparr>;
                       eph_b64 = b64encode (x_public C eph)
                   in case build_accept_payload rt (JStr session_id) (JStr (hs_node_id m)) (JStr eph_b64)
                             (JStr buyer_eph_pubkey_b64) (JInt now) of
                        Inl e \<Rightarrow> (Inl e, m1)
                      | Inr payload \<Rightarrow>
                          (case compute_shared_secret_and_keys C m1 buyer_bytes session_id of
                             Inl e \<Rightarrow> (Inl e, m1)
                           | Inr _ \<Rightarrow>
                               (Inr \<lparr>hm_session_id = JStr session_id, hm_node_id = JStr (hs_node_id m),
                                     hm_ephemeral_pubkey = JStr eph_b64, hm_timestamp = JInt now,
                                     hm_signature = JStr (b64encode (ed_sign C (hs_ed_priv m) payload)),
                                     hm_protocol_version = JStr protocol_version\<rparr>,
                                m1\<lparr>hs_state := ESTABLISHED\<rparr>))))"

section \<open>What the cryptographic library promises\<close>

definition sig_ok :: "crypto_lib \<Rightarrow> bool" where
  "sig_ok C \<longleftrightarrow> (\<forall>k msg. ed_verify C (ed_public C k) (ed_sign C k msg) msg)"

definition dh_ok :: "crypto_lib \<Rightarrow> bool" where
  "dh_ok C \<longleftrightarrow> (\<forall>a b. length (x_public C a) = 32
     \<and> x_exchange C a (x_public C b) = x_exchange C b (x_public C a))"

lemma join_parts_Cons_Inr: "join_parts (v # r) = Inr s \<longleftrightarrow> (\<exists>x t. v = JStr x \<and> join_parts r = Inr t \<and> s = x @ t)"
  by (cases v) (auto simp: rbind_Inr_iff)

lemma join_parts_strs: "join_parts (map JStr ss) = Inr (concat ss)"
  by (induction ss) auto

lemma build_init_payload_strs:
  "build_init_payload rt (JStr sid) (JStr nid) (JStr e) (JInt t)
     = Inr (utf8_encode (''AIM-HANDSHAKE-INIT'' @ sid @ nid @ e @ str_of_int t))"
  by (simp add: build_init_payload_def)

lemma build_accept_payload_strs:
  "build_accept_payload rt (JStr sid) (JStr nid) (JStr e) (JStr be) (JInt t)
     = Inr (utf8_encode (''AIM-HANDSHAKE-ACCEPT'' @ sid @ nid @ e @ be @ str_of_int t))"
  by (simp add: build_accept_payload_def)

lemma validate_timestamp_int [simp]:
  "validate_timestamp now (JInt i) = Inr () \<longleftrightarrow> \<bar>now - i\<bar> \<le> max_clock_skew_ms"
  by (simp add: validate_timestamp_def)

lemma validate_timestamp_near:
  "\<bar>now - i\<bar> \<le> max_clock_skew_ms \<Longrightarrow> validate_timestamp now (JInt i) = Inr ()"
  by simp

lemma verify_signature_Inr:
  "verify_signature C pk payload v = Inr () \<longleftrightarrow>
     (\<exists>s sig. v = JStr s \<and> b64decode s = Inr sig \<and> ed_verify C pk sig payload)"
  by (cases v) (auto simp: verify_signature_def Let_def split: sum.splits if_splits)

lemma verify_signature_own:
  "sig_ok C \<Longrightarrow> verify_signature C (ed_public C k) p (JStr (b64encode (ed_sign C k p))) = Inr ()"
  by (simp add: verify_signature_Inr sig_ok_def)

lemma demo_sig_ok: "sig_ok demo_crypto"
  by (simp add: sig_ok_def demo_crypto_def)

lemma demo_dh_ok: "dh_ok demo_crypto"
proof -
  have "map2 (+) x y = map2 (+) y (x :: bytes)" for x y
    by (induction x arbitrary: y) (auto simp: zip_Cons1 add.commute split: list.split)
  then show ?thesis by (auto simp: dh_ok_def demo_crypto_def min_def)
qed

lemmas demo_laws = demo_sig_ok demo_dh_ok demo_aead_ok demo_aead_exact demo_hkdf_len

section \<open>The exchange between an honest buyer and an honest seller\<close>

definition honest_init :: "crypto_lib \<Rightarrow> string \<Rightarrow> bytes \<Rightarrow> bytes \<Rightarrow> int \<Rightarrow> string \<Rightarrow> handshake_msg" where
  "honest_init C nid k a t sid =
    \<lparr>hm_session_id = JStr sid, hm_node_id = JStr nid,
     hm_ephemeral_pubkey = JStr (b64encode (x_public C a)), hm_timestamp = JInt t,
     hm_signature = JStr (b64encode (ed_sign C k (utf8_encode
        (''AIM-HANDSHAKE-INIT'' @ sid @ nid @ b64encode (x_public C a) @ str_of_int t)))),
     hm_protocol_version = JStr protocol_version\<rparr>"

definition honest_accept ::
    "crypto_lib \<Rightarrow> string \<Rightarrow> bytes \<Rightarrow> bytes \<Rightarrow> bytes \<Rightarrow> int \<Rightarrow> string \<Rightarrow> handshake_msg" where
  "honest_accept C nid k b peer t sid =
    \<lparr>hm_session_id = JStr sid, hm_node_id = JStr nid,
     hm_ephemeral_pubkey = JStr (b64encode (x_public C b)), hm_timestamp = JInt t,
     hm_signature = JStr (b64encode (ed_sign C k (utf8_encode (''AIM-HANDSHAKE-ACCEPT'' @ sid @ nid
        @ b64encode (x_public C b) @ b64encode peer @ str_of_int t)))),
     hm_protocol_version = JStr protocol_version\<rparr>"

lemma create_init_idle:
  assumes "hs_state m = IDLE"
  shows "create_init C rt a t m sid =
    (Inr (honest_init C (hs_node_id m) (hs_ed_priv m) a t sid),
     m\<lparr>hs_eph_private := Some a, hs_eph_public := Some (x_public C a),
       hs_session_id := Some sid, hs_state := INIT_SENT\<rparr>)"
  using assms by (simp add: create_init_def honest_init_def build_init_payload_strs Let_def
      del: utf8_encode_Cons utf8_encode_append)

lemma verify_init_honest:
  assumes "sig_ok C" and "dh_ok C" and "\<bar>t' - t\<bar> \<le> max_clock_skew_ms" and "hs_state m = IDLE"
  shows "verify_init C rt t' m (honest_init C nb kb a t sid) sid nb (ed_public C kb) =
    (Inr (), m\<lparr>hs_peer_eph_public := Some (x_public C a),
        hs_session_id := Some sid, hs_state := INIT_RECEIVED\<rparr>)"
  using assms
  by (simp add: honest_init_def verify_init_def build_init_payload_strs
      verify_signature_own dh_ok_def x_from_public_bytes_def validate_timestamp_near Let_def
      del: utf8_encode_Cons utf8_encode_append)

lemma create_accept_received:
  assumes "dh_ok C" and "x_exchange C b (x_public C a) = Inr z" and "hs_state m = INIT_RECEIVED"
    and "hs_session_id m = Some sid" and "hs_peer_eph_public m = Some (x_public C a)"
  shows "create_accept C rt b t m sid (b64encode (x_public C a)) =
    (Inr (honest_accept C (hs_node_id m) (hs_ed_priv m) b (x_public C a) t sid),
     m\<lparr>hs_eph_private := Some b, hs_eph_public := Some (x_public C b), hs_state := ESTABLISHED\<rparr>)"
proof -
  have "m\<lparr>hs_peer_eph_public := Some (x_public C a)\<rparr> = m" using assms(5) by simp
  with assms show ?thesis
    by (simp add: create_accept_def honest_accept_def build_accept_payload_strs Let_def
        compute_shared_secret_and_keys_def x_from_public_bytes_def dh_ok_def
        del: utf8_encode_Cons utf8_encode_append)
qed

lemma verify_accept_honest:
  assumes "sig_ok C" and "dh_ok C" and "x_exchange C a (x_public C b) = Inr z"
    and "\<bar>t' - t\<bar> \<le> max_clock_skew_ms" and "hs_state m = INIT_SENT"
    and "hs_eph_private m = Some a" and "hs_eph_public m = Some (x_public C a)"
    and "hs_session_id m = Some sid"
  shows "verify_accept C rt t' m (honest_accept C ns ks b (x_public C a) t sid) (ed_public C ks) =
    (Inr \<lparr>hr_traffic_keys = derive_traffic_keys C z sid, hr_peer_node_id = JStr ns,
          hr_peer_ephemeral_pubkey = x_public C b, hr_session_id = JStr sid\<rparr>,
     m\<lparr>hs_peer_eph_public := Some (x_public C b), hs_state := ESTABLISHED\<rparr>)"
  using assms
  by (simp add: verify_accept_def honest_accept_def build_accept_payload_strs verify_signature_own
      dh_ok_def x_from_public_bytes_def compute_shared_secret_and_keys_def validate_timestamp_near
      Let_def del: utf8_encode_Cons utf8_encode_append)

section \<open>What a successful check means\<close>

lemma verify_init_sound:
  assumes "verify_init C rt now m msg sid nid pk = (Inr (), m')"
  shows "hs_state m = IDLE \<and> hs_state m' = INIT_RECEIVED \<and> hs_session_id m' = Some sid
    \<and> hm_session_id msg = JStr sid \<and> hm_node_id msg = JStr nid
    \<and> validate_timestamp now (hm_timestamp msg) = Inr ()
    \<and> (\<exists>e sg sig peer. hm_ephemeral_pubkey msg = JStr e \<and> hm_signature msg = JStr sg
        \<and> b64decode sg = Inr sig \<and> b64decode e = Inr peer \<and> length peer = 32
        \<and> hs_peer_eph_public m' = Some peer
        \<and> ed_verify C pk sig (utf8_encode (''AIM-HANDSHAKE-INIT'' @ sid @ nid @ e
              @ py_str rt (hm_timestamp msg))))"
  using assms
  by (auto simp: verify_init_def Let_def rbind_Inr_iff build_init_payload_def join_parts_Cons_Inr
      verify_signature_Inr x_from_public_bytes_def split: if_splits sum.splits)

lemma verify_accept_sound:
  assumes "verify_accept C rt now m msg pk = (Inr r, m')"
  shows "hs_state m = INIT_SENT \<and> hs_state m' = ESTABLISHED
    \<and> validate_timestamp now (hm_timestamp msg) = Inr ()
    \<and> (\<exists>own sid nid e sg sig peer. hs_eph_public m = Some own \<and> hs_session_id m = Some sid
        \<and> hm_session_id msg = JStr sid \<and> hm_node_id msg = JStr nid
        \<and> hm_ephemeral_pubkey msg = JStr e \<and> hm_signature msg = JStr sg
        \<and> b64decode sg = Inr sig \<and> b64decode e = Inr peer
        \<and> hr_peer_ephemeral_pubkey r = peer
        \<and> ed_verify C pk sig (utf8_encode (''AIM-HANDSHAKE-ACCEPT'' @ sid @ nid @ e @ b64encode own
              @ py_str rt (hm_timestamp msg)))
        \<and> compute_shared_secret_and_keys C (m\<lparr>hs_peer_eph_public := Some peer\<rparr>) peer sid
            = Inr (hr_traffic_keys r))"
  using assms
  by (auto simp: verify_accept_def Let_def rbind_Inr_iff build_accept_payload_def join_parts_Cons_Inr
      verify_signature_Inr x_from_public_bytes_def split: if_splits sum.splits option.splits)

section \<open>The handshake as a state machine\<close>

text \<open>One call of a public method, with the clock reading and the fresh key it draws.\<close>

datatype hs_op =
    Create_Init bytes int string
  | Verify_Init int handshake_msg string string bytes
  | Create_Accept bytes int string string
  | Verify_Accept int handshake_msg bytes

fun hs_apply :: "crypto_lib \<Rightarrow> pyrt \<Rightarrow> handshake_manager \<Rightarrow> hs_op \<Rightarrow> handshake_manager" where
  "hs_apply C rt m (Create_Init eph now sid) = snd (create_init C rt eph now m sid)"
| "hs_apply C rt m (Verify_Init now msg sid nid pk) = snd (verify_init C rt now m msg sid nid pk)"
| "hs_apply C rt m (Create_Accept eph now sid b64) = snd (create_accept C rt eph now m sid b64)"
| "hs_apply C rt m (Verify_Accept now msg pk) = snd (verify_accept C rt now m msg pk)"

text \<open>
  The order in which a manager can go through its states: from \<open>IDLE\<close> to one of the two sides, from either side to an end.
\<close>

instantiation handshake_state :: order
begin

definition less_eq_handshake_state :: "handshake_state \<Rightarrow> handshake_state \<Rightarrow> bool" where
  "a \<le> b \<longleftrightarrow> a = b \<or> a = IDLE \<or> a \<in> {INIT_SENT, INIT_RECEIVED} \<and> b \<in> {ESTABLISHED, REJECTED, FAILED}"

definition less_handshake_state :: "handshake_state \<Rightarrow> handshake_state \<Rightarrow> bool" where
  "a < b \<longleftrightarrow> a \<le> b \<and> a \<noteq> (b :: handshake_state)"

instance
  by standard (auto simp: less_eq_handshake_state_def less_handshake_state_def)

end

text \<open>
  What the manager guarantees in each state: the ephemeral key pair is a pair, each state has
  the keys its next method reads, and \<open>REJECTED\<close> does not occur.
\<close>

definition hs_inv :: "crypto_lib \<Rightarrow> handshake_manager \<Rightarrow> bool" where
  "hs_inv C m \<longleftrightarrow> hs_state m \<noteq> REJECTED
     \<and> hs_eph_public m = map_option (x_public C) (hs_eph_private m)
     \<and> (hs_state m = INIT_SENT \<longrightarrow> hs_eph_private m \<noteq> None \<and> hs_session_id m \<noteq> None)
     \<and> (hs_state m = INIT_RECEIVED \<longrightarrow> hs_peer_eph_public m \<noteq> None \<and> hs_session_id m \<noteq> None)
     \<and> (hs_state m = ESTABLISHED \<longrightarrow>
          hs_eph_private m \<noteq> None \<and> hs_peer_eph_public m \<noteq> None \<and> hs_session_id m \<noteq> None)"

lemma hs_inv_new: "hs_inv C (new_handshake nid k)"
  by (simp add: hs_inv_def new_handshake_def)

lemma create_init_keeps: "hs_inv C m \<Longrightarrow> hs_inv C (snd (create_init C rt e now m sid))"
  by (cases "hs_state m = IDLE") (simp_all add: create_init_idle hs_inv_def, simp_all add: create_init_def)

lemma verify_init_keeps: "hs_inv C m \<Longrightarrow> hs_inv C (snd (verify_init C rt now m msg sid nid pk))"
  by (auto simp: verify_init_def hs_inv_def Let_def split: sum.splits)

lemma create_accept_keeps: "hs_inv C m \<Longrightarrow> hs_inv C (snd (create_accept C rt e now m sid b))"
  by (auto simp: create_accept_def hs_inv_def Let_def split: sum.splits option.splits)

lemma verify_accept_keeps: "hs_inv C m \<Longrightarrow> hs_inv C (snd (verify_accept C rt now m msg pk))"
  by (auto simp: verify_accept_def hs_inv_def Let_def split: sum.splits option.splits)

lemma hs_apply_keeps: "hs_inv C m \<Longrightarrow> hs_inv C (hs_apply C rt m x)"
  by (cases x) (simp_all add: create_init_keeps verify_init_keeps create_accept_keeps verify_accept_keeps)

text \<open>The transitions the methods can make.\<close>

definition hs_next :: "handshake_state \<Rightarrow> handshake_state \<Rightarrow> bool" where
  "hs_next a b \<longleftrightarrow> a = b \<or> (a, b) \<in> {(IDLE, INIT_SENT), (IDLE, INIT_RECEIVED), (IDLE, FAILED),
     (INIT_SENT, ESTABLISHED), (INIT_SENT, FAILED), (INIT_RECEIVED, ESTABLISHED), (INIT_RECEIVED, FAILED)}"

lemma hs_apply_next: "hs_next (hs_state m) (hs_state (hs_apply C rt m x))"
  by (cases x)
     (auto simp: hs_next_def create_init_def verify_init_def create_accept_def verify_accept_def Let_def
        split: sum.splits option.splits)

lemma hs_next_le: "hs_next a b \<Longrightarrow> a \<le> b"
  by (auto simp: hs_next_def less_eq_handshake_state_def)

interpretation hs: monotone_system "hs_apply C rt" "hs_inv C" hs_state for C rt
  by unfold_locales (simp_all add: hs_apply_keeps hs_next_le hs_apply_next)

lemma hs_apply_terminal: "hs_state m = ESTABLISHED \<or> hs_state m = FAILED \<Longrightarrow> hs_apply C rt m x = m"
  by (cases x) (auto simp: create_init_def verify_init_def create_accept_def verify_accept_def)

lemma hs_run_terminal:
  "hs_state m = ESTABLISHED \<or> hs_state m = FAILED \<Longrightarrow> foldl (hs_apply C rt) m xs = m"
  by (induction xs) (auto simp: hs_apply_terminal)

section \<open>What the signed payload binds\<close>

lemma str_of_nat_inj: "str_of_nat m = str_of_nat n \<longleftrightarrow> m = n"
  using nat_of_digits_str by metis

lemma str_of_nat_not_minus: "str_of_nat n \<noteq> CHR ''-'' # t"
  using str_of_nat_hd_digit [of n] by (cases "str_of_nat n") (auto simp: is_digit_def)

lemma str_of_int_inj: "str_of_int i = str_of_int j \<Longrightarrow> i = j"
  using str_of_nat_not_minus str_of_nat_not_minus [THEN not_sym]
  by (auto simp: str_of_int_def str_of_nat_inj split: if_splits)

lemma utf8_encode_eq_iff: "utf8_encode s = utf8_encode t \<longleftrightarrow> s = t"
  using utf8.enc_eq_iff by simp

lemma payload_tail:
  assumes "length e = length e'" and "p @ e @ str_of_int t = p @ e' @ str_of_int t'"
  shows "e = e' \<and> t = t'"
  using assms str_of_int_inj by auto

section \<open>Properties\<close>

text \<open>C17: along every sequence of calls on a handshake manager (any order, any arguments, failing
  calls included) the invariant holds - so a state whose next method reads a key has that key, and
  \<open>REJECTED\<close> is never reached -, the state only moves forward in their order (no side becomes the other
  side, and neither end becomes the other), and a manager that reached
  \<open>ESTABLISHED\<close> or \<open>FAILED\<close> is not changed by any later call: a handshake cannot be restarted.\<close>

theorem handshake_run:
  "hs_inv C (foldl (hs_apply C rt) (new_handshake nid k) (xs @ ys))
   \<and> hs_state (foldl (hs_apply C rt) (new_handshake nid k) xs)
      \<le> hs_state (foldl (hs_apply C rt) (new_handshake nid k) (xs @ ys))
   \<and> (hs_state (foldl (hs_apply C rt) (new_handshake nid k) xs) \<in> {ESTABLISHED, FAILED}
      \<longrightarrow> foldl (hs_apply C rt) (new_handshake nid k) (xs @ ys)
           = foldl (hs_apply C rt) (new_handshake nid k) xs)"
  by (auto simp: hs.reading_prefix hs_inv_new hs_run_terminal intro!: hs.run_keeps
      simp del: foldl_append) (simp_all add: hs_run_terminal)

theorem handshake_run_witness:
  "foldl (hs_apply demo_crypto demo_rt) (new_handshake ''n'' [])
     ([Create_Init [1] 0 ''s'', Verify_Accept 0 (honest_init demo_crypto ''n'' [] [1] 0 ''s'') []]
        @ [Create_Init [2] 0 ''t''])
   = foldl (hs_apply demo_crypto demo_rt) (new_handshake ''n'' [])
     [Create_Init [1] 0 ''s'', Verify_Accept 0 (honest_init demo_crypto ''n'' [] [1] 0 ''s'') []]"
proof -
  let ?m = "foldl (hs_apply demo_crypto demo_rt) (new_handshake ''n'' [])
     [Create_Init [1] 0 ''s'', Verify_Accept 0 (honest_init demo_crypto ''n'' [] [1] 0 ''s'') []]"
  have "hs_state ?m \<in> {ESTABLISHED, FAILED}"
    by (simp add: create_init_idle new_handshake_def verify_accept_def Let_def split: sum.splits option.splits)
  then show ?thesis
    using handshake_run [of demo_crypto demo_rt "''n''" "[]"
      "[Create_Init [1] 0 ''s'', Verify_Accept 0 (honest_init demo_crypto ''n'' [] [1] 0 ''s'') []]"
      "[Create_Init [2] 0 ''t'']"] by blast
qed



text \<open>The fields of the signed INIT payload are concatenated without separators, so it binds the
  ephemeral key and the timestamp once session and node are fixed (both keys of equal length, as
  encoded X25519 keys are), but not the boundary between session and node: a message a buyer signed
  for session \<open>s @ x\<close> is accepted, with the two names moved, by a seller that expects session
  \<open>s\<close> from the node \<open>x @ nb\<close> with the same signing key.\<close>

lemma init_payload_binding:
  assumes "sig_ok C" and "dh_ok C" and "\<bar>now - t\<bar> \<le> max_clock_skew_ms" and "hs_state m = IDLE"
    and "length e = length e'"
  shows "(build_init_payload rt (JStr sid) (JStr nid) (JStr e) (JInt i)
          = build_init_payload rt (JStr sid) (JStr nid) (JStr e') (JInt i') \<longrightarrow> e = e' \<and> i = i')
    \<and> verify_init C rt now m
        ((honest_init C nb kb a t (s @ x))\<lparr>hm_session_id := JStr s, hm_node_id := JStr (x @ nb)\<rparr>)
        s (x @ nb) (ed_public C kb)
      = (Inr (), m\<lparr>hs_peer_eph_public := Some (x_public C a),
            hs_session_id := Some s, hs_state := INIT_RECEIVED\<rparr>)"
proof
  show "build_init_payload rt (JStr sid) (JStr nid) (JStr e) (JInt i)
          = build_init_payload rt (JStr sid) (JStr nid) (JStr e') (JInt i') \<longrightarrow> e = e' \<and> i = i'"
    using payload_tail [OF assms(5), of "[]" i i'] 
    by (simp add: build_init_payload_strs utf8_encode_eq_iff del: utf8_encode_Cons utf8_encode_append)
  have "(honest_init C nb kb a t (s @ x))\<lparr>hm_session_id := JStr s, hm_node_id := JStr (x @ nb)\<rparr>
      = honest_init C (x @ nb) kb a t s"
    by (simp add: honest_init_def del: utf8_encode_Cons utf8_encode_append)
  then show "verify_init C rt now m
        ((honest_init C nb kb a t (s @ x))\<lparr>hm_session_id := JStr s, hm_node_id := JStr (x @ nb)\<rparr>)
        s (x @ nb) (ed_public C kb)
      = (Inr (), m\<lparr>hs_peer_eph_public := Some (x_public C a),
            hs_session_id := Some s, hs_state := INIT_RECEIVED\<rparr>)"
    using assms(1-4) by (simp add: verify_init_honest)
qed

theorem init_payload_binding_witness:
  "fst (verify_init demo_crypto demo_rt 9 (new_handshake ''s'' [1])
        ((honest_init demo_crypto ''7'' [2] [3] 4 ''ab'')\<lparr>hm_session_id := JStr ''a'', hm_node_id := JStr ''b7''\<rparr>)
        ''a'' ''b7'' (ed_public demo_crypto [2])) = Inr ()"
  using init_payload_binding [OF demo_sig_ok demo_dh_ok, where now = 9 and t = 4
      and m = "new_handshake ''s'' [1]" and e = "''x''" and e' = "''y''" and rt = demo_rt
      and nb = "''7''" and kb = "[2]" and a = "[3]" and s = "''a''" and x = "''b''"]
  by (simp add: new_handshake_def max_clock_skew_ms_def)

end
