(* ===== verification/RelayProtocol.thy ===== *)
theory RelayProtocol
  imports Handshake
begin

text \<open>
  \<open>aim_node/relay/protocol.py\<close>: the frame types, the payload dataclasses and their JSON form.
  A field read from the wire is any JSON value (the sources check only the limits of
  \<open>_validate_payload\<close>), except \<open>body\<close>, which is decoded from base64.
\<close>

section \<open>Frame types\<close>

definition FRAME_REQUEST :: int where "FRAME_REQUEST = 0x10"
definition FRAME_RESPONSE :: int where "FRAME_RESPONSE = 0x11"
definition FRAME_ERROR :: int where "FRAME_ERROR = 0x12"
definition FRAME_HEARTBEAT :: int where "FRAME_HEARTBEAT = 0x20"
definition FRAME_HEARTBEAT_ACK :: int where "FRAME_HEARTBEAT_ACK = 0x21"
definition FRAME_CANCEL :: int where "FRAME_CANCEL = 0x30"
definition FRAME_CANCEL_ACK :: int where "FRAME_CANCEL_ACK = 0x31"
definition FRAME_CLOSE :: int where "FRAME_CLOSE = 0x40"
definition FRAME_CLOSE_ACK :: int where "FRAME_CLOSE_ACK = 0x41"

lemmas frame_types = FRAME_REQUEST_def FRAME_RESPONSE_def FRAME_ERROR_def FRAME_HEARTBEAT_def
  FRAME_HEARTBEAT_ACK_def FRAME_CANCEL_def FRAME_CANCEL_ACK_def FRAME_CLOSE_def FRAME_CLOSE_ACK_def

definition max_timeout_ms :: int where "max_timeout_ms = 300000"
definition max_message_len :: nat where "max_message_len = 500"

section \<open>Payloads\<close>

record request_payload =
  rq_trace_id :: json
  rq_sequence :: json
  rq_content_type :: json
  rq_body :: bytes
  rq_timeout_ms :: json

record response_payload =
  rs_trace_id :: json
  rs_sequence :: json
  rs_content_type :: json
  rs_body :: bytes
  rs_latency_ms :: json

record error_payload =
  er_trace_id :: json
  er_code :: json
  er_message :: json

datatype payload =
    Request request_payload
  | Response response_payload
  | Error error_payload
  | Cancel json
  | Cancel_Ack json json
  | Close json json

section \<open>Validation\<close>

text \<open>\<open>v < k\<close> and \<open>v > k\<close> between a JSON value and an integer; \<open>len(v)\<close>.\<close>

fun json_less :: "json \<Rightarrow> int \<Rightarrow> bool res" where
  "json_less (JInt i) k = Inr (i < k)"
| "json_less (JBool b) k = Inr (of_bool b < k)"
| "json_less (JFloat (FNum r)) k = Inr (r < of_int k)"
| "json_less (JFloat FNegZero) k = Inr (0 < k)"
| "json_less (JFloat FNegInf) k = Inr True"
| "json_less (JFloat _) k = Inr False"
| "json_less _ k = Inl TypeError"

fun json_greater :: "json \<Rightarrow> int \<Rightarrow> bool res" where
  "json_greater (JInt i) k = Inr (i > k)"
| "json_greater (JBool b) k = Inr (of_bool b > k)"
| "json_greater (JFloat (FNum r)) k = Inr (r > of_int k)"
| "json_greater (JFloat FNegZero) k = Inr (0 > k)"
| "json_greater (JFloat FPosInf) k = Inr True"
| "json_greater (JFloat _) k = Inr False"
| "json_greater _ k = Inl TypeError"

fun json_len :: "json \<Rightarrow> nat res" where
  "json_len (JStr s) = Inr (length s)"
| "json_len (JArr xs) = Inr (length xs)"
| "json_len (JObj m) = Inr (length m)"
| "json_len _ = Inl TypeError"

definition check_message :: "json \<Rightarrow> unit res" where
  "check_message message = rbind (json_len message)
     (\<lambda>n. guard_res (n \<le> max_message_len) (ValueError ''message exceeds 500 characters''))"

fun validate_payload :: "payload \<Rightarrow> unit res" where
  "validate_payload (Request p) =
     rbind (json_less (rq_timeout_ms p) 0) (\<lambda>neg.
     rbind (if neg then Inr True else json_greater (rq_timeout_ms p) max_timeout_ms) (\<lambda>bad.
       guard_res (\<not> bad) (ValueError ''timeout_ms must be between 0 and 300000'')))"
| "validate_payload (Error p) = check_message (er_message p)"
| "validate_payload (Close reason message) = check_message message"
| "validate_payload _ = Inr ()"

section \<open>serialize_payload\<close>

fun asdict :: "payload \<Rightarrow> json" where
  "asdict (Request p) = JObj [(''trace_id'', rq_trace_id p), (''sequence'', rq_sequence p),
      (''content_type'', rq_content_type p), (''body'', JStr (b64encode (rq_body p))),
      (''timeout_ms'', rq_timeout_ms p)]"
| "asdict (Response p) = JObj [(''trace_id'', rs_trace_id p), (''sequence'', rs_sequence p),
      (''content_type'', rs_content_type p), (''body'', JStr (b64encode (rs_body p))),
      (''latency_ms'', rs_latency_ms p)]"
| "asdict (Error p) = JObj [(''trace_id'', er_trace_id p), (''code'', er_code p),
      (''message'', er_message p)]"
| "asdict (Cancel tid) = JObj [(''trace_id'', tid)]"
| "asdict (Cancel_Ack tid c) = JObj [(''trace_id'', tid), (''cancelled'', c)]"
| "asdict (Close reason message) = JObj [(''reason'', reason), (''message'', message)]"

definition serialize_payload :: "pyrt \<Rightarrow> payload \<Rightarrow> bytes res" where
  "serialize_payload rt p = rbind (validate_payload p)
     (\<lambda>_. Inr (utf8_encode (dumps rt '','' '':'' (jsort (asdict p)))))"

section \<open>deserialize_payload\<close>

definition decode_body :: "json \<Rightarrow> bytes res" where
  "decode_body v = (case v of JStr s \<Rightarrow> rbind (ascii_encode s) (\<lambda>_. b64decode s) | _ \<Rightarrow> Inl AttributeError)"

definition read_payload :: "int \<Rightarrow> (string \<times> json) list \<Rightarrow> payload res" where
  "read_payload frame_type decoded =
    (if frame_type = FRAME_REQUEST then
       rbind (jitem decoded ''trace_id'') (\<lambda>tid.
       rbind (jitem decoded ''sequence'') (\<lambda>sq.
       rbind (jitem decoded ''content_type'') (\<lambda>ct.
       rbind (jitem decoded ''body'') (\<lambda>b.
       rbind (decode_body b) (\<lambda>body.
       rbind (jitem decoded ''timeout_ms'') (\<lambda>ms.
         Inr (Request \<lparr>rq_trace_id = tid, rq_sequence = sq, rq_content_type = ct,
                        rq_body = body, rq_timeout_ms = ms\<rparr>)))))))
     else if frame_type = FRAME_RESPONSE then
       rbind (jitem decoded ''trace_id'') (\<lambda>tid.
       rbind (jitem decoded ''sequence'') (\<lambda>sq.
       rbind (jitem decoded ''content_type'') (\<lambda>ct.
       rbind (jitem decoded ''body'') (\<lambda>b.
       rbind (decode_body b) (\<lambda>body.
       rbind (jitem decoded ''latency_ms'') (\<lambda>ms.
         Inr (Response \<lparr>rs_trace_id = tid, rs_sequence = sq, rs_content_type = ct,
                         rs_body = body, rs_latency_ms = ms\<rparr>)))))))
     else if frame_type = FRAME_ERROR then
       rbind (jitem decoded ''code'') (\<lambda>c.
       rbind (jitem decoded ''message'') (\<lambda>msg.
         Inr (Error \<lparr>er_trace_id = jget decoded ''trace_id'', er_code = c, er_message = msg\<rparr>)))
     else if frame_type = FRAME_CANCEL then
       rbind (jitem decoded ''trace_id'') (\<lambda>tid. Inr (Cancel tid))
     else if frame_type = FRAME_CANCEL_ACK then
       rbind (jitem decoded ''trace_id'') (\<lambda>tid.
       rbind (jitem decoded ''cancelled'') (\<lambda>c. Inr (Cancel_Ack tid c)))
     else if frame_type = FRAME_CLOSE then
       rbind (jitem decoded ''reason'') (\<lambda>r. Inr (Close r (jget_or decoded ''message'' (JStr []))))
     else Inl (ValueError (''unsupported frame type: '' @ str_of_int frame_type)))"

definition deserialize_payload :: "pyrt \<Rightarrow> int \<Rightarrow> bytes \<Rightarrow> payload option res" where
  "deserialize_payload rt frame_type data =
    (if frame_type \<in> {FRAME_HEARTBEAT, FRAME_HEARTBEAT_ACK, FRAME_CLOSE_ACK}
     then (if data \<notin> {[], map byte_of_char ''{}'', map byte_of_char ''null''}
           then Inl (ValueError ''control frames must not include a payload'') else Inr None)
     else
       rbind (utf8_decode data) (\<lambda>s.
       rbind (loads rt s) (\<lambda>v.
       rbind (expect_obj (ValueError ''payload JSON must decode to an object'') v) (\<lambda>decoded.
       rbind (read_payload frame_type decoded) (\<lambda>p.
       rbind (validate_payload p) (\<lambda>_. Inr (Some p)))))))"

section \<open>Well-typed payloads\<close>

text \<open>The field types the dataclasses declare, and the limits \<open>_validate_payload\<close> checks.\<close>

fun is_int :: "json \<Rightarrow> bool" where
  "is_int (JInt _) = True"
| "is_int _ = False"

fun payload_typed :: "payload \<Rightarrow> bool" where
  "payload_typed (Request p) \<longleftrightarrow> is_str (rq_trace_id p) \<and> is_int (rq_sequence p)
     \<and> is_str (rq_content_type p) \<and> is_int (rq_timeout_ms p)"
| "payload_typed (Response p) \<longleftrightarrow> is_str (rs_trace_id p) \<and> is_int (rs_sequence p)
     \<and> is_str (rs_content_type p) \<and> is_int (rs_latency_ms p)"
| "payload_typed (Error p) \<longleftrightarrow> (is_str (er_trace_id p) \<or> er_trace_id p = JNull)
     \<and> is_int (er_code p) \<and> is_str (er_message p)"
| "payload_typed (Cancel tid) \<longleftrightarrow> is_str tid"
| "payload_typed (Cancel_Ack tid c) \<longleftrightarrow> is_str tid \<and> (\<exists>b. c = JBool b)"
| "payload_typed (Close r m) \<longleftrightarrow> is_str r \<and> is_str m"

fun frame_type_of :: "payload \<Rightarrow> int" where
  "frame_type_of (Request _) = FRAME_REQUEST"
| "frame_type_of (Response _) = FRAME_RESPONSE"
| "frame_type_of (Error _) = FRAME_ERROR"
| "frame_type_of (Cancel _) = FRAME_CANCEL"
| "frame_type_of (Cancel_Ack _ _) = FRAME_CANCEL_ACK"
| "frame_type_of (Close _ _) = FRAME_CLOSE"

lemma is_strE: "is_str v \<Longrightarrow> (\<And>s. v = JStr s \<Longrightarrow> P) \<Longrightarrow> P" by (cases v) auto
lemma is_intE: "is_int v \<Longrightarrow> (\<And>i. v = JInt i \<Longrightarrow> P) \<Longrightarrow> P" by (cases v) auto

lemma decode_body_encoded [simp]: "decode_body (JStr (b64encode bs)) = Inr bs"
  using b64encode_ascii [of bs] by (simp add: decode_body_def ascii_encode_def str_all_ascii_def)

text \<open>A payload's dictionary survives the trip through text, and is read back as the payload.\<close>

lemma asdict_jwf: "payload_typed p \<Longrightarrow> jwf (asdict p)"
  by (cases p) (auto elim!: is_strE is_intE)

lemma read_payload_asdict:
  assumes "payload_typed p"
  shows "\<exists>m. jsort (asdict p) = JObj m \<and> read_payload (frame_type_of p) m = Inr p"
  using assms
  by (cases p)
     (auto elim!: is_strE is_intE simp: read_payload_def jitem_def jget_def jget_or_def frame_types
        sort_key_def less_char_def less_eq_char_def)

lemma validate_typed_iff:
  "payload_typed p \<Longrightarrow> validate_payload p = Inr () \<longleftrightarrow>
     (case p of
        Request q \<Rightarrow> (case rq_timeout_ms q of JInt i \<Rightarrow> 0 \<le> i \<and> i \<le> max_timeout_ms | _ \<Rightarrow> False)
      | Error q \<Rightarrow> (case er_message q of JStr s \<Rightarrow> length s \<le> max_message_len | _ \<Rightarrow> False)
      | Close r m \<Rightarrow> (case m of JStr s \<Rightarrow> length s \<le> max_message_len | _ \<Rightarrow> False)
      | _ \<Rightarrow> True)"
  by (cases p) (auto elim!: is_strE is_intE simp: check_message_def guard_res_def split: if_splits)

lemma serialize_Inr_iff:
  "serialize_payload rt p = Inr d \<longleftrightarrow>
     validate_payload p = Inr () \<and> d = utf8_encode (dumps rt '','' '':'' (jsort (asdict p)))"
  by (auto simp: serialize_payload_def rbind_Inr_iff simp del: utf8_encode_Cons utf8_encode_append)

lemma frame_type_of_not_control:
  "frame_type_of p \<notin> {FRAME_HEARTBEAT, FRAME_HEARTBEAT_ACK, FRAME_CLOSE_ACK}"
  by (cases p) (auto simp: frame_types)

lemma deserialize_serialize:
  assumes "payload_typed p" and "serialize_payload rt p = Inr d"
  shows "deserialize_payload rt (frame_type_of p) d = Inr (Some p)"
proof -
  from assms(1) obtain m where m: "jsort (asdict p) = JObj m" "read_payload (frame_type_of p) m = Inr p"
    using read_payload_asdict by blast
  have "jwf (JObj m)" using asdict_jwf [OF assms(1)] jwf_jsort m(1) by metis
  then have "loads rt (dumps rt '','' '':'' (JObj m)) = Inr (JObj m)"
    by (rule json_compact.dec_enc)
  moreover from assms(2) have "validate_payload p = Inr ()" "d = utf8_encode (dumps rt '','' '':'' (JObj m))"
    unfolding serialize_Inr_iff m(1) by blast+
  ultimately show ?thesis
    using m(2) frame_type_of_not_control [of p]
    by (simp add: deserialize_payload_def del: dumps.simps utf8_encode_Cons utf8_encode_append)
qed

text \<open>Every accepted payload, from whatever text, keeps to the limits.\<close>

lemma read_payload_type: "read_payload ft m = Inr p \<Longrightarrow> frame_type_of p = ft"
  by (auto simp: read_payload_def rbind_Inr_iff split: if_splits)

lemma deserialize_Some_iff:
  "deserialize_payload rt ft d = Inr (Some p) \<longleftrightarrow>
     ft \<notin> {FRAME_HEARTBEAT, FRAME_HEARTBEAT_ACK, FRAME_CLOSE_ACK}
     \<and> (\<exists>s m. utf8_decode d = Inr s \<and> loads rt s = Inr (JObj m) \<and> read_payload ft m = Inr p
          \<and> validate_payload p = Inr ())"
  by (auto simp: deserialize_payload_def rbind_Inr_iff)

lemma deserialize_None_iff:
  "deserialize_payload rt ft d = Inr None \<longleftrightarrow>
     ft \<in> {FRAME_HEARTBEAT, FRAME_HEARTBEAT_ACK, FRAME_CLOSE_ACK}
     \<and> d \<in> {[], map byte_of_char ''{}'', map byte_of_char ''null''}"
  by (auto simp: deserialize_payload_def rbind_Inr_iff)

lemma deserialize_validates:
  "deserialize_payload rt ft d = Inr (Some p) \<Longrightarrow> validate_payload p = Inr () \<and> frame_type_of p = ft"
  by (auto simp: deserialize_Some_iff read_payload_type)

section \<open>Size of a serialized request\<close>

lemma length_str_of_int: "0 \<le> i \<Longrightarrow> i < 10 ^ k \<Longrightarrow> 0 < k \<Longrightarrow> length (str_of_int i) \<le> k"
  by (simp add: str_of_int_def length_str_of_nat nat_less_iff)

lemma jsort_request:
  "jsort (asdict (Request \<lparr>rq_trace_id = JStr t, rq_sequence = JInt n, rq_content_type = JStr ct,
      rq_body = b, rq_timeout_ms = JInt ms\<rparr>))
   = JObj [(''body'', JStr (b64encode b)), (''content_type'', JStr ct), (''sequence'', JInt n),
       (''timeout_ms'', JInt ms), (''trace_id'', JStr t)]"
  by (simp add: sort_key_def less_char_def less_eq_char_def)

lemma name_lengths:
  "length (dumps_str ''body'') = 6" "length (dumps_str ''content_type'') = 14"
  "length (dumps_str ''sequence'') = 10" "length (dumps_str ''timeout_ms'') = 12"
  "length (dumps_str ''trace_id'') = 10"
  by (simp_all add: dumps_str_def esc_char_def Let_def)

lemma serialized_request_length:
  assumes "serialize_payload rt (Request \<lparr>rq_trace_id = JStr t, rq_sequence = JInt n,
      rq_content_type = JStr ct, rq_body = b, rq_timeout_ms = JInt ms\<rparr>) = Inr d"
    and "list_all plain_char t" "list_all plain_char ct" "0 \<le> n" "n < 10 ^ 20"
  shows "length d \<le> 4 * ((length b + 2) div 3) + length t + length ct + 100"
proof -
  let ?p = "Request \<lparr>rq_trace_id = JStr t, rq_sequence = JInt n,
      rq_content_type = JStr ct, rq_body = b, rq_timeout_ms = JInt ms\<rparr>"
  let ?s = "dumps rt '','' '':'' (jsort (asdict ?p))"
  from assms(1) have d: "d = utf8_encode ?s" and ms: "0 \<le> ms" "ms \<le> 300000"
    by (auto simp: serialize_Inr_iff max_timeout_ms_def rbind_Inr_iff split: if_splits
        simp del: utf8_encode_Cons utf8_encode_append dumps.simps asdict.simps)
  have "jwf (jsort (asdict ?p))" by (intro jwf_jsort asdict_jwf) simp
  then have "str_all_ascii ?s" by (intro dumps_ascii) simp_all
  then have "length d = length ?s" by (simp only: d length_utf8_ascii)
  also have "\<dots> = length (b64encode b) + length ct + length t + length (str_of_int n)
      + length (str_of_int ms) + 69"
    unfolding jsort_request
    using assms(2,3) by (simp add: dumps_str_plain b64encode_plain name_lengths)
  also have "\<dots> \<le> length (b64encode b) + length ct + length t + 20 + 6 + 69"
    using length_str_of_int [of n 20] length_str_of_int [of ms 6] assms(4,5) ms by simp
  finally show ?thesis by (simp add: length_b64encode)
qed

section \<open>Properties\<close>

text \<open>C10: a payload whose fields have the declared types is serialized exactly when it keeps to the
  limits (timeout between 0 and 300000 ms, error and close messages of at most 500 characters), and
  what the peer reads from those bytes under the payload's frame type is the payload itself.\<close>

theorem payload_roundtrip:
  assumes "payload_typed p"
  shows "((\<exists>d. serialize_payload rt p = Inr d) \<longleftrightarrow>
     (case p of
        Request q \<Rightarrow> (case rq_timeout_ms q of JInt i \<Rightarrow> 0 \<le> i \<and> i \<le> 300000 | _ \<Rightarrow> False)
      | Error q \<Rightarrow> (case er_message q of JStr s \<Rightarrow> length s \<le> 500 | _ \<Rightarrow> False)
      | Close r m \<Rightarrow> (case m of JStr s \<Rightarrow> length s \<le> 500 | _ \<Rightarrow> False)
      | _ \<Rightarrow> True))
    \<and> (\<forall>d. serialize_payload rt p = Inr d \<longrightarrow>
          deserialize_payload rt (frame_type_of p) d = Inr (Some p))"
  using assms validate_typed_iff [OF assms, unfolded max_timeout_ms_def max_message_len_def]
  by (simp add: deserialize_serialize serialize_Inr_iff)

theorem payload_roundtrip_witness:
  "\<exists>d. serialize_payload demo_rt (Request \<lparr>rq_trace_id = JStr ''t'', rq_sequence = JInt 1,
      rq_content_type = JStr ''application/json'', rq_body = [1, 2, 255], rq_timeout_ms = JInt 30000\<rparr>) = Inr d
    \<and> deserialize_payload demo_rt FRAME_REQUEST d = Inr (Some (Request \<lparr>rq_trace_id = JStr ''t'',
      rq_sequence = JInt 1, rq_content_type = JStr ''application/json'', rq_body = [1, 2, 255],
      rq_timeout_ms = JInt 30000\<rparr>))"
  using payload_roundtrip [of "Request \<lparr>rq_trace_id = JStr ''t'', rq_sequence = JInt 1,
      rq_content_type = JStr ''application/json'', rq_body = [1, 2, 255], rq_timeout_ms = JInt 30000\<rparr>" demo_rt]
  by auto

text \<open>Whatever bytes arrive, a payload that \<open>deserialize_payload\<close> returns is of the frame's type
  and satisfies every limit, and only a heartbeat, a heartbeat acknowledgement or a close
  acknowledgement is accepted without a payload.\<close>

lemma deserialize_limits:
  "case deserialize_payload rt ft d of
     Inr (Some p) \<Rightarrow> validate_payload p = Inr () \<and> frame_type_of p = ft
       \<and> ft \<notin> {FRAME_HEARTBEAT, FRAME_HEARTBEAT_ACK, FRAME_CLOSE_ACK}
   | Inr None \<Rightarrow> ft \<in> {FRAME_HEARTBEAT, FRAME_HEARTBEAT_ACK, FRAME_CLOSE_ACK} \<and> length d \<le> 4
   | Inl _ \<Rightarrow> True"
  using deserialize_None_iff [of rt ft d]
  by (auto simp: deserialize_Some_iff read_payload_type split: sum.split option.split)

end
