(* ===== verification/RelayTransport.thy ===== *)
theory RelayTransport
  imports RelayProtocol
begin

text \<open>
  \<open>aim_node/relay/transport.py\<close>: one relay session over a WebSocket - the handshake in
  \<open>connect\<close>, encrypted frames with a sequence tracker per direction, the receive loop that
  answers control frames, requests and responses, the heartbeat task, and closing.

  The WebSocket is a queue of arrivals (each with its time), the messages sent so far and whether
  sending still works. A receive on an empty queue has no result yet (\<open>None\<close>): the coroutine is
  still waiting. Time is the loop clock of the transport, which an arrival moves.
\<close>

section \<open>State\<close>

datatype relay_state = Disconnected | Connecting | Handshaking | Established | Closing | Closed

datatype ws_msg = Text string | Binary bytes | Broken exn

record websocket =
  ws_inbox :: "(rat \<times> ws_msg) list"
  ws_sent :: "ws_msg list"
  ws_up :: bool

datatype future = Unresolved | Resolved response_payload | Failed exn

text \<open>Where the heartbeat task waits: in its 30 s sleep, in its 5 s sleep, or ended.\<close>

datatype heartbeat_phase = Resting | Awaiting_Ack | Stopped

record relay_transport =
  tp_handshake :: handshake_manager
  tp_state :: relay_state
  tp_ws :: "websocket option"
  tp_keys :: "traffic_keys option"
  tp_send_seq :: seq_tracker
  tp_recv_seq :: seq_tracker
  tp_heartbeat :: heartbeat_phase
  tp_last_activity :: rat
  tp_missed_heartbeats :: int
  tp_pending :: "(string, future) dict"
  tp_slots :: nat
  tp_is_initiator :: bool
  tp_awaiting_ack :: bool
  tp_now :: rat

definition max_concurrent :: nat where "max_concurrent = 10"

definition new_transport :: "handshake_manager \<Rightarrow> relay_transport" where
  "new_transport hs = \<lparr>tp_handshake = hs, tp_state = Disconnected, tp_ws = None, tp_keys = None,
     tp_send_seq = new_tracker, tp_recv_seq = new_tracker, tp_heartbeat = Stopped,
     tp_last_activity = 0, tp_missed_heartbeats = 0, tp_pending = [], tp_slots = max_concurrent,
     tp_is_initiator = False, tp_awaiting_ack = False, tp_now = 0\<rparr>"

section \<open>Key material\<close>

definition outbound_key_material :: "bool \<Rightarrow> traffic_keys \<Rightarrow> bytes \<times> bytes" where
  "outbound_key_material is_initiator ks =
    (if is_initiator then (buyer_to_seller_key ks, buyer_to_seller_nonce_prefix ks)
     else (seller_to_buyer_key ks, seller_to_buyer_nonce_prefix ks))"

definition inbound_key_material :: "bool \<Rightarrow> traffic_keys \<Rightarrow> bytes \<times> bytes" where
  "inbound_key_material is_initiator ks =
    (if is_initiator then (seller_to_buyer_key ks, seller_to_buyer_nonce_prefix ks)
     else (buyer_to_seller_key ks, buyer_to_seller_nonce_prefix ks))"

section \<open>The WebSocket\<close>

definition ws_send :: "relay_transport \<Rightarrow> ws_msg \<Rightarrow> unit res \<times> relay_transport" where
  "ws_send t m = (case tp_ws t of
     None \<Rightarrow> (Inl AttributeError, t)
   | Some w \<Rightarrow> if ws_up w then (Inr (), t\<lparr>tp_ws := Some (w\<lparr>ws_sent := ws_sent w @ [m]\<rparr>)\<rparr>)
               else (Inl ConnectionClosed, t))"

definition inbox :: "relay_transport \<Rightarrow> (rat \<times> ws_msg) list" where
  "inbox t = (case tp_ws t of None \<Rightarrow> [] | Some w \<Rightarrow> ws_inbox w)"

definition sent :: "relay_transport \<Rightarrow> ws_msg list" where
  "sent t = (case tp_ws t of None \<Rightarrow> [] | Some w \<Rightarrow> ws_sent w)"

definition set_inbox :: "(rat \<times> ws_msg) list \<Rightarrow> relay_transport \<Rightarrow> relay_transport" where
  "set_inbox ms t = t\<lparr>tp_ws := map_option (\<lambda>w. w\<lparr>ws_inbox := ms\<rparr>) (tp_ws t)\<rparr>"

section \<open>send_frame\<close>

text \<open>
  \<open>send_frame\<close> up to its \<open>await\<close> reads the next sequence number and encrypts; after the
  \<open>await\<close> it advances the tracker. The two halves are separate definitions because another
  coroutine may run between them.
\<close>

definition send_begin :: "crypto_lib \<Rightarrow> relay_transport \<Rightarrow> int \<Rightarrow> bytes \<Rightarrow> (int \<times> bytes) res" where
  "send_begin C t frame_type pl = (case (tp_ws t, tp_keys t) of
     (Some w, Some ks) \<Rightarrow>
       (case outbound_key_material (tp_is_initiator t) ks of (key, nonce_prefix) \<Rightarrow>
         let sequence_number = next_sequence (tp_send_seq t)
         in rbind (encrypt_frame C key nonce_prefix sequence_number frame_type pl)
              (\<lambda>raw. Inr (sequence_number, raw)))
   | _ \<Rightarrow> Inl (RuntimeError ''relay session is not established''))"

definition send_finish :: "relay_transport \<Rightarrow> int \<Rightarrow> unit res \<times> relay_transport" where
  "send_finish t sequence_number = (case validate_and_advance (tp_send_seq t) sequence_number of
     (Inl e, _) \<Rightarrow> (Inl e, t)
   | (Inr _, sq) \<Rightarrow> (Inr (), t\<lparr>tp_send_seq := sq, tp_last_activity := tp_now t\<rparr>))"

definition send_frame :: "crypto_lib \<Rightarrow> relay_transport \<Rightarrow> int \<Rightarrow> bytes \<Rightarrow> unit res \<times> relay_transport" where
  "send_frame C t frame_type pl = (case send_begin C t frame_type pl of
     Inl e \<Rightarrow> (Inl e, t)
   | Inr (sequence_number, raw_frame) \<Rightarrow>
       (case ws_send t (Binary raw_frame) of
          (Inl e, t') \<Rightarrow> (Inl e, t')
        | (Inr _, t') \<Rightarrow> send_finish t' sequence_number))"

section \<open>recv_frame\<close>

text \<open>\<open>await ws.recv()\<close> gave one message: decrypt it and check its number.\<close>

definition open_frame :: "crypto_lib \<Rightarrow> relay_transport \<Rightarrow> ws_msg \<Rightarrow> (int \<times> int \<times> bytes) res" where
  "open_frame C t m = (case tp_keys t of
     None \<Rightarrow> Inl (RuntimeError ''relay session is not established'')
   | Some ks \<Rightarrow>
     (case inbound_key_material (tp_is_initiator t) ks of (key, nonce_prefix) \<Rightarrow>
       (case m of
          Binary raw_frame \<Rightarrow> decrypt_frame C key nonce_prefix raw_frame
        | Text s \<Rightarrow> if length key \<noteq> 32 then Inl (ValueError ''key must be exactly 32 bytes'')
                    else if length s < 27 then Inl (ValueError ''frame too short'') else Inl TypeError
        | Broken e \<Rightarrow> Inl e)))"

text \<open>The control frames of the loop body: \<open>None\<close> is \<open>continue\<close>.\<close>

definition dispatch_frame ::
    "crypto_lib \<Rightarrow> relay_transport \<Rightarrow> int \<Rightarrow> bytes \<Rightarrow> (int \<times> bytes) res option \<times> relay_transport" where
  "dispatch_frame C t frame_type plaintext =
    (if frame_type = FRAME_HEARTBEAT then
       (case send_frame C t FRAME_HEARTBEAT_ACK [] of
          (Inl e, t') \<Rightarrow> (Some (Inl e), t')
        | (Inr _, t') \<Rightarrow> (None, t'))
     else if frame_type = FRAME_HEARTBEAT_ACK then
       (None, t\<lparr>tp_awaiting_ack := False, tp_missed_heartbeats := 0\<rparr>)
     else if frame_type = FRAME_CLOSE then
       (case send_frame C t FRAME_CLOSE_ACK [] of
          (Inl e, t') \<Rightarrow> (Some (Inl e), t')
        | (Inr _, t') \<Rightarrow> (Some (Inr (frame_type, plaintext)), t'))
     else (Some (Inr (frame_type, plaintext)), t))"

text \<open>One turn of the \<open>while True\<close> loop, for a message that arrived at the given time.\<close>

definition recv_turn ::
    "crypto_lib \<Rightarrow> relay_transport \<Rightarrow> rat \<Rightarrow> ws_msg \<Rightarrow> (int \<times> bytes) res option \<times> relay_transport" where
  "recv_turn C t0 arrived m =
    (let t = t0\<lparr>tp_now := arrived\<rparr> in
     case open_frame C t m of
       Inl e \<Rightarrow> (Some (Inl e), t)
     | Inr (frame_type, sequence_number, plaintext) \<Rightarrow>
       (case validate_and_advance (tp_recv_seq t) sequence_number of
          (Inl e, _) \<Rightarrow> (Some (Inl e), t)
        | (Inr _, sq) \<Rightarrow>
            dispatch_frame C (t\<lparr>tp_recv_seq := sq, tp_last_activity := arrived\<rparr>) frame_type plaintext))"

fun recv_loop ::
    "crypto_lib \<Rightarrow> relay_transport \<Rightarrow> (rat \<times> ws_msg) list \<Rightarrow> (int \<times> bytes) res option \<times> relay_transport" where
  "recv_loop C t [] = (None, set_inbox [] t)"
| "recv_loop C t ((arrived, m) # ms) =
    (case recv_turn C (set_inbox ms t) arrived m of
       (Some r, t') \<Rightarrow> (Some r, t')
     | (None, t') \<Rightarrow> recv_loop C t' ms)"

definition recv_frame :: "crypto_lib \<Rightarrow> relay_transport \<Rightarrow> (int \<times> bytes) res option \<times> relay_transport" where
  "recv_frame C t = (if tp_ws t = None \<or> tp_keys t = None
     then (Some (Inl (RuntimeError ''relay session is not established'')), t)
     else recv_loop C t (inbox t))"

section \<open>What the frame operations leave alone\<close>

definition steady :: "relay_transport \<Rightarrow> traffic_keys option \<times> bool \<times> (string, future) dict \<times> nat \<times> relay_state \<times> bool" where
  "steady t = (tp_keys t, tp_is_initiator t, tp_pending t, tp_slots t, tp_state t, tp_ws t = None)"

lemma steadyD:
  assumes "steady t' = steady t"
  shows "tp_keys t' = tp_keys t" "tp_is_initiator t' = tp_is_initiator t" "tp_pending t' = tp_pending t"
    "tp_slots t' = tp_slots t" "tp_state t' = tp_state t" "(tp_ws t' = None) = (tp_ws t = None)"
  using assms by (simp_all add: steady_def)

lemma inbox_set_inbox [simp]: "tp_ws t \<noteq> None \<Longrightarrow> inbox (set_inbox ms t) = ms"
  by (auto simp: inbox_def set_inbox_def)

lemma set_inbox_sel [simp]:
  "tp_keys (set_inbox ms t) = tp_keys t" "tp_send_seq (set_inbox ms t) = tp_send_seq t"
  "tp_recv_seq (set_inbox ms t) = tp_recv_seq t" "tp_is_initiator (set_inbox ms t) = tp_is_initiator t"
  "tp_pending (set_inbox ms t) = tp_pending t" "tp_state (set_inbox ms t) = tp_state t"
  "tp_now (set_inbox ms t) = tp_now t" "steady (set_inbox ms t) = steady t" "sent (set_inbox ms t) = sent t"
  by (auto simp: set_inbox_def sent_def steady_def split: option.splits)

lemma steady_upd [simp]:
  "steady (t\<lparr>tp_now := a\<rparr>) = steady t" "steady (t\<lparr>tp_recv_seq := q\<rparr>) = steady t"
  "steady (t\<lparr>tp_send_seq := q\<rparr>) = steady t" "steady (t\<lparr>tp_last_activity := a\<rparr>) = steady t"
  "steady (t\<lparr>tp_awaiting_ack := b\<rparr>) = steady t" "steady (t\<lparr>tp_missed_heartbeats := i\<rparr>) = steady t"
  "steady (t\<lparr>tp_heartbeat := h\<rparr>) = steady t"
  by (simp_all add: steady_def)

lemma inbox_upd [simp]:
  "inbox (t\<lparr>tp_now := a\<rparr>) = inbox t" "inbox (t\<lparr>tp_recv_seq := q\<rparr>) = inbox t"
  "inbox (t\<lparr>tp_send_seq := q\<rparr>) = inbox t" "inbox (t\<lparr>tp_last_activity := a\<rparr>) = inbox t"
  "inbox (t\<lparr>tp_awaiting_ack := b\<rparr>) = inbox t" "inbox (t\<lparr>tp_missed_heartbeats := i\<rparr>) = inbox t"
  "inbox (t\<lparr>tp_pending := pd\<rparr>) = inbox t" "inbox (t\<lparr>tp_slots := n\<rparr>) = inbox t"
  by (simp_all add: inbox_def)

lemma steady_set_ws: "tp_ws t \<noteq> None \<Longrightarrow> steady (t\<lparr>tp_ws := Some w\<rparr>) = steady t"
  by (simp add: steady_def)

lemma ws_send_leaves:
  assumes "ws_send t m = (r, t')"
  shows "steady t' = steady t" and "inbox t' = inbox t" and "tp_recv_seq t' = tp_recv_seq t"
    and "tp_send_seq t' = tp_send_seq t" and "tp_now t' = tp_now t"
  using assms
  by (auto simp: ws_send_def steady_def inbox_def split: option.splits if_splits)

lemma send_finish_leaves:
  assumes "send_finish t n = (r, t')"
  shows "steady t' = steady t" and "inbox t' = inbox t" and "tp_recv_seq t' = tp_recv_seq t"
    and "tp_now t' = tp_now t"
  using assms by (auto simp: send_finish_def split: sum.splits prod.splits)

lemma send_frame_leaves:
  assumes "send_frame C t ft p = (r, t')"
  shows "steady t' = steady t" and "inbox t' = inbox t" and "tp_recv_seq t' = tp_recv_seq t"
    and "tp_now t' = tp_now t"
  using assms
  by (auto simp: send_frame_def ws_send_leaves send_finish_leaves split: sum.splits prod.splits)

lemma dispatch_leaves:
  assumes "dispatch_frame C t ft p = (r, t')"
  shows "steady t' = steady t" and "inbox t' = inbox t" and "tp_recv_seq t' = tp_recv_seq t"
  using assms
  by (auto simp: dispatch_frame_def send_frame_leaves split: sum.splits prod.splits if_splits)

lemma recv_turn_leaves:
  assumes "recv_turn C t arrived m = (r, t')"
  shows "steady t' = steady t" and "inbox t' = inbox t"
  using assms dispatch_leaves(1,2)
  by (fastforce simp: recv_turn_def Let_def split: sum.splits prod.splits)+

lemma recv_loop_steady: "recv_loop C t ms = (r, t') \<Longrightarrow> steady t' = steady t"
proof (induction C t ms rule: recv_loop.induct)
  case (2 C t arrived m ms)
  obtain q u where turn: "recv_turn C (set_inbox ms t) arrived m = (q, u)"
    by (cases "recv_turn C (set_inbox ms t) arrived m")
  then have "steady u = steady t" using recv_turn_leaves(1) by fastforce
  with 2 turn show ?case by (cases q) auto
qed auto

lemma recv_loop_shrinks:
  "recv_loop C t ms = (Some r, t') \<Longrightarrow> tp_ws t \<noteq> None \<Longrightarrow> length (inbox t') < length ms"
proof (induction C t ms rule: recv_loop.induct)
  case (2 C t arrived m ms)
  obtain q u where turn: "recv_turn C (set_inbox ms t) arrived m = (q, u)"
    by (cases "recv_turn C (set_inbox ms t) arrived m")
  have u: "steady u = steady t" and i: "inbox u = ms"
    using recv_turn_leaves [OF turn] 2(3) by simp_all
  show ?case
  proof (cases q)
    case None
    with 2(1) [OF turn [symmetric] None] 2(2) turn 2(3) steadyD(6) [OF u] show ?thesis by simp
  next
    case (Some x)
    with 2 turn i show ?thesis by simp
  qed
qed auto

lemma recv_frame_shrinks:
  "recv_frame C t = (Some (Inr x), t') \<Longrightarrow> length (inbox t') < length (inbox t)"
  by (auto simp: recv_frame_def recv_loop_shrinks split: if_splits)

lemma recv_frame_steady: "recv_frame C t = (r, t') \<Longrightarrow> steady t' = steady t"
  by (auto simp: recv_frame_def recv_loop_steady split: if_splits)

section \<open>send_request\<close>

text \<open>
  \<open>pending.get(trace_id)\<close> on a dictionary with string keys: an unhashable key raises
  a \<open>TypeError\<close>, a key of another type finds nothing.
\<close>

fun pending_get :: "(string, future) dict \<Rightarrow> json \<Rightarrow> future option res" where
  "pending_get d (JStr s) = Inr (map_of d s)"
| "pending_get d (JArr _) = Inl TypeError"
| "pending_get d (JObj _) = Inl TypeError"
| "pending_get d _ = Inr None"

text \<open>Give another waiting request its outcome, unless it has one.\<close>

definition settle_other :: "relay_transport \<Rightarrow> json \<Rightarrow> future \<Rightarrow> unit res \<times> relay_transport" where
  "settle_other t tid outcome = (case pending_get (tp_pending t) tid of
     Inl e \<Rightarrow> (Inl e, t)
   | Inr (Some Unresolved) \<Rightarrow> (case tid of
        JStr s \<Rightarrow> (Inr (), t\<lparr>tp_pending := dict_set s outcome (tp_pending t)\<rparr>)
      | _ \<Rightarrow> (Inr (), t))
   | Inr _ \<Rightarrow> (Inr (), t))"

text \<open>
  \<open>future.set_result\<close> and \<open>set_exception\<close> on the request's own future raise
  \<open>InvalidStateError\<close> when another coroutine has already settled it.
\<close>

definition settle_own :: "relay_transport \<Rightarrow> string \<Rightarrow> response_payload res \<Rightarrow> response_payload res" where
  "settle_own t tid outcome = (case map_of (tp_pending t) tid of
     Some Unresolved \<Rightarrow> outcome
   | None \<Rightarrow> outcome
   | Some _ \<Rightarrow> Inl (LibError ''InvalidStateError''))"

definition error_text :: "pyrt \<Rightarrow> error_payload \<Rightarrow> string" where
  "error_text rt p = py_str rt (er_code p) @ '': '' @ py_str rt (er_message p)"

text \<open>One decoded frame in the request's loop: \<open>None\<close> is another turn.\<close>

definition request_turn ::
    "pyrt \<Rightarrow> string \<Rightarrow> relay_transport \<Rightarrow> int \<Rightarrow> bytes \<Rightarrow> response_payload res option \<times> relay_transport" where
  "request_turn rt tid t frame_type plaintext =
    (case deserialize_payload rt frame_type plaintext of
       Inl e \<Rightarrow> (Some (Inl e), t)
     | Inr (Some (Response p)) \<Rightarrow>
         if rs_trace_id p \<noteq> JStr tid
         then (case settle_other t (rs_trace_id p) (Resolved p) of
                 (Inl e, t') \<Rightarrow> (Some (Inl e), t')
               | (Inr _, t') \<Rightarrow> (None, t'))
         else (Some (settle_own t tid (Inr p)), t)
     | Inr (Some (Error p)) \<Rightarrow>
         if er_trace_id p = JNull \<or> er_trace_id p = JStr tid
         then (Some (settle_own t tid (Inl (RuntimeError (error_text rt p)))), t)
         else (case settle_other t (er_trace_id p) (Failed (RuntimeError (error_text rt p))) of
                 (Inl e, t') \<Rightarrow> (Some (Inl e), t')
               | (Inr _, t') \<Rightarrow> (None, t'))
     | Inr _ \<Rightarrow> (None, t))"

lemma settle_other_inbox: "settle_other t tid f = (r, t') \<Longrightarrow> inbox t' = inbox t"
  by (auto simp: settle_other_def split: sum.splits option.splits future.splits json.splits)

lemma request_turn_inbox: "request_turn rt tid t ft pt = (r, t') \<Longrightarrow> inbox t' = inbox t"
  by (auto simp: request_turn_def dest: settle_other_inbox
      split: sum.splits option.splits payload.splits if_splits prod.splits)

function request_loop ::
    "crypto_lib \<Rightarrow> pyrt \<Rightarrow> string \<Rightarrow> relay_transport \<Rightarrow> response_payload res option \<times> relay_transport" where
  "request_loop C rt tid t = (case recv_frame C t of
     (None, t1) \<Rightarrow> (None, t1)
   | (Some (Inl e), t1) \<Rightarrow> (Some (Inl e), t1)
   | (Some (Inr (frame_type, plaintext)), t1) \<Rightarrow>
       (case request_turn rt tid t1 frame_type plaintext of
          (Some r, t2) \<Rightarrow> (Some r, t2)
        | (None, t2) \<Rightarrow> request_loop C rt tid t2))"
  by pat_completeness auto

termination request_loop
  by (relation "measure (\<lambda>(C, rt, tid, t). length (inbox t))")
     (auto dest!: recv_frame_shrinks [OF sym] request_turn_inbox [OF sym])

declare request_loop.simps [simp del]

text \<open>
  \<open>send_request\<close> of a payload whose trace id is a string: take a slot (with none free
  the coroutine waits), register the future, send, loop, and in \<open>finally\<close> forget the future
  and give the slot back.
\<close>

definition release_slot :: "string \<Rightarrow> relay_transport \<Rightarrow> relay_transport" where
  "release_slot tid t = t\<lparr>tp_pending := dict_del tid (tp_pending t), tp_slots := tp_slots t + 1\<rparr>"

definition send_request ::
    "crypto_lib \<Rightarrow> pyrt \<Rightarrow> relay_transport \<Rightarrow> string \<Rightarrow> request_payload
      \<Rightarrow> response_payload res option \<times> relay_transport" where
  "send_request C rt t tid p =
    (if tp_slots t = 0 then (None, t)
     else
       let t0 = t\<lparr>tp_slots := tp_slots t - 1, tp_pending := dict_set tid Unresolved (tp_pending t)\<rparr>
       in (case serialize_payload rt (Request p) of
             Inl e \<Rightarrow> (Some (Inl e), release_slot tid t0)
           | Inr d \<Rightarrow>
             (case send_frame C t0 FRAME_REQUEST d of
                (Inl e, t1) \<Rightarrow> (Some (Inl e), release_slot tid t1)
              | (Inr _, t1) \<Rightarrow>
                  (case request_loop C rt tid t1 of
                     (None, t2) \<Rightarrow> (None, t2)
                   | (Some r, t2) \<Rightarrow> (Some r, release_slot tid t2)))))"

definition send_response ::
    "crypto_lib \<Rightarrow> pyrt \<Rightarrow> relay_transport \<Rightarrow> response_payload \<Rightarrow> unit res \<times> relay_transport" where
  "send_response C rt t p = (case serialize_payload rt (Response p) of
     Inl e \<Rightarrow> (Inl e, t)
   | Inr d \<Rightarrow> send_frame C t FRAME_RESPONSE d)"

section \<open>close\<close>

text \<open>\<open>asyncio.wait_for(recv_frame(), timeout=5)\<close>: the arrivals of the next five seconds.\<close>

definition recv_frame_within :: "crypto_lib \<Rightarrow> relay_transport \<Rightarrow> rat \<Rightarrow> (int \<times> bytes) res \<times> relay_transport" where
  "recv_frame_within C t seconds =
    (let deadline = tp_now t + seconds;
         early = takeWhile (\<lambda>am. fst am < deadline) (inbox t);
         late = drop (length early) (inbox t)
     in case recv_frame C (set_inbox early t) of
          (Some r, t1) \<Rightarrow> (r, set_inbox (inbox t1 @ late) t1)
        | (None, t1) \<Rightarrow> (Inl TimeoutExn, set_inbox late (t1\<lparr>tp_now := deadline\<rparr>)))"

definition close_ws :: "relay_transport \<Rightarrow> relay_transport" where
  "close_ws t = t\<lparr>tp_ws := map_option (\<lambda>w. w\<lparr>ws_up := False\<rparr>) (tp_ws t), tp_state := Closed\<rparr>"

definition close_transport ::
    "crypto_lib \<Rightarrow> pyrt \<Rightarrow> relay_transport \<Rightarrow> string \<Rightarrow> unit res \<times> relay_transport" where
  "close_transport C rt t reason =
    (if tp_state t = Closed then (Inr (), t)
     else
       let t0 = t\<lparr>tp_state := Closing, tp_heartbeat := Stopped\<rparr>
       in if tp_keys t0 = None \<or> tp_ws t0 = None then (Inr (), close_ws t0)
          else (case serialize_payload rt (Close (JStr reason) (JStr [])) of
             Inl e \<Rightarrow> (Inl e, close_ws t0)
           | Inr close_payload \<Rightarrow>
             (case send_frame C t0 FRAME_CLOSE close_payload of
                (Inl e, t1) \<Rightarrow> (Inl e, close_ws t1)
              | (Inr _, t1) \<Rightarrow>
                (case recv_frame_within C t1 5 of
                   (Inl TimeoutExn, t2) \<Rightarrow> (Inr (), close_ws t2)
                 | (Inl e, t2) \<Rightarrow> (Inl e, close_ws t2)
                 | (Inr (frame_type, _), t2) \<Rightarrow>
                     if frame_type \<noteq> FRAME_CLOSE_ACK
                     then (Inl (RuntimeError ''expected CLOSE_ACK''), close_ws t2)
                     else (Inr (), close_ws t2)))))"

section \<open>The heartbeat task\<close>

text \<open>
  The task wakes from its sleep at a loop time. A failed send ends it with the exception,
  which nobody awaits.
\<close>

definition heartbeat_wake :: "crypto_lib \<Rightarrow> pyrt \<Rightarrow> rat \<Rightarrow> relay_transport \<Rightarrow> relay_transport" where
  "heartbeat_wake C rt now t0 =
    (let t = t0\<lparr>tp_now := now\<rparr> in
     case tp_heartbeat t of
       Stopped \<Rightarrow> t0
     | Resting \<Rightarrow>
         if tp_state t \<noteq> Established then t\<lparr>tp_heartbeat := Stopped\<rparr>
         else if now - tp_last_activity t < 30 then t
         else (case send_frame C (t\<lparr>tp_awaiting_ack := True\<rparr>) FRAME_HEARTBEAT [] of
                 (Inl e, t1) \<Rightarrow> t1\<lparr>tp_heartbeat := Stopped\<rparr>
               | (Inr _, t1) \<Rightarrow> t1\<lparr>tp_heartbeat := Awaiting_Ack\<rparr>)
     | Awaiting_Ack \<Rightarrow>
         if tp_state t \<noteq> Established then t\<lparr>tp_heartbeat := Stopped\<rparr>
         else if tp_awaiting_ack t then
           let t1 = t\<lparr>tp_missed_heartbeats := tp_missed_heartbeats t + 1, tp_awaiting_ack := False\<rparr>
           in if tp_missed_heartbeats t1 \<ge> 3 then snd (close_transport C rt t1 ''error'')
              else t1\<lparr>tp_heartbeat := Resting\<rparr>
         else t\<lparr>tp_heartbeat := Resting\<rparr>)"

section \<open>connect\<close>

text \<open>
  The two handshake messages as JSON objects; the argument is the name of the node field.
  Reading one back is a call of the dataclass constructor with the members as keywords: an
  unknown or a missing keyword is a \<open>TypeError\<close>.
\<close>

abbreviation initiator_field :: string where "initiator_field \<equiv> ''initiator_node_id''"
abbreviation responder_field :: string where "responder_field \<equiv> ''responder_node_id''"

definition handshake_dict :: "string \<Rightarrow> handshake_msg \<Rightarrow> json" where
  "handshake_dict node_field msg = JObj [(''session_id'', hm_session_id msg), (node_field, hm_node_id msg),
     (''ephemeral_pubkey'', hm_ephemeral_pubkey msg), (''timestamp'', hm_timestamp msg),
     (''signature'', hm_signature msg), (''protocol_version'', hm_protocol_version msg)]"

definition json_message :: "pyrt \<Rightarrow> string \<Rightarrow> handshake_msg \<Rightarrow> string" where
  "json_message rt node_field msg = dumps rt '','' '':'' (jsort (handshake_dict node_field msg))"

definition handshake_of_json :: "string \<Rightarrow> json \<Rightarrow> handshake_msg res" where
  "handshake_of_json node_field v = rbind (expect_obj TypeError v) (\<lambda>m.
     let required = [''session_id'', node_field, ''ephemeral_pubkey'', ''timestamp'', ''signature'']
     in if list_all (\<lambda>k. k \<in> set (dict_keys m)) required
           \<and> list_all (\<lambda>k. k = ''protocol_version'' \<or> k \<in> set required) (dict_keys m)
        then Inr \<lparr>hm_session_id = jget m ''session_id'', hm_node_id = jget m node_field,
                  hm_ephemeral_pubkey = jget m ''ephemeral_pubkey'', hm_timestamp = jget m ''timestamp'',
                  hm_signature = jget m ''signature'',
                  hm_protocol_version = jget_or m ''protocol_version'' (JStr protocol_version)\<rparr>
        else Inl TypeError)"

text \<open>
  \<open>json.loads\<close> of a received message. Bytes that begin with a byte order mark or hold a
  zero among the first four would be read as another encoding, which the model leaves out.
\<close>

definition loads_ws :: "pyrt \<Rightarrow> ws_msg \<Rightarrow> json res" where
  "loads_ws rt m = (case m of
     Text s \<Rightarrow> loads rt s
   | Binary b \<Rightarrow> if 0 \<in> set (take 4 b) \<or> hd (b @ [0]) \<in> {0xFF, 0xFE, 0xEF} then Inl Unrepresentable
                 else rbind (utf8_decode b) (loads rt)
   | Broken e \<Rightarrow> Inl e)"

definition websocket_url :: "string \<Rightarrow> string" where
  "websocket_url relay_url =
    (if prefix ''ws://'' relay_url \<or> prefix ''wss://'' relay_url then relay_url
     else ''wss://'' @ relay_url)"

definition established :: "traffic_keys \<Rightarrow> relay_transport \<Rightarrow> relay_transport" where
  "established ks t = t\<lparr>tp_keys := Some ks, tp_last_activity := tp_now t, tp_state := Established,
     tp_heartbeat := Resting\<rparr>"

text \<open>The buyer's half, after the socket is open. The wall clock is read twice.\<close>

definition connect_initiator ::
    "crypto_lib \<Rightarrow> pyrt \<Rightarrow> bytes \<Rightarrow> int \<Rightarrow> int \<Rightarrow> relay_transport \<Rightarrow> string \<Rightarrow> bytes
      \<Rightarrow> unit res option \<times> relay_transport" where
  "connect_initiator C rt eph wall1 wall2 t session_id peer_pk =
    (case create_init C rt eph wall1 (tp_handshake t) session_id of
       (Inl e, h) \<Rightarrow> (Some (Inl e), t\<lparr>tp_handshake := h\<rparr>)
     | (Inr init_msg, h) \<Rightarrow>
       (case ws_send (t\<lparr>tp_handshake := h\<rparr>) (Text (json_message rt initiator_field init_msg)) of
          (Inl e, t1) \<Rightarrow> (Some (Inl e), t1)
        | (Inr _, t1) \<Rightarrow>
          (case inbox t1 of
             [] \<Rightarrow> (None, t1)
           | (arrived, m) # ms \<Rightarrow>
             let t2 = (set_inbox ms t1)\<lparr>tp_now := arrived\<rparr> in
             (case rbind (loads_ws rt m) (handshake_of_json responder_field) of
                Inl e \<Rightarrow> (Some (Inl e), t2)
              | Inr accept_msg \<Rightarrow>
                (case verify_accept C rt wall2 (tp_handshake t2) accept_msg peer_pk of
                   (Inl e, h2) \<Rightarrow> (Some (Inl e), t2\<lparr>tp_handshake := h2\<rparr>)
                 | (Inr result, h2) \<Rightarrow>
                     (Some (Inr ()), established (hr_traffic_keys result) (t2\<lparr>tp_handshake := h2\<rparr>)))))))"

definition connect_responder ::
    "crypto_lib \<Rightarrow> pyrt \<Rightarrow> bytes \<Rightarrow> int \<Rightarrow> int \<Rightarrow> relay_transport \<Rightarrow> string \<Rightarrow> string \<Rightarrow> bytes
      \<Rightarrow> unit res option \<times> relay_transport" where
  "connect_responder C rt eph wall1 wall2 t session_id peer_node_id peer_pk =
    (case inbox t of
       [] \<Rightarrow> (None, t)
     | (arrived, m) # ms \<Rightarrow>
       let t1 = (set_inbox ms t)\<lparr>tp_now := arrived\<rparr> in
       (case rbind (loads_ws rt m) (handshake_of_json initiator_field) of
          Inl e \<Rightarrow> (Some (Inl e), t1)
        | Inr init_msg \<Rightarrow>
          (case verify_init C rt wall1 (tp_handshake t1) init_msg session_id peer_node_id peer_pk of
             (Inl e, h) \<Rightarrow> (Some (Inl e), t1\<lparr>tp_handshake := h\<rparr>)
           | (Inr _, h) \<Rightarrow>
             (case hm_ephemeral_pubkey init_msg of
                JStr buyer_b64 \<Rightarrow>
                (case create_accept C rt eph wall2 h session_id buyer_b64 of
                   (Inl e, h2) \<Rightarrow> (Some (Inl e), t1\<lparr>tp_handshake := h2\<rparr>)
                 | (Inr accept_msg, h2) \<Rightarrow>
                   (case ws_send (t1\<lparr>tp_handshake := h2\<rparr>) (Text (json_message rt responder_field accept_msg)) of
                      (Inl e, t2) \<Rightarrow> (Some (Inl e), t2)
                    | (Inr _, t2) \<Rightarrow>
                      (case rbind (decode_body (JStr buyer_b64))
                              (\<lambda>bs. compute_shared_secret_and_keys C h2 bs session_id) of
                         Inl e \<Rightarrow> (Some (Inl e), t2)
                       | Inr ks \<Rightarrow> (Some (Inr ()), established ks t2))))
              | _ \<Rightarrow> (Some (Inl TypeError), t1\<lparr>tp_handshake := h\<rparr>)))))"

definition connect_transport ::
    "crypto_lib \<Rightarrow> pyrt \<Rightarrow> (string \<Rightarrow> websocket res) \<Rightarrow> bytes \<Rightarrow> int \<Rightarrow> int \<Rightarrow> relay_transport
      \<Rightarrow> string \<Rightarrow> string \<Rightarrow> string \<Rightarrow> bytes \<Rightarrow> bool \<Rightarrow> unit res option \<times> relay_transport" where
  "connect_transport C rt ws_connect eph wall1 wall2 t relay_url session_id peer_node_id peer_pk is_initiator =
    (let t1 = t\<lparr>tp_state := Connecting, tp_is_initiator := is_initiator\<rparr> in
     case ws_connect (websocket_url relay_url) of
       Inl e \<Rightarrow> (Some (Inl e), t1)
     | Inr w \<Rightarrow>
       let t2 = t1\<lparr>tp_ws := Some w, tp_state := Handshaking\<rparr> in
       if is_initiator then connect_initiator C rt eph wall1 wall2 t2 session_id peer_pk
       else connect_responder C rt eph wall1 wall2 t2 session_id peer_node_id peer_pk)"

section \<open>Handshake messages on the wire\<close>

lemma jsort_init:
  "jsort (handshake_dict initiator_field m) = JObj [(''ephemeral_pubkey'', jsort (hm_ephemeral_pubkey m)),
     (initiator_field, jsort (hm_node_id m)), (''protocol_version'', jsort (hm_protocol_version m)),
     (''session_id'', jsort (hm_session_id m)), (''signature'', jsort (hm_signature m)),
     (''timestamp'', jsort (hm_timestamp m))]"
  by (simp add: handshake_dict_def sort_key_def less_char_def less_eq_char_def)

lemma jsort_accept:
  "jsort (handshake_dict responder_field m) = JObj [(''ephemeral_pubkey'', jsort (hm_ephemeral_pubkey m)),
     (''protocol_version'', jsort (hm_protocol_version m)), (responder_field, jsort (hm_node_id m)),
     (''session_id'', jsort (hm_session_id m)), (''signature'', jsort (hm_signature m)),
     (''timestamp'', jsort (hm_timestamp m))]"
  by (simp add: handshake_dict_def sort_key_def less_char_def less_eq_char_def)

definition msg_typed :: "handshake_msg \<Rightarrow> bool" where
  "msg_typed m \<longleftrightarrow> list_all is_str [hm_session_id m, hm_node_id m, hm_ephemeral_pubkey m,
     hm_signature m, hm_protocol_version m] \<and> is_int (hm_timestamp m)"

lemma jsort_scalar [simp]: "is_str v \<Longrightarrow> jsort v = v" "is_int v \<Longrightarrow> jsort v = v"
  by (cases v; simp)+

lemma jwf_scalar [simp]: "is_str v \<Longrightarrow> jwf v" "is_int v \<Longrightarrow> jwf v"
  by (cases v; simp)+

lemma handshake_read_back:
  assumes "node_field \<in> {initiator_field, responder_field}" and "msg_typed m"
  shows "\<exists>d. jsort (handshake_dict node_field m) = JObj d
     \<and> handshake_of_json node_field (JObj d) = Inr m"
proof -
  from assms(1) consider "node_field = initiator_field" | "node_field = responder_field" by blast
  then show ?thesis
  proof cases
    case 1
    show ?thesis unfolding 1 jsort_init using assms(2)
      by (simp add: handshake_of_json_def jget_def jget_or_def msg_typed_def)
  next
    case 2
    show ?thesis unfolding 2 jsort_accept using assms(2)
      by (simp add: handshake_of_json_def jget_def jget_or_def msg_typed_def)
  qed
qed

lemma handshake_wire:
  assumes "node_field \<in> {initiator_field, responder_field}" and "msg_typed m"
  shows "rbind (loads_ws rt (Text (json_message rt node_field m))) (handshake_of_json node_field) = Inr m"
proof -
  obtain d where d: "jsort (handshake_dict node_field m) = JObj d"
      "handshake_of_json node_field (JObj d) = Inr m"
    using handshake_read_back [OF assms] by blast
  have "jwf (handshake_dict node_field m)"
    using assms by (auto simp: handshake_dict_def msg_typed_def)
  then have "jwf (JObj d)" using jwf_jsort d(1) by metis
  then have "loads rt (dumps rt '','' '':'' (JObj d)) = Inr (JObj d)"
    by (rule json_compact.dec_enc)
  with d show ?thesis by (simp add: loads_ws_def json_message_def del: dumps.simps)
qed

end
