(* ===== verification/RelayChannel.thy ===== *)
theory RelayChannel
  imports RelayTransport
begin

text \<open>
  What the relay transport provides: both ends of an honest handshake hold the same keys, and
  the encrypted channel is an ordered stream - what one side reads is a prefix of what the
  other sent, whatever the relay in between replays, drops, reorders or makes up.
\<close>

section \<open>The handshake over the socket\<close>

lemma honest_typed: "msg_typed (honest_init C nid k a t sid)" "msg_typed (honest_accept C nid k b p t sid)"
  by (simp_all add: msg_typed_def honest_init_def honest_accept_def)

definition init_text :: "crypto_lib \<Rightarrow> pyrt \<Rightarrow> handshake_manager \<Rightarrow> bytes \<Rightarrow> int \<Rightarrow> string \<Rightarrow> ws_msg" where
  "init_text C rt h a now sid =
     Text (json_message rt initiator_field (honest_init C (hs_node_id h) (hs_ed_priv h) a now sid))"

definition accept_text ::
    "crypto_lib \<Rightarrow> pyrt \<Rightarrow> handshake_manager \<Rightarrow> bytes \<Rightarrow> bytes \<Rightarrow> int \<Rightarrow> string \<Rightarrow> ws_msg" where
  "accept_text C rt h b a now sid =
     Text (json_message rt responder_field
       (honest_accept C (hs_node_id h) (hs_ed_priv h) b (x_public C a) now sid))"

lemma init_text_read:
  "rbind (loads_ws rt (init_text C rt h a now sid)) (handshake_of_json initiator_field)
     = Inr (honest_init C (hs_node_id h) (hs_ed_priv h) a now sid)"
  unfolding init_text_def by (rule handshake_wire) (simp_all add: honest_typed)

lemma accept_text_read:
  "rbind (loads_ws rt (accept_text C rt h b a now sid)) (handshake_of_json responder_field)
     = Inr (honest_accept C (hs_node_id h) (hs_ed_priv h) b (x_public C a) now sid)"
  unfolding accept_text_def by (rule handshake_wire) (simp_all add: honest_typed)

lemma connect_initiator_honest:
  assumes "sig_ok C" and "dh_ok C" and "x_exchange C a (x_public C b) = Inr z"
    and "hs_state (tp_handshake t) = IDLE" and "\<bar>t3 - t2\<bar> \<le> max_clock_skew_ms"
    and "tp_ws t = Some \<lparr>ws_inbox = [(u, accept_text C rt hs b a t2 sid)], ws_sent = [], ws_up = True\<rparr>"
  shows "\<exists>t'. connect_initiator C rt a t0 t3 t sid (ed_public C (hs_ed_priv hs)) = (Some (Inr ()), t')
    \<and> sent t' = [init_text C rt (tp_handshake t) a t0 sid]
    \<and> tp_keys t' = Some (derive_traffic_keys C z sid) \<and> tp_state t' = Established
    \<and> tp_is_initiator t' = tp_is_initiator t \<and> tp_send_seq t' = tp_send_seq t
    \<and> tp_recv_seq t' = tp_recv_seq t"
  using assms
  by (simp add: connect_initiator_def create_init_idle ws_send_def inbox_def set_inbox_def Let_def
      accept_text_read verify_accept_honest [OF assms(1-3,5)] established_def sent_def init_text_def)

lemma connect_responder_honest:
  assumes "sig_ok C" and "dh_ok C" and "x_exchange C a (x_public C b) = Inr z"
    and "hs_state (tp_handshake t) = IDLE" and "\<bar>t1 - t0\<bar> \<le> max_clock_skew_ms"
    and "tp_ws t = Some \<lparr>ws_inbox = [(u, init_text C rt hb a t0 sid)], ws_sent = [], ws_up = True\<rparr>"
  shows "\<exists>t'. connect_responder C rt b t1 t2 t sid (hs_node_id hb) (ed_public C (hs_ed_priv hb))
      = (Some (Inr ()), t')
    \<and> sent t' = [accept_text C rt (tp_handshake t) b a t2 sid]
    \<and> tp_keys t' = Some (derive_traffic_keys C z sid) \<and> tp_state t' = Established
    \<and> tp_is_initiator t' = tp_is_initiator t \<and> tp_send_seq t' = tp_send_seq t
    \<and> tp_recv_seq t' = tp_recv_seq t"
proof -
  have z: "x_exchange C b (x_public C a) = Inr z" and len: "length (x_public C a) = 32"
    using assms(2,3) by (simp_all add: dh_ok_def)
  have eph: "hm_ephemeral_pubkey (honest_init C n k a t0 sid) = JStr (b64encode (x_public C a))" for n k
    by (simp add: honest_init_def)
  show ?thesis
    using assms z len
    by (simp add: connect_responder_def ws_send_def inbox_def set_inbox_def Let_def init_text_read
        verify_init_honest [OF assms(1,2,5)] eph create_accept_received [OF assms(2) z] established_def
        sent_def accept_text_def compute_shared_secret_and_keys_def x_from_public_bytes_def)
qed

section \<open>Sending a list of frames\<close>

fun send_all :: "crypto_lib \<Rightarrow> relay_transport \<Rightarrow> (int \<times> bytes) list \<Rightarrow> unit res \<times> relay_transport" where
  "send_all C t [] = (Inr (), t)"
| "send_all C t (f # fs) = (case send_frame C t (fst f) (snd f) of
      (Inl e, t') \<Rightarrow> (Inl e, t')
    | (Inr _, t') \<Rightarrow> send_all C t' fs)"

text \<open>The wire frames of consecutive numbers from \<open>n\<close> on.\<close>

fun sealed :: "crypto_lib \<Rightarrow> bytes \<Rightarrow> bytes \<Rightarrow> int \<Rightarrow> (int \<times> bytes) list \<Rightarrow> bytes list \<Rightarrow> bool" where
  "sealed C key np n [] raws \<longleftrightarrow> raws = []"
| "sealed C key np n (f # fs) raws \<longleftrightarrow> (\<exists>raw rest. raws = raw # rest
     \<and> encrypt_frame C key np n (fst f) (snd f) = Inr raw \<and> sealed C key np (n + 1) fs rest)"

lemma send_frame_Inr:
  assumes "send_frame C t ft p = (Inr u, t')" and "tp_keys t = Some ks"
    and "outbound_key_material (tp_is_initiator t) ks = (key, np)"
  shows "\<exists>raw. encrypt_frame C key np (next_expected (tp_send_seq t)) ft p = Inr raw
    \<and> sent t' = sent t @ [Binary raw] \<and> next_expected (tp_send_seq t') = next_expected (tp_send_seq t) + 1
    \<and> tp_keys t' = Some ks \<and> tp_is_initiator t' = tp_is_initiator t"
  using assms
  by (auto simp: send_frame_def send_begin_def next_sequence_def rbind_Inr_iff ws_send_def
      send_finish_def validate_and_advance_def sent_def Let_def split: sum.splits option.splits if_splits)

lemma send_all_sealed:
  assumes "send_all C t fs = (Inr u, t')" and "tp_keys t = Some ks"
    and "outbound_key_material (tp_is_initiator t) ks = (key, np)"
  shows "\<exists>raws. sealed C key np (next_expected (tp_send_seq t)) fs raws
    \<and> sent t' = sent t @ map Binary raws
    \<and> next_expected (tp_send_seq t') = next_expected (tp_send_seq t) + int (length fs)"
  using assms
proof (induction fs arbitrary: t)
  case (Cons f fs)
  obtain r t1 where s: "send_frame C t (fst f) (snd f) = (r, t1)" by fastforce
  with Cons.prems(1) have r: "r = Inr ()" and rest: "send_all C t1 fs = (Inr u, t')"
    by (auto split: sum.splits)
  from send_frame_Inr [OF s [unfolded r] Cons.prems(2,3)] obtain raw where
    raw: "encrypt_frame C key np (next_expected (tp_send_seq t)) (fst f) (snd f) = Inr raw"
    "sent t1 = sent t @ [Binary raw]" "next_expected (tp_send_seq t1) = next_expected (tp_send_seq t) + 1"
    "tp_keys t1 = Some ks" "tp_is_initiator t1 = tp_is_initiator t" by blast
  from Cons.IH [OF rest raw(4)] Cons.prems(3) raw(5) obtain raws where
    "sealed C key np (next_expected (tp_send_seq t1)) fs raws" "sent t' = sent t1 @ map Binary raws"
    "next_expected (tp_send_seq t') = next_expected (tp_send_seq t1) + int (length fs)" by auto
  with raw show ?case by (intro exI [of _ "raw # raws"]) simp
qed auto

lemma sealed_length: "sealed C key np n fs raws \<Longrightarrow> length raws = length fs"
  by (induction fs arbitrary: n raws) auto

lemma sealed_decrypt:
  assumes "aead_ok C" and "sealed C key np n fs raws" and "raw \<in> set raws"
    and "decrypt_frame C key np raw = Inr (ft, sq, pt)"
  shows "\<exists>i < length fs. sq = n + int i \<and> fs ! i = (ft, pt)"
  using assms(2,3)
proof (induction fs arbitrary: n raws)
  case (Cons f fs)
  then obtain r rest where rs: "raws = r # rest"
      "encrypt_frame C key np n (fst f) (snd f) = Inr r" "sealed C key np (n + 1) fs rest" by auto
  show ?case
  proof (cases "raw = r")
    case True
    with decrypt_encrypt_frame [OF assms(1) rs(2)] assms(4) show ?thesis
      by (intro exI [of _ 0]) auto
  next
    case False
    with Cons.prems(2) rs(1) have "raw \<in> set rest" by simp
    from Cons.IH [OF rs(3) this] obtain i where "i < length fs" "sq = n + 1 + int i" "fs ! i = (ft, pt)" by blast
    then show ?thesis by (intro exI [of _ "Suc i"]) auto
  qed
qed auto

lemma sealed_nth:
  "sealed C key np n fs raws \<Longrightarrow> i < length fs \<Longrightarrow>
     encrypt_frame C key np (n + int i) (fst (fs ! i)) (snd (fs ! i)) = Inr (raws ! i)"
proof (induction fs arbitrary: n raws i)
  case (Cons f fs)
  from Cons.prems(1) obtain r rest where rs: "raws = r # rest"
      "encrypt_frame C key np n (fst f) (snd f) = Inr r" "sealed C key np (n + 1) fs rest" by auto
  show ?case
  proof (cases i)
    case (Suc j)
    with Cons.IH [OF rs(3), of j] Cons.prems(2) rs(1) show ?thesis by (simp add: algebra_simps)
  qed (use rs in simp)
qed simp

section \<open>Receiving\<close>

text \<open>Everything a reader gets that calls \<open>recv_frame\<close> again and again, errors included.\<close>

fun recv_results :: "crypto_lib \<Rightarrow> relay_transport \<Rightarrow> (rat \<times> ws_msg) list \<Rightarrow> (int \<times> bytes) res list" where
  "recv_results C t [] = []"
| "recv_results C t ((arrived, m) # ms) =
    (case recv_turn C (set_inbox ms t) arrived m of
       (Some r, t') \<Rightarrow> r # recv_results C t' ms
     | (None, t') \<Rightarrow> recv_results C t' ms)"

lemma recv_loop_results:
  "tp_ws t \<noteq> None \<Longrightarrow> (case recv_loop C t ms of
     (Some r, t') \<Rightarrow> recv_results C t ms = r # recv_results C t' (inbox t')
   | (None, t') \<Rightarrow> recv_results C t ms = [] \<and> inbox t' = [])"
proof (induction C t ms rule: recv_loop.induct)
  case (2 C t arrived m ms)
  obtain q u where turn: "recv_turn C (set_inbox ms t) arrived m = (q, u)"
    by (cases "recv_turn C (set_inbox ms t) arrived m")
  note l = recv_turn_leaves [OF turn]
  from l(1) 2(2) have "tp_ws u \<noteq> None" using steadyD(6) by fastforce
  with 2(1) [OF turn [symmetric]] turn l(2) 2(2) show ?case
    by (cases q) (auto split: prod.splits option.splits)
qed simp

text \<open>The application frames among them. A \<open>CLOSE\<close> is left out: its answer may fail to be sent.\<close>

definition is_data :: "int \<Rightarrow> bool" where
  "is_data ft \<longleftrightarrow> ft \<notin> {FRAME_HEARTBEAT, FRAME_HEARTBEAT_ACK, FRAME_CLOSE}"

definition data_only :: "(int \<times> bytes) list \<Rightarrow> (int \<times> bytes) list" where
  "data_only fs = filter (\<lambda>f. is_data (fst f)) fs"

fun oks :: "'a res list \<Rightarrow> 'a list" where
  "oks [] = []"
| "oks (Inr x # r) = x # oks r"
| "oks (Inl e # r) = oks r"

lemma data_only_simps [simp]:
  "data_only [] = []"
  "data_only (f # fs) = (if is_data (fst f) then f # data_only fs else data_only fs)"
  by (simp_all add: data_only_def)

lemma dispatch_data:
  assumes "dispatch_frame C t ft pt = (r, t')"
  shows "if is_data ft then r = Some (Inr (ft, pt))
         else (r = None \<or> (\<exists>e. r = Some (Inl e)) \<or> (\<exists>x. r = Some (Inr (FRAME_CLOSE, x))))"
  using assms by (auto simp: dispatch_frame_def is_data_def split: sum.splits prod.splits if_splits)

lemma not_data_close [simp]: "\<not> is_data FRAME_CLOSE"
  by (simp add: is_data_def)

text \<open>One turn either refuses the message and keeps the tracker, or opens the frame expected next.\<close>

lemma recv_turn_cases:
  assumes "recv_turn C t arrived m = (r, t')"
  obtains (refused) e where "r = Some (Inl e)" "tp_recv_seq t' = tp_recv_seq t"
      "\<And>ft pt. open_frame C t m \<noteq> Inr (ft, next_expected (tp_recv_seq t), pt)"
  | (opened) ft pt where "open_frame C t m = Inr (ft, next_expected (tp_recv_seq t), pt)"
      "next_expected (tp_recv_seq t') = next_expected (tp_recv_seq t) + 1"
      "if is_data ft then r = Some (Inr (ft, pt))
       else (r = None \<or> (\<exists>e. r = Some (Inl e)) \<or> (\<exists>x. r = Some (Inr (FRAME_CLOSE, x))))"
proof -
  have o: "open_frame C (t\<lparr>tp_now := arrived\<rparr>) m = open_frame C t m"
    by (simp add: open_frame_def split: option.split)
  show ?thesis
  proof (cases "open_frame C t m")
    case (Inl e)
    with assms show ?thesis by (intro refused [of e]) (auto simp: recv_turn_def Let_def o)
  next
    case (Inr x)
    obtain ft sq pt where x: "x = (ft, sq, pt)" by (cases x)
    show ?thesis
    proof (cases "sq = next_expected (tp_recv_seq t)")
      case False
      with Inr x assms show ?thesis
        by (intro refused) (auto simp: recv_turn_def Let_def o validate_and_advance_def)
    next
      case True
      let ?t = "t\<lparr>tp_now := arrived, tp_recv_seq := (tp_recv_seq t)\<lparr>next_expected := sq + 1\<rparr>,
                  tp_last_activity := arrived\<rparr>"
      from assms Inr x True have d: "dispatch_frame C ?t ft pt = (r, t')"
        by (simp add: recv_turn_def Let_def o validate_and_advance_def)
      from dispatch_leaves(3) [OF d] have "next_expected (tp_recv_seq t') = sq + 1" by simp
      with Inr x True dispatch_data [OF d] show ?thesis by (intro opened) auto
    qed
  qed
qed

text \<open>The frame expected next is never refused, and what is opened under that number is that frame.\<close>

lemma refused_is_not_next:
  assumes "aead_ok C" and "sealed C key np 0 fs raws"
    and "tp_keys t = Some ks" and "inbound_key_material (tp_is_initiator t) ks = (key, np)"
    and "\<And>ft pt. open_frame C t m \<noteq> Inr (ft, int j, pt)" and "j < length fs"
  shows "m \<noteq> Binary (raws ! j)"
proof
  assume m: "m = Binary (raws ! j)"
  have "decrypt_frame C key np (raws ! j) = Inr (fst (fs ! j), int j, snd (fs ! j))"
    using sealed_nth [OF assms(2,6)] decrypt_encrypt_frame [OF assms(1)] by simp
  with m assms(3,4) assms(5) [of "fst (fs ! j)" "snd (fs ! j)"] show False by (simp add: open_frame_def)
qed

lemma opened_is_next:
  assumes "aead_ok C" and "sealed C key np 0 fs raws"
    and "tp_keys t = Some ks" and "inbound_key_material (tp_is_initiator t) ks = (key, np)"
    and "open_frame C t m = Inr (ft, int j, pt)"
    and "\<forall>raw x. m = Binary raw \<and> decrypt_frame C key np raw = Inr x \<longrightarrow> raw \<in> set raws"
  shows "j < length fs \<and> fs ! j = (ft, pt)"
proof -
  obtain raw where raw: "m = Binary raw" "decrypt_frame C key np raw = Inr (ft, int j, pt)"
    using assms(3-5) by (cases m) (auto simp: open_frame_def split: if_splits)
  with assms(6) have "raw \<in> set raws" by auto
  from sealed_decrypt [OF assms(1,2) this raw(2)] show ?thesis by auto
qed

text \<open>
  The reader's position in the sender's list only moves forward, one frame at a time: what is
  still to come is a prefix of what is left, all of it when the relay delivers all of it.
\<close>

lemma recv_results_prefix:
  assumes "aead_ok C" and "sealed C key np 0 fs raws"
    and "tp_ws t \<noteq> None" and "tp_keys t = Some ks" and "inbound_key_material (tp_is_initiator t) ks = (key, np)"
    and "next_expected (tp_recv_seq t) = int j" and "j \<le> length fs"
    and "\<forall>raw x. Binary raw \<in> set (map snd ms) \<and> decrypt_frame C key np raw = Inr x \<longrightarrow> raw \<in> set raws"
  shows "\<exists>k. j \<le> k \<and> k \<le> length fs
     \<and> data_only (oks (recv_results C t ms)) = data_only (take (k - j) (drop j fs))
     \<and> (map snd ms = map Binary (drop j raws) \<longrightarrow> k = length fs)"
  using assms(3-8)
proof (induction ms arbitrary: t j)
  case Nil
  have "length raws = length fs" using assms(2) sealed_length by blast
  with Nil show ?case by (intro exI [of _ j]) auto
next
  case (Cons am ms)
  obtain arrived m where am: "am = (arrived, m)" by (cases am)
  obtain r t' where turn: "recv_turn C (set_inbox ms t) arrived m = (r, t')"
    by (cases "recv_turn C (set_inbox ms t) arrived m")
  have st: "tp_ws t' \<noteq> None" "tp_keys t' = Some ks" "tp_is_initiator t' = tp_is_initiator t"
    using steadyD [OF recv_turn_leaves(1) [OF turn]] Cons.prems(1,2)
    by (auto simp: set_inbox_def)
  note ih = Cons.IH [OF st(1,2), unfolded st(3), OF Cons.prems(3)]
  have nx: "next_expected (tp_recv_seq (set_inbox ms t)) = int j" and k0: "tp_keys (set_inbox ms t) = Some ks"
    "inbound_key_material (tp_is_initiator (set_inbox ms t)) ks = (key, np)"
    using Cons.prems(2-4) by simp_all
  have adv: "\<forall>raw x. Binary raw \<in> set (map snd ms) \<and> decrypt_frame C key np raw = Inr x \<longrightarrow> raw \<in> set raws"
    using Cons.prems(6) by auto
  from turn show ?case
  proof (cases rule: recv_turn_cases)
    case (refused e)
    from ih [of j] refused(2) Cons.prems(4,5) adv obtain k where k: "j \<le> k" "k \<le> length fs"
      "data_only (oks (recv_results C t' ms)) = data_only (take (k - j) (drop j fs))" by auto
    have "m \<noteq> Binary (raws ! j)" if "j < length fs"
      using refused_is_not_next [OF assms(1,2) k0 _ that] refused(3) nx by simp
    then have "map snd (am # ms) \<noteq> map Binary (drop j raws)"
      using sealed_length [OF assms(2)] am by (cases "j < length fs") (auto simp: Cons_nth_drop_Suc [symmetric])
    with k refused(1) turn am show ?thesis by (intro exI [of _ k]) auto
  next
    case (opened ft pt)
    have j: "j < length fs" "fs ! j = (ft, pt)"
      using opened_is_next [OF assms(1,2) k0, of m ft j pt] opened(1) nx Cons.prems(6) am by auto
    have j1: "next_expected (tp_recv_seq t') = int (Suc j)" using opened(2) nx by simp
    from ih [OF j1 _ adv] j(1) obtain k where k: "Suc j \<le> k" "k \<le> length fs"
      "data_only (oks (recv_results C t' ms)) = data_only (take (k - Suc j) (drop (Suc j) fs))"
      "map snd ms = map Binary (drop (Suc j) raws) \<longrightarrow> k = length fs" by auto
    have "take (k - j) (drop j fs) = (ft, pt) # take (k - Suc j) (drop (Suc j) fs)"
      using k(1) j by (simp add: Cons_nth_drop_Suc [symmetric] Suc_diff_le take_Cons')
    moreover have "map snd (am # ms) = map Binary (drop j raws) \<Longrightarrow> map snd ms = map Binary (drop (Suc j) raws)"
      using j(1) sealed_length [OF assms(2)] by (simp add: Cons_nth_drop_Suc [symmetric])
    moreover have "data_only (oks (recv_results C t (am # ms)))
        = (if is_data ft then (ft, pt) # data_only (oks (recv_results C t' ms))
           else data_only (oks (recv_results C t' ms)))"
      using opened(3) turn am by (auto split: if_splits)
    ultimately show ?thesis using k by (intro exI [of _ k]) auto
  qed
qed

section \<open>Requests\<close>

text \<open>The trace ids with a registered future.\<close>

definition waiting :: "relay_transport \<Rightarrow> string set" where
  "waiting t = dom (map_of (tp_pending t))"

lemma settle_other_keeps:
  "settle_other t tid f = (r, t') \<Longrightarrow> tp_slots t' = tp_slots t
     \<and> waiting t' = waiting t"
  by (auto simp: waiting_def settle_other_def split: sum.splits option.splits future.splits json.splits if_splits)

lemma settle_own_Inr: "settle_own t tid x = Inr p \<Longrightarrow> x = Inr p"
  by (auto simp: settle_own_def split: option.splits future.splits)

lemma request_turn_result:
  assumes "request_turn rt tid t ft pt = (r, t')"
  shows "tp_slots t' = tp_slots t \<and> waiting t' = waiting t
    \<and> (\<forall>p. r = Some (Inr p) \<longrightarrow> ft = FRAME_RESPONSE
          \<and> deserialize_payload rt ft pt = Inr (Some (Response p)) \<and> rs_trace_id p = JStr tid)"
proof -
  have "ft = FRAME_RESPONSE" if "deserialize_payload rt ft pt = Inr (Some (Response p))" for p
    using deserialize_validates [OF that] by simp
  then show ?thesis
    using assms
    by (auto simp: request_turn_def dest!: settle_own_Inr dest: settle_other_keeps
        split: sum.splits option.splits payload.splits if_splits prod.splits)
qed

lemma request_loop_result:
  "request_loop C rt tid t = (r, t') \<Longrightarrow> tp_slots t' = tp_slots t
    \<and> waiting t' = waiting t
    \<and> (\<forall>p. r = Some (Inr p) \<longrightarrow> rs_trace_id p = JStr tid)"
proof (induction C rt tid t rule: request_loop.induct)
  case (1 C rt tid t)
  obtain q t1 where rf: "recv_frame C t = (q, t1)" by (cases "recv_frame C t")
  have s: "waiting t1 = waiting t" "tp_slots t1 = tp_slots t"
    using steadyD [OF recv_frame_steady [OF rf]] by (simp_all add: waiting_def)
  note unf = "1.prems" [unfolded request_loop.simps [of C rt tid t] rf]
  show ?case
  proof (cases "\<exists>ft pt. q = Some (Inr (ft, pt))")
    case False
    with unf have "t' = t1 \<and> (\<forall>p. r \<noteq> Some (Inr p))" by (auto split: option.splits sum.splits)
    with s show ?thesis by simp
  next
    case True
    then obtain ft pt where q: "q = Some (Inr (ft, pt))" by blast
    obtain y t2 where rq: "request_turn rt tid t1 ft pt = (y, t2)"
      by (cases "request_turn rt tid t1 ft pt")
    note rr = request_turn_result [OF rq]
    show ?thesis
    proof (cases y)
      case None
      with unf q rq have "request_loop C rt tid t2 = (r, t')" by simp
      with "1.IH" [OF rf [symmetric] q refl refl rq [symmetric] None] rr s show ?thesis by simp
    next
      case (Some z)
      with unf q rq have "r = Some z" "t' = t2" by auto
      with rr s Some show ?thesis by simp
    qed
  qed
qed

section \<open>Properties\<close>

text \<open>C1: when an honest buyer and an honest seller each run \<open>connect\<close> for one session, with clocks at
  most 30 s apart, and the relay passes their two messages on, both calls succeed, the text each side
  sent is exactly the text the other one read, both sides are established and they hold the same
  traffic keys, derived from the shared secret and the session id.\<close>

theorem relay_agreement:
  assumes "sig_ok C" and "dh_ok C" and "x_exchange C a (x_public C b) = Inr z"
    and "hs_state (tp_handshake tb) = IDLE" and "hs_state (tp_handshake ts) = IDLE"
    and "\<bar>w1 - w0\<bar> \<le> 30000" and "\<bar>w3 - w2\<bar> \<le> 30000"
    and "open_b (websocket_url url_b) = Inr \<lparr>ws_inbox = [(u1, accept_text C rt (tp_handshake ts) b a w2 sid)],
           ws_sent = [], ws_up = True\<rparr>"
    and "open_s (websocket_url url_s) = Inr \<lparr>ws_inbox = [(u2, init_text C rt (tp_handshake tb) a w0 sid)],
           ws_sent = [], ws_up = True\<rparr>"
  shows "\<exists>tb' ts' ks.
      connect_transport C rt open_b a w0 w3 tb url_b sid (hs_node_id (tp_handshake ts))
        (ed_public C (hs_ed_priv (tp_handshake ts))) True = (Some (Inr ()), tb')
    \<and> connect_transport C rt open_s b w1 w2 ts url_s sid (hs_node_id (tp_handshake tb))
        (ed_public C (hs_ed_priv (tp_handshake tb))) False = (Some (Inr ()), ts')
    \<and> sent tb' = [init_text C rt (tp_handshake tb) a w0 sid]
    \<and> sent ts' = [accept_text C rt (tp_handshake ts) b a w2 sid]
    \<and> tp_state tb' = Established \<and> tp_state ts' = Established
    \<and> ks = derive_traffic_keys C z sid \<and> tp_keys tb' = Some ks \<and> tp_keys ts' = Some ks
    \<and> outbound_key_material (tp_is_initiator tb') ks = inbound_key_material (tp_is_initiator ts') ks"
proof -
  let ?tb = "tb\<lparr>tp_is_initiator := True,
    tp_ws := Some \<lparr>ws_inbox = [(u1, accept_text C rt (tp_handshake ts) b a w2 sid)], ws_sent = [], ws_up = True\<rparr>, tp_state := Handshaking\<rparr>"
  let ?ts = "ts\<lparr>tp_is_initiator := False,
    tp_ws := Some \<lparr>ws_inbox = [(u2, init_text C rt (tp_handshake tb) a w0 sid)], ws_sent = [], ws_up = True\<rparr>, tp_state := Handshaking\<rparr>"
  have b: "\<bar>w3 - w2\<bar> \<le> max_clock_skew_ms" "\<bar>w1 - w0\<bar> \<le> max_clock_skew_ms"
    using assms(6,7) by (simp_all add: max_clock_skew_ms_def)
  obtain tb' where tb': "connect_initiator C rt a w0 w3 ?tb sid (ed_public C (hs_ed_priv (tp_handshake ts)))
        = (Some (Inr ()), tb')" "sent tb' = [init_text C rt (tp_handshake tb) a w0 sid]"
      "tp_keys tb' = Some (derive_traffic_keys C z sid)" "tp_state tb' = Established" "tp_is_initiator tb'"
    using connect_initiator_honest [OF assms(1-3), of ?tb w3 w2 u1 rt "tp_handshake ts" sid w0]
      assms(4) b(1) by auto
  obtain ts' where ts': "connect_responder C rt b w1 w2 ?ts sid (hs_node_id (tp_handshake tb))
        (ed_public C (hs_ed_priv (tp_handshake tb)))
        = (Some (Inr ()), ts')" "sent ts' = [accept_text C rt (tp_handshake ts) b a w2 sid]"
      "tp_keys ts' = Some (derive_traffic_keys C z sid)" "tp_state ts' = Established" "\<not> tp_is_initiator ts'"
    using connect_responder_honest [OF assms(1-3), of ?ts w1 w0 u2 rt "tp_handshake tb" sid w2]
      assms(5) b(2) by auto
  have "connect_transport C rt open_b a w0 w3 tb url_b sid (hs_node_id (tp_handshake ts))
        (ed_public C (hs_ed_priv (tp_handshake ts))) True = (Some (Inr ()), tb')"
    and "connect_transport C rt open_s b w1 w2 ts url_s sid (hs_node_id (tp_handshake tb))
        (ed_public C (hs_ed_priv (tp_handshake tb))) False = (Some (Inr ()), ts')"
    using tb'(1) ts'(1) assms(8,9) by (simp_all add: connect_transport_def Let_def)
  moreover have "outbound_key_material (tp_is_initiator tb') ks = inbound_key_material (tp_is_initiator ts') ks" for ks
    using tb'(5) ts'(5) by (simp add: outbound_key_material_def inbound_key_material_def)
  ultimately show ?thesis using tb'(2-4) ts'(2-4) by blast
qed

text \<open>A buyer and a seller with the demonstration library, and a relay between them.\<close>

definition demo_end :: "string \<Rightarrow> bytes \<Rightarrow> relay_transport" where
  "demo_end nid k = new_transport (new_handshake nid k)"

lemma demo_end_idle [simp]: "hs_state (tp_handshake (demo_end nid k)) = IDLE"
  by (simp add: demo_end_def new_transport_def new_handshake_def)

theorem relay_agreement_witness:
  "\<exists>tb'. connect_transport demo_crypto demo_rt (\<lambda>_. Inr \<lparr>ws_inbox =
           [(1, accept_text demo_crypto demo_rt (tp_handshake (demo_end ''s'' [2])) [4] [3] 7 ''sid'')],
           ws_sent = [], ws_up = True\<rparr>) [3] 5 8 (demo_end ''b'' [1]) ''r'' ''sid''
        (hs_node_id (tp_handshake (demo_end ''s'' [2])))
        (ed_public demo_crypto (hs_ed_priv (tp_handshake (demo_end ''s'' [2])))) True = (Some (Inr ()), tb')
    \<and> tp_state tb' = Established"
proof -
  let ?z = "map2 (+) (take 32 ([3] @ replicate 32 0)) (x_public demo_crypto [4])"
  have z: "x_exchange demo_crypto [3] (x_public demo_crypto [4]) = Inr ?z"
    by (simp add: demo_crypto_def)
  show ?thesis
    using relay_agreement [OF demo_sig_ok demo_dh_ok z demo_end_idle [of "''b''" "[1]"]
        demo_end_idle [of "''s''" "[2]"], where ?w0.0 = 5 and ?w1.0 = 6 and ?w2.0 = 7 and ?w3.0 = 8
      and open_b = "\<lambda>_. Inr \<lparr>ws_inbox = [(1, accept_text demo_crypto demo_rt (tp_handshake (demo_end ''s'' [2])) [4] [3] 7 ''sid'')],
           ws_sent = [], ws_up = True\<rparr>"
      and open_s = "\<lambda>_. Inr \<lparr>ws_inbox = [(1, init_text demo_crypto demo_rt (tp_handshake (demo_end ''b'' [1])) [3] 5 ''sid'')],
           ws_sent = [], ws_up = True\<rparr>"
      and rt = demo_rt and sid = "''sid''" and url_b = "''r''" and url_s = "''r''" and ?u1.0 = 1 and ?u2.0 = 1]
    by auto
qed

text \<open>C2: the encrypted channel is an ordered stream. One side sends a list of frames; the other side
  reads from a relay that may drop, repeat, reorder and invent messages, as long as the only messages
  that decrypt under the channel's key are ones the sender made. The application frames the reader
  gets are, in order, those of a prefix of the list; and of the whole list if the relay delivers
  exactly what was sent.\<close>

theorem relay_channel:
  assumes "aead_ok C" and "tp_keys s = Some ks" and "tp_keys r = Some ks"
    and "tp_is_initiator r = (\<not> tp_is_initiator s)" and "tp_ws r \<noteq> None"
    and "tp_send_seq s = new_tracker" and "tp_recv_seq r = new_tracker" and "sent s = []"
    and "send_all C s frames = (Inr (), s')"
    and "inbound_key_material (tp_is_initiator r) ks = (key, np)"
    and "\<forall>raw x. Binary raw \<in> set (map snd arrivals) \<and> decrypt_frame C key np raw = Inr x
           \<longrightarrow> Binary raw \<in> set (sent s')"
  shows "\<exists>k \<le> length frames. data_only (oks (recv_results C r arrivals)) = data_only (take k frames)
    \<and> (map snd arrivals = sent s' \<longrightarrow> k = length frames)"
proof -
  have out: "outbound_key_material (tp_is_initiator s) ks = (key, np)"
    using assms(4,10) by (auto simp: outbound_key_material_def inbound_key_material_def)
  from send_all_sealed [OF assms(9,2) out] assms(6,8) obtain raws where
    raws: "sealed C key np 0 frames raws" "sent s' = map Binary raws"
    by (auto simp: new_tracker_def)
  have adv: "\<forall>raw x. Binary raw \<in> set (map snd arrivals) \<and> decrypt_frame C key np raw = Inr x \<longrightarrow> raw \<in> set raws"
    using assms(11) unfolding raws(2) by auto
  from recv_results_prefix [OF assms(1) raws(1) assms(5,3,10), of 0 arrivals] adv assms(7) raws(2)
  show ?thesis by (auto simp: new_tracker_def)
qed

definition demo_keys :: traffic_keys where
  "demo_keys = \<lparr>buyer_to_seller_key = replicate 32 1, seller_to_buyer_key = replicate 32 2,
     buyer_to_seller_nonce_prefix = [1, 1, 1, 1], seller_to_buyer_nonce_prefix = [2, 2, 2, 2]\<rparr>"

definition demo_session :: "bool \<Rightarrow> (rat \<times> ws_msg) list \<Rightarrow> relay_transport" where
  "demo_session buyer ms = (demo_end ''n'' [1])\<lparr>tp_keys := Some demo_keys, tp_is_initiator := buyer,
     tp_ws := Some \<lparr>ws_inbox = ms, ws_sent = [], ws_up = True\<rparr>, tp_state := Established,
     tp_heartbeat := Resting\<rparr>"

lemma demo_session_sel [simp]:
  "tp_keys (demo_session b ms) = Some demo_keys" "tp_is_initiator (demo_session b ms) = b"
  "tp_ws (demo_session b ms) = Some \<lparr>ws_inbox = ms, ws_sent = [], ws_up = True\<rparr>"
  "tp_send_seq (demo_session b ms) = new_tracker" "tp_recv_seq (demo_session b ms) = new_tracker"
  "sent (demo_session b ms) = []" "inbox (demo_session b ms) = ms" "tp_slots (demo_session b ms) = 10"
  "tp_pending (demo_session b ms) = []" "tp_state (demo_session b ms) = Established"
  "tp_heartbeat (demo_session b ms) = Resting" "tp_last_activity (demo_session b ms) = 0"
  "tp_missed_heartbeats (demo_session b ms) = 0"
  by (simp_all add: demo_session_def demo_end_def new_transport_def sent_def inbox_def max_concurrent_def)

lemma demo_send:
  assumes "length p < 100" and "0 \<le> ft" and "ft < 256"
    and "tp_keys t = Some demo_keys" and "tp_ws t = Some w" and "ws_up w"
    and "0 \<le> next_expected (tp_send_seq t)" and "next_expected (tp_send_seq t) < 100"
  shows "\<exists>raw. send_frame C t ft p = (Inr (), t\<lparr>tp_ws := Some (w\<lparr>ws_sent := ws_sent w @ [Binary raw]\<rparr>),
     tp_send_seq := (tp_send_seq t)\<lparr>next_expected := next_expected (tp_send_seq t) + 1\<rparr>,
     tp_last_activity := tp_now t\<rparr>)"
proof -
  obtain key np where o: "outbound_key_material (tp_is_initiator t) demo_keys = (key, np)" by fastforce
  then have "length key = 32" "length np = 4"
    by (auto simp: outbound_key_material_def demo_keys_def split: if_splits)
  then obtain raw where "encrypt_frame C key np (next_expected (tp_send_seq t)) ft p = Inr raw"
    using encrypt_frame_ok [of key np ft p "next_expected (tp_send_seq t)" C] assms by auto
  then show ?thesis
    using assms o
    by (auto simp: send_frame_def send_begin_def next_sequence_def ws_send_def send_finish_def
        validate_and_advance_def Let_def)
qed

theorem relay_channel_witness:
  "\<exists>s' k. k \<le> 2 \<and> send_all demo_crypto (demo_session True []) [(16, [1]), (17, [2])] = (Inr (), s')
    \<and> data_only (oks (recv_results demo_crypto (demo_session False [])
          [(0, sent s' ! 0), (1, sent s' ! 0), (2, sent s' ! 1)])) = data_only (take k [(16, [1]), (17, [2])])"
proof -
  let ?s = "demo_session True []" and ?fs = "[(16, [1]), (17, [2])] :: (int \<times> bytes) list"
  obtain s' where s': "send_all demo_crypto ?s ?fs = (Inr (), s')" "length (sent s') = 2"
  proof -
    obtain raw where 1: "send_frame demo_crypto ?s 16 [1] = (Inr (), ?s\<lparr>tp_ws := Some \<lparr>ws_inbox = [],
        ws_sent = [Binary raw], ws_up = True\<rparr>, tp_send_seq := \<lparr>next_expected = 1\<rparr>, tp_last_activity := tp_now ?s\<rparr>)"
      using demo_send [of "[1]" 16 ?s "\<lparr>ws_inbox = [], ws_sent = [], ws_up = True\<rparr>" demo_crypto]
      by (auto simp: new_tracker_def)
    let ?t = "?s\<lparr>tp_ws := Some \<lparr>ws_inbox = [],
        ws_sent = [Binary raw], ws_up = True\<rparr>, tp_send_seq := \<lparr>next_expected = 1\<rparr>, tp_last_activity := tp_now ?s\<rparr>"
    obtain raw2 u where 2: "send_frame demo_crypto ?t 17 [2] = (Inr (), u)" "sent u = [Binary raw, Binary raw2]"
      using demo_send [of "[2]" 17 ?t "\<lparr>ws_inbox = [], ws_sent = [Binary raw], ws_up = True\<rparr>" demo_crypto]
      by (auto simp: sent_def)
    show thesis by (rule that [of u]) (simp_all add: 1 2)
  qed
  have "\<exists>k \<le> length ?fs. data_only (oks (recv_results demo_crypto (demo_session False [])
          [(0, sent s' ! 0), (1, sent s' ! 0), (2, sent s' ! 1)])) = data_only (take k ?fs)
     \<and> (map snd [(0, sent s' ! 0), (1, sent s' ! 0), (2 :: rat, sent s' ! 1)] = sent s' \<longrightarrow> k = length ?fs)"
    using s'(2) nth_mem [of 0 "sent s'"] nth_mem [of 1 "sent s'"]
    by (intro relay_channel [OF demo_aead_ok _ _ _ _ _ _ _ s'(1),
          where ks = demo_keys and key = "replicate 32 1" and np = "[1, 1, 1, 1]"])
       (auto simp: inbound_key_material_def demo_keys_def)
  then obtain k where "k \<le> length ?fs" "data_only (oks (recv_results demo_crypto (demo_session False [])
          [(0, sent s' ! 0), (1, sent s' ! 0), (2, sent s' ! 1)])) = data_only (take k ?fs)" by blast
  moreover have "length ?fs = 2" by simp
  ultimately show ?thesis using s'(1) by metis
qed

text \<open>A request that returns a response returns one whose trace id is its own, and however a
  request ends - response, error of the peer, refused frame, failed send - its slot and its entry in
  the table of pending requests are given back and no other request's entry is added or dropped.\<close>

theorem request_slots:
  assumes "send_request C rt t tid p = (Some r, t')" and "tid \<notin> waiting t"
  shows "tp_slots t' = tp_slots t \<and> waiting t' = waiting t \<and> 0 < tp_slots t
    \<and> (\<forall>q. r = Inr q \<longrightarrow> rs_trace_id q = JStr tid)"
proof -
  let ?t0 = "t\<lparr>tp_slots := tp_slots t - 1, tp_pending := dict_set tid Unresolved (tp_pending t)\<rparr>"
  have rel: "tp_slots (release_slot tid u) = tp_slots u + 1" "waiting (release_slot tid u) = waiting u - {tid}" for u
    by (auto simp: release_slot_def waiting_def)
  have w0: "waiting ?t0 - {tid} = waiting t" using assms(2) by (auto simp: waiting_def)
  have pos: "0 < tp_slots t" using assms(1) by (auto simp: send_request_def split: if_splits)
  show ?thesis
  proof (cases "serialize_payload rt (Request p)")
    case (Inl e)
    with assms(1) pos have "t' = release_slot tid ?t0" "r = Inl e"
      by (auto simp: send_request_def Let_def)
    with rel [of ?t0] w0 pos show ?thesis by simp
  next
    case (Inr d)
    obtain r1 t1 where sf: "send_frame C ?t0 FRAME_REQUEST d = (r1, t1)" by fastforce
    have t1: "tp_slots t1 = tp_slots t - 1" "waiting t1 = waiting ?t0"
      using steadyD [OF send_frame_leaves(1) [OF sf]] by (simp_all add: waiting_def)
    obtain r2 t2 where rl: "request_loop C rt tid t1 = (r2, t2)" by fastforce
    note rr = request_loop_result [OF rl]
    show ?thesis
    proof (cases r1)
      case (Inl e)
      with assms(1) pos sf Inr have "t' = release_slot tid t1" "r = Inl e"
        by (auto simp: send_request_def Let_def)
      with rel t1 w0 pos show ?thesis by simp
    next
      case (Inr u)
      with assms(1) pos sf \<open>serialize_payload rt (Request p) = Inr d\<close> rl
      have "t' = release_slot tid t2" "r2 = Some r"
        by (auto simp: send_request_def Let_def split: option.splits)
      with rel t1 w0 pos rr show ?thesis by simp
    qed
  qed
qed

theorem request_slots_witness:
  "tp_slots (snd (send_request demo_crypto demo_rt (demo_session True []) ''t'' \<lparr>rq_trace_id = JStr ''t'', rq_sequence = JInt 1,
      rq_content_type = JStr [], rq_body = [], rq_timeout_ms = JInt (- 1)\<rparr>)) = 10"
proof -
  let ?p = "\<lparr>rq_trace_id = JStr ''t'', rq_sequence = JInt 1,
      rq_content_type = JStr [], rq_body = [], rq_timeout_ms = JInt (- 1)\<rparr>"
  have "\<exists>r t'. send_request demo_crypto demo_rt (demo_session True []) ''t'' ?p = (Some r, t')"
    by (simp add: send_request_def serialize_payload_def max_timeout_ms_def Let_def)
  then show ?thesis
    using request_slots [of demo_crypto demo_rt "demo_session True []" "''t''" ?p] by (auto simp: waiting_def)
qed

text \<open>C16: a request body of at most 32768 bytes (the limit of the local proxy) always fits one frame: on
  an established session with a free slot, a request with the fields the session manager gives it is
  serialized to fewer than 65536 bytes and encrypted and sent without an error.\<close>

theorem request_fits_frame:
  assumes "length body \<le> 32768" and "list_all plain_char tid" and "length tid \<le> 64"
    and "0 \<le> n" and "n < 10 ^ 20" and "keys_wf ks"
    and "tp_keys t = Some ks" and "tp_ws t = Some w" and "ws_up w"
    and "0 \<le> next_expected (tp_send_seq t)" and "next_expected (tp_send_seq t) < 2 ^ 64"
  shows "\<exists>d t'. serialize_payload rt (Request \<lparr>rq_trace_id = JStr tid, rq_sequence = JInt n,
        rq_content_type = JStr ''application/json'', rq_body = body, rq_timeout_ms = JInt 30000\<rparr>) = Inr d
     \<and> length d \<le> 0xFFFF \<and> send_frame C t FRAME_REQUEST d = (Inr (), t')"
proof -
  let ?p = "Request \<lparr>rq_trace_id = JStr tid, rq_sequence = JInt n,
        rq_content_type = JStr ''application/json'', rq_body = body, rq_timeout_ms = JInt 30000\<rparr>"
  obtain d where d: "serialize_payload rt ?p = Inr d"
    by (simp add: serialize_payload_def max_timeout_ms_def)
  have ct: "list_all plain_char ''application/json''" by (simp add: plain_char_def)
  have "length d \<le> 4 * ((length body + 2) div 3) + length tid + length ''application/json'' + 100"
    by (rule serialized_request_length [OF d assms(2) ct assms(4,5)])
  moreover have "4 * ((length body + 2) div 3) \<le> 43692" using assms(1) by simp
  ultimately have len: "length d \<le> 0xFFFF" using assms(3) by simp
  obtain key np where o: "outbound_key_material (tp_is_initiator t) ks = (key, np)" by fastforce
  with assms(6) have "length key = 32" "length np = 4"
    by (auto simp: outbound_key_material_def keys_wf_def split: if_splits)
  with len assms(10,11) obtain raw where
    "encrypt_frame C key np (next_expected (tp_send_seq t)) FRAME_REQUEST d = Inr raw"
    using encrypt_frame_ok [of key np FRAME_REQUEST d "next_expected (tp_send_seq t)" C]
    by (auto simp: FRAME_REQUEST_def)
  then have "fst (send_frame C t FRAME_REQUEST d) = Inr ()"
    using assms(7-9) o
    by (auto simp: send_frame_def send_begin_def next_sequence_def ws_send_def send_finish_def
        validate_and_advance_def Let_def)
  then have "\<exists>t'. send_frame C t FRAME_REQUEST d = (Inr (), t')" by (metis prod.collapse)
  with d len show ?thesis by blast
qed

lemma demo_keys_wf: "keys_wf demo_keys"
  by (simp add: keys_wf_def demo_keys_def)

theorem request_fits_frame_witness:
  "\<exists>d t'. serialize_payload demo_rt (Request \<lparr>rq_trace_id = JStr ''id'', rq_sequence = JInt 1,
        rq_content_type = JStr ''application/json'', rq_body = replicate 32768 7, rq_timeout_ms = JInt 30000\<rparr>) = Inr d
     \<and> length d \<le> 0xFFFF \<and> send_frame demo_crypto (demo_session True []) FRAME_REQUEST d = (Inr (), t')"
  by (rule request_fits_frame [OF _ _ _ _ _ demo_keys_wf,
        where w = "\<lparr>ws_inbox = [], ws_sent = [], ws_up = True\<rparr>"])
     (simp_all add: plain_char_def new_tracker_def)

lemma close_transport_closes:
  assumes "tp_state t \<noteq> Closed"
  shows "\<exists>u. snd (close_transport C rt t reason) = close_ws u \<and> tp_heartbeat u = Stopped"
proof -
  let ?t0 = "t\<lparr>tp_state := Closing, tp_heartbeat := Stopped\<rparr>"
  have sf: "tp_heartbeat u' = tp_heartbeat u" if "send_frame C u ft p = (r, u')" for u ft p r u'
    using that by (auto simp: send_frame_def ws_send_def send_finish_def
        split: sum.splits prod.splits option.splits if_splits)
  have df: "tp_heartbeat u' = tp_heartbeat u" if "dispatch_frame C u ft p = (r, u')" for u ft p r u'
    using that by (auto simp: dispatch_frame_def sf split: sum.splits prod.splits if_splits)
  have tu: "tp_heartbeat u' = tp_heartbeat u" if "recv_turn C u a m = (r, u')" for u a m r u'
    using that df by (fastforce simp: recv_turn_def Let_def split: sum.splits prod.splits)
  have si: "tp_heartbeat (set_inbox ms u) = tp_heartbeat u" for ms u
    by (simp add: set_inbox_def)
  have rl: "tp_heartbeat u' = tp_heartbeat u" if "recv_loop C u ms = (r, u')" for u ms r u'
    using that
    by (induction ms arbitrary: u) (auto simp: si dest!: tu split: prod.splits option.splits)
  have rw: "tp_heartbeat u' = tp_heartbeat u" if "recv_frame_within C u s = (r, u')" for u s r u'
    using that
    by (auto simp: recv_frame_within_def recv_frame_def Let_def si dest!: rl
        split: option.splits prod.splits if_splits)
  show ?thesis
    using assms
    by (auto simp: close_transport_def Let_def split: sum.split prod.split exn.split
        intro!: exI dest!: sf rw)
qed

text \<open>\<open>close\<close> on a session that is not yet closed always ends in the closed state with the socket
  down and the heartbeat task stopped - whether or not the peer acknowledges, and also when it raises -,
  a second \<open>close\<close> changes nothing, and no frame can be sent any more.\<close>

theorem close_closes:
  assumes "tp_state t \<noteq> Closed" and "close_transport C rt t reason = (r, t')"
  shows "tp_state t' = Closed \<and> tp_heartbeat t' = Stopped
    \<and> (\<forall>w. tp_ws t' = Some w \<longrightarrow> \<not> ws_up w)
    \<and> close_transport C rt t' reason' = (Inr (), t')
    \<and> (\<exists>e. send_frame C t' ft p = (Inl e, t'))"
proof -
  from close_transport_closes [OF assms(1), of C rt reason] assms(2) obtain u where
    u: "t' = close_ws u" "tp_heartbeat u = Stopped" by auto
  then have "tp_state t' = Closed" "tp_heartbeat t' = Stopped"
    and down: "\<forall>w. tp_ws t' = Some w \<longrightarrow> \<not> ws_up w"
    by (auto simp: close_ws_def)
  moreover have "\<exists>e. send_frame C t' ft p = (Inl e, t')"
    using down
    by (cases "send_begin C t' ft p") (auto simp: send_frame_def ws_send_def split: option.split)
  ultimately show ?thesis by (simp add: close_transport_def)
qed

theorem close_closes_witness:
  "tp_state (snd (close_transport demo_crypto demo_rt (demo_session True []) ''bye'')) = Closed"
  using close_closes [of "demo_session True []" demo_crypto demo_rt "''bye''"
      "fst (close_transport demo_crypto demo_rt (demo_session True []) ''bye'')"
      "snd (close_transport demo_crypto demo_rt (demo_session True []) ''bye'')"] by simp

section \<open>Heartbeats\<close>

text \<open>A session that can send \<open>n\<close> frames: the socket is up, the keys are well formed, the counter
  has room.\<close>

definition can_send :: "nat \<Rightarrow> relay_transport \<Rightarrow> bool" where
  "can_send n t \<longleftrightarrow> (\<exists>w ks. tp_ws t = Some w \<and> ws_up w \<and> tp_keys t = Some ks \<and> keys_wf ks)
     \<and> 0 \<le> next_expected (tp_send_seq t) \<and> next_expected (tp_send_seq t) + int n \<le> 2 ^ 64"

lemma send_frame_ok:
  assumes "can_send (Suc n) t" and "0 \<le> ft" and "ft \<le> 0xFF" and "length p \<le> 0xFFFF"
  shows "\<exists>t'. send_frame C t ft p = (Inr (), t') \<and> can_send n t' \<and> tp_last_activity t' = tp_now t
     \<and> tp_state t' = tp_state t \<and> tp_missed_heartbeats t' = tp_missed_heartbeats t
     \<and> tp_awaiting_ack t' = tp_awaiting_ack t \<and> tp_heartbeat t' = tp_heartbeat t \<and> tp_now t' = tp_now t"
proof -
  from assms(1) obtain w ks where w: "tp_ws t = Some w" "ws_up w" "tp_keys t = Some ks" "keys_wf ks"
      "0 \<le> next_expected (tp_send_seq t)" "next_expected (tp_send_seq t) + int n < 2 ^ 64"
    by (auto simp: can_send_def)
  obtain key np where o: "outbound_key_material (tp_is_initiator t) ks = (key, np)" by fastforce
  with w(4) have "length key = 32" "length np = 4"
    by (auto simp: outbound_key_material_def keys_wf_def split: if_splits)
  with w(5,6) assms(2-4) obtain raw where "encrypt_frame C key np (next_expected (tp_send_seq t)) ft p = Inr raw"
    using encrypt_frame_ok [of key np ft p "next_expected (tp_send_seq t)" C] by auto
  with w o show ?thesis
    by (simp add: send_frame_def send_begin_def next_sequence_def ws_send_def send_finish_def
        validate_and_advance_def Let_def can_send_def)
qed

text \<open>One silent cycle: the heartbeat goes out, no answer comes in the five seconds, one more miss.\<close>

lemma heartbeat_cycle:
  assumes "can_send (Suc n) t" and "tp_state t = Established" and "tp_heartbeat t = Resting"
    and "now - tp_last_activity t \<ge> 30" and "tp_missed_heartbeats t < 2"
  shows "\<exists>t'. heartbeat_wake C rt now' (heartbeat_wake C rt now t) = t' \<and> can_send n t'
    \<and> tp_state t' = Established \<and> tp_heartbeat t' = Resting \<and> tp_last_activity t' = now
    \<and> tp_missed_heartbeats t' = tp_missed_heartbeats t + 1"
proof -
  let ?t = "t\<lparr>tp_now := now, tp_awaiting_ack := True\<rparr>"
  have "can_send (Suc n) ?t" using assms(1) by (simp add: can_send_def)
  from send_frame_ok [OF this, of FRAME_HEARTBEAT "[]" C] obtain u where
    "send_frame C ?t FRAME_HEARTBEAT [] = (Inr (), u)" "can_send n u" "tp_last_activity u = now"
    "tp_state u = tp_state t" "tp_missed_heartbeats u = tp_missed_heartbeats t" "tp_awaiting_ack u"
    by (auto simp: FRAME_HEARTBEAT_def)
  with assms show ?thesis by (auto simp: heartbeat_wake_def Let_def can_send_def)
qed

lemma heartbeat_third:
  assumes "can_send (Suc n) t" and "tp_state t = Established" and "tp_heartbeat t = Resting"
    and "now - tp_last_activity t \<ge> 30" and "tp_missed_heartbeats t = 2"
  shows "tp_state (heartbeat_wake C rt now' (heartbeat_wake C rt now t)) = Closed"
proof -
  let ?t = "t\<lparr>tp_now := now, tp_awaiting_ack := True\<rparr>"
  have "can_send (Suc n) ?t" using assms(1) by (simp add: can_send_def)
  from send_frame_ok [OF this, of FRAME_HEARTBEAT "[]" C] obtain u where
    u: "send_frame C ?t FRAME_HEARTBEAT [] = (Inr (), u)"
    "tp_state u = tp_state t" "tp_missed_heartbeats u = tp_missed_heartbeats t" "tp_awaiting_ack u"
    by (auto simp: FRAME_HEARTBEAT_def)
  have "tp_state (snd (close_transport C rt v r)) = Closed" for v r
    using close_transport_closes [of v C rt r]
    by (cases "tp_state v = Closed") (auto simp: close_transport_def close_ws_def)
  with u assms show ?thesis by (auto simp: heartbeat_wake_def Let_def)
qed



section \<open>Two coroutines on one transport\<close>

lemma encrypt_frame_sealed:
  assumes "encrypt_frame C key np n ft p = Inr raw"
  shows "build_nonce np n = Inr (np @ be_bytes 8 (nat n))
    \<and> (\<exists>h. raw = h @ seal C key (np @ be_bytes 8 (nat n)) p h)"
proof -
  let ?h = "frame_header (length p) (nat ft) (nat n)"
  have "raw = ?h @ seal C key (np @ be_bytes 8 (nat n)) p ?h"
    and "build_nonce np n = Inr (np @ be_bytes 8 (nat n))"
    using assms by (simp_all add: encrypt_frame_Inr_iff build_nonce_Inr_iff frame_header_def Let_def)
  then show ?thesis by blast
qed

text \<open>\<open>send_frame\<close> reads its sequence number before it awaits the socket and advances the tracker
  after. Two sends that overlap there (a heartbeat acknowledgement during a request, say) take the
  same number: both frames are encrypted under the same key and nonce, the reader refuses the second
  one, and the second sender raises after its frame is out.\<close>

theorem overlapping_sends_reuse_nonce:
  assumes "aead_ok C" and "send_begin C t f1 p1 = Inr (n1, raw1)" and "send_begin C t f2 p2 = Inr (n2, raw2)"
    and "tp_keys t = Some ks" and "outbound_key_material (tp_is_initiator t) ks = (key, np)"
    and "tp_keys r = Some ks" and "tp_is_initiator r = (\<not> tp_is_initiator t)" and "next_expected (tp_recv_seq r) = n1 + 1"
  shows "n1 = n2
    \<and> (\<exists>nonce h1 h2. build_nonce np n1 = Inr nonce \<and> raw1 = h1 @ seal C key nonce p1 h1
         \<and> raw2 = h2 @ seal C key nonce p2 h2)
    \<and> (\<exists>e. fst (recv_turn C r now (Binary raw2)) = Some (Inl (ValueError e)))
    \<and> (\<exists>e. fst (send_finish (snd (send_finish t n1)) n2) = Inl (ValueError e))"
proof -
  from assms(2-5) have n: "n1 = next_expected (tp_send_seq t)" "n2 = n1"
    and e: "encrypt_frame C key np n1 f1 p1 = Inr raw1" "encrypt_frame C key np n1 f2 p2 = Inr raw2"
    by (auto simp: send_begin_def next_sequence_def rbind_Inr_iff Let_def split: option.splits)
  have "inbound_key_material (tp_is_initiator r) ks = (key, np)"
    using assms(5,7) by (auto simp: outbound_key_material_def inbound_key_material_def)
  with assms(6) decrypt_encrypt_frame [OF assms(1) e(2)]
  have "open_frame C (r\<lparr>tp_now := now\<rparr>) (Binary raw2) = Inr (f2, n1, p2)"
    by (simp add: open_frame_def)
  with assms(8) have "\<exists>e. fst (recv_turn C r now (Binary raw2)) = Some (Inl (ValueError e))"
    by (simp add: recv_turn_def validate_and_advance_def Let_def)
  moreover have "\<exists>e. fst (send_finish (snd (send_finish t n1)) n2) = Inl (ValueError e)"
    using n by (simp add: send_finish_def validate_and_advance_def)
  moreover have "\<exists>nonce h1 h2. build_nonce np n1 = Inr nonce \<and> raw1 = h1 @ seal C key nonce p1 h1
         \<and> raw2 = h2 @ seal C key nonce p2 h2"
    using encrypt_frame_sealed [OF e(1)] encrypt_frame_sealed [OF e(2)] by auto
  ultimately show ?thesis using n by blast
qed

theorem overlapping_sends_reuse_nonce_witness:
  "\<exists>raw1 raw2. send_begin demo_crypto (demo_session True []) 16 [1] = Inr (0, raw1)
     \<and> send_begin demo_crypto (demo_session True []) 33 [] = Inr (0, raw2)
     \<and> (\<exists>e. fst (recv_turn demo_crypto ((demo_session False [])\<lparr>tp_recv_seq := \<lparr>next_expected = 1\<rparr>\<rparr>) 0 (Binary raw2))
          = Some (Inl (ValueError e)))"
proof -
  let ?t = "demo_session True []" and ?r = "(demo_session False [])\<lparr>tp_recv_seq := \<lparr>next_expected = 1\<rparr>\<rparr>"
  have o: "outbound_key_material True demo_keys = (replicate 32 1, [1, 1, 1, 1])"
    by (simp add: outbound_key_material_def demo_keys_def)
  have sb: "\<exists>raw. send_begin demo_crypto ?t f p = Inr (0, raw)" if "0 \<le> f" "f < 256" "length p < 9" for f p
    using encrypt_frame_ok [of "replicate 32 1" "[1, 1, 1, 1]" f p 0 demo_crypto] that o
    by (auto simp: send_begin_def next_sequence_def new_tracker_def)
  obtain raw1 where 1: "send_begin demo_crypto ?t 16 [1] = Inr (0, raw1)" using sb [of 16 "[1]"] by auto
  obtain raw2 where 2: "send_begin demo_crypto ?t 33 [] = Inr (0, raw2)" using sb [of 33 "[]"] by auto
  show ?thesis
    using overlapping_sends_reuse_nonce [OF demo_aead_ok 1 2, of demo_keys _ _ ?r 0] 1 2 o by auto
qed

text \<open>Two requests that wait at the same time read from one socket. When the loop of the second
  reads the response of the first it settles the first one's future; but the first one's loop never
  looks at its future: with nothing more on the socket it keeps waiting for ever, its response lost.\<close>

theorem response_read_by_other_request_is_lost:
  assumes "deserialize_payload rt FRAME_RESPONSE d = Inr (Some (Response p))"
    and "rs_trace_id p = JStr first" and "first \<noteq> second"
    and "map_of (tp_pending t) first = Some Unresolved"
    and "request_turn rt second t FRAME_RESPONSE d = (r, t')"
    and "tp_ws t \<noteq> None" and "tp_keys t \<noteq> None" and "inbox t = []"
  shows "r = None \<and> map_of (tp_pending t') first = Some (Resolved p)
     \<and> fst (request_loop C rt first t') = None"
proof -
  from assms(1-5) have r: "r = None" and t': "t' = t\<lparr>tp_pending := dict_set first (Resolved p) (tp_pending t)\<rparr>"
    by (auto simp: request_turn_def settle_other_def)
  with assms(6-8) have "recv_frame C t' = (None, set_inbox [] t')"
    by (simp add: recv_frame_def)
  with r t' show ?thesis by (subst request_loop.simps) simp
qed

definition demo_response :: response_payload where
  "demo_response = \<lparr>rs_trace_id = JStr ''a'', rs_sequence = JInt 1, rs_content_type = JStr [],
     rs_body = [], rs_latency_ms = JInt 3\<rparr>"

theorem response_read_by_other_request_is_lost_witness:
  "\<exists>d t'. request_turn demo_rt ''b'' ((demo_session True [])\<lparr>tp_pending := [(''a'', Unresolved), (''b'', Unresolved)]\<rparr>)
        FRAME_RESPONSE d = (None, t')
     \<and> map_of (tp_pending t') ''a'' = Some (Resolved demo_response) \<and> fst (request_loop demo_crypto demo_rt ''a'' t') = None"
proof -
  let ?t = "(demo_session True [])\<lparr>tp_pending := [(''a'', Unresolved), (''b'', Unresolved)]\<rparr>"
  have "validate_payload (Response demo_response) = Inr ()" by simp
  then obtain d where d: "serialize_payload demo_rt (Response demo_response) = Inr d"
    by (simp add: serialize_payload_def)
  then have d': "deserialize_payload demo_rt FRAME_RESPONSE d = Inr (Some (Response demo_response))"
    using deserialize_serialize [of "Response demo_response" demo_rt d] by (simp add: demo_response_def)
  obtain r t' where turn: "request_turn demo_rt ''b'' ?t FRAME_RESPONSE d = (r, t')" by fastforce
  show ?thesis
    using response_read_by_other_request_is_lost [OF d' _ _ _ turn, of "''a''" demo_crypto] turn
    by (auto simp: demo_response_def)
qed

end
