(* ===== verification/PyObject.thy ===== *)
theory PyObject
  imports JsonCodec
begin

text \<open>
  Python's operations on values of unknown type, for the code that reads JSON without checking
  it: \<open>int(v)\<close>, \<open>k in v\<close>, \<open>v[k]\<close>, \<open>v.get(k)\<close>, iteration, \<open>list(v)\<close>, the key lookups the
  gateway clients share, and the JSON files of the node's data directory.
\<close>

section \<open>Conversions\<close>

text \<open>\<open>int(v)\<close> of a JSON value; single underscores may separate the digits of a string.\<close>

fun int_digits :: "string \<Rightarrow> string option" where
  "int_digits [] = None"
| "int_digits [c] = (if is_digit c then Some [c] else None)"
| "int_digits (c # d # r) =
     (if \<not> is_digit c then None
      else map_option ((#) c) (if d = CHR ''_'' then int_digits r else int_digits (d # r)))"

definition int_of_text :: "string \<Rightarrow> int res" where
  "int_of_text s0 =
    (let s = strip s0;
         neg = (s \<noteq> [] \<and> hd s = CHR ''-'');
         body = (if s \<noteq> [] \<and> (hd s = CHR ''-'' \<or> hd s = CHR ''+'') then tl s else s)
     in case int_digits body of
          None \<Rightarrow> Inl (ValueError ''invalid literal for int() with base 10'')
        | Some ds \<Rightarrow> if length ds > 4300 then Inl (ValueError ''Exceeds the limit (4300 digits)'')
                     else Inr (if neg then - int (nat_of_digits ds) else int (nat_of_digits ds)))"

fun py_int :: "json \<Rightarrow> int res" where
  "py_int (JInt i) = Inr i"
| "py_int (JBool b) = Inr (of_bool b)"
| "py_int (JFloat (FNum r)) = Inr (if r < 0 then - \<lfloor>- r\<rfloor> else \<lfloor>r\<rfloor>)"
| "py_int (JFloat FNegZero) = Inr 0"
| "py_int (JFloat FNaN) = Inl (ValueError ''cannot convert float NaN to integer'')"
| "py_int (JFloat _) = Inl OverflowError"
| "py_int (JStr s) = int_of_text s"
| "py_int _ = Inl TypeError"

section \<open>Containers\<close>

text \<open>\<open>k in v\<close>, \<open>v[k]\<close> and \<open>v.get(k, d)\<close> with a string \<open>k\<close>.\<close>

fun py_in :: "string \<Rightarrow> json \<Rightarrow> bool res" where
  "py_in k (JObj m) = Inr (map_of m k \<noteq> None)"
| "py_in k (JArr xs) = Inr (JStr k \<in> set xs)"
| "py_in k (JStr s) = Inr (sublist k s)"
| "py_in _ _ = Inl TypeError"

fun py_item :: "json \<Rightarrow> string \<Rightarrow> json res" where
  "py_item (JObj m) k = jitem m k"
| "py_item _ _ = Inl TypeError"

fun py_get :: "json \<Rightarrow> string \<Rightarrow> json \<Rightarrow> json res" where
  "py_get (JObj m) k d = Inr (jget_or m k d)"
| "py_get _ _ _ = Inl AttributeError"

text \<open>The elements \<open>for x in v\<close> goes over.\<close>

fun py_iter :: "json \<Rightarrow> json list res" where
  "py_iter (JArr xs) = Inr xs"
| "py_iter (JObj m) = Inr (map JStr (dict_keys m))"
| "py_iter (JStr s) = Inr (map (\<lambda>c. JStr [c]) s)"
| "py_iter _ = Inl TypeError"

text \<open>\<open>v or d\<close>.\<close>

definition or_else :: "json \<Rightarrow> json \<Rightarrow> json" where
  "or_else v d = (if truthy v then v else d)"

fun res_map :: "('a \<Rightarrow> 'e + 'b) \<Rightarrow> 'a list \<Rightarrow> 'e + 'b list" where
  "res_map f [] = Inr []"
| "res_map f (x # xs) = rbind (f x) (\<lambda>y. rbind (res_map f xs) (\<lambda>ys. Inr (y # ys)))"

lemma res_map_Inr: "list_all (\<lambda>x. f x = Inr (g x)) xs \<Longrightarrow> res_map f xs = Inr (map g xs)"
  by (induction xs) auto

lemma res_map_Inr_iff: "res_map f xs = Inr ys \<longleftrightarrow> list_all2 (\<lambda>x y. f x = Inr y) xs ys"
  by (induction xs arbitrary: ys) (auto simp: rbind_Inr_iff list_all2_Cons1)

lemma py_item_Obj_in: "map_of m k = Some v \<Longrightarrow> py_item (JObj m) k = Inr v"
  by (simp add: jitem_def)

section \<open>The first of several keys\<close>

text \<open>
  \<open>_pick\<close> of the gateway clients: the value under the first key that is present. One variant
  answers \<open>None\<close> when there is none, the other raises \<open>KeyError\<close> with the first key.
\<close>

fun pick_key :: "json res \<Rightarrow> json \<Rightarrow> string list \<Rightarrow> json res" where
  "pick_key absent data [] = absent"
| "pick_key absent data (k # ks) =
     rbind (py_in k data) (\<lambda>b. if b then py_item data k else pick_key absent data ks)"

definition pick :: "json \<Rightarrow> string list \<Rightarrow> json res" where
  "pick data ks = pick_key (Inr JNull) data ks"

definition pick_strict :: "json \<Rightarrow> string list \<Rightarrow> json res" where
  "pick_strict data ks = pick_key (Inl (KeyError (hd ks))) data ks"

lemma pick_key_obj:
  "pick_key absent (JObj m) ks =
     (case find (\<lambda>k. map_of m k \<noteq> None) ks of None \<Rightarrow> absent | Some k \<Rightarrow> jitem m k)"
  by (induction ks) auto

section \<open>Store files\<close>

text \<open>
  \<open>read_store\<close> and \<open>write_store\<close>: one JSON text per key. A write goes to a temporary file that
  is then renamed, so a reader sees the old text or the new one; \<open>JNull\<close> stands for \<open>None\<close>.
\<close>

type_synonym store_files = "(string, string) dict"

definition read_store :: "pyrt \<Rightarrow> store_files \<Rightarrow> string \<Rightarrow> json res" where
  "read_store rt files key = (case map_of files key of None \<Rightarrow> Inr JNull | Some t \<Rightarrow> loads rt t)"

definition write_store :: "pyrt \<Rightarrow> string \<Rightarrow> json \<Rightarrow> store_files \<Rightarrow> store_files" where
  "write_store rt key v files = dict_set key (dumps rt '', '' '': '' v) files"

lemma read_write_store [simp]:
  "jwf v \<Longrightarrow> read_store rt (write_store rt key v files) key = Inr v"
  by (simp add: read_store_def write_store_def json_spaced.dec_enc)

lemma read_write_store_other [simp]:
  "key' \<noteq> key \<Longrightarrow> read_store rt (write_store rt key v files) key' = read_store rt files key'"
  by (simp add: read_store_def write_store_def)

end
