(* ===== verification/Consumer.thy ===== *)
theory Consumer
  imports RelayChannel PyObject
begin

text \<open>
  The buyer's side: \<open>aim_node/consumer/session_manager.py\<close> (sessions negotiated with the market,
  direct or over the relay) and \<open>aim_node/consumer/proxy.py\<close> (the local HTTP endpoint in front of
  it). Answers of the market client and of the HTTP client are arguments; the relay transport is
  the model of \<open>RelayTransport\<close>.
\<close>

section \<open>SessionManager: state\<close>

record session_state =
  ss_session_id :: string
  ss_connection_mode :: string
  ss_endpoint_url :: "string option"
  ss_session_token :: "string option"
  ss_transport :: "relay_transport option"
  ss_expires_at :: string
  ss_created_at :: rat
  ss_request_count :: int

text \<open>
  An entry of \<open>_keepalive_tasks\<close>: the task still pings, has left its loop, or has ended with the exception of a ping. Nothing
  takes a task that has ended out of the table.
\<close>

datatype keepalive = Pinging | Ended | Failed exn

record session_manager =
  sm_sessions :: "(string, session_state) dict"
  sm_keepalive_tasks :: "(string, keepalive) dict"

definition new_session_manager :: session_manager where
  "new_session_manager = \<lparr>sm_sessions = [], sm_keepalive_tasks = []\<rparr>"

text \<open>\<open>SessionInvokeError(code, message)\<close>, or any other exception.\<close>

datatype invoke_exn = SessionInvokeError int string | Raised exn

section \<open>Fields of the negotiation answer\<close>

definition require_str :: "(string \<times> json) list \<Rightarrow> string \<Rightarrow> string res" where
  "require_str pl key = (case jget pl key of
     JStr s \<Rightarrow> if s = [] then Inl (ValueError (''missing required field: '' @ key)) else Inr s
   | _ \<Rightarrow> Inl (ValueError (''missing required field: '' @ key)))"

definition optional_str :: "(string \<times> json) list \<Rightarrow> string \<Rightarrow> string option res" where
  "optional_str pl key = (case jget pl key of
     JNull \<Rightarrow> Inr None
   | JStr s \<Rightarrow> Inr (Some s)
   | _ \<Rightarrow> Inl (ValueError (''invalid field: '' @ key)))"

text \<open>\<open>Ed25519PublicKey.from_public_bytes(b64decode(v.encode("ascii"), validate=True))\<close>.\<close>

definition ed_public_key_b64 :: "string \<Rightarrow> bytes res" where
  "ed_public_key_b64 v = rbind (decode_body (JStr v)) (\<lambda>bs.
     if length bs = 32 then Inr bs else Inl (ValueError ''An Ed25519 public key is 32 bytes long''))"

section \<open>connect\<close>

text \<open>
  What a connection needs from outside: the crypto library, the interpreter, the socket, a fresh
  ephemeral key, the clock, and the device identity from the keystore (node serial, signing key).
\<close>

record relay_env =
  re_crypto :: crypto_lib
  re_rt :: pyrt
  re_ws_connect :: "string \<Rightarrow> websocket res"
  re_ephemeral :: bytes
  re_wall1 :: int
  re_wall2 :: int
  re_identity :: "(string \<times> bytes) res"

definition build_handshake_manager :: "relay_env \<Rightarrow> handshake_manager res" where
  "build_handshake_manager E = rbind (re_identity E) (\<lambda>(serial, priv). Inr (new_handshake serial priv))"

definition open_relay ::
    "relay_env \<Rightarrow> string \<Rightarrow> string \<Rightarrow> string \<Rightarrow> bytes \<Rightarrow> bool \<Rightarrow> unit res option \<times> relay_transport option" where
  "open_relay E relay_url session_id peer_node_id peer_pk is_initiator =
    (case build_handshake_manager E of
       Inl e \<Rightarrow> (Some (Inl e), None)
     | Inr hs \<Rightarrow>
       (case connect_transport (re_crypto E) (re_rt E) (re_ws_connect E) (re_ephemeral E) (re_wall1 E)
               (re_wall2 E) (new_transport hs) relay_url session_id peer_node_id peer_pk is_initiator of
          (r, t) \<Rightarrow> (r, Some t)))"

text \<open>The negotiated session, with the transport to open if the mode is \<open>relay\<close>.\<close>

record negotiated =
  ng_session_id :: string
  ng_connection_mode :: string
  ng_expires_at :: string
  ng_endpoint_url :: "string option"
  ng_session_token :: "string option"

definition read_negotiation :: "(string \<times> json) list \<Rightarrow> negotiated res" where
  "read_negotiation pl =
     rbind (require_str pl ''session_id'') (\<lambda>sid.
     rbind (require_str pl ''connection_mode'') (\<lambda>mode.
     rbind (require_str pl ''expires_at'') (\<lambda>ex.
     rbind (optional_str pl ''endpoint_url'') (\<lambda>url.
     rbind (optional_str pl ''session_token'') (\<lambda>tok.
       Inr \<lparr>ng_session_id = sid, ng_connection_mode = mode, ng_expires_at = ex,
            ng_endpoint_url = url, ng_session_token = tok\<rparr>)))))"

definition read_relay_fields :: "(string \<times> json) list \<Rightarrow> (string \<times> string \<times> bytes) res" where
  "read_relay_fields pl =
     rbind (require_str pl ''relay_url'') (\<lambda>url.
     rbind (require_str pl ''provider_node_id'') (\<lambda>nid.
     rbind (require_str pl ''provider_ed25519_pubkey'') (\<lambda>pk.
     rbind (ed_public_key_b64 pk) (\<lambda>key. Inr (url, nid, key)))))"

definition add_session :: "session_manager \<Rightarrow> rat \<Rightarrow> negotiated \<Rightarrow> relay_transport option \<Rightarrow> session_manager" where
  "add_session sm now ng tp =
     sm\<lparr>sm_sessions := dict_set (ng_session_id ng)
          \<lparr>ss_session_id = ng_session_id ng, ss_connection_mode = ng_connection_mode ng,
           ss_endpoint_url = ng_endpoint_url ng, ss_session_token = ng_session_token ng,
           ss_transport = tp, ss_expires_at = ng_expires_at ng, ss_created_at = now,
           ss_request_count = 0\<rparr> (sm_sessions sm),
        sm_keepalive_tasks := dict_set (ng_session_id ng) Pinging (sm_keepalive_tasks sm)\<rparr>"

text \<open>\<open>session_to_dict\<close> has no transport and no clock of its own: the view of a session is the record.\<close>

definition sm_connect ::
    "relay_env \<Rightarrow> rat \<Rightarrow> session_manager \<Rightarrow> (string \<times> json) list res
      \<Rightarrow> session_state res option \<times> session_manager" where
  "sm_connect E now sm negotiation =
    (case rbind negotiation (\<lambda>pl. rbind (read_negotiation pl) (\<lambda>ng. Inr (pl, ng))) of
       Inl e \<Rightarrow> (Some (Inl e), sm)
     | Inr (pl, ng) \<Rightarrow>
       (let done = (\<lambda>tp. let sm' = add_session sm now ng tp
                         in (Some (Inr (the (map_of (sm_sessions sm') (ng_session_id ng)))), sm'))
        in if ng_connection_mode ng = ''relay'' then
             (case read_relay_fields pl of
                Inl e \<Rightarrow> (Some (Inl e), sm)
              | Inr (url, nid, key) \<Rightarrow>
                (case open_relay E url (ng_session_id ng) nid key True of
                   (None, _) \<Rightarrow> (None, sm)
                 | (Some (Inl e), _) \<Rightarrow> (Some (Inl e), sm)
                 | (Some (Inr _), tp) \<Rightarrow> done tp))
           else if ng_connection_mode ng \<noteq> ''direct'' then
             (Some (Inl (ValueError (''unsupported connection_mode: '' @ ng_connection_mode ng))), sm)
           else done None))"

section \<open>The error text of the relay\<close>

text \<open>
  The regular expression \<open>^\s*(\d+):\s*(.*)$\<close>: the two groups of a match. After the blanks
  that follow the colon the rest must be one line, apart from one final newline.
\<close>

definition newline :: char where "newline = CHR 0x0A"

definition match_error_code :: "string \<Rightarrow> (string \<times> string) option" where
  "match_error_code s =
    (let s1 = lstrip s; digits = takeWhile is_digit s1; rest = dropWhile is_digit s1
     in case rest of
          [] \<Rightarrow> None
        | c # r \<Rightarrow>
          if digits = [] \<or> c \<noteq> CHR '':'' then None
          else let body = lstrip r; line = takeWhile (\<lambda>x. x \<noteq> newline) body
               in if drop (length line) body \<in> {[], [newline]} then Some (digits, line) else None)"

text \<open>\<open>int()\<close> of a digit string refuses more than 4300 digits.\<close>

definition runtime_error_to_invoke :: "string \<Rightarrow> invoke_exn" where
  "runtime_error_to_invoke msg = (case match_error_code msg of
     Some (digits, text) \<Rightarrow>
       if length digits > 4300 then Raised (ValueError ''Exceeds the limit (4300 digits) for integer string conversion'')
       else SessionInvokeError (int (nat_of_digits digits)) (if text = [] then ''session invoke failed'' else text)
   | None \<Rightarrow> SessionInvokeError 1006 (if msg = [] then ''session invoke failed'' else msg))"

section \<open>invoke\<close>

datatype http_result = Http_Timeout | Http_Error string | Http_Response int "(string \<times> string) list" bytes

type_synonym invoke_result = "invoke_exn + (bytes \<times> (string \<times> string) list)"

definition direct_headers :: "session_state \<Rightarrow> (string \<times> string) list" where
  "direct_headers st = (''Content-Type'', ''application/json'') #
     (case ss_session_token st of
        Some tok \<Rightarrow> if tok = [] then [] else [(''Authorization'', ''Bearer '' @ tok)]
      | None \<Rightarrow> [])"

text \<open>\<open>response.headers.get(name, d)\<close>: names in any case, several values joined.\<close>

definition header_or :: "(string \<times> string) list \<Rightarrow> string \<Rightarrow> string \<Rightarrow> string" where
  "header_or hs name d =
    (case map snd (filter (\<lambda>h. lower (fst h) = lower name) hs) of
       [] \<Rightarrow> d
     | v # vs \<Rightarrow> v @ concat (map (\<lambda>u. '', '' @ u) vs))"

definition invoke_direct ::
    "(string \<Rightarrow> (string \<times> string) list \<Rightarrow> bytes \<Rightarrow> http_result) \<Rightarrow> int \<Rightarrow> session_state \<Rightarrow> bytes \<Rightarrow> string \<Rightarrow> int
      \<Rightarrow> invoke_result" where
  "invoke_direct post latency_ms st body trace_id sequence = (case ss_endpoint_url st of
     None \<Rightarrow> Inl (SessionInvokeError 1010 ''session closing'')
   | Some url \<Rightarrow>
     (case post url (direct_headers st) body of
        Http_Timeout \<Rightarrow> Inl (SessionInvokeError 1007 ''adapter timeout'')
      | Http_Error e \<Rightarrow> Inl (SessionInvokeError 1006 (''adapter error: '' @ e))
      | Http_Response status hs content \<Rightarrow>
          if status = 429 then Inl (SessionInvokeError 1005 ''rate limited'')
          else if status = 413 then Inl (SessionInvokeError 1008 ''request too large'')
          else if status = 499 then Inl (SessionInvokeError 1009 ''cancelled'')
          else if status \<ge> 500 then Inl (SessionInvokeError 1006 (''adapter HTTP '' @ str_of_int status))
          else Inr (content,
            [(''X-AIM-Trace-Id'', header_or hs ''X-AIM-Trace-Id'' trace_id),
             (''X-AIM-Latency-Ms'', header_or hs ''X-AIM-Latency-Ms'' (str_of_int latency_ms)),
             (''X-AIM-Sequence'', header_or hs ''X-AIM-Sequence'' (str_of_int sequence))])))"

definition default_invoke_timeout_ms :: int where "default_invoke_timeout_ms = 30000"

definition relay_request :: "string \<Rightarrow> int \<Rightarrow> bytes \<Rightarrow> request_payload" where
  "relay_request trace_id sequence body = \<lparr>rq_trace_id = JStr trace_id, rq_sequence = JInt sequence,
     rq_content_type = JStr ''application/json'', rq_body = body, rq_timeout_ms = JInt default_invoke_timeout_ms\<rparr>"

definition relay_outcome :: "pyrt \<Rightarrow> response_payload res \<Rightarrow> invoke_result" where
  "relay_outcome rt r = (case r of
     Inl (RuntimeError msg) \<Rightarrow> Inl (runtime_error_to_invoke msg)
   | Inl e \<Rightarrow> Inl (Raised e)
   | Inr p \<Rightarrow> Inr (rs_body p,
       [(''X-AIM-Trace-Id'', py_str rt (rs_trace_id p)),
        (''X-AIM-Latency-Ms'', py_str rt (rs_latency_ms p)),
        (''X-AIM-Sequence'', py_str rt (rs_sequence p))]))"

definition invoke_relay ::
    "crypto_lib \<Rightarrow> pyrt \<Rightarrow> relay_transport \<Rightarrow> bytes \<Rightarrow> string \<Rightarrow> int \<Rightarrow> invoke_result option \<times> relay_transport" where
  "invoke_relay C rt t body trace_id sequence =
    (case send_request C rt t trace_id (relay_request trace_id sequence body) of
       (None, t') \<Rightarrow> (None, t')
     | (Some r, t') \<Rightarrow> (Some (relay_outcome rt r), t'))"

definition put_session :: "string \<Rightarrow> session_state \<Rightarrow> session_manager \<Rightarrow> session_manager" where
  "put_session sid st sm = sm\<lparr>sm_sessions := dict_set sid st (sm_sessions sm)\<rparr>"

definition sm_invoke ::
    "crypto_lib \<Rightarrow> pyrt \<Rightarrow> (string \<Rightarrow> (string \<times> string) list \<Rightarrow> bytes \<Rightarrow> http_result) \<Rightarrow> int \<Rightarrow> string
      \<Rightarrow> session_manager \<Rightarrow> string \<Rightarrow> bytes \<Rightarrow> invoke_result option \<times> session_manager" where
  "sm_invoke C rt post latency_ms trace_id sm session_id body =
    (case map_of (sm_sessions sm) session_id of
       None \<Rightarrow> (Some (Inl (SessionInvokeError 1004 ''session expired'')), sm)
     | Some st0 \<Rightarrow>
       let st = st0\<lparr>ss_request_count := ss_request_count st0 + 1\<rparr>;
           sequence = ss_request_count st
       in if ss_connection_mode st = ''direct'' then
            (Some (invoke_direct post latency_ms st body trace_id sequence), put_session session_id st sm)
          else (case (ss_connection_mode st = ''relay'', ss_transport st) of
            (True, Some t) \<Rightarrow>
              (case invoke_relay C rt t body trace_id sequence of
                 (r, t') \<Rightarrow> (r, put_session session_id (st\<lparr>ss_transport := Some t'\<rparr>) sm))
          | _ \<Rightarrow> (Some (Inl (SessionInvokeError 1010 ''session closing'')), put_session session_id st sm)))"

section \<open>close_session\<close>

text \<open>
  The result, the manager, and the transport after its own \<open>close\<close>, whose errors are suppressed. To await a cancelled task
  that pings raises only the cancellation, which is suppressed; a task that has failed raises its exception, and then
  neither the market nor the transport is asked to close.
\<close>

definition await_keepalive :: "keepalive option \<Rightarrow> unit res" where
  "await_keepalive task = (case task of Some (Failed e) \<Rightarrow> Inl e | _ \<Rightarrow> Inr ())"

definition sm_close ::
    "crypto_lib \<Rightarrow> pyrt \<Rightarrow> session_manager \<Rightarrow> string \<Rightarrow> unit res
      \<Rightarrow> unit res \<times> session_manager \<times> relay_transport option" where
  "sm_close C rt sm session_id market_answer =
    (let st = map_of (sm_sessions sm) session_id;
         sm' = sm\<lparr>sm_sessions := dict_del session_id (sm_sessions sm),
                  sm_keepalive_tasks := dict_del session_id (sm_keepalive_tasks sm)\<rparr>;
         closed = (case st of
            Some s \<Rightarrow> map_option (\<lambda>t. snd (close_transport C rt t ''buyer_requested'')) (ss_transport s)
          | None \<Rightarrow> None)
     in case await_keepalive (map_of (sm_keepalive_tasks sm) session_id) of
          Inl e \<Rightarrow> (Inl e, sm', None)
        | Inr _ \<Rightarrow> (market_answer, sm', closed))"

definition sm_get :: "session_manager \<Rightarrow> string \<Rightarrow> session_state option" where
  "sm_get sm session_id = map_of (sm_sessions sm) session_id"

definition sm_list :: "session_manager \<Rightarrow> session_state list" where
  "sm_list sm = map snd (sm_sessions sm)"

definition session_to_dict :: "json \<Rightarrow> session_state \<Rightarrow> json" where
  "session_to_dict created_at st = JObj [(''session_id'', JStr (ss_session_id st)),
     (''connection_mode'', JStr (ss_connection_mode st)),
     (''endpoint_url'', (case ss_endpoint_url st of None \<Rightarrow> JNull | Some u \<Rightarrow> JStr u)),
     (''session_token'', (case ss_session_token st of None \<Rightarrow> JNull | Some u \<Rightarrow> JStr u)),
     (''expires_at'', JStr (ss_expires_at st)), (''created_at'', created_at),
     (''request_count'', JInt (ss_request_count st))]"

text \<open>
  One wake-up of the keepalive task of a session, with the market's answer to the ping: whether it pings, and the
  manager after it. A failed ping ends the task, since nothing catches the exception; its entry stays.
\<close>

definition keepalive_wake :: "session_manager \<Rightarrow> string \<Rightarrow> unit res \<Rightarrow> bool \<times> session_manager" where
  "keepalive_wake sm session_id market_answer =
    (if map_of (sm_keepalive_tasks sm) session_id \<noteq> Some Pinging then (False, sm)
     else if map_of (sm_sessions sm) session_id = None
     then (False, sm\<lparr>sm_keepalive_tasks := dict_set session_id Ended (sm_keepalive_tasks sm)\<rparr>)
     else (True, case market_answer of
         Inl e \<Rightarrow> sm\<lparr>sm_keepalive_tasks := dict_set session_id (Failed e) (sm_keepalive_tasks sm)\<rparr>
       | Inr _ \<Rightarrow> sm))"

section \<open>The local proxy\<close>

datatype proxy_response =
    Json_Reply int json
  | Body_Reply int bytes "(string \<times> string) list"
  | Empty_Reply int
  | Unhandled exn

definition max_body_bytes :: nat where "max_body_bytes = 32 * 1024"

definition map_status :: "int \<Rightarrow> int" where
  "map_status c =
    (if c = 1000 then 502 else if c = 1001 then 502 else if c = 1002 then 502
     else if c = 1003 then 401 else if c = 1004 then 410 else if c = 1005 then 429
     else if c = 1006 then 502 else if c = 1007 then 504 else if c = 1008 then 413
     else if c = 1009 then 499 else if c = 1010 then 503 else 502)"

definition invoke_reply :: "invoke_result \<Rightarrow> proxy_response" where
  "invoke_reply r = (case r of
     Inl (SessionInvokeError c m) \<Rightarrow> Json_Reply (map_status c) (JObj [(''error'', JStr m), (''code'', JInt c)])
   | Inl (Raised e) \<Rightarrow> Unhandled e
   | Inr (body, hs) \<Rightarrow> Body_Reply 200 body hs)"

definition proxy_invoke ::
    "crypto_lib \<Rightarrow> pyrt \<Rightarrow> (string \<Rightarrow> (string \<times> string) list \<Rightarrow> bytes \<Rightarrow> http_result) \<Rightarrow> int \<Rightarrow> string
      \<Rightarrow> session_manager \<Rightarrow> string \<Rightarrow> bytes \<Rightarrow> string \<Rightarrow> proxy_response option \<times> session_manager" where
  "proxy_invoke C rt post latency_ms trace_id sm content_type body session_id =
    (if lower (strip (fst (split_once '';'' content_type))) \<noteq> ''application/json''
     then (Some (Json_Reply 415 (JObj [(''error'', JStr ''unsupported media type'')])), sm)
     else if length body > max_body_bytes
     then (Some (Json_Reply 413 (JObj [(''error'', JStr ''request body too large'')])), sm)
     else case rbind (utf8_decode body) (loads rt) of
       Inl e \<Rightarrow>
         (Some (if e = UnicodeDecodeError \<or> e = JSONDecodeError
                then Json_Reply 400 (JObj [(''error'', JStr ''invalid JSON'')]) else Unhandled e), sm)
     | Inr _ \<Rightarrow>
         (case sm_invoke C rt post latency_ms trace_id sm session_id body of
            (r, sm') \<Rightarrow> (map_option invoke_reply r, sm')))"

text \<open>\<open>POST /aim/sessions/connect\<close>; the market call is a function of the two arguments.\<close>

definition proxy_connect ::
    "relay_env \<Rightarrow> rat \<Rightarrow> session_manager \<Rightarrow> json res \<Rightarrow> (string \<Rightarrow> int \<Rightarrow> (string \<times> json) list res)
      \<Rightarrow> proxy_response option \<times> session_manager" where
  "proxy_connect E now sm request_json negotiate =
    (case rbind request_json (\<lambda>v. rbind (expect_obj TypeError v) (\<lambda>m.
            rbind (jitem m ''listing_id'') (\<lambda>lid.
            rbind (jitem m ''max_spend_cents'') (\<lambda>sp.
            rbind (py_int sp) (\<lambda>cents. Inr (py_str (re_rt E) lid, cents)))))) of
       Inl e \<Rightarrow> (Some (Unhandled e), sm)
     | Inr (listing_id, cents) \<Rightarrow>
       (case sm_connect E now sm (negotiate listing_id cents) of
          (None, sm') \<Rightarrow> (None, sm')
        | (Some (Inl e), sm') \<Rightarrow> (Some (Unhandled e), sm')
        | (Some (Inr st), sm') \<Rightarrow>
            (Some (Json_Reply 200 (JObj [(''session_id'', JStr (ss_session_id st)),
               (''connection_mode'', JStr (ss_connection_mode st)),
               (''endpoint_url'', (case ss_endpoint_url st of None \<Rightarrow> JNull | Some u \<Rightarrow> JStr u)),
               (''expires_at'', JStr (ss_expires_at st))])), sm')))"

definition proxy_list :: "(rat \<Rightarrow> json) \<Rightarrow> session_manager \<Rightarrow> proxy_response" where
  "proxy_list clock sm = Json_Reply 200
     (JArr (map (\<lambda>st. session_to_dict (clock (ss_created_at st)) st) (sm_list sm)))"

definition proxy_session_detail ::
    "crypto_lib \<Rightarrow> pyrt \<Rightarrow> (rat \<Rightarrow> json) \<Rightarrow> bool \<Rightarrow> session_manager \<Rightarrow> string \<Rightarrow> unit res
      \<Rightarrow> proxy_response \<times> session_manager" where
  "proxy_session_detail C rt clock is_get sm session_id market_answer =
    (if is_get then
       (case sm_get sm session_id of
          None \<Rightarrow> (Json_Reply 404 (JObj [(''error'', JStr ''not found'')]), sm)
        | Some st \<Rightarrow> (Json_Reply 200 (session_to_dict (clock (ss_created_at st)) st), sm))
     else (case sm_close C rt sm session_id market_answer of
             (Inl e, sm', _) \<Rightarrow> (Unhandled e, sm')
           | (Inr _, sm', _) \<Rightarrow> (Empty_Reply 204, sm')))"

section \<open>Invariant of the session manager\<close>

text \<open>A session and the entry of its keepalive task are created and removed together, under the session's own
  id; an entry's task pings or has failed; a relay session has a transport.\<close>

definition sm_inv :: "session_manager \<Rightarrow> bool" where
  "sm_inv sm \<longleftrightarrow> fst ` set (sm_sessions sm) = fst ` set (sm_keepalive_tasks sm)
     \<and> distinct (dict_keys (sm_sessions sm))
     \<and> (\<forall>sid. map_of (sm_keepalive_tasks sm) sid \<noteq> Some Ended)
     \<and> (\<forall>sid st. map_of (sm_sessions sm) sid = Some st \<longrightarrow> ss_session_id st = sid
          \<and> 0 \<le> ss_request_count st
          \<and> (ss_connection_mode st = ''direct'' \<or> ss_connection_mode st = ''relay'' \<and> ss_transport st \<noteq> None))"

lemma fst_set_dict_del [simp]: "fst ` set (dict_del k d) = fst ` set d - {k}"
  by (auto simp: dict_del_def)

lemma add_session_inv:
  assumes "sm_inv sm" and "ng_connection_mode ng = ''direct'' \<or> ng_connection_mode ng = ''relay'' \<and> tp \<noteq> None"
  shows "sm_inv (add_session sm now ng tp)"
  using assms by (auto simp: sm_inv_def add_session_def)

lemma open_relay_Some: "open_relay E u sid nid k b = (Some (Inr x), tp) \<Longrightarrow> tp \<noteq> None"
  by (auto simp: open_relay_def split: sum.splits prod.splits)

lemma sm_connect_inv: "sm_inv sm \<Longrightarrow> sm_inv (snd (sm_connect E now sm neg))"
  by (auto simp: sm_connect_def Let_def add_session_inv dest: open_relay_Some
      split: sum.splits prod.splits option.splits)

lemma put_session_inv:
  assumes "sm_inv sm" and "map_of (sm_sessions sm) sid = Some st0"
    and "ss_session_id st = sid" and "0 \<le> ss_request_count st"
    and "ss_connection_mode st = ''direct'' \<or> ss_connection_mode st = ''relay'' \<and> ss_transport st \<noteq> None"
  shows "sm_inv (put_session sid st sm)"
proof -
  have "sid \<in> fst ` set (sm_sessions sm)" using assms(2) by (auto dest: map_of_SomeD intro: rev_image_eqI)
  with assms show ?thesis by (auto simp: sm_inv_def put_session_def)
qed

lemma sm_invoke_inv:
  assumes "sm_inv sm"
  shows "sm_inv (snd (sm_invoke C rt post lat tid sm sid body))"
proof (cases "map_of (sm_sessions sm) sid")
  case None
  with assms show ?thesis by (simp add: sm_invoke_def)
next
  case (Some st)
  then have st: "ss_session_id st = sid" "0 \<le> ss_request_count st"
      "ss_connection_mode st = ''direct'' \<or> ss_connection_mode st = ''relay'' \<and> ss_transport st \<noteq> None"
    using assms by (auto simp: sm_inv_def)
  show ?thesis
    using Some st(2,3)
    by (auto simp: sm_invoke_def Let_def st(1) split: prod.splits option.splits
        intro!: put_session_inv [OF assms Some])
qed

lemma sm_close_manager: "fst (snd (sm_close C rt sm sid ans)) =
    sm\<lparr>sm_sessions := dict_del sid (sm_sessions sm), sm_keepalive_tasks := dict_del sid (sm_keepalive_tasks sm)\<rparr>"
  by (simp add: sm_close_def Let_def split: sum.split)

lemma sm_close_inv: "sm_inv sm \<Longrightarrow> sm_inv (fst (snd (sm_close C rt sm sid ans)))"
  unfolding sm_close_manager by (auto simp: sm_inv_def)

lemma keepalive_wake_inv: "sm_inv sm \<Longrightarrow> sm_inv (snd (keepalive_wake sm sid ans))"
proof -
  assume inv: "sm_inv sm"
  have here: "sid \<in> fst ` set (sm_keepalive_tasks sm)" if "map_of (sm_keepalive_tasks sm) sid = Some x" for x
    using map_of_SomeD [OF that] by force
  have "map_of (sm_sessions sm) sid \<noteq> None" if "map_of (sm_keepalive_tasks sm) sid = Some x" for x
    using here [OF that] inv by (simp add: sm_inv_def map_of_eq_None_iff)
  with inv here show ?thesis
    by (cases ans) (auto simp: keepalive_wake_def sm_inv_def insert_absorb)
qed

section \<open>Runs of the session manager\<close>

text \<open>One call, with the answers of its environment.\<close>

datatype sm_op =
    Sm_Connect relay_env rat "(string \<times> json) list res"
  | Sm_Invoke "string \<Rightarrow> (string \<times> string) list \<Rightarrow> bytes \<Rightarrow> http_result" int string string bytes
  | Sm_Close string "unit res"
  | Sm_Keepalive string "unit res"

fun sm_apply :: "crypto_lib \<Rightarrow> pyrt \<Rightarrow> session_manager \<Rightarrow> sm_op \<Rightarrow> session_manager" where
  "sm_apply C rt sm (Sm_Connect E now neg) = snd (sm_connect E now sm neg)"
| "sm_apply C rt sm (Sm_Invoke post lat tid sid body) = snd (sm_invoke C rt post lat tid sm sid body)"
| "sm_apply C rt sm (Sm_Close sid ans) = fst (snd (sm_close C rt sm sid ans))"
| "sm_apply C rt sm (Sm_Keepalive sid ans) = snd (keepalive_wake sm sid ans)"

interpretation sm: op_system "sm_apply C rt" sm_inv for C rt
proof unfold_locales
  fix s :: session_manager and x :: sm_op
  assume "sm_inv s"
  then show "sm_inv (sm_apply C rt s x)"
    by (cases x) (simp_all add: sm_connect_inv sm_invoke_inv sm_close_inv keepalive_wake_inv)
qed

lemma sm_inv_new: "sm_inv new_session_manager"
  by (simp add: sm_inv_def new_session_manager_def)

section \<open>Error texts\<close>

lemma lstrip_digits: "n \<ge> (0 :: int) \<Longrightarrow> lstrip (str_of_int n @ s) = str_of_int n @ s"
  using str_of_nat_hd_digit [of "nat n"] digit_not_space
  by (cases "str_of_nat (nat n)") (auto simp: lstrip_def str_of_int_def)

lemma digits_stop: "\<not> is_digit c \<Longrightarrow> takeWhile is_digit (str_of_nat n @ c # s) = str_of_nat n
    \<and> dropWhile is_digit (str_of_nat n @ c # s) = c # s"
  using str_of_nat_digits [of n]
  by (simp add: list_all_iff takeWhile_append2 dropWhile_append2)

lemma match_error_code_text:
  assumes "0 \<le> n" and "newline \<notin> set m" and "lstrip m = m"
  shows "match_error_code (str_of_int n @ '': '' @ m) = Some (str_of_int n, m)"
proof -
  have c: "\<not> is_digit CHR '':''" and sp: "is_space CHR '' ''" by (simp_all add: is_digit_def is_space_def)
  have l: "lstrip (CHR '' '' # m) = m" using sp assms(3) by (simp add: lstrip_def)
  have "takeWhile (\<lambda>x. x \<noteq> newline) m = m" using assms(2) by auto
  with assms(1) l digits_stop [OF c, of "nat n" "CHR '' '' # m"] lstrip_digits [OF assms(1), of "'': '' @ m"]
  show ?thesis
    by (simp add: match_error_code_def Let_def str_of_int_def del: takeWhile_eq_all_conv)
qed

lemma runtime_error_text:
  assumes "0 \<le> n" and "n < 10 ^ 10" and "newline \<notin> set m" and "lstrip m = m" and "m \<noteq> []"
  shows "runtime_error_to_invoke (error_text rt \<lparr>er_trace_id = tid, er_code = JInt n, er_message = JStr m\<rparr>)
    = SessionInvokeError n m"
proof -
  have "length (str_of_int n) \<le> 10" using length_str_of_int [of n 10] assms(1,2) by simp
  moreover have "int (nat_of_digits (str_of_int n)) = n" using assms(1) by (simp add: str_of_int_def)
  ultimately show ?thesis
    using match_error_code_text [OF assms(1,3,4)] assms(5)
    by (simp add: runtime_error_to_invoke_def error_text_def)
qed

lemma sm_invoke_found:
  assumes "map_of (sm_sessions sm) sid = Some st"
  shows "\<exists>st'. snd (sm_invoke C rt post lat tid sm sid body) = put_session sid st' sm
     \<and> ss_request_count st' = ss_request_count st + 1"
proof -
  let ?st = "st\<lparr>ss_request_count := ss_request_count st + 1\<rparr>"
  show ?thesis
  proof (cases "ss_connection_mode st \<noteq> ''direct'' \<and> ss_connection_mode st = ''relay'' \<and> ss_transport st \<noteq> None")
    case False
    then have "snd (sm_invoke C rt post lat tid sm sid body) = put_session sid ?st sm"
      using assms by (auto simp: sm_invoke_def Let_def split: option.split bool.split)
    then show ?thesis by (intro exI [of _ ?st]) simp
  next
    case True
    then obtain t where t: "ss_transport st = Some t" by auto
    obtain r t' where "invoke_relay C rt t body tid (ss_request_count st + 1) = (r, t')" by fastforce
    with assms True t have "snd (sm_invoke C rt post lat tid sm sid body) = put_session sid (?st\<lparr>ss_transport := Some t'\<rparr>) sm"
      by (simp add: sm_invoke_def Let_def)
    then show ?thesis by (intro exI [of _ "?st\<lparr>ss_transport := Some t'\<rparr>"]) simp
  qed
qed

section \<open>Properties\<close>

text \<open>C18: along every sequence of connects, invokes, keepalive wake-ups and closes - with any answers of the market,
  the relay and the endpoints - the table of sessions and the table of keepalive tasks have the same keys, and the task of a
  session still pings or has ended with the exception of a failed ping (its session stays); every session is stored under
  its own id, counts its requests from zero, and has a relay transport unless it is direct.\<close>

theorem session_manager_run:
  "sm_inv (foldl (sm_apply C rt) new_session_manager xs)"
  by (rule sm.run_keeps [OF sm_inv_new])

text \<open>What the proxy answers to an invoke, and in which order it looks: the media type, the size,
  the JSON, the session. Until a session is found nothing changes; a found session's counter goes up
  by one, whatever the outcome, so its requests carry the sequence numbers 1, 2, 3 and so on.\<close>

lemma proxy_invoke_order:
  "let is_json = (lower (strip (fst (split_once '';'' ct))) = ''application/json'');
       parsed = rbind (utf8_decode body) (loads rt);
       res = proxy_invoke C rt post lat tid sm ct body sid
   in if \<not> is_json then res = (Some (Json_Reply 415 (JObj [(''error'', JStr ''unsupported media type'')])), sm)
      else if length body > 32768 then res = (Some (Json_Reply 413 (JObj [(''error'', JStr ''request body too large'')])), sm)
      else if parsed \<in> {Inl UnicodeDecodeError, Inl JSONDecodeError}
      then res = (Some (Json_Reply 400 (JObj [(''error'', JStr ''invalid JSON'')])), sm)
      else case (parsed, map_of (sm_sessions sm) sid) of
        (Inl e, _) \<Rightarrow> res = (Some (Unhandled e), sm)
      | (Inr _, None) \<Rightarrow>
          res = (Some (Json_Reply 410 (JObj [(''error'', JStr ''session expired''), (''code'', JInt 1004)])), sm)
      | (Inr _, Some st) \<Rightarrow>
          (\<exists>st'. map_of (sm_sessions (snd res)) = (map_of (sm_sessions sm))(sid \<mapsto> st')
             \<and> ss_request_count st' = ss_request_count st + 1)"
proof (cases "map_of (sm_sessions sm) sid")
  case None
  then show ?thesis
    by (auto simp: proxy_invoke_def Let_def sm_invoke_def max_body_bytes_def invoke_reply_def map_status_def
        split: sum.split)
next
  case (Some st)
  obtain r sm' where i: "sm_invoke C rt post lat tid sm sid body = (r, sm')" by fastforce
  with sm_invoke_found [OF Some, of C rt post lat tid body] obtain st' where
    "sm' = put_session sid st' sm" "ss_request_count st' = ss_request_count st + 1" by auto
  with Some i show ?thesis
    by (auto simp: proxy_invoke_def Let_def max_body_bytes_def put_session_def split: sum.split)
qed

text \<open>An error the provider reports over the relay keeps its code and its message all the way: the text
  the transport makes of a relay error frame is split by the session manager into the same code and
  message (a message of one line, not empty, that does not begin with a blank), and the proxy
  answers with the HTTP status of that code.\<close>

lemma relay_error_code_survives:
  assumes "0 \<le> n" and "n < 10 ^ 10" and "newline \<notin> set m" and "lstrip m = m" and "m \<noteq> []"
  shows "invoke_reply (relay_outcome rt (Inl (RuntimeError
      (error_text rt \<lparr>er_trace_id = tid, er_code = JInt n, er_message = JStr m\<rparr>))))
    = Json_Reply (map_status n) (JObj [(''error'', JStr m), (''code'', JInt n)])"
  using runtime_error_text [OF assms] by (simp add: relay_outcome_def invoke_reply_def)

theorem relay_error_code_survives_witness:
  "invoke_reply (relay_outcome demo_rt (Inl (RuntimeError
      (error_text demo_rt \<lparr>er_trace_id = JNull, er_code = JInt 1007, er_message = JStr ''adapter: timeout''\<rparr>))))
    = Json_Reply 504 (JObj [(''error'', JStr ''adapter: timeout''), (''code'', JInt 1007)])"
  using relay_error_code_survives [of 1007 "''adapter: timeout''" demo_rt JNull]
  by (simp add: newline_def lstrip_def is_space_def map_status_def)

text \<open>After \<open>close_session\<close> the session and its keepalive task are gone, and an invoke on it is answered with code 1004,
  status 410. Unless its keepalive task has failed its transport is closed, also when the market refuses.\<close>

theorem close_session_forgets:
  "case sm_close C rt sm sid ans of (r, sm', tp) \<Rightarrow>
     sm_get sm' = (sm_get sm)(sid := None) \<and> map_of (sm_keepalive_tasks sm') sid = None
     \<and> sm_invoke C rt post lat tid sm' sid body = (Some (Inl (SessionInvokeError 1004 ''session expired'')), sm')
     \<and> ((\<forall>e. map_of (sm_keepalive_tasks sm) sid \<noteq> Some (Failed e)) \<longrightarrow> r = ans
       \<and> (case sm_get sm sid of
            Some st \<Rightarrow> (case ss_transport st of None \<Rightarrow> tp = None
               | Some t \<Rightarrow> \<exists>t'. tp = Some t' \<and> tp_state t' = Closed)
          | None \<Rightarrow> tp = None))"
proof -
  have "tp_state (snd (close_transport C rt t r)) = Closed" for t r
    using close_transport_closes [of t C rt r]
    by (cases "tp_state t = Closed") (auto simp: close_transport_def close_ws_def)
  then show ?thesis
    by (auto simp: sm_close_def await_keepalive_def sm_get_def sm_invoke_def Let_def fun_eq_iff split: option.split keepalive.split)
qed

text \<open>The first failed ping makes the later \<open>close_session\<close> raise that very exception, without a word to the market and with
  the relay transport left open.\<close>

lemma failed_keepalive_spoils_close:
  assumes "map_of (sm_sessions sm) sid = Some st" and "map_of (sm_keepalive_tasks sm) sid = Some Pinging"
    and "keepalive_wake sm sid (Inl e) = (pinged, sm1)"
  shows "pinged \<and> map_of (sm_sessions sm1) sid = Some st \<and> fst (keepalive_wake sm1 sid answer) = False
    \<and> (\<exists>sm2. sm_close C rt sm1 sid ans = (Inl e, sm2, None) \<and> map_of (sm_sessions sm2) sid = None)"
  using assms by (auto simp: keepalive_wake_def sm_close_def await_keepalive_def Let_def)

end
