(* ===== verification/Provider.thy ===== *)
theory Provider
  imports Consumer
begin

text \<open>
  The seller's side: \<open>aim_node/provider/adapter.py\<close> (forwarding a request to the seller's HTTP
  endpoint, the health of that endpoint) and \<open>aim_node/provider/session_handler.py\<close> (accepting
  negotiated sessions and serving their requests).
\<close>

section \<open>extract_path\<close>

text \<open>One step into a value: a member of an object, or nothing.\<close>

fun json_step :: "json \<Rightarrow> string \<Rightarrow> json option" where
  "json_step (JObj m) part = map_of m part"
| "json_step _ part = None"

fun json_walk :: "json \<Rightarrow> string list \<Rightarrow> json" where
  "json_walk v [] = v"
| "json_walk v (part # parts) = (case json_step v part of None \<Rightarrow> JNull | Some w \<Rightarrow> json_walk w parts)"

definition path_parts :: "string \<Rightarrow> string list" where
  "path_parts path = split_char CHR ''.'' (lstrip_char CHR ''.'' (lstrip_char CHR ''$'' path))"

definition extract_path :: "json \<Rightarrow> string \<Rightarrow> json" where
  "extract_path data path = json_walk data (path_parts path)"

section \<open>The adapter\<close>

record adapter_config =
  ac_endpoint_url :: string
  ac_health_check_url :: "string option"
  ac_timeout_seconds :: int
  ac_max_concurrent :: int
  ac_max_body_bytes :: int
  ac_input_path :: "string option"
  ac_wrap_key :: "string option"
  ac_output_path :: "string option"

definition default_adapter_config :: "string \<Rightarrow> adapter_config" where
  "default_adapter_config url = \<lparr>ac_endpoint_url = url, ac_health_check_url = None,
     ac_timeout_seconds = 30, ac_max_concurrent = 10, ac_max_body_bytes = 32768, ac_input_path = None, ac_wrap_key = None, ac_output_path = None\<rparr>"

record adapter =
  ad_config :: adapter_config
  ad_started :: bool
  ad_healthy :: bool
  ad_failures :: nat

definition new_adapter :: "adapter_config \<Rightarrow> adapter" where
  "new_adapter cfg = \<lparr>ad_config = cfg, ad_started = False, ad_healthy = True, ad_failures = 0\<rparr>"

definition adapter_start :: "adapter \<Rightarrow> adapter" where
  "adapter_start a = a\<lparr>ad_started := True\<rparr>"

definition adapter_stop :: "adapter \<Rightarrow> adapter" where
  "adapter_stop a = a\<lparr>ad_started := False\<rparr>"

datatype adapter_exn = AdapterError int string | Other exn

text \<open>What the seller's endpoint answers to a POST or a GET.\<close>

datatype endpoint_answer = Endpoint_Timeout | Endpoint_Network_Error | Endpoint_Other exn
  | Endpoint_Response int bytes

definition outbound_payload :: "adapter_config \<Rightarrow> json \<Rightarrow> json" where
  "outbound_payload cfg pl =
    (let p = (case ac_input_path cfg of None \<Rightarrow> pl | Some path \<Rightarrow> extract_path pl path)
     in case ac_wrap_key cfg of None \<Rightarrow> p | Some key \<Rightarrow> JObj [(key, p)])"

definition response_value :: "adapter_config \<Rightarrow> json \<Rightarrow> json" where
  "response_value cfg v = (case ac_output_path cfg of
     None \<Rightarrow> v
   | Some path \<Rightarrow> if is_obj v then extract_path v path else JNull)"

definition forward_request ::
    "pyrt \<Rightarrow> (string \<Rightarrow> json \<Rightarrow> endpoint_answer) \<Rightarrow> int \<Rightarrow> adapter \<Rightarrow> bytes \<Rightarrow> adapter_exn + (bytes \<times> int)" where
  "forward_request rt post latency_ms a body =
    (let cfg = ad_config a in
     if int (length body) > ac_max_body_bytes cfg then Inl (AdapterError 1001 ''adapter: request body too large'')
     else case rbind (utf8_decode body) (loads rt) of
       Inl e \<Rightarrow> Inl (if e = UnicodeDecodeError \<or> e = JSONDecodeError
                      then AdapterError 1001 ''adapter: invalid JSON'' else Other e)
     | Inr pl \<Rightarrow>
       if \<not> ad_started a then Inl (Other (RuntimeError ''adapter client is not started''))
       else (case post (ac_endpoint_url cfg) (outbound_payload cfg pl) of
          Endpoint_Timeout \<Rightarrow> Inl (AdapterError 1007 ''adapter: timeout'')
        | Endpoint_Network_Error \<Rightarrow> Inl (AdapterError 1006 ''adapter: connection refused/reset'')
        | Endpoint_Other e \<Rightarrow> Inl (Other e)
        | Endpoint_Response status content \<Rightarrow>
            if \<not> (200 \<le> status \<and> status < 300) then Inl (AdapterError 1006 (''adapter: HTTP '' @ str_of_int status))
            else (case loads_ws rt (Binary content) of
                Inl e \<Rightarrow> Inl (if e = JSONDecodeError then AdapterError 1006 ''adapter: non-JSON response'' else Other e)
              | Inr v \<Rightarrow> Inr (utf8_encode (dumps rt '','' '':'' (response_value cfg v)), latency_ms))))"

text \<open>\<open>health_check\<close>: the answer of the GET decides.\<close>

definition health_ok :: "endpoint_answer \<Rightarrow> bool" where
  "health_ok ans = (case ans of Endpoint_Response status _ \<Rightarrow> 200 \<le> status \<and> status < 300 | _ \<Rightarrow> False)"

definition health_url :: "adapter_config \<Rightarrow> string" where
  "health_url cfg = (case ac_health_check_url cfg of
     Some u \<Rightarrow> if u = [] then ac_endpoint_url cfg else u
   | None \<Rightarrow> ac_endpoint_url cfg)"

definition health_check :: "adapter \<Rightarrow> bool \<Rightarrow> bool \<times> adapter" where
  "health_check a ok =
    (if ok then (True, a\<lparr>ad_failures := 0, ad_healthy := True\<rparr>)
     else
       let was_healthy = ad_healthy a; n = ad_failures a + 1
       in (False, if n \<ge> 3 then a\<lparr>ad_failures := n, ad_healthy := False\<rparr>
                  else if \<not> was_healthy then a\<lparr>ad_failures := n, ad_healthy := False\<rparr>
                  else a\<lparr>ad_failures := n\<rparr>))"

section \<open>The session handler\<close>

record provider_handler =
  ph_adapter :: adapter
  ph_active_sessions :: "(string, relay_transport) dict"
  ph_session_tasks :: "(string, unit) dict"
  ph_health_task :: bool
  ph_registered :: bool

definition new_provider :: "adapter \<Rightarrow> provider_handler" where
  "new_provider a = \<lparr>ph_adapter = a, ph_active_sessions = [], ph_session_tasks = [],
     ph_health_task = False, ph_registered = False\<rparr>"

definition provider_start :: "provider_handler \<Rightarrow> provider_handler" where
  "provider_start p = p\<lparr>ph_adapter := adapter_start (ph_adapter p), ph_registered := True, ph_health_task := True\<rparr>"

text \<open>
  A cancelled session task runs its \<open>finally\<close>, which removes the session and closes its transport;
  what is still active after that is closed by \<open>stop\<close> itself.
\<close>

definition provider_stop :: "provider_handler \<Rightarrow> provider_handler" where
  "provider_stop p = p\<lparr>ph_health_task := False, ph_session_tasks := [], ph_active_sessions := [],
     ph_adapter := adapter_stop (ph_adapter p)\<rparr>"

text \<open>The relay fields of a \<open>SESSION_NEGOTIATE\<close> event, as the checks in front of the connection leave them.\<close>

definition nonempty_str :: "json \<Rightarrow> string option" where
  "nonempty_str v = (case v of JStr s \<Rightarrow> if s = [] then None else Some s | _ \<Rightarrow> None)"

definition negotiate_source :: "(string \<times> json) list \<Rightarrow> (string \<times> json) list" where
  "negotiate_source event = (case jget event ''payload'' of JObj m \<Rightarrow> m | _ \<Rightarrow> event)"

definition relay_offer :: "(string \<times> json) list \<Rightarrow> (string \<times> string \<times> string \<times> string) option" where
  "relay_offer source =
    (case (nonempty_str (jget source ''session_id''), nonempty_str (jget source ''relay_url''),
           nonempty_str (jget source ''buyer_node_id''), nonempty_str (jget source ''buyer_ed25519_pubkey'')) of
       (Some sid, Some url, Some nid, Some pk) \<Rightarrow> Some (sid, url, nid, pk)
     | _ \<Rightarrow> None)"

definition on_session_negotiate ::
    "relay_env \<Rightarrow> provider_handler \<Rightarrow> (string \<times> json) list \<Rightarrow> unit res option \<times> provider_handler" where
  "on_session_negotiate E p event =
    (let source = negotiate_source event;
         mode = jget source ''connection_mode''
     in if \<not> ad_healthy (ph_adapter p) then (Some (Inr ()), p)
        else if mode \<noteq> JStr ''relay'' then (Some (Inr ()), p)
        else case relay_offer source of
          None \<Rightarrow> (Some (Inr ()), p)
        | Some (sid, url, nid, pk) \<Rightarrow>
          if sid \<in> set (dict_keys (ph_active_sessions p)) then (Some (Inr ()), p)
          else (case build_handshake_manager E of
             Inl e \<Rightarrow> (Some (Inl e), p)
           | Inr _ \<Rightarrow>
             (case ed_public_key_b64 pk of
                Inl e \<Rightarrow> (Some (Inl e), p)
              | Inr key \<Rightarrow>
                (case open_relay E url sid nid key False of
                   (Some (Inr _), Some t) \<Rightarrow>
                     (Some (Inr ()), p\<lparr>ph_active_sessions := dict_set sid t (ph_active_sessions p),
                                       ph_session_tasks := dict_set sid () (ph_session_tasks p)\<rparr>)
                 | (r, _) \<Rightarrow> (r, p)))))"

section \<open>Serving one frame\<close>

text \<open>The text of an exception is made by the interpreter (\<open>exc_str\<close>).\<close>

definition error_reply :: "json \<Rightarrow> int \<Rightarrow> string \<Rightarrow> payload" where
  "error_reply trace_id c m = Error \<lparr>er_trace_id = trace_id, er_code = JInt c, er_message = JStr m\<rparr>"

definition send_payload :: "crypto_lib \<Rightarrow> pyrt \<Rightarrow> relay_transport \<Rightarrow> payload \<Rightarrow> unit res \<times> relay_transport" where
  "send_payload C rt t p = (case serialize_payload rt p of
     Inl e \<Rightarrow> (Inl e, t)
   | Inr d \<Rightarrow> send_frame C t (frame_type_of p) d)"

definition provider_error :: "(exn \<Rightarrow> string) \<Rightarrow> json \<Rightarrow> exn \<Rightarrow> payload" where
  "provider_error exc_str trace_id e =
     error_reply trace_id 1001 (''provider: invalid request ('' @ exc_str e @ '')'')"

definition response_to :: "request_payload \<Rightarrow> bytes \<Rightarrow> int \<Rightarrow> response_payload" where
  "response_to p body latency_ms = \<lparr>rs_trace_id = rq_trace_id p, rs_sequence = rq_sequence p,
     rs_content_type = JStr ''application/json'', rs_body = body, rs_latency_ms = JInt latency_ms\<rparr>"

definition serve_request ::
    "crypto_lib \<Rightarrow> pyrt \<Rightarrow> (exn \<Rightarrow> string) \<Rightarrow> (bytes \<Rightarrow> adapter_exn + (bytes \<times> int)) \<Rightarrow> relay_transport \<Rightarrow> bytes
      \<Rightarrow> unit res \<times> relay_transport" where
  "serve_request C rt exc_str forward t plaintext =
    (case deserialize_payload rt FRAME_REQUEST plaintext of
       Inl e \<Rightarrow> send_payload C rt t (provider_error exc_str JNull e)
     | Inr (Some (Request p)) \<Rightarrow>
       (case forward (rq_body p) of
          Inl (AdapterError c m) \<Rightarrow> send_payload C rt t (error_reply (rq_trace_id p) c m)
        | Inl (Other e) \<Rightarrow> send_payload C rt t (provider_error exc_str (rq_trace_id p) e)
        | Inr (body, latency_ms) \<Rightarrow>
          (case send_response C rt t (response_to p body latency_ms) of
             (Inr u, t') \<Rightarrow> (Inr u, t')
           | (Inl e, t') \<Rightarrow> send_payload C rt t' (provider_error exc_str (rq_trace_id p) e)))
     | Inr _ \<Rightarrow> send_payload C rt t (provider_error exc_str JNull (ValueError ''request payload decode failed'')))"

definition serve_cancel :: "crypto_lib \<Rightarrow> pyrt \<Rightarrow> relay_transport \<Rightarrow> bytes \<Rightarrow> unit res \<times> relay_transport" where
  "serve_cancel C rt t plaintext = (case deserialize_payload rt FRAME_CANCEL plaintext of
     Inl e \<Rightarrow> (Inl e, t)
   | Inr (Some (Cancel tid)) \<Rightarrow> send_payload C rt t (Cancel_Ack tid (JBool True))
   | Inr _ \<Rightarrow> send_payload C rt t (Cancel_Ack (JStr []) (JBool False)))"

definition serve_frame ::
    "crypto_lib \<Rightarrow> pyrt \<Rightarrow> (exn \<Rightarrow> string) \<Rightarrow> (bytes \<Rightarrow> adapter_exn + (bytes \<times> int)) \<Rightarrow> relay_transport \<Rightarrow> int \<Rightarrow> bytes
      \<Rightarrow> unit res \<times> relay_transport" where
  "serve_frame C rt exc_str forward t frame_type plaintext =
    (if frame_type = FRAME_REQUEST then serve_request C rt exc_str forward t plaintext
     else if frame_type = FRAME_CANCEL then serve_cancel C rt t plaintext
     else (Inr (), t))"

lemma send_payload_leaves:
  assumes "send_payload C rt t p = (r, t')"
  shows "inbox t' = inbox t" and "steady t' = steady t"
  using assms send_frame_leaves(1,2) by (auto simp: send_payload_def split: sum.splits)

lemma send_response_leaves:
  assumes "send_response C rt t p = (r, t')"
  shows "inbox t' = inbox t" and "steady t' = steady t"
  using assms send_frame_leaves(1,2) by (auto simp: send_response_def split: sum.splits)

lemma serve_request_inbox: "serve_request C rt x f t pt = (r, t') \<Longrightarrow> inbox t' = inbox t"
  unfolding serve_request_def
  by (auto simp: send_payload_leaves send_response_leaves split: sum.splits option.splits payload.splits
        adapter_exn.splits prod.splits)

lemma serve_frame_inbox: "serve_frame C rt x f t ft pt = (r, t') \<Longrightarrow> inbox t' = inbox t"
  by (auto simp: serve_frame_def serve_request_inbox serve_cancel_def send_payload_leaves
      split: if_splits sum.splits option.splits payload.splits)

text \<open>
  \<open>process_session\<close> over what has arrived: \<open>None\<close> while it waits for more; when an exception ends
  the loop, the transport is closed (its errors suppressed) and the exception returned.
\<close>

function serve_loop ::
    "crypto_lib \<Rightarrow> pyrt \<Rightarrow> (exn \<Rightarrow> string) \<Rightarrow> (bytes \<Rightarrow> adapter_exn + (bytes \<times> int)) \<Rightarrow> relay_transport
      \<Rightarrow> exn option \<times> relay_transport" where
  "serve_loop C rt exc_str forward t = (case recv_frame C t of
     (None, t1) \<Rightarrow> (None, t1)
   | (Some (Inl e), t1) \<Rightarrow> (Some e, t1)
   | (Some (Inr (frame_type, plaintext)), t1) \<Rightarrow>
       (case serve_frame C rt exc_str forward t1 frame_type plaintext of
          (Inl e, t2) \<Rightarrow> (Some e, t2)
        | (Inr _, t2) \<Rightarrow> serve_loop C rt exc_str forward t2))"
  by pat_completeness auto

termination serve_loop
  by (relation "measure (\<lambda>(C, rt, x, f, t). length (inbox t))")
     (auto dest!: recv_frame_shrinks [OF sym] serve_frame_inbox [OF sym])

declare serve_loop.simps [simp del]

definition process_session ::
    "crypto_lib \<Rightarrow> pyrt \<Rightarrow> (exn \<Rightarrow> string) \<Rightarrow> (bytes \<Rightarrow> adapter_exn + (bytes \<times> int)) \<Rightarrow> provider_handler \<Rightarrow> string
      \<Rightarrow> provider_handler \<times> relay_transport option" where
  "process_session C rt exc_str forward p sid = (case map_of (ph_active_sessions p) sid of
     None \<Rightarrow> (p, None)
   | Some t \<Rightarrow>
     (case serve_loop C rt exc_str forward t of
        (None, t') \<Rightarrow> (p\<lparr>ph_active_sessions := dict_set sid t' (ph_active_sessions p)\<rparr>, None)
      | (Some e, t') \<Rightarrow>
          (p\<lparr>ph_session_tasks := dict_del sid (ph_session_tasks p),
             ph_active_sessions := dict_del sid (ph_active_sessions p)\<rparr>,
           Some (snd (close_transport C rt t' ''connection_drop'')))))"

section \<open>Properties of the adapter\<close>

text \<open>The health of the endpoint after a list of checks.\<close>

definition run_health :: "adapter_config \<Rightarrow> bool list \<Rightarrow> adapter" where
  "run_health cfg checks = foldl (\<lambda>a ok. snd (health_check a ok)) (new_adapter cfg) checks"

lemma run_health_state:
  "ad_failures (run_health cfg checks) = length (takeWhile Not (rev checks))
   \<and> (ad_healthy (run_health cfg checks) \<longleftrightarrow> length (takeWhile Not (rev checks)) < 3)"
proof (induction checks rule: rev_induct)
  case Nil
  then show ?case by (simp add: run_health_def new_adapter_def)
next
  case (snoc ok checks)
  have "run_health cfg (checks @ [ok]) = snd (health_check (run_health cfg checks) ok)"
    by (simp add: run_health_def)
  with snoc show ?case by (auto simp: health_check_def Let_def)
qed

text \<open>The adapter counts as unhealthy exactly when the last three health checks (or more) all failed:
  it survives two failures, and one success makes it healthy again.\<close>

theorem adapter_health:
  "ad_healthy (run_health cfg checks) \<longleftrightarrow> length (takeWhile Not (rev checks)) < 3"
  using run_health_state by blast

text \<open>A value nested under a list of keys.\<close>

fun nest :: "string list \<Rightarrow> json \<Rightarrow> json" where
  "nest [] v = v"
| "nest (k # ks) v = JObj [(k, nest ks v)]"

fun join_dots :: "string list \<Rightarrow> string" where
  "join_dots [] = []"
| "join_dots [k] = k"
| "join_dots (k # l # ks) = k @ CHR ''.'' # join_dots (l # ks)"

lemma split_char_plain: "c \<notin> set k \<Longrightarrow> split_char c k = [k]"
  by (induction k) auto

lemma split_char_app: "c \<notin> set k \<Longrightarrow> split_char c (k @ c # s) = k # split_char c s"
  by (induction k) auto

lemma split_join_dots:
  "ks \<noteq> [] \<Longrightarrow> list_all (\<lambda>k. CHR ''.'' \<notin> set k) ks \<Longrightarrow> split_char CHR ''.'' (join_dots ks) = ks"
  by (induction ks rule: join_dots.induct) (simp_all add: split_char_plain split_char_app)

lemma json_walk_nest: "json_walk (nest ks v) ks = v"
  by (induction ks) auto

lemma join_dots_hd:
  "ks \<noteq> [] \<Longrightarrow> hd ks \<noteq> [] \<Longrightarrow> \<exists>t. join_dots ks = hd (hd ks) # t"
  by (cases ks rule: join_dots.cases) (auto simp: neq_Nil_conv)

lemma path_parts_join:
  assumes "ks \<noteq> []" and "list_all (\<lambda>k. CHR ''.'' \<notin> set k) ks" and "hd ks \<noteq> []" and "hd (hd ks) \<noteq> CHR ''$''"
  shows "path_parts (''$.'' @ join_dots ks) = ks"
proof -
  from join_dots_hd [OF assms(1,3)] obtain t where t: "join_dots ks = hd (hd ks) # t" by blast
  have "hd (hd ks) \<noteq> CHR ''.''"
    using assms by (metis (no_types, lifting) hd_in_set list_all_iff)
  with t assms(4) have "lstrip_char CHR ''.'' (lstrip_char CHR ''$'' (''$.'' @ join_dots ks)) = join_dots ks"
    by (simp add: lstrip_char_def)
  with split_join_dots [OF assms(1,2)] show ?thesis by (simp add: path_parts_def)
qed

text \<open>A path \<open>$.a.b.c\<close> finds what is nested under the keys a, b and c (keys without dots, the first one
  not empty and not beginning with a dollar sign), and finds nothing - \<open>None\<close> - in any value that is
  not an object.\<close>

lemma extract_path_nested:
  assumes "ks \<noteq> []" and "list_all (\<lambda>k. CHR ''.'' \<notin> set k) ks" and "hd ks \<noteq> []" and "hd (hd ks) \<noteq> CHR ''$''"
  shows "extract_path (nest ks v) (''$.'' @ join_dots ks) = v
    \<and> (\<not> is_obj w \<longrightarrow> extract_path w (''$.'' @ join_dots ks) = JNull)"
proof -
  have "json_walk w ks = JNull" if "\<not> is_obj w"
    using that assms(1) by (cases ks; cases w) auto
  then show ?thesis
    using path_parts_join [OF assms] json_walk_nest by (simp add: extract_path_def)
qed

theorem extract_path_nested_witness:
  "extract_path (nest [''data'', ''result''] (JInt 7)) (''$.'' @ join_dots [''data'', ''result'']) = JInt 7"
  using extract_path_nested [of "[''data'', ''result'']" "JInt 7" JNull] by simp

section \<open>Properties of the session handler\<close>

text \<open>A negotiation never disturbs a running session: an active session keeps its transport whatever
  event arrives, the table only grows by the session of the event, an unhealthy adapter accepts nothing,
  and a new session has gone through a complete handshake as the seller.\<close>

theorem negotiate_keeps_sessions:
  assumes "on_session_negotiate E p event = (r, p')"
  shows "p' = p \<or> (ad_healthy (ph_adapter p) \<and> r = Some (Inr ())
     \<and> (\<exists>sid url nid pk key t. relay_offer (negotiate_source event) = Some (sid, url, nid, pk)
          \<and> sid \<notin> set (dict_keys (ph_active_sessions p))
          \<and> ph_active_sessions p' = ph_active_sessions p @ [(sid, t)]
          \<and> open_relay E url sid nid key False = (Some (Inr ()), Some t)))"
proof -
  have "sid \<notin> fst ` set d \<Longrightarrow> dict_set sid t d = d @ [(sid, t)]" for sid t and d :: "(string, relay_transport) dict"
    by (intro dict_set_append) simp
  then show ?thesis
    using assms
    by (auto simp: on_session_negotiate_def Let_def
        split: if_splits option.splits sum.splits prod.splits)
qed

theorem negotiate_keeps_sessions_witness:
  "\<forall>E cfg event. on_session_negotiate E ((new_provider (new_adapter cfg))\<lparr>ph_adapter := (new_adapter cfg)\<lparr>ad_healthy := False\<rparr>\<rparr>) event
    = (Some (Inr ()), (new_provider (new_adapter cfg))\<lparr>ph_adapter := (new_adapter cfg)\<lparr>ad_healthy := False\<rparr>\<rparr>)"
proof (intro allI)
  fix E cfg event
  let ?p = "(new_provider (new_adapter cfg))\<lparr>ph_adapter := (new_adapter cfg)\<lparr>ad_healthy := False\<rparr>\<rparr>"
  obtain r p' where n: "on_session_negotiate E ?p event = (r, p')" by fastforce
  have "p' = ?p" using negotiate_keeps_sessions [OF n] by auto
  moreover have "r = Some (Inr ())" using n by (auto simp: on_session_negotiate_def Let_def)
  ultimately show "on_session_negotiate E ?p event = (Some (Inr ()), ?p)" using n by simp
qed

end
