(* ===== verification/RelayService.thy ===== *)
theory RelayService
  imports Provider
begin

text \<open>
  Buyer, relay and seller together: one request of the session manager, through the buyer's
  transport, the relay, the seller's serve loop and the adapter, and back.
\<close>

section \<open>Sizes\<close>

lemma length_esc_char: "length (esc_char c) \<le> 6"
  by (simp add: esc_char_def Let_def)

lemma length_dumps_str_le: "length (dumps_str s) \<le> 6 * length s + 2"
proof -
  have "length (concat (map esc_char s)) \<le> 6 * length s"
    by (induction s) (use length_esc_char in \<open>auto intro: add_mono\<close>)
  then show ?thesis by (simp add: dumps_str_def)
qed

lemma more_name_lengths:
  "length (dumps_str ''latency_ms'') = 12" "length (dumps_str ''code'') = 6"
  "length (dumps_str ''message'') = 9" "length (dumps_str ''application/json'') = 18"
  by (simp_all add: dumps_str_def esc_char_def Let_def)

lemma serialized_ascii_length:
  assumes "payload_typed p" and "serialize_payload rt p = Inr d"
  shows "length d = length (dumps rt '','' '':'' (jsort (asdict p)))"
proof -
  have "str_all_ascii (dumps rt '','' '':'' (jsort (asdict p)))"
    by (intro dumps_ascii jwf_jsort asdict_jwf assms(1)) simp_all
  moreover have "d = utf8_encode (dumps rt '','' '':'' (jsort (asdict p)))"
    using assms(2) unfolding serialize_Inr_iff by blast
  ultimately show ?thesis by (simp only: length_utf8_ascii)
qed

lemma serialized_response_length:
  assumes "serialize_payload rt (Response \<lparr>rs_trace_id = JStr t, rs_sequence = JInt n,
      rs_content_type = JStr ''application/json'', rs_body = b, rs_latency_ms = JInt ms\<rparr>) = Inr d"
    and "0 \<le> n" "n < 10 ^ 20" "0 \<le> ms" "ms < 10 ^ 20"
  shows "length d \<le> 4 * ((length b + 2) div 3) + 6 * length t + 140"
proof -
  let ?p = "Response \<lparr>rs_trace_id = JStr t, rs_sequence = JInt n,
      rs_content_type = JStr ''application/json'', rs_body = b, rs_latency_ms = JInt ms\<rparr>"
  have js: "jsort (asdict ?p) = JObj [(''body'', JStr (b64encode b)), (''content_type'', JStr ''application/json''),
       (''latency_ms'', JInt ms), (''sequence'', JInt n), (''trace_id'', JStr t)]"
    by (simp add: sort_key_def less_char_def less_eq_char_def)
  have "length d = length (dumps rt '','' '':'' (jsort (asdict ?p)))"
    by (rule serialized_ascii_length [OF _ assms(1)]) simp
  also have "\<dots> = length (b64encode b) + length (dumps_str t) + length (str_of_int n) + length (str_of_int ms) + 83"
    unfolding js by (simp add: dumps_str_plain [OF b64encode_plain] name_lengths more_name_lengths)
  also have "\<dots> \<le> length (b64encode b) + (6 * length t + 2) + 20 + 20 + 83"
    using length_dumps_str_le [of t] length_str_of_int [of n 20] length_str_of_int [of ms 20] assms(2-5) by simp
  finally show ?thesis by (simp add: length_b64encode)
qed

lemma serialized_error_length:
  assumes "serialize_payload rt (error_reply (JStr t) c m) = Inr d" and "0 \<le> c" "c < 10 ^ 20"
  shows "length d \<le> 6 * length t + 3100"
proof -
  have js: "jsort (asdict (error_reply (JStr t) c m)) = JObj [(''code'', JInt c), (''message'', JStr m), (''trace_id'', JStr t)]"
    by (simp add: error_reply_def sort_key_def less_char_def less_eq_char_def)
  have "length m \<le> 500"
    using assms(1) by (simp add: serialize_Inr_iff error_reply_def check_message_def max_message_len_def
        del: utf8_encode_Cons utf8_encode_append dumps.simps asdict.simps)
  moreover have "length d = length (dumps rt '','' '':'' (jsort (asdict (error_reply (JStr t) c m))))"
    by (rule serialized_ascii_length [OF _ assms(1)]) (simp add: error_reply_def)
  moreover have "length (dumps rt '','' '':'' (jsort (asdict (error_reply (JStr t) c m))))
      \<le> (6 * length m + 2) + (6 * length t + 2) + 20 + 32"
    unfolding js using length_dumps_str_le [of t] length_dumps_str_le [of m] length_str_of_int [of c 20] assms(2,3)
    by (simp add: name_lengths more_name_lengths)
  ultimately show ?thesis by simp
qed

section \<open>One frame across\<close>

lemma set_inbox_ws [simp]: "(tp_ws (set_inbox ms t) = None) = (tp_ws t = None)"
  by (simp add: set_inbox_def)

lemma can_send_set_inbox: "can_send n (set_inbox ms t) \<longleftrightarrow> can_send n t"
  by (auto simp: can_send_def set_inbox_def)

lemma send_frame_exact:
  assumes "can_send (Suc n) t" and "tp_keys t = Some ks"
    and "outbound_key_material (tp_is_initiator t) ks = (key, np)"
    and "0 \<le> ft" and "ft \<le> 0xFF" and "length p \<le> 0xFFFF"
  obtains raw t' where "send_frame C t ft p = (Inr (), t')"
    "encrypt_frame C key np (next_expected (tp_send_seq t)) ft p = Inr raw"
    "sent t' = sent t @ [Binary raw]" "steady t' = steady t" "inbox t' = inbox t"
    "tp_recv_seq t' = tp_recv_seq t"
proof -
  obtain t' where s: "send_frame C t ft p = (Inr (), t')"
    using send_frame_ok [OF assms(1,4,5,6), of C] by auto
  from send_frame_Inr [OF s assms(2,3)] obtain raw where
    "encrypt_frame C key np (next_expected (tp_send_seq t)) ft p = Inr raw" "sent t' = sent t @ [Binary raw]"
    by blast
  with s send_frame_leaves [OF s] that show thesis by blast
qed

lemma recv_frame_exact:
  assumes "aead_ok C" and "tp_ws t \<noteq> None" and "tp_keys t = Some ks"
    and "inbound_key_material (tp_is_initiator t) ks = (key, np)" and "inbox t = (u, Binary raw) # ms"
    and "encrypt_frame C key np (next_expected (tp_recv_seq t)) ft p = Inr raw" and "is_data ft"
  obtains t' where "recv_frame C t = (Some (Inr (ft, p)), t')" "inbox t' = ms" "steady t' = steady t"
    "tp_send_seq t' = tp_send_seq t" "sent t' = sent t" "\<And>n. can_send n t' = can_send n t"
proof -
  let ?t = "(set_inbox ms t)\<lparr>tp_now := u, tp_recv_seq := (tp_recv_seq t)\<lparr>next_expected := next_expected (tp_recv_seq t) + 1\<rparr>,
      tp_last_activity := u\<rparr>"
  have "open_frame C ((set_inbox ms t)\<lparr>tp_now := u\<rparr>) (Binary raw) = Inr (ft, next_expected (tp_recv_seq t), p)"
    using assms(3,4) decrypt_encrypt_frame [OF assms(1,6)] by (simp add: open_frame_def)
  then have "recv_turn C (set_inbox ms t) u (Binary raw) = (Some (Inr (ft, p)), ?t)"
    using assms(7) by (simp add: recv_turn_def Let_def validate_and_advance_def dispatch_frame_def is_data_def)
  then have "recv_frame C t = (Some (Inr (ft, p)), ?t)"
    using assms(2,3,5) by (simp add: recv_frame_def)
  moreover have "sent ?t = sent t" by (simp add: sent_def set_inbox_def split: option.split)
  moreover have "can_send n ?t = can_send n t" for n
    using can_send_set_inbox [of n ms t] by (simp add: can_send_def)
  ultimately show thesis using that assms(2) by simp
qed

lemma recv_frame_empty:
  "tp_ws t \<noteq> None \<Longrightarrow> tp_keys t \<noteq> None \<Longrightarrow> inbox t = [] \<Longrightarrow> recv_frame C t = (None, set_inbox [] t)"
  by (simp add: recv_frame_def)

section \<open>The seller answers one request\<close>

text \<open>What the adapter's outcome becomes on the wire.\<close>

definition reply_payload :: "request_payload \<Rightarrow> adapter_exn + (bytes \<times> int) \<Rightarrow> payload option" where
  "reply_payload p r = (case r of
     Inr (body, ms) \<Rightarrow> Some (Response (response_to p body ms))
   | Inl (AdapterError c m) \<Rightarrow> Some (error_reply (rq_trace_id p) c m)
   | Inl (Other _) \<Rightarrow> None)"

lemma serve_request_reply:
  assumes "deserialize_payload rt FRAME_REQUEST d = Inr (Some (Request p))"
    and "reply_payload p (forward (rq_body p)) = Some q" and "serialize_payload rt q = Inr dq"
    and "send_frame C t (frame_type_of q) dq = (Inr u, t')"
  shows "serve_request C rt x forward t d = (Inr u, t')"
  using assms
  by (auto simp: serve_request_def reply_payload_def send_payload_def send_response_def error_reply_def
      split: sum.splits adapter_exn.splits)

text \<open>The two ends of one session: same keys, opposite roles, counters that fit, sockets up.\<close>

definition paired :: "traffic_keys \<Rightarrow> relay_transport \<Rightarrow> relay_transport \<Rightarrow> bool" where
  "paired ks tb ts \<longleftrightarrow> tp_keys tb = Some ks \<and> tp_keys ts = Some ks
     \<and> tp_is_initiator tb \<and> \<not> tp_is_initiator ts
     \<and> can_send 1 tb \<and> can_send 1 ts
     \<and> next_expected (tp_recv_seq ts) = next_expected (tp_send_seq tb)
     \<and> next_expected (tp_recv_seq tb) = next_expected (tp_send_seq ts)"

text \<open>The request goes out; its frame does not depend on what is in the inbox.\<close>

lemma request_goes_out:
  assumes "can_send 1 tb" and "tp_keys tb = Some ks" and "outbound_key_material (tp_is_initiator tb) ks = (key, np)"
    and "length d \<le> 0xFFFF"
  shows "\<exists>raw tb'. send_frame C (set_inbox ms tb) FRAME_REQUEST d = (Inr (), tb')
    \<and> encrypt_frame C key np (next_expected (tp_send_seq tb)) FRAME_REQUEST d = Inr raw
    \<and> sent tb' = sent tb @ [Binary raw] \<and> steady tb' = steady tb \<and> inbox tb' = ms
    \<and> tp_recv_seq tb' = tp_recv_seq tb"
proof -
  have cs: "can_send (Suc 0) (set_inbox ms tb)" using assms(1) can_send_set_inbox by simp
  have ws: "tp_ws tb \<noteq> None" using assms(1) by (auto simp: can_send_def)
  show ?thesis
    by (rule send_frame_exact [OF cs, of ks key np FRAME_REQUEST d C])
       (use assms(2-) ws in \<open>auto simp: FRAME_REQUEST_def\<close>)
qed

text \<open>The seller reads the frame of a request, answers it, and waits for the next one.\<close>

lemma seller_answers:
  assumes "aead_ok C" and "tp_keys ts = Some ks" and "\<not> tp_is_initiator ts" and "can_send 1 ts"
    and keys: "inbound_key_material False ks = (key, np)" "outbound_key_material False ks = (key', np')"
    and e: "encrypt_frame C key np (next_expected (tp_recv_seq ts)) FRAME_REQUEST d = Inr raw1"
    and d: "serialize_payload rt (Request p) = Inr d" "payload_typed (Request p)"
    and q: "reply_payload p (forward (rq_body p)) = Some q" "serialize_payload rt q = Inr dq"
           "length dq \<le> 0xFFFF" "frame_type_of q = FRAME_RESPONSE \<or> frame_type_of q = FRAME_ERROR"
  obtains raw2 ts' where "serve_loop C rt x forward (set_inbox [(u1, Binary raw1)] ts) = (None, ts')"
    "encrypt_frame C key' np' (next_expected (tp_send_seq ts)) (frame_type_of q) dq = Inr raw2"
    "sent ts' = sent ts @ [Binary raw2]"
proof -
  let ?ts = "set_inbox [(u1, Binary raw1)] ts"
  have ws: "tp_ws ts \<noteq> None" using assms(4) by (auto simp: can_send_def)
  have ft: "0 \<le> frame_type_of q" "frame_type_of q \<le> 0xFF" using q(4) by (auto simp: frame_types)
  obtain ts1 where ts1: "recv_frame C ?ts = (Some (Inr (FRAME_REQUEST, d)), ts1)" "inbox ts1 = []"
      "steady ts1 = steady ts" "tp_send_seq ts1 = tp_send_seq ts" "sent ts1 = sent ts" "can_send (Suc 0) ts1 = can_send (Suc 0) ts"
    by (rule recv_frame_exact [OF assms(1), of ?ts ks key np u1 raw1 "[]" FRAME_REQUEST d])
       (use assms(2,3) ws keys(1) e in \<open>auto simp: can_send_set_inbox is_data_def frame_types\<close>)
  have k1: "tp_keys ts1 = Some ks" "tp_is_initiator ts1 = False" "tp_ws ts1 \<noteq> None"
    using steadyD [OF ts1(3)] assms(2,3) ws by auto
  have "can_send (Suc 0) ts1" using ts1(6) assms(4) by simp
  then obtain raw2 ts2 where ts2: "send_frame C ts1 (frame_type_of q) dq = (Inr (), ts2)"
      "encrypt_frame C key' np' (next_expected (tp_send_seq ts1)) (frame_type_of q) dq = Inr raw2"
      "sent ts2 = sent ts1 @ [Binary raw2]" "steady ts2 = steady ts1" "inbox ts2 = inbox ts1"
    by (rule send_frame_exact [OF _ k1(1), of _ key' np' "frame_type_of q" dq C]) (use k1 keys(2) ft q(3) in auto)
  have sf: "serve_frame C rt x forward ts1 FRAME_REQUEST d = (Inr (), ts2)"
    using serve_request_reply [OF deserialize_serialize [OF d(2,1), simplified], of forward q dq C ts1] q(1,2) ts2(1)
    by (simp add: serve_frame_def)
  have "tp_ws ts2 \<noteq> None" "tp_keys ts2 \<noteq> None" using steadyD [OF ts2(4)] k1 by auto
  then have "recv_frame C ts2 = (None, set_inbox [] ts2)" using ts2(5) ts1(2) by (simp add: recv_frame_empty)
  then have "serve_loop C rt x forward ts2 = (None, set_inbox [] ts2)" by (subst serve_loop.simps) simp
  with ts1(1) sf have "serve_loop C rt x forward ?ts = (None, set_inbox [] ts2)"
    by (subst serve_loop.simps) simp
  then show thesis by (rule that) (use ts2(2,3) ts1(4,5) in auto)
qed

lemma exchange:
  assumes "aead_ok C" and "paired ks tb ts"
    and d: "serialize_payload rt (Request p) = Inr d" "payload_typed (Request p)" "length d \<le> 0xFFFF"
    and q: "reply_payload p (forward (rq_body p)) = Some q" "serialize_payload rt q = Inr dq"
           "length dq \<le> 0xFFFF" "payload_typed q" "frame_type_of q = FRAME_RESPONSE \<or> frame_type_of q = FRAME_ERROR"
  obtains raw1 raw2 ts' tb1 tb2 where
    "serve_loop C rt x forward (set_inbox [(u1, Binary raw1)] ts) = (None, ts')"
    "sent ts' = sent ts @ [Binary raw2]"
    "send_frame C (set_inbox [(u2, Binary raw2)] tb) FRAME_REQUEST d = (Inr (), tb1)"
    "sent tb1 = sent tb @ [Binary raw1]" "steady tb1 = steady tb"
    "recv_frame C tb1 = (Some (Inr (frame_type_of q, dq)), tb2)" "steady tb2 = steady tb"
    "sent tb2 = sent tb @ [Binary raw1]"
proof -
  note pr = assms(2) [unfolded paired_def]
  obtain key np where b: "outbound_key_material True ks = (key, np)" by fastforce
  obtain key' np' where s: "outbound_key_material False ks = (key', np')" by fastforce
  have bi: "inbound_key_material False ks = (key, np)" and si: "inbound_key_material True ks = (key', np')"
    using b s by (simp_all add: outbound_key_material_def inbound_key_material_def)
  have out: "\<exists>raw tb'. send_frame C (set_inbox ms tb) FRAME_REQUEST d = (Inr (), tb')
    \<and> encrypt_frame C key np (next_expected (tp_send_seq tb)) FRAME_REQUEST d = Inr raw
    \<and> sent tb' = sent tb @ [Binary raw] \<and> steady tb' = steady tb \<and> inbox tb' = ms
    \<and> tp_recv_seq tb' = tp_recv_seq tb" for ms
    using request_goes_out [of tb ks key np d] pr b d(3) by simp
  from out [of "[]"] obtain raw1 where e1: "encrypt_frame C key np (next_expected (tp_send_seq tb)) FRAME_REQUEST d = Inr raw1"
    by blast
  obtain raw2 ts' where ts': "serve_loop C rt x forward (set_inbox [(u1, Binary raw1)] ts) = (None, ts')"
      "encrypt_frame C key' np' (next_expected (tp_send_seq ts)) (frame_type_of q) dq = Inr raw2"
      "sent ts' = sent ts @ [Binary raw2]"
    by (rule seller_answers [OF assms(1), of ts ks key np key' np' d raw1 rt p forward q dq x u1])
       (use pr bi s e1 d q in auto)
  from out [of "[(u2, Binary raw2)]"] e1 obtain tb1 where
    tb1: "send_frame C (set_inbox [(u2, Binary raw2)] tb) FRAME_REQUEST d = (Inr (), tb1)"
      "sent tb1 = sent tb @ [Binary raw1]" "steady tb1 = steady tb" "inbox tb1 = [(u2, Binary raw2)]"
      "tp_recv_seq tb1 = tp_recv_seq tb" by auto
  have kb: "tp_keys tb1 = Some ks" "tp_is_initiator tb1 = True" "tp_ws tb1 \<noteq> None"
    using steadyD [OF tb1(3)] pr by (auto simp: can_send_def)
  obtain tb2 where tb2: "recv_frame C tb1 = (Some (Inr (frame_type_of q, dq)), tb2)" "steady tb2 = steady tb1"
      "sent tb2 = sent tb1"
    by (rule recv_frame_exact [OF assms(1) kb(3,1), of key' np' u2 raw2 "[]" "frame_type_of q" dq])
       (use kb si tb1 ts'(2) pr q(5) in \<open>auto simp: is_data_def frame_types\<close>)
  show thesis
    by (rule that [OF ts'(1,3) tb1(1-3) tb2(1)]) (use tb2 tb1 in auto)
qed

section \<open>The buyer's call\<close>

lemma request_turn_response:
  assumes "deserialize_payload rt FRAME_RESPONSE d = Inr (Some (Response r))" and "rs_trace_id r = JStr tid"
    and "map_of (tp_pending t) tid = Some Unresolved"
  shows "request_turn rt tid t FRAME_RESPONSE d = (Some (Inr r), t)"
  using assms by (simp add: request_turn_def settle_own_def)

lemma request_turn_error:
  assumes "deserialize_payload rt FRAME_ERROR d = Inr (Some (Error r))" and "er_trace_id r = JStr tid"
    and "map_of (tp_pending t) tid = Some Unresolved"
  shows "request_turn rt tid t FRAME_ERROR d = (Some (Inl (RuntimeError (error_text rt r))), t)"
  using assms by (simp add: request_turn_def settle_own_def)

text \<open>The outcome of the buyer's request when the answer is already at the socket.\<close>

definition buyer_outcome :: "pyrt \<Rightarrow> payload \<Rightarrow> response_payload res" where
  "buyer_outcome rt q = (case q of
     Response r \<Rightarrow> Inr r
   | Error r \<Rightarrow> Inl (RuntimeError (error_text rt r))
   | _ \<Rightarrow> Inl TypeError)"

fun payload_trace :: "payload \<Rightarrow> json" where
  "payload_trace (Response r) = rs_trace_id r"
| "payload_trace (Error r) = er_trace_id r"
| "payload_trace _ = JNull"

lemma request_turn_outcome:
  assumes "payload_typed q" and "serialize_payload rt q = Inr dq" and "payload_trace q = JStr tid"
    and "map_of (tp_pending t) tid = Some Unresolved"
  shows "request_turn rt tid t (frame_type_of q) dq = (Some (buyer_outcome rt q), t)"
  using deserialize_serialize [OF assms(1,2)] assms(3,4)
  by (cases q) (simp_all add: request_turn_response request_turn_error buyer_outcome_def)

lemma relay_request_typed: "payload_typed (Request (relay_request tid n body))"
  by (simp add: relay_request_def)

lemma paired_upd:
  "paired ks (tb\<lparr>tp_slots := k, tp_pending := pd\<rparr>) ts = paired ks tb ts"
  "set_inbox ms (tb\<lparr>tp_slots := k, tp_pending := pd\<rparr>) = (set_inbox ms tb)\<lparr>tp_slots := k, tp_pending := pd\<rparr>"
  "sent (tb\<lparr>tp_slots := k, tp_pending := pd\<rparr>) = sent tb"
  by (simp_all add: paired_def can_send_def set_inbox_def sent_def)

lemma relay_request_fits:
  assumes "length body \<le> 32768" and "list_all plain_char tid" and "length tid \<le> 64" and "0 \<le> n" and "n < 10 ^ 20"
  shows "\<exists>d. serialize_payload rt (Request (relay_request tid n body)) = Inr d \<and> length d \<le> 0xFFFF"
proof -
  obtain d where d: "serialize_payload rt (Request (relay_request tid n body)) = Inr d"
    by (simp add: serialize_payload_def relay_request_def max_timeout_ms_def default_invoke_timeout_ms_def)
  have ct: "list_all plain_char ''application/json''" by (simp add: plain_char_def)
  have "length d \<le> 4 * ((length body + 2) div 3) + length tid + length ''application/json'' + 100"
    by (rule serialized_request_length [OF d [unfolded relay_request_def] assms(2) ct assms(4,5)])
  moreover have "4 * ((length body + 2) div 3) \<le> 43692" using assms(1) by simp
  ultimately have "length d \<le> 0xFFFF" using assms(3) by simp
  with d show ?thesis by blast
qed

lemma served:
  assumes "aead_ok C" and "paired ks tb ts" and "0 < tp_slots tb"
    and "length body \<le> 32768" and "list_all plain_char tid" and "length tid \<le> 64" and "0 \<le> n" and "n < 10 ^ 20"
    and q: "reply_payload (relay_request tid n body) (forward body) = Some q" "serialize_payload rt q = Inr dq"
           "length dq \<le> 0xFFFF" "payload_typed q" "frame_type_of q = FRAME_RESPONSE \<or> frame_type_of q = FRAME_ERROR"
           "payload_trace q = JStr tid"
  shows "\<exists>raw1 raw2 ts' tb'.
      serve_loop C rt x forward (set_inbox [(u1, Binary raw1)] ts) = (None, ts')
    \<and> sent ts' = sent ts @ [Binary raw2]
    \<and> invoke_relay C rt (set_inbox [(u2, Binary raw2)] tb) body tid n = (Some (relay_outcome rt (buyer_outcome rt q)), tb')
    \<and> sent tb' = sent tb @ [Binary raw1]"
proof -
  let ?p = "relay_request tid n body"
  let ?tb = "tb\<lparr>tp_slots := tp_slots tb - 1, tp_pending := dict_set tid Unresolved (tp_pending tb)\<rparr>"
  obtain d where d: "serialize_payload rt (Request ?p) = Inr d" "length d \<le> 0xFFFF"
    using relay_request_fits [OF assms(4-8)] by blast
  have pr: "paired ks ?tb ts" using assms(2) by (simp add: paired_upd)
  have rb: "rq_body ?p = body" by (simp add: relay_request_def)
  obtain raw1 raw2 ts' tb1 tb2 where ex:
    "serve_loop C rt x forward (set_inbox [(u1, Binary raw1)] ts) = (None, ts')"
    "sent ts' = sent ts @ [Binary raw2]"
    "send_frame C (set_inbox [(u2, Binary raw2)] ?tb) FRAME_REQUEST d = (Inr (), tb1)"
    "sent tb1 = sent ?tb @ [Binary raw1]" "steady tb1 = steady ?tb"
    "recv_frame C tb1 = (Some (Inr (frame_type_of q, dq)), tb2)" "steady tb2 = steady ?tb"
    "sent tb2 = sent ?tb @ [Binary raw1]"
    by (rule exchange [OF assms(1) pr d(1) relay_request_typed d(2), of forward q dq x u1 u2])
       (use q rb in auto)
  have pend: "map_of (tp_pending tb2) tid = Some Unresolved" using steadyD(3) [OF ex(7)] by simp
  have turn: "request_turn rt tid tb2 (frame_type_of q) dq = (Some (buyer_outcome rt q), tb2)"
    by (rule request_turn_outcome [OF q(4,2,6) pend])
  have loop: "request_loop C rt tid tb1 = (Some (buyer_outcome rt q), tb2)"
    using ex(6) turn by (subst request_loop.simps) simp
  have sl: "tp_slots (set_inbox ms tb) = tp_slots tb" for ms by (simp add: set_inbox_def)
  have "send_request C rt (set_inbox [(u2, Binary raw2)] tb) tid ?p = (Some (buyer_outcome rt q), release_slot tid tb2)"
    using assms(3) d(1) ex(3) loop by (simp add: send_request_def Let_def sl paired_upd(2))
  then have "invoke_relay C rt (set_inbox [(u2, Binary raw2)] tb) body tid n
      = (Some (relay_outcome rt (buyer_outcome rt q)), release_slot tid tb2)"
    by (simp add: invoke_relay_def)
  moreover have "sent (release_slot tid tb2) = sent tb @ [Binary raw1]"
    using ex(8) by (simp add: paired_upd(3)) (simp add: sent_def release_slot_def)
  ultimately show ?thesis using ex(1,2) by blast
qed

section \<open>Properties\<close>


text \<open>C15: one failing request end to end. An adapter error of the seller - any code up to ten digits, a message
  of one line and at most 500 characters - reaches the buyer's invoke as the same code and message.\<close>

theorem relay_serves_error:
  assumes "aead_ok C" and "paired ks tb ts" and "0 < tp_slots tb"
    and "length body \<le> 32768" and "list_all plain_char tid" and "length tid \<le> 64" and "0 \<le> n" and "n < 10 ^ 20"
    and "forward body = Inl (AdapterError c m)" and "length m \<le> 500" and "0 \<le> c" and "c < 10 ^ 10"
    and "newline \<notin> set m" and "lstrip m = m" and "m \<noteq> []"
  shows "\<exists>raw1 raw2 ts' tb'.
      serve_loop C rt x forward (set_inbox [(u1, Binary raw1)] ts) = (None, ts')
    \<and> sent ts' = sent ts @ [Binary raw2]
    \<and> invoke_relay C rt (set_inbox [(u2, Binary raw2)] tb) body tid n = (Some (Inl (SessionInvokeError c m)), tb')
    \<and> sent tb' = sent tb @ [Binary raw1]"
proof -
  let ?q = "error_reply (JStr tid) c m"
  have typed: "payload_typed ?q" by (simp add: error_reply_def)
  obtain dq where dq: "serialize_payload rt ?q = Inr dq"
    using assms(10) by (simp add: serialize_payload_def error_reply_def check_message_def max_message_len_def)
  have "length dq \<le> 6 * length tid + 3100"
    by (rule serialized_error_length [OF dq]) (use assms(11,12) in simp_all)
  then have len: "length dq \<le> 0xFFFF" using assms(6) by simp
  have "reply_payload (relay_request tid n body) (forward body) = Some ?q"
    using assms(9) by (simp add: reply_payload_def relay_request_def)
  from served [where rt = rt and x = x and forward = forward and ?u1.0 = u1 and ?u2.0 = u2, OF assms(1-8) this dq len typed]
  show ?thesis
    using runtime_error_text [OF assms(11-15), of rt "JStr tid"]
    by (simp add: buyer_outcome_def relay_outcome_def error_reply_def)
qed

lemma demo_paired: "paired demo_keys (demo_session True []) (demo_session False [])"
  by (simp add: paired_def can_send_def demo_keys_wf new_tracker_def)


theorem relay_serves_error_witness:
  "\<exists>raw1 raw2 ts' tb'.
      serve_loop demo_crypto demo_rt (\<lambda>_. []) (\<lambda>b. Inl (AdapterError 1007 ''adapter: timeout''))
        (set_inbox [(1, Binary raw1)] (demo_session False [])) = (None, ts')
    \<and> sent ts' = [Binary raw2]
    \<and> invoke_relay demo_crypto demo_rt (set_inbox [(2, Binary raw2)] (demo_session True [])) [1, 2, 3] ''t1'' 1
        = (Some (Inl (SessionInvokeError 1007 ''adapter: timeout'')), tb')"
proof -
  have p: "list_all plain_char ''t1''" by (simp add: plain_char_def)
  have m: "newline \<notin> set ''adapter: timeout''" "lstrip ''adapter: timeout'' = ''adapter: timeout''"
    by (simp_all add: newline_def lstrip_def is_space_def)
  show ?thesis
    using relay_serves_error [OF demo_aead_ok demo_paired _ _ p, of "[1, 2, 3]" 1
        "\<lambda>b. Inl (AdapterError 1007 ''adapter: timeout'')" 1007 "''adapter: timeout''" demo_rt "\<lambda>_. []" 1 2] m
    by auto
qed

end
