(* ===== verification/RelayTasks.thy ===== *)
theory RelayTasks
  imports RelayChannel
begin

text \<open>
  \<open>aim_node/relay/transport.py\<close> under asyncio: any number of coroutines on one
  \<open>RelayTransport\<close>. A coroutine runs from one \<open>await\<close> to the next without being interrupted; that
  stretch is one function here, and a step of the relation below lets one coroutine run one stretch.
  The awaits are the request semaphore, \<open>ws.send\<close> and \<open>ws.recv\<close>; at each of them the library may
  raise, or the coroutine may be cancelled. RelayTransport has the same code as sequential functions:
  they are the runs in which a coroutine is not interrupted (\<open>alone_request\<close>).
\<close>

section \<open>Coroutines\<close>

text \<open>
  A request is named by its trace id (the session manager draws a fresh \<open>uuid4\<close> for each). The other
  coroutines that send frames - heartbeats, their acknowledgements by the provider's loop,
  responses, the closing - are numbered.
\<close>

datatype job = Req string | Snd nat

text \<open>
  What follows when the coroutine's \<open>send_frame\<close> returns: it waits for the next frame (a request, or an
  acknowledged heartbeat), hands the frame it had received to the loop of its request (an
  acknowledged CLOSE), or returns.
\<close>

datatype after = Then_Read | Then_Turn int bytes | Then_End

text \<open>
  Where a coroutine is: before the semaphore, in \<open>ws.send\<close> with a frame not yet or already written to
  the socket, in \<open>ws.recv\<close>, cancelled before it got a slot, or ended with a result (a plain send has no
  response).
\<close>

datatype phase =
    Queued request_payload
  | Writing int bytes after
  | Written int after
  | Reading
  | Withdrawn
  | Ended "response_payload option res"

text \<open>
  The transport, the coroutines, and three history variables: the numbers under which frames were
  encrypted and the numbers of the sends that returned, latest first, and whether no send has begun
  while another was under way or after one that raised.
\<close>

record relay_tasks =
  rk_tp :: relay_transport
  rk_tasks :: "job \<Rightarrow> phase option"
  rk_numbers :: "int list"
  rk_returned :: "int list"
  rk_alone :: bool

section \<open>From await to await\<close>

text \<open>\<open>send_frame\<close> up to \<open>await self._ws.send\<close>; an exception ends the coroutine.\<close>

definition send_until_await :: "crypto_lib \<Rightarrow> relay_transport \<Rightarrow> int \<Rightarrow> bytes \<Rightarrow> after \<Rightarrow> phase" where
  "send_until_await C t frame_type pl k = (case send_begin C t frame_type pl of
     Inl e \<Rightarrow> Ended (Inl e)
   | Inr (sequence_number, raw_frame) \<Rightarrow> Writing sequence_number raw_frame k)"

text \<open>\<open>send_request\<close> from the acquired semaphore to its first await.\<close>

definition begin_request ::
    "crypto_lib \<Rightarrow> pyrt \<Rightarrow> string \<Rightarrow> request_payload \<Rightarrow> relay_transport \<Rightarrow> phase \<times> relay_transport" where
  "begin_request C rt tid p t =
    (let t0 = t\<lparr>tp_slots := tp_slots t - 1, tp_pending := dict_set tid Unresolved (tp_pending t)\<rparr>
     in (case serialize_payload rt (Request p) of
           Inl e \<Rightarrow> Ended (Inl e)
         | Inr d \<Rightarrow> send_until_await C t0 FRAME_REQUEST d Then_Read, t0))"

text \<open>One turn of the loop of \<open>send_request\<close> with a data frame: the response, or the next \<open>recv\<close>.\<close>

definition take_turn ::
    "pyrt \<Rightarrow> string \<Rightarrow> relay_transport \<Rightarrow> int \<Rightarrow> bytes \<Rightarrow> phase \<times> relay_transport" where
  "take_turn rt tid t frame_type plaintext = (case request_turn rt tid t frame_type plaintext of
     (None, t') \<Rightarrow> (Reading, t')
   | (Some (Inl e), t') \<Rightarrow> (Ended (Inl e), t')
   | (Some (Inr p), t') \<Rightarrow> (Ended (Inr (Some p)), t'))"

text \<open>\<open>ws.recv\<close> gave the coroutine a message: from there to its next await.\<close>

definition read_until_await ::
    "crypto_lib \<Rightarrow> pyrt \<Rightarrow> string \<Rightarrow> relay_transport \<Rightarrow> rat \<Rightarrow> ws_msg \<Rightarrow> phase \<times> relay_transport" where
  "read_until_await C rt tid t0 arrived m =
    (let t = t0\<lparr>tp_now := arrived\<rparr> in
     case open_frame C t m of
       Inl e \<Rightarrow> (Ended (Inl e), t)
     | Inr (frame_type, sequence_number, plaintext) \<Rightarrow>
       (case validate_and_advance (tp_recv_seq t) sequence_number of
          (Inl e, _) \<Rightarrow> (Ended (Inl e), t)
        | (Inr _, sq) \<Rightarrow>
          let t1 = t\<lparr>tp_recv_seq := sq, tp_last_activity := arrived\<rparr> in
          if frame_type = FRAME_HEARTBEAT then
            (send_until_await C t1 FRAME_HEARTBEAT_ACK [] Then_Read, t1)
          else if frame_type = FRAME_HEARTBEAT_ACK then
            (Reading, t1\<lparr>tp_awaiting_ack := False, tp_missed_heartbeats := 0\<rparr>)
          else if frame_type = FRAME_CLOSE then
            (send_until_await C t1 FRAME_CLOSE_ACK [] (Then_Turn frame_type plaintext), t1)
          else take_turn rt tid t1 frame_type plaintext))"

text \<open>\<open>ws.send\<close> has returned: \<open>send_frame\<close> advances the tracker and the coroutine goes on.\<close>

definition resume_send :: "pyrt \<Rightarrow> job \<Rightarrow> int \<Rightarrow> after \<Rightarrow> relay_transport \<Rightarrow> phase \<times> relay_transport" where
  "resume_send rt j sequence_number k t = (case send_finish t sequence_number of
     (Inl e, t') \<Rightarrow> (Ended (Inl e), t')
   | (Inr _, t') \<Rightarrow> (case (k, j) of
        (Then_Turn frame_type plaintext, Req tid) \<Rightarrow> take_turn rt tid t' frame_type plaintext
      | (Then_Read, Req tid) \<Rightarrow> (Reading, t')
      | _ \<Rightarrow> (Ended (Inr None), t')))"

section \<open>Steps\<close>

fun under_way :: "phase \<Rightarrow> bool" where
  "under_way (Writing n raw k) = True"
| "under_way (Written n k) = True"
| "under_way _ = False"

definition sends_under_way :: "relay_tasks \<Rightarrow> job set" where
  "sends_under_way s = {j. \<exists>ph. rk_tasks s j = Some ph \<and> under_way ph}"

text \<open>
  The coroutine stops at its next await or ends. A request that ends - it has a slot by then - runs its
  \<open>finally\<close> block.
\<close>

fun leave :: "job \<Rightarrow> phase \<Rightarrow> relay_transport \<Rightarrow> relay_transport" where
  "leave (Req tid) (Ended r) t = release_slot tid t"
| "leave j ph t = t"

definition put_task :: "job \<Rightarrow> phase \<Rightarrow> relay_transport \<Rightarrow> relay_tasks \<Rightarrow> relay_tasks" where
  "put_task j ph t s = s\<lparr>rk_tp := leave j ph t, rk_tasks := (rk_tasks s)(j \<mapsto> ph)\<rparr>"

text \<open>The history of a send: begun, returned, or given up.\<close>

definition note_begun :: "phase \<Rightarrow> relay_tasks \<Rightarrow> relay_tasks" where
  "note_begun ph s = (case ph of
     Writing n raw k \<Rightarrow> s\<lparr>rk_numbers := n # rk_numbers s, rk_alone := (rk_alone s \<and> sends_under_way s = {})\<rparr>
   | _ \<Rightarrow> s)"

definition note_resumed :: "int \<Rightarrow> relay_transport \<Rightarrow> relay_tasks \<Rightarrow> relay_tasks" where
  "note_resumed n t s = (case send_finish t n of
     (Inr _, _) \<Rightarrow> s\<lparr>rk_returned := n # rk_returned s\<rparr>
   | _ \<Rightarrow> s)"

definition note_raised :: "phase \<Rightarrow> relay_tasks \<Rightarrow> relay_tasks" where
  "note_raised ph s = (if under_way ph then s\<lparr>rk_alone := False\<rparr> else s)"

text \<open>What the code of requests and sends shares with the rest of the transport's code.\<close>

definition shared :: "relay_transport \<Rightarrow> traffic_keys option \<times> bool \<times> (string, future) dict \<times> nat \<times> seq_tracker" where
  "shared t = (tp_keys t, tp_is_initiator t, tp_pending t, tp_slots t, tp_send_seq t)"

text \<open>
  \<open>Other\<close> is everything else that happens to the transport: frames arrive, time passes, the heartbeat
  task and \<open>close\<close> change their own fields, the provider's loop reads. It leaves what is shared alone.
\<close>

inductive relay_step :: "crypto_lib \<Rightarrow> pyrt \<Rightarrow> relay_tasks \<Rightarrow> relay_tasks \<Rightarrow> bool" for C rt where
  Call: "rk_tasks s (Req tid) = None \<Longrightarrow>
    relay_step C rt s (put_task (Req tid) (Queued p) (rk_tp s) s)"
| Acquire: "rk_tasks s (Req tid) = Some (Queued p) \<Longrightarrow> 0 < tp_slots (rk_tp s) \<Longrightarrow>
    begin_request C rt tid p (rk_tp s) = (ph, t) \<Longrightarrow>
    relay_step C rt s (put_task (Req tid) ph t (note_begun ph s))"
| Withdraw: "rk_tasks s (Req tid) = Some (Queued p) \<Longrightarrow>
    relay_step C rt s (put_task (Req tid) Withdrawn (rk_tp s) s)"
| Send: "rk_tasks s (Snd i) = None \<Longrightarrow> send_until_await C (rk_tp s) frame_type pl Then_End = ph \<Longrightarrow>
    relay_step C rt s (put_task (Snd i) ph (rk_tp s) (note_begun ph s))"
| Write: "rk_tasks s j = Some (Writing n raw k) \<Longrightarrow> ws_send (rk_tp s) (Binary raw) = (Inr u, t) \<Longrightarrow>
    relay_step C rt s (put_task j (Written n k) t s)"
| Resume: "rk_tasks s j = Some (Written n k) \<Longrightarrow> resume_send rt j n k (rk_tp s) = (ph, t) \<Longrightarrow>
    relay_step C rt s (put_task j ph t (note_resumed n (rk_tp s) s))"
| Read: "rk_tasks s (Req tid) = Some Reading \<Longrightarrow> inbox (rk_tp s) = (arrived, m) # ms \<Longrightarrow>
    read_until_await C rt tid (set_inbox ms (rk_tp s)) arrived m = (ph, t) \<Longrightarrow>
    relay_step C rt s (put_task (Req tid) ph t (note_begun ph s))"
| Raise: "rk_tasks s j = Some ph \<Longrightarrow> under_way ph \<or> ph = Reading \<Longrightarrow>
    relay_step C rt s (put_task j (Ended (Inl e)) (rk_tp s) (note_raised ph s))"
| Other: "shared t = shared (rk_tp s) \<Longrightarrow> relay_step C rt s (s\<lparr>rk_tp := t\<rparr>)"

inductive_cases relay_stepE: "relay_step C rt s s'"

abbreviation relay_steps :: "crypto_lib \<Rightarrow> pyrt \<Rightarrow> relay_tasks \<Rightarrow> relay_tasks \<Rightarrow> bool" where
  "relay_steps C rt \<equiv> (relay_step C rt)\<^sup>*\<^sup>*"

definition start_tasks :: "relay_transport \<Rightarrow> relay_tasks" where
  "start_tasks t = \<lparr>rk_tp = t, rk_tasks = (\<lambda>j. None), rk_numbers = [], rk_returned = [], rk_alone = True\<rparr>"

text \<open>A transport as \<open>connect\<close> leaves it: all slots free, nothing pending, nothing sent.\<close>

definition fresh_session :: "relay_transport \<Rightarrow> bool" where
  "fresh_session t \<longleftrightarrow> tp_slots t = max_concurrent \<and> tp_pending t = [] \<and> tp_send_seq t = new_tracker"


section \<open>What the stretches do to the shared state\<close>

lemma leave_simps [simp]:
  "leave (Snd i) ph t = t" "leave j (Queued p) t = t" "leave j (Writing n raw k) t = t"
  "leave j (Written n k) t = t" "leave j Reading t = t" "leave j Withdrawn t = t"
  by (cases j; simp)+

lemma leave_seq [simp]: "tp_send_seq (leave j ph t) = tp_send_seq t"
  by (cases j; cases ph) (simp_all add: release_slot_def)

lemma shared_books:
  assumes "shared t' = shared t"
  shows "waiting t' = waiting t" "tp_slots t' = tp_slots t" "tp_send_seq t' = tp_send_seq t"
  using assms by (simp_all add: shared_def waiting_def)

lemma request_turn_books:
  assumes "request_turn rt tid t ft d = (r, t')"
  shows "waiting t' = waiting t" "tp_slots t' = tp_slots t"
  using request_turn_result [OF assms] by simp_all

lemma settle_other_seq: "settle_other t tid f = (r, t') \<Longrightarrow> tp_send_seq t' = tp_send_seq t"
  by (auto simp: settle_other_def split: sum.splits option.splits future.splits json.splits)

lemma request_turn_seq: "request_turn rt tid t ft d = (r, t') \<Longrightarrow> tp_send_seq t' = tp_send_seq t"
  by (auto simp: request_turn_def dest: settle_other_seq
      split: sum.splits option.splits payload.splits if_splits prod.splits)

text \<open>A phase in which the coroutine holds a slot.\<close>

fun holds :: "phase \<Rightarrow> bool" where
  "holds (Writing n raw k) = True"
| "holds (Written n k) = True"
| "holds Reading = True"
| "holds _ = False"

fun over :: "phase \<Rightarrow> bool" where
  "over (Ended r) = True"
| "over _ = False"

text \<open>A result of the coroutine: a request never returns another request's response.\<close>

fun own_result :: "job \<Rightarrow> phase \<Rightarrow> bool" where
  "own_result (Req tid) (Ended (Inr (Some p))) = (rs_trace_id p = JStr tid)"
| "own_result j ph = True"

lemma waiting_upd [simp]:
  "waiting (t\<lparr>tp_now := a\<rparr>) = waiting t" "waiting (t\<lparr>tp_recv_seq := q\<rparr>) = waiting t"
  "waiting (t\<lparr>tp_last_activity := a\<rparr>) = waiting t" "waiting (t\<lparr>tp_awaiting_ack := b\<rparr>) = waiting t"
  "waiting (t\<lparr>tp_missed_heartbeats := i\<rparr>) = waiting t" "waiting (t\<lparr>tp_slots := n\<rparr>) = waiting t"
  "waiting (t\<lparr>tp_pending := dict_set tid f (tp_pending t)\<rparr>) = insert tid (waiting t)"
  "waiting (set_inbox ms t) = waiting t"
  by (simp_all add: waiting_def)

lemma send_until_await_phase [simp]:
  "over (send_until_await C t ft d k) = (\<not> holds (send_until_await C t ft d k))"
  "own_result j (send_until_await C t ft d k)"
  by (cases "send_begin C t ft d"; cases j; auto simp: send_until_await_def)+

lemma take_turn_facts:
  assumes "take_turn rt tid t ft d = (ph, t')"
  shows "waiting t' = waiting t \<and> tp_slots t' = tp_slots t \<and> tp_send_seq t' = tp_send_seq t
    \<and> (holds ph \<or> over ph) \<and> own_result (Req tid) ph \<and> \<not> under_way ph"
  using assms request_turn_result [of rt tid t ft d] request_turn_seq [of rt tid t ft d]
  by (auto simp: take_turn_def split: option.splits sum.splits prod.splits)

lemma read_until_await_facts:
  assumes "read_until_await C rt tid t arrived m = (ph, t')"
  shows "waiting t' = waiting t \<and> tp_slots t' = tp_slots t \<and> tp_send_seq t' = tp_send_seq t
    \<and> (holds ph \<or> over ph) \<and> own_result (Req tid) ph"
proof (cases "open_frame C (t\<lparr>tp_now := arrived\<rparr>) m")
  case (Inl e)
  with assms show ?thesis by (auto simp: read_until_await_def Let_def)
next
  case (Inr x)
  obtain ft n d where x: "x = (ft, n, d)" by (cases x)
  show ?thesis
  proof (cases "n = next_expected (tp_recv_seq t)")
    case False
    with assms Inr x show ?thesis
      by (auto simp: read_until_await_def Let_def validate_and_advance_def)
  next
    case True
    let ?u = "t\<lparr>tp_now := arrived, tp_recv_seq := (tp_recv_seq t)\<lparr>next_expected := next_expected (tp_recv_seq t) + 1\<rparr>,
        tp_last_activity := arrived\<rparr>"
    have u: "waiting ?u = waiting t" "tp_slots ?u = tp_slots t" "tp_send_seq ?u = tp_send_seq t" by simp_all
    have *: "(ph, t') = (if ft = FRAME_HEARTBEAT then (send_until_await C ?u FRAME_HEARTBEAT_ACK [] Then_Read, ?u)
        else if ft = FRAME_HEARTBEAT_ACK then (Reading, ?u\<lparr>tp_awaiting_ack := False, tp_missed_heartbeats := 0\<rparr>)
        else if ft = FRAME_CLOSE then (send_until_await C ?u FRAME_CLOSE_ACK [] (Then_Turn ft d), ?u)
        else take_turn rt tid ?u ft d)"
      using assms Inr x True by (simp add: read_until_await_def Let_def validate_and_advance_def)
    show ?thesis
    proof (cases "ft \<in> {FRAME_HEARTBEAT, FRAME_HEARTBEAT_ACK, FRAME_CLOSE}")
      case True
      with * u show ?thesis by (simp split: if_splits)
    next
      case False
      with * have "take_turn rt tid ?u ft d = (ph, t')" by simp
      from take_turn_facts [OF this] u show ?thesis by simp
    qed
  qed
qed

lemma begin_request_facts:
  assumes "begin_request C rt tid p t = (ph, t')"
  shows "waiting t' = insert tid (waiting t) \<and> tp_slots t' = tp_slots t - 1
    \<and> tp_send_seq t' = tp_send_seq t \<and> (holds ph \<or> over ph) \<and> own_result (Req tid) ph"
  using assms
  by (auto simp: begin_request_def Let_def waiting_def split: sum.splits simp del: waiting_upd)

lemma send_finish_books:
  assumes "send_finish t n = (r, t')"
  shows "waiting t' = waiting t" "tp_slots t' = tp_slots t"
  using steadyD [OF send_finish_leaves(1) [OF assms]] by (simp_all add: waiting_def)

lemma resume_send_facts:
  assumes "resume_send rt j n k t = (ph, t')"
  shows "waiting t' = waiting t \<and> tp_slots t' = tp_slots t \<and> (holds ph \<or> over ph)
    \<and> own_result j ph \<and> \<not> under_way ph \<and> tp_send_seq t' = tp_send_seq (snd (send_finish t n))"
proof -
  obtain r u where sf: "send_finish t n = (r, u)" by fastforce
  show ?thesis
    using assms sf send_finish_books [OF sf]
    by (cases j; auto simp: resume_send_def split: sum.splits after.splits dest!: take_turn_facts)
qed


section \<open>The books of the slots\<close>

definition in_flight :: "relay_tasks \<Rightarrow> string set" where
  "in_flight s = {tid. \<exists>ph. rk_tasks s (Req tid) = Some ph \<and> holds ph}"

text \<open>
  The registered futures are those of the requests that hold a slot, the free slots and these
  make ten, and every result is the request's own.
\<close>

definition books :: "relay_tasks \<Rightarrow> bool" where
  "books s \<longleftrightarrow> waiting (rk_tp s) = in_flight s \<and> tp_slots (rk_tp s) + card (in_flight s) = max_concurrent
     \<and> (\<forall>j ph. rk_tasks s j = Some ph \<longrightarrow> own_result j ph)"

lemma booksD:
  assumes "books s"
  shows "waiting (rk_tp s) = in_flight s" "tp_slots (rk_tp s) + card (in_flight s) = max_concurrent"
    "\<forall>j ph. rk_tasks s j = Some ph \<longrightarrow> own_result j ph"
  using assms by (simp_all add: books_def)

lemma finite_waiting [simp]: "finite (waiting t)"
  by (simp add: waiting_def finite_dom_map_of)

lemma note_sel [simp]:
  "rk_tasks (note_begun ph s) = rk_tasks s" "rk_tp (note_begun ph s) = rk_tp s"
  "rk_tasks (note_resumed n t s) = rk_tasks s" "rk_tp (note_resumed n t s) = rk_tp s"
  "rk_tasks (note_raised ph s) = rk_tasks s" "rk_tp (note_raised ph s) = rk_tp s"
  by (auto simp: note_begun_def note_resumed_def note_raised_def split: phase.splits sum.splits prod.splits)

lemma put_task_sel [simp]:
  "rk_tp (put_task j ph t s) = leave j ph t" "rk_tasks (put_task j ph t s) = (rk_tasks s)(j \<mapsto> ph)"
  by (simp_all add: put_task_def)

lemma in_flight_put:
  "in_flight (put_task (Snd i) ph t s) = in_flight s"
  "in_flight (put_task (Req tid) ph t s) = (if holds ph then insert tid (in_flight s) else in_flight s - {tid})"
  by (auto simp: in_flight_def)

lemma in_flight_note [simp]:
  "in_flight (note_begun ph s) = in_flight s" "in_flight (note_resumed n t s) = in_flight s"
  "in_flight (note_raised ph s) = in_flight s"
  by (simp_all add: in_flight_def)

lemma release_books: "waiting (release_slot tid t) = waiting t - {tid}" "tp_slots (release_slot tid t) = tp_slots t + 1"
  by (auto simp: release_slot_def waiting_def)

text \<open>A request that has its slot goes on or ends.\<close>

lemma books_put_request:
  assumes "waiting t = insert tid (in_flight s)" and "tp_slots t + card (waiting t) = max_concurrent"
    and "holds ph \<or> over ph" and "own_result (Req tid) ph" and "\<forall>j ph. rk_tasks s j = Some ph \<longrightarrow> own_result j ph"
  shows "books (put_task (Req tid) ph t s)"
proof (cases "holds ph")
  case True
  then have "leave (Req tid) ph t = t" by (cases ph) auto
  with True assms show ?thesis by (auto simp: books_def in_flight_put)
next
  case False
  with assms(3) have l: "leave (Req tid) ph t = release_slot tid t" by (cases ph) auto
  have "card (waiting t - {tid}) + 1 = card (waiting t)"
    using assms(1) by (metis Suc_eq_plus1 card_Suc_Diff1 finite_waiting insertI1)
  with False l assms show ?thesis by (auto simp: books_def in_flight_put release_books)
qed

lemma books_put_send:
  assumes "books s" and "waiting t = waiting (rk_tp s)" and "tp_slots t = tp_slots (rk_tp s)"
    and "own_result (Snd i) ph"
  shows "books (put_task (Snd i) ph t s)"
  using assms by (cases ph) (auto simp: books_def in_flight_put)

lemma books_put:
  assumes "books s" and "rk_tasks s j = Some ph0" and "holds ph0"
    and "waiting t = waiting (rk_tp s)" and "tp_slots t = tp_slots (rk_tp s)"
    and "holds ph \<or> over ph" and "own_result j ph"
  shows "books (put_task j ph t s)"
proof (cases j)
  case (Req tid)
  with assms(2,3) have "insert tid (in_flight s) = in_flight s" by (auto simp: in_flight_def)
  moreover note booksD [OF assms(1)]
  ultimately show ?thesis unfolding Req using assms(4-7) Req by (intro books_put_request) simp_all
next
  case (Snd i)
  with assms show ?thesis by (simp add: books_put_send)
qed

lemma books_note [simp]:
  "books (note_begun ph s) = books s" "books (note_resumed n t s) = books s" "books (note_raised ph s) = books s"
  by (simp_all add: books_def)

lemma books_step:
  assumes "relay_step C rt s s'" and "books s"
  shows "books s'"
  using assms
proof (cases rule: relay_step.cases)
  case (Call tid p)
  with assms(2) show ?thesis by (auto simp: books_def in_flight_put) (auto simp: in_flight_def)
next
  case (Acquire tid p ph t)
  have "tid \<notin> in_flight s" using Acquire(2) by (auto simp: in_flight_def)
  moreover note b = booksD [OF assms(2)] and f = begin_request_facts [OF Acquire(4)]
  ultimately have "tp_slots t + card (waiting t) = max_concurrent"
    using Acquire(3) finite_waiting [of "rk_tp s"] by simp
  with Acquire(1) b f show ?thesis by (auto intro!: books_put_request)
next
  case (Withdraw tid p)
  with assms(2) have "tid \<notin> in_flight s" by (auto simp: in_flight_def)
  with Withdraw assms(2) show ?thesis by (auto simp: books_def in_flight_put)
next
  case (Send i ft pl ph)
  with assms(2) show ?thesis by (auto intro!: books_put_send)
next
  case (Write j n raw k u t)
  have "waiting t = waiting (rk_tp s)" "tp_slots t = tp_slots (rk_tp s)"
    using steadyD [OF ws_send_leaves(1) [OF Write(3)]] by (simp_all add: waiting_def)
  moreover have "own_result j (Written n k)" by (cases j) simp_all
  ultimately show ?thesis unfolding Write(1) using books_put [OF assms(2) Write(2)] by simp
next
  case (Resume j n k ph t)
  with assms(2) resume_send_facts [OF Resume(3)] show ?thesis
    using books_put [of "note_resumed n (rk_tp s) s" j "Written n k" t ph] by simp
next
  case (Read tid arrived m ms ph t)
  have "tp_slots (set_inbox ms (rk_tp s)) = tp_slots (rk_tp s)" using steadyD(4) [OF set_inbox_sel(8)] by blast
  with Read(1,2) assms(2) read_until_await_facts [OF Read(4)] show ?thesis
    using books_put [of "note_begun ph s" "Req tid" Reading t ph] by simp
next
  case (Raise j ph e)
  then have "holds ph" by (cases ph) auto
  moreover have "own_result j (Ended (Inl e))" by (cases j) simp_all
  ultimately show ?thesis
    using Raise(1,2) assms(2) books_put [of "note_raised ph s" j ph "rk_tp s" "Ended (Inl e)"] by simp
next
  case (Other t)
  with assms(2) shared_books [OF Other(2)] show ?thesis
    by (simp add: books_def in_flight_def)
qed


text \<open>With all slots taken a further request stays before the semaphore, or is cancelled there.\<close>

lemma full_session_queues:
  assumes "relay_step C rt s s'" and "tp_slots (rk_tp s) = 0" and "rk_tasks s (Req tid) = Some (Queued p)"
  shows "rk_tasks s' (Req tid) \<in> {Some (Queued p), Some Withdrawn}"
  using assms by (auto elim!: relay_stepE split: if_splits)

section \<open>Numbers\<close>

fun carries :: "phase \<Rightarrow> int \<Rightarrow> bool" where
  "carries (Writing n raw k) m = (m = n)"
| "carries (Written n k) m = (m = n)"
| "carries _ m = False"

lemma under_way_carries: "under_way ph = (\<exists>n. carries ph n)"
  by (cases ph) auto

lemma carries_holds: "carries ph n \<Longrightarrow> holds ph"
  by (cases ph) auto

text \<open>The sends under way with their numbers.\<close>

definition flights :: "relay_tasks \<Rightarrow> (job \<times> int) set" where
  "flights s = {(j, n). \<exists>ph. rk_tasks s j = Some ph \<and> carries ph n}"

lemma sends_under_way_flights: "sends_under_way s = {} \<longleftrightarrow> flights s = {}"
  by (auto simp: sends_under_way_def flights_def under_way_carries)

lemma flights_put: "flights (put_task j ph t s) = {(i, n) \<in> flights s. i \<noteq> j} \<union> {(j, n) |n. carries ph n}"
  by (auto simp: flights_def split: if_splits)

lemma flights_note [simp]:
  "flights (note_begun ph s) = flights s" "flights (note_resumed n t s) = flights s"
  "flights (note_raised ph s) = flights s"
  by (simp_all add: flights_def)

abbreviation next_number :: "relay_tasks \<Rightarrow> int" where
  "next_number s \<equiv> next_expected (tp_send_seq (rk_tp s))"

text \<open>
  The sends that returned have the numbers below the next one, each once; a frame is never encrypted
  under a later number; and while no two sends overlapped and none raised, the numbers of the frames are
  those of the returned sends and of the one under way.
\<close>

definition numbered :: "relay_tasks \<Rightarrow> bool" where
  "numbered s \<longleftrightarrow> 0 \<le> next_number s \<and> rk_returned s = rev [0..next_number s - 1]
     \<and> set (rk_numbers s) \<subseteq> {0..next_number s} \<and> set (rk_returned s) \<subseteq> set (rk_numbers s)
     \<and> snd ` flights s \<subseteq> set (rk_numbers s)
     \<and> (rk_alone s \<longrightarrow> flights s = {} \<and> rk_numbers s = rk_returned s
          \<or> (\<exists>j. flights s = {(j, next_number s)} \<and> rk_numbers s = next_number s # rk_returned s))"

lemma send_until_await_number: "carries (send_until_await C t ft d k) n \<Longrightarrow> n = next_expected (tp_send_seq t)"
  by (auto simp: send_until_await_def send_begin_def next_sequence_def rbind_Inr_iff Let_def
      split: sum.splits option.splits prod.splits)

lemma send_until_await_Written [simp]: "send_until_await C t ft d k \<noteq> Written n k'"
  by (auto simp: send_until_await_def split: sum.splits prod.splits)

lemma begin_request_number:
  assumes "begin_request C rt tid p t = (ph, t')"
  shows "tp_send_seq t' = tp_send_seq t \<and> (\<forall>n. carries ph n \<longrightarrow> n = next_expected (tp_send_seq t))
    \<and> (\<forall>n k. ph \<noteq> Written n k)"
  using assms by (auto simp: begin_request_def Let_def dest: send_until_await_number split: sum.splits)

lemma take_turn_number: "take_turn rt tid t ft d = (ph, t') \<Longrightarrow> \<not> carries ph n"
  using take_turn_facts [of rt tid t ft d ph t'] by (auto simp: under_way_carries)

lemma read_until_await_number:
  assumes "read_until_await C rt tid t arrived m = (ph, t')"
  shows "(\<forall>n. carries ph n \<longrightarrow> n = next_expected (tp_send_seq t)) \<and> (\<forall>n k. ph \<noteq> Written n k)"
proof -
  have tt: "\<not> carries ph n \<and> ph \<noteq> Written n' k" if "take_turn rt tid u ft d = (ph, t')" for u ft d n n' k
    using take_turn_number [OF that] by (cases ph) auto
  show ?thesis
    using assms tt
    by (auto simp: read_until_await_def Let_def dest: send_until_await_number
        split: sum.splits prod.splits if_splits)
qed

lemma numbered_same:
  assumes "numbered s" and "flights s' = flights s" and "next_number s' = next_number s"
    and "rk_numbers s' = rk_numbers s" "rk_returned s' = rk_returned s" "rk_alone s' = rk_alone s"
  shows "numbered s'"
  using assms(1) unfolding numbered_def assms(2-6) .

lemma numbered_begun:
  assumes "numbered s" and "\<forall>ph0. rk_tasks s j = Some ph0 \<longrightarrow> \<not> under_way ph0"
    and "tp_send_seq t = tp_send_seq (rk_tp s)"
    and "\<forall>n. carries ph n \<longrightarrow> n = next_number s" and "\<forall>n k. ph \<noteq> Written n k"
  shows "numbered (put_task j ph t (note_begun ph s))"
proof -
  have f: "{(i, n) \<in> flights s. i \<noteq> j} = flights s"
    using assms(2) by (auto simp: flights_def under_way_carries)
  show ?thesis
  proof (cases "under_way ph")
    case False
    then have "note_begun ph s = s" by (cases ph) (auto simp: note_begun_def)
    moreover have "flights (put_task j ph t s) = flights s"
      using False f by (simp add: flights_put under_way_carries)
    ultimately show ?thesis using assms(3)
      by (intro numbered_same [OF assms(1)]) (simp_all add: put_task_def)
  next
    case True
    with assms(4,5) obtain raw k where ph: "ph = Writing (next_number s) raw k" by (cases ph) auto
    then have "flights (put_task j ph t (note_begun ph s)) = insert (j, next_number s) (flights s)"
      by (auto simp: flights_put f)
    moreover have "rk_numbers (put_task j ph t (note_begun ph s)) = next_number s # rk_numbers s"
      "rk_returned (put_task j ph t (note_begun ph s)) = rk_returned s"
      "rk_alone (put_task j ph t (note_begun ph s)) = (rk_alone s \<and> flights s = {})"
      using ph by (simp_all add: put_task_def note_begun_def sends_under_way_flights)
    ultimately show ?thesis using assms(1,3) by (auto simp: numbered_def)
  qed
qed

lemma numbered_resumed:
  assumes "numbered s" and "(j, n) \<in> flights s" and "resume_send rt j n k (rk_tp s) = (ph, t)"
  shows "numbered (put_task j ph t (note_resumed n (rk_tp s) s))"
proof -
  let ?s = "put_task j ph t (note_resumed n (rk_tp s) s)"
  note r = resume_send_facts [OF assms(3)]
  have f: "flights ?s = {(i, n) \<in> flights s. i \<noteq> j}"
    using r by (auto simp: flights_put under_way_carries)
  have one: "i = j \<longrightarrow> m = n" if "(i, m) \<in> flights s" for i m
    using that assms(2) by (auto simp: flights_def elim: carries.elims)
  have a: "rk_numbers ?s = rk_numbers s" "rk_alone ?s = rk_alone s"
    by (auto simp: put_task_def note_resumed_def split: sum.splits prod.splits)
  show ?thesis
  proof (cases "n = next_number s")
    case True
    then have "next_number ?s = n + 1" "rk_returned ?s = n # rk_returned s"
      using r by (auto simp: send_finish_def validate_and_advance_def note_resumed_def put_task_def)
    moreover have "rev [0..n] = n # rev [0..n - 1]" if "0 \<le> n"
      using that upto_rec2 [of 0 n] by simp
    ultimately show ?thesis
      using assms(1,2) a f True unfolding numbered_def
      by (auto simp: image_subset_iff)
  next
    case False
    then have "next_number ?s = next_number s" "rk_returned ?s = rk_returned s"
      using r by (auto simp: send_finish_def validate_and_advance_def note_resumed_def put_task_def)
    with assms(1,2) a f False show ?thesis unfolding numbered_def by auto
  qed
qed


lemma numbered_step:
  assumes "relay_step C rt s s'" and "numbered s"
  shows "numbered s'"
  using assms(1)
proof (cases rule: relay_step.cases)
  case (Call tid p)
  then show ?thesis using numbered_begun [OF assms(2), of "Req tid" "rk_tp s" "Queued p"]
    by (simp add: note_begun_def)
next
  case (Acquire tid p ph t)
  with begin_request_number [OF Acquire(4)] show ?thesis
    using numbered_begun [OF assms(2), of "Req tid" t ph] by simp
next
  case (Withdraw tid p)
  then show ?thesis using numbered_begun [OF assms(2), of "Req tid" "rk_tp s" Withdrawn]
    by (simp add: note_begun_def)
next
  case (Send i ft pl ph)
  have "\<forall>n. carries ph n \<longrightarrow> n = next_number s" "\<forall>n k. ph \<noteq> Written n k"
    unfolding Send(3) [symmetric] using send_until_await_number by auto
  with Send(1,2) show ?thesis
    using numbered_begun [OF assms(2), of "Snd i" "rk_tp s" ph] by simp
next
  case (Write j n raw k u t)
  have "flights (put_task j (Written n k) t s) = flights s"
    using Write(2) by (auto simp: flights_put) (auto simp: flights_def)
  moreover have "next_number (put_task j (Written n k) t s) = next_number s"
    using ws_send_leaves(4) [OF Write(3)] by simp
  ultimately show ?thesis
    using Write(1) by (intro numbered_same [OF assms(2)]) (simp_all add: put_task_def)
next
  case (Resume j n k ph t)
  then have "(j, n) \<in> flights s" by (auto simp: flights_def)
  with Resume show ?thesis using numbered_resumed [OF assms(2)] by simp
next
  case (Read tid arrived m ms ph t)
  have "tp_send_seq t = tp_send_seq (rk_tp s)"
    using read_until_await_facts [OF Read(4)] by simp
  with Read read_until_await_number [OF Read(4)] show ?thesis
    using numbered_begun [OF assms(2), of "Req tid" t ph] by simp
next
  case (Raise j ph e)
  show ?thesis
  proof (cases "under_way ph")
    case True
    then have n: "note_raised ph s = s\<lparr>rk_alone := False\<rparr>" by (simp add: note_raised_def)
    have "flights (put_task j (Ended (Inl e)) (rk_tp s) (note_raised ph s)) \<subseteq> flights s"
      by (auto simp: flights_put)
    then have "snd ` flights (put_task j (Ended (Inl e)) (rk_tp s) (note_raised ph s)) \<subseteq> set (rk_numbers s)"
      using assms(2) unfolding numbered_def by blast
    with assms(2) n show ?thesis unfolding Raise(1) numbered_def by (auto simp: put_task_def)
  next
    case False
    with Raise show ?thesis
      using numbered_begun [OF assms(2), of j "rk_tp s" "Ended (Inl e)"]
      by (simp add: note_raised_def note_begun_def)
  qed
next
  case (Other t)
  with shared_books(3) [OF Other(2)] show ?thesis
    by (intro numbered_same [OF assms(2)]) (simp_all add: flights_def)
qed

section \<open>Every interleaving\<close>

lemma run_invariant:
  assumes "relay_steps C rt s s'" and "I s" and "\<And>u v. relay_step C rt u v \<Longrightarrow> I u \<Longrightarrow> I v"
  shows "I s'"
  using assms(1) by (induction rule: rtranclp_induct) (auto intro: assms(2,3))

lemma books_start: "fresh_session t \<Longrightarrow> books (start_tasks t)"
  by (simp add: books_def start_tasks_def in_flight_def fresh_session_def waiting_def)

lemma numbered_start: "fresh_session t \<Longrightarrow> numbered (start_tasks t)"
  by (simp add: numbered_def start_tasks_def flights_def fresh_session_def new_tracker_def)

lemma demo_session_fresh [simp]: "fresh_session (demo_session b ms)"
  by (simp add: fresh_session_def max_concurrent_def)

lemma demo_begin:
  assumes "length p \<le> 0xFFFF" and "0 \<le> ft" and "ft < 256" and "tp_keys t = Some demo_keys" and "tp_ws t = Some w"
    and "0 \<le> next_expected (tp_send_seq t)" and "next_expected (tp_send_seq t) < 100"
  shows "\<exists>raw. send_until_await demo_crypto t ft p k = Writing (next_expected (tp_send_seq t)) raw k"
proof -
  obtain key np where o: "outbound_key_material (tp_is_initiator t) demo_keys = (key, np)" by fastforce
  then have "length key = 32" "length np = 4"
    by (auto simp: outbound_key_material_def demo_keys_def split: if_splits)
  then obtain raw where "encrypt_frame demo_crypto key np (next_expected (tp_send_seq t)) ft p = Inr raw"
    using encrypt_frame_ok [of key np ft p "next_expected (tp_send_seq t)" demo_crypto] assms by auto
  then show ?thesis
    using assms o by (simp add: send_until_await_def send_begin_def next_sequence_def Let_def)
qed

text \<open>A send that is alone, and a second one that begins before it returns.\<close>

lemma demo_overlap:
  "\<exists>s1 s2. relay_steps demo_crypto demo_rt (start_tasks (demo_session True [])) s1
     \<and> rk_alone s1 \<and> rk_numbers s1 = [0] \<and> rk_returned s1 = []
     \<and> relay_step demo_crypto demo_rt s1 s2 \<and> \<not> rk_alone s2 \<and> rk_numbers s2 = [0, 0]"
proof -
  let ?t = "demo_session True []" and ?s = "start_tasks (demo_session True [])"
  obtain r1 where 1: "send_until_await demo_crypto ?t FRAME_HEARTBEAT [] Then_End = Writing 0 r1 Then_End"
    using demo_begin [of "[]" FRAME_HEARTBEAT ?t] by (auto simp: new_tracker_def FRAME_HEARTBEAT_def)
  let ?ph = "Writing 0 r1 Then_End"
  let ?a = "put_task (Snd 0) ?ph ?t (note_begun ?ph ?s)"
  let ?b = "put_task (Snd 1) ?ph ?t (note_begun ?ph ?a)"
  have a: "relay_step demo_crypto demo_rt ?s ?a"
    using relay_step.Send [of ?s 0 demo_crypto FRAME_HEARTBEAT "[]" ?ph] 1 by (simp add: start_tasks_def)
  have b: "relay_step demo_crypto demo_rt ?a ?b"
    using relay_step.Send [of ?a 1 demo_crypto FRAME_HEARTBEAT "[]" ?ph] 1 by (simp add: start_tasks_def)
  have f: "sends_under_way ?s = {}" "sends_under_way ?a \<noteq> {}"
    by (auto simp: sends_under_way_def start_tasks_def)
  then have "rk_alone ?a" "rk_numbers ?a = [0]" "rk_returned ?a = []" "\<not> rk_alone ?b" "rk_numbers ?b = [0, 0]"
    by (simp_all add: put_task_def note_begun_def) (simp_all add: start_tasks_def)
  with a b show ?thesis by blast
qed

definition demo_request :: request_payload where
  "demo_request = \<lparr>rq_trace_id = JStr ''t'', rq_sequence = JInt 1,
     rq_content_type = JStr ''text'', rq_body = [1, 2], rq_timeout_ms = JInt 30000\<rparr>"

lemma demo_request_data: "\<exists>d. serialize_payload demo_rt (Request demo_request) = Inr d \<and> length d \<le> 0xFFFF"
proof -
  obtain d where d: "serialize_payload demo_rt (Request demo_request) = Inr d"
    by (simp add: serialize_payload_def max_timeout_ms_def demo_request_def)
  have "length d \<le> 4 * ((length [1 :: byte, 2] + 2) div 3) + length ''t'' + length ''text'' + 100"
    by (rule serialized_request_length [OF d [unfolded demo_request_def]]) (simp_all add: plain_char_def)
  with d show ?thesis by auto
qed

lemma demo_request_waits:
  "\<exists>s. relay_steps demo_crypto demo_rt (start_tasks (demo_session True [])) s \<and> in_flight s = {''t''}"
proof -
  let ?s = "start_tasks (demo_session True [])" and ?j = "Req ''t''"
  let ?a = "put_task ?j (Queued demo_request) (rk_tp ?s) ?s"
  let ?u = "(rk_tp ?a)\<lparr>tp_slots := tp_slots (rk_tp ?a) - 1, tp_pending := dict_set ''t'' Unresolved (tp_pending (rk_tp ?a))\<rparr>"
  obtain d where d: "serialize_payload demo_rt (Request demo_request) = Inr d" "length d \<le> 0xFFFF"
    using demo_request_data by blast
  obtain raw where w: "send_until_await demo_crypto ?u FRAME_REQUEST d Then_Read = Writing 0 raw Then_Read"
    using demo_begin [of d FRAME_REQUEST ?u _ Then_Read] d(2)
    by (auto simp: FRAME_REQUEST_def start_tasks_def new_tracker_def)
  let ?ph = "Writing 0 raw Then_Read"
  have a: "relay_step demo_crypto demo_rt ?s ?a"
    by (rule relay_step.Call) (simp add: start_tasks_def)
  have "begin_request demo_crypto demo_rt ''t'' demo_request (rk_tp ?a) = (?ph, ?u)"
    using d(1) w by (simp add: begin_request_def Let_def)
  then have "relay_step demo_crypto demo_rt ?a (put_task ?j ?ph ?u (note_begun ?ph ?a))"
    by (intro relay_step.Acquire) (simp_all add: start_tasks_def)
  with a have "relay_steps demo_crypto demo_rt ?s (put_task ?j ?ph ?u (note_begun ?ph ?a))" by simp
  moreover have "in_flight (put_task ?j ?ph ?u (note_begun ?ph ?a)) = {''t''}"
    by (simp add: in_flight_put) (auto simp: in_flight_def start_tasks_def)
  ultimately show ?thesis by blast
qed

text \<open>C9: the concurrent use of one relay session. However the coroutines of any number of requests and of
  other sends are interleaved on a fresh session - waiting for a slot, suspended in the socket,
  reading each other's frames, failing or cancelled at any await - at most ten requests hold a slot, the
  free slots and these make ten, the table of pending requests is exactly theirs, and a
  request that returns a response returns one with its own trace id.\<close>

theorem requests_interleaved:
  assumes "fresh_session t" and "relay_steps C rt (start_tasks t) s"
  shows "card (in_flight s) \<le> 10 \<and> tp_slots (rk_tp s) + card (in_flight s) = 10
    \<and> waiting (rk_tp s) = in_flight s
    \<and> (\<forall>tid p. rk_tasks s (Req tid) = Some (Ended (Inr (Some p))) \<longrightarrow> rs_trace_id p = JStr tid)"
proof -
  have "books s"
    using run_invariant [OF assms(2), of books] books_start [OF assms(1)] books_step by blast
  from booksD [OF this] show ?thesis by (fastforce simp: max_concurrent_def)
qed

theorem requests_interleaved_witness:
  "\<exists>s. relay_steps demo_crypto demo_rt (start_tasks (demo_session True [])) s \<and> in_flight s = {''t''}
     \<and> tp_slots (rk_tp s) = 9 \<and> waiting (rk_tp s) = {''t''}"
proof -
  obtain s where s: "relay_steps demo_crypto demo_rt (start_tasks (demo_session True [])) s" "in_flight s = {''t''}"
    using demo_request_waits by blast
  show ?thesis
    using requests_interleaved [OF demo_session_fresh s(1)] s by auto
qed

text \<open>C24: numbers under concurrency. In every interleaving the sends that returned have the numbers
  \<open>0, 1, 2, ...\<close> in the order in which they returned, so none was used by two of them, and every frame
  was encrypted under one of these or the next number. As long as no send began while another was under
  way and none raised, no two frames of the session were encrypted under one number.\<close>

theorem numbers_interleaved:
  assumes "fresh_session t" and "relay_steps C rt (start_tasks t) s"
  shows "rk_returned s = rev [0..next_expected (tp_send_seq (rk_tp s)) - 1]
    \<and> set (rk_numbers s) \<subseteq> {0..next_expected (tp_send_seq (rk_tp s))}
    \<and> (rk_alone s \<longrightarrow> distinct (rk_numbers s))"
proof -
  have "numbered s"
    using run_invariant [OF assms(2), of numbered] numbered_start [OF assms(1)] numbered_step by blast
  then show ?thesis by (auto simp: numbered_def)
qed


theorem numbers_interleaved_witness:
  "\<exists>s. relay_steps demo_crypto demo_rt (start_tasks (demo_session True [])) s \<and> rk_numbers s = [0]
     \<and> rk_alone s \<and> distinct (rk_numbers s)"
proof -
  obtain s where s: "relay_steps demo_crypto demo_rt (start_tasks (demo_session True [])) s"
      "rk_alone s" "rk_numbers s = [0]"
    using demo_overlap by blast
  then show ?thesis using numbers_interleaved [OF demo_session_fresh s(1)] by blast
qed

section \<open>A request that is not interrupted\<close>

text \<open>The coroutine gets, alone, to the given phase with the given transport.\<close>

definition leads_to :: "crypto_lib \<Rightarrow> pyrt \<Rightarrow> job \<Rightarrow> relay_tasks \<Rightarrow> phase \<times> relay_transport \<Rightarrow> bool" where
  "leads_to C rt j s x \<longleftrightarrow> (\<exists>s'. relay_steps C rt s s' \<and> rk_tp s' = leave j (fst x) (snd x)
     \<and> rk_tasks s' = (rk_tasks s)(j \<mapsto> fst x))"

lemma leads_to_refl:
  "rk_tp s = leave j ph t \<Longrightarrow> rk_tasks s j = Some ph \<Longrightarrow> leads_to C rt j s (ph, t)"
  unfolding leads_to_def by (intro exI [of _ s]) auto

lemma leads_to_trans:
  assumes "leads_to C rt j s x"
    and "\<And>s'. rk_tp s' = leave j (fst x) (snd x) \<Longrightarrow> rk_tasks s' j = Some (fst x) \<Longrightarrow> leads_to C rt j s' y"
  shows "leads_to C rt j s y"
proof -
  obtain s1 where 1: "relay_steps C rt s s1" "rk_tp s1 = leave j (fst x) (snd x)" "rk_tasks s1 = (rk_tasks s)(j \<mapsto> fst x)"
    using assms(1) by (auto simp: leads_to_def)
  with assms(2) [of s1] obtain s2 where "relay_steps C rt s1 s2" "rk_tp s2 = leave j (fst y) (snd y)"
    "rk_tasks s2 = (rk_tasks s1)(j \<mapsto> fst y)" by (auto simp: leads_to_def)
  with 1 show ?thesis unfolding leads_to_def by (intro exI [of _ s2]) auto
qed

lemma leads_to_step:
  assumes "relay_step C rt s (put_task j ph t u)" and "rk_tasks u = rk_tasks s"
  shows "leads_to C rt j s (ph, t)"
  unfolding leads_to_def using assms by (intro exI [of _ "put_task j ph t u"]) auto

text \<open>What the coroutine of a request does with the outcome of a \<open>send_frame\<close> or a \<open>recv_frame\<close>.\<close>

definition sent_then :: "pyrt \<Rightarrow> string \<Rightarrow> after \<Rightarrow> unit res \<times> relay_transport \<Rightarrow> phase \<times> relay_transport" where
  "sent_then rt tid k x = (case x of
     (Inl e, t) \<Rightarrow> (Ended (Inl e), t)
   | (Inr _, t) \<Rightarrow> (case k of Then_Turn ft d \<Rightarrow> take_turn rt tid t ft d | Then_Read \<Rightarrow> (Reading, t)
        | Then_End \<Rightarrow> (Ended (Inr None), t)))"

definition received_then :: "pyrt \<Rightarrow> string \<Rightarrow> (int \<times> bytes) res \<times> relay_transport \<Rightarrow> phase \<times> relay_transport" where
  "received_then rt tid x = (case x of
     (Inl e, t) \<Rightarrow> (Ended (Inl e), t)
   | (Inr (ft, d), t) \<Rightarrow> take_turn rt tid t ft d)"

lemma alone_send:
  assumes "rk_tp s = leave (Req tid) (send_until_await C t ft d k) t"
    and "rk_tasks s (Req tid) = Some (send_until_await C t ft d k)"
  shows "leads_to C rt (Req tid) s (sent_then rt tid k (send_frame C t ft d))"
proof (cases "send_begin C t ft d")
  case (Inl e)
  with assms show ?thesis
    by (simp add: send_frame_def send_until_await_def sent_then_def leads_to_refl)
next
  case (Inr x)
  obtain n raw where x: "x = (n, raw)" by (cases x)
  with Inr assms have s: "rk_tp s = t" "rk_tasks s (Req tid) = Some (Writing n raw k)"
    by (simp_all add: send_until_await_def)
  obtain w t1 where ws: "ws_send t (Binary raw) = (w, t1)" by fastforce
  show ?thesis
  proof (cases w)
    case (Inl e)
    have "t1 = t" using ws Inl by (auto simp: ws_send_def split: option.splits if_splits)
    with Inr x ws Inl have "sent_then rt tid k (send_frame C t ft d) = (Ended (Inl e), t)"
      by (simp add: send_frame_def sent_then_def)
    moreover have "leads_to C rt (Req tid) s (Ended (Inl e), t)"
      using leads_to_step [OF relay_step.Raise [OF s(2), of C rt e]] s(1) by simp
    ultimately show ?thesis by simp
  next
    case (Inr u)
    have w: "leads_to C rt (Req tid) s (Written n k, t1)"
      using leads_to_step [OF relay_step.Write [OF s(2), of u t1 C rt]] ws Inr s(1) by simp
    have "sent_then rt tid k (send_frame C t ft d) = resume_send rt (Req tid) n k t1"
      using \<open>send_begin C t ft d = Inr x\<close> x ws Inr
      by (auto simp: send_frame_def sent_then_def resume_send_def split: after.splits sum.splits prod.splits)
    moreover have "leads_to C rt (Req tid) s' (resume_send rt (Req tid) n k t1)"
      if "rk_tp s' = t1" "rk_tasks s' (Req tid) = Some (Written n k)" for s'
    proof -
      obtain ph t2 where r: "resume_send rt (Req tid) n k t1 = (ph, t2)" by fastforce
      from leads_to_step [OF relay_step.Resume [OF that(2), of rt ph t2 C]] r that(1)
      have "leads_to C rt (Req tid) s' (ph, t2)" by simp
      with r show ?thesis by simp
    qed
    ultimately show ?thesis using leads_to_trans [OF w] by simp
  qed
qed

text \<open>One message of the socket.\<close>

lemma alone_turn:
  assumes "rk_tp s = t" and "inbox t = (arrived, m) # ms" and "rk_tasks s (Req tid) = Some Reading"
  shows "case recv_turn C (set_inbox ms t) arrived m of
      (Some q, u) \<Rightarrow> leads_to C rt (Req tid) s (received_then rt tid (q, u))
    | (None, u) \<Rightarrow> leads_to C rt (Req tid) s (Reading, u)"
proof -
  obtain ph t1 where r: "read_until_await C rt tid (set_inbox ms t) arrived m = (ph, t1)" by fastforce
  have one: "leads_to C rt (Req tid) s (ph, t1)"
    using leads_to_step [OF relay_step.Read [OF assms(3), of arrived m ms C rt ph t1]] assms(1,2) r by simp
  have ack: "leads_to C rt (Req tid) s (sent_then rt tid k (send_frame C u ft d))"
    if "ph = send_until_await C u ft d k" "t1 = u" for u ft d k
    using leads_to_trans [OF one] alone_send that by auto
  let ?t = "(set_inbox ms t)\<lparr>tp_now := arrived\<rparr>"
  show ?thesis
  proof (cases "open_frame C ?t m")
    case (Inl e)
    with r one show ?thesis
      by (simp add: recv_turn_def read_until_await_def Let_def received_then_def)
  next
    case (Inr x)
    obtain ft n d where x: "x = (ft, n, d)" by (cases x)
    obtain v sq where v: "validate_and_advance (tp_recv_seq ?t) n = (v, sq)" by fastforce
    show ?thesis
    proof (cases v)
      case (Inl e)
      with Inr x v r have "ph = Ended (Inl e)" "t1 = ?t"
        by (simp_all add: read_until_await_def Let_def)
      with one have "leads_to C rt (Req tid) s (Ended (Inl e), ?t)" by blast
      with Inr x v Inl show ?thesis by (simp add: recv_turn_def Let_def received_then_def)
    next
      case (Inr y)
      let ?u = "?t\<lparr>tp_recv_seq := sq, tp_last_activity := arrived\<rparr>"
      have t: "recv_turn C (set_inbox ms t) arrived m = dispatch_frame C ?u ft d"
        using \<open>open_frame C ?t m = Inr x\<close> x v Inr by (simp add: recv_turn_def Let_def)
      have p: "(ph, t1) = (if ft = FRAME_HEARTBEAT then (send_until_await C ?u FRAME_HEARTBEAT_ACK [] Then_Read, ?u)
          else if ft = FRAME_HEARTBEAT_ACK then (Reading, ?u\<lparr>tp_awaiting_ack := False, tp_missed_heartbeats := 0\<rparr>)
          else if ft = FRAME_CLOSE then (send_until_await C ?u FRAME_CLOSE_ACK [] (Then_Turn ft d), ?u)
          else take_turn rt tid ?u ft d)"
        using r \<open>open_frame C ?t m = Inr x\<close> x v Inr by (simp add: read_until_await_def Let_def)
      show ?thesis
        using one p ack [of ?u FRAME_HEARTBEAT_ACK "[]" Then_Read] ack [of ?u FRAME_CLOSE_ACK "[]" "Then_Turn ft d"]
        unfolding t dispatch_frame_def
        by (auto simp: sent_then_def received_then_def split: sum.splits prod.splits if_splits)
    qed
  qed
qed



lemma alone_recv_loop:
  assumes "recv_loop C t ms = (Some q, t')" and "inbox t = ms" and "rk_tp s = t" and "tp_ws t \<noteq> None"
    and "rk_tasks s (Req tid) = Some Reading"
  shows "leads_to C rt (Req tid) s (received_then rt tid (q, t'))"
  using assms
proof (induction C t ms arbitrary: s rule: recv_loop.induct)
  case (2 C t arrived m ms)
  obtain o' u where turn: "recv_turn C (set_inbox ms t) arrived m = (o', u)" by fastforce
  note one = alone_turn [OF "2.prems"(3,2,5), of C rt]
  show ?case
  proof (cases o')
    case (Some q')
    with turn one "2.prems"(1) show ?thesis by simp
  next
    case None
    have u: "inbox u = ms" "tp_ws u \<noteq> None" "recv_loop C u ms = (Some q, t')"
      using recv_turn_leaves [OF turn] "2.prems"(1,4) turn None by (auto simp: steady_def set_inbox_def inbox_def)
    have r: "leads_to C rt (Req tid) s (Reading, u)" using one turn None by simp
    show ?thesis
    proof (rule leads_to_trans [OF r])
      fix s' :: relay_tasks assume "rk_tp s' = leave (Req tid) (fst (Reading, u)) (snd (Reading, u))"
        and "rk_tasks s' (Req tid) = Some (fst (Reading, u))"
      then show "leads_to C rt (Req tid) s' (received_then rt tid (q, t'))"
        using "2.IH" [OF turn [symmetric] None u(3,1) _ u(2)] by simp
    qed
  qed
qed simp

lemma settle_other_ws:
  "settle_other t tid f = (r, t') \<Longrightarrow> tp_ws t' = tp_ws t \<and> tp_keys t' = tp_keys t"
  by (auto simp: settle_other_def split: sum.splits option.splits future.splits json.splits)

lemma request_turn_ws:
  "request_turn rt tid t ft d = (r, t') \<Longrightarrow> tp_ws t' = tp_ws t \<and> tp_keys t' = tp_keys t"
  by (auto simp: request_turn_def dest: settle_other_ws
      split: sum.splits option.splits payload.splits if_splits prod.splits)

definition as_result :: "response_payload res \<Rightarrow> response_payload option res" where
  "as_result r = map_sum id Some r"

lemma alone_request_loop:
  assumes "request_loop C rt tid t = (Some r, t')" and "rk_tp s = t" and "tp_ws t \<noteq> None" and "tp_keys t \<noteq> None"
    and "rk_tasks s (Req tid) = Some Reading"
  shows "leads_to C rt (Req tid) s (Ended (as_result r), t')"
  using assms
proof (induction C rt tid t arbitrary: s rule: request_loop.induct)
  case (1 C rt tid t)
  obtain q t1 where rf: "recv_frame C t = (q, t1)" by fastforce
  note unf = "1.prems"(1) [unfolded request_loop.simps [of C rt tid t] rf]
  have t1: "tp_ws t1 \<noteq> None" "tp_keys t1 \<noteq> None"
    using recv_frame_steady [OF rf] "1.prems"(3,4) by (simp_all add: steady_def)
  obtain x where q: "q = Some x" using unf by (cases q) auto
  then have "recv_loop C t (inbox t) = (Some x, t1)" using rf "1.prems"(3,4) by (simp add: recv_frame_def)
  from alone_recv_loop [OF this refl "1.prems"(2,3,5), of rt]
  have l: "leads_to C rt (Req tid) s (received_then rt tid (x, t1))" .
  show ?case
  proof (cases x)
    case (Inl e)
    with l unf q show ?thesis by (auto simp: received_then_def as_result_def)
  next
    case (Inr fd)
    obtain ft d where fd: "fd = (ft, d)" by (cases fd)
    obtain y t2 where rq: "request_turn rt tid t1 ft d = (y, t2)" by fastforce
    show ?thesis
    proof (cases y)
      case (Some z)
      with l unf q Inr fd rq show ?thesis
        by (cases z) (auto simp: received_then_def take_turn_def as_result_def)
    next
      case None
      with l Inr fd rq have r: "leads_to C rt (Req tid) s (Reading, t2)"
        by (simp add: received_then_def take_turn_def)
      have n: "request_loop C rt tid t2 = (Some r, t')" "tp_ws t2 \<noteq> None" "tp_keys t2 \<noteq> None"
        using unf q Inr fd rq None request_turn_ws [OF rq] t1 by simp_all
      show ?thesis
      proof (rule leads_to_trans [OF r])
        fix s' :: relay_tasks assume "rk_tp s' = leave (Req tid) (fst (Reading, t2)) (snd (Reading, t2))"
          and "rk_tasks s' (Req tid) = Some (fst (Reading, t2))"
        then show "leads_to C rt (Req tid) s' (Ended (as_result r), t')"
          using "1.IH" [OF rf [symmetric] q Inr fd [symmetric] rq [symmetric] None n(1) _ n(2,3)] by simp
      qed
    qed
  qed
qed





end
