(* ===== verification/TrustChannel.thy ===== *)
theory TrustChannel
  imports JsonCodec "HOL-Library.Multiset"
begin

text \<open>
  \<open>aim_node/core/trust_channel.py\<close>: the persistent WebSocket to the market - handlers by action,
  waiters by action and transfer, the receive queue, and reconnection with exponential backoff.
  A handler is a name; starting its task is recorded in the state.
\<close>

section \<open>State\<close>

datatype tc_handler = Negotiate_Handler | External string

datatype waiter = Waiting | Delivered json | Cancelled

record trust_channel =
  tc_handlers :: "(string, tc_handler) dict"
  tc_waiters :: "(string, waiter) dict"
  tc_queue :: "json list"
  tc_connected :: bool
  tc_running :: bool
  tc_reconnect_delay :: rat
  tc_reconnect_max :: rat
  tc_jitter :: rat
  tc_negotiations :: "(string, json \<times> json) dict"
  tc_tasks :: "(tc_handler \<times> json) list"
  tc_sent :: "string list"

definition session_negotiate_action :: string where
  "session_negotiate_action = ''SESSION_NEGOTIATE''"

definition register_handler :: "string \<Rightarrow> tc_handler \<Rightarrow> trust_channel \<Rightarrow> trust_channel" where
  "register_handler action h t = t\<lparr>tc_handlers := dict_set action h (tc_handlers t)\<rparr>"

definition new_trust_channel :: "rat \<Rightarrow> rat \<Rightarrow> rat \<Rightarrow> trust_channel" where
  "new_trust_channel delay max_delay jitter =
     register_handler session_negotiate_action Negotiate_Handler
       \<lparr>tc_handlers = [], tc_waiters = [], tc_queue = [], tc_connected = False, tc_running = False,
        tc_reconnect_delay = delay, tc_reconnect_max = max_delay, tc_jitter = jitter,
        tc_negotiations = [], tc_tasks = [], tc_sent = []\<rparr>"

section \<open>Sending and receiving\<close>

text \<open>The socket's answer to a send is an argument.\<close>

definition tc_send :: "pyrt \<Rightarrow> unit res \<Rightarrow> json \<Rightarrow> trust_channel \<Rightarrow> unit res \<times> trust_channel" where
  "tc_send rt answer message t =
    (if \<not> tc_connected t then (Inl (LibError ''trust channel not connected''), t)
     else case answer of
       Inl e \<Rightarrow> (Inl e, t)
     | Inr _ \<Rightarrow> (Inr (), t\<lparr>tc_sent := tc_sent t @ [dumps rt '', '' '': '' message]\<rparr>))"

text \<open>\<open>receive\<close>: the oldest message; on an empty queue it waits (\<open>None\<close>).\<close>

definition tc_receive :: "trust_channel \<Rightarrow> json option \<times> trust_channel" where
  "tc_receive t = (case tc_queue t of [] \<Rightarrow> (None, t) | m # ms \<Rightarrow> (Some m, t\<lparr>tc_queue := ms\<rparr>))"

definition waiter_key :: "string \<Rightarrow> string \<Rightarrow> string" where
  "waiter_key action transfer_id = action @ '':'' @ transfer_id"

text \<open>\<open>wait_for_action\<close> registers its future, and forgets the entry when it returns or times out.\<close>

definition wait_begin :: "string \<Rightarrow> string \<Rightarrow> trust_channel \<Rightarrow> trust_channel" where
  "wait_begin action transfer_id t =
     t\<lparr>tc_waiters := dict_set (waiter_key action transfer_id) Waiting (tc_waiters t)\<rparr>"

definition wait_end :: "string \<Rightarrow> string \<Rightarrow> trust_channel \<Rightarrow> json res \<times> trust_channel" where
  "wait_end action transfer_id t =
    (let key = waiter_key action transfer_id
     in ((case map_of (tc_waiters t) key of Some (Delivered m) \<Rightarrow> Inr m | _ \<Rightarrow> Inl TimeoutExn),
         t\<lparr>tc_waiters := dict_del key (tc_waiters t)\<rparr>))"

section \<open>Messages\<close>

text \<open>
  Text, or bytes to decode; \<open>None\<close> is a discarded message, which a JSON null is too. Any other JSON value is passed on. An
  exception that is not caught - in the model that of a text it cannot represent - leaves the method.
\<close>

datatype tc_raw = Raw_Text string | Raw_Bytes bytes

definition parse_message :: "pyrt \<Rightarrow> tc_raw \<Rightarrow> json option res" where
  "parse_message rt raw =
    (case rbind (case raw of Raw_Text s \<Rightarrow> Inr s | Raw_Bytes b \<Rightarrow> utf8_decode b) (loads rt) of
       Inl e \<Rightarrow> if e \<in> {UnicodeDecodeError, JSONDecodeError, TypeError} then Inr None else Inl e
     | Inr v \<Rightarrow> Inr (if v = JNull then None else Some v))"

definition message_key :: "pyrt \<Rightarrow> (string \<times> json) list \<Rightarrow> string \<times> string" where
  "message_key rt m = (py_str rt (jget_or m ''action'' (JStr [])), py_str rt (jget_or m ''transfer_id'' (JStr [])))"

text \<open>\<open>message.get\<close> of a value that is not an object raises an \<open>AttributeError\<close>.\<close>

definition dispatch_message :: "pyrt \<Rightarrow> json \<Rightarrow> trust_channel \<Rightarrow> unit res \<times> trust_channel" where
  "dispatch_message rt message t =
    (case expect_obj AttributeError message of
       Inl e \<Rightarrow> (Inl e, t)
     | Inr m \<Rightarrow>
       (case message_key rt m of (action, transfer_id) \<Rightarrow>
         let key = waiter_key action transfer_id in
         if map_of (tc_waiters t) key = Some Waiting
         then (Inr (), t\<lparr>tc_waiters := dict_set key (Delivered message) (tc_waiters t)\<rparr>)
         else
           let t1 = (case map_of (tc_handlers t) action of
                  None \<Rightarrow> t
                | Some h \<Rightarrow> t\<lparr>tc_tasks := tc_tasks t @ [(h, message)]\<rparr>)
           in (Inr (), t1\<lparr>tc_queue := tc_queue t1 @ [message]\<rparr>)))"

text \<open>\<open>_handle_session_negotiate\<close>, the built-in handler.\<close>

definition handle_session_negotiate :: "pyrt \<Rightarrow> (string \<times> json) list \<Rightarrow> trust_channel \<Rightarrow> trust_channel" where
  "handle_session_negotiate rt m t =
    (let source = (case jget m ''payload'' of JObj p \<Rightarrow> p | _ \<Rightarrow> m);
         transfer_id = py_str rt (jget_or m ''transfer_id'' (JStr []))
     in if transfer_id = [] then t
        else t\<lparr>tc_negotiations := dict_set transfer_id
                 (jget source ''buyer_node_id'', jget source ''buyer_ed25519_pubkey'') (tc_negotiations t)\<rparr>)"

definition pop_negotiation :: "string \<Rightarrow> trust_channel \<Rightarrow> (json \<times> json) option \<times> trust_channel" where
  "pop_negotiation transfer_id t =
     (map_of (tc_negotiations t) transfer_id,
      t\<lparr>tc_negotiations := dict_del transfer_id (tc_negotiations t)\<rparr>)"

text \<open>
  One connection: the messages until the peer closes it. A malformed message is discarded; an
  exception of the dispatch leaves the loop at once, and \<open>_ws\<close> as it is.
\<close>

fun listen :: "pyrt \<Rightarrow> tc_raw list \<Rightarrow> trust_channel \<Rightarrow> unit res \<times> trust_channel" where
  "listen rt [] t = (Inr (), t\<lparr>tc_connected := False\<rparr>)"
| "listen rt (raw # raws) t = (case parse_message rt raw of
     Inl e \<Rightarrow> (Inl e, t)
   | Inr None \<Rightarrow> listen rt raws t
   | Inr (Some message) \<Rightarrow>
     (case dispatch_message rt message t of
        (Inl e, t') \<Rightarrow> (Inl e, t')
      | (Inr _, t') \<Rightarrow> listen rt raws t'))"

datatype connection = Refused exn | Served "tc_raw list" | Dropped "tc_raw list" exn

definition connect_and_listen :: "pyrt \<Rightarrow> connection \<Rightarrow> trust_channel \<Rightarrow> unit res \<times> trust_channel" where
  "connect_and_listen rt c t = (case c of
     Refused e \<Rightarrow> (Inl e, t)
   | Served raws \<Rightarrow> listen rt raws (t\<lparr>tc_connected := True\<rparr>)
   | Dropped raws e \<Rightarrow>
       (case listen rt raws (t\<lparr>tc_connected := True\<rparr>) of
          (Inl e', t') \<Rightarrow> (Inl e', t')
        | (Inr _, t') \<Rightarrow> (Inl e, t'\<lparr>tc_connected := True\<rparr>)))"

section \<open>Reconnection\<close>

text \<open>
  One turn of \<open>run\<close>: the new backoff and the time slept before the next attempt, for the outcome
  of the connection and the jitter drawn.
\<close>

definition backoff_turn :: "trust_channel \<Rightarrow> rat \<Rightarrow> bool \<Rightarrow> rat \<Rightarrow> rat \<times> rat" where
  "backoff_turn t backoff0 clean drawn =
    (let backoff = (if clean then tc_reconnect_delay t else backoff0);
         sleep_for = min backoff (tc_reconnect_max t);
         slept = (if tc_jitter t > 0 then sleep_for + drawn else sleep_for)
     in (min (backoff * 2) (tc_reconnect_max t), slept))"

text \<open>The loop over connections that leave the client running, each with its drawn jitter.\<close>

fun run_channel :: "pyrt \<Rightarrow> rat \<Rightarrow> (connection \<times> rat) list \<Rightarrow> trust_channel \<Rightarrow> rat list \<times> trust_channel" where
  "run_channel rt backoff [] t = ([], t)"
| "run_channel rt backoff ((c, drawn) # cs) t =
    (case connect_and_listen rt c t of
       (r, t1) \<Rightarrow>
         (case backoff_turn t1 backoff (r = Inr ()) drawn of
            (backoff', slept) \<Rightarrow>
              (case run_channel rt backoff' cs t1 of (ss, t2) \<Rightarrow> (slept # ss, t2))))"

definition tc_run :: "pyrt \<Rightarrow> (connection \<times> rat) list \<Rightarrow> trust_channel \<Rightarrow> rat list \<times> trust_channel" where
  "tc_run rt cs t = run_channel rt (tc_reconnect_delay t) cs (t\<lparr>tc_running := True\<rparr>)"

definition tc_stop :: "trust_channel \<Rightarrow> trust_channel" where
  "tc_stop t = t\<lparr>tc_running := False, tc_connected := False,
     tc_waiters := map (\<lambda>(k, w). (k, if w = Waiting then Cancelled else w)) (tc_waiters t)\<rparr>"

section \<open>What a dispatch changes\<close>

text \<open>The messages a client has not been given yet: queued, and delivered to a waiter.\<close>

definition delivered :: "trust_channel \<Rightarrow> json list" where
  "delivered t = concat (map (\<lambda>(k, w). case w of Delivered m \<Rightarrow> [m] | _ \<Rightarrow> []) (tc_waiters t))"

lemma delivered_dict_set:
  "map_of d k = Some Waiting \<Longrightarrow>
     mset (concat (map (\<lambda>(k, w). case w of Delivered m \<Rightarrow> [m] | _ \<Rightarrow> []) (dict_set k (Delivered m) d)))
     = mset (concat (map (\<lambda>(k, w). case w of Delivered m \<Rightarrow> [m] | _ \<Rightarrow> []) d)) + {#m#}"
  by (induction d) (auto split: if_splits)

lemma dispatch_obj:
  assumes "dispatch_message rt message t = (Inr u, t')"
  shows "mset (tc_queue t' @ delivered t') = mset (tc_queue t @ delivered t) + {#message#}
    \<and> (tc_queue t' = tc_queue t \<or> tc_queue t' = tc_queue t @ [message] \<and> tc_waiters t' = tc_waiters t)
    \<and> tc_connected t' = tc_connected t \<and> tc_reconnect_delay t' = tc_reconnect_delay t
    \<and> tc_reconnect_max t' = tc_reconnect_max t \<and> tc_jitter t' = tc_jitter t"
  using assms
  by (auto simp: dispatch_message_def Let_def delivered_def delivered_dict_set
      split: sum.splits prod.splits if_splits option.splits)

definition tc_config :: "trust_channel \<Rightarrow> rat \<times> rat \<times> rat" where
  "tc_config t = (tc_reconnect_delay t, tc_reconnect_max t, tc_jitter t)"

lemma dispatch_config: "dispatch_message rt message t = (r, t') \<Longrightarrow> tc_config t' = tc_config t"
  by (auto simp: dispatch_message_def tc_config_def Let_def split: sum.splits prod.splits if_splits option.splits)

lemma listen_config: "tc_config (snd (listen rt raws t)) = tc_config t"
proof (induction rt raws t rule: listen.induct)
  case (1 rt t)
  then show ?case by (simp add: tc_config_def)
next
  case (2 rt raw raws t)
  show ?case
  proof (cases "parse_message rt raw")
    case (Inr p)
    show ?thesis
    proof (cases p)
      case None
      with 2(1) Inr show ?thesis by simp
    next
      case (Some m)
      obtain q u where d: "dispatch_message rt m t = (q, u)" by fastforce
      note c = dispatch_config [OF d]
      show ?thesis
      proof (cases q)
        case (Inl e)
        with Inr Some d c show ?thesis by simp
      next
        case q: (Inr v)
        with 2(2) [OF Inr Some d [symmetric] q] Inr Some d c show ?thesis by simp
      qed
    qed
  qed simp
qed

lemma connect_config: "tc_config (snd (connect_and_listen rt c t)) = tc_config t"
proof -
  have k: "tc_config (t\<lparr>tc_connected := b\<rparr>) = tc_config t" for t b by (simp add: tc_config_def)
  show ?thesis
    using listen_config [of rt _ "t\<lparr>tc_connected := True\<rparr>"]
    by (auto simp: connect_and_listen_def k split: connection.split sum.split prod.split) (metis snd_conv)+
qed

section \<open>Where a message goes\<close>

text \<open>The messages among what arrives, the key of the waiter a message answers, and the keys with a waiter.\<close>

definition readable :: "pyrt \<Rightarrow> tc_raw list \<Rightarrow> json list" where
  "readable rt raws = concat (map (\<lambda>r. case parse_message rt r of Inr (Some m) \<Rightarrow> [m] | _ \<Rightarrow> []) raws)"

fun reply_key :: "pyrt \<Rightarrow> json \<Rightarrow> string" where
  "reply_key rt (JObj m) = (case message_key rt m of (action, transfer_id) \<Rightarrow> waiter_key action transfer_id)"
| "reply_key rt _ = []"

definition waiting_keys :: "trust_channel \<Rightarrow> string set" where
  "waiting_keys t = {k. map_of (tc_waiters t) k = Some Waiting}"

text \<open>The messages that are not the first for a waiting key, and the handler a message starts.\<close>

fun left_over :: "pyrt \<Rightarrow> string set \<Rightarrow> json list \<Rightarrow> json list" where
  "left_over rt W [] = []"
| "left_over rt W (m # ms) =
    (if reply_key rt m \<in> W then left_over rt (W - {reply_key rt m}) ms else m # left_over rt W ms)"

fun started :: "pyrt \<Rightarrow> trust_channel \<Rightarrow> json \<Rightarrow> (tc_handler \<times> json) list" where
  "started rt t (JObj m) = (case map_of (tc_handlers t) (fst (message_key rt m)) of None \<Rightarrow> [] | Some h \<Rightarrow> [(h, JObj m)])"
| "started rt t _ = []"

definition handed_over :: "pyrt \<Rightarrow> trust_channel \<Rightarrow> json \<Rightarrow> trust_channel \<Rightarrow> bool" where
  "handed_over rt t m t' \<longleftrightarrow> tc_handlers t' = tc_handlers t \<and>
    (if reply_key rt m \<in> waiting_keys t
     then waiting_keys t' = waiting_keys t - {reply_key rt m} \<and> tc_queue t' = tc_queue t \<and> tc_tasks t' = tc_tasks t
       \<and> map_of (tc_waiters t') = (map_of (tc_waiters t))(reply_key rt m \<mapsto> Delivered m)
     else waiting_keys t' = waiting_keys t \<and> tc_queue t' = tc_queue t @ [m] \<and> tc_tasks t' = tc_tasks t @ started rt t m
       \<and> map_of (tc_waiters t') = map_of (tc_waiters t))"

lemma dispatch_place: "dispatch_message rt m t = (Inr u, t') \<Longrightarrow> handed_over rt t m t'"
  by (cases m) (auto simp: dispatch_message_def handed_over_def waiting_keys_def Let_def fun_eq_iff
      split: prod.splits if_splits option.splits)

lemma started_cong: "tc_handlers t' = tc_handlers t \<Longrightarrow> started rt t' = started rt t"
proof -
  assume h: "tc_handlers t' = tc_handlers t"
  have "started rt t' m = started rt t m" for m by (cases m) (simp_all add: h)
  then show ?thesis by blast
qed

lemma handed_over_step:
  assumes "mset (tc_queue t1 @ delivered t1) = mset (tc_queue t @ delivered t) + {#m#}"
    and "handed_over rt t m t1"
    and "mset (tc_queue t' @ delivered t') = mset (tc_queue t1 @ delivered t1) + mset ms
      \<and> tc_queue t' = tc_queue t1 @ left_over rt (waiting_keys t1) ms
      \<and> (\<forall>k. map_of (tc_waiters t') k = (if k \<in> waiting_keys t1
           then (case find (\<lambda>x. reply_key rt x = k) ms of Some x \<Rightarrow> Some (Delivered x) | None \<Rightarrow> Some Waiting)
           else map_of (tc_waiters t1) k))
      \<and> tc_tasks t' = tc_tasks t1 @ concat (map (started rt t1) (left_over rt (waiting_keys t1) ms))
      \<and> \<not> tc_connected t'"
  shows "mset (tc_queue t' @ delivered t') = mset (tc_queue t @ delivered t) + mset (m # ms)
      \<and> tc_queue t' = tc_queue t @ left_over rt (waiting_keys t) (m # ms)
      \<and> (\<forall>k. map_of (tc_waiters t') k = (if k \<in> waiting_keys t
           then (case find (\<lambda>x. reply_key rt x = k) (m # ms) of Some x \<Rightarrow> Some (Delivered x) | None \<Rightarrow> Some Waiting)
           else map_of (tc_waiters t) k))
      \<and> tc_tasks t' = tc_tasks t @ concat (map (started rt t) (left_over rt (waiting_keys t) (m # ms)))
      \<and> \<not> tc_connected t'"
proof -
  have "started rt t1 = started rt t" by (rule started_cong) (use assms(2) in \<open>simp add: handed_over_def\<close>)
  then have tasks: "tc_tasks t' = tc_tasks t1 @ concat (map (started rt t) (left_over rt (waiting_keys t1) ms))"
    using assms(3) by (simp del: started.simps)
  have counted: "mset (tc_queue t' @ delivered t') = mset (tc_queue t @ delivered t) + mset (m # ms)"
    unfolding conjunct1 [OF assms(3)] assms(1) by simp
  have waiters: "map_of (tc_waiters t') k = (if k \<in> waiting_keys t1
      then (case find (\<lambda>x. reply_key rt x = k) ms of Some x \<Rightarrow> Some (Delivered x) | None \<Rightarrow> Some Waiting)
      else map_of (tc_waiters t1) k)" for k
    using assms(3) by blast
  show ?thesis
  proof (cases "reply_key rt m \<in> waiting_keys t")
    case True
    with assms(2) have h: "waiting_keys t1 = waiting_keys t - {reply_key rt m}" "tc_queue t1 = tc_queue t" "tc_tasks t1 = tc_tasks t"
      "map_of (tc_waiters t1) = (map_of (tc_waiters t))(reply_key rt m \<mapsto> Delivered m)" by (simp_all add: handed_over_def)
    from counted tasks waiters assms(3) True show ?thesis unfolding h by (intro conjI allI) (simp_all del: started.simps)
  next
    case False
    with assms(2) have h: "waiting_keys t1 = waiting_keys t" "tc_queue t1 = tc_queue t @ [m]" "tc_tasks t1 = tc_tasks t @ started rt t m"
      "map_of (tc_waiters t1) = map_of (tc_waiters t)" by (simp_all add: handed_over_def del: started.simps)
    from False have other: "k \<in> waiting_keys t \<Longrightarrow> reply_key rt m \<noteq> k" for k by blast
    from counted tasks waiters assms(3) False show ?thesis unfolding h
      by (intro conjI allI) (auto simp: other simp del: started.simps)
  qed
qed

section \<open>Properties\<close>

text \<open>C20: every well-formed message that arrives is handed over exactly once and to the right place: the first one with the
  action and transfer of a waiter is that waiter's reply, and no other waiter and no other message changes it; all others go
  to the receive queue in the order of arrival, each starting the handler registered for its action, if there is one. Malformed text
  and a JSON null are discarded without effect, and in the end the channel is not connected. (A message that is no object
  raises and ends the run early; so does a text outside the model's characters.)\<close>

theorem messages_handed_over_once:
  assumes "listen rt raws t = (Inr u, t')"
  shows "mset (tc_queue t' @ delivered t') = mset (tc_queue t @ delivered t) + mset (readable rt raws)
    \<and> tc_queue t' = tc_queue t @ left_over rt (waiting_keys t) (readable rt raws)
    \<and> (\<forall>k. map_of (tc_waiters t') k =
          (if k \<in> waiting_keys t
           then (case find (\<lambda>m. reply_key rt m = k) (readable rt raws) of Some m \<Rightarrow> Some (Delivered m) | None \<Rightarrow> Some Waiting)
           else map_of (tc_waiters t) k))
    \<and> tc_tasks t' = tc_tasks t @ concat (map (started rt t) (left_over rt (waiting_keys t) (readable rt raws)))
    \<and> \<not> tc_connected t'"
  using assms
proof (induction rt raws t rule: listen.induct)
  case (1 rt t)
  then show ?case by (auto simp: delivered_def readable_def waiting_keys_def)
next
  case (2 rt raw raws t)
  show ?case
  proof (cases "parse_message rt raw")
    case (Inl e)
    with 2(3) show ?thesis by simp
  next
    case (Inr p)
    show ?thesis
    proof (cases p)
      case None
      with Inr have r: "readable rt (raw # raws) = readable rt raws" by (simp add: readable_def)
      from 2(3) Inr None have "listen rt raws t = (Inr u, t')" by simp
      from 2(1) [OF Inr None this] show ?thesis unfolding r .
    next
      case (Some m)
      obtain q t1 where d: "dispatch_message rt m t = (q, t1)" by fastforce
      with 2(3) Inr Some obtain v where q: "q = Inr v" and l: "listen rt raws t1 = (Inr u, t')"
        by (cases q) auto
      have r: "readable rt (raw # raws) = m # readable rt raws" using Inr Some by (simp add: readable_def)
      note ih = 2(2) [OF Inr Some d [symmetric] q l]
      show ?thesis unfolding r by (rule handed_over_step [OF conjunct1 [OF dispatch_obj [OF d [unfolded q]]] dispatch_place [OF d [unfolded q]] ih])
    qed
  qed
qed

theorem messages_handed_over_once_witness:
  "mset (tc_queue (snd (listen demo_rt [Raw_Text ''{}'', Raw_Text ''oops''] (new_trust_channel 5 60 0)))
     @ delivered (snd (listen demo_rt [Raw_Text ''{}'', Raw_Text ''oops''] (new_trust_channel 5 60 0)))) = {#JObj []#}"
proof -
  have p: "parse_message demo_rt (Raw_Text ''{}'') = Inr (Some (JObj []))" "parse_message demo_rt (Raw_Text ''oops'') = Inr None"
    by (simp_all add: parse_message_def; code_simp)+
  obtain r t' where l: "listen demo_rt [Raw_Text ''{}'', Raw_Text ''oops''] (new_trust_channel 5 60 0) = (r, t')" by fastforce
  then have r: "r = Inr ()"
    by (auto simp: p dispatch_message_def message_key_def jget_or_def new_trust_channel_def register_handler_def Let_def
        split: option.splits)
  have e: "tc_queue (new_trust_channel 5 60 0) = []" "delivered (new_trust_channel 5 60 0) = []"
    by (simp_all add: new_trust_channel_def register_handler_def delivered_def)
  from messages_handed_over_once [OF l [unfolded r], THEN conjunct1]
  have "mset (tc_queue t' @ delivered t') = {#JObj []#}" using e p by (simp add: readable_def)
  with l show ?thesis by simp
qed

text \<open>The sleeps of a client whose connections all fail at once.\<close>

lemma run_refused:
  assumes "0 \<le> b" and "0 \<le> tc_reconnect_max t" and "i < length ds"
  shows "fst (run_channel rt b (map (\<lambda>d. (Refused e, d)) ds) t) ! i
      = min (b * 2 ^ i) (tc_reconnect_max t) + (if tc_jitter t > 0 then ds ! i else 0)
    \<and> length (fst (run_channel rt b (map (\<lambda>d. (Refused e, d)) ds) t)) = length ds"
  using assms
proof (induction ds arbitrary: b i)
  case (Cons d ds)
  let ?m = "tc_reconnect_max t"
  obtain ss t2 where run: "run_channel rt (min (b * 2) ?m) (map (\<lambda>d. (Refused e, d)) ds) t = (ss, t2)" by fastforce
  have b': "0 \<le> min (b * 2) ?m" using Cons.prems by simp
  have len: "length ss = length ds"
    using Cons.IH [OF b' Cons.prems(2), of 0] run by (cases ds) auto
  show ?case
  proof (cases i)
    case 0
    with run len show ?thesis
      by (auto simp: connect_and_listen_def backoff_turn_def Let_def)
  next
    case (Suc j)
    then have j: "j < length ds" using Cons.prems(3) by simp
    from Cons.IH [OF b' Cons.prems(2) j] run
    have "ss ! j = min (min (b * 2) ?m * 2 ^ j) ?m + (if tc_jitter t > 0 then ds ! j else 0)" by simp
    moreover have "min (min (b * 2) ?m * 2 ^ j) ?m = min (b * 2 ^ Suc j) ?m"
    proof -
      have m: "?m \<le> ?m * 2 ^ j" using Cons.prems(2) by (simp add: mult_le_cancel_left1)
      have b: "b * 2 \<le> b * 2 ^ Suc j" using Cons.prems(1) by (simp add: mult_le_cancel_left1)
      show ?thesis
      proof (cases "b * 2 \<le> ?m")
        case True
        then show ?thesis by (simp add: min_absorb1 mult.assoc)
      next
        case False
        with b have "?m \<le> b * 2 ^ Suc j" by linarith
        with False m show ?thesis by (simp add: min_absorb2)
      qed
    qed
    ultimately show ?thesis using Suc run len
      by (auto simp: connect_and_listen_def backoff_turn_def Let_def)
  qed
qed simp

text \<open>While every connection fails, the i-th wait is the base delay doubled i times but never more than
  the configured maximum, plus the jitter drawn; and a connection that ends cleanly brings the next
  wait back to the base delay.\<close>

theorem reconnect_backoff:
  assumes "0 \<le> tc_reconnect_delay t" and "0 \<le> tc_reconnect_max t" and "i < length ds"
  shows "fst (tc_run rt (map (\<lambda>d. (Refused e, d)) ds) t) ! i
      = min (tc_reconnect_delay t * 2 ^ i) (tc_reconnect_max t) + (if tc_jitter t > 0 then ds ! i else 0)
    \<and> snd (backoff_turn t b True d) = min (tc_reconnect_delay t) (tc_reconnect_max t) + (if tc_jitter t > 0 then d else 0)"
proof -
  let ?t = "t\<lparr>tc_running := True\<rparr>"
  have "0 \<le> tc_reconnect_max ?t" using assms(2) by simp
  from run_refused [OF assms(1) this assms(3), of rt e] show ?thesis
    by (simp add: tc_run_def backoff_turn_def Let_def)
qed

theorem reconnect_backoff_witness:
  "fst (tc_run demo_rt (map (\<lambda>d. (Refused OSError, d)) [0, 0, 0, 0, 0]) (new_trust_channel 5 60 0)) ! 4 = 60"
  using reconnect_backoff [of "new_trust_channel 5 60 0" 4 "[0, 0, 0, 0, 0]" demo_rt OSError]
  by (simp add: new_trust_channel_def register_handler_def)

text \<open>A message that is valid JSON but not an object is not discarded like other malformed messages: it
  ends the connection with an \<open>AttributeError\<close>, the messages behind it are lost, and since \<open>_ws\<close> keeps
  the dead socket a later \<open>send\<close> does not report that the channel is down but raises the socket's own
  error.\<close>

lemma non_object_message_ends_connection:
  assumes "parse_message rt raw = Inr (Some v)" and "\<not> is_obj v"
  shows "connect_and_listen rt (Served (raw # raws)) t = (Inl AttributeError, t\<lparr>tc_connected := True\<rparr>)
    \<and> fst (tc_send rt (Inl ConnectionClosed) m (snd (connect_and_listen rt (Served (raw # raws)) t))) = Inl ConnectionClosed"
  using assms by (cases v) (simp_all add: connect_and_listen_def dispatch_message_def tc_send_def)

theorem non_object_message_ends_connection_witness:
  "fst (connect_and_listen demo_rt (Served [Raw_Text ''[]'', Raw_Text ''{}'']) (new_trust_channel 5 60 0)) = Inl AttributeError"
proof -
  have "parse_message demo_rt (Raw_Text ''[]'') = Inr (Some (JArr []))" by code_simp
  from non_object_message_ends_connection [OF this] show ?thesis by simp
qed

end
