(* ===== verification/ProviderTasks.thy ===== *)
theory ProviderTasks
  imports Provider TrustChannel
begin

text \<open>
  A seller's node at work: the trust channel hears a message and starts a task for its handler
  (\<open>core/trust_channel.py\<close>, \<open>_dispatch_message\<close> and \<open>_safe_handle\<close>); the handler
  \<open>on_session_negotiate\<close> (\<open>provider/session_handler.py\<close>) checks the offer, awaits the connection and
  registers the session with a task that serves it; sessions end, the health loop runs, and \<open>stop\<close> closes
  what is there. All of these are coroutines, and a step of the relation below lets one of them run from
  one await to the next.

  A transport is shared by the table of active sessions and by the task that serves it, so transports stand in a
  store and both hold an index of it.
\<close>

section \<open>State\<close>

type_synonym offer = "string \<times> string \<times> string \<times> bytes"

text \<open>
  Where a call of \<open>stop\<close> is suspended: it waits for the cancelled health task, for the session tasks it has cancelled (those
  that are left), or for the closing of the transports it has taken from the table.
\<close>

datatype stop_phase = Await_Health | Await_Tasks "(string \<times> nat) list" | Closing_Transports "(string \<times> nat) list"

record provider_node =
  pn_channel :: trust_channel
  pn_adapter :: adapter
  pn_health_task :: bool
  pn_transports :: "relay_transport list"
  pn_active :: "(string, nat) dict"
  pn_session_tasks :: "(string, nat) dict"
  pn_connecting :: "offer list"
  pn_serving :: "(string \<times> nat) list"
  pn_stops :: "stop_phase list"
  pn_heard :: "json list"
  pn_sockets :: "(websocket \<times> int) list"

text \<open>
  \<open>pn_connecting\<close> are the handlers that wait for their connection, \<open>pn_serving\<close> the running
  \<open>_process_session\<close> tasks with their arguments, \<open>pn_stops\<close> the calls of \<open>stop\<close> under way. Two histories: \<open>pn_heard\<close> the messages
  of the trust channel, \<open>pn_sockets\<close> for each transport, in the order of the store, the socket it was connected over with
  what had arrived on it, and the clock when its first message was checked.
  The handler's view of the node is the record of the theory Provider.
\<close>

definition handler_view :: "provider_node \<Rightarrow> provider_handler" where
  "handler_view N = \<lparr>ph_adapter = pn_adapter N,
     ph_active_sessions = map (\<lambda>(sid, i). (sid, pn_transports N ! i)) (pn_active N),
     ph_session_tasks = map (\<lambda>(sid, i). (sid, ())) (pn_session_tasks N),
     ph_health_task = pn_health_task N, ph_registered = True\<rparr>"

text \<open>The name under which \<open>start\<close> registers the handler.\<close>

definition provider_callback :: tc_handler where
  "provider_callback = External ''ProviderSessionHandler.on_session_negotiate''"

definition started_node :: "trust_channel \<Rightarrow> adapter \<Rightarrow> provider_node" where
  "started_node ch a = \<lparr>pn_channel = register_handler session_negotiate_action provider_callback ch,
     pn_adapter = adapter_start a, pn_health_task = True, pn_transports = [], pn_active = [],
     pn_session_tasks = [], pn_connecting = [], pn_serving = [], pn_stops = [], pn_heard = [], pn_sockets = []\<rparr>"

section \<open>From await to await\<close>

text \<open>\<open>on_session_negotiate\<close> up to \<open>await transport.connect\<close>: it has returned or raised, or it waits.\<close>

definition negotiate_checks ::
    "relay_env \<Rightarrow> adapter \<Rightarrow> string set \<Rightarrow> (string \<times> json) list \<Rightarrow> unit res + offer" where
  "negotiate_checks E a active event =
    (let source = negotiate_source event
     in if \<not> ad_healthy a \<or> jget source ''connection_mode'' \<noteq> JStr ''relay'' then Inl (Inr ())
        else case relay_offer source of
          None \<Rightarrow> Inl (Inr ())
        | Some (sid, url, nid, pk) \<Rightarrow>
          if sid \<in> active then Inl (Inr ())
          else (case rbind (build_handshake_manager E) (\<lambda>_. ed_public_key_b64 pk) of
                  Inl e \<Rightarrow> Inl (Inl e)
                | Inr key \<Rightarrow> Inr (sid, url, nid, key)))"

definition run_handler :: "relay_env \<Rightarrow> tc_handler \<Rightarrow> (string \<times> json) list \<Rightarrow> provider_node \<Rightarrow> provider_node" where
  "run_handler E h event N =
    (if h = provider_callback then
       (case negotiate_checks E (pn_adapter N) (set (dict_keys (pn_active N))) event of
          Inl _ \<Rightarrow> N
        | Inr offer \<Rightarrow> N\<lparr>pn_connecting := pn_connecting N @ [offer]\<rparr>)
     else if h = Negotiate_Handler then
       N\<lparr>pn_channel := handle_session_negotiate (re_rt E) event (pn_channel N)\<rparr>
     else N)"

text \<open>The connection is there: register the session and start its task. (The socket goes to the history.)\<close>

definition accept_session :: "string \<Rightarrow> relay_transport \<Rightarrow> websocket \<times> int \<Rightarrow> provider_node \<Rightarrow> provider_node" where
  "accept_session sid t w N = (let i = length (pn_transports N) in
     N\<lparr>pn_sockets := pn_sockets N @ [w], pn_transports := pn_transports N @ [t], pn_active := dict_set sid i (pn_active N),
       pn_session_tasks := dict_set sid i (pn_session_tasks N), pn_serving := pn_serving N @ [(sid, i)]\<rparr>)"

definition close_at :: "crypto_lib \<Rightarrow> pyrt \<Rightarrow> string \<Rightarrow> nat \<Rightarrow> provider_node \<Rightarrow> provider_node" where
  "close_at C rt reason i N =
     N\<lparr>pn_transports := (pn_transports N)[i := snd (close_transport C rt (pn_transports N ! i) reason)]\<rparr>"

text \<open>
  The \<open>finally\<close> block of \<open>_process_session\<close>: it closes the transport that is registered under the session id,
  which need not be the one this task has served.
\<close>

definition end_session :: "crypto_lib \<Rightarrow> pyrt \<Rightarrow> string \<Rightarrow> provider_node \<Rightarrow> provider_node" where
  "end_session C rt sid N =
    (let N1 = N\<lparr>pn_session_tasks := dict_del sid (pn_session_tasks N), pn_active := dict_del sid (pn_active N)\<rparr>
     in case map_of (pn_active N) sid of
          None \<Rightarrow> N1
        | Some i \<Rightarrow> close_at C rt ''connection_drop'' i N1)"

definition cancel_session :: "crypto_lib \<Rightarrow> pyrt \<Rightarrow> string \<times> nat \<Rightarrow> provider_node \<Rightarrow> provider_node" where
  "cancel_session C rt task N =
     end_session C rt (fst task) (N\<lparr>pn_serving := removeAll task (pn_serving N)\<rparr>)"

text \<open>
  \<open>stop\<close> from await to await: it cancels the tasks it knows, each of which runs its \<open>finally\<close> unless it is over already, then
  takes the table of the active sessions and closes them. (A cancelled task may be served a frame before its turn
  comes, which the code rules out: the runs below are more than those of the code.)
\<close>

definition stop_task :: "crypto_lib \<Rightarrow> pyrt \<Rightarrow> string \<times> nat \<Rightarrow> provider_node \<Rightarrow> provider_node" where
  "stop_task C rt x N = (if x \<in> set (pn_serving N) then cancel_session C rt x N else N)"

fun stop_turn :: "crypto_lib \<Rightarrow> pyrt \<Rightarrow> stop_phase \<Rightarrow> provider_node \<Rightarrow> stop_phase option \<times> provider_node" where
  "stop_turn C rt Await_Health N = (Some (Await_Tasks (pn_session_tasks N)), N)"
| "stop_turn C rt (Await_Tasks (x # xs)) N = (Some (Await_Tasks xs), stop_task C rt x N)"
| "stop_turn C rt (Await_Tasks []) N = (Some (Closing_Transports (pn_active N)), N\<lparr>pn_active := []\<rparr>)"
| "stop_turn C rt (Closing_Transports ((sid, i) # xs)) N = (Some (Closing_Transports xs), close_at C rt ''provider_shutdown'' i N)"
| "stop_turn C rt (Closing_Transports []) N = (None, N\<lparr>pn_adapter := adapter_stop (pn_adapter N)\<rparr>)"

fun put_stop :: "stop_phase option \<times> provider_node \<Rightarrow> provider_node" where
  "put_stop (None, N) = N"
| "put_stop (Some ph, N) = N\<lparr>pn_stops := pn_stops N @ [ph]\<rparr>"

text \<open>The same, not interrupted.\<close>

definition stop_node :: "crypto_lib \<Rightarrow> pyrt \<Rightarrow> provider_node \<Rightarrow> provider_node" where
  "stop_node C rt N =
    (let N1 = fold (stop_task C rt) (pn_session_tasks N) (N\<lparr>pn_health_task := False\<rparr>);
         N2 = fold (\<lambda>(sid, i). close_at C rt ''provider_shutdown'' i) (pn_active N1) (N1\<lparr>pn_active := []\<rparr>)
     in N2\<lparr>pn_adapter := adapter_stop (pn_adapter N2)\<rparr>)"

section \<open>Steps\<close>

text \<open>
  What every connection of the node has in common; the socket, the ephemeral key and the clock differ from
  one to the next.
\<close>

definition same_node :: "relay_env \<Rightarrow> relay_env \<Rightarrow> bool" where
  "same_node E E' \<longleftrightarrow> re_crypto E' = re_crypto E \<and> re_rt E' = re_rt E \<and> re_identity E' = re_identity E"

text \<open>
  A failed connection ends the handler's task, which logs the exception (\<open>_safe_handle\<close>). More frames may arrive
  at any transport. A call of \<open>stop\<close> is gone when it is cancelled or an await of it raises.
\<close>

inductive provider_step :: "relay_env \<Rightarrow> provider_node \<Rightarrow> provider_node \<Rightarrow> bool" for E where
  Hear: "dispatch_message (re_rt E) message (pn_channel N) = (r, ch) \<Longrightarrow>
    provider_step E N (N\<lparr>pn_channel := ch, pn_heard := message # pn_heard N\<rparr>)"
| Handle: "tc_tasks (pn_channel N) = before @ (h, JObj event) # rest \<Longrightarrow>
    provider_step E N (run_handler E h event (N\<lparr>pn_channel := (pn_channel N)\<lparr>tc_tasks := before @ rest\<rparr>\<rparr>))"
| Connected: "pn_connecting N = before @ (sid, url, nid, key) # rest \<Longrightarrow> same_node E E' \<Longrightarrow>
    re_ws_connect E' (websocket_url url) = Inr w \<Longrightarrow> open_relay E' url sid nid key False = (Some (Inr u), Some t) \<Longrightarrow>
    provider_step E N (accept_session sid t (w, re_wall1 E') (N\<lparr>pn_connecting := before @ rest\<rparr>))"
| Not_Connected: "pn_connecting N = before @ offer # rest \<Longrightarrow>
    provider_step E N (N\<lparr>pn_connecting := before @ rest\<rparr>)"
| Arrive: "pn_transports N ! i = t \<Longrightarrow>
    provider_step E N (N\<lparr>pn_transports := (pn_transports N)[i := set_inbox (inbox t @ ms) t]\<rparr>)"
| Serve: "(sid, i) \<in> set (pn_serving N) \<Longrightarrow>
    serve_loop (re_crypto E) (re_rt E) exc_str forward (pn_transports N ! i) = (None, t) \<Longrightarrow>
    provider_step E N (N\<lparr>pn_transports := (pn_transports N)[i := t]\<rparr>)"
| Session_Ends: "(sid, i) \<in> set (pn_serving N) \<Longrightarrow>
    serve_loop (re_crypto E) (re_rt E) exc_str forward (pn_transports N ! i) = (Some e, t) \<Longrightarrow>
    provider_step E N (cancel_session (re_crypto E) (re_rt E) (sid, i) (N\<lparr>pn_transports := (pn_transports N)[i := t]\<rparr>))"
| Health: "pn_health_task N \<Longrightarrow> provider_step E N (N\<lparr>pn_adapter := snd (health_check (pn_adapter N) ok)\<rparr>)"
| Stop: "provider_step E N (N\<lparr>pn_health_task := False, pn_stops := pn_stops N @ [Await_Health]\<rparr>)"
| Stop_Goes_On: "pn_stops N = before @ ph # rest \<Longrightarrow>
    provider_step E N (put_stop (stop_turn (re_crypto E) (re_rt E) ph (N\<lparr>pn_stops := before @ rest\<rparr>)))"
| Stop_Gone: "pn_stops N = before @ ph # rest \<Longrightarrow> provider_step E N (N\<lparr>pn_stops := before @ rest\<rparr>)"

inductive_cases provider_stepE: "provider_step E N N'"

abbreviation provider_steps :: "relay_env \<Rightarrow> provider_node \<Rightarrow> provider_node \<Rightarrow> bool" where
  "provider_steps E \<equiv> (provider_step E)\<^sup>*\<^sup>*"

section \<open>Where sessions come from\<close>

text \<open>A message heard on the trust channel named this session, relay and buyer.\<close>

definition heard_offer :: "json list \<Rightarrow> offer \<Rightarrow> bool" where
  "heard_offer heard x = (case x of (sid, url, nid, key) \<Rightarrow>
     \<exists>event pk. JObj event \<in> set heard \<and> jget (negotiate_source event) ''connection_mode'' = JStr ''relay''
       \<and> relay_offer (negotiate_source event) = Some (sid, url, nid, pk) \<and> ed_public_key_b64 pk = Inr key)"

text \<open>A handshake message for this session from this node, fresh, with a signature over its fields that the key verifies.\<close>

definition signed_init :: "crypto_lib \<Rightarrow> pyrt \<Rightarrow> int \<Rightarrow> handshake_msg \<Rightarrow> string \<Rightarrow> string \<Rightarrow> bytes \<Rightarrow> bool" where
  "signed_init C rt now msg sid nid key \<longleftrightarrow>
     hm_session_id msg = JStr sid \<and> hm_node_id msg = JStr nid \<and> validate_timestamp now (hm_timestamp msg) = Inr ()
     \<and> (\<exists>e sg sig. hm_ephemeral_pubkey msg = JStr e \<and> hm_signature msg = JStr sg \<and> b64decode sg = Inr sig
          \<and> ed_verify C key sig (utf8_encode (''AIM-HANDSHAKE-INIT'' @ sid @ nid @ e @ py_str rt (hm_timestamp msg))))"

text \<open>The first message that arrived on a socket is one: the peer of this very connection has proved that it holds the key.\<close>

definition peer_proved :: "relay_env \<Rightarrow> websocket \<times> int \<Rightarrow> string \<Rightarrow> string \<Rightarrow> bytes \<Rightarrow> bool" where
  "peer_proved E w sid nid key \<longleftrightarrow> (\<exists>arrived m ms msg. ws_inbox (fst w) = (arrived, m) # ms
     \<and> rbind (loads_ws (re_rt E) m) (handshake_of_json initiator_field) = Inr msg
     \<and> signed_init (re_crypto E) (re_rt E) (snd w) msg sid nid key)"

definition met :: "relay_env \<Rightarrow> json list \<Rightarrow> websocket \<times> int \<Rightarrow> string \<Rightarrow> bool" where
  "met E heard w sid \<longleftrightarrow> (\<exists>url nid key. heard_offer heard (sid, url, nid, key) \<and> peer_proved E w sid nid key)"

definition node_ok :: "relay_env \<Rightarrow> provider_node \<Rightarrow> bool" where
  "node_ok E N \<longleftrightarrow> snd ` set (tc_tasks (pn_channel N)) \<subseteq> set (pn_heard N)
     \<and> (\<forall>x \<in> set (pn_connecting N). heard_offer (pn_heard N) x)
     \<and> length (pn_sockets N) = length (pn_transports N)
     \<and> (\<forall>(sid, i) \<in> set (pn_serving N). met E (pn_heard N) (pn_sockets N ! i) sid \<and> i < length (pn_transports N))
     \<and> set (pn_active N) \<subseteq> set (pn_serving N)
     \<and> distinct (map snd (pn_serving N)) \<and> distinct (dict_keys (pn_active N))"

lemma connect_responder_verified:
  assumes "connect_responder C rt eph wall1 wall2 t sid nid key = (Some (Inr u), t')"
  shows "\<exists>arrived m ms msg. inbox t = (arrived, m) # ms \<and> rbind (loads_ws rt m) (handshake_of_json initiator_field) = Inr msg
    \<and> (\<exists>v h. verify_init C rt wall1 (tp_handshake t) msg sid nid key = (Inr v, h))"
proof -
  obtain arrived m ms where i: "inbox t = (arrived, m) # ms"
    using assms by (cases "inbox t") (auto simp: connect_responder_def)
  let ?t = "(set_inbox ms t)\<lparr>tp_now := arrived\<rparr>"
  have h: "tp_handshake ?t = tp_handshake t" by (simp add: set_inbox_def)
  obtain msg where msg: "rbind (loads_ws rt m) (handshake_of_json initiator_field) = Inr msg"
    using assms i by (cases "rbind (loads_ws rt m) (handshake_of_json initiator_field)")
      (auto simp: connect_responder_def Let_def)
  obtain v h' where v: "verify_init C rt wall1 (tp_handshake ?t) msg sid nid key = (v, h')" by fastforce
  with assms i msg h have "v \<noteq> Inl e" for e by (auto simp: connect_responder_def Let_def)
  with v h i msg show ?thesis by (cases v) auto
qed

lemma verified_signed:
  assumes "verify_init C rt now hs msg sid nid key = (Inr v, h)"
  shows "signed_init C rt now msg sid nid key"
proof -
  have idle: "hs_state hs = IDLE" using assms by (auto simp: verify_init_def split: if_splits)
  have "verify_init C rt now hs msg sid nid key = (Inr (), h)" using assms by simp
  from verify_init_sound [OF this] idle show ?thesis unfolding signed_init_def by blast
qed

lemma open_relay_proved:
  assumes "open_relay E' url sid nid key False = (Some (Inr u), Some t)" and "same_node E E'"
    and "re_ws_connect E' (websocket_url url) = Inr w"
  shows "peer_proved E (w, re_wall1 E') sid nid key"
proof -
  have i: "build_handshake_manager E' = build_handshake_manager E"
    using assms(2) by (simp add: build_handshake_manager_def same_node_def)
  obtain hs where hs: "build_handshake_manager E' = Inr hs"
    using assms(1) by (cases "build_handshake_manager E'") (auto simp: open_relay_def)
  let ?C = "re_crypto E'" and ?rt = "re_rt E'"
  have "connect_responder ?C ?rt (re_ephemeral E') (re_wall1 E') (re_wall2 E')
      ((new_transport hs)\<lparr>tp_is_initiator := False, tp_ws := Some w, tp_state := Handshaking\<rparr>) sid nid key = (Some (Inr u), t)"
    using assms(1,3) hs by (auto simp: open_relay_def connect_transport_def Let_def split: sum.splits prod.splits)
  from connect_responder_verified [OF this] obtain arrived m ms msg where
    "ws_inbox w = (arrived, m) # ms" "rbind (loads_ws ?rt m) (handshake_of_json initiator_field) = Inr msg"
    "\<exists>v h. verify_init ?C ?rt (re_wall1 E') hs msg sid nid key = (Inr v, h)"
    by (auto simp: new_transport_def inbox_def)
  with assms(2) show ?thesis by (auto simp: peer_proved_def same_node_def dest: verified_signed)
qed

lemma heard_offer_more: "heard_offer heard x \<Longrightarrow> heard_offer (m # heard) x"
  by (cases x) (auto simp: heard_offer_def)

lemma met_more: "met E heard w sid \<Longrightarrow> met E (m # heard) w sid"
  using heard_offer_more by (fastforce simp: met_def)

lemma dispatch_tasks:
  "dispatch_message rt m t = (r, t') \<Longrightarrow> snd ` set (tc_tasks t') \<subseteq> insert m (snd ` set (tc_tasks t))"
  by (auto simp: dispatch_message_def Let_def split: sum.splits prod.splits if_splits option.splits)

lemma negotiate_checks_offer:
  assumes "negotiate_checks E a active event = Inr x" and "JObj event \<in> set heard"
  shows "heard_offer heard x"
  using assms
  by (cases x) (auto simp: negotiate_checks_def Let_def heard_offer_def rbind_Inr_iff
      split: if_splits option.splits sum.splits)

lemma run_handler_ok:
  assumes "node_ok E N" and "JObj event \<in> set (pn_heard N)"
  shows "node_ok E (run_handler E h event N)"
proof (cases "h = provider_callback")
  case True
  show ?thesis
  proof (cases "negotiate_checks E (pn_adapter N) (set (dict_keys (pn_active N))) event")
    case (Inl r)
    with True assms show ?thesis by (simp add: run_handler_def)
  next
    case (Inr x)
    with True assms negotiate_checks_offer [OF Inr assms(2)] show ?thesis
      by (auto simp: run_handler_def node_ok_def)
  qed
next
  case False
  with assms show ?thesis by (auto simp: run_handler_def node_ok_def handle_session_negotiate_def Let_def)
qed

lemma accept_session_ok:
  assumes "node_ok E N" and "met E (pn_heard N) w sid"
  shows "node_ok E (accept_session sid t w N)"
proof -
  have "set (dict_set sid i d) \<subseteq> insert (sid, i) (set d)" for i and d :: "(string, nat) dict"
    by (induction d) (auto split: if_splits)
  then have "set (pn_active (accept_session sid t w N)) \<subseteq> set (pn_serving (accept_session sid t w N))"
    using assms(1) by (fastforce simp: accept_session_def Let_def node_ok_def)
  moreover have "length (pn_transports N) \<notin> snd ` set (pn_serving N)"
    using assms(1) by (auto simp: node_ok_def)
  ultimately show ?thesis
    using assms by (auto simp: node_ok_def accept_session_def Let_def nth_append)
qed

lemma close_at_sel [simp]:
  "pn_channel (close_at C rt r i N) = pn_channel N" "pn_heard (close_at C rt r i N) = pn_heard N"
  "pn_connecting (close_at C rt r i N) = pn_connecting N" "pn_serving (close_at C rt r i N) = pn_serving N"
  "pn_active (close_at C rt r i N) = pn_active N" "pn_session_tasks (close_at C rt r i N) = pn_session_tasks N"
  "length (pn_transports (close_at C rt r i N)) = length (pn_transports N)"
  "pn_adapter (close_at C rt r i N) = pn_adapter N" "pn_health_task (close_at C rt r i N) = pn_health_task N"
  "pn_stops (close_at C rt r i N) = pn_stops N" "pn_sockets (close_at C rt r i N) = pn_sockets N"
  by (simp_all add: close_at_def)

lemma close_at_ok [simp]: "node_ok E (close_at C rt r i N) = node_ok E N"
  by (simp add: node_ok_def)

lemma end_session_sel [simp]:
  "pn_channel (end_session C rt sid N) = pn_channel N" "pn_heard (end_session C rt sid N) = pn_heard N"
  "pn_connecting (end_session C rt sid N) = pn_connecting N" "pn_serving (end_session C rt sid N) = pn_serving N"
  "pn_active (end_session C rt sid N) = dict_del sid (pn_active N)"
  "length (pn_transports (end_session C rt sid N)) = length (pn_transports N)"
  "pn_stops (end_session C rt sid N) = pn_stops N" "pn_sockets (end_session C rt sid N) = pn_sockets N"
  "pn_adapter (end_session C rt sid N) = pn_adapter N" "pn_health_task (end_session C rt sid N) = pn_health_task N"
  by (auto simp: end_session_def Let_def split: option.splits)

lemma cancel_session_ok:
  assumes "node_ok E N"
  shows "node_ok E (cancel_session C rt (sid, i) N)"
proof -
  have "distinct (map snd (removeAll y xs))" if "distinct (map snd xs)" for y and xs :: "(string \<times> nat) list"
    using that by (induction xs) auto
  moreover have "set (dict_del sid d) \<subseteq> set ys - {(sid, i)}" if "set d \<subseteq> set ys" for ys and d :: "(string, nat) dict"
    using that by (auto simp: dict_del_def)
  moreover have "distinct (map fst (dict_del sid d))" if "distinct (map fst d)" for d :: "(string, nat) dict"
    using that by (induction d) (auto simp: dict_del_def)
  ultimately show ?thesis
    using assms by (auto simp: node_ok_def cancel_session_def)
qed

lemma node_ok_upd [simp]:
  "node_ok E (N\<lparr>pn_stops := s\<rparr>) = node_ok E N" "node_ok E (N\<lparr>pn_health_task := b\<rparr>) = node_ok E N"
  "node_ok E (N\<lparr>pn_adapter := a\<rparr>) = node_ok E N"
  by (simp_all add: node_ok_def)

lemma node_ok_cleared: "node_ok E N \<Longrightarrow> node_ok E (N\<lparr>pn_active := []\<rparr>)"
  by (simp add: node_ok_def)

lemma stop_task_ok: "node_ok E N \<Longrightarrow> node_ok E (stop_task C rt x N)"
  by (cases x) (simp add: stop_task_def cancel_session_ok)

lemma put_stop_ok: "node_ok E (put_stop (x, N)) = node_ok E N"
  by (cases x) simp_all

lemma stop_turn_ok: "node_ok E N \<Longrightarrow> node_ok E (put_stop (stop_turn C rt ph N))"
  by (cases "(C, rt, ph, N)" rule: stop_turn.cases)
     (simp_all add: node_ok_cleared stop_task_ok del: put_stop.simps add: put_stop_ok)


lemma node_ok_transports:
  "node_ok E (N\<lparr>pn_transports := (pn_transports N)[i := t]\<rparr>) = node_ok E N"
  by (simp add: node_ok_def)

lemma node_ok_step:
  assumes "provider_step E N N'" and "node_ok E N"
  shows "node_ok E N'"
  using assms
proof (cases rule: provider_step.cases)
  case (Hear message r ch)
  have "snd ` set (tc_tasks ch) \<subseteq> insert message (set (pn_heard N))"
    using dispatch_tasks [OF Hear(2)] assms(2) by (auto simp: node_ok_def)
  with Hear(1) assms(2) show ?thesis
    by (auto simp: node_ok_def heard_offer_more met_more)
next
  case (Handle before h event rest)
  with assms(2) have "JObj event \<in> set (pn_heard N)" by (auto simp: node_ok_def)
  moreover have "node_ok E (N\<lparr>pn_channel := (pn_channel N)\<lparr>tc_tasks := before @ rest\<rparr>\<rparr>)"
    using assms(2) Handle(2) by (auto simp: node_ok_def)
  ultimately show ?thesis unfolding Handle(1) by (intro run_handler_ok) simp_all
next
  case (Connected before sid url nid key rest E' w u t)
  have "met E (pn_heard N) (w, re_wall1 E') sid"
    using assms(2) Connected(2) open_relay_proved [OF Connected(5,3,4)] by (auto simp: node_ok_def met_def)
  moreover have "node_ok E (N\<lparr>pn_connecting := before @ rest\<rparr>)"
    using assms(2) Connected(2) by (auto simp: node_ok_def)
  ultimately show ?thesis unfolding Connected(1) by (intro accept_session_ok) simp_all
next
  case (Not_Connected before offer rest)
  with assms(2) show ?thesis by (auto simp: node_ok_def)
next
  case (Session_Ends sid i exc_str forward e t)
  with assms(2) show ?thesis by (simp add: cancel_session_ok node_ok_transports)
next
  case (Health ok)
  with assms(2) show ?thesis by (simp add: node_ok_def)
next
  case Stop
  with assms(2) show ?thesis by simp
next
  case (Stop_Goes_On before ph rest)
  with assms(2) show ?thesis by (simp add: stop_turn_ok)
next
  case (Stop_Gone before ph rest)
  with assms(2) show ?thesis by simp
qed (simp_all add: node_ok_transports)

lemma node_ok_start: "tc_tasks ch = [] \<Longrightarrow> node_ok E (started_node ch a)"
  by (simp add: node_ok_def started_node_def register_handler_def)

section \<open>One negotiation, not interrupted\<close>

lemma dict_set_unit:
  "map (\<lambda>(k, i). (k, ())) (dict_set sid i d) = dict_set sid () (map (\<lambda>(k, i). (k, ())) d)"
  by (induction d) auto

lemma handler_view_accept:
  assumes "\<forall>(sid, i) \<in> set (pn_active N). i < length (pn_transports N)" and "sid \<notin> set (dict_keys (pn_active N))"
  shows "handler_view (accept_session sid t w N) = (handler_view N)\<lparr>
      ph_active_sessions := dict_set sid t (ph_active_sessions (handler_view N)),
      ph_session_tasks := dict_set sid () (ph_session_tasks (handler_view N))\<rparr>"
proof -
  let ?ts = "pn_transports N"
  have v: "map (\<lambda>(s, i). (s, (?ts @ [t]) ! i)) (pn_active N) = map (\<lambda>(s, i). (s, ?ts ! i)) (pn_active N)"
    using assms(1) by (auto simp: nth_append)
  have "dict_set sid (length ?ts) (pn_active N) = pn_active N @ [(sid, length ?ts)]"
    using assms(2) by (simp add: dict_set_append)
  moreover have "dict_set sid t (map (\<lambda>(s, i). (s, ?ts ! i)) (pn_active N))
      = map (\<lambda>(s, i). (s, ?ts ! i)) (pn_active N) @ [(sid, t)]"
    using assms(2) by (intro dict_set_append) (auto simp: comp_def case_prod_unfold)
  ultimately show ?thesis
    using v by (simp add: handler_view_def accept_session_def Let_def dict_set_unit)
qed

lemma dict_keys_view [simp]: "dict_keys (ph_active_sessions (handler_view N)) = dict_keys (pn_active N)"
  by (simp add: handler_view_def comp_def case_prod_unfold)

lemma handler_view_upd [simp]:
  "handler_view (N\<lparr>pn_channel := ch\<rparr>) = handler_view N" "handler_view (N\<lparr>pn_connecting := cs\<rparr>) = handler_view N"
  "ph_adapter (handler_view N) = pn_adapter N"
  by (simp_all add: handler_view_def)

text \<open>The handler of the theory Provider is the checks, the connection and the registration.\<close>

lemma on_session_negotiate_split:
  "on_session_negotiate E p event =
    (case negotiate_checks E (ph_adapter p) (set (dict_keys (ph_active_sessions p))) event of
       Inl r \<Rightarrow> (Some r, p)
     | Inr (sid, url, nid, key) \<Rightarrow>
       (case open_relay E url sid nid key False of
          (Some (Inr _), Some t) \<Rightarrow>
            (Some (Inr ()), p\<lparr>ph_active_sessions := dict_set sid t (ph_active_sessions p),
                              ph_session_tasks := dict_set sid () (ph_session_tasks p)\<rparr>)
        | (r, _) \<Rightarrow> (r, p)))"
  by (cases "build_handshake_manager E")
     (auto simp: on_session_negotiate_def negotiate_checks_def Let_def split: option.split sum.split prod.split)

lemma open_relay_connects:
  assumes "open_relay E url sid nid key b = (Some (Inr u), t)"
  shows "\<exists>w. re_ws_connect E (websocket_url url) = Inr w"
  using assms by (cases "re_ws_connect E (websocket_url url)")
    (auto simp: open_relay_def connect_transport_def Let_def split: sum.splits)

lemma negotiation_steps:
  assumes "tc_tasks (pn_channel N) = (provider_callback, JObj event) # rest"
    and "\<forall>(sid, i) \<in> set (pn_active N). i < length (pn_transports N)"
    and "on_session_negotiate E (handler_view N) event = (Some r, p')"
  shows "\<exists>N'. provider_steps E N N' \<and> handler_view N' = p' \<and> tc_tasks (pn_channel N') = rest"
proof -
  let ?M = "N\<lparr>pn_channel := (pn_channel N)\<lparr>tc_tasks := rest\<rparr>\<rparr>"
  have h: "provider_step E N (run_handler E provider_callback event ?M)"
    using provider_step.Handle [of N "[]" provider_callback event rest E] assms(1) by simp
  note n = assms(3) [unfolded on_session_negotiate_split, simplified]
  show ?thesis
  proof (cases "negotiate_checks E (pn_adapter N) (set (dict_keys (pn_active N))) event")
    case (Inl q)
    with h n show ?thesis
      by (intro exI [of _ ?M]) (auto simp: run_handler_def)
  next
    case (Inr x)
    obtain sid url nid key where x: "x = (sid, url, nid, key)" by (cases x)
    let ?W = "?M\<lparr>pn_connecting := pn_connecting N @ [x]\<rparr>"
    let ?D = "?W\<lparr>pn_connecting := pn_connecting N\<rparr>"
    have w: "provider_step E N ?W" using h Inr by (simp add: run_handler_def)
    have fresh: "sid \<notin> set (dict_keys (pn_active N))"
      using Inr x by (force simp: negotiate_checks_def Let_def split: if_splits option.splits sum.splits)
    obtain q t where o: "open_relay E url sid nid key False = (q, t)" by fastforce
    show ?thesis
    proof (cases "\<exists>t'. q = Some (Inr ()) \<and> t = Some t'")
      case True
      then obtain t' where q: "q = Some (Inr ())" "t = Some t'" by blast
      obtain v where v: "re_ws_connect E (websocket_url url) = Inr v" using open_relay_connects [OF o [unfolded q]] by blast
      let ?w = "(v, re_wall1 E)"
      have "provider_step E ?W (accept_session sid t' ?w ?D)"
        using provider_step.Connected [of ?W "pn_connecting N" sid url nid key "[]" E E v "()" t'] o q x v
        by (simp add: same_node_def)
      with w have "provider_steps E N (accept_session sid t' ?w ?D)" by simp
      moreover have "handler_view (accept_session sid t' ?w ?D) = p'"
        using handler_view_accept [of ?D sid t'] assms(2) fresh n Inr x o q by simp
      moreover have "tc_tasks (pn_channel (accept_session sid t' ?w ?D)) = rest"
        by (simp add: accept_session_def Let_def)
      ultimately show ?thesis by blast
    next
      case False
      then have "p' = handler_view N" using n Inr x o by (auto split: option.splits sum.splits)
      moreover have "provider_step E ?W ?D"
        using provider_step.Not_Connected [of ?W "pn_connecting N" x "[]" E] by simp
      ultimately show ?thesis using w by (intro exI [of _ ?D]) auto
    qed
  qed
qed

section \<open>A stop, not interrupted\<close>

lemma stops_commute:
  "close_at C rt r i (N\<lparr>pn_stops := s\<rparr>) = (close_at C rt r i N)\<lparr>pn_stops := s\<rparr>"
  "stop_task C rt x (N\<lparr>pn_stops := s\<rparr>) = (stop_task C rt x N)\<lparr>pn_stops := s\<rparr>"
  by (simp_all add: close_at_def stop_task_def cancel_session_def end_session_def Let_def split: option.split)

lemma stop_step:
  "provider_step E (N\<lparr>pn_stops := pn_stops N @ [ph]\<rparr>) (put_stop (stop_turn (re_crypto E) (re_rt E) ph N))"
  using provider_step.Stop_Goes_On [of "N\<lparr>pn_stops := pn_stops N @ [ph]\<rparr>" "pn_stops N" ph "[]" E] by simp

lemma stop_task_sel [simp]: "pn_stops (stop_task C rt x N) = pn_stops N"
  by (simp add: stop_task_def cancel_session_def)

lemma stop_tasks_steps:
  "provider_steps E (N\<lparr>pn_stops := pn_stops N @ [Await_Tasks xs]\<rparr>)
     ((fold (stop_task (re_crypto E) (re_rt E)) xs N)\<lparr>pn_stops := pn_stops N @ [Await_Tasks []]\<rparr>)"
proof (induction xs arbitrary: N)
  case (Cons x xs)
  from stop_step [of E N "Await_Tasks (x # xs)"]
  have "provider_step E (N\<lparr>pn_stops := pn_stops N @ [Await_Tasks (x # xs)]\<rparr>)
      ((stop_task (re_crypto E) (re_rt E) x N)\<lparr>pn_stops := pn_stops N @ [Await_Tasks xs]\<rparr>)" by simp
  with Cons.IH [of "stop_task (re_crypto E) (re_rt E) x N"] show ?case by (simp add: converse_rtranclp_into_rtranclp)
qed simp

lemma stop_closes_steps:
  "provider_steps E (N\<lparr>pn_stops := pn_stops N @ [Closing_Transports xs]\<rparr>)
     ((fold (\<lambda>(sid, i). close_at (re_crypto E) (re_rt E) ''provider_shutdown'' i) xs N)\<lparr>pn_stops := pn_stops N @ [Closing_Transports []]\<rparr>)"
proof (induction xs arbitrary: N)
  case (Cons x xs)
  obtain sid i where x: "x = (sid, i)" by (cases x)
  let ?M = "close_at (re_crypto E) (re_rt E) ''provider_shutdown'' i N"
  from stop_step [of E N "Closing_Transports (x # xs)"]
  have "provider_step E (N\<lparr>pn_stops := pn_stops N @ [Closing_Transports (x # xs)]\<rparr>)
      (?M\<lparr>pn_stops := pn_stops N @ [Closing_Transports xs]\<rparr>)" by (simp add: x)
  with Cons.IH [of ?M] show ?case by (simp add: x converse_rtranclp_into_rtranclp)
qed simp

lemma fold_sel:
  "pn_stops (fold (stop_task C rt) xs N) = pn_stops N"
  "pn_stops (fold (\<lambda>(sid, i). close_at C rt r i) xs N) = pn_stops N"
  by (induction xs arbitrary: N) auto

lemma stop_steps: "provider_steps E N (stop_node (re_crypto E) (re_rt E) N)"
proof -
  let ?C = "re_crypto E" and ?rt = "re_rt E" and ?ss = "pn_stops N"
  let ?H = "N\<lparr>pn_health_task := False\<rparr>"
  let ?N1 = "fold (stop_task ?C ?rt) (pn_session_tasks N) ?H"
  let ?A = "?N1\<lparr>pn_active := []\<rparr>"
  let ?N2 = "fold (\<lambda>(sid, i). close_at ?C ?rt ''provider_shutdown'' i) (pn_active ?N1) ?A"
  have 1: "provider_step E N (?H\<lparr>pn_stops := ?ss @ [Await_Health]\<rparr>)"
    using provider_step.Stop [of E N] by simp
  have 2: "provider_step E (?H\<lparr>pn_stops := ?ss @ [Await_Health]\<rparr>) (?H\<lparr>pn_stops := ?ss @ [Await_Tasks (pn_session_tasks N)]\<rparr>)"
    using stop_step [of E ?H Await_Health] by simp
  have 3: "provider_steps E (?H\<lparr>pn_stops := ?ss @ [Await_Tasks (pn_session_tasks N)]\<rparr>) (?N1\<lparr>pn_stops := ?ss @ [Await_Tasks []]\<rparr>)"
    using stop_tasks_steps [of E ?H] by simp
  have 4: "provider_step E (?N1\<lparr>pn_stops := ?ss @ [Await_Tasks []]\<rparr>) (?A\<lparr>pn_stops := ?ss @ [Closing_Transports (pn_active ?N1)]\<rparr>)"
    using stop_step [of E ?N1 "Await_Tasks []"] by (simp add: fold_sel)
  have 5: "provider_steps E (?A\<lparr>pn_stops := ?ss @ [Closing_Transports (pn_active ?N1)]\<rparr>)
      (?N2\<lparr>pn_stops := ?ss @ [Closing_Transports []]\<rparr>)"
    using stop_closes_steps [of E ?A] by (simp add: fold_sel)
  have 6: "provider_step E (?N2\<lparr>pn_stops := ?ss @ [Closing_Transports []]\<rparr>) (?N2\<lparr>pn_adapter := adapter_stop (pn_adapter ?N2)\<rparr>)"
    using stop_step [of E ?N2 "Closing_Transports []"] by (simp add: fold_sel)
  have "stop_node ?C ?rt N = ?N2\<lparr>pn_adapter := adapter_stop (pn_adapter ?N2)\<rparr>" by (simp add: stop_node_def Let_def)
  with 1 2 3 4 5 6 show ?thesis
    by (metis (no_types, lifting) converse_rtranclp_into_rtranclp rtranclp.rtrancl_into_rtrancl rtranclp_trans)
qed

section \<open>Overlapping negotiations and a stop\<close>

lemma stop_one:
  assumes "pn_active M = [(sid, j)]" and "pn_session_tasks M = [(sid, j)]" and "(sid, j) \<in> set (pn_serving M)"
  shows "pn_active (stop_node C rt M) = []" "pn_serving (stop_node C rt M) = removeAll (sid, j) (pn_serving M)"
    "i \<noteq> j \<Longrightarrow> pn_transports (stop_node C rt M) ! i = pn_transports M ! i"
  using assms
  by (simp_all add: stop_node_def stop_task_def cancel_session_def end_session_def close_at_def dict_del_def Let_def)

text \<open>
  The check for a session that is already active comes before the connection, its registration after: two offers of
  one session that overlap are both accepted, the second transport replaces the first, and the first goes on being served: it
  is neither listed nor closed by \<open>stop\<close>.
\<close>

lemma overlapping_offers_lose_session:
  assumes "pn_connecting N = [(sid, url, nid, key), (sid, url', nid', key')]"
    and "open_relay E1 url sid nid key False = (Some (Inr ()), Some t1)"
    and "open_relay E2 url' sid nid' key' False = (Some (Inr ()), Some t2)"
    and "same_node E E1" and "same_node E E2" and "pn_active N = []" and "pn_session_tasks N = []"
  shows "\<exists>N'. provider_steps E N (stop_node (re_crypto E) (re_rt E) N')
    \<and> provider_steps E N N' \<and> pn_active N' = [(sid, Suc (length (pn_transports N)))]
    \<and> (let S = stop_node (re_crypto E) (re_rt E) N'; i = length (pn_transports N)
       in pn_active S = [] \<and> (sid, i) \<in> set (pn_serving S) \<and> pn_transports S ! i = t1)"
proof -
  obtain w1 w2 where w: "re_ws_connect E1 (websocket_url url) = Inr w1" "re_ws_connect E2 (websocket_url url') = Inr w2"
    using open_relay_connects [OF assms(2)] open_relay_connects [OF assms(3)] by blast
  let ?A = "accept_session sid t1 (w1, re_wall1 E1) (N\<lparr>pn_connecting := [(sid, url', nid', key')]\<rparr>)"
  let ?B = "accept_session sid t2 (w2, re_wall1 E2) (?A\<lparr>pn_connecting := []\<rparr>)"
  have a: "provider_step E N ?A"
    using provider_step.Connected [of N "[]" sid url nid key "[(sid, url', nid', key')]" E E1 w1 "()" t1] assms w by simp
  have b: "provider_step E ?A ?B"
    using provider_step.Connected [of ?A "[]" sid url' nid' key' "[]" E E2 w2 "()" t2] assms w
    by (simp add: accept_session_def Let_def)
  have "provider_steps E N ?B" using a b by simp
  then obtain B where B: "B = ?B" "provider_steps E N B" by blast
  have v: "pn_active B = [(sid, Suc (length (pn_transports N)))]"
    "pn_session_tasks B = [(sid, Suc (length (pn_transports N)))]"
    "(sid, length (pn_transports N)) \<in> set (pn_serving B)" "pn_transports B ! length (pn_transports N) = t1"
    "(sid, Suc (length (pn_transports N))) \<in> set (pn_serving B)"
    unfolding B(1) using assms(6,7) by (simp_all add: accept_session_def Let_def nth_append)
  have "provider_steps E N (stop_node (re_crypto E) (re_rt E) B)"
    using B(2) stop_steps [of E B] by (meson rtranclp_trans)
  with B(2) v stop_one [OF v(1,2,5)] show ?thesis
    by (intro exI [of _ B]) (simp add: Let_def)
qed

text \<open>\<open>stop\<close> does not know the handlers that wait for a connection: one that is established later is served by a stopped handler.\<close>

lemma session_after_stop:
  assumes "pn_connecting N = [(sid, url, nid, key)]" and "same_node E E1"
    and "open_relay E1 url sid nid key False = (Some (Inr ()), Some t)"
  shows "\<exists>N'. provider_steps E N (stop_node (re_crypto E) (re_rt E) N)
    \<and> provider_step E (stop_node (re_crypto E) (re_rt E) N) N' \<and> pn_active N' = [(sid, length (pn_transports N))] \<and> \<not> pn_health_task N' \<and> pn_adapter N' = adapter_stop (pn_adapter N)"
proof -
  let ?S = "stop_node (re_crypto E) (re_rt E) N"
  obtain w where w: "re_ws_connect E1 (websocket_url url) = Inr w" using open_relay_connects [OF assms(3)] by blast
  have k: "pn_adapter (fold (stop_task C rt) tasks M) = pn_adapter M
      \<and> pn_health_task (fold (stop_task C rt) tasks M) = pn_health_task M
      \<and> pn_connecting (fold (stop_task C rt) tasks M) = pn_connecting M
      \<and> length (pn_transports (fold (stop_task C rt) tasks M)) = length (pn_transports M)" for C rt tasks M
    by (induction tasks arbitrary: M) (auto simp: stop_task_def cancel_session_def)
  have c: "pn_adapter (fold (\<lambda>(s, i). close_at C rt r i) d M) = pn_adapter M
      \<and> pn_health_task (fold (\<lambda>(s, i). close_at C rt r i) d M) = pn_health_task M
      \<and> pn_connecting (fold (\<lambda>(s, i). close_at C rt r i) d M) = pn_connecting M
      \<and> pn_active (fold (\<lambda>(s, i). close_at C rt r i) d M) = pn_active M
      \<and> length (pn_transports (fold (\<lambda>(s, i). close_at C rt r i) d M)) = length (pn_transports M)"
    for C rt r M and d :: "(string \<times> nat) list"
  proof (induction d arbitrary: M)
    case (Cons x d)
    then show ?case by (cases x) simp
  qed simp
  have s: "pn_connecting ?S = [(sid, url, nid, key)]" "pn_active ?S = []" "\<not> pn_health_task ?S"
    "pn_adapter ?S = adapter_stop (pn_adapter N)" "length (pn_transports ?S) = length (pn_transports N)"
    using assms(1) by (simp_all add: stop_node_def k c Let_def)
  have "provider_step E ?S (accept_session sid t (w, re_wall1 E1) (?S\<lparr>pn_connecting := []\<rparr>))"
    using provider_step.Connected [of ?S "[]" sid url nid key "[]" E E1 w "()" t] assms(2,3) w s(1) by simp
  with s show ?thesis
    by (intro exI [of _ "accept_session sid t (w, re_wall1 E1) (?S\<lparr>pn_connecting := []\<rparr>)"]) (simp add: accept_session_def stop_steps Let_def)
qed

section \<open>Properties\<close>



definition demo_buyer :: handshake_manager where
  "demo_buyer = new_handshake ''b'' (replicate 32 2)"

definition demo_seller_env :: relay_env where
  "demo_seller_env = \<lparr>re_crypto = demo_crypto, re_rt = demo_rt,
     re_ws_connect = (\<lambda>url. Inr \<lparr>ws_inbox = [(1, init_text demo_crypto demo_rt demo_buyer [3] 5 ''sid'')],
       ws_sent = [], ws_up = True\<rparr>),
     re_ephemeral = [4], re_wall1 = 6, re_wall2 = 7, re_identity = Inr (''s'', [2])\<rparr>"

definition demo_event :: "(string \<times> json) list" where
  "demo_event = [(''action'', JStr session_negotiate_action), (''connection_mode'', JStr ''relay''),
     (''session_id'', JStr ''sid''), (''relay_url'', JStr ''r''), (''buyer_node_id'', JStr ''b''),
     (''buyer_ed25519_pubkey'', JStr (b64encode (replicate 32 2)))]"

lemma demo_open: "\<exists>t. open_relay demo_seller_env ''r'' ''sid'' ''b'' (replicate 32 2) False = (Some (Inr ()), Some t)"
proof -
  let ?z = "map2 (+) (take 32 ([3] @ replicate 32 0)) (x_public demo_crypto [4])"
  have z: "x_exchange demo_crypto [3] (x_public demo_crypto [4]) = Inr ?z" by (simp add: demo_crypto_def)
  let ?t = "(new_transport (new_handshake ''s'' [2]))\<lparr>tp_is_initiator := False,
    tp_ws := Some \<lparr>ws_inbox = [(1, init_text demo_crypto demo_rt demo_buyer [3] 5 ''sid'')], ws_sent = [], ws_up = True\<rparr>,
    tp_state := Handshaking\<rparr>"
  have k: "hs_node_id demo_buyer = ''b''" "ed_public demo_crypto (hs_ed_priv demo_buyer) = replicate 32 2"
    by (simp_all add: demo_buyer_def new_handshake_def demo_crypto_def)
  have "\<exists>t'. connect_responder demo_crypto demo_rt [4] 6 7 ?t ''sid'' ''b'' (replicate 32 2) = (Some (Inr ()), t')"
    using connect_responder_honest [OF demo_sig_ok demo_dh_ok z, of ?t 6 5 1 demo_rt demo_buyer "''sid''" 7]
    by (auto simp: k new_transport_def new_handshake_def max_clock_skew_ms_def)
  then show ?thesis
    by (auto simp: open_relay_def demo_seller_env_def build_handshake_manager_def connect_transport_def Let_def)
qed

lemma demo_checks:
  "ad_healthy a \<Longrightarrow> negotiate_checks demo_seller_env a {} demo_event = Inr (''sid'', ''r'', ''b'', replicate 32 2)"
  by (simp add: negotiate_checks_def negotiate_source_def demo_event_def relay_offer_def nonempty_str_def jget_def
      jget_or_def build_handshake_manager_def demo_seller_env_def ed_public_key_b64_def Let_def)


lemma demo_run:
  "\<exists>N i. provider_steps demo_seller_env (started_node (new_trust_channel 1 2 0) (new_adapter cfg)) N
     \<and> pn_active N = [(''sid'', i)]"
proof -
  let ?E = demo_seller_env and ?N = "started_node (new_trust_channel 1 2 0) (new_adapter cfg)"
  obtain ch where ch: "dispatch_message (re_rt ?E) (JObj demo_event) (pn_channel ?N) = (Inr (), ch)"
      "tc_tasks ch = [(provider_callback, JObj demo_event)]"
    by (auto simp: dispatch_message_def Let_def demo_event_def message_key_def jget_or_def started_node_def
        new_trust_channel_def register_handler_def session_negotiate_action_def split: prod.splits)
  let ?M = "?N\<lparr>pn_channel := ch, pn_heard := JObj demo_event # pn_heard ?N\<rparr>"
  have 1: "provider_step ?E ?N ?M" using provider_step.Hear [OF ch(1)] by simp
  have v: "ad_healthy (pn_adapter ?M)" "pn_active ?M = []"
    by (simp_all add: started_node_def new_adapter_def adapter_start_def)
  obtain t where t: "open_relay ?E ''r'' ''sid'' ''b'' (replicate 32 2) False = (Some (Inr ()), Some t)"
    using demo_open by blast
  let ?p = "(handler_view ?M)\<lparr>ph_active_sessions := dict_set ''sid'' t (ph_active_sessions (handler_view ?M)),
      ph_session_tasks := dict_set ''sid'' () (ph_session_tasks (handler_view ?M))\<rparr>"
  have "on_session_negotiate ?E (handler_view ?M) demo_event = (Some (Inr ()), ?p)"
    unfolding on_session_negotiate_split using v t by (simp add: demo_checks)
  from negotiation_steps [OF _ _ this, of "[]"] ch(2) v(2) obtain N where
    N: "provider_steps ?E ?M N" "handler_view N = ?p" by auto
  have "map fst (pn_active N) = [''sid'']"
    using dict_keys_view [of N] v(2) unfolding N(2) by (simp add: handler_view_def)
  then obtain i where "pn_active N = [(''sid'', i)]" by (cases "pn_active N") auto
  with 1 N(1) show ?thesis by (meson converse_rtranclp_into_rtranclp)
qed


end
