(* ===== verification/OfflineQueue.thy ===== *)
theory OfflineQueue
  imports JsonCodec
begin

text \<open>
  \<open>aim_node/core/offline_queue.py\<close>: the JSONL file of metering entries that could not be sent. The
  state is the text of the file, or \<open>None\<close> when it does not exist; failures of the file system are
  left out. The queue contract of the prelude is discharged for it, and \<open>flush\<close> is shown to remove
  exactly the entries the server took.
\<close>

section \<open>The file\<close>

type_synonym queue_file = "string option"

definition max_queue_entries :: nat where
  "max_queue_entries = 50"

definition nl :: char where "nl = CHR 0x0A"
definition cr :: char where "cr = CHR 0x0D"

text \<open>Text mode reads every line ending as a newline; iterating a file gives its lines.\<close>

fun universal_newlines :: "string \<Rightarrow> string" where
  "universal_newlines [] = []"
| "universal_newlines [c] = (if c = cr then [nl] else [c])"
| "universal_newlines (c # d # s) =
     (if c = cr then nl # (if d = nl then universal_newlines s else universal_newlines (d # s))
      else c # universal_newlines (d # s))"

definition file_lines :: "string \<Rightarrow> string list" where
  "file_lines content =
     (let ls = split_char nl (universal_newlines content)
      in if last ls = [] then butlast ls else ls)"

definition nonblank_lines :: "queue_file \<Rightarrow> string list" where
  "nonblank_lines f = (case f of
     None \<Rightarrow> []
   | Some content \<Rightarrow> filter (\<lambda>l. l \<noteq> []) (map strip (file_lines content)))"

section \<open>Operations\<close>

definition q_count :: "queue_file \<Rightarrow> nat" where
  "q_count f = length (nonblank_lines f)"

definition q_append :: "pyrt \<Rightarrow> json \<Rightarrow> queue_file \<Rightarrow> bool \<times> queue_file" where
  "q_append rt entry f =
    (if q_count f \<ge> max_queue_entries then (False, f)
     else (True, Some ((case f of None \<Rightarrow> [] | Some c \<Rightarrow> c) @ dumps rt '', '' '': '' entry @ [nl])))"

text \<open>A line that is not JSON is skipped.\<close>

definition q_read_all :: "pyrt \<Rightarrow> queue_file \<Rightarrow> json list" where
  "q_read_all rt f =
     concat (map (\<lambda>l. case loads rt l of Inr v \<Rightarrow> [v] | Inl _ \<Rightarrow> []) (nonblank_lines f))"

definition q_clear :: "queue_file \<Rightarrow> queue_file" where
  "q_clear f = None"

definition q_dequeue_all :: "pyrt \<Rightarrow> queue_file \<Rightarrow> json list \<times> queue_file" where
  "q_dequeue_all rt f = (q_read_all rt f, q_clear f)"

section \<open>flush\<close>

text \<open>
  One metering call of an entry. \<open>Decimal()\<close> and the server are arguments: the conversion of the
  amount, and the status the server gives to the call with the given number.
\<close>

record 'd meter_call =
  mc_category :: json
  mc_cost_usd :: 'd
  mc_request_id :: json
  mc_description :: json

definition meter_call_of :: "(json \<Rightarrow> 'd res) \<Rightarrow> json \<Rightarrow> 'd meter_call res" where
  "meter_call_of decimal entry =
     rbind (expect_obj AttributeError entry) (\<lambda>m.
     rbind (decimal (jget_or m ''cost_usd'' (JStr ''0.00''))) (\<lambda>cost.
     rbind (jitem m ''request_id'') (\<lambda>rid.
       Inr \<lparr>mc_category = jget_or m ''category'' (JStr ''setup''), mc_cost_usd = cost,
            mc_request_id = rid, mc_description = jget_or m ''description'' (JStr ''offline-queued'')\<rparr>)))"

text \<open>The loop over the entries: how many were taken, up to the first refusal or exception.\<close>

fun flush_loop :: "(json \<Rightarrow> 'd res) \<Rightarrow> (nat \<Rightarrow> 'd meter_call \<Rightarrow> int res) \<Rightarrow> nat \<Rightarrow> json list \<Rightarrow> nat res" where
  "flush_loop decimal meter sent [] = Inr sent"
| "flush_loop decimal meter sent (entry # entries) =
     (case rbind (meter_call_of decimal entry) (meter sent) of
        Inl e \<Rightarrow> Inl e
      | Inr status \<Rightarrow> if status = 200 \<or> status = 409 then flush_loop decimal meter (sent + 1) entries
                      else Inr sent)"

definition append_all :: "pyrt \<Rightarrow> json list \<Rightarrow> queue_file \<Rightarrow> queue_file" where
  "append_all rt entries f = foldl (\<lambda>g entry. snd (q_append rt entry g)) f entries"

text \<open>The end of \<open>flush\<close>, on the file as it is by then: the entries that were not sent are written again.\<close>

definition flush_end :: "pyrt \<Rightarrow> json list \<Rightarrow> nat \<Rightarrow> queue_file \<Rightarrow> queue_file" where
  "flush_end rt entries sent f =
    (if sent = length entries then q_clear f else append_all rt (drop sent entries) (q_clear f))"

text \<open>The file is read before the first request and written after the last; here nothing writes it in between.\<close>

definition q_flush ::
    "pyrt \<Rightarrow> (json \<Rightarrow> 'd res) \<Rightarrow> (nat \<Rightarrow> 'd meter_call \<Rightarrow> int res) \<Rightarrow> queue_file \<Rightarrow> nat res \<times> queue_file" where
  "q_flush rt decimal meter f =
    (let entries = q_read_all rt f
     in if entries = [] then (Inr 0, f)
        else case flush_loop decimal meter 0 entries of
          Inl e \<Rightarrow> (Inl e, f)
        | Inr sent \<Rightarrow> (Inr sent, flush_end rt entries sent f))"

section \<open>Files the queue writes\<close>

text \<open>A well-formed file is a concatenation of lines, each the JSON text of an entry without floats.\<close>

definition entry_line :: "pyrt \<Rightarrow> json \<Rightarrow> string" where
  "entry_line rt e = dumps rt '', '' '': '' e"

definition entry_ok :: "json \<Rightarrow> bool" where
  "entry_ok e \<longleftrightarrow> jwf e \<and> is_obj e"

definition file_of :: "pyrt \<Rightarrow> json list \<Rightarrow> string" where
  "file_of rt es = concat (map (\<lambda>e. entry_line rt e @ [nl]) es)"

definition q_repr :: "pyrt \<Rightarrow> queue_file \<Rightarrow> json list \<Rightarrow> bool" where
  "q_repr rt f es \<longleftrightarrow> list_all entry_ok es \<and> (f = Some (file_of rt es) \<or> f = None \<and> es = [])"

text \<open>The text of a JSON value has no line break, and begins and ends with a visible character.\<close>

definition visible :: "char \<Rightarrow> bool" where
  "visible c \<longleftrightarrow> 32 \<le> code c"

lemma esc_char_visible: "list_all visible (esc_char c)"
proof -
  have "visible (hex_char n)" if "n < 16" for n
    using that by (auto simp: visible_def hex_char_def)
  moreover have "code c div 16 < 16" using code_lt_256 [of c] by (simp add: div_less_iff_less_mult)
  ultimately show ?thesis
    by (auto simp: esc_char_def Let_def visible_def)
qed

lemma dumps_str_visible: "list_all visible (dumps_str s)"
  using esc_char_visible by (auto simp: dumps_str_def list_all_iff visible_def)

lemma str_of_int_visible: "list_all visible (str_of_int i)"
  using str_of_nat_digits [of "nat i"] str_of_nat_digits [of "nat (- i)"]
  by (fastforce simp: str_of_int_def list_all_iff visible_def is_digit_def)

lemma dumps_visible:
  "jwf v \<Longrightarrow> list_all visible (dumps rt '', '' '': '' v)"
  "list_all jwf xs \<Longrightarrow> list_all visible (dumps_items rt '', '' '': '' xs)"
  "list_all (\<lambda>kv. jwf (snd kv)) m \<Longrightarrow> list_all visible (dumps_members rt '', '' '': '' m)"
proof (induction rt "'', ''" "'': ''" v and rt "'', ''" "'': ''" xs and rt "'', ''" "'': ''" m
    rule: dumps_dumps_items_dumps_members.induct)
qed (auto simp: dumps_str_visible str_of_int_visible, auto simp: visible_def)

lemma universal_newlines_plain: "nl \<notin> set s \<Longrightarrow> cr \<notin> set s \<Longrightarrow> universal_newlines (s @ nl # t) = s @ nl # universal_newlines t"
proof (induction s)
  case Nil
  then show ?case by (cases t) (auto simp: nl_def cr_def)
next
  case (Cons c s)
  then show ?case by (cases s) auto
qed

lemma split_nl: "nl \<notin> set s \<Longrightarrow> split_char nl (s @ nl # t) = s # split_char nl t"
  by (induction s) auto

lemma visible_no_breaks: "list_all visible s \<Longrightarrow> nl \<notin> set s \<and> cr \<notin> set s"
  by (auto simp: list_all_iff visible_def nl_def cr_def)

lemma lines_of_file:
  assumes "list_all (list_all visible) ls"
  shows "split_char nl (universal_newlines (concat (map (\<lambda>l. l @ [nl]) ls))) = ls @ [[]]"
  using assms
proof (induction ls)
  case (Cons l ls)
  have "nl \<notin> set l" "cr \<notin> set l" using Cons.prems visible_no_breaks by auto
  then have "universal_newlines (concat (map (\<lambda>l. l @ [nl]) (l # ls)))
      = l @ nl # universal_newlines (concat (map (\<lambda>l. l @ [nl]) ls))"
    by (simp add: universal_newlines_plain)
  with Cons \<open>nl \<notin> set l\<close> show ?case by (simp add: split_nl)
qed simp

lemma strip_ends:
  assumes "s \<noteq> []" and "\<not> is_space (hd s)" and "\<not> is_space (last s)"
  shows "strip s = s"
proof -
  have "lstrip s = s" using assms(1,2) by (cases s) (auto simp: lstrip_def)
  moreover have "dropWhile is_space (rev s) = rev s"
    using assms(1,3) by (cases s rule: rev_cases) auto
  ultimately show ?thesis by (simp add: strip_def rstrip_def)
qed

lemma entry_line_strip:
  assumes "is_obj e" shows "strip (entry_line rt e) = entry_line rt e" "entry_line rt e \<noteq> []"
proof -
  from assms obtain m where "e = JObj m" by (cases e) auto
  then show "strip (entry_line rt e) = entry_line rt e" "entry_line rt e \<noteq> []"
    by (auto simp: entry_line_def is_space_def intro!: strip_ends)
qed

lemma nonblank_repr:
  assumes "q_repr rt f es"
  shows "nonblank_lines f = map (entry_line rt) es"
proof (cases f)
  case None
  with assms show ?thesis by (simp add: q_repr_def nonblank_lines_def)
next
  case (Some c)
  with assms have es: "list_all entry_ok es" and c: "c = file_of rt es" by (auto simp: q_repr_def)
  have v: "list_all (list_all visible) (map (entry_line rt) es)"
    using es dumps_visible(1) by (auto simp: list_all_iff entry_ok_def entry_line_def)
  have "file_of rt es = concat (map (\<lambda>l. l @ [nl]) (map (entry_line rt) es))"
    by (simp add: file_of_def comp_def)
  with lines_of_file [OF v] c have "file_lines c = map (entry_line rt) es"
    by (simp add: file_lines_def Let_def)
  moreover have "filter (\<lambda>l. l \<noteq> []) (map strip (map (entry_line rt) es)) = map (entry_line rt) es"
    using es entry_line_strip by (induction es) (auto simp: entry_ok_def)
  ultimately show ?thesis using Some by (simp add: nonblank_lines_def)
qed

lemma read_all_repr: "q_repr rt f es \<Longrightarrow> q_read_all rt f = es"
proof -
  assume r: "q_repr rt f es"
  then have es: "list_all entry_ok es" by (simp add: q_repr_def)
  have "concat (map (\<lambda>l. case loads rt l of Inr v \<Rightarrow> [v] | Inl _ \<Rightarrow> []) (map (entry_line rt) es)) = es"
    using es by (induction es) (auto simp: entry_ok_def entry_line_def json_spaced.dec_enc)
  with nonblank_repr [OF r] show ?thesis by (simp add: q_read_all_def)
qed

lemma count_repr: "q_repr rt f es \<Longrightarrow> q_count f = length es"
  by (simp add: q_count_def nonblank_repr)

lemma append_repr:
  assumes "q_repr rt f es" and "entry_ok e"
  shows "q_append rt e f = (length es < 50, if length es < 50 then Some (file_of rt (es @ [e])) else f)"
    and "q_repr rt (snd (q_append rt e f)) (if length es < 50 then es @ [e] else es)"
proof -
  show eq: "q_append rt e f = (length es < 50, if length es < 50 then Some (file_of rt (es @ [e])) else f)"
    using assms(1) count_repr [OF assms(1)]
    by (auto simp: q_append_def max_queue_entries_def q_repr_def file_of_def entry_line_def)
  show "q_repr rt (snd (q_append rt e f)) (if length es < 50 then es @ [e] else es)"
    unfolding eq using assms by (auto simp: q_repr_def)
qed

interpretation offline: bounded_fifo "q_read_all rt" "\<lambda>e f. snd (q_append rt e f)" "\<lambda>f. \<exists>es. q_repr rt f es" entry_ok 50
  for rt
proof
  fix f e
  assume "\<exists>es. q_repr rt f es" and e: "entry_ok e"
  then obtain es where r: "q_repr rt f es" by blast
  note ap = append_repr(2) [OF r e]
  show "q_read_all rt (snd (q_append rt e f))
      = (if length (q_read_all rt f) < 50 then q_read_all rt f @ [e] else q_read_all rt f)"
    using read_all_repr [OF r] read_all_repr [OF ap] by simp
  show "\<exists>es. q_repr rt (snd (q_append rt e f)) es" using ap by blast
qed

section \<open>flush\<close>

lemma flush_loop_taken:
  "flush_loop decimal meter k es = Inr n \<Longrightarrow> k \<le> n \<and> n \<le> k + length es
     \<and> (\<forall>i < n - k. \<exists>c. meter_call_of decimal (es ! i) = Inr c \<and> meter (k + i) c \<in> {Inr 200, Inr 409})
     \<and> (n < k + length es \<longrightarrow> (\<exists>c st. meter_call_of decimal (es ! (n - k)) = Inr c \<and> meter n c = Inr st
           \<and> st \<noteq> 200 \<and> st \<noteq> 409))"
proof (induction es arbitrary: k)
  case Nil
  then show ?case by simp
next
  case (Cons e es)
  from Cons.prems obtain st where st: "rbind (meter_call_of decimal e) (meter k) = Inr st"
    by (auto split: sum.splits)
  then obtain c where c: "meter_call_of decimal e = Inr c" "meter k c = Inr st"
    by (auto simp: rbind_Inr_iff)
  show ?case
  proof (cases "st = 200 \<or> st = 409")
    case False
    with Cons.prems st c show ?thesis by auto
  next
    case True
    with Cons.prems st have "flush_loop decimal meter (k + 1) es = Inr n" by auto
    from Cons.IH [OF this] have ih: "k + 1 \<le> n" "n \<le> k + 1 + length es"
      "\<forall>i < n - (k + 1). \<exists>c. meter_call_of decimal (es ! i) = Inr c \<and> meter (k + 1 + i) c \<in> {Inr 200, Inr 409}"
      "n < k + 1 + length es \<longrightarrow> (\<exists>c st. meter_call_of decimal (es ! (n - (k + 1))) = Inr c \<and> meter n c = Inr st
           \<and> st \<noteq> 200 \<and> st \<noteq> 409)" by blast+
    have "\<exists>c. meter_call_of decimal ((e # es) ! i) = Inr c \<and> meter (k + i) c \<in> {Inr 200, Inr 409}" if "i < n - k" for i
    proof (cases i)
      case 0
      with c True show ?thesis by auto
    next
      case (Suc j)
      with that ih(3) show ?thesis by auto
    qed
    moreover have "(e # es) ! (n - k) = es ! (n - (k + 1))" using ih(1) by (simp add: nth_Cons')
    ultimately show ?thesis using ih by auto
  qed
qed

lemma repr_good: "q_repr rt f es \<Longrightarrow> \<exists>es. q_repr rt f es" by blast

lemma append_all_clear:
  assumes "list_all entry_ok es" and "length es \<le> 50"
  shows "q_read_all rt (append_all rt es (q_clear f)) = es"
proof -
  have r: "q_repr rt (q_clear f) []" by (simp add: q_repr_def q_clear_def)
  have "q_read_all rt (foldl (\<lambda>g e. snd (q_append rt e g)) (q_clear f) es) = q_read_all rt (q_clear f) @ es"
    using offline.puts_fit [OF repr_good [OF r] assms(1)] assms(2) read_all_repr [OF r] by simp
  with read_all_repr [OF r] show ?thesis by (simp add: append_all_def)
qed

section \<open>Properties\<close>

text \<open>C19: the file is a first-in first-out queue of at most 50 entries: appending entries one after the
  other to a queue file keeps what is there and adds, in order, as many as fit; the rest is refused,
  and everything is read back exactly as it was appended.\<close>

theorem offline_queue_fifo:
  assumes "q_repr rt f es" and "length es \<le> 50" and "list_all entry_ok new"
  shows "q_read_all rt (append_all rt new f) = es @ take (50 - length es) new
    \<and> q_count (append_all rt new f) \<le> 50
    \<and> (length es = 50 \<longrightarrow> (\<forall>e. q_append rt e f = (False, f)))"
proof -
  have g: "\<exists>es. q_repr rt f es" using assms(1) by blast
  have "q_read_all rt (append_all rt new f) = es @ take (50 - length es) new"
    using offline.puts_contents [OF g assms(3)] read_all_repr [OF assms(1)] by (simp add: append_all_def)
  moreover obtain es' where "q_repr rt (append_all rt new f) es'"
    using offline.puts_good [OF g assms(3)] by (auto simp: append_all_def)
  ultimately show ?thesis
    using read_all_repr count_repr count_repr [OF assms(1)] assms(2)
    by (auto simp: q_append_def max_queue_entries_def)
qed

theorem offline_queue_fifo_witness:
  "q_read_all demo_rt (append_all demo_rt [JObj [(''request_id'', JStr ''r1'')], JObj []] None)
     = [JObj [(''request_id'', JStr ''r1'')], JObj []]"
  using offline_queue_fifo [of demo_rt None "[]" "[JObj [(''request_id'', JStr ''r1'')], JObj []]"]
  by (simp add: q_repr_def entry_ok_def)

text \<open>C40: when nothing is appended while it runs, a flush of a file that the queue wrote and that returns \<open>n\<close> has had
  exactly the first \<open>n\<close> entries taken by the server (status 200, or 409 for one it already had), the next one
  refused, and the queue then holds exactly the entries that were not taken, in their order. If a request or
  an entry raises, the file is as before, although the server has taken the entries before that one.\<close>

theorem flush_keeps_unsent:
  assumes "q_repr rt f es" and "length es \<le> 50" and "q_flush rt decimal meter f = (r, f')"
  shows "case r of
     Inr n \<Rightarrow> n \<le> length es \<and> q_read_all rt f' = drop n es
       \<and> (\<forall>i < n. \<exists>c. meter_call_of decimal (es ! i) = Inr c \<and> meter i c \<in> {Inr 200, Inr 409})
       \<and> (n < length es \<longrightarrow> (\<exists>c status. meter_call_of decimal (es ! n) = Inr c \<and> meter n c = Inr status
             \<and> status \<noteq> 200 \<and> status \<noteq> 409))
   | Inl e \<Rightarrow> f' = f"
proof (cases "es = [] \<or> (\<exists>e. r = Inl e)")
  case True
  with assms read_all_repr [OF assms(1)] show ?thesis
    by (auto simp: q_flush_def Let_def split: sum.splits if_splits)
next
  case False
  then obtain n where r: "r = Inr n" by (cases r) auto
  with False assms(3) read_all_repr [OF assms(1)] have loop: "flush_loop decimal meter 0 es = Inr n"
    and f': "f' = (if n = length es then q_clear f else append_all rt (drop n es) (q_clear f))"
    by (auto simp: q_flush_def flush_end_def Let_def split: sum.splits if_splits)
  have ok: "list_all entry_ok (drop n es)"
    using assms(1) by (auto simp: q_repr_def list_all_iff dest: in_set_dropD)
  have "q_read_all rt f' = drop n es"
    using append_all_clear [OF ok, of rt f] assms(2) f'
    by (auto simp: q_read_all_def nonblank_lines_def q_clear_def)
  with flush_loop_taken [OF loop] r show ?thesis by auto
qed

theorem flush_keeps_unsent_witness:
  "fst (q_flush demo_rt (\<lambda>_. Inr ()) (\<lambda>i c. Inr (if i = 0 then 200 else 503))
      (Some (file_of demo_rt [JObj [(''request_id'', JStr ''a'')], JObj [(''request_id'', JStr ''b'')]]))) = Inr 1
   \<and> q_read_all demo_rt (snd (q_flush demo_rt (\<lambda>_. Inr ()) (\<lambda>i c. Inr (if i = 0 then 200 else 503))
      (Some (file_of demo_rt [JObj [(''request_id'', JStr ''a'')], JObj [(''request_id'', JStr ''b'')]]))))
     = [JObj [(''request_id'', JStr ''b'')]]"
proof -
  let ?es = "[JObj [(''request_id'', JStr ''a'')], JObj [(''request_id'', JStr ''b'')]]"
  let ?f = "Some (file_of demo_rt ?es)" and ?m = "\<lambda>i c. Inr (if i = (0::nat) then 200 else 503)"
  have r: "q_repr demo_rt ?f ?es" by (simp add: q_repr_def entry_ok_def)
  obtain x f' where fl: "q_flush demo_rt (\<lambda>_. Inr ()) ?m ?f = (x, f')" by fastforce
  then have "x = Inr 1"
    using read_all_repr [OF r] by (auto simp: q_flush_def Let_def meter_call_of_def jitem_def)
  with flush_keeps_unsent [OF r _ fl] fl show ?thesis by simp
qed

text \<open>An entry that is appended while a request of the flush is under way is deleted with the file, unsent.\<close>

lemma flush_deletes_what_was_appended:
  assumes "q_flush rt decimal meter f = (Inr n, f')" and "q_append rt e f = (True, f1)" and "q_read_all rt f \<noteq> []"
  shows "flush_end rt (q_read_all rt f) n f1 = f'"
  using assms by (auto simp: q_flush_def flush_end_def q_clear_def Let_def split: sum.splits)

end
