(* ===== verification/MarketAccess.thy ===== *)
theory MarketAccess
  imports JsonCodec
begin

text \<open>
  Access to the market's HTTP API: \<open>aim_node/core/auth.py\<close> (tokens and their refresh),
  \<open>aim_node/core/market_client.py\<close> and \<open>connectivity_token.py\<close> (requests and their errors),
  \<open>aim_node/management/errors.py\<close> and \<open>facade.py\<close> (normalized errors, one retry after a refresh,
  the response cache). The HTTP client is an argument: the answer of the n-th request.
\<close>

section \<open>HTTP answers\<close>

datatype http_answer = Transport_Error string | Answer int string "json res"

definition is_error_status :: "int \<Rightarrow> bool" where
  "is_error_status st \<longleftrightarrow> 400 \<le> st \<and> st \<le> 599"

datatype market_exn =
    Auth_Error string
  | Market_Error string
  | Market_HTTP_Error int string
  | Connectivity_Error string
  | Plain exn

section \<open>AuthService\<close>

text \<open>Tokens come from JSON; \<open>JNull\<close> is \<open>None\<close>. Times are seconds.\<close>

record auth_service =
  au_api_key :: "string option"
  au_access_token :: json
  au_refresh_token :: json
  au_expires_at :: "rat option"

definition api_key_set :: "auth_service \<Rightarrow> bool" where
  "api_key_set a \<longleftrightarrow> (case au_api_key a of None \<Rightarrow> False | Some k \<Rightarrow> k \<noteq> [])"

definition api_key_json :: "auth_service \<Rightarrow> json" where
  "api_key_json a = (case au_api_key a of None \<Rightarrow> JNull | Some k \<Rightarrow> JStr k)"

text \<open>
  \<open>_store_tokens\<close>. The ISO timestamp parser of the standard library and \<open>int()\<close> are the arguments
  \<open>parse\<close> and \<open>to_int\<close>; what is then written to the cache file is \<open>persist_tokens\<close> below.
\<close>

definition store_tokens ::
    "(json \<Rightarrow> rat res) \<Rightarrow> (json \<Rightarrow> int res) \<Rightarrow> rat \<Rightarrow> (string \<times> json) list \<Rightarrow> auth_service \<Rightarrow> unit res \<times> auth_service" where
  "store_tokens parse to_int now pl a =
    (let acc = jget pl ''access_token''; ref = jget pl ''refresh_token'';
         a1 = a\<lparr>au_access_token := if truthy acc then acc else au_access_token a,
                au_refresh_token := if truthy ref then ref else au_refresh_token a\<rparr>;
         expires_at = jget pl ''expires_at''; expires_in = jget pl ''expires_in''
     in if truthy expires_at then
          (case parse expires_at of
             Inl e \<Rightarrow> (Inl e, a1)
           | Inr t \<Rightarrow> (Inr (), a1\<lparr>au_expires_at := Some t\<rparr>))
        else if expires_in \<noteq> JNull then
          (case to_int expires_in of
             Inl e \<Rightarrow> (Inl e, a1)
           | Inr s \<Rightarrow> (Inr (), a1\<lparr>au_expires_at := Some (now + of_int s)\<rparr>))
        else (Inr (), a1))"

text \<open>\<open>_load_tokens\<close> from the parsed cache file.\<close>

definition load_tokens :: "(json \<Rightarrow> rat res) \<Rightarrow> json res option \<Rightarrow> auth_service \<Rightarrow> unit res \<times> auth_service" where
  "load_tokens parse file a = (case file of
     None \<Rightarrow> (Inr (), a)
   | Some (Inl e) \<Rightarrow> if e = OSError \<or> e = JSONDecodeError then (Inr (), a) else (Inl e, a)
   | Some (Inr v) \<Rightarrow>
     (case expect_obj AttributeError v of
        Inl e \<Rightarrow> (Inl e, a)
      | Inr m \<Rightarrow>
        let a1 = a\<lparr>au_access_token := jget m ''access_token'', au_refresh_token := jget m ''refresh_token''\<rparr>;
            ex = jget m ''expires_at''
        in if truthy ex then (case parse ex of
               Inl e \<Rightarrow> (Inl e, a1)
             | Inr t \<Rightarrow> (Inr (), a1\<lparr>au_expires_at := Some t\<rparr>))
           else (Inr (), a1\<lparr>au_expires_at := None\<rparr>)))"

text \<open>\<open>_persist_tokens\<close>: the text of the cache file, with \<open>isoformat\<close> as the argument \<open>iso_text\<close>; and a service before it loads the file.\<close>

definition tokens_json :: "(rat \<Rightarrow> string) \<Rightarrow> auth_service \<Rightarrow> json" where
  "tokens_json iso_text a = JObj [(''access_token'', au_access_token a), (''refresh_token'', au_refresh_token a),
     (''expires_at'', (case au_expires_at a of None \<Rightarrow> JNull | Some t \<Rightarrow> JStr (iso_text t)))]"

definition persist_tokens :: "pyrt \<Rightarrow> (rat \<Rightarrow> string) \<Rightarrow> auth_service \<Rightarrow> string" where
  "persist_tokens rt iso_text a = dumps rt '', '' '': '' (tokens_json iso_text a)"

definition new_auth_service :: "string option \<Rightarrow> auth_service" where
  "new_auth_service api_key = \<lparr>au_api_key = api_key, au_access_token = JNull, au_refresh_token = JNull, au_expires_at = None\<rparr>"

text \<open>A service that is started again goes on with the tokens and the expiry of the one before.\<close>

lemma tokens_survive_restart:
  assumes "\<And>t. parse (JStr (iso_text t)) = Inr t \<and> iso_text t \<noteq> []" and "jwf (au_access_token a)" and "jwf (au_refresh_token a)"
  shows "load_tokens parse (Some (loads rt (persist_tokens rt iso_text a))) (new_auth_service api_key) = (Inr (), a\<lparr>au_api_key := api_key\<rparr>)"
proof -
  have "jwf (tokens_json iso_text a)"
    using assms(2,3) by (cases "au_expires_at a") (simp_all add: tokens_json_def)
  then have "loads rt (persist_tokens rt iso_text a) = Inr (tokens_json iso_text a)"
    by (simp add: persist_tokens_def loads_dumps)
  then show ?thesis
    using assms(1) by (cases "au_expires_at a")
      (simp_all add: load_tokens_def tokens_json_def new_auth_service_def jget_def Let_def)
qed

text \<open>\<open>_request_json\<close>: \<open>raise_for_status\<close> raises for anything but a success (redirects included).\<close>

definition auth_request_json :: "http_answer \<Rightarrow> market_exn + (string \<times> json) list" where
  "auth_request_json ans = (case ans of
     Transport_Error m \<Rightarrow> Inl (Auth_Error (''authentication request failed: '' @ m))
   | Answer st body js \<Rightarrow>
       if \<not> (200 \<le> st \<and> st \<le> 299) then Inl (Auth_Error (''authentication request failed: '' @ body))
       else (case js of
          Inl e \<Rightarrow> Inl (Plain e)
        | Inr v \<Rightarrow> (case expect_obj TypeError v of
             Inl _ \<Rightarrow> Inl (Auth_Error ''authentication endpoint returned non-object payload'')
           | Inr m \<Rightarrow> Inr m)))"

definition or_json :: "json \<Rightarrow> json \<Rightarrow> json" where
  "or_json a b = (if truthy a then a else b)"

text \<open>The two token requests, with the answer of the authentication endpoint.\<close>

definition obtain_token ::
    "(json \<Rightarrow> rat res) \<Rightarrow> (json \<Rightarrow> int res) \<Rightarrow> rat \<Rightarrow> http_answer \<Rightarrow> (auth_service \<Rightarrow> json) \<Rightarrow> auth_service
      \<Rightarrow> (market_exn + json) \<times> auth_service" where
  "obtain_token parse to_int now ans result a = (case auth_request_json ans of
     Inl e \<Rightarrow> (Inl e, a)
   | Inr pl \<Rightarrow> (case store_tokens parse to_int now pl a of
        (Inl e, a1) \<Rightarrow> (Inl (Plain e), a1)
      | (Inr _, a1) \<Rightarrow> (Inr (result a1), a1)))"

definition authenticate ::
    "(json \<Rightarrow> rat res) \<Rightarrow> (json \<Rightarrow> int res) \<Rightarrow> rat \<Rightarrow> http_answer \<Rightarrow> auth_service \<Rightarrow> (market_exn + json) \<times> auth_service" where
  "authenticate parse to_int now ans a =
    (if \<not> api_key_set a then (Inl (Auth_Error ''api_key is required for authentication''), a)
     else obtain_token parse to_int now ans (\<lambda>a1. or_json (au_access_token a1) (api_key_json a1)) a)"

definition refresh ::
    "(json \<Rightarrow> rat res) \<Rightarrow> (json \<Rightarrow> int res) \<Rightarrow> rat \<Rightarrow> http_answer \<Rightarrow> auth_service \<Rightarrow> (market_exn + json) \<times> auth_service" where
  "refresh parse to_int now ans a =
    (if \<not> truthy (au_refresh_token a) then authenticate parse to_int now ans a
     else obtain_token parse to_int now ans
            (\<lambda>a1. or_json (or_json (au_access_token a1) (api_key_json a1)) (JStr [])) a)"

definition is_expired :: "rat \<Rightarrow> auth_service \<Rightarrow> bool" where
  "is_expired now a = (case au_expires_at a of None \<Rightarrow> False | Some t \<Rightarrow> now \<ge> t)"

definition get_access_token ::
    "(json \<Rightarrow> rat res) \<Rightarrow> (json \<Rightarrow> int res) \<Rightarrow> rat \<Rightarrow> http_answer \<Rightarrow> auth_service \<Rightarrow> (market_exn + json) \<times> auth_service" where
  "get_access_token parse to_int now ans a =
    (if truthy (au_access_token a) \<and> \<not> is_expired now a then (Inr (au_access_token a), a)
     else if truthy (au_refresh_token a) then refresh parse to_int now ans a
     else if api_key_set a then authenticate parse to_int now ans a
     else (Inl (Auth_Error ''no authentication credentials configured''), a))"

datatype auth_header = Bearer json | Api_Key string

definition get_auth_headers ::
    "(json \<Rightarrow> rat res) \<Rightarrow> (json \<Rightarrow> int res) \<Rightarrow> rat \<Rightarrow> http_answer \<Rightarrow> auth_service \<Rightarrow> (market_exn + auth_header) \<times> auth_service" where
  "get_auth_headers parse to_int now ans a =
    (if truthy (au_access_token a) \<or> truthy (au_refresh_token a) then
       (case get_access_token parse to_int now ans a of
          (Inl e, a1) \<Rightarrow> (Inl e, a1)
        | (Inr tok, a1) \<Rightarrow> (Inr (Bearer tok), a1))
     else (case au_api_key a of
        Some k \<Rightarrow> if k \<noteq> [] then (Inr (Api_Key k), a)
                  else (Inl (Auth_Error ''no authentication credentials configured''), a)
      | None \<Rightarrow> (Inl (Auth_Error ''no authentication credentials configured''), a)))"

section \<open>MarketClient\<close>

text \<open>\<open>_request\<close> after the headers: the client's answer, an empty body as an empty object.\<close>

definition market_answer :: "http_answer \<Rightarrow> market_exn + (string \<times> json) list" where
  "market_answer ans = (case ans of
     Transport_Error m \<Rightarrow> Inl (Market_Error (''request to ai.market failed: '' @ m))
   | Answer st body js \<Rightarrow>
       if is_error_status st then Inl (Market_HTTP_Error st body)
       else if body = [] then Inr []
       else (case js of
          Inl e \<Rightarrow> Inl (Plain e)
        | Inr v \<Rightarrow> (case expect_obj TypeError v of
             Inl _ \<Rightarrow> Inl (Market_Error ''ai.market returned non-object payload'')
           | Inr m \<Rightarrow> Inr m)))"

text \<open>\<open>search_listings\<close> and \<open>list_tokens\<close>: a list under the key, or the payload itself.\<close>

definition objects_under :: "string \<Rightarrow> (string \<times> json) list \<Rightarrow> market_exn \<Rightarrow> market_exn + json list" where
  "objects_under key pl err = (case jget_or pl key (JObj pl) of
     JArr xs \<Rightarrow> Inr (filter is_obj xs)
   | _ \<Rightarrow> Inl err)"

definition search_listings :: "http_answer \<Rightarrow> market_exn + json list" where
  "search_listings ans = rbind (market_answer ans) (\<lambda>pl.
     objects_under ''listings'' pl (Market_Error ''listings search returned non-list payload''))"

text \<open>\<open>ConnectivityTokenService._request\<close> and \<open>list_tokens\<close>.\<close>

definition connectivity_answer :: "http_answer \<Rightarrow> market_exn + (string \<times> json) list" where
  "connectivity_answer ans = (case ans of
     Transport_Error m \<Rightarrow> Inl (Connectivity_Error (''connectivity token request failed: '' @ m))
   | Answer st body js \<Rightarrow>
       if \<not> (200 \<le> st \<and> st \<le> 299) then Inl (Connectivity_Error (''connectivity token request failed: '' @ body))
       else (case js of
          Inl e \<Rightarrow> Inl (Plain e)
        | Inr v \<Rightarrow> (case expect_obj TypeError v of
             Inl _ \<Rightarrow> Inl (Connectivity_Error ''connectivity token endpoint returned non-object payload'')
           | Inr m \<Rightarrow> Inr m)))"

definition list_tokens :: "http_answer \<Rightarrow> market_exn + json list" where
  "list_tokens ans = rbind (connectivity_answer ans) (\<lambda>pl.
     objects_under ''tokens'' pl (Connectivity_Error ''connectivity token list payload was not a list''))"

definition create_token_body :: "string \<Rightarrow> json list option \<Rightarrow> string option \<Rightarrow> json" where
  "create_token_body label scopes expires_at = JObj ((''label'', JStr label)
     # (case scopes of None \<Rightarrow> [] | Some s \<Rightarrow> [(''scopes'', JArr s)])
     @ (case expires_at of None \<Rightarrow> [] | Some e \<Rightarrow> [(''expires_at'', JStr e)]))"

section \<open>Normalized errors\<close>

datatype error_code =
    SETUP_INCOMPLETE | NODE_LOCKED | AUTH_FAILED | CSRF_REJECTED | FORBIDDEN | NOT_FOUND
  | ALREADY_EXISTS | ALREADY_RUNNING | NOT_RUNNING | CONFIG_INVALID | TOOL_VALIDATION_FAILED
  | UPSTREAM_UNREACHABLE | MARKET_UNREACHABLE | MARKET_ERROR | UPSTREAM_TIMEOUT | MARKET_TIMEOUT
  | SERVICE_UNAVAILABLE | RATE_LIMITED | INTERNAL_ERROR

fun error_http_status :: "error_code \<Rightarrow> int" where
  "error_http_status SETUP_INCOMPLETE = 412"
| "error_http_status NODE_LOCKED = 423"
| "error_http_status AUTH_FAILED = 401"
| "error_http_status CSRF_REJECTED = 403"
| "error_http_status FORBIDDEN = 403"
| "error_http_status NOT_FOUND = 404"
| "error_http_status ALREADY_EXISTS = 409"
| "error_http_status ALREADY_RUNNING = 409"
| "error_http_status NOT_RUNNING = 409"
| "error_http_status CONFIG_INVALID = 422"
| "error_http_status TOOL_VALIDATION_FAILED = 422"
| "error_http_status UPSTREAM_UNREACHABLE = 502"
| "error_http_status MARKET_UNREACHABLE = 502"
| "error_http_status MARKET_ERROR = 502"
| "error_http_status UPSTREAM_TIMEOUT = 504"
| "error_http_status MARKET_TIMEOUT = 504"
| "error_http_status SERVICE_UNAVAILABLE = 503"
| "error_http_status RATE_LIMITED = 429"
| "error_http_status INTERNAL_ERROR = 500"

definition retryable_codes :: "error_code list" where
  "retryable_codes = [UPSTREAM_UNREACHABLE, MARKET_UNREACHABLE, UPSTREAM_TIMEOUT, MARKET_TIMEOUT,
     RATE_LIMITED, SERVICE_UNAVAILABLE]"

definition http_status_to_code :: "int \<Rightarrow> error_code option" where
  "http_status_to_code st = map_of [(400, CONFIG_INVALID), (401, AUTH_FAILED), (403, FORBIDDEN),
     (404, NOT_FOUND), (409, ALREADY_EXISTS), (412, SETUP_INCOMPLETE), (422, CONFIG_INVALID),
     (423, NODE_LOCKED), (429, RATE_LIMITED), (500, INTERNAL_ERROR), (502, MARKET_ERROR),
     (503, SERVICE_UNAVAILABLE), (504, MARKET_TIMEOUT)] st"

record normalized_error =
  ne_code :: error_code
  ne_message :: string
  ne_details :: "(string \<times> json) list option"
  ne_retryable :: bool
  ne_request_id :: string
  ne_suggested_action :: "string option"

text \<open>\<open>request_id or f"req_..."\<close>, with the fresh id as an argument.\<close>

definition make_error ::
    "string \<Rightarrow> error_code \<Rightarrow> string \<Rightarrow> (string \<times> json) list option \<Rightarrow> string option \<Rightarrow> string option \<Rightarrow> normalized_error" where
  "make_error fresh c message details suggested request_id =
    \<lparr>ne_code = c, ne_message = message, ne_details = details, ne_retryable = (c \<in> set retryable_codes),
     ne_request_id = (case request_id of Some r \<Rightarrow> if r = [] then fresh else r | None \<Rightarrow> fresh),
     ne_suggested_action = suggested\<rparr>"

definition make_market_error :: "string \<Rightarrow> int \<Rightarrow> string \<Rightarrow> string \<Rightarrow> string option \<Rightarrow> normalized_error" where
  "make_market_error fresh backend_status backend_body endpoint request_id =
     make_error fresh MARKET_ERROR ''Marketplace returned an error''
       (Some [(''status'', JInt backend_status), (''backend_error'', JStr backend_body),
              (''endpoint'', JStr endpoint)])
       (Some ''Check your API key in Settings'') request_id"

section \<open>MarketplaceFacade\<close>

datatype facade_exn = Facade_Error normalized_error int | Facade_Other exn

text \<open>
  The environment of one facade call: the outcome of the n-th \<open>client._request\<close>, whether the
  client has an authentication service, and the outcome of its refresh.
\<close>

record facade_env =
  fe_request :: "nat \<Rightarrow> market_exn + (string \<times> json) list"
  fe_auth :: bool
  fe_refresh :: "market_exn + json"
  fe_fresh :: string

definition exn_text :: "market_exn \<Rightarrow> string" where
  "exn_text e = (case e of Auth_Error m \<Rightarrow> m | Market_Error m \<Rightarrow> m | Market_HTTP_Error _ m \<Rightarrow> m
     | Connectivity_Error m \<Rightarrow> m | Plain _ \<Rightarrow> [])"

definition auth_failed :: "facade_env \<Rightarrow> string \<Rightarrow> facade_exn" where
  "auth_failed F m = Facade_Error (make_error (fe_fresh F) AUTH_FAILED
     (''Marketplace authentication failed: '' @ m) None (Some ''Re-enter your API key in Settings'') None) 401"

text \<open>Everything but the retry: a first answer that is an error.\<close>

definition facade_failure :: "facade_env \<Rightarrow> string \<Rightarrow> market_exn \<Rightarrow> facade_exn" where
  "facade_failure F path e = (case e of
     Market_HTTP_Error st m \<Rightarrow> Facade_Error (make_market_error (fe_fresh F) st m path None) 502
   | Market_Error m \<Rightarrow>
       if contains ''timeout'' (lower m)
       then Facade_Error (make_error (fe_fresh F) MARKET_TIMEOUT (''Marketplace request timed out: '' @ path)
              None None None) 504
       else Facade_Error (make_error (fe_fresh F) MARKET_UNREACHABLE (''Cannot reach marketplace: '' @ path)
              None (Some ''Check your internet connection and API URL in Settings'') None) 502
   | Auth_Error m \<Rightarrow> auth_failed F m
   | Connectivity_Error m \<Rightarrow> Facade_Other (LibError m)
   | Plain x \<Rightarrow> Facade_Other x)"

text \<open>The result with the number of requests made to the market and of refreshes.\<close>

definition facade_request :: "facade_env \<Rightarrow> string \<Rightarrow> (facade_exn + (string \<times> json) list) \<times> nat \<times> nat" where
  "facade_request F path = (case fe_request F 0 of
     Inr m \<Rightarrow> (Inr m, 1, 0)
   | Inl e \<Rightarrow>
     (case e of
        Market_HTTP_Error st _ \<Rightarrow>
          if st = 401 \<and> fe_auth F then
            (case fe_refresh F of
               Inl (Auth_Error m) \<Rightarrow> (Inl (auth_failed F m), 1, 1)
             | Inl _ \<Rightarrow> (Inl (facade_failure F path e), 1, 1)
             | Inr _ \<Rightarrow>
               (case fe_request F 1 of
                  Inr m \<Rightarrow> (Inr m, 2, 1)
                | Inl e2 \<Rightarrow> (Inl (facade_failure F path e2), 2, 1)))
          else (Inl (facade_failure F path e), 1, 0)
      | _ \<Rightarrow> (Inl (facade_failure F path e), 1, 0)))"

section \<open>The response cache\<close>

type_synonym 'v cache = "(string, rat \<times> 'v) dict"

definition get_cache :: "rat \<Rightarrow> string \<Rightarrow> 'v cache \<Rightarrow> 'v option \<times> 'v cache" where
  "get_cache now key c = (case map_of c key of
     None \<Rightarrow> (None, c)
   | Some (expires_at, v) \<Rightarrow> if now > expires_at then (None, dict_del key c) else (Some v, c))"

definition set_cache :: "rat \<Rightarrow> string \<Rightarrow> 'v \<Rightarrow> rat \<Rightarrow> 'v cache \<Rightarrow> 'v cache" where
  "set_cache now key v ttl c = dict_set key (now + ttl, v) c"

definition invalidate_cache :: "string \<Rightarrow> 'v cache \<Rightarrow> 'v cache" where
  "invalidate_cache pre c = (if pre = [] then [] else filter (\<lambda>kv. \<not> prefix pre (fst kv)) c)"

text \<open>\<open>get\<close> with a time to live; \<open>params\<close> is the interpreter's text of the parameters.\<close>

definition facade_get ::
    "facade_env \<Rightarrow> rat \<Rightarrow> rat \<Rightarrow> string \<Rightarrow> string \<Rightarrow> rat option \<Rightarrow> (string \<times> json) list cache
      \<Rightarrow> (facade_exn + (string \<times> json) list) \<times> (string \<times> json) list cache" where
  "facade_get F now later path params ttl c = (case ttl of
     None \<Rightarrow> (fst (facade_request F path), c)
   | Some s \<Rightarrow>
     let key = ''GET:'' @ path @ '':'' @ params in
     (case get_cache now key c of
        (Some v, c1) \<Rightarrow> (Inr v, c1)
      | (None, c1) \<Rightarrow>
        (case fst (facade_request F path) of
           Inl e \<Rightarrow> (Inl e, c1)
         | Inr v \<Rightarrow> (Inr v, set_cache later key v s c1))))"

interpretation cache: lookup_table "\<lambda>c k. map_of c k" "\<lambda>k (v :: rat \<times> 'v) c. dict_set k v c" dict_del
  by unfold_locales auto

lemma map_of_filter_key: "map_of (filter (\<lambda>kv. P (fst kv)) d) k = (if P k then map_of d k else None)"
  by (induction d) auto

section \<open>Properties\<close>

text \<open>One facade call makes at most two requests to the market and at most one token refresh: a second
  request is made exactly when the first was answered 401 and the refresh succeeded, so a bad
  key cannot loop; and every error it raises itself has status 401, 502 or 504.\<close>

theorem facade_retries_once:
  "case facade_request F path of (r, requests, refreshes) \<Rightarrow>
     requests \<le> 2 \<and> refreshes \<le> 1
     \<and> (requests = 2 \<longleftrightarrow> (\<exists>m. fe_request F 0 = Inl (Market_HTTP_Error 401 m)) \<and> fe_auth F \<and> (\<exists>tok. fe_refresh F = Inr tok))
     \<and> (case r of
          Inr m \<Rightarrow> fe_request F (requests - 1) = Inr m
        | Inl (Facade_Error n st) \<Rightarrow> st \<in> {401, 502, 504} \<and> st = error_http_status (ne_code n)
        | Inl (Facade_Other _) \<Rightarrow> True)"
  by (auto simp: facade_request_def facade_failure_def auth_failed_def make_market_error_def make_error_def
      split: sum.split market_exn.split)

text \<open>A cached response is used exactly until its time is over: a read before that returns it without a
  request to the market, a read after that (and every read after an invalidation of a prefix of its
  key) asks the market again; an error is never cached.\<close>

theorem cache_expires:
  assumes "facade_get F t0 t1 path params (Some ttl) c = (Inr v, c')"
    and "get_cache t0 (''GET:'' @ path @ '':'' @ params) c = (None, c1)"
  shows "(t2 \<le> t1 + ttl \<longrightarrow> facade_get F2 t2 t3 path params (Some ttl2) c' = (Inr v, c'))
    \<and> (t1 + ttl < t2 \<longrightarrow> fst (facade_get F2 t2 t3 path params (Some ttl2) c') = fst (facade_request F2 path))
    \<and> fst (facade_get F2 t2 t3 path params (Some ttl2) (invalidate_cache (''GET:'' @ path) c')) = fst (facade_request F2 path)"
proof -
  let ?k = "''GET:'' @ path @ '':'' @ params"
  from assms have c': "c' = set_cache t1 ?k v ttl c1"
    by (auto simp: facade_get_def Let_def split: sum.splits)
  have hit: "map_of c' ?k = Some (t1 + ttl, v)" by (simp add: c' set_cache_def)
  have "prefix (''GET:'' @ path) ?k" by (auto intro: prefixI)
  then have gone: "map_of (invalidate_cache (''GET:'' @ path) c') ?k = None"
    using map_of_filter_key [of "\<lambda>k. \<not> prefix (''GET:'' @ path) k" c' ?k]
    by (simp add: invalidate_cache_def)
  from hit gone show ?thesis
    by (auto simp: facade_get_def Let_def get_cache_def split: sum.split)
qed

theorem cache_expires_witness:
  "fst (facade_get \<lparr>fe_request = \<lambda>_. Inr [], fe_auth = True, fe_refresh = Inr JNull, fe_fresh = []\<rparr> 100 101 ''/x'' ''None'' (Some 60)
      (snd (facade_get \<lparr>fe_request = \<lambda>_. Inr [(''a'', JInt 1)], fe_auth = True, fe_refresh = Inr JNull, fe_fresh = []\<rparr> 0 1 ''/x'' ''None'' (Some 60) []))) = Inr []"
proof -
  let ?F = "\<lparr>fe_request = \<lambda>_. Inr [(''a'', JInt 1)], fe_auth = True, fe_refresh = Inr JNull, fe_fresh = []\<rparr>"
  let ?G = "\<lparr>fe_request = \<lambda>_. Inr [], fe_auth = True, fe_refresh = Inr JNull, fe_fresh = []\<rparr>"
  obtain c' where g: "facade_get ?F 0 1 ''/x'' ''None'' (Some 60) [] = (Inr [(''a'', JInt 1)], c')"
    by (auto simp: facade_get_def get_cache_def facade_request_def Let_def)
  have n: "get_cache 0 (''GET:'' @ ''/x'' @ '':'' @ ''None'') [] = (None, [])" by (simp add: get_cache_def)
  have "fst (facade_get ?G 100 101 ''/x'' ''None'' (Some 60) c') = fst (facade_request ?G ''/x'')"
    using cache_expires [OF g n, of 100 ?G 101 60] by simp
  then show ?thesis unfolding g by (simp add: facade_request_def)
qed

lemma store_tokens_no_expiry:
  "\<not> truthy (jget pl ''expires_at'') \<Longrightarrow> jget pl ''expires_in'' = JNull \<Longrightarrow>
     fst (store_tokens parse to_int now pl a) = Inr ()
     \<and> au_expires_at (snd (store_tokens parse to_int now pl a)) = au_expires_at a"
  by (simp add: store_tokens_def Let_def)

text \<open>What an exchange with the endpoint can end in.\<close>

definition exchanged ::
    "(json \<Rightarrow> rat res) \<Rightarrow> (json \<Rightarrow> int res) \<Rightarrow> rat \<Rightarrow> http_answer \<Rightarrow> auth_service \<Rightarrow> (market_exn + json) \<Rightarrow> auth_service \<Rightarrow> bool" where
  "exchanged parse to_int now ans a r a' \<longleftrightarrow>
    (case auth_request_json ans of
       Inl _ \<Rightarrow> a' = a \<and> (\<exists>e. r = Inl e)
     | Inr pl \<Rightarrow> a' = snd (store_tokens parse to_int now pl a)
         \<and> (fst (store_tokens parse to_int now pl a) = Inr () \<or> (\<exists>e. r = Inl e)))"

lemma obtain_token_exchanged:
  "obtain_token parse to_int now ans f a = (r, a') \<Longrightarrow> exchanged parse to_int now ans a r a'"
  by (auto simp: obtain_token_def exchanged_def split: sum.splits prod.splits)

lemma authenticate_exchanged:
  "authenticate parse to_int now ans a = (r, a') \<Longrightarrow>
     exchanged parse to_int now ans a r a' \<or> a' = a \<and> (\<exists>e. r = Inl e)"
  by (auto simp: authenticate_def dest: obtain_token_exchanged split: if_splits)

lemma refresh_exchanged:
  "refresh parse to_int now ans a = (r, a') \<Longrightarrow>
     exchanged parse to_int now ans a r a' \<or> a' = a \<and> (\<exists>e. r = Inl e)"
  unfolding refresh_def
  using authenticate_exchanged obtain_token_exchanged by (metis (no_types, lifting))

lemma get_access_token_cases:
  assumes "get_access_token parse to_int now ans a = (r, a')"
  shows "(r = Inr (au_access_token a) \<and> truthy (au_access_token a) \<and> \<not> is_expired now a \<and> a' = a)
     \<or> exchanged parse to_int now ans a r a' \<or> a' = a \<and> (\<exists>e. r = Inl e)"
  using assms
  by (auto simp: get_access_token_def dest!: refresh_exchanged authenticate_exchanged split: if_splits)

text \<open>\<open>get_access_token\<close> hands out either the stored token, which is then not expired, or one from a
  successful exchange with the authentication endpoint made by this very call; an exchange that
  fails leaves the stored tokens as they were. But an exchange whose answer names no expiry
  leaves the old one: an expired service stays expired and repeats the exchange on every call.\<close>

theorem access_token_fresh:
  assumes "get_access_token parse to_int now ans a = (r, a')"
  shows "(case r of
      Inr tok \<Rightarrow> (tok = au_access_token a \<and> truthy tok \<and> \<not> is_expired now a \<and> a' = a)
         \<or> (\<exists>pl. auth_request_json ans = Inr pl \<and> store_tokens parse to_int now pl a = (Inr (), a'))
    | Inl _ \<Rightarrow> (case auth_request_json ans of Inl _ \<Rightarrow> a' = a | Inr _ \<Rightarrow> True))
    \<and> (auth_request_json ans = Inr pl \<and> \<not> truthy (jget pl ''expires_at'') \<and> jget pl ''expires_in'' = JNull
        \<and> is_expired now a \<longrightarrow> is_expired now a')"
  using get_access_token_cases [OF assms] store_tokens_no_expiry [of pl parse to_int now a]
  by (cases "store_tokens parse to_int now (projr (auth_request_json ans)) a"; cases r)
     (auto simp: exchanged_def is_expired_def split: sum.splits)

definition demo_auth :: auth_service where
  "demo_auth = \<lparr>au_api_key = Some ''k'', au_access_token = JStr ''old'', au_refresh_token = JStr ''r'', au_expires_at = Some 10\<rparr>"

theorem access_token_fresh_witness:
  "is_expired 20 (snd (get_access_token (\<lambda>_. Inr 0) (\<lambda>_. Inr 0) 20
      (Answer 200 ''x'' (Inr (JObj [(''access_token'', JStr ''new'')]))) demo_auth))"
proof -
  let ?ans = "Answer 200 ''x'' (Inr (JObj [(''access_token'', JStr ''new'')]))"
  obtain r a' where g: "get_access_token (\<lambda>_. Inr 0) (\<lambda>_. Inr 0) 20 ?ans demo_auth = (r, a')" by fastforce
  show ?thesis
    using access_token_fresh [OF g, of "[(''access_token'', JStr ''new'')]"] g
    by (simp add: auth_request_json_def jget_def is_expired_def demo_auth_def)
qed

end
