(* ===== verification/Middleware.thy ===== *)
theory Middleware
  imports MarketAccess
begin

text \<open>
  \<open>aim_node/management/middleware.py\<close>: the CSRF check and the session token in front of the
  management API. A request is what the middleware reads of it; the fresh random token is an
  argument, and a request that passes is answered by the application (\<open>Forward\<close>).
\<close>

section \<open>Origins\<close>

definition loopback_hosts :: "string list" where
  "loopback_hosts = [''localhost'', ''127.0.0.1'', ''::1'']"

text \<open>\<open>s.split(sep, 1)[-1]\<close>, \<open>s.split(sep, 1)[0]\<close> and \<open>s.rsplit(c, 1)[-1]\<close>.\<close>

definition after_first :: "string \<Rightarrow> string \<Rightarrow> string" where
  "after_first sep s = (case split_once sep s of (p, None) \<Rightarrow> p | (_, Some r) \<Rightarrow> r)"

definition before_first :: "char \<Rightarrow> string \<Rightarrow> string" where
  "before_first c s = takeWhile (\<lambda>x. x \<noteq> c) s"

definition after_last :: "char \<Rightarrow> string \<Rightarrow> string" where
  "after_last c s = rev (takeWhile (\<lambda>x. x \<noteq> c) (rev s))"

definition origin_is_loopback :: "string option \<Rightarrow> bool" where
  "origin_is_loopback origin = (case origin of
     None \<Rightarrow> False
   | Some s \<Rightarrow>
     if s = [] then False
     else
       let without_scheme = after_first ''://'' s;
           host = after_last CHR ''@'' without_scheme;
           host' = (if host \<noteq> [] \<and> hd host = CHR ''['' \<and> CHR '']'' \<in> set host
                    then before_first CHR '']'' (tl host) else before_first CHR '':'' host)
       in host' \<in> set loopback_hosts)"

section \<open>The middleware\<close>

record app_state =
  app_csrf_token :: "string option"
  app_remote_bind :: bool
  app_session_token :: "string option"

record http_request =
  hq_method :: string
  hq_client_host :: "string option"
  hq_origin :: "string option"
  hq_csrf_header :: "string option"
  hq_session_header :: "string option"
  hq_session_cookie :: "string option"

datatype middleware_result =
    Reject normalized_error int
  | Forward string "string option"
  | Raise exn

text \<open>
  \<open>hmac.compare_digest\<close> of two strings: a character outside ASCII raises a \<open>TypeError\<close>.
\<close>

definition compare_digest :: "string \<Rightarrow> string \<Rightarrow> bool res" where
  "compare_digest a b = (if str_all_ascii a \<and> str_all_ascii b then Inr (a = b) else Inl TypeError)"

definition safe_methods :: "string list" where
  "safe_methods = [''GET'', ''HEAD'', ''OPTIONS'']"

definition client_is_loopback :: "http_request \<Rightarrow> bool" where
  "client_is_loopback q = (case hq_client_host q of None \<Rightarrow> False | Some h \<Rightarrow> h \<in> set loopback_hosts)"

text \<open>\<open>headers.get(...) or cookies.get(...)\<close>, then \<open>or ""\<close>.\<close>

definition presented_token :: "http_request \<Rightarrow> string" where
  "presented_token q =
    (case hq_session_header q of
       Some h \<Rightarrow> if h \<noteq> [] then h else (case hq_session_cookie q of Some c \<Rightarrow> c | None \<Rightarrow> [])
     | None \<Rightarrow> (case hq_session_cookie q of Some c \<Rightarrow> c | None \<Rightarrow> []))"

text \<open>The session check of a remote bind: the cookie to set, or the answer.\<close>

definition session_check ::
    "string \<Rightarrow> string \<Rightarrow> app_state \<Rightarrow> http_request \<Rightarrow> (middleware_result + string option) \<times> app_state" where
  "session_check fresh fresh_id st q =
    (if \<not> app_remote_bind st then (Inr None, st)
     else case app_session_token st of
       None \<Rightarrow>
         if client_is_loopback q then (Inr (Some fresh), st\<lparr>app_session_token := Some fresh\<rparr>)
         else (Inl (Reject (make_error fresh_id AUTH_FAILED
                 ''Session token not yet issued - access from localhost first'' None
                 (Some ''Open http://localhost:<port>/api/mgmt/health first'') None) 401), st)
     | Some expected \<Rightarrow>
         (case compare_digest (presented_token q) expected of
            Inl e \<Rightarrow> (Inl (Raise e), st)
          | Inr ok \<Rightarrow>
              if ok then (Inr None, st)
              else (Inl (Reject (make_error fresh_id AUTH_FAILED ''Session token required for remote access''
                      None (Some ''Provide X-Session-Token header or aim_session cookie'') None) 401), st)))"

definition csrf_token_ok :: "string \<Rightarrow> http_request \<Rightarrow> bool res" where
  "csrf_token_ok expected q = (case hq_csrf_header q of
     None \<Rightarrow> Inr False
   | Some h \<Rightarrow> compare_digest h expected)"

text \<open>\<open>dispatch\<close>; two fresh tokens may be drawn, one for CSRF and one for the session.\<close>

definition dispatch ::
    "string \<Rightarrow> string \<Rightarrow> string \<Rightarrow> app_state \<Rightarrow> http_request \<Rightarrow> middleware_result \<times> app_state" where
  "dispatch fresh_csrf fresh_session fresh_id st0 q =
    (let csrf = (case app_csrf_token st0 of None \<Rightarrow> fresh_csrf | Some t \<Rightarrow> t);
         st = st0\<lparr>app_csrf_token := Some csrf\<rparr>
     in case session_check fresh_session fresh_id st q of
          (Inl answer, st1) \<Rightarrow> (answer, st1)
        | (Inr cookie, st1) \<Rightarrow>
          if hq_method q \<in> set safe_methods then (Forward csrf cookie, st1)
          else (case csrf_token_ok csrf q of
             Inl e \<Rightarrow> (Raise e, st1)
           | Inr token_ok \<Rightarrow>
               if \<not> origin_is_loopback (hq_origin q) \<and> \<not> token_ok
               then (Reject (make_error fresh_id CSRF_REJECTED ''Missing or invalid CSRF token'' None
                       (Some ''Include X-CSRF-Token header from GET /api/mgmt/health'') None) 403, st1)
               else (Forward csrf cookie, st1)))"

section \<open>Properties\<close>



lemma takeWhile_absent: "c \<notin> set s \<Longrightarrow> takeWhile (\<lambda>x. x \<noteq> c) s = s"
  by (induction s) auto

lemma split_once_scheme:
  "CHR '':'' \<notin> set scheme \<Longrightarrow> split_once ''://'' (scheme @ ''://'' @ rest) = (scheme, Some rest)"
proof (induction scheme)
  case Nil
  then show ?case by (subst split_once.simps) simp
next
  case (Cons c s)
  then show ?case by (subst split_once.simps) simp
qed

text \<open>For an origin of the usual form - a scheme, a host without special characters, an optional port -
  the loopback test is right: it holds exactly for the hosts localhost and 127.0.0.1. The
  scheme is not looked at, and what follows a bracketed address is not looked at either, so
  \<open>http://[::1].evil.com\<close> and \<open>http://evil.com@localhost\<close> count as loopback.\<close>

lemma origin_loopback_exact:
  assumes "scheme \<noteq> []" and "CHR '':'' \<notin> set scheme" and "host \<noteq> []"
    and "set host \<inter> {CHR '':'', CHR ''@'', CHR ''['', CHR '']''} = {}"
    and "port = [] \<or> (\<exists>n. port = CHR '':'' # str_of_nat n)"
  shows "(origin_is_loopback (Some (scheme @ ''://'' @ host @ port)) \<longleftrightarrow> host = ''localhost'' \<or> host = ''127.0.0.1'')
    \<and> origin_is_loopback (Some ''http://[::1].evil.com'') \<and> origin_is_loopback (Some ''http://evil.com@localhost'')"
proof -
  have a: "after_first ''://'' (scheme @ ''://'' @ host @ port) = host @ port"
    using split_once_scheme [OF assms(2), of "host @ port"] by (simp add: after_first_def)
  have "CHR ''@'' \<notin> set port"
  proof (cases "port = []")
    case False
    with assms(5) obtain n where "port = CHR '':'' # str_of_nat n" by blast
    with str_of_nat_digits [of n] show ?thesis by (auto simp: list_all_iff is_digit_def)
  qed simp
  then have "CHR ''@'' \<notin> set (rev (host @ port))" using assms(4) by auto
  from takeWhile_absent [OF this]
  have b: "after_last CHR ''@'' (host @ port) = host @ port"
    by (simp only: after_last_def rev_rev_ident)
  have h: "hd (host @ port) \<noteq> CHR ''[''" using assms(3,4) by (cases host) auto
  have "CHR '':'' \<notin> set host" using assms(4) by auto
  from takeWhile_absent [OF this] have t: "takeWhile (\<lambda>x. x \<noteq> CHR '':'') host = host" .
  have "takeWhile (\<lambda>x. x \<noteq> CHR '':'') (host @ port) = host"
  proof (cases port)
    case (Cons p ps)
    with assms(5) have "p = CHR '':''" by blast
    with Cons \<open>CHR '':'' \<notin> set host\<close> show ?thesis by (simp add: takeWhile_append t)
  qed (simp add: t)
  then have c: "before_first CHR '':'' (host @ port) = host"
    by (simp only: before_first_def)
  have "origin_is_loopback (Some (scheme @ ''://'' @ host @ port)) \<longleftrightarrow> host \<in> set loopback_hosts"
    using assms(1,3) h by (simp add: origin_is_loopback_def Let_def a [simplified] b c)
  moreover have "host \<noteq> ''::1''" using assms(4) by auto
  moreover have "origin_is_loopback (Some ''http://[::1].evil.com'')" "origin_is_loopback (Some ''http://evil.com@localhost'')"
    by code_simp+
  ultimately show ?thesis by (auto simp: loopback_hosts_def)
qed

theorem origin_loopback_exact_witness:
  "\<not> origin_is_loopback (Some (''https'' @ ''://'' @ ''evil.com'' @ '':8443''))"
proof -
  have "'':8443'' = CHR '':'' # str_of_nat 8443" by (simp add: str_of_nat.simps digit_char_def) code_simp
  then have "'':8443'' = [] \<or> (\<exists>n. '':8443'' = CHR '':'' # str_of_nat n)" by blast
  from origin_loopback_exact [OF _ _ _ _ this, of "''https''" "''evil.com''"] show ?thesis by simp
qed

end
