(* ===== verification/Config.thy ===== *)
theory Config
  imports Provider Middleware
begin

text \<open>
  \<open>aim_node/config_loader.py\<close>, \<open>core/config.py\<close>, \<open>management/config_writer.py\<close> and the \<open>config_update\<close>
  route of \<open>management/routes.py\<close>: what the configuration file must hold, what the setup steps write
  to it, and what the rest of the program reads back. A TOML document is a JSON value (TOML has
  no null). The TOML reader and the \<open>tomli_w\<close> writer are the fields of a \<open>toml_lib\<close> record; the
  writer the code falls back to is modelled itself. Paths are kept as the strings they are made of.
\<close>

section \<open>Reading values\<close>

record core_config =
  cc_keystore_path :: string
  cc_node_serial :: string
  cc_market_api_url :: string
  cc_market_ws_url :: string
  cc_data_dir :: string
  cc_reconnect_delay :: pyfloat
  cc_reconnect_max_delay :: pyfloat
  cc_reconnect_jitter :: pyfloat
  cc_api_key :: "string option"
  cc_node_id :: "string option"
  cc_upstream_url :: "string option"

fun get_section_value :: "string \<Rightarrow> json \<Rightarrow> (string \<times> json) list res" where
  "get_section_value key JNull = Inr []"
| "get_section_value key (JObj m) = Inr m"
| "get_section_value key _ = Inl (ValueError (''expected ['' @ key @ ''] to be a table''))"

definition get_section :: "(string \<times> json) list \<Rightarrow> string \<Rightarrow> (string \<times> json) list res" where
  "get_section raw key = get_section_value key (jget_or raw key (JObj []))"

fun opt_str :: "json \<Rightarrow> string \<Rightarrow> string option res" where
  "opt_str JNull field = Inr None"
| "opt_str (JStr s) field = Inr (Some s)"
| "opt_str _ field = Inl (ValueError (field @ '' must be a string''))"

fun required_str :: "json \<Rightarrow> string \<Rightarrow> string res" where
  "required_str (JStr s) field = (if s = [] then Inl (ValueError (field @ '' is required'')) else Inr s)"
| "required_str _ field = Inl (ValueError (field @ '' is required''))"

text \<open>\<open>float(n)\<close> of an integer rounds like the literal, except that it raises beyond the range.\<close>

definition float_of_int :: "pyrt \<Rightarrow> int \<Rightarrow> pyfloat res" where
  "float_of_int rt n = (let x = rt_float rt (str_of_int n)
     in if x = FPosInf \<or> x = FNegInf then Inl OverflowError else Inr x)"

fun optional_float :: "pyrt \<Rightarrow> json \<Rightarrow> string \<Rightarrow> pyfloat \<Rightarrow> pyfloat res" where
  "optional_float rt JNull field d = Inr d"
| "optional_float rt (JBool b) field d = Inr (FNum (if b then 1 else 0))"
| "optional_float rt (JInt n) field d = float_of_int rt n"
| "optional_float rt (JFloat x) field d = Inr x"
| "optional_float rt _ field d = Inl (ValueError (field @ '' must be numeric''))"

text \<open>A Python \<open>bool\<close> is an \<open>int\<close>.\<close>

fun optional_int :: "json \<Rightarrow> string \<Rightarrow> int \<Rightarrow> int res" where
  "optional_int JNull field d = Inr d"
| "optional_int (JBool b) field d = Inr (if b then 1 else 0)"
| "optional_int (JInt n) field d = Inr n"
| "optional_int _ field d = Inl (ValueError (field @ '' must be an integer''))"

definition or_str :: "string option \<Rightarrow> string \<Rightarrow> string" where
  "or_str v d = (case v of None \<Rightarrow> d | Some s \<Rightarrow> if s = [] then d else s)"

section \<open>\<open>load_config\<close> and \<open>load_adapter_config\<close>\<close>

definition core_value :: "(string \<times> json) list \<Rightarrow> (string \<times> json) list \<Rightarrow> string \<Rightarrow> json" where
  "core_value core raw k = jget_or core k (jget raw k)"

definition upstream_endpoint :: "(string \<times> json) list \<Rightarrow> string option res" where
  "upstream_endpoint raw =
    rbind (get_section raw ''provider'') (\<lambda>provider.
    rbind (get_section provider ''adapter'') (\<lambda>adapter.
      opt_str (jget adapter ''endpoint_url'') ''provider.adapter.endpoint_url''))"

definition load_config :: "pyrt \<Rightarrow> (string \<times> json) list \<Rightarrow> core_config res" where
  "load_config rt raw =
    rbind (get_section raw ''core'') (\<lambda>core.
    let val = core_value core raw in
    rbind (required_str (val ''node_serial'') ''core.node_serial'') (\<lambda>node_serial.
    rbind (opt_str (val ''keystore_path'') ''core.keystore_path'') (\<lambda>keystore_path.
    rbind (opt_str (val ''data_dir'') ''core.data_dir'') (\<lambda>data_dir.
    rbind (opt_str (val ''market_api_url'') ''core.market_api_url'') (\<lambda>api_url.
    rbind (opt_str (val ''market_ws_url'') ''core.market_ws_url'') (\<lambda>ws_url.
    rbind (optional_float rt (val ''reconnect_delay_s'') ''core.reconnect_delay_s'' (FNum 5)) (\<lambda>delay.
    rbind (optional_float rt (val ''reconnect_max_delay_s'') ''core.reconnect_max_delay_s'' (FNum 60)) (\<lambda>max_delay.
    rbind (optional_float rt (val ''reconnect_jitter'') ''core.reconnect_jitter'' (FNum (5404319552844595 / 18014398509481984))) (\<lambda>jitter.
    rbind (opt_str (val ''api_key'') ''core.api_key'') (\<lambda>api_key.
    rbind (opt_str (val ''node_id'') ''core.node_id'') (\<lambda>node_id.
    rbind (upstream_endpoint raw) (\<lambda>upstream.
      Inr \<lparr>cc_keystore_path = or_str keystore_path ''.aim-node/keystore.json'',
           cc_node_serial = node_serial,
           cc_market_api_url = or_str api_url ''https://api.ai.market'',
           cc_market_ws_url = or_str ws_url ''wss://api.ai.market/ws'',
           cc_data_dir = or_str data_dir ''.aim-node'',
           cc_reconnect_delay = delay, cc_reconnect_max_delay = max_delay, cc_reconnect_jitter = jitter,
           cc_api_key = api_key, cc_node_id = node_id, cc_upstream_url = upstream\<rparr>))))))))))))"

definition load_adapter_config :: "(string \<times> json) list \<Rightarrow> adapter_config res" where
  "load_adapter_config raw =
    rbind (get_section raw ''provider'') (\<lambda>provider.
    rbind (get_section provider ''adapter'') (\<lambda>adapter.
    rbind (required_str (jget adapter ''endpoint_url'') ''provider.adapter.endpoint_url'') (\<lambda>endpoint.
    rbind (opt_str (jget adapter ''health_check_url'') ''provider.adapter.health_check_url'') (\<lambda>health.
    rbind (optional_int (jget adapter ''timeout_seconds'') ''provider.adapter.timeout_seconds'' 30) (\<lambda>timeout.
    rbind (optional_int (jget adapter ''max_concurrent'') ''provider.adapter.max_concurrent'' 10) (\<lambda>conc.
    rbind (optional_int (jget adapter ''max_body_bytes'') ''provider.adapter.max_body_bytes'' 32768) (\<lambda>max_body.
    rbind (opt_str (jget adapter ''input_path'') ''provider.adapter.input_path'') (\<lambda>input.
    rbind (opt_str (jget adapter ''wrap_key'') ''provider.adapter.wrap_key'') (\<lambda>wrap.
    rbind (opt_str (jget adapter ''output_path'') ''provider.adapter.output_path'') (\<lambda>out.
      Inr \<lparr>ac_endpoint_url = endpoint, ac_health_check_url = health, ac_timeout_seconds = timeout,
           ac_max_concurrent = conc, ac_max_body_bytes = max_body, ac_input_path = input,
           ac_wrap_key = wrap, ac_output_path = out\<rparr>))))))))))"

section \<open>The file\<close>

type_synonym config_file = "string option"

record toml_lib =
  tl_load :: "string \<Rightarrow> json res"
  tl_dump :: "((string \<times> json) list \<Rightarrow> string) option"

datatype config_exn = Config_Error string | Config_Other exn

text \<open>\<open>read_config\<close>: a missing file is an empty configuration, any error of the parser a \<open>ConfigError\<close>.\<close>

definition read_config :: "toml_lib \<Rightarrow> config_file \<Rightarrow> config_exn + (string \<times> json) list" where
  "read_config L f = (case f of
     None \<Rightarrow> Inr []
   | Some txt \<Rightarrow> (case tl_load L txt of
        Inr (JObj m) \<Rightarrow> Inr m
      | _ \<Rightarrow> Inl (Config_Error ''failed to parse config'')))"

text \<open>\<open>_write_toml\<close>: the scalars of a table, then its tables. Lists and nulls are not written.\<close>

definition nl_char :: char where
  "nl_char = CHR 0x0A"

fun toml_scalar :: "pyrt \<Rightarrow> string \<Rightarrow> json \<Rightarrow> string" where
  "toml_scalar rt k (JBool b) = k @ '' = '' @ (if b then ''true'' else ''false'') @ [nl_char]"
| "toml_scalar rt k (JStr s) = k @ '' = '' @ [dquote] @ s @ [dquote, nl_char]"
| "toml_scalar rt k (JInt n) = k @ '' = '' @ str_of_int n @ [nl_char]"
| "toml_scalar rt k (JFloat x) = k @ '' = '' @ rt_frepr rt x @ [nl_char]"
| "toml_scalar rt k _ = []"

fun write_toml :: "pyrt \<Rightarrow> string \<Rightarrow> json \<Rightarrow> string"
  and write_sections :: "pyrt \<Rightarrow> string \<Rightarrow> (string \<times> json) list \<Rightarrow> string" where
  "write_toml rt pre (JObj m) = concat (map (\<lambda>(k, v). toml_scalar rt k v) m) @ write_sections rt pre m"
| "write_toml rt pre _ = []"
| "write_sections rt pre [] = []"
| "write_sections rt pre ((k, v) # m) =
     (let section = (if pre = [] then k else pre @ ''.'' @ k)
      in if is_obj v then nl_char # ''['' @ section @ '']'' @ nl_char # write_toml rt section v else [])
     @ write_sections rt pre m"

definition config_text :: "toml_lib \<Rightarrow> pyrt \<Rightarrow> (string \<times> json) list \<Rightarrow> string" where
  "config_text L rt m = (case tl_dump L of Some dump \<Rightarrow> dump m | None \<Rightarrow> write_toml rt [] (JObj m))"

text \<open>
  \<open>write_config\<close> opens the file, which empties it, and then writes: a failure leaves either the old
  file or the beginning of the new text.
\<close>

datatype write_outcome = Written | Not_Opened | Broken_Off nat

definition write_config ::
    "toml_lib \<Rightarrow> pyrt \<Rightarrow> write_outcome \<Rightarrow> (string \<times> json) list \<Rightarrow> config_file \<Rightarrow> (config_exn + unit) \<times> config_file" where
  "write_config L rt w m f = (case w of
     Written \<Rightarrow> (Inr (), Some (config_text L rt m))
   | Not_Opened \<Rightarrow> (Inl (Config_Error ''failed to write config''), f)
   | Broken_Off n \<Rightarrow> (Inl (Config_Error ''failed to write config''), Some (take n (config_text L rt m))))"

section \<open>The setup requests\<close>

datatype node_mode = Mode_Provider | Mode_Consumer | Mode_Both

fun mode_text :: "node_mode \<Rightarrow> string" where
  "mode_text Mode_Provider = ''provider''"
| "mode_text Mode_Consumer = ''consumer''"
| "mode_text Mode_Both = ''both''"

definition provides :: "node_mode \<Rightarrow> bool" where
  "provides md \<longleftrightarrow> md = Mode_Provider \<or> md = Mode_Both"

definition consumes :: "node_mode \<Rightarrow> bool" where
  "consumes md \<longleftrightarrow> md = Mode_Consumer \<or> md = Mode_Both"

text \<open>\<open>_validate_http_url\<close> and the validators of \<open>FinalizeSetupRequest\<close> and \<open>ConfigUpdateRequest\<close> (\<open>schemas.py\<close>).\<close>

definition valid_http_url :: "string \<Rightarrow> bool" where
  "valid_http_url v \<longleftrightarrow> prefix ''http://'' v \<or> prefix ''https://'' v"

record finalize_request =
  fr_mode :: node_mode
  fr_api_url :: string
  fr_api_key :: string
  fr_upstream_url :: "string option"

definition opt_url_ok :: "string option \<Rightarrow> bool" where
  "opt_url_ok v \<longleftrightarrow> (case v of None \<Rightarrow> True | Some u \<Rightarrow> valid_http_url u)"

definition given :: "string option \<Rightarrow> bool" where
  "given v \<longleftrightarrow> (case v of None \<Rightarrow> False | Some u \<Rightarrow> u \<noteq> [])"

definition valid_finalize :: "finalize_request \<Rightarrow> bool" where
  "valid_finalize q \<longleftrightarrow> valid_http_url (fr_api_url q) \<and> opt_url_ok (fr_upstream_url q)
     \<and> (provides (fr_mode q) \<longrightarrow> given (fr_upstream_url q))"

record config_update_request =
  cu_mode :: "node_mode option"
  cu_api_url :: "string option"
  cu_api_key :: "string option"
  cu_upstream_url :: "string option"

definition valid_config_update :: "config_update_request \<Rightarrow> bool" where
  "valid_config_update q \<longleftrightarrow> opt_url_ok (cu_api_url q) \<and> opt_url_ok (cu_upstream_url q)"

section \<open>Writing the sections\<close>

text \<open>\<open>if section not in config: config[section] = {}\<close>, then \<open>config[section][key] = value\<close>.\<close>

definition ensure_table :: "string \<Rightarrow> (string \<times> json) list \<Rightarrow> (string \<times> json) list" where
  "ensure_table section m = (if map_of m section = None then dict_set section (JObj []) m else m)"

definition put_in :: "string \<Rightarrow> string \<Rightarrow> json \<Rightarrow> (string \<times> json) list \<Rightarrow> (string \<times> json) list res" where
  "put_in section key v m = (case jget m section of
     JObj t \<Rightarrow> Inr (dict_set section (JObj (dict_set key v t)) m)
   | _ \<Rightarrow> Inl TypeError)"

definition put_endpoint :: "string \<Rightarrow> (string \<times> json) list \<Rightarrow> (string \<times> json) list res" where
  "put_endpoint url config =
    (let c1 = ensure_table ''provider'' config
     in case jget c1 ''provider'' of
          JObj provider \<Rightarrow>
            (let p1 = ensure_table ''adapter'' provider
             in rbind (put_in ''adapter'' ''endpoint_url'' (JStr url) p1)
                  (\<lambda>p2. Inr (dict_set ''provider'' (JObj p2) c1)))
        | _ \<Rightarrow> Inl TypeError)"

definition put_all :: "string \<Rightarrow> (string \<times> json) list \<Rightarrow> (string \<times> json) list \<Rightarrow> (string \<times> json) list res" where
  "put_all section kvs config =
     foldl (\<lambda>r kv. rbind r (put_in section (fst kv) (snd kv))) (Inr (ensure_table section config)) kvs"

text \<open>\<open>finalize_setup\<close>; \<open>uuid\<close> is the identifier drawn when no serial is given.\<close>

definition finalize_config ::
    "string \<Rightarrow> finalize_request \<Rightarrow> string option \<Rightarrow> (string \<times> json) list \<Rightarrow> (string \<times> json) list res" where
  "finalize_config uuid q node_serial config =
    rbind (put_all ''core'' [(''market_api_url'', JStr (fr_api_url q)), (''api_key'', JStr (fr_api_key q)),
                             (''node_serial'', JStr (or_str node_serial uuid))] config) (\<lambda>c1.
    rbind (case fr_upstream_url q of
             Some u \<Rightarrow> if provides (fr_mode q) \<and> u \<noteq> [] then put_endpoint u c1 else Inr c1
           | None \<Rightarrow> Inr c1) (\<lambda>c2.
      put_all ''management'' [(''setup_complete'', JBool True), (''setup_step'', JInt 5),
                              (''mode'', JStr (mode_text (fr_mode q)))] c2))"

text \<open>Read, change, write: the shape of every writer.\<close>

definition rewrite_config ::
    "toml_lib \<Rightarrow> pyrt \<Rightarrow> write_outcome \<Rightarrow> ((string \<times> json) list \<Rightarrow> (string \<times> json) list res) \<Rightarrow> config_file
      \<Rightarrow> (config_exn + unit) \<times> config_file" where
  "rewrite_config L rt w change f =
    (case read_config L f of
       Inl e \<Rightarrow> (Inl e, f)
     | Inr config \<Rightarrow> (case change config of
          Inl e \<Rightarrow> (Inl (Config_Other e), f)
        | Inr config' \<Rightarrow> write_config L rt w config' f))"

definition finalize_setup ::
    "toml_lib \<Rightarrow> pyrt \<Rightarrow> write_outcome \<Rightarrow> string \<Rightarrow> finalize_request \<Rightarrow> string option \<Rightarrow> config_file
      \<Rightarrow> (config_exn + unit) \<times> config_file" where
  "finalize_setup L rt w uuid q node_serial = rewrite_config L rt w (finalize_config uuid q node_serial)"

definition persist_setup_step ::
    "toml_lib \<Rightarrow> pyrt \<Rightarrow> write_outcome \<Rightarrow> int \<Rightarrow> config_file \<Rightarrow> (config_exn + unit) \<times> config_file" where
  "persist_setup_step L rt w n = rewrite_config L rt w (put_all ''management'' [(''setup_step'', JInt n)])"

definition persist_node_id ::
    "toml_lib \<Rightarrow> pyrt \<Rightarrow> write_outcome \<Rightarrow> string \<Rightarrow> config_file \<Rightarrow> (config_exn + unit) \<times> config_file" where
  "persist_node_id L rt w node_id = rewrite_config L rt w (put_all ''core'' [(''node_id'', JStr node_id)])"

section \<open>The \<open>config_update\<close> route\<close>

datatype update_reply = Updated bool | Rejected_Update normalized_error int | Update_Failed config_exn

definition opt_put :: "string \<Rightarrow> string \<Rightarrow> string option \<Rightarrow> (string \<times> json) list \<Rightarrow> (string \<times> json) list res" where
  "opt_put section key v m = (case v of None \<Rightarrow> Inr m | Some s \<Rightarrow> put_in section key (JStr s) m)"

fun obj_get :: "json \<Rightarrow> string \<Rightarrow> json \<Rightarrow> json res" where
  "obj_get (JObj m) k d = Inr (jget_or m k d)"
| "obj_get _ k d = Inl AttributeError"

text \<open>What the route writes, and the two values it decides by: the previous mode and whether an
  endpoint is missing.\<close>

definition update_config :: "config_update_request \<Rightarrow> (string \<times> json) list \<Rightarrow> ((string \<times> json) list \<times> json \<times> bool) res" where
  "update_config q config =
    (let c0 = ensure_table ''management'' (ensure_table ''core'' config) in
    rbind (obj_get (jget c0 ''management'') ''mode'' JNull) (\<lambda>prev_mode.
    rbind (opt_put ''management'' ''mode'' (map_option mode_text (cu_mode q)) c0) (\<lambda>c1.
    rbind (opt_put ''core'' ''market_api_url'' (cu_api_url q) c1) (\<lambda>c2.
    rbind (opt_put ''core'' ''api_key'' (cu_api_key q) c2) (\<lambda>c3.
    rbind (case cu_upstream_url q of None \<Rightarrow> Inr c3 | Some u \<Rightarrow> put_endpoint u c3) (\<lambda>c4.
    rbind (obj_get (jget_or c4 ''management'' (JObj [])) ''mode'' (JStr [])) (\<lambda>mode.
    rbind (obj_get (jget_or c4 ''provider'' (JObj [])) ''adapter'' (JObj [])) (\<lambda>adapter.
    rbind (obj_get adapter ''endpoint_url'' JNull) (\<lambda>upstream.
      Inr (c4, prev_mode, (mode = JStr ''provider'' \<or> mode = JStr ''both'') \<and> \<not> truthy upstream))))))))))"

definition config_update ::
    "toml_lib \<Rightarrow> pyrt \<Rightarrow> write_outcome \<Rightarrow> string \<Rightarrow> config_update_request \<Rightarrow> config_file \<Rightarrow> update_reply \<times> config_file" where
  "config_update L rt w req_id q f =
    (case read_config L f of
       Inl e \<Rightarrow> (Update_Failed e, f)
     | Inr config \<Rightarrow> (case update_config q config of
          Inl e \<Rightarrow> (Update_Failed (Config_Other e), f)
        | Inr (config', prev_mode, missing) \<Rightarrow>
            if missing then (Rejected_Update (make_error req_id CONFIG_INVALID
                ''upstream_url required when mode includes provider'' None None None) 422, f)
            else (case write_config L rt w config' f of
               (Inl e, f') \<Rightarrow> (Update_Failed e, f')
             | (Inr _, f') \<Rightarrow>
                 (Updated (case cu_mode q of None \<Rightarrow> False | Some md \<Rightarrow> JStr (mode_text md) \<noteq> prev_mode), f'))))"

section \<open>The configuration registration works with\<close>

definition set_default :: "string \<Rightarrow> json \<Rightarrow> (string \<times> json) list \<Rightarrow> (string \<times> json) list" where
  "set_default k v m = (if map_of m k = None then dict_set k v m else m)"

definition setup_core :: "string \<Rightarrow> finalize_request \<Rightarrow> (string \<times> json) list \<Rightarrow> (string \<times> json) list" where
  "setup_core dir q core =
     set_default ''data_dir'' (JStr dir) (set_default ''keystore_path'' (JStr (dir @ ''/keystore.json''))
       (set_default ''node_serial'' (JStr ''pending-registration'')
         (dict_set ''api_key'' (JStr (fr_api_key q)) (dict_set ''market_api_url'' (JStr (fr_api_url q)) core))))"

definition default_endpoint :: "string \<Rightarrow> (string \<times> json) list \<Rightarrow> (string \<times> json) list res" where
  "default_endpoint url raw =
    (let r1 = set_default ''provider'' (JObj []) raw
     in case jget r1 ''provider'' of
          JObj provider \<Rightarrow>
            (let p1 = set_default ''adapter'' (JObj []) provider
             in rbind (put_in ''adapter'' ''endpoint_url'' (JStr url) p1)
                  (\<lambda>p2. Inr (dict_set ''provider'' (JObj p2) r1)))
        | _ \<Rightarrow> Inl AttributeError)"

text \<open>\<open>_runtime_config_from_setup\<close> of \<open>routes.py\<close>: the configuration used to register a seller, before
  anything has been written; \<open>dir\<close> is the data directory.\<close>

definition runtime_config_from_setup ::
    "pyrt \<Rightarrow> string \<Rightarrow> finalize_request \<Rightarrow> (string \<times> json) list \<Rightarrow> core_config res" where
  "runtime_config_from_setup rt dir q raw =
    (let r1 = set_default ''core'' (JObj []) raw
     in case jget r1 ''core'' of
          JObj core \<Rightarrow>
            (let r2 = dict_set ''core'' (JObj (setup_core dir q core)) r1
             in rbind (if given (fr_upstream_url q) then default_endpoint (the (fr_upstream_url q)) r2 else Inr r2)
                  (\<lambda>r3. case load_config rt r3 of
                     Inl _ \<Rightarrow> Inl (ValueError ''invalid config'')
                   | Inr c \<Rightarrow> Inr c))
        | _ \<Rightarrow> Inl TypeError)"

section \<open>Values by their path\<close>

text \<open>The values the setup steps write, nested in tables with distinct keys.\<close>

fun storable :: "json \<Rightarrow> bool" where
  "storable (JBool _) = True"
| "storable (JInt _) = True"
| "storable (JStr _) = True"
| "storable (JObj m) = (distinct (dict_keys m) \<and> list_all (\<lambda>kv. storable (snd kv)) m)"
| "storable _ = False"

definition same_values :: "json \<Rightarrow> json \<Rightarrow> bool" where
  "same_values v v' \<longleftrightarrow> storable v \<and> storable v' \<and>
     (\<forall>path. if is_obj (json_walk v path) then is_obj (json_walk v' path) else json_walk v' path = json_walk v path)"

text \<open>
  What the code relies on: the TOML reader gives back the tables the writer was given, in any order of
  their members.
\<close>

definition toml_ok :: "toml_lib \<Rightarrow> pyrt \<Rightarrow> bool" where
  "toml_ok L rt \<longleftrightarrow> (\<forall>m. storable (JObj m) \<longrightarrow>
     (\<exists>m'. tl_load L (config_text L rt m) = Inr (JObj m') \<and> same_values (JObj m) (JObj m')))"

lemma storable_not_null: "storable v \<Longrightarrow> v \<noteq> JNull"
  by auto

lemma storable_member: "storable (JObj m) \<Longrightarrow> map_of m k = Some v \<Longrightarrow> storable v"
  by (auto simp: list_all_iff dest: map_of_SomeD)

lemma same_values_member:
  assumes "same_values (JObj m) (JObj m')"
  shows "rel_option same_values (map_of m k) (map_of m' k)"
proof -
  have path: "if is_obj (json_walk (JObj m) (k # p)) then is_obj (json_walk (JObj m') (k # p))
      else json_walk (JObj m') (k # p) = json_walk (JObj m) (k # p)" for p
    using assms unfolding same_values_def by blast
  have st: "storable (JObj m)" "storable (JObj m')" using assms by (auto simp: same_values_def)
  show ?thesis
  proof (cases "map_of m k")
    case None
    with path [of "[]"] have "map_of m' k = None \<or> map_of m' k = Some JNull"
      by (auto split: option.splits)
    moreover from storable_member [OF st(2)] have "map_of m' k \<noteq> Some JNull" by fastforce
    ultimately show ?thesis using None by auto
  next
    case (Some v)
    then have v: "storable v" "v \<noteq> JNull"
      using storable_member [OF st(1)] storable_not_null by blast+
    with Some path [of "[]"] obtain v' where v': "map_of m' k = Some v'"
      by (auto split: option.splits if_splits)
    then have "storable v'" using storable_member [OF st(2)] by blast
    moreover have "if is_obj (json_walk v p) then is_obj (json_walk v' p) else json_walk v' p = json_walk v p" for p
      using path [of p] Some v' by (simp split: if_splits)
    ultimately show ?thesis using v Some v' by (simp add: same_values_def)
  qed
qed

lemma same_values_leaf: "same_values v v' \<Longrightarrow> is_obj v \<and> is_obj v' \<or> v' = v"
  unfolding same_values_def by (metis json_walk.simps(1))

lemma same_values_refl: "storable v \<Longrightarrow> same_values v v"
  by (simp add: same_values_def)

lemma json_walk_append: "json_walk v (p @ q) = json_walk (json_walk v p) q"
proof (induction v p rule: json_walk.induct)
  case (2 v part parts)
  have "json_walk JNull q = JNull" by (cases q) simp_all
  with 2 show ?case by (cases "json_step v part") auto
qed simp

lemma storable_walk: "storable v \<Longrightarrow> json_walk v p = JNull \<or> storable (json_walk v p)"
proof (induction v p rule: json_walk.induct)
  case (2 v part parts)
  show ?case
  proof (cases "json_step v part")
    case (Some w)
    then obtain m where "v = JObj m" "map_of m part = Some w" by (cases v) auto
    with 2 Some storable_member [of m part w] show ?thesis by (simp del: storable.simps)
  qed simp
qed simp

lemma same_values_truthy:
  assumes "same_values v v'"
  shows "truthy (json_walk v' p) = truthy (json_walk v p)"
proof (cases "json_walk v p")
  case (JObj a)
  have walk: "if is_obj (json_walk v q) then is_obj (json_walk v' q) else json_walk v' q = json_walk v q" for q
    using assms by (auto simp: same_values_def)
  from walk [of p] JObj obtain b where b: "json_walk v' p = JObj b" by (cases "json_walk v' p") auto
  have st: "storable (JObj a)" "storable (JObj b)"
    using assms storable_walk [of v p] storable_walk [of v' p] JObj b
    by (simp_all add: same_values_def del: storable.simps)
  have at_key: "json_walk v (p @ [k]) = (case map_of a k of None \<Rightarrow> JNull | Some w \<Rightarrow> w)"
    "json_walk v' (p @ [k]) = (case map_of b k of None \<Rightarrow> JNull | Some w \<Rightarrow> w)" for k
    by (simp_all add: json_walk_append JObj b split: option.splits)
  have no_null: "map_of a k \<noteq> Some JNull" "map_of b k \<noteq> Some JNull" for k
    using storable_member [OF st(1)] storable_member [OF st(2)] by fastforce+
  have "map_of a k = None \<longleftrightarrow> map_of b k = None" for k
    using walk [of "p @ [k]"] no_null [of k] unfolding at_key
    by (cases "map_of a k"; cases "map_of b k") (auto split: if_splits)
  then have "map_of a = Map.empty \<longleftrightarrow> map_of b = Map.empty" unfolding fun_eq_iff by blast
  then have "a = [] \<longleftrightarrow> b = []" by (simp only: map_of_eq_empty_iff)
  with JObj b show ?thesis by simp
next
qed (use assms in \<open>auto simp: same_values_def\<close>)

definition vals_match :: "json \<Rightarrow> json \<Rightarrow> bool" where
  "vals_match v v' \<longleftrightarrow> is_obj v \<and> is_obj v' \<or> v' = v"

lemma vals_match_reads:
  assumes "vals_match v v'"
  shows "opt_str v' fld = opt_str v fld" "required_str v' fld = required_str v fld"
    "optional_float rt v' fld d = optional_float rt v fld d"
  using assms by (cases v; cases v'; simp add: vals_match_def)+

lemma get_section_same:
  assumes "same_values (JObj m) (JObj m')"
  shows "rel_sum (=) (\<lambda>t t'. same_values (JObj t) (JObj t')) (get_section m k) (get_section m' k)"
proof -
  from same_values_member [OF assms, of k]
  consider "map_of m k = None" "map_of m' k = None"
    | v v' where "map_of m k = Some v" "map_of m' k = Some v'" "same_values v v'"
    by (cases "map_of m k"; cases "map_of m' k") auto
  then show ?thesis
  proof cases
    case 1
    then show ?thesis by (simp add: get_section_def jget_or_def same_values_refl)
  next
    case 2
    from same_values_leaf [OF 2(3)] 2 show ?thesis
      by (cases v; cases v') (auto simp: get_section_def jget_or_def same_values_def)
  qed
qed

lemma jget_same: "same_values (JObj m) (JObj m') \<Longrightarrow> vals_match (jget m k) (jget m' k)"
  using same_values_member [of m m' k]
  by (cases "map_of m k"; cases "map_of m' k") (auto simp: jget_def vals_match_def dest: same_values_leaf)

lemma core_value_same:
  assumes "same_values (JObj m) (JObj m')" and "same_values (JObj c) (JObj c')"
  shows "vals_match (core_value c m k) (core_value c' m' k)"
  using same_values_member [OF assms(2), of k] jget_same [OF assms(1), of k]
  by (cases "map_of c k"; cases "map_of c' k")
    (auto simp: core_value_def jget_or_def vals_match_def dest: same_values_leaf)

lemma upstream_endpoint_same:
  assumes "same_values (JObj m) (JObj m')"
  shows "upstream_endpoint m' = upstream_endpoint m"
proof (cases "get_section m ''provider''")
  case (Inl e)
  with get_section_same [OF assms, of "''provider''"] show ?thesis
    by (cases "get_section m' ''provider''") (auto simp: upstream_endpoint_def)
next
  case (Inr p)
  with get_section_same [OF assms, of "''provider''"] obtain p' where
    p': "get_section m' ''provider'' = Inr p'" and sp: "same_values (JObj p) (JObj p')"
    by (cases "get_section m' ''provider''") auto
  with get_section_same [OF sp, of "''adapter''"] Inr show ?thesis
    by (cases "get_section p ''adapter''"; cases "get_section p' ''adapter''")
      (auto simp: upstream_endpoint_def intro: vals_match_reads [OF jget_same])
qed

lemma load_config_same:
  assumes "same_values (JObj m) (JObj m')"
  shows "load_config rt m' = load_config rt m"
proof (cases "get_section m ''core''")
  case (Inl e)
  with get_section_same [OF assms, of "''core''"] show ?thesis
    by (cases "get_section m' ''core''") (auto simp: load_config_def)
next
  case (Inr c)
  with get_section_same [OF assms, of "''core''"] obtain c' where
    c': "get_section m' ''core'' = Inr c'" and sc: "same_values (JObj c) (JObj c')"
    by (cases "get_section m' ''core''") auto
  note vals = vals_match_reads [OF core_value_same [OF assms sc]]
  show ?thesis unfolding load_config_def Inr c' rbind.simps Let_def vals upstream_endpoint_same [OF assms] ..
qed

section \<open>What the writers leave in the file\<close>

lemma dict_set_storable:
  "storable (JObj m) \<Longrightarrow> storable v \<Longrightarrow> storable (JObj (dict_set k v m))"
  by (induction k v m rule: dict_set.induct) (auto simp: list_all_iff)

lemma map_of_set_default:
  "map_of (set_default k v m) k' = (if k' = k \<and> map_of m k = None then Some v else map_of m k')"
  by (simp add: set_default_def)

lemma ensure_table_default: "ensure_table k m = set_default k (JObj []) m"
  by (simp add: ensure_table_def set_default_def)

lemma set_default_storable:
  "storable (JObj m) \<Longrightarrow> storable v \<Longrightarrow> storable (JObj (set_default k v m))"
  unfolding set_default_def by (cases "map_of m k") (use dict_set_storable in auto)

lemma put_in_Inr: "put_in sec k v m = Inr m' \<longleftrightarrow>
    (\<exists>t. map_of m sec = Some (JObj t) \<and> m' = dict_set sec (JObj (dict_set k v t)) m)"
  by (auto simp: put_in_def jget_def split: json.splits option.splits)

lemma put_in_storable:
  assumes "put_in sec k v m = Inr m'" and "storable (JObj m)" and "storable v"
  shows "storable (JObj m')"
proof -
  from assms(1) obtain t where t: "map_of m sec = Some (JObj t)" and m': "m' = dict_set sec (JObj (dict_set k v t)) m"
    by (auto simp: put_in_Inr)
  from storable_member [OF assms(2) t] have "storable (JObj t)" .
  then show ?thesis unfolding m' by (intro dict_set_storable assms(2,3))
qed

lemma put_all_storable:
  assumes "put_all sec kvs m = Inr m'" and "storable (JObj m)" and "list_all (\<lambda>kv. storable (snd kv)) kvs"
  shows "storable (JObj m')"
proof -
  have fail: "foldl (\<lambda>r kv. rbind r (put_in sec (fst kv) (snd kv))) (Inl e) xs = Inl e" for e xs
    by (induction xs) auto
  have "storable (JObj m')"
    if "foldl (\<lambda>r kv. rbind r (put_in sec (fst kv) (snd kv))) (Inr c) kvs = Inr m'" "storable (JObj c)"
      "list_all (\<lambda>kv. storable (snd kv)) kvs" for c
    using that
  proof (induction kvs arbitrary: c)
    case (Cons kv kvs)
    then obtain c1 where c1: "put_in sec (fst kv) (snd kv) c = Inr c1"
      by (cases "put_in sec (fst kv) (snd kv) c") (auto simp: fail)
    from put_in_storable [OF c1 Cons.prems(2)] Cons.prems(3) have "storable (JObj c1)" by simp
    with Cons c1 show ?case by simp
  qed simp
  moreover have "storable (JObj (ensure_table sec m))"
    unfolding ensure_table_default by (intro set_default_storable assms(2)) simp
  ultimately show ?thesis using assms(1,3) by (simp add: put_all_def)
qed

lemma put_endpoint_storable:
  assumes "put_endpoint u m = Inr m'" and "storable (JObj m)"
  shows "storable (JObj m')"
proof -
  define c1 where "c1 = ensure_table ''provider'' m"
  have st1: "storable (JObj c1)"
    unfolding c1_def ensure_table_default by (intro set_default_storable assms(2)) simp
  from assms(1) obtain pr p2 where pr: "map_of c1 ''provider'' = Some (JObj pr)"
    and p2: "put_in ''adapter'' ''endpoint_url'' (JStr u) (ensure_table ''adapter'' pr) = Inr p2"
    and m': "m' = dict_set ''provider'' (JObj p2) c1"
    by (auto simp: put_endpoint_def c1_def Let_def jget_def rbind_Inr_iff split: json.splits option.splits)
  from storable_member [OF st1 pr] have "storable (JObj (ensure_table ''adapter'' pr))"
    unfolding ensure_table_default by (intro set_default_storable) simp_all
  from put_in_storable [OF p2 this] have "storable (JObj p2)" by simp
  then show ?thesis unfolding m' by (intro dict_set_storable st1)
qed

text \<open>The table of a section, an absent one being empty, and what the writers do to it.\<close>

definition tab_of :: "(string \<times> json) list \<Rightarrow> string \<Rightarrow> (string \<times> json) list option" where
  "tab_of m sec = (case map_of m sec of None \<Rightarrow> Some [] | Some (JObj t) \<Rightarrow> Some t | _ \<Rightarrow> None)"

abbreviation put_members :: "(string \<times> json) list \<Rightarrow> (string \<times> json) list \<Rightarrow> (string \<times> json) list" where
  "put_members \<equiv> foldl (\<lambda>t kv. dict_set (fst kv) (snd kv) t)"

lemma ensure_table_tab: "tab_of m sec = Some t \<Longrightarrow> map_of (ensure_table sec m) = (map_of m)(sec \<mapsto> JObj t)"
  by (auto simp: tab_of_def ensure_table_def split: option.splits json.splits)

lemma ensure_table_no_tab: "tab_of m sec = None \<Longrightarrow> ensure_table sec m = m"
  by (auto simp: tab_of_def ensure_table_def split: option.splits json.splits)

lemma get_section_tab: "storable (JObj m) \<Longrightarrow> get_section m sec = Inr t \<longleftrightarrow> tab_of m sec = Some t"
  using storable_member [of m sec JNull]
  by (auto simp: tab_of_def get_section_def jget_or_def split: option.splits json.splits)

lemma absent_member:
  assumes "storable (JObj m)" and "tab_of m sec = Some t" and "json_walk (JObj m) [sec, k] = JNull"
  shows "map_of t k = None"
proof (cases "map_of m sec")
  case None
  with assms(2) show ?thesis by (simp add: tab_of_def)
next
  case (Some v)
  with assms(2) have v: "v = JObj t" by (cases v) (simp_all add: tab_of_def)
  with Some storable_member [OF assms(1)] have "storable (JObj t)" by blast
  from storable_member [OF this] have "map_of t k \<noteq> Some JNull" by fastforce
  with assms(3) Some v show ?thesis by (auto split: option.splits)
qed

lemma put_loop_effect:
  "map_of m sec = Some (JObj t) \<Longrightarrow>
   \<exists>m'. foldl (\<lambda>r kv. rbind r (put_in sec (fst kv) (snd kv))) (Inr m) kvs = Inr m'
      \<and> map_of m' = (map_of m)(sec \<mapsto> JObj (put_members t kvs))"
proof (induction kvs arbitrary: m t)
  case (Cons kv kvs)
  from Cons.prems have "put_in sec (fst kv) (snd kv) m = Inr (dict_set sec (JObj (dict_set (fst kv) (snd kv) t)) m)"
    by (simp add: put_in_def jget_def)
  with Cons.IH [of "dict_set sec (JObj (dict_set (fst kv) (snd kv) t)) m" "dict_set (fst kv) (snd kv) t"]
  show ?case by (auto simp: fun_eq_iff)
qed auto

lemma put_loop_fails: "foldl (\<lambda>r kv. rbind r (put_in sec (fst kv) (snd kv))) (Inl e) kvs = Inl e"
  by (induction kvs) auto

lemma put_all_effect:
  assumes "put_all sec kvs m = Inr m'" and "kvs \<noteq> []"
  shows "\<exists>t. tab_of m sec = Some t \<and> map_of m' = (map_of m)(sec \<mapsto> JObj (put_members t kvs))"
proof (cases "tab_of m sec")
  case None
  then have "map_of m sec \<noteq> None" "\<nexists>t. map_of m sec = Some (JObj t)"
    by (auto simp: tab_of_def split: option.splits)
  then have "put_in sec k v m = Inl TypeError" for k v
    by (auto simp: put_in_def jget_def split: json.splits option.splits)
  with assms None show ?thesis
    by (cases kvs) (auto simp: put_all_def ensure_table_no_tab put_loop_fails)
next
  case (Some t)
  then have "map_of (ensure_table sec m) sec = Some (JObj t)" by (simp add: ensure_table_tab)
  from put_loop_effect [OF this, of kvs] assms(1) Some show ?thesis
    by (auto simp: put_all_def ensure_table_tab)
qed

lemma put_endpoint_effect:
  assumes "put_endpoint u m = Inr m'"
  shows "\<exists>pr ad pr'. tab_of m ''provider'' = Some pr \<and> tab_of pr ''adapter'' = Some ad
    \<and> map_of m' = (map_of m)(''provider'' \<mapsto> JObj pr')
    \<and> map_of pr' = (map_of pr)(''adapter'' \<mapsto> JObj (dict_set ''endpoint_url'' (JStr u) ad))"
proof (cases "tab_of m ''provider''")
  case None
  then have "map_of m ''provider'' \<noteq> None" "\<nexists>t. map_of m ''provider'' = Some (JObj t)"
    by (auto simp: tab_of_def split: option.splits)
  with assms None show ?thesis
    by (auto simp: put_endpoint_def ensure_table_no_tab jget_def split: option.splits json.splits)
next
  case (Some pr)
  then have pr: "jget (ensure_table ''provider'' m) ''provider'' = JObj pr" by (simp add: ensure_table_tab jget_def)
  with assms obtain p2 where p2: "put_in ''adapter'' ''endpoint_url'' (JStr u) (ensure_table ''adapter'' pr) = Inr p2"
    and m': "m' = dict_set ''provider'' (JObj p2) (ensure_table ''provider'' m)"
    by (auto simp: put_endpoint_def Let_def rbind_Inr_iff)
  from p2 have "put_all ''adapter'' [(''endpoint_url'', JStr u)] pr = Inr p2" by (simp add: put_all_def)
  from put_all_effect [OF this] m' Some show ?thesis by (auto simp: ensure_table_tab)
qed

lemma default_endpoint_Inr: "default_endpoint u m = Inr m' \<longleftrightarrow> put_endpoint u m = Inr m'"
  by (auto simp: default_endpoint_def put_endpoint_def ensure_table_default Let_def split: json.splits)

section \<open>Setup and what the runtime reads\<close>

definition kept_values :: "string set" where
  "kept_values = {''market_api_url'', ''market_ws_url'', ''reconnect_delay_s'', ''reconnect_max_delay_s'',
     ''reconnect_jitter'', ''api_key''}"

lemma load_config_changed:
  assumes "load_config rt r = Inr c" and "get_section r ''core'' = Inr t" and "get_section m ''core'' = Inr t'"
    and "\<And>k. k \<in> kept_values \<Longrightarrow> vals_match (core_value t r k) (core_value t' m k)"
    and "upstream_endpoint m = upstream_endpoint r"
    and "core_value t' m ''node_serial'' = JStr serial" and "serial \<noteq> []"
    and "core_value t' m ''keystore_path'' = JNull" and "core_value t' m ''data_dir'' = JNull"
    and "core_value t' m ''node_id'' = JStr nid"
  shows "load_config rt m = Inr (c\<lparr>cc_node_serial := serial, cc_node_id := Some nid,
           cc_keystore_path := ''.aim-node/keystore.json'', cc_data_dir := ''.aim-node''\<rparr>)"
proof -
  note reads = vals_match_reads [OF assms(4), unfolded kept_values_def]
  have same: "opt_str (core_value t' m ''market_api_url'') fld = opt_str (core_value t r ''market_api_url'') fld"
    "opt_str (core_value t' m ''market_ws_url'') fld = opt_str (core_value t r ''market_ws_url'') fld"
    "optional_float rt (core_value t' m ''reconnect_delay_s'') fld d = optional_float rt (core_value t r ''reconnect_delay_s'') fld d"
    "optional_float rt (core_value t' m ''reconnect_max_delay_s'') fld d = optional_float rt (core_value t r ''reconnect_max_delay_s'') fld d"
    "optional_float rt (core_value t' m ''reconnect_jitter'') fld d = optional_float rt (core_value t r ''reconnect_jitter'') fld d"
    "opt_str (core_value t' m ''api_key'') fld = opt_str (core_value t r ''api_key'') fld" for fld d
    by (rule reads, simp)+
  show ?thesis
    using assms(1) unfolding load_config_def assms(2,3,5,6,8,9,10) rbind.simps Let_def same
    by (simp add: assms(7) or_str_def) (elim rbind_InrE, clarsimp)
qed

lemma load_config_fields:
  assumes "load_config rt r = Inr c" and "get_section r ''core'' = Inr t" and "core_value t r ''keystore_path'' = JStr k"
    and "k \<noteq> []" and "upstream_endpoint r = Inr up"
  shows "cc_keystore_path c = k \<and> cc_upstream_url c = up"
  using assms(1) unfolding load_config_def assms(2,3,5) rbind.simps Let_def
  by (elim rbind_InrE) (auto simp: or_str_def assms(4))

lemma case_error_Inr: "(case x of Inl _ \<Rightarrow> Inl e | Inr c \<Rightarrow> Inr c) = Inr d \<longleftrightarrow> x = Inr d"
  by (cases x) auto

lemma upstream_endpoint_put:
  assumes "put_endpoint u m = Inr m'" and "map_of x ''provider'' = map_of m' ''provider''"
  shows "upstream_endpoint x = Inr (Some u)"
proof -
  from put_endpoint_effect [OF assms(1)] assms(2) obtain pr ad pr'
    where "map_of x ''provider'' = Some (JObj pr')"
      "map_of pr' = (map_of pr)(''adapter'' \<mapsto> JObj (dict_set ''endpoint_url'' (JStr u) ad))" by auto
  then show ?thesis
    by (simp add: upstream_endpoint_def get_section_def jget_or_def jget_def)
qed

lemma finalize_config_storable:
  assumes "finalize_config uuid q serial m = Inr m'" and "storable (JObj m)"
  shows "storable (JObj m')"
proof -
  obtain c1 c2 where c1: "put_all ''core'' [(''market_api_url'', JStr (fr_api_url q)), (''api_key'', JStr (fr_api_key q)),
        (''node_serial'', JStr (or_str serial uuid))] m = Inr c1"
    and c2: "(case fr_upstream_url q of
             Some u \<Rightarrow> if provides (fr_mode q) \<and> u \<noteq> [] then put_endpoint u c1 else Inr c1
           | None \<Rightarrow> Inr c1) = Inr c2"
    and m': "put_all ''management'' [(''setup_complete'', JBool True), (''setup_step'', JInt 5),
        (''mode'', JStr (mode_text (fr_mode q)))] c2 = Inr m'"
    using assms(1) by (auto simp: finalize_config_def rbind_Inr_iff)
  have "storable (JObj c1)" by (rule put_all_storable [OF c1 assms(2)]) simp
  with c2 have "storable (JObj c2)"
    by (auto simp del: storable.simps split: option.splits if_splits intro: put_endpoint_storable)
  from put_all_storable [OF m' this] show ?thesis by simp
qed

lemma rewrite_config_reads_back:
  assumes "toml_ok L rt" and "read_config L f = Inr m" and "change m = Inr m1" and "storable (JObj m1)"
    and "rewrite_config L rt Written change f = (r, f')"
  shows "r = Inr () \<and> (\<exists>m'. read_config L f' = Inr m' \<and> same_values (JObj m1) (JObj m'))"
proof -
  from assms(1,4) obtain m' where "tl_load L (config_text L rt m1) = Inr (JObj m')" "same_values (JObj m1) (JObj m')"
    by (auto simp: toml_ok_def)
  with assms(2,3,5) show ?thesis
    by (auto simp: rewrite_config_def write_config_def read_config_def)
qed

text \<open>The configuration of a registration: the core it adds to, and its upstream.\<close>

lemma registration_config:
  assumes "runtime_config_from_setup rt dir q m = Inr c" and "fr_upstream_url q = Some u" and "u \<noteq> []"
  obtains core r3 where "tab_of m ''core'' = Some core" and "load_config rt r3 = Inr c"
    and "get_section r3 ''core'' = Inr (setup_core dir q core)" and "upstream_endpoint r3 = Inr (Some u)"
    and "\<And>k. k \<notin> {''core'', ''provider''} \<Longrightarrow> map_of r3 k = map_of m k"
proof -
  let ?r1 = "set_default ''core'' (JObj []) m"
  obtain core r3 where core: "jget ?r1 ''core'' = JObj core"
    and r3: "put_endpoint u (dict_set ''core'' (JObj (setup_core dir q core)) ?r1) = Inr r3"
    and lc: "load_config rt r3 = Inr c"
    using assms
    by (auto simp: runtime_config_from_setup_def Let_def rbind_Inr_iff default_endpoint_Inr case_error_Inr given_def split: json.splits)
  have "tab_of m ''core'' = Some core"
    using core by (auto simp: tab_of_def set_default_def jget_def split: option.splits if_splits)
  moreover from put_endpoint_effect [OF r3] obtain pr where
    "map_of r3 = (map_of (dict_set ''core'' (JObj (setup_core dir q core)) ?r1))(''provider'' \<mapsto> JObj pr)" by auto
  moreover from this have "get_section r3 ''core'' = Inr (setup_core dir q core)" by (simp add: get_section_def jget_or_def)
  moreover have "upstream_endpoint r3 = Inr (Some u)" by (rule upstream_endpoint_put [OF r3]) simp
  ultimately show thesis using lc that [of core r3] by (simp add: set_default_def)
qed

text \<open>The core that the last step of the setup writes.\<close>

definition finalized_core :: "finalize_request \<Rightarrow> string \<Rightarrow> (string \<times> json) list \<Rightarrow> (string \<times> json) list" where
  "finalized_core q uuid core = dict_set ''node_serial'' (JStr uuid)
     (dict_set ''api_key'' (JStr (fr_api_key q)) (dict_set ''market_api_url'' (JStr (fr_api_url q)) core))"

lemma finalized_config:
  assumes "finalize_config uuid q None m = Inr m1" and "provides (fr_mode q)" and "fr_upstream_url q = Some u" and "u \<noteq> []"
    and "tab_of m ''core'' = Some core"
  shows "get_section m1 ''core'' = Inr (finalized_core q uuid core)" and "upstream_endpoint m1 = Inr (Some u)"
    and "\<And>k. k \<notin> {''core'', ''provider'', ''management''} \<Longrightarrow> map_of m1 k = map_of m k"
    and "json_walk (JObj m1) [''management'', ''setup_complete''] = JBool True"
    and "json_walk (JObj m1) [''management'', ''mode''] = JStr (mode_text (fr_mode q))"
proof -
  obtain c1 c2 where c1: "put_all ''core'' [(''market_api_url'', JStr (fr_api_url q)), (''api_key'', JStr (fr_api_key q)),
        (''node_serial'', JStr uuid)] m = Inr c1" and c2: "put_endpoint u c1 = Inr c2"
    and m1: "put_all ''management'' [(''setup_complete'', JBool True), (''setup_step'', JInt 5),
        (''mode'', JStr (mode_text (fr_mode q)))] c2 = Inr m1"
    using assms by (auto simp: finalize_config_def rbind_Inr_iff or_str_def given_def)
  from put_all_effect [OF c1] assms(5)
  have c1_map: "map_of c1 = (map_of m)(''core'' \<mapsto> JObj (finalized_core q uuid core))" by (auto simp: finalized_core_def)
  from put_endpoint_effect [OF c2] obtain pr where c2_map: "map_of c2 = (map_of c1)(''provider'' \<mapsto> JObj pr)" by auto
  from put_all_effect [OF m1] obtain mg where m1_map: "map_of m1 = (map_of c2)(''management'' \<mapsto> JObj (put_members mg
      [(''setup_complete'', JBool True), (''setup_step'', JInt 5), (''mode'', JStr (mode_text (fr_mode q)))]))" by auto
  show "get_section m1 ''core'' = Inr (finalized_core q uuid core)"
    and "\<And>k. k \<notin> {''core'', ''provider'', ''management''} \<Longrightarrow> map_of m1 k = map_of m k"
    by (simp_all add: get_section_def jget_or_def m1_map c2_map c1_map)
  show "upstream_endpoint m1 = Inr (Some u)" by (rule upstream_endpoint_put [OF c2]) (simp add: m1_map)
  show "json_walk (JObj m1) [''management'', ''setup_complete''] = JBool True"
    and "json_walk (JObj m1) [''management'', ''mode''] = JStr (mode_text (fr_mode q))" by (simp_all add: m1_map)
qed

lemma finalized_core_kept: "k \<in> kept_values \<Longrightarrow> map_of (setup_core dir q core) k = map_of (finalized_core q uuid core) k"
  by (auto simp: kept_values_def finalized_core_def setup_core_def map_of_set_default)

text \<open>The node id in the file, before and after the last step.\<close>

lemma persist_effect:
  "put_all ''core'' [(''node_id'', JStr nid)] m = Inr m' \<Longrightarrow>
    \<exists>t. tab_of m ''core'' = Some t \<and> map_of m' = (map_of m)(''core'' \<mapsto> JObj (dict_set ''node_id'' (JStr nid) t))"
  by (drule put_all_effect) auto

lemma persist_loads:
  assumes "put_all ''core'' [(''node_id'', JStr nid)] m = Inr m'" and "load_config rt m = Inr c" and "storable (JObj m)"
  shows "load_config rt m' = Inr (c\<lparr>cc_node_id := Some nid\<rparr>)"
proof -
  from persist_effect [OF assms(1)] obtain t where t: "tab_of m ''core'' = Some t"
    and m': "map_of m' = (map_of m)(''core'' \<mapsto> JObj (dict_set ''node_id'' (JStr nid) t))" by blast
  have sec: "get_section m ''core'' = Inr t" "get_section m' ''core'' = Inr (dict_set ''node_id'' (JStr nid) t)"
    using t get_section_tab [OF assms(3)] by (simp_all add: get_section_def jget_or_def m')
  have vals: "core_value (dict_set ''node_id'' (JStr nid) t) m' k = (if k = ''node_id'' then JStr nid else core_value t m k)"
    if "k \<noteq> ''core''" for k
    using that by (simp add: core_value_def jget_or_def jget_def m')
  have "upstream_endpoint m' = upstream_endpoint m" by (simp add: upstream_endpoint_def get_section_def jget_or_def m')
  then show ?thesis
    using assms(2) unfolding load_config_def sec rbind.simps Let_def
    by (simp add: vals) (elim rbind_InrE, clarsimp)
qed

lemma vals_match_null: "vals_match JNull v \<Longrightarrow> v = JNull"
  by (auto simp: vals_match_def)

text \<open>What the last step leaves in the configuration that has the node id, with respect to the one of the registration.\<close>

lemma finalized_loads:
  assumes reg: "runtime_config_from_setup rt dir q m = Inr c" and u: "fr_upstream_url q = Some u" "u \<noteq> []" and st: "storable (JObj m)"
    and mode: "provides (fr_mode q)" and uuid: "uuid \<noteq> []"
    and top: "jget m ''keystore_path'' = JNull" "jget m ''data_dir'' = JNull"
    and sub: "json_walk (JObj m) [''core'', ''keystore_path''] = JNull" "json_walk (JObj m) [''core'', ''data_dir''] = JNull"
    and m1: "put_all ''core'' [(''node_id'', JStr nid)] m = Inr m1" and same: "same_values (JObj m1) (JObj m1')"
    and m2: "finalize_config uuid q None m1' = Inr m2"
  shows "load_config rt m2 = Inr (c\<lparr>cc_node_serial := uuid, cc_node_id := Some nid,
      cc_keystore_path := ''.aim-node/keystore.json'', cc_data_dir := ''.aim-node''\<rparr>)
    \<and> cc_keystore_path c = dir @ ''/keystore.json'' \<and> cc_upstream_url c = Some u"
proof -
  from registration_config [OF reg u] obtain core r3 where core: "tab_of m ''core'' = Some core" and r3: "load_config rt r3 = Inr c"
    "get_section r3 ''core'' = Inr (setup_core dir q core)" "upstream_endpoint r3 = Inr (Some u)"
    and r3_map: "\<And>k. k \<notin> {''core'', ''provider''} \<Longrightarrow> map_of r3 k = map_of m k" by blast
  have no_paths: "map_of core ''keystore_path'' = None" "map_of core ''data_dir'' = None"
    using absent_member [OF st core] sub by blast+
  let ?core1 = "dict_set ''node_id'' (JStr nid) core"
  from persist_effect [OF m1] core have m1_map: "map_of m1 = (map_of m)(''core'' \<mapsto> JObj ?core1)" by auto
  with same_values_member [OF same, of "''core''"] obtain v where v: "map_of m1' ''core'' = Some v" "same_values (JObj ?core1) v"
    by (cases "map_of m1' ''core''") auto
  from same_values_leaf [OF v(2)] v obtain core1 where core1: "map_of m1' ''core'' = Some (JObj core1)" "same_values (JObj ?core1) (JObj core1)"
    by (cases v) auto
  then have tab: "tab_of m1' ''core'' = Some core1" by (simp add: tab_of_def)
  note fin = finalized_config [OF m2 mode u tab]
  note vals = core_value_same [OF same core1(2)]
  have reg_val: "core_value (setup_core dir q core) r3 k = core_value ?core1 m1 k"
    if "k \<in> kept_values - {''market_api_url'', ''api_key''}" for k
  proof -
    from that have "k \<notin> {''core'', ''provider'', ''node_serial'', ''keystore_path'', ''data_dir'', ''node_id'', ''market_api_url'', ''api_key''}"
      unfolding kept_values_def by auto
    then show ?thesis using r3_map [of k] by (simp add: core_value_def jget_or_def jget_def setup_core_def map_of_set_default m1_map)
  qed
  have fin_val: "core_value (finalized_core q uuid core1) m2 k = core_value core1 m1' k"
    if "k \<notin> {''market_api_url'', ''api_key'', ''node_serial'', ''core'', ''provider'', ''management''}" for k
    using that fin(3) [of k] by (simp add: core_value_def jget_or_def jget_def finalized_core_def)
  have kept: "vals_match (core_value (setup_core dir q core) r3 k) (core_value (finalized_core q uuid core1) m2 k)" if "k \<in> kept_values" for k
  proof (cases "k \<in> {''market_api_url'', ''api_key''}")
    case True
    then show ?thesis by (auto simp: core_value_def jget_or_def setup_core_def map_of_set_default finalized_core_def vals_match_def)
  next
    case False
    moreover from that have "k \<notin> {''node_serial'', ''core'', ''provider'', ''management''}" by (auto simp: kept_values_def)
    ultimately show ?thesis using reg_val [of k] fin_val [of k] vals [of k] that by simp
  qed
  have absent: "core_value (finalized_core q uuid core1) m2 ''keystore_path'' = JNull"
    "core_value (finalized_core q uuid core1) m2 ''data_dir'' = JNull"
    using vals [of "''keystore_path''"] vals [of "''data_dir''"] fin_val [of "''keystore_path''"] fin_val [of "''data_dir''"] no_paths top
    by (simp_all add: core_value_def jget_or_def jget_def m1_map vals_match_null)
  have nid: "core_value (finalized_core q uuid core1) m2 ''node_id'' = JStr nid"
    using vals [of "''node_id''"] fin_val [of "''node_id''"] by (simp add: core_value_def jget_or_def vals_match_def)
  have serial: "core_value (finalized_core q uuid core1) m2 ''node_serial'' = JStr uuid"
    by (simp add: core_value_def jget_or_def finalized_core_def)
  have "upstream_endpoint m2 = upstream_endpoint r3" by (simp add: fin(2) r3(3))
  from load_config_changed [OF r3(1,2) fin(1) kept this serial uuid absent nid]
  show ?thesis
    using load_config_fields [OF r3(1,2) _ _ r3(3), of "dir @ ''/keystore.json''"] no_paths
    by (simp add: core_value_def jget_or_def setup_core_def map_of_set_default)
qed

text \<open>The three writes of a seller's setup, one after the other, each reading the file again.\<close>

lemma setup_writes_load:
  assumes ok: "toml_ok L rt" and rd: "read_config L f = Inr m" and st: "storable (JObj m)"
    and reg: "runtime_config_from_setup rt dir q m = Inr c" and u: "fr_upstream_url q = Some u" "u \<noteq> []"
    and mode: "provides (fr_mode q)" and uuid: "uuid \<noteq> []"
    and top: "jget m ''keystore_path'' = JNull" "jget m ''data_dir'' = JNull"
    and sub: "json_walk (JObj m) [''core'', ''keystore_path''] = JNull" "json_walk (JObj m) [''core'', ''data_dir''] = JNull"
    and w1: "persist_node_id L rt Written nid f = (Inr (), f1)"
    and w2: "finalize_setup L rt Written uuid q None f1 = (Inr (), f2)"
    and w3: "persist_node_id L rt Written nid f2 = (Inr (), f3)"
  shows "\<exists>m'. read_config L f3 = Inr m'
    \<and> load_config rt m' = Inr (c\<lparr>cc_node_serial := uuid, cc_node_id := Some nid,
        cc_keystore_path := ''.aim-node/keystore.json'', cc_data_dir := ''.aim-node''\<rparr>)
    \<and> json_walk (JObj m') [''management'', ''setup_complete''] = JBool True
    \<and> json_walk (JObj m') [''management'', ''mode''] = JStr (mode_text (fr_mode q))
    \<and> cc_keystore_path c = dir @ ''/keystore.json'' \<and> cc_upstream_url c = Some u"
proof -
  let ?persist = "put_all ''core'' [(''node_id'', JStr nid)]"
  obtain m1 where m1: "?persist m = Inr m1"
    using w1 rd by (auto simp: persist_node_id_def rewrite_config_def split: sum.splits)
  have st1: "storable (JObj m1)" by (rule put_all_storable [OF m1 st]) simp
  from rewrite_config_reads_back [where change = ?persist, OF ok rd m1 st1] w1 obtain m1' where m1': "read_config L f1 = Inr m1'" "same_values (JObj m1) (JObj m1')"
    unfolding persist_node_id_def by blast
  obtain m2 where m2: "finalize_config uuid q None m1' = Inr m2"
    using w2 m1' by (auto simp: finalize_setup_def rewrite_config_def split: sum.splits)
  have "storable (JObj m1')" using m1'(2) by (simp add: same_values_def del: storable.simps)
  then have st2: "storable (JObj m2)" by (rule finalize_config_storable [OF m2])
  from rewrite_config_reads_back [where change = "finalize_config uuid q None", OF ok m1'(1) m2 st2] w2
  obtain m2' where m2': "read_config L f2 = Inr m2'" "same_values (JObj m2) (JObj m2')" unfolding finalize_setup_def by blast
  have st2': "storable (JObj m2')" using m2'(2) by (simp add: same_values_def del: storable.simps)
  obtain m3 where m3: "?persist m2' = Inr m3"
    using w3 m2' by (auto simp: persist_node_id_def rewrite_config_def split: sum.splits)
  have st3: "storable (JObj m3)" by (rule put_all_storable [OF m3 st2']) simp
  from rewrite_config_reads_back [where change = ?persist, OF ok m2'(1) m3 st3] w3 obtain m3' where m3': "read_config L f3 = Inr m3'" "same_values (JObj m3) (JObj m3')"
    unfolding persist_node_id_def by blast
  from finalized_loads [OF reg u st mode uuid top sub m1 m1'(2) m2]
  have loaded: "load_config rt m2 = Inr (c\<lparr>cc_node_serial := uuid, cc_node_id := Some nid,
      cc_keystore_path := ''.aim-node/keystore.json'', cc_data_dir := ''.aim-node''\<rparr>)"
    and c_keys: "cc_keystore_path c = dir @ ''/keystore.json''" "cc_upstream_url c = Some u" by blast+
  with persist_loads [OF m3 _ st2', of rt] load_config_same [OF m2'(2)] load_config_same [OF m3'(2)]
  have "load_config rt m3' = Inr (c\<lparr>cc_node_serial := uuid, cc_node_id := Some nid,
      cc_keystore_path := ''.aim-node/keystore.json'', cc_data_dir := ''.aim-node''\<rparr>)" by simp
  moreover have walk: "json_walk (JObj m3') [''management'', k] = json_walk (JObj m2) [''management'', k]"
    if "\<not> is_obj (json_walk (JObj m2) [''management'', k])" for k
  proof -
    from persist_effect [OF m3] have "map_of m3 ''management'' = map_of m2' ''management''" by auto
    then have m3_walk: "json_walk (JObj m3) [''management'', k] = json_walk (JObj m2') [''management'', k]" by simp
    have "json_walk (JObj m2') p = json_walk (JObj m2) p" if "\<not> is_obj (json_walk (JObj m2) p)" for p
      using m2'(2) that unfolding same_values_def by metis
    moreover have "json_walk (JObj m3') p = json_walk (JObj m3) p" if "\<not> is_obj (json_walk (JObj m3) p)" for p
      using m3'(2) that unfolding same_values_def by metis
    ultimately show ?thesis using that m3_walk by metis
  qed
  moreover obtain core1 where tab: "tab_of m1' ''core'' = Some core1"
    using m2 put_all_effect by (fastforce simp: finalize_config_def rbind_Inr_iff)
  note fin = finalized_config(4,5) [OF m2 mode u tab]
  have "json_walk (JObj m3') [''management'', ''setup_complete''] = JBool True"
    "json_walk (JObj m3') [''management'', ''mode''] = JStr (mode_text (fr_mode q))"
    by (subst walk; simp only: fin is_obj.simps; simp)+
  ultimately show ?thesis using m3'(1) c_keys by blast
qed

section \<open>Changing the configuration\<close>

lemma opt_put_storable: "opt_put sec k v m = Inr m' \<Longrightarrow> storable (JObj m) \<Longrightarrow> storable (JObj m')"
  by (cases v) (auto simp: opt_put_def simp del: storable.simps(4) dest: put_in_storable)

lemma update_config_storable:
  assumes "update_config q m = Inr (c, prev, missing)" and "storable (JObj m)"
  shows "storable (JObj c)"
proof -
  let ?c0 = "ensure_table ''management'' (ensure_table ''core'' m)"
  have c0: "storable (JObj ?c0)"
    unfolding ensure_table_default by (intro set_default_storable assms(2)) simp_all
  from assms(1) obtain c1 c2 c3 where c1: "opt_put ''management'' ''mode'' (map_option mode_text (cu_mode q)) ?c0 = Inr c1"
    and c2: "opt_put ''core'' ''market_api_url'' (cu_api_url q) c1 = Inr c2"
    and c3: "opt_put ''core'' ''api_key'' (cu_api_key q) c2 = Inr c3"
    and c4: "(case cu_upstream_url q of None \<Rightarrow> Inr c3 | Some u \<Rightarrow> put_endpoint u c3) = Inr c"
    by (auto simp: update_config_def Let_def rbind_Inr_iff)
  from opt_put_storable [OF c3 opt_put_storable [OF c2 opt_put_storable [OF c1 c0]]] c4 show ?thesis
    by (cases "cu_upstream_url q") (auto simp del: storable.simps(4) intro: put_endpoint_storable)
qed

lemma obj_get_walk:
  assumes "obj_get v k d = Inr x" and "json_walk v [k] \<noteq> JNull"
  shows "x = json_walk v [k]"
  using assms by (cases v) (auto simp: jget_or_def split: option.splits)

lemma section_walk: "json_walk (JObj m) (k # p) \<noteq> JNull \<Longrightarrow> json_walk (jget_or m k d) p = json_walk (JObj m) (k # p)"
  by (auto simp: jget_or_def split: option.splits)

lemma update_config_missing:
  assumes "update_config q m = Inr (c, prev, missing)" and "storable (JObj m)"
  shows "missing \<longleftrightarrow> json_walk (JObj c) [''management'', ''mode''] \<in> {JStr ''provider'', JStr ''both''}
      \<and> \<not> truthy (json_walk (JObj c) [''provider'', ''adapter'', ''endpoint_url''])"
proof -
  have st: "storable (JObj c)" by (rule update_config_storable [OF assms])
  from assms(1) obtain md ad up where
    md: "obj_get (jget_or c ''management'' (JObj [])) ''mode'' (JStr []) = Inr md"
    and ad: "obj_get (jget_or c ''provider'' (JObj [])) ''adapter'' (JObj []) = Inr ad"
    and up: "obj_get ad ''endpoint_url'' JNull = Inr up"
    and missing: "missing \<longleftrightarrow> (md = JStr ''provider'' \<or> md = JStr ''both'') \<and> \<not> truthy up"
    by (auto simp: update_config_def Let_def rbind_Inr_iff)
  have mode: "md = (if json_walk (JObj c) [''management'', ''mode''] = JNull then JStr []
      else json_walk (JObj c) [''management'', ''mode''])"
  proof (cases "map_of c ''management''")
    case None
    with md show ?thesis by (simp add: jget_or_def)
  next
    case (Some t)
    with storable_member [OF st] have "storable t" by blast
    with md Some storable_member [of _ "''mode''" JNull] show ?thesis
      by (cases t) (auto simp: jget_or_def simp del: storable.simps(4) split: option.splits)
  qed
  have "up = json_walk (JObj c) [''provider'', ''adapter'', ''endpoint_url'']"
  proof (cases "map_of c ''provider''")
    case None
    with ad up show ?thesis by (auto simp: jget_or_def)
  next
    case (Some t)
    with ad obtain pr where t: "t = JObj pr" "ad = jget_or pr ''adapter'' (JObj [])"
      by (cases t) (auto simp: jget_or_def)
    with up Some show ?thesis
      by (cases ad) (auto simp: jget_or_def split: option.splits)
  qed
  with mode missing show ?thesis by auto
qed

lemma update_config_prev:
  assumes "update_config q m = Inr (c, prev, missing)"
  shows "prev = json_walk (JObj m) [''management'', ''mode'']"
proof -
  let ?c0 = "ensure_table ''management'' (ensure_table ''core'' m)"
  from assms have g: "obj_get (jget ?c0 ''management'') ''mode'' JNull = Inr prev"
    by (auto simp: update_config_def Let_def rbind_Inr_iff)
  have "map_of ?c0 ''management'' = (case map_of m ''management'' of None \<Rightarrow> Some (JObj []) | Some v \<Rightarrow> Some v)"
    by (simp add: ensure_table_default map_of_set_default split: option.splits)
  with g show ?thesis
    by (cases "map_of m ''management''")
      (auto simp: jget_def jget_or_def split: option.splits elim: obj_get.elims)
qed

lemma update_config_mode:
  assumes "update_config q m = Inr (c, prev, missing)" and "cu_mode q = Some md"
  shows "json_walk (JObj c) [''management'', ''mode''] = JStr (mode_text md)"
proof -
  let ?c0 = "ensure_table ''management'' (ensure_table ''core'' m)"
  from assms obtain c1 c2 c3 where c1: "put_in ''management'' ''mode'' (JStr (mode_text md)) ?c0 = Inr c1"
    and c2: "opt_put ''core'' ''market_api_url'' (cu_api_url q) c1 = Inr c2"
    and c3: "opt_put ''core'' ''api_key'' (cu_api_key q) c2 = Inr c3"
    and c4: "(case cu_upstream_url q of None \<Rightarrow> Inr c3 | Some u \<Rightarrow> put_endpoint u c3) = Inr c"
    by (auto simp: update_config_def Let_def rbind_Inr_iff opt_put_def)
  have core: "map_of m2 ''management'' = map_of m1 ''management''" if "opt_put ''core'' k v m1 = Inr m2" for k v m1 m2
    using that by (auto simp: opt_put_def put_in_Inr split: option.splits)
  have "map_of c ''management'' = map_of c3 ''management''"
    using c4 by (cases "cu_upstream_url q") (auto dest: put_endpoint_effect)
  with core [OF c3] core [OF c2] c1 show ?thesis by (auto simp: put_in_Inr)
qed

text \<open>The configuration route. An accepted update is in the file: the requested mode can be read back,
  and a node that provides always has an endpoint, so the runtime's check on the adapter's endpoint
  cannot fail for a missing one; \<open>restart_required\<close> is reported exactly when the mode changes. An update
  that is refused (422) or fails while the file is still readable leaves the file as it was.\<close>

theorem config_update_safe:
  assumes "toml_ok L rt" and "read_config L f = Inr m" and "storable (JObj m)"
    and "config_update L rt Written rid q f = (r, f')"
  shows "case r of
      Updated restart \<Rightarrow> \<exists>m'. read_config L f' = Inr m'
        \<and> (cu_mode q = None \<or> (\<exists>md. cu_mode q = Some md \<and> json_walk (JObj m') [''management'', ''mode''] = JStr (mode_text md)))
        \<and> (json_walk (JObj m') [''management'', ''mode''] \<in> {JStr ''provider'', JStr ''both''} \<longrightarrow>
             truthy (json_walk (JObj m') [''provider'', ''adapter'', ''endpoint_url'']))
        \<and> (restart \<longleftrightarrow> (\<exists>md. cu_mode q = Some md \<and> json_walk (JObj m) [''management'', ''mode''] \<noteq> JStr (mode_text md)))
    | Rejected_Update n st \<Rightarrow> f' = f \<and> st = error_http_status (ne_code n)
    | Update_Failed e \<Rightarrow> f' = f"
proof (cases "update_config q m")
  case (Inl e)
  with assms show ?thesis by (auto simp: config_update_def)
next
  case (Inr x)
  obtain c prev missing where u: "update_config q m = Inr (c, prev, missing)" using Inr by (cases x) auto
  show ?thesis
  proof (cases missing)
    case True
    with assms u show ?thesis by (auto simp: config_update_def make_error_def)
  next
    case False
    from assms(1) update_config_storable [OF u assms(3)]
    obtain m' where m': "tl_load L (config_text L rt c) = Inr (JObj m')" "same_values (JObj c) (JObj m')"
      by (auto simp: toml_ok_def)
    then have read: "read_config L (Some (config_text L rt c)) = Inr m'" by (simp add: read_config_def)
    have walk: "if is_obj (json_walk (JObj c) p) then is_obj (json_walk (JObj m') p)
        else json_walk (JObj m') p = json_walk (JObj c) p" for p
      using m'(2) by (auto simp: same_values_def)
    let ?mode = "[''management'', ''mode'']" and ?ep = "[''provider'', ''adapter'', ''endpoint_url'']"
    have mode: "cu_mode q = None \<or> (\<exists>md. cu_mode q = Some md \<and> json_walk (JObj m') ?mode = JStr (mode_text md))"
    proof (cases "cu_mode q")
      case (Some md)
      from update_config_mode [OF u Some] walk [of ?mode] have "json_walk (JObj m') ?mode = JStr (mode_text md)"
        by (simp only: is_obj.simps if_False)
      with Some show ?thesis by blast
    qed simp
    have leaf: "json_walk (JObj c) ?mode = JStr s" if "json_walk (JObj m') ?mode = JStr s" for s
      using walk [of ?mode] that by (cases "json_walk (JObj c) ?mode") auto
    have ep: "truthy (json_walk (JObj m') ?ep)" if "json_walk (JObj m') ?mode \<in> {JStr ''provider'', JStr ''both''}"
    proof -
      from that leaf have "json_walk (JObj c) ?mode \<in> {JStr ''provider'', JStr ''both''}" by blast
      with update_config_missing [OF u assms(3)] False have "truthy (json_walk (JObj c) ?ep)" by blast
      with same_values_truthy [OF m'(2)] show ?thesis by blast
    qed
    have "r = Updated (case cu_mode q of None \<Rightarrow> False | Some md \<Rightarrow> JStr (mode_text md) \<noteq> prev)"
      and "f' = Some (config_text L rt c)"
      using assms(2,4) u False by (auto simp: config_update_def write_config_def)
    with read mode ep update_config_prev [OF u] show ?thesis
      by (cases "cu_mode q") (auto simp del: json_walk.simps)
  qed
qed

text \<open>A library for concrete runs, which stores the configuration as JSON.\<close>

definition demo_toml :: toml_lib where
  "demo_toml = \<lparr>tl_load = loads demo_rt, tl_dump = Some (\<lambda>m. dumps demo_rt '', '' '': '' (JObj m))\<rparr>"

lemma storable_jwf: "storable v \<Longrightarrow> jwf v"
  by (induction v rule: storable.induct) (auto simp: list_all_iff)

lemma demo_reads: "storable (JObj m) \<Longrightarrow> tl_load demo_toml (config_text demo_toml demo_rt m) = Inr (JObj m)"
proof -
  assume st: "storable (JObj m)"
  show ?thesis unfolding demo_toml_def config_text_def using loads_dumps [OF storable_jwf [OF st]] by simp
qed

lemma demo_toml_ok: "toml_ok demo_toml demo_rt"
  unfolding toml_ok_def
proof (intro allI impI)
  fix m assume st: "storable (JObj m)"
  from demo_reads [OF st] same_values_refl [OF st]
  show "\<exists>m'. tl_load demo_toml (config_text demo_toml demo_rt m) = Inr (JObj m') \<and> same_values (JObj m) (JObj m')" by blast
qed

definition demo_setup :: finalize_request where
  "demo_setup = \<lparr>fr_mode = Mode_Provider, fr_api_url = ''https://m'', fr_api_key = ''key'', fr_upstream_url = Some ''http://up''\<rparr>"

definition demo_update :: config_update_request where
  "demo_update = \<lparr>cu_mode = Some Mode_Both, cu_api_url = None, cu_api_key = None, cu_upstream_url = Some ''http://up''\<rparr>"

theorem config_update_safe_witness:
  "\<exists>m'. read_config demo_toml (snd (config_update demo_toml demo_rt Written ''r'' demo_update None)) = Inr m'
     \<and> truthy (json_walk (JObj m') [''provider'', ''adapter'', ''endpoint_url''])"
proof -
  have "\<exists>f'. config_update demo_toml demo_rt Written ''r'' demo_update None = (Updated True, f')"
    by (simp add: config_update_def read_config_def update_config_def demo_update_def ensure_table_def jget_def jget_or_def
        opt_put_def put_in_def put_endpoint_def write_config_def Let_def)
  then obtain b f' where u: "config_update demo_toml demo_rt Written ''r'' demo_update None = (Updated b, f')" by blast
  have "read_config demo_toml None = Inr []" "storable (JObj [])" by (simp_all add: read_config_def)
  from config_update_safe [OF demo_toml_ok this u] obtain m' where m': "read_config demo_toml f' = Inr m'"
    and md: "cu_mode demo_update = None \<or> (\<exists>md. cu_mode demo_update = Some md
        \<and> json_walk (JObj m') [''management'', ''mode''] = JStr (mode_text md))"
    and ep: "json_walk (JObj m') [''management'', ''mode''] \<in> {JStr ''provider'', JStr ''both''} \<longrightarrow>
        truthy (json_walk (JObj m') [''provider'', ''adapter'', ''endpoint_url''])"
    unfolding sum.case update_reply.case by blast
  from md have "json_walk (JObj m') [''management'', ''mode''] = JStr ''both''" by (simp add: demo_update_def del: json_walk.simps)
  with ep m' u show ?thesis by (auto simp del: json_walk.simps)
qed

text \<open>
  The fallback writer does not quote what it writes: two different configurations have the same
  file when a text contains a quotation mark and a line break, so an API key can set other keys.
\<close>

lemma fallback_writer_ambiguous:
  "write_toml rt [] (JObj [(''api_key'', JStr (''k'' @ [dquote, nl_char] @ ''node_serial = '' @ [dquote] @ ''n''))])
   = write_toml rt [] (JObj [(''api_key'', JStr ''k''), (''node_serial'', JStr ''n'')])"
  by simp

end
