(* ===== verification/Keystore.thy ===== *)
theory Keystore
  imports RelayCrypto PyObject
begin

text \<open>
  \<open>aim_node/core/crypto.py\<close>: the device's key pairs and the keystore file that holds them
  encrypted under a passphrase. The file is missing, or holds a JSON value, or holds text that
  is not JSON. The \<open>cryptography\<close> package is the \<open>key_lib\<close> record; random values (keys, salts, token
  nonces) are arguments, and so is whether the atomic replacement of the file succeeds.
\<close>

section \<open>The library and the random values\<close>

record key_lib =
  kl_pbkdf2 :: "bytes \<Rightarrow> bytes \<Rightarrow> bytes"
  kl_fernet_encrypt :: "string \<Rightarrow> bytes \<Rightarrow> bytes \<Rightarrow> bytes"
  kl_fernet_decrypt :: "string \<Rightarrow> bytes \<Rightarrow> bytes res"
  kl_ed_public :: "bytes \<Rightarrow> bytes"
  kl_x_public :: "bytes \<Rightarrow> bytes"
  kl_x_exchange :: "bytes \<Rightarrow> bytes \<Rightarrow> bytes"
  kl_hkdf :: "bytes \<Rightarrow> bytes \<Rightarrow> bytes"

record fresh_keys =
  fk_ed_private :: bytes
  fk_x_private :: bytes
  fk_ed_salt :: bytes
  fk_x_salt :: bytes
  fk_ed_iv :: bytes
  fk_x_iv :: bytes

type_synonym keypairs = "bytes \<times> bytes \<times> bytes \<times> bytes"

type_synonym keystore_file = "json res option"

section \<open>Text forms of bytes\<close>

definition latin1_decode :: "bytes \<Rightarrow> string" where
  "latin1_decode bs = map (\<lambda>b. chr (unat b)) bs"

definition latin1_encode :: "string \<Rightarrow> bytes" where
  "latin1_encode s = map (\<lambda>c. of_nat (code c)) s"

definition to_hex :: "bytes \<Rightarrow> string" where
  "to_hex bs = concat (map (\<lambda>b. [hex_char (unat b div 16), hex_char (unat b mod 16)]) bs)"

definition hex_space :: "char \<Rightarrow> bool" where
  "hex_space c \<longleftrightarrow> code c = 32 \<or> (9 \<le> code c \<and> code c \<le> 13)"

fun from_hex :: "string \<Rightarrow> bytes res" where
  "from_hex [] = Inr []"
| "from_hex (a # s) =
    (if hex_space a then from_hex s
     else case s of [] \<Rightarrow> Inl (ValueError ''non-hexadecimal number found in fromhex()'')
       | b # r \<Rightarrow> (case (hex_val a, hex_val b) of
           (Some x, Some y) \<Rightarrow> rbind (from_hex r) (\<lambda>bs. Inr (of_nat (16 * x + y) # bs))
         | _ \<Rightarrow> Inl (ValueError ''non-hexadecimal number found in fromhex()'')))"

definition urlsafe_char :: "char \<Rightarrow> char" where
  "urlsafe_char c = (if c = CHR ''+'' then CHR ''-'' else if c = CHR ''/'' then CHR ''_'' else c)"

definition urlsafe_b64encode :: "bytes \<Rightarrow> string" where
  "urlsafe_b64encode bs = map urlsafe_char (b64encode bs)"

lemma latin1_roundtrip [simp]: "latin1_encode (latin1_decode bs) = bs"
  by (induction bs) (auto simp: latin1_encode_def latin1_decode_def)

lemma hex_char_not_space: "n < 16 \<Longrightarrow> \<not> hex_space (hex_char n)"
  by (auto simp: hex_space_def hex_char_def)

lemma hex_roundtrip [simp]: "from_hex (to_hex bs) = Inr bs"
proof (induction bs)
  case (Cons b bs)
  have "unat b div 16 < 16" using unat_byte_lt [of b] by (intro less_mult_imp_div_less) simp
  moreover have "unat b mod 16 < 16" by simp
  ultimately show ?case using Cons
    by (simp add: to_hex_def hex_char_not_space)
qed (simp add: to_hex_def)

interpretation hex: codec to_hex from_hex "\<lambda>_. True"
  by unfold_locales simp

section \<open>\<open>DeviceCrypto\<close>\<close>

definition derive_fernet_key :: "key_lib \<Rightarrow> string \<Rightarrow> bytes \<Rightarrow> string" where
  "derive_fernet_key K passphrase salt = urlsafe_b64encode (kl_pbkdf2 K (utf8_encode passphrase) salt)"

definition encrypt_private_key :: "key_lib \<Rightarrow> string \<Rightarrow> bytes \<Rightarrow> bytes \<Rightarrow> bytes \<Rightarrow> bytes" where
  "encrypt_private_key K passphrase salt iv raw = kl_fernet_encrypt K (derive_fernet_key K passphrase salt) iv raw"

definition key_of_raw :: "bytes \<Rightarrow> bytes res" where
  "key_of_raw raw = (if length raw = 32 then Inr raw else Inl (ValueError ''key is 32 bytes long''))"

definition decrypt_private_key :: "key_lib \<Rightarrow> string \<Rightarrow> bytes \<Rightarrow> bytes \<Rightarrow> bytes res" where
  "decrypt_private_key K passphrase encrypted salt =
     rbind (kl_fernet_decrypt K (derive_fernet_key K passphrase salt) encrypted) key_of_raw"

text \<open>\<open>_read_keystore\<close> and \<open>_write_keystore\<close>; \<open>w\<close> is the outcome of writing and replacing the file.\<close>

definition read_keystore :: "keystore_file \<Rightarrow> json res" where
  "read_keystore f = (case f of None \<Rightarrow> Inr JNull | Some d \<Rightarrow> d)"

definition write_keystore :: "unit res \<Rightarrow> json \<Rightarrow> keystore_file \<Rightarrow> unit res \<times> keystore_file" where
  "write_keystore w data f = (case w of Inl e \<Rightarrow> (Inl e, f) | Inr _ \<Rightarrow> (Inr (), Some (Inr data)))"

text \<open>\<open>key in v\<close> and \<open>v[key]\<close> on whatever JSON value the file holds.\<close>

fun hex_field :: "json \<Rightarrow> bytes res" where
  "hex_field (JStr s) = from_hex s"
| "hex_field _ = Inl TypeError"

fun latin1_field :: "json \<Rightarrow> bytes res" where
  "latin1_field (JStr s) = Inr (latin1_encode s)"
| "latin1_field _ = Inl AttributeError"

definition load_pair :: "key_lib \<Rightarrow> string \<Rightarrow> json \<Rightarrow> string \<Rightarrow> string \<Rightarrow> string \<Rightarrow> (bytes \<times> bytes) res" where
  "load_pair K passphrase ks pub_field enc_field salt_field =
    rbind (rbind (rbind (py_item ks pub_field) hex_field) key_of_raw) (\<lambda>pub.
    rbind (rbind (py_item ks enc_field) latin1_field) (\<lambda>enc.
    rbind (rbind (py_item ks salt_field) hex_field) (\<lambda>salt.
    rbind (decrypt_private_key K passphrase enc salt) (\<lambda>priv. Inr (priv, pub)))))"

definition load_keys :: "key_lib \<Rightarrow> string \<Rightarrow> json \<Rightarrow> keypairs res" where
  "load_keys K passphrase ks =
    rbind (load_pair K passphrase ks ''ed25519_public_key'' ''encrypted_ed25519_private_key'' ''ed25519_salt'') (\<lambda>(ed, edp).
    rbind (load_pair K passphrase ks ''x25519_public_key'' ''encrypted_x25519_private_key'' ''x25519_salt'') (\<lambda>(x, xp).
      Inr (ed, edp, x, xp)))"

text \<open>The members \<open>_save_keys\<close> carries over from the file it replaces.\<close>

definition kept_fields :: "string list" where
  "kept_fields = [''platform_ed25519_public_key'', ''platform_x25519_public_key'', ''certificate'']"

fun carry_over :: "json \<Rightarrow> string list \<Rightarrow> (string \<times> json) list \<Rightarrow> (string \<times> json) list res" where
  "carry_over existing [] data = Inr data"
| "carry_over existing (k # ks) data =
    rbind (py_in k existing) (\<lambda>present.
      if present then rbind (py_item existing k) (\<lambda>v. carry_over existing ks (dict_set k v data))
      else carry_over existing ks data)"

definition key_fields :: "key_lib \<Rightarrow> string \<Rightarrow> fresh_keys \<Rightarrow> (string \<times> json) list" where
  "key_fields K passphrase R =
    [(''ed25519_public_key'', JStr (to_hex (kl_ed_public K (fk_ed_private R)))),
     (''encrypted_ed25519_private_key'',
        JStr (latin1_decode (encrypt_private_key K passphrase (fk_ed_salt R) (fk_ed_iv R) (fk_ed_private R)))),
     (''ed25519_salt'', JStr (to_hex (fk_ed_salt R))),
     (''x25519_public_key'', JStr (to_hex (kl_x_public K (fk_x_private R)))),
     (''encrypted_x25519_private_key'',
        JStr (latin1_decode (encrypt_private_key K passphrase (fk_x_salt R) (fk_x_iv R) (fk_x_private R)))),
     (''x25519_salt'', JStr (to_hex (fk_x_salt R)))]"

definition save_keys :: "key_lib \<Rightarrow> string \<Rightarrow> fresh_keys \<Rightarrow> unit res \<Rightarrow> keystore_file \<Rightarrow> unit res \<times> keystore_file" where
  "save_keys K passphrase R w f =
    (case rbind (read_keystore f) (\<lambda>v.
            carry_over (if truthy v then v else JObj []) kept_fields (key_fields K passphrase R)) of
       Inl e \<Rightarrow> (Inl e, f)
     | Inr data \<Rightarrow> write_keystore w (JObj data) f)"

definition has_keys :: "json \<Rightarrow> bool res" where
  "has_keys v = (if truthy v then py_in ''ed25519_public_key'' v else Inr False)"

definition get_or_create_keypairs ::
    "key_lib \<Rightarrow> string \<Rightarrow> fresh_keys \<Rightarrow> unit res \<Rightarrow> keystore_file \<Rightarrow> keypairs res \<times> keystore_file" where
  "get_or_create_keypairs K passphrase R w f =
    (case read_keystore f of
       Inl e \<Rightarrow> (Inl e, f)
     | Inr v \<Rightarrow>
        (case has_keys v of
           Inl e \<Rightarrow> (Inl e, f)
         | Inr True \<Rightarrow> (load_keys K passphrase v, f)
         | Inr False \<Rightarrow>
            (case save_keys K passphrase R w f of
               (Inl e, f') \<Rightarrow> (Inl e, f')
             | (Inr _, f') \<Rightarrow> (Inr (fk_ed_private R, kl_ed_public K (fk_ed_private R),
                                  fk_x_private R, kl_x_public K (fk_x_private R)), f'))))"

definition get_public_keys_b64 :: "keystore_file \<Rightarrow> (string \<times> string) res" where
  "get_public_keys_b64 f =
    rbind (read_keystore f) (\<lambda>ks.
      if \<not> truthy ks then Inl (RuntimeError ''Keystore not initialized; call get_or_create_keypairs() first'')
      else rbind (rbind (py_item ks ''ed25519_public_key'') hex_field) (\<lambda>ed.
           rbind (rbind (py_item ks ''x25519_public_key'') hex_field) (\<lambda>x.
             Inr (b64encode ed, b64encode x))))"

definition store_platform_keys ::
    "string \<Rightarrow> string \<Rightarrow> string \<Rightarrow> unit res \<Rightarrow> keystore_file \<Rightarrow> unit res \<times> keystore_file" where
  "store_platform_keys ed x cert w f =
    (case read_keystore f of
       Inl e \<Rightarrow> (Inl e, f)
     | Inr ks \<Rightarrow>
        if \<not> truthy ks then (Inl (RuntimeError ''Keystore not initialized; cannot store platform keys''), f)
        else (case ks of
           JObj m \<Rightarrow> write_keystore w (JObj (dict_set ''certificate'' (JStr cert)
                       (dict_set ''platform_x25519_public_key'' (JStr x)
                       (dict_set ''platform_ed25519_public_key'' (JStr ed) m)))) f
         | _ \<Rightarrow> (Inl TypeError, f)))"

section \<open>Messages between devices\<close>

definition derive_shared_fernet_key :: "key_lib \<Rightarrow> bytes \<Rightarrow> bytes \<Rightarrow> string" where
  "derive_shared_fernet_key K private public =
     urlsafe_b64encode (kl_hkdf K (kl_x_exchange K private public) (utf8_encode ''aim-node-device-crypto''))"

definition encrypt_for_recipient :: "key_lib \<Rightarrow> bytes \<Rightarrow> bytes \<Rightarrow> bytes \<Rightarrow> bytes \<Rightarrow> bytes" where
  "encrypt_for_recipient K sender recipient_pub iv plaintext =
     kl_fernet_encrypt K (derive_shared_fernet_key K sender recipient_pub) iv plaintext"

definition decrypt_from_sender :: "key_lib \<Rightarrow> bytes \<Rightarrow> bytes \<Rightarrow> bytes \<Rightarrow> bytes res" where
  "decrypt_from_sender K recipient sender_pub ciphertext =
     kl_fernet_decrypt K (derive_shared_fernet_key K recipient sender_pub) ciphertext"

text \<open>
  What the code relies on. Fernet decrypts what it encrypted under the same key and refuses it under
  another one; both sides of a Diffie-Hellman exchange get the same secret; public keys have 32 bytes.
\<close>

definition fernet_ok :: "key_lib \<Rightarrow> bool" where
  "fernet_ok K \<longleftrightarrow> (\<forall>k iv m. kl_fernet_decrypt K k (kl_fernet_encrypt K k iv m) = Inr m)
     \<and> (\<forall>k k' iv m. k' \<noteq> k \<longrightarrow> kl_fernet_decrypt K k' (kl_fernet_encrypt K k iv m) = Inl (LibError ''InvalidToken''))"

definition exchange_ok :: "key_lib \<Rightarrow> bool" where
  "exchange_ok K \<longleftrightarrow> (\<forall>a b. kl_x_exchange K a (kl_x_public K b) = kl_x_exchange K b (kl_x_public K a))"

definition pubs_ok :: "key_lib \<Rightarrow> bool" where
  "pubs_ok K \<longleftrightarrow> (\<forall>p. length (kl_ed_public K p) = 32 \<and> length (kl_x_public K p) = 32)"

definition fresh_ok :: "fresh_keys \<Rightarrow> bool" where
  "fresh_ok R \<longleftrightarrow> length (fk_ed_private R) = 32 \<and> length (fk_x_private R) = 32"

lemma fernet_okD: "fernet_ok K \<Longrightarrow> kl_fernet_decrypt K k (kl_fernet_encrypt K k iv m) = Inr m"
  by (simp add: fernet_ok_def)

lemma sealed_roundtrip:
  assumes "fernet_ok K" and "exchange_ok K"
  shows "decrypt_from_sender K r (kl_x_public K s) (encrypt_for_recipient K s (kl_x_public K r) iv m) = Inr m"
proof -
  have "kl_x_exchange K r (kl_x_public K s) = kl_x_exchange K s (kl_x_public K r)"
    using assms(2) by (simp add: exchange_ok_def)
  then show ?thesis using assms(1)
    by (simp add: decrypt_from_sender_def encrypt_for_recipient_def derive_shared_fernet_key_def fernet_okD)
qed

section \<open>Opening what was saved\<close>

text \<open>A keystore that holds the keys of \<open>R\<close> under a passphrase.\<close>

definition ks_lookup :: "json \<Rightarrow> string \<Rightarrow> json option" where
  "ks_lookup v k = (case v of JObj m \<Rightarrow> map_of m k | _ \<Rightarrow> None)"

definition holds_keys :: "key_lib \<Rightarrow> string \<Rightarrow> fresh_keys \<Rightarrow> keystore_file \<Rightarrow> bool" where
  "holds_keys K passphrase R f \<longleftrightarrow> (\<exists>m. f = Some (Inr (JObj m))
     \<and> (\<forall>(k, v) \<in> set (key_fields K passphrase R). map_of m k = Some v))"

lemma holds_keys_loads:
  assumes "holds_keys K p R f" and "fernet_ok K" and "pubs_ok K" and "fresh_ok R"
  shows "get_or_create_keypairs K p R' w f = (Inr (fk_ed_private R, kl_ed_public K (fk_ed_private R),
            fk_x_private R, kl_x_public K (fk_x_private R)), f)"
proof -
  from assms(1) obtain m where f: "f = Some (Inr (JObj m))"
    and m: "\<forall>(k, v) \<in> set (key_fields K p R). map_of m k = Some v"
    by (auto simp: holds_keys_def)
  then have "m \<noteq> []" by (auto simp: key_fields_def)
  with assms(2-4) f m show ?thesis
    by (simp add: get_or_create_keypairs_def read_keystore_def has_keys_def load_keys_def load_pair_def
        key_fields_def jitem_def decrypt_private_key_def encrypt_private_key_def fernet_okD key_of_raw_def
        pubs_ok_def fresh_ok_def)
qed

lemma holds_keys_refuses:
  assumes "holds_keys K p R f" and "fernet_ok K" and "pubs_ok K"
    and "derive_fernet_key K q (fk_ed_salt R) \<noteq> derive_fernet_key K p (fk_ed_salt R)"
  shows "get_or_create_keypairs K q R' w f = (Inl (LibError ''InvalidToken''), f)"
proof -
  from assms(1) obtain m where f: "f = Some (Inr (JObj m))"
    and m: "\<forall>(k, v) \<in> set (key_fields K p R). map_of m k = Some v"
    by (auto simp: holds_keys_def)
  then have "m \<noteq> []" by (auto simp: key_fields_def)
  with assms(2-4) f m show ?thesis
    by (simp add: get_or_create_keypairs_def read_keystore_def has_keys_def load_keys_def load_pair_def
        key_fields_def jitem_def decrypt_private_key_def encrypt_private_key_def key_of_raw_def
        pubs_ok_def fernet_ok_def)
qed

lemma holds_keys_public:
  assumes "holds_keys K p R f"
  shows "get_public_keys_b64 f = Inr (b64encode (kl_ed_public K (fk_ed_private R)), b64encode (kl_x_public K (fk_x_private R)))"
proof -
  from assms obtain m where f: "f = Some (Inr (JObj m))"
    and m: "\<forall>(k, v) \<in> set (key_fields K p R). map_of m k = Some v"
    by (auto simp: holds_keys_def)
  then have "m \<noteq> []" by (auto simp: key_fields_def)
  with f m show ?thesis
    by (simp add: get_public_keys_b64_def read_keystore_def key_fields_def jitem_def)
qed

lemma store_platform_holds:
  "holds_keys K p R f \<Longrightarrow> holds_keys K p R (snd (store_platform_keys ed x cert w f))"
  by (auto simp: holds_keys_def store_platform_keys_def read_keystore_def write_keystore_def key_fields_def
      split: sum.splits)

lemma carry_over_keeps:
  "carry_over v ks d = Inr d' \<Longrightarrow> k \<notin> set ks \<Longrightarrow> map_of d' k = map_of d k"
  by (induction v ks d rule: carry_over.induct)
    (auto simp: rbind_Inr_iff split: if_splits)

lemma save_keys_holds:
  assumes "save_keys K p R w f = (Inr u, f')"
  shows "holds_keys K p R f'"
proof -
  from assms obtain data v where co: "carry_over v kept_fields (key_fields K p R) = Inr data"
    and f': "f' = Some (Inr (JObj data))"
    unfolding save_keys_def by (auto simp: write_keystore_def rbind_Inr_iff split: sum.splits if_splits)
  have keep: "map_of data k = map_of (key_fields K p R) k" if "k \<in> fst ` set (key_fields K p R)" for k
    by (rule carry_over_keeps [OF co]) (use that in \<open>auto simp: key_fields_def kept_fields_def\<close>)
  have "distinct (dict_keys (key_fields K p R))" by (simp add: key_fields_def)
  then have "\<forall>(k, v) \<in> set (key_fields K p R). map_of data k = Some v"
    using keep by force
  then show ?thesis using f' by (simp add: holds_keys_def)
qed

lemma save_keys_fails_keeps: "save_keys K p R w f = (Inl e, f') \<Longrightarrow> f' = f"
  by (auto simp: save_keys_def write_keystore_def split: sum.splits)

text \<open>\<open>get_or_create_keypairs\<close> either leaves the file or has written new keys to a file without.\<close>

lemma get_or_create_cases:
  assumes "get_or_create_keypairs K p R w f = (r, f')"
  shows "f' = f \<or> (\<exists>v. read_keystore f = Inr v \<and> has_keys v = Inr False \<and> holds_keys K p R f'
     \<and> r = Inr (fk_ed_private R, kl_ed_public K (fk_ed_private R), fk_x_private R, kl_x_public K (fk_x_private R)))"
  using assms
  by (auto simp: get_or_create_keypairs_def dest: save_keys_holds save_keys_fails_keeps
      split: sum.splits bool.splits prod.splits)

section \<open>The keystore over its life\<close>

datatype keystore_op =
    Get string fresh_keys "unit res"
  | Platform string string string "unit res"

fun ks_apply :: "key_lib \<Rightarrow> keystore_file \<Rightarrow> keystore_op \<Rightarrow> keystore_file" where
  "ks_apply K f (Get p R w) = snd (get_or_create_keypairs K p R w f)"
| "ks_apply K f (Platform ed x cert w) = snd (store_platform_keys ed x cert w f)"

lemma holds_keys_get: "holds_keys K p R f \<Longrightarrow> snd (get_or_create_keypairs K q R' w f) = f"
  by (auto simp: holds_keys_def get_or_create_keypairs_def read_keystore_def has_keys_def key_fields_def)

lemma ks_apply_holds: "holds_keys K p R f \<Longrightarrow> holds_keys K p R (ks_apply K f x)"
  by (cases x) (simp_all add: holds_keys_get store_platform_holds)

interpretation keystore: op_system "ks_apply K" "holds_keys K p R"
  by unfold_locales (rule ks_apply_holds)

text \<open>C6: the key pairs of a node are created once. After the file has been created under a passphrase,
  whatever attempts to open it with any passphrase and whatever platform keys are stored in between
  (also when writing fails), the passphrase opens it again and gives the same key pairs, another
  passphrase is refused as an invalid token, and the public keys can be read without any. None of
  these attempts changes the file.\<close>

theorem keystore_opens:
  assumes "fernet_ok K" and "pubs_ok K" and "fresh_ok R"
    and "read_keystore f = Inr v" and "has_keys v = Inr False"
    and "get_or_create_keypairs K p R w f = (Inr keys, f1)"
    and "f2 = foldl (ks_apply K) f1 xs"
  shows "get_or_create_keypairs K p R' w' f2 = (Inr keys, f2)
    \<and> (derive_fernet_key K q (fk_ed_salt R) \<noteq> derive_fernet_key K p (fk_ed_salt R) \<longrightarrow>
         get_or_create_keypairs K q R' w' f2 = (Inl (LibError ''InvalidToken''), f2))
    \<and> get_public_keys_b64 f2 = Inr (b64encode (fst (snd keys)), b64encode (snd (snd (snd keys))))"
proof -
  from assms(4-6) have h1: "holds_keys K p R f1"
    and keys: "keys = (fk_ed_private R, kl_ed_public K (fk_ed_private R), fk_x_private R, kl_x_public K (fk_x_private R))"
    by (auto simp: get_or_create_keypairs_def split: prod.splits sum.splits dest: save_keys_holds)
  from keystore.run_keeps [OF h1] assms(7) have h2: "holds_keys K p R f2" by simp
  show ?thesis
    using holds_keys_loads [OF h2 assms(1-3)] holds_keys_refuses [OF h2 assms(1,2)] holds_keys_public [OF h2]
    by (simp add: keys)
qed

text \<open>A library for concrete runs: a token spells out its key, a key is the passphrase with the salt.\<close>

fun open_token :: "string \<Rightarrow> bytes \<Rightarrow> bytes res" where
  "open_token [] (b # m) = (if b = 0 then Inr m else Inl (LibError ''InvalidToken''))"
| "open_token (c # k) (b # d # m) =
     (if b = 1 \<and> d = of_nat (code c) then open_token k m else Inl (LibError ''InvalidToken''))"
| "open_token _ _ = Inl (LibError ''InvalidToken'')"

definition make_token :: "string \<Rightarrow> bytes \<Rightarrow> bytes \<Rightarrow> bytes" where
  "make_token k iv m = concat (map (\<lambda>c. [1, of_nat (code c)]) k) @ 0 # m"

definition demo_keys :: key_lib where
  "demo_keys = \<lparr>kl_pbkdf2 = (\<lambda>p s. p @ s), kl_fernet_encrypt = make_token, kl_fernet_decrypt = open_token,
     kl_ed_public = (\<lambda>p. replicate 32 1), kl_x_public = (\<lambda>p. replicate 32 2),
     kl_x_exchange = (\<lambda>_ _. []), kl_hkdf = (\<lambda>z i. z @ i)\<rparr>"

definition demo_fresh :: fresh_keys where
  "demo_fresh = \<lparr>fk_ed_private = replicate 32 7, fk_x_private = replicate 32 9,
     fk_ed_salt = [1, 2], fk_x_salt = [3, 4], fk_ed_iv = [], fk_x_iv = []\<rparr>"

lemma byte_code_inj: "(of_nat (code c) :: byte) = of_nat (code d) \<longleftrightarrow> c = d"
proof
  assume "(of_nat (code c) :: byte) = of_nat (code d)"
  then have "unat (of_nat (code c) :: byte) = unat (of_nat (code d) :: byte)" by simp
  then have "code c = code d" by (simp only: unat_byte_of_nat code_lt_256)
  then show "c = d" by simp
qed simp

lemma open_make_token: "open_token k' (make_token k iv m) = (if k' = k then Inr m else Inl (LibError ''InvalidToken''))"
proof (induction k arbitrary: k')
  case Nil
  then show ?case by (cases "(k', 0 # m)" rule: open_token.cases) (auto simp: make_token_def)
next
  case (Cons c k)
  show ?case
  proof (cases k')
    case Nil
    then show ?thesis by (simp add: make_token_def)
  next
    case (Cons d ds)
    then show ?thesis using Cons.IH [of ds] by (auto simp: make_token_def byte_code_inj)
  qed
qed

lemma demo_keys_ok: "fernet_ok demo_keys" "pubs_ok demo_keys" "exchange_ok demo_keys" "fresh_ok demo_fresh"
  by (auto simp: fernet_ok_def pubs_ok_def exchange_ok_def fresh_ok_def demo_keys_def demo_fresh_def open_make_token)

theorem keystore_opens_witness:
  "let f1 = snd (get_or_create_keypairs demo_keys ''pw'' demo_fresh (Inr ()) None);
       f2 = foldl (ks_apply demo_keys) f1 [Get ''guess'' demo_fresh (Inr ()), Platform ''A'' ''B'' ''C'' (Inr ())]
   in fst (get_or_create_keypairs demo_keys ''pw'' demo_fresh (Inr ()) f2)
        = Inr (replicate 32 7, replicate 32 1, replicate 32 9, replicate 32 2)
     \<and> fst (get_or_create_keypairs demo_keys ''guess'' demo_fresh (Inr ()) f2) = Inl (LibError ''InvalidToken'')"
proof -
  let ?keys = "(replicate 32 7, replicate 32 1, replicate 32 9, replicate 32 2) :: keypairs"
  let ?f1 = "snd (get_or_create_keypairs demo_keys ''pw'' demo_fresh (Inr ()) None)"
  have "fst (get_or_create_keypairs demo_keys ''pw'' demo_fresh (Inr ()) None) = Inr ?keys"
    by (simp add: get_or_create_keypairs_def read_keystore_def has_keys_def save_keys_def kept_fields_def
        write_keystore_def demo_fresh_def demo_keys_def)
  then have created: "get_or_create_keypairs demo_keys ''pw'' demo_fresh (Inr ()) None = (Inr ?keys, ?f1)"
    by (metis prod.collapse)
  have other: "derive_fernet_key demo_keys ''guess'' (fk_ed_salt demo_fresh) \<noteq> derive_fernet_key demo_keys ''pw'' (fk_ed_salt demo_fresh)"
    by code_simp
  have blank: "read_keystore None = Inr JNull" "has_keys JNull = Inr False"
    by (simp_all add: read_keystore_def has_keys_def)
  from keystore_opens [OF demo_keys_ok(1,2,4) blank created refl] other show ?thesis
    unfolding Let_def by (metis fst_conv)
qed

end
