(* ===== verification/NodeState.thy ===== *)
theory NodeState
  imports Config Keystore
begin

text \<open>
  \<open>aim_node/management/state.py\<close> and \<open>management/process.py\<close>: the node's management state (setup, lock,
  processes, sessions) over its two files, and starting and stopping the provider and the consumer. The
  files are the configuration and, by path, the keystores; the data directory is a normalized path
  without a final slash. Every use of a keystore takes its own random values and the outcome of a
  write (\<open>draw\<close>). A handler's \<open>stop()\<close> is taken not to raise.
\<close>

section \<open>State\<close>

record node_env =
  en_keys :: key_lib
  en_toml :: toml_lib
  en_rt :: pyrt

type_synonym draw = "fresh_keys \<times> unit res"

datatype node_phase = Phase_Setup | Phase_Locked | Phase_Ready

fun node_phase_value :: "node_phase \<Rightarrow> string" where
  "node_phase_value Phase_Setup = ''setup_incomplete''"
| "node_phase_value Phase_Locked = ''locked''"
| "node_phase_value Phase_Ready = ''ready''"

record process_status =
  ps_running :: bool
  ps_started_at :: "rat option"

record session_snapshot =
  sn_session_id :: string
  sn_role :: string
  sn_state :: string
  sn_created_at :: rat
  sn_peer_fingerprint :: string
  sn_bytes_transferred :: int

record node =
  nd_dir :: string
  nd_config :: config_file
  nd_files :: "string \<Rightarrow> keystore_file"
  nd_env_passphrase :: "string option"
  nd_setup_complete :: bool
  nd_setup_step :: int
  nd_locked :: bool
  nd_unlocked :: bool
  nd_passphrase :: "string option"
  nd_phase :: node_phase
  nd_provider :: process_status
  nd_consumer :: process_status
  nd_sessions :: "session_snapshot list"
  nd_mode :: json

definition keystore_path :: "node \<Rightarrow> string" where
  "keystore_path nd = nd_dir nd @ ''/keystore.json''"

definition backup_path :: "node \<Rightarrow> string" where
  "backup_path nd = nd_dir nd @ ''/keystore.json.bak''"

definition stopped :: process_status where
  "stopped = \<lparr>ps_running = False, ps_started_at = None\<rparr>"

definition use_keystore :: "node_env \<Rightarrow> string \<Rightarrow> string \<Rightarrow> draw \<Rightarrow> node \<Rightarrow> keypairs res \<times> node" where
  "use_keystore E path passphrase d nd =
    (case get_or_create_keypairs (en_keys E) passphrase (fst d) (snd d) (nd_files nd path) of
       (r, f') \<Rightarrow> (r, nd\<lparr>nd_files := (nd_files nd)(path := f')\<rparr>))"

definition held_passphrase :: "node \<Rightarrow> string" where
  "held_passphrase nd = (case nd_passphrase nd of None \<Rightarrow> [] | Some p \<Rightarrow> p)"

section \<open>\<open>ProcessStateStore\<close>\<close>

text \<open>\<open>_load_config\<close>: what it returns and the flags it sets. \<open>setup_complete\<close> is set before the step is read.\<close>

definition load_store_config :: "node_env \<Rightarrow> node \<Rightarrow> core_config option res \<times> node" where
  "load_store_config E nd =
    (case nd_config nd of
       None \<Rightarrow> (Inr None, nd\<lparr>nd_setup_complete := False, nd_setup_step := 0\<rparr>)
     | Some txt \<Rightarrow>
        (case tl_load (en_toml E) txt of
           Inl e \<Rightarrow> (Inl e, nd)
         | Inr (JObj raw) \<Rightarrow>
            (case jget_or raw ''management'' (JObj []) of
               JObj mgmt \<Rightarrow>
                 (let nd1 = nd\<lparr>nd_setup_complete := truthy (jget_or mgmt ''setup_complete'' (JBool False))\<rparr>
                  in case py_int (jget_or mgmt ''setup_step'' (JInt 0)) of
                       Inl e \<Rightarrow> (Inl e, nd1)
                     | Inr n \<Rightarrow> (Inr (case load_config (en_rt E) raw of Inl _ \<Rightarrow> None | Inr c \<Rightarrow> Some c),
                                nd1\<lparr>nd_setup_step := n, nd_mode := jget mgmt ''mode''\<rparr>))
             | _ \<Rightarrow> (Inl AttributeError, nd))
         | Inr _ \<Rightarrow> (Inl AttributeError, nd)))"

text \<open>\<open>_check_keystore_locked\<close> tries to open the keystore with the empty passphrase.\<close>

definition check_keystore_locked :: "node_env \<Rightarrow> draw \<Rightarrow> node \<Rightarrow> bool \<times> node" where
  "check_keystore_locked E d nd =
    (if nd_files nd (keystore_path nd) = None then (False, nd)
     else case use_keystore E (keystore_path nd) [] d nd of
            (Inl _, nd') \<Rightarrow> (True, nd')
          | (Inr _, nd') \<Rightarrow> (False, nd'))"

definition determine_node_state :: "node_env \<Rightarrow> draw \<Rightarrow> node \<Rightarrow> node" where
  "determine_node_state E d nd =
    (if \<not> nd_setup_complete nd then nd\<lparr>nd_phase := Phase_Setup\<rparr>
     else if nd_unlocked nd then nd\<lparr>nd_phase := Phase_Ready\<rparr>
     else case check_keystore_locked E d nd of
            (True, nd') \<Rightarrow> nd'\<lparr>nd_locked := True, nd_phase := Phase_Locked\<rparr>
          | (False, nd') \<Rightarrow> nd'\<lparr>nd_unlocked := True, nd_locked := False, nd_phase := Phase_Ready\<rparr>)"

definition blank_node :: "string \<Rightarrow> config_file \<Rightarrow> (string \<Rightarrow> keystore_file) \<Rightarrow> string option \<Rightarrow> node" where
  "blank_node dir cfg files env =
    \<lparr>nd_dir = dir, nd_config = cfg, nd_files = files, nd_env_passphrase = env, nd_setup_complete = False,
     nd_setup_step = 0, nd_locked = False, nd_unlocked = False, nd_passphrase = None, nd_phase = Phase_Setup,
     nd_provider = stopped, nd_consumer = stopped, nd_sessions = [], nd_mode = JNull\<rparr>"

definition new_store :: "node_env \<Rightarrow> draw \<Rightarrow> string \<Rightarrow> config_file \<Rightarrow> (string \<Rightarrow> keystore_file) \<Rightarrow> string option \<Rightarrow> node res" where
  "new_store E d dir cfg files env =
    (case load_store_config E (blank_node dir cfg files env) of
       (Inl e, _) \<Rightarrow> Inl e
     | (Inr _, nd) \<Rightarrow> Inr (determine_node_state E d nd))"

text \<open>\<open>unlock\<close>; any failure to open the keystore is \<open>False\<close>.\<close>

definition unlock :: "node_env \<Rightarrow> draw \<Rightarrow> string \<Rightarrow> node \<Rightarrow> bool \<times> node" where
  "unlock E d passphrase nd =
    (case use_keystore E (keystore_path nd) passphrase d nd of
       (Inl _, nd') \<Rightarrow> (False, nd')
     | (Inr _, nd') \<Rightarrow> (True, nd'\<lparr>nd_passphrase := Some passphrase, nd_locked := False, nd_unlocked := True,
                               nd_phase := Phase_Ready\<rparr>))"

definition mark_setup_step :: "int \<Rightarrow> node \<Rightarrow> node" where
  "mark_setup_step n nd = nd\<lparr>nd_setup_step := n\<rparr>"

definition mark_setup_complete :: "node_mode \<Rightarrow> node \<Rightarrow> node" where
  "mark_setup_complete md nd = nd\<lparr>nd_setup_complete := True, nd_setup_step := 5, nd_mode := JStr (mode_text md)\<rparr>"

definition get_status :: "node \<Rightarrow> json" where
  "get_status nd = JObj [(''setup_complete'', JBool (nd_setup_complete nd)), (''locked'', JBool (nd_locked nd)),
     (''unlocked'', JBool (nd_unlocked nd)), (''current_step'', JInt (nd_setup_step nd)),
     (''node_state'', JStr (node_phase_value (nd_phase nd)))]"

definition store_add_session :: "session_snapshot \<Rightarrow> node \<Rightarrow> node" where
  "store_add_session s nd = nd\<lparr>nd_sessions := nd_sessions nd @ [s]\<rparr>"

definition store_remove_session :: "string \<Rightarrow> node \<Rightarrow> node" where
  "store_remove_session sid nd = nd\<lparr>nd_sessions := filter (\<lambda>s. sn_session_id s \<noteq> sid) (nd_sessions nd)\<rparr>"

definition snapshot_fields :: "(rat \<Rightarrow> json) \<Rightarrow> session_snapshot \<Rightarrow> (string \<times> json) list" where
  "snapshot_fields num s = [(''id'', JStr (sn_session_id s)), (''role'', JStr (sn_role s)), (''state'', JStr (sn_state s)),
     (''created_at'', num (sn_created_at s)), (''peer_fingerprint'', JStr (sn_peer_fingerprint s)),
     (''bytes_transferred'', JInt (sn_bytes_transferred s))]"

definition get_session :: "(rat \<Rightarrow> json) \<Rightarrow> string \<Rightarrow> node \<Rightarrow> json option" where
  "get_session num sid nd =
    map_option (\<lambda>s. JObj (snapshot_fields num s @ [(''metering_events'', JArr []), (''latency_ms'', JNull), (''error_count'', JInt 0)]))
      (find (\<lambda>s. sn_session_id s = sid) (nd_sessions nd))"

definition get_sessions :: "(rat \<Rightarrow> json) \<Rightarrow> node \<Rightarrow> json list" where
  "get_sessions num nd = map (\<lambda>s. JObj (snapshot_fields num s)) (nd_sessions nd)"

section \<open>\<open>ProcessManager\<close>\<close>

datatype proc_exn = Precondition_Exn | Locked_Exn | Already_Running_Exn | Not_Running_Exn | Proc_Failed exn

definition check_ready :: "node \<Rightarrow> proc_exn + unit" where
  "check_ready nd = (if \<not> nd_setup_complete nd then Inl Precondition_Exn
                     else if nd_locked nd then Inl Locked_Exn else Inr ())"

definition propagate_passphrase :: "node \<Rightarrow> node" where
  "propagate_passphrase nd = nd\<lparr>nd_env_passphrase := Some (held_passphrase nd)\<rparr>"

text \<open>\<open>_load_raw_config\<close>: a missing file is a \<open>FileNotFoundError\<close>.\<close>

definition load_raw_config :: "node_env \<Rightarrow> node \<Rightarrow> (string \<times> json) list res" where
  "load_raw_config E nd = (case nd_config nd of
     None \<Rightarrow> Inl OSError
   | Some txt \<Rightarrow> rbind (tl_load (en_toml E) txt) (expect_obj AttributeError))"

text \<open>
  \<open>start_provider\<close>. The provider runs in a task of its own; \<open>up\<close> says whether its \<open>handler.start()\<close> has
  come through. The call returns normally either way.
\<close>

definition start_provider :: "node_env \<Rightarrow> draw \<Rightarrow> bool \<Rightarrow> rat \<Rightarrow> node \<Rightarrow> (proc_exn + unit) \<times> node" where
  "start_provider E d up now nd =
    (case check_ready nd of
       Inl e \<Rightarrow> (Inl e, nd)
     | Inr _ \<Rightarrow>
        if ps_running (nd_provider nd) then (Inl Already_Running_Exn, nd)
        else (let nd1 = propagate_passphrase nd
              in case rbind (load_raw_config E nd1) (\<lambda>raw. rbind (load_config (en_rt E) raw) (\<lambda>c.
                        rbind (load_adapter_config raw) (\<lambda>a. Inr (c, a)))) of
                   Inl e \<Rightarrow> (Inl (Proc_Failed e), nd1)
                 | Inr (c, a) \<Rightarrow>
                    (case use_keystore E (cc_keystore_path c) (held_passphrase nd1) d nd1 of
                       (Inl e, nd2) \<Rightarrow> (Inl (Proc_Failed e), nd2)
                     | (Inr _, nd2) \<Rightarrow> (Inr (), if up then nd2\<lparr>nd_provider := \<lparr>ps_running = True, ps_started_at = Some now\<rparr>\<rparr> else nd2))))"

definition stop_provider :: "node \<Rightarrow> (proc_exn + unit) \<times> node" where
  "stop_provider nd = (if \<not> ps_running (nd_provider nd) then (Inl Not_Running_Exn, nd)
                       else (Inr (), nd\<lparr>nd_provider := stopped\<rparr>))"

text \<open>\<open>start_consumer\<close>; \<open>bound\<close> is what starting the local proxy gives: its port, or an error.\<close>

definition start_consumer :: "node_env \<Rightarrow> int res \<Rightarrow> rat \<Rightarrow> node \<Rightarrow> (proc_exn + int) \<times> node" where
  "start_consumer E bound now nd =
    (case check_ready nd of
       Inl e \<Rightarrow> (Inl e, nd)
     | Inr _ \<Rightarrow>
        if ps_running (nd_consumer nd) then (Inl Already_Running_Exn, nd)
        else (let nd1 = propagate_passphrase nd
              in case rbind (load_raw_config E nd1) (load_config (en_rt E)) of
                   Inl e \<Rightarrow> (Inl (Proc_Failed e), nd1)
                 | Inr c \<Rightarrow> (case bound of
                     Inl e \<Rightarrow> (Inl (Proc_Failed e), nd1)
                   | Inr port \<Rightarrow> (Inr port, nd1\<lparr>nd_consumer := \<lparr>ps_running = True, ps_started_at = Some now\<rparr>\<rparr>))))"

definition stop_consumer :: "node \<Rightarrow> (proc_exn + unit) \<times> node" where
  "stop_consumer nd = (if \<not> ps_running (nd_consumer nd) then (Inl Not_Running_Exn, nd)
                       else (Inr (), nd\<lparr>nd_consumer := stopped\<rparr>))"

definition shutdown :: "node \<Rightarrow> node" where
  "shutdown nd = snd (stop_consumer (snd (stop_provider nd)))"

text \<open>\<open>autostart\<close>: what the mode asks for, every error ignored.\<close>

definition autostart :: "node_env \<Rightarrow> draw \<Rightarrow> bool \<Rightarrow> int res \<Rightarrow> rat \<Rightarrow> node \<Rightarrow> node" where
  "autostart E d up bound now nd =
    (let nd1 = (if nd_mode nd \<in> {JStr ''provider'', JStr ''both''} then snd (start_provider E d up now nd) else nd)
     in if nd_mode nd \<in> {JStr ''consumer'', JStr ''both''} then snd (start_consumer E bound now nd1) else nd1)"

end
