(* ===== verification/NodeRoutes.thy ===== *)
theory NodeRoutes
  imports NodeState
begin

text \<open>
  The routes of \<open>aim_node/management/routes.py\<close> that change the node, with the exception handlers of
  \<open>management/app.py\<close> that turn what they raise into a status: setup, lock, unlock, key rotation,
  reload, starting and stopping. The market's answer to a registration is an argument, as are the
  random values and the outcomes of writing files. Rebuilding the marketplace facade is in \<open>App\<close>.
\<close>

section \<open>Replies\<close>

datatype route_reply = Ok_Reply | Err_Reply error_code int

text \<open>The exception handlers: what the client sees of an exception a route lets through.\<close>

fun reply_of_exn :: "exn \<Rightarrow> route_reply" where
  "reply_of_exn e = (if is_value_error e then Err_Reply CONFIG_INVALID 422 else Err_Reply INTERNAL_ERROR 500)"

fun reply_of_config :: "config_exn \<Rightarrow> route_reply" where
  "reply_of_config (Config_Error m) = Err_Reply CONFIG_INVALID 422"
| "reply_of_config (Config_Other e) = reply_of_exn e"

fun reply_of_proc :: "proc_exn \<Rightarrow> route_reply" where
  "reply_of_proc Precondition_Exn = Err_Reply SETUP_INCOMPLETE 412"
| "reply_of_proc Locked_Exn = Err_Reply NODE_LOCKED 423"
| "reply_of_proc Already_Running_Exn = Err_Reply ALREADY_RUNNING 409"
| "reply_of_proc Not_Running_Exn = Err_Reply NOT_RUNNING 409"
| "reply_of_proc (Proc_Failed e) = reply_of_exn e"

definition proc_reply :: "(proc_exn + 'a) \<times> node \<Rightarrow> route_reply \<times> node" where
  "proc_reply x = (case fst x of Inl e \<Rightarrow> reply_of_proc e | Inr _ \<Rightarrow> Ok_Reply, snd x)"

section \<open>Starting and stopping\<close>

text \<open>What the outside decides during one request: draws, write outcomes, and how the processes come up.\<close>

record request_luck =
  rl_draw :: "nat \<Rightarrow> draw"
  rl_write :: "nat \<Rightarrow> write_outcome"
  rl_up :: bool
  rl_bound :: "int res"
  rl_now :: rat

definition route_provider_start :: "node_env \<Rightarrow> request_luck \<Rightarrow> node \<Rightarrow> route_reply \<times> node" where
  "route_provider_start E U nd = proc_reply (start_provider E (rl_draw U 0) (rl_up U) (rl_now U) nd)"

definition route_provider_stop :: "node \<Rightarrow> route_reply \<times> node" where
  "route_provider_stop nd = proc_reply (stop_provider nd)"

definition restart_provider :: "node_env \<Rightarrow> draw \<Rightarrow> request_luck \<Rightarrow> node \<Rightarrow> (proc_exn + unit) \<times> node" where
  "restart_provider E d U nd =
    (case stop_provider nd of
       (Inl e, nd') \<Rightarrow> (Inl e, nd')
     | (Inr _, nd') \<Rightarrow> start_provider E d (rl_up U) (rl_now U) nd')"

definition route_provider_restart :: "node_env \<Rightarrow> request_luck \<Rightarrow> node \<Rightarrow> route_reply \<times> node" where
  "route_provider_restart E U nd = proc_reply (restart_provider E (rl_draw U 0) U nd)"

definition route_consumer_start :: "node_env \<Rightarrow> request_luck \<Rightarrow> node \<Rightarrow> route_reply \<times> node" where
  "route_consumer_start E U nd = proc_reply (start_consumer E (rl_bound U) (rl_now U) nd)"

definition route_consumer_stop :: "node \<Rightarrow> route_reply \<times> node" where
  "route_consumer_stop nd = proc_reply (stop_consumer nd)"

definition route_autostart :: "node_env \<Rightarrow> draw \<Rightarrow> request_luck \<Rightarrow> node \<Rightarrow> node" where
  "route_autostart E d U nd = autostart E d (rl_up U) (rl_bound U) (rl_now U) nd"

text \<open>\<open>provider_reload\<close> reads the configuration again and restarts a running provider.\<close>

definition provider_reload :: "node_env \<Rightarrow> request_luck \<Rightarrow> node \<Rightarrow> route_reply \<times> node" where
  "provider_reload E U nd =
    (case load_store_config E nd of
       (Inl e, nd1) \<Rightarrow> (reply_of_exn e, nd1)
     | (Inr _, nd1) \<Rightarrow>
        (let nd2 = determine_node_state E (rl_draw U 0) nd1
         in if ps_running (nd_provider nd2) then proc_reply (restart_provider E (rl_draw U 1) U nd2)
            else (Ok_Reply, nd2)))"

section \<open>Lock, unlock, keys\<close>

definition lock_node :: "node \<Rightarrow> route_reply \<times> node" where
  "lock_node nd =
    (let nd1 = (if ps_running (nd_provider nd) then snd (stop_provider nd) else nd);
         nd2 = (if ps_running (nd_consumer nd1) then snd (stop_consumer nd1) else nd1)
     in (Ok_Reply, nd2\<lparr>nd_env_passphrase := None, nd_passphrase := None, nd_locked := True, nd_unlocked := False,
                       nd_phase := Phase_Locked\<rparr>))"

definition route_unlock :: "node_env \<Rightarrow> request_luck \<Rightarrow> string \<Rightarrow> node \<Rightarrow> route_reply \<times> node" where
  "route_unlock E U passphrase nd =
    (case unlock E (rl_draw U 0) passphrase nd of
       (False, nd') \<Rightarrow> (Err_Reply AUTH_FAILED 401, nd')
     | (True, nd') \<Rightarrow> (Ok_Reply, route_autostart E (rl_draw U 1) U nd'))"

text \<open>
  \<open>keypair_rotate\<close>: the old keystore becomes the backup (in place of an older backup), a new one is made
  under the passphrase in memory, and the market is told; \<open>told\<close> is what the facade answers, if there
  is one.
\<close>

definition keypair_rotate :: "node_env \<Rightarrow> request_luck \<Rightarrow> unit res option \<Rightarrow> node \<Rightarrow> route_reply \<times> node" where
  "keypair_rotate E U told nd =
    (let nd1 = (if nd_files nd (keystore_path nd) \<noteq> None
                then nd\<lparr>nd_files := (nd_files nd)(backup_path nd := nd_files nd (keystore_path nd), keystore_path nd := None)\<rparr>
                else nd)
     in case use_keystore E (keystore_path nd1) (held_passphrase nd1) (rl_draw U 0) nd1 of
          (Inl e, nd2) \<Rightarrow> (reply_of_exn e, nd2)
        | (Inr _, nd2) \<Rightarrow>
           (case get_public_keys_b64 (nd_files nd2 (keystore_path nd2)) of
              Inl e \<Rightarrow> (reply_of_exn e, nd2)
            | Inr _ \<Rightarrow> (case told of
                 Some (Inl e) \<Rightarrow> (reply_of_exn e, nd2)
               | _ \<Rightarrow> (Ok_Reply, nd2))))"

section \<open>Setup\<close>

text \<open>Writing a configuration file from a route.\<close>

definition node_write :: "((config_exn + unit) \<times> config_file) \<Rightarrow> node \<Rightarrow> (config_exn + unit) \<times> node" where
  "node_write x nd = (fst x, nd\<lparr>nd_config := snd x\<rparr>)"

definition setup_keypair :: "node_env \<Rightarrow> request_luck \<Rightarrow> string option \<Rightarrow> node \<Rightarrow> route_reply \<times> node" where
  "setup_keypair E U passphrase nd =
    (if nd_files nd (keystore_path nd) \<noteq> None then (Err_Reply ALREADY_EXISTS 409, nd)
     else case use_keystore E (keystore_path nd) (case passphrase of None \<Rightarrow> [] | Some p \<Rightarrow> p) (rl_draw U 0) nd of
            (Inl e, nd1) \<Rightarrow> (reply_of_exn e, nd1)
          | (Inr _, nd1) \<Rightarrow>
             (let nd2 = mark_setup_step 2 nd1
              in case node_write (persist_setup_step (en_toml E) (en_rt E) (rl_write U 0) 2 (nd_config nd2)) nd2 of
                   (Inl e, nd3) \<Rightarrow> (reply_of_config e, nd3)
                 | (Inr _, nd3) \<Rightarrow> (Ok_Reply, nd3)))"

text \<open>\<open>setup_test_connection\<close> moves to step 3 when the market's health endpoint answers 200.\<close>

definition setup_test_connection :: "node_env \<Rightarrow> request_luck \<Rightarrow> int option \<Rightarrow> node \<Rightarrow> route_reply \<times> node" where
  "setup_test_connection E U answer nd =
    (if answer = Some 200 then
       (let nd1 = mark_setup_step 3 nd
        in case node_write (persist_setup_step (en_toml E) (en_rt E) (rl_write U 0) 3 (nd_config nd1)) nd1 of
             (Inl e, nd2) \<Rightarrow> (reply_of_config e, nd2)
           | (Inr _, nd2) \<Rightarrow> (Ok_Reply, nd2))
     else (Ok_Reply, nd))"

fun registration_failure :: "market_exn \<Rightarrow> route_reply" where
  "registration_failure (Market_HTTP_Error st m) = Err_Reply (ne_code (make_market_error [] st m ''/api/v1/aim/nodes/register'' None)) 502"
| "registration_failure (Market_Error m) =
     (if contains ''timeout'' (lower m) then Err_Reply MARKET_TIMEOUT 504 else Err_Reply MARKET_UNREACHABLE 502)"
| "registration_failure _ = Err_Reply INTERNAL_ERROR 500"

text \<open>The seller's registration: the key pair of the data directory is registered with the market.\<close>

definition register_seller ::
    "node_env \<Rightarrow> request_luck \<Rightarrow> finalize_request \<Rightarrow> (keypairs \<Rightarrow> market_exn + (string \<times> json) list) \<Rightarrow> node \<Rightarrow> (route_reply + string) \<times> node" where
  "register_seller E U q market nd =
    (case read_config (en_toml E) (nd_config nd) of
       Inl _ \<Rightarrow> (Inl (Err_Reply INTERNAL_ERROR 500), nd)
     | Inr raw \<Rightarrow>
        (case runtime_config_from_setup (en_rt E) (nd_dir nd) q raw of
           Inl _ \<Rightarrow> (Inl (Err_Reply INTERNAL_ERROR 500), nd)
         | Inr c \<Rightarrow>
            if \<not> given (cc_upstream_url c) then (Inl (Err_Reply INTERNAL_ERROR 500), nd)
            else (case use_keystore E (keystore_path nd) (held_passphrase nd) (rl_draw U 0) nd of
                (Inl _, nd1) \<Rightarrow> (Inl (Err_Reply INTERNAL_ERROR 500), nd1)
              | (Inr keys, nd1) \<Rightarrow>
                 (case market keys of
                    Inl e \<Rightarrow> (Inl (registration_failure e), nd1)
                  | Inr reg \<Rightarrow> (case jget reg ''node_id'' of
                       JStr s \<Rightarrow> if s = [] then (Inl (Err_Reply INTERNAL_ERROR 500), nd1) else (Inr s, nd1)
                     | _ \<Rightarrow> (Inl (Err_Reply INTERNAL_ERROR 500), nd1))))))"

text \<open>The writes of \<open>setup_finalize\<close>, one after the other; a \<open>None\<close> leaves out the two of the node id.\<close>

fun write_steps :: "((config_file \<Rightarrow> (config_exn + unit) \<times> config_file)) list \<Rightarrow> node \<Rightarrow> (config_exn + unit) \<times> node" where
  "write_steps [] nd = (Inr (), nd)"
| "write_steps (step # steps) nd =
    (case node_write (step (nd_config nd)) nd of
       (Inl e, nd1) \<Rightarrow> (Inl e, nd1)
     | (Inr _, nd1) \<Rightarrow> write_steps steps nd1)"

definition setup_steps ::
    "node_env \<Rightarrow> request_luck \<Rightarrow> string \<Rightarrow> finalize_request \<Rightarrow> string option \<Rightarrow> (config_file \<Rightarrow> (config_exn + unit) \<times> config_file) list" where
  "setup_steps E U uuid q node_id =
    (let fin = finalize_setup (en_toml E) (en_rt E) (rl_write U 1) uuid q None
     in case node_id of
          None \<Rightarrow> [fin]
        | Some s \<Rightarrow> [persist_node_id (en_toml E) (en_rt E) (rl_write U 0) s, fin,
                     persist_node_id (en_toml E) (en_rt E) (rl_write U 2) s])"

definition finish_setup ::
    "node_env \<Rightarrow> request_luck \<Rightarrow> string \<Rightarrow> finalize_request \<Rightarrow> string option \<Rightarrow> node \<Rightarrow> route_reply \<times> node" where
  "finish_setup E U uuid q node_id nd =
    (case write_steps (setup_steps E U uuid q node_id) nd of
       (Inl e, nd1) \<Rightarrow> (reply_of_config e, nd1)
     | (Inr _, nd1) \<Rightarrow>
         (Ok_Reply, route_autostart E (rl_draw U 2) U
            (determine_node_state E (rl_draw U 1) (mark_setup_complete (fr_mode q) nd1))))"

definition setup_finalize ::
    "node_env \<Rightarrow> request_luck \<Rightarrow> string \<Rightarrow> finalize_request \<Rightarrow> (keypairs \<Rightarrow> market_exn + (string \<times> json) list) \<Rightarrow> node \<Rightarrow> route_reply \<times> node" where
  "setup_finalize E U uuid q market nd =
    (if \<not> valid_finalize q then (Err_Reply CONFIG_INVALID 422, nd)
     else if provides (fr_mode q) then
       (case register_seller E U q market nd of
          (Inl rep, nd1) \<Rightarrow> (rep, nd1)
        | (Inr s, nd1) \<Rightarrow> finish_setup E U uuid q (Some s) nd1)
     else finish_setup E U uuid q None nd)"

definition route_config_update :: "node_env \<Rightarrow> request_luck \<Rightarrow> config_update_request \<Rightarrow> node \<Rightarrow> route_reply \<times> node" where
  "route_config_update E U q nd =
    (if \<not> valid_config_update q then (Err_Reply CONFIG_INVALID 422, nd)
     else case config_update (en_toml E) (en_rt E) (rl_write U 0) [] q (nd_config nd) of
            (Update_Failed e, f') \<Rightarrow> (reply_of_config e, nd\<lparr>nd_config := f'\<rparr>)
          | (Rejected_Update n st, f') \<Rightarrow> (Err_Reply (ne_code n) st, nd\<lparr>nd_config := f'\<rparr>)
          | (Updated _, f') \<Rightarrow> (Ok_Reply, nd\<lparr>nd_config := f',
                nd_mode := (case cu_mode q of None \<Rightarrow> nd_mode nd | Some md \<Rightarrow> JStr (mode_text md))\<rparr>))"

text \<open>\<open>session_detail\<close> and the part of \<open>session_kill\<close> that concerns the store.\<close>

definition route_session_detail :: "(rat \<Rightarrow> json) \<Rightarrow> string \<Rightarrow> node \<Rightarrow> route_reply + json" where
  "route_session_detail num sid nd = (case get_session num sid nd of None \<Rightarrow> Inl (Err_Reply NOT_FOUND 404) | Some v \<Rightarrow> Inr v)"

definition session_kill :: "string \<Rightarrow> node \<Rightarrow> route_reply \<times> node" where
  "session_kill sid nd = (if find (\<lambda>s. sn_session_id s = sid) (nd_sessions nd) = None then (Err_Reply NOT_FOUND 404, nd)
                          else (Ok_Reply, store_remove_session sid nd))"

section \<open>The node as an operation system\<close>

datatype node_op =
    Op_Keypair request_luck "string option"
  | Op_Test_Connection request_luck "int option"
  | Op_Finalize request_luck string finalize_request "keypairs \<Rightarrow> market_exn + (string \<times> json) list"
  | Op_Unlock request_luck string
  | Op_Lock
  | Op_Rotate request_luck "unit res option"
  | Op_Reload request_luck
  | Op_Provider_Start request_luck
  | Op_Provider_Stop
  | Op_Provider_Restart request_luck
  | Op_Consumer_Start request_luck
  | Op_Consumer_Stop
  | Op_Config request_luck config_update_request
  | Op_Session session_snapshot
  | Op_Kill string
  | Op_Shutdown

fun node_request :: "node_env \<Rightarrow> node_op \<Rightarrow> node \<Rightarrow> route_reply \<times> node" where
  "node_request E (Op_Keypair U pass) nd = setup_keypair E U pass nd"
| "node_request E (Op_Test_Connection U answer) nd = setup_test_connection E U answer nd"
| "node_request E (Op_Finalize U uuid q market) nd = setup_finalize E U uuid q market nd"
| "node_request E (Op_Unlock U pass) nd = route_unlock E U pass nd"
| "node_request E Op_Lock nd = lock_node nd"
| "node_request E (Op_Rotate U told) nd = keypair_rotate E U told nd"
| "node_request E (Op_Reload U) nd = provider_reload E U nd"
| "node_request E (Op_Provider_Start U) nd = route_provider_start E U nd"
| "node_request E Op_Provider_Stop nd = route_provider_stop nd"
| "node_request E (Op_Provider_Restart U) nd = route_provider_restart E U nd"
| "node_request E (Op_Consumer_Start U) nd = route_consumer_start E U nd"
| "node_request E Op_Consumer_Stop nd = route_consumer_stop nd"
| "node_request E (Op_Config U q) nd = route_config_update E U q nd"
| "node_request E (Op_Session s) nd = (Ok_Reply, store_add_session s nd)"
| "node_request E (Op_Kill sid) nd = session_kill sid nd"
| "node_request E Op_Shutdown nd = (Ok_Reply, shutdown nd)"

definition node_apply :: "node_env \<Rightarrow> node \<Rightarrow> node_op \<Rightarrow> node" where
  "node_apply E nd x = snd (node_request E x nd)"

text \<open>What lock and process handling see of a node; most steps change only one or two of these.\<close>

abbreviation lock_view :: "node \<Rightarrow> bool \<times> bool \<times> string option \<times> node_phase" where
  "lock_view nd \<equiv> (nd_locked nd, nd_unlocked nd, nd_passphrase nd, nd_phase nd)"

abbreviation proc_view :: "node \<Rightarrow> process_status \<times> process_status" where
  "proc_view nd \<equiv> (nd_provider nd, nd_consumer nd)"

lemma use_keystore_frame:
  assumes "use_keystore E path p d nd = (r, nd')"
  shows "nd' = nd\<lparr>nd_files := nd_files nd'\<rparr>"
  using assms by (auto simp: use_keystore_def split: prod.splits)

lemma use_keystore_view:
  assumes "use_keystore E path p d nd = (r, nd')"
  shows "lock_view nd' = lock_view nd" "proc_view nd' = proc_view nd" "nd_dir nd' = nd_dir nd"
    "nd_setup_complete nd' = nd_setup_complete nd" "nd_env_passphrase nd' = nd_env_passphrase nd"
    "nd_config nd' = nd_config nd" "nd_mode nd' = nd_mode nd"
  by (subst use_keystore_frame [OF assms], simp)+

lemma use_keystore_all:
  assumes "use_keystore E path p d nd = (r, nd')"
  shows "nd_locked nd' = nd_locked nd \<and> nd_unlocked nd' = nd_unlocked nd \<and> nd_passphrase nd' = nd_passphrase nd
    \<and> nd_phase nd' = nd_phase nd \<and> nd_provider nd' = nd_provider nd \<and> nd_consumer nd' = nd_consumer nd
    \<and> nd_setup_complete nd' = nd_setup_complete nd \<and> nd_dir nd' = nd_dir nd
    \<and> nd_env_passphrase nd' = nd_env_passphrase nd \<and> nd_config nd' = nd_config nd \<and> nd_mode nd' = nd_mode nd"
  using use_keystore_view [OF assms] by simp

lemma load_store_config_view:
  assumes "load_store_config E nd = (r, nd')"
  shows "lock_view nd' = lock_view nd" "proc_view nd' = proc_view nd" "nd_dir nd' = nd_dir nd"
    "nd_files nd' = nd_files nd" "nd_env_passphrase nd' = nd_env_passphrase nd" "nd_config nd' = nd_config nd"
  using assms by (auto simp: load_store_config_def Let_def split: option.splits sum.splits json.splits)

lemma node_write_view:
  assumes "node_write x nd = (r, nd')"
  shows "lock_view nd' = lock_view nd" "proc_view nd' = proc_view nd" "nd_dir nd' = nd_dir nd"
    "nd_files nd' = nd_files nd" "nd_env_passphrase nd' = nd_env_passphrase nd"
    "nd_setup_complete nd' = nd_setup_complete nd" "nd_mode nd' = nd_mode nd"
  using assms by (auto simp: node_write_def)

lemma write_steps_view:
  assumes "write_steps steps nd = (r, nd')"
  shows "lock_view nd' = lock_view nd \<and> proc_view nd' = proc_view nd \<and> nd_dir nd' = nd_dir nd
    \<and> nd_files nd' = nd_files nd \<and> nd_env_passphrase nd' = nd_env_passphrase nd
    \<and> nd_setup_complete nd' = nd_setup_complete nd \<and> nd_mode nd' = nd_mode nd"
  using assms
proof (induction steps nd rule: write_steps.induct)
  case (2 step steps nd)
  obtain r1 nd1 where w: "node_write (step (nd_config nd)) nd = (r1, nd1)" by fastforce
  note v = node_write_view [OF w]
  show ?case
  proof (cases r1)
    case (Inl e)
    with 2 w v show ?thesis by simp
  next
    case (Inr u)
    with 2 w have "lock_view nd' = lock_view nd1 \<and> proc_view nd' = proc_view nd1 \<and> nd_dir nd' = nd_dir nd1
      \<and> nd_files nd' = nd_files nd1 \<and> nd_env_passphrase nd' = nd_env_passphrase nd1
      \<and> nd_setup_complete nd' = nd_setup_complete nd1 \<and> nd_mode nd' = nd_mode nd1" by simp
    with v show ?thesis by simp
  qed
qed simp

section \<open>The invariant\<close>

definition status_ok :: "process_status \<Rightarrow> bool" where
  "status_ok p \<longleftrightarrow> (ps_running p \<longleftrightarrow> ps_started_at p \<noteq> None)"

definition node_inv :: "node \<Rightarrow> bool" where
  "node_inv nd \<longleftrightarrow> \<not> (nd_locked nd \<and> nd_unlocked nd) \<and> (nd_passphrase nd \<noteq> None \<longrightarrow> nd_unlocked nd)
     \<and> (nd_phase nd = Phase_Ready \<longrightarrow> nd_unlocked nd) \<and> (nd_phase nd = Phase_Locked \<longrightarrow> nd_locked nd)
     \<and> status_ok (nd_provider nd) \<and> status_ok (nd_consumer nd)"

lemma node_inv_view:
  "lock_view nd' = lock_view nd \<Longrightarrow> proc_view nd' = proc_view nd \<Longrightarrow> node_inv nd' = node_inv nd"
  by (simp add: node_inv_def)

lemma determine_cases:
  assumes "nd' = determine_node_state E d nd"
  shows "proc_view nd' = proc_view nd \<and> nd_passphrase nd' = nd_passphrase nd \<and> nd_dir nd' = nd_dir nd
    \<and> nd_env_passphrase nd' = nd_env_passphrase nd \<and> nd_setup_complete nd' = nd_setup_complete nd \<and> nd_mode nd' = nd_mode nd
    \<and> ((nd_locked nd', nd_unlocked nd') = (nd_locked nd, nd_unlocked nd) \<and> nd_files nd' = nd_files nd
         \<and> nd_phase nd' = (if nd_setup_complete nd then Phase_Ready else Phase_Setup) \<and> (nd_setup_complete nd \<longrightarrow> nd_unlocked nd)
       \<or> nd_setup_complete nd \<and> \<not> nd_unlocked nd \<and>
         (case check_keystore_locked E d nd of (b, nd1) \<Rightarrow> nd_files nd' = nd_files nd1
            \<and> nd_locked nd' = b \<and> nd_unlocked nd' = (\<not> b) \<and> nd_phase nd' = (if b then Phase_Locked else Phase_Ready)))"
proof (cases "nd_setup_complete nd \<and> \<not> nd_unlocked nd")
  case False
  with assms show ?thesis by (auto simp: determine_node_state_def)
next
  case True
  show ?thesis
  proof (cases "nd_files nd (keystore_path nd)")
    case None
    with True assms show ?thesis by (simp add: determine_node_state_def check_keystore_locked_def)
  next
    case (Some f)
    obtain r nd1 where u: "use_keystore E (keystore_path nd) [] d nd = (r, nd1)" by fastforce
    from True Some u use_keystore_all [OF u] assms show ?thesis
      by (cases r) (simp_all add: determine_node_state_def check_keystore_locked_def)
  qed
qed

lemma determine_inv:
  assumes "node_inv nd"
  shows "node_inv (determine_node_state E d nd)"
  using assms determine_cases [OF refl, of E d nd]
  by (auto simp: node_inv_def split: prod.splits if_splits)

lemma unlock_cases:
  assumes "unlock E d p nd = (b, nd')"
  shows "proc_view nd' = proc_view nd \<and> nd_dir nd' = nd_dir nd \<and> nd_env_passphrase nd' = nd_env_passphrase nd
    \<and> nd_setup_complete nd' = nd_setup_complete nd \<and> nd_mode nd' = nd_mode nd
    \<and> (case use_keystore E (keystore_path nd) p d nd of (r, nd1) \<Rightarrow> nd_files nd' = nd_files nd1 \<and> (b \<longleftrightarrow> \<not> isl r))
    \<and> (if b then lock_view nd' = (False, True, Some p, Phase_Ready) else lock_view nd' = lock_view nd)"
proof -
  obtain r nd1 where u: "use_keystore E (keystore_path nd) p d nd = (r, nd1)" by fastforce
  from u use_keystore_all [OF u] assms show ?thesis
    by (cases r) (auto simp: unlock_def)
qed

lemma unlock_inv: "node_inv nd \<Longrightarrow> node_inv (snd (unlock E d p nd))"
proof -
  assume inv: "node_inv nd"
  obtain b nd' where u: "unlock E d p nd = (b, nd')" by fastforce
  from unlock_cases [OF u] inv u show ?thesis by (cases b) (auto simp: node_inv_def)
qed

lemma start_provider_cases:
  assumes "start_provider E d up now nd = (r, nd')"
  shows "lock_view nd' = lock_view nd \<and> nd_consumer nd' = nd_consumer nd \<and> nd_dir nd' = nd_dir nd
    \<and> nd_setup_complete nd' = nd_setup_complete nd \<and> nd_mode nd' = nd_mode nd
    \<and> (nd' = nd \<or> check_ready nd = Inr () \<and> \<not> ps_running (nd_provider nd) \<and> nd_env_passphrase nd' = Some (held_passphrase nd))
    \<and> nd_provider nd' = (if \<not> isl r \<and> up then \<lparr>ps_running = True, ps_started_at = Some now\<rparr> else nd_provider nd)
    \<and> (\<not> isl r \<longrightarrow> check_ready nd = Inr () \<and> \<not> ps_running (nd_provider nd))"
proof (cases "check_ready nd = Inr () \<and> \<not> ps_running (nd_provider nd)")
  case False
  then have "\<exists>e. start_provider E d up now nd = (Inl e, nd)"
    by (cases "check_ready nd") (simp_all add: start_provider_def)
  with assms show ?thesis by auto
next
  case True
  define nd1 where "nd1 = propagate_passphrase nd"
  define conf where "conf = rbind (load_raw_config E nd1) (\<lambda>raw. rbind (load_config (en_rt E) raw) (\<lambda>c.
                        rbind (load_adapter_config raw) (\<lambda>a. Inr (c, a))))"
  have eq: "start_provider E d up now nd =
      (case conf of
         Inl e \<Rightarrow> (Inl (Proc_Failed e), nd1)
       | Inr (c, a) \<Rightarrow> (case use_keystore E (cc_keystore_path c) (held_passphrase nd1) d nd1 of
            (Inl e, nd2) \<Rightarrow> (Inl (Proc_Failed e), nd2)
          | (Inr _, nd2) \<Rightarrow> (Inr (), if up then nd2\<lparr>nd_provider := \<lparr>ps_running = True, ps_started_at = Some now\<rparr>\<rparr> else nd2)))"
    using True unfolding start_provider_def Let_def nd1_def conf_def by simp
  have nd1: "lock_view nd1 = lock_view nd" "proc_view nd1 = proc_view nd" "nd_dir nd1 = nd_dir nd"
    "nd_setup_complete nd1 = nd_setup_complete nd" "nd_mode nd1 = nd_mode nd" "nd_env_passphrase nd1 = Some (held_passphrase nd)"
    by (simp_all add: nd1_def propagate_passphrase_def)
  show ?thesis
  proof (cases conf)
    case (Inl e)
    with eq assms True nd1 show ?thesis by auto
  next
    case (Inr ca)
    obtain c a where ca: "ca = (c, a)" by fastforce
    obtain r1 nd2 where u: "use_keystore E (cc_keystore_path c) (held_passphrase nd1) d nd1 = (r1, nd2)" by fastforce
    from eq assms True nd1 Inr ca u use_keystore_all [OF u] show ?thesis
      by (cases r1) auto
  qed
qed

lemma start_provider_inv: "node_inv nd \<Longrightarrow> node_inv (snd (start_provider E d up now nd))"
proof -
  assume inv: "node_inv nd"
  obtain r nd' where s: "start_provider E d up now nd = (r, nd')" by fastforce
  from start_provider_cases [OF s] inv s show ?thesis by (auto simp: node_inv_def status_ok_def)
qed

lemma start_consumer_cases:
  assumes "start_consumer E b now nd = (r, nd')"
  shows "lock_view nd' = lock_view nd \<and> nd_provider nd' = nd_provider nd \<and> nd_dir nd' = nd_dir nd
    \<and> nd_setup_complete nd' = nd_setup_complete nd \<and> nd_mode nd' = nd_mode nd \<and> nd_files nd' = nd_files nd
    \<and> (nd' = nd \<or> check_ready nd = Inr () \<and> \<not> ps_running (nd_consumer nd) \<and> nd_env_passphrase nd' = Some (held_passphrase nd))
    \<and> nd_consumer nd' = (if \<not> isl r then \<lparr>ps_running = True, ps_started_at = Some now\<rparr> else nd_consumer nd)"
  using assms
  by (cases "check_ready nd"; cases "ps_running (nd_consumer nd)")
    (auto simp: start_consumer_def propagate_passphrase_def held_passphrase_def Let_def split: sum.splits)

lemma start_consumer_inv: "node_inv nd \<Longrightarrow> node_inv (snd (start_consumer E b now nd))"
proof -
  assume inv: "node_inv nd"
  obtain r nd' where s: "start_consumer E b now nd = (r, nd')" by fastforce
  from start_consumer_cases [OF s] inv s show ?thesis by (auto simp: node_inv_def status_ok_def)
qed

lemma stop_inv: "node_inv nd \<Longrightarrow> node_inv (snd (stop_provider nd))" "node_inv nd \<Longrightarrow> node_inv (snd (stop_consumer nd))"
  by (auto simp: node_inv_def stop_provider_def stop_consumer_def stopped_def status_ok_def)

lemma proc_reply_snd [simp]: "snd (proc_reply x) = snd x"
  by (simp add: proc_reply_def)

lemma restart_inv: "node_inv nd \<Longrightarrow> node_inv (snd (restart_provider E d U nd))"
  using stop_inv(1) [of nd] start_provider_inv
  by (fastforce simp: restart_provider_def split: prod.splits sum.splits)

lemma autostart_inv: "node_inv nd \<Longrightarrow> node_inv (route_autostart E d U nd)"
  by (simp add: route_autostart_def autostart_def Let_def start_provider_inv start_consumer_inv)

lemma load_store_config_inv: "load_store_config E nd = (r, nd') \<Longrightarrow> node_inv nd' = node_inv nd"
  by (rule node_inv_view) (erule load_store_config_view)+

lemma proc_reply_node: "proc_reply (r, nd') = (rep, nd'') \<Longrightarrow> nd'' = nd'"
  by (simp add: proc_reply_def)

lemma provider_reload_inv: "node_inv nd \<Longrightarrow> node_inv (snd (provider_reload E U nd))"
proof -
  assume inv: "node_inv nd"
  obtain r nd1 where l: "load_store_config E nd = (r, nd1)" by fastforce
  with inv load_store_config_inv have "node_inv nd1" by blast
  with l show ?thesis
    by (cases r) (simp_all add: provider_reload_def Let_def determine_inv restart_inv)
qed

lemma lock_node_effect:
  "snd (lock_node nd) = nd\<lparr>nd_env_passphrase := None, nd_passphrase := None, nd_locked := True, nd_unlocked := False,
     nd_phase := Phase_Locked, nd_provider := (if ps_running (nd_provider nd) then stopped else nd_provider nd),
     nd_consumer := (if ps_running (nd_consumer nd) then stopped else nd_consumer nd)\<rparr>"
  by (simp add: lock_node_def Let_def stop_provider_def stop_consumer_def)

lemma lock_node_inv: "node_inv nd \<Longrightarrow> node_inv (snd (lock_node nd))"
  by (auto simp: lock_node_effect node_inv_def stopped_def status_ok_def)

lemma route_unlock_inv: "node_inv nd \<Longrightarrow> node_inv (snd (route_unlock E U p nd))"
  using unlock_inv [of nd E "rl_draw U 0" p]
  by (auto simp: route_unlock_def autostart_inv split: prod.splits bool.splits)

lemma keypair_rotate_view:
  "lock_view (snd (keypair_rotate E U told nd)) = lock_view nd \<and> proc_view (snd (keypair_rotate E U told nd)) = proc_view nd"
proof -
  define nd1 where "nd1 = (if nd_files nd (keystore_path nd) \<noteq> None
      then nd\<lparr>nd_files := (nd_files nd)(backup_path nd := nd_files nd (keystore_path nd), keystore_path nd := None)\<rparr> else nd)"
  obtain r nd2 where u: "use_keystore E (keystore_path nd1) (held_passphrase nd1) (rl_draw U 0) nd1 = (r, nd2)" by fastforce
  have "snd (keypair_rotate E U told nd) = nd2"
    unfolding keypair_rotate_def nd1_def [symmetric] Let_def u by (auto split: sum.splits option.splits)
  moreover have "lock_view nd1 = lock_view nd" "proc_view nd1 = proc_view nd" by (simp_all add: nd1_def)
  ultimately show ?thesis using use_keystore_all [OF u] by simp
qed

lemma keypair_rotate_inv: "node_inv nd \<Longrightarrow> node_inv (snd (keypair_rotate E U told nd))"
  using keypair_rotate_view [of E U told nd] node_inv_view [of "snd (keypair_rotate E U told nd)" nd] by blast

lemma setup_keypair_inv: "node_inv nd \<Longrightarrow> node_inv (snd (setup_keypair E U pass nd))"
proof (cases "nd_files nd (keystore_path nd)")
  case None
  assume inv: "node_inv nd"
  obtain r nd1 where u: "use_keystore E (keystore_path nd) (case pass of None \<Rightarrow> [] | Some p \<Rightarrow> p) (rl_draw U 0) nd = (r, nd1)"
    by fastforce
  have "node_inv nd1" using inv use_keystore_all [OF u] by (auto simp: node_inv_def)
  then show ?thesis using None u
    by (cases r) (auto simp: setup_keypair_def Let_def node_write_def mark_setup_step_def node_inv_def split: sum.splits)
qed (simp add: setup_keypair_def)

lemma setup_test_connection_inv: "node_inv nd \<Longrightarrow> node_inv (snd (setup_test_connection E U a nd))"
  by (auto simp: setup_test_connection_def Let_def node_write_def mark_setup_step_def node_inv_def split: sum.splits)

lemma finish_setup_inv: "node_inv nd \<Longrightarrow> node_inv (snd (finish_setup E U uuid q i nd))"
proof -
  assume inv: "node_inv nd"
  obtain r nd1 where w: "write_steps (setup_steps E U uuid q i) nd = (r, nd1)" by fastforce
  have inv1: "node_inv nd1" using inv write_steps_view [OF w] node_inv_view [of nd1 nd] by simp
  then have "node_inv (mark_setup_complete (fr_mode q) nd1)" by (simp add: mark_setup_complete_def node_inv_def)
  then show ?thesis using w inv1
    by (cases r) (simp_all add: finish_setup_def autostart_inv determine_inv)
qed

lemma register_seller_view:
  assumes "register_seller E U q market nd = (r, nd')"
  shows "lock_view nd' = lock_view nd \<and> proc_view nd' = proc_view nd \<and> nd_dir nd' = nd_dir nd
    \<and> nd_env_passphrase nd' = nd_env_passphrase nd \<and> nd_setup_complete nd' = nd_setup_complete nd
    \<and> (nd_files nd' = nd_files nd \<or> nd_files nd' = nd_files (snd (use_keystore E (keystore_path nd) (held_passphrase nd) (rl_draw U 0) nd)))"
proof -
  obtain k nd1 where u: "use_keystore E (keystore_path nd) (held_passphrase nd) (rl_draw U 0) nd = (k, nd1)" by fastforce
  have "nd' = nd \<or> nd' = nd1"
    using assms u by (auto simp: register_seller_def split: sum.splits json.splits if_splits)
  then show ?thesis using use_keystore_all [OF u] u by auto
qed

lemma setup_finalize_inv: "node_inv nd \<Longrightarrow> node_inv (snd (setup_finalize E U uuid q market nd))"
proof -
  assume inv: "node_inv nd"
  obtain r nd1 where g: "register_seller E U q market nd = (r, nd1)" by fastforce
  from register_seller_view [OF g] inv node_inv_view [of nd1 nd] have "node_inv nd1" by blast
  with inv g show ?thesis
    by (cases r) (simp_all add: setup_finalize_def finish_setup_inv)
qed

lemma route_config_update_inv: "node_inv nd \<Longrightarrow> node_inv (snd (route_config_update E U q nd))"
  by (auto simp: route_config_update_def node_inv_def split: prod.splits update_reply.splits)

lemma node_apply_inv: "node_inv nd \<Longrightarrow> node_inv (node_apply E nd x)"
  by (cases x) (simp_all add: node_apply_def setup_keypair_inv setup_test_connection_inv setup_finalize_inv route_unlock_inv
      lock_node_inv keypair_rotate_inv provider_reload_inv route_provider_start_def route_provider_stop_def
      route_provider_restart_def route_consumer_start_def route_consumer_stop_def start_provider_inv stop_inv restart_inv
      start_consumer_inv route_config_update_inv shutdown_def session_kill_def store_add_session_def
      store_remove_session_def node_inv_def [of "nd\<lparr>nd_sessions := _\<rparr>"] node_inv_def [of nd])

interpretation node: op_system "node_apply E" node_inv
  by unfold_locales (rule node_apply_inv)

lemma new_store_inv: "new_store E d dir cfg files env = Inr nd \<Longrightarrow> node_inv nd"
proof -
  assume n: "new_store E d dir cfg files env = Inr nd"
  obtain r nd1 where l: "load_store_config E (blank_node dir cfg files env) = (r, nd1)" by fastforce
  have "node_inv (blank_node dir cfg files env)" by (simp add: blank_node_def node_inv_def stopped_def status_ok_def)
  with load_store_config_inv [OF l] have "node_inv nd1" by simp
  with n l show ?thesis by (cases r) (auto simp: new_store_def determine_inv)
qed

text \<open>C12: the life of a node. From start-up, along every sequence of requests with any answers of the market,
  the disk and the processes: a node is never locked and unlocked at once; a passphrase is kept in
  memory only while the node is unlocked, so locking it forgets it; it reports ready only when unlocked
  and locked only when locked; and a process is reported running exactly when it has a start time.\<close>

theorem node_run:
  assumes "new_store E d dir cfg files env = Inr nd0" and "nd = foldl (node_apply E) nd0 ops"
  shows "\<not> (nd_locked nd \<and> nd_unlocked nd) \<and> (nd_passphrase nd \<noteq> None \<longrightarrow> nd_unlocked nd)
     \<and> (nd_phase nd = Phase_Ready \<longrightarrow> nd_unlocked nd) \<and> (nd_phase nd = Phase_Locked \<longrightarrow> nd_locked nd)
     \<and> (ps_running (nd_provider nd) \<longleftrightarrow> ps_started_at (nd_provider nd) \<noteq> None)
     \<and> (ps_running (nd_consumer nd) \<longleftrightarrow> ps_started_at (nd_consumer nd) \<noteq> None)"
  using node.run_keeps [OF new_store_inv [OF assms(1)], of E ops] assms(2)
  by (simp add: node_inv_def status_ok_def)

end
