(* ===== verification/NodeSafety.thy ===== *)
theory NodeSafety
  imports NodeRoutes
begin

text \<open>
  What the lock of the node guarantees along every sequence of requests, what a start of the provider
  has checked, and what becomes of passphrases during setup and key rotation.
\<close>

section \<open>Locking\<close>

text \<open>The requests that do not open the lock: no unlock with a passphrase that gives the keystore's key, and
  no key rotation.\<close>

fun keeps_lock :: "node_env \<Rightarrow> string \<Rightarrow> fresh_keys \<Rightarrow> node_op \<Rightarrow> bool" where
  "keeps_lock E p R (Op_Unlock U q) \<longleftrightarrow>
     derive_fernet_key (en_keys E) q (fk_ed_salt R) \<noteq> derive_fernet_key (en_keys E) p (fk_ed_salt R)"
| "keeps_lock E p R (Op_Rotate U told) \<longleftrightarrow> False"
| "keeps_lock E p R _ \<longleftrightarrow> True"

definition sealed :: "string \<Rightarrow> keystore_file \<Rightarrow> node \<Rightarrow> bool" where
  "sealed dir f nd \<longleftrightarrow> nd_locked nd \<and> \<not> nd_unlocked nd \<and> nd_passphrase nd = None \<and> nd_env_passphrase nd = None
     \<and> \<not> ps_running (nd_provider nd) \<and> \<not> ps_running (nd_consumer nd)
     \<and> nd_dir nd = dir \<and> nd_files nd (keystore_path nd) = f"

lemma sealed_cong:
  assumes "sealed dir f nd" and "lock_view nd' = lock_view nd" and "proc_view nd' = proc_view nd" and "nd_dir nd' = nd_dir nd"
    and "nd_files nd' = nd_files nd" and "nd_env_passphrase nd' = nd_env_passphrase nd"
  shows "sealed dir f nd'"
  using assms by (auto simp: sealed_def keystore_path_def)

lemma sealed_use:
  assumes "sealed dir f nd" and "holds_keys (en_keys E) p R f" and "fernet_ok (en_keys E)" and "pubs_ok (en_keys E)"
    and "derive_fernet_key (en_keys E) q (fk_ed_salt R) \<noteq> derive_fernet_key (en_keys E) p (fk_ed_salt R)"
  shows "use_keystore E (keystore_path nd) q d nd = (Inl (LibError ''InvalidToken''), nd)"
proof -
  have f: "nd_files nd (keystore_path nd) = f" using assms(1) by (simp add: sealed_def)
  with holds_keys_refuses [OF assms(2-5)] have "use_keystore E (keystore_path nd) q d nd
      = (Inl (LibError ''InvalidToken''), nd\<lparr>nd_files := (nd_files nd)(keystore_path nd := f)\<rparr>)"
    by (simp add: use_keystore_def)
  also have "nd\<lparr>nd_files := (nd_files nd)(keystore_path nd := f)\<rparr> = nd"
    using f by (metis fun_upd_triv node.surjective node.update_convs(3))
  finally show ?thesis .
qed

lemma sealed_starts_nothing:
  assumes "sealed dir f nd"
  shows "\<exists>e. e \<in> {Precondition_Exn, Locked_Exn} \<and> start_provider E d up now nd = (Inl e, nd) \<and> start_consumer E b now nd = (Inl e, nd)"
  using assms by (auto simp: sealed_def start_provider_def start_consumer_def check_ready_def)

lemma sealed_start_nodes:
  assumes "sealed dir f nd"
  shows "snd (start_provider E d up now nd) = nd" "snd (start_consumer E b now nd) = nd"
proof -
  from sealed_starts_nothing [OF assms, of E d up now b] obtain e
    where "start_provider E d up now nd = (Inl e, nd)" "start_consumer E b now nd = (Inl e, nd)" by blast
  then show "snd (start_provider E d up now nd) = nd" "snd (start_consumer E b now nd) = nd" by simp_all
qed

lemma sealed_autostart: "sealed dir f nd \<Longrightarrow> route_autostart E d U nd = nd"
  by (simp add: route_autostart_def autostart_def Let_def sealed_start_nodes)

lemma sealed_determine:
  assumes "sealed dir f nd" and "holds_keys (en_keys E) p R f" and "fernet_ok (en_keys E)" and "pubs_ok (en_keys E)"
    and "derive_fernet_key (en_keys E) [] (fk_ed_salt R) \<noteq> derive_fernet_key (en_keys E) p (fk_ed_salt R)"
  shows "sealed dir f (determine_node_state E d nd)"
  using assms(1,2) sealed_use [OF assms] unfolding determine_node_state_def check_keystore_locked_def
  by (auto simp: sealed_def keystore_path_def holds_keys_def)

lemma sealed_reload:
  assumes "sealed dir f nd" and "holds_keys (en_keys E) p R f" and "fernet_ok (en_keys E)" and "pubs_ok (en_keys E)"
    and "derive_fernet_key (en_keys E) [] (fk_ed_salt R) \<noteq> derive_fernet_key (en_keys E) p (fk_ed_salt R)"
  shows "sealed dir f (snd (provider_reload E U nd))"
proof -
  obtain r nd1 where l: "load_store_config E nd = (r, nd1)" by fastforce
  from sealed_cong [OF assms(1) load_store_config_view(1,2,3,4,5) [OF l]] have s1: "sealed dir f nd1" .
  from sealed_determine [OF this assms(2-5)] have "sealed dir f (determine_node_state E (rl_draw U 0) nd1)" .
  with s1 l show ?thesis by (cases r) (auto simp: provider_reload_def Let_def sealed_def)
qed

lemma sealed_finish:
  assumes "sealed dir f nd" and "holds_keys (en_keys E) p R f" and "fernet_ok (en_keys E)" and "pubs_ok (en_keys E)"
    and "derive_fernet_key (en_keys E) [] (fk_ed_salt R) \<noteq> derive_fernet_key (en_keys E) p (fk_ed_salt R)"
  shows "sealed dir f (snd (finish_setup E U uuid q i nd))"
proof -
  obtain r nd1 where w: "write_steps (setup_steps E U uuid q i) nd = (r, nd1)" by fastforce
  have s1: "sealed dir f nd1" using sealed_cong [OF assms(1)] write_steps_view [OF w] by simp
  then have "sealed dir f (mark_setup_complete (fr_mode q) nd1)"
    by (auto simp: sealed_def mark_setup_complete_def keystore_path_def)
  from sealed_determine [OF this assms(2-5)]
  have "sealed dir f (determine_node_state E d (mark_setup_complete (fr_mode q) nd1))" for d .
  with s1 w show ?thesis by (cases r) (simp_all add: finish_setup_def sealed_autostart [of dir f])
qed

lemma sealed_finalize:
  assumes "sealed dir f nd" and "holds_keys (en_keys E) p R f" and "fernet_ok (en_keys E)" and "pubs_ok (en_keys E)"
    and "derive_fernet_key (en_keys E) [] (fk_ed_salt R) \<noteq> derive_fernet_key (en_keys E) p (fk_ed_salt R)"
  shows "sealed dir f (snd (setup_finalize E U uuid q market nd))"
proof (cases "provides (fr_mode q)")
  case True
  have "held_passphrase nd = []" using assms(1) by (simp add: sealed_def held_passphrase_def)
  with sealed_use [OF assms(1-4,5)] have "\<exists>rep. register_seller E U q market nd = (Inl rep, nd)"
    by (auto simp: register_seller_def split: sum.splits)
  with True assms(1) show ?thesis by (auto simp: setup_finalize_def)
qed (simp add: setup_finalize_def assms(1) sealed_finish [OF assms])

text \<open>The requests that only write what a sealed node does not rest on, or stop processes.\<close>

lemmas plain_routes = setup_keypair_def setup_test_connection_def node_write_def mark_setup_step_def
  route_config_update_def store_add_session_def session_kill_def store_remove_session_def shutdown_def
  stop_provider_def stop_consumer_def route_provider_stop_def route_consumer_stop_def
  restart_provider_def route_provider_restart_def

lemma sealed_step:
  assumes "sealed dir f nd" and "holds_keys (en_keys E) p R f" and "fernet_ok (en_keys E)" and "pubs_ok (en_keys E)"
    and "derive_fernet_key (en_keys E) [] (fk_ed_salt R) \<noteq> derive_fernet_key (en_keys E) p (fk_ed_salt R)"
    and "keeps_lock E p R x"
  shows "sealed dir f (node_apply E nd x)"
proof (cases x)
  case (Op_Unlock U q)
  with assms(6) sealed_use [OF assms(1-4), of q] assms(1) show ?thesis
    by (simp add: node_apply_def route_unlock_def unlock_def)
next
  case (Op_Provider_Start U)
  with sealed_start_nodes [OF assms(1)] assms(1) show ?thesis by (simp add: node_apply_def route_provider_start_def)
next
  case (Op_Consumer_Start U)
  with sealed_start_nodes [OF assms(1)] assms(1) show ?thesis by (simp add: node_apply_def route_consumer_start_def)
next
  case (Op_Reload U)
  then show ?thesis by (simp add: node_apply_def sealed_reload [OF assms(1-5)])
next
  case (Op_Finalize U uuid q market)
  then show ?thesis by (simp add: node_apply_def sealed_finalize [OF assms(1-5)])
next
  case Op_Lock
  with assms(1) show ?thesis by (auto simp: node_apply_def lock_node_effect sealed_def keystore_path_def)
next
  case (Op_Keypair U pass)
  have "nd_files nd (keystore_path nd) \<noteq> None" using assms(1,2) by (auto simp: sealed_def holds_keys_def)
  with Op_Keypair assms(1) show ?thesis by (auto simp: node_apply_def setup_keypair_def)
next
  case (Op_Rotate U told)
  with assms(6) show ?thesis by simp
qed (use assms(1) in \<open>auto simp: node_apply_def plain_routes sealed_def keystore_path_def Let_def
       split: sum.splits prod.splits update_reply.splits\<close>)

lemma sealed_run:
  assumes "sealed dir f nd" and "holds_keys (en_keys E) p R f" and "fernet_ok (en_keys E)" and "pubs_ok (en_keys E)"
    and "derive_fernet_key (en_keys E) [] (fk_ed_salt R) \<noteq> derive_fernet_key (en_keys E) p (fk_ed_salt R)"
    and "list_all (keeps_lock E p R) ops"
  shows "sealed dir f (foldl (node_apply E) nd ops)"
  using assms(1,6)
proof (induction ops arbitrary: nd)
  case (Cons x ops)
  from sealed_step [OF Cons.prems(1) assms(2-5)] Cons.prems(2) have "sealed dir f (node_apply E nd x)" by simp
  from Cons.IH [OF this] Cons.prems(2) show ?case by simp
qed simp

lemma lock_node_sealed: "sealed (nd_dir nd) (nd_files nd (keystore_path nd)) (snd (lock_node nd))"
  by (auto simp: sealed_def lock_node_effect keystore_path_def stopped_def)

text \<open>C5: a locked node stays locked. When its keystore is protected by a passphrase, then after the lock
  request, and along every sequence of requests except key rotation and an unlock that gives the
  keystore's key, the node holds no passphrase in memory or in the environment, no process runs, every
  start is refused with 412 or 423, and the keystore is untouched; the right passphrase opens it again.\<close>

theorem locked_stays_locked:
  assumes "fernet_ok (en_keys E)" and "pubs_ok (en_keys E)" and "fresh_ok R"
    and "holds_keys (en_keys E) p R (nd_files nd (keystore_path nd))"
    and "derive_fernet_key (en_keys E) [] (fk_ed_salt R) \<noteq> derive_fernet_key (en_keys E) p (fk_ed_salt R)"
    and "list_all (keeps_lock E p R) ops" and "nd' = foldl (node_apply E) (snd (lock_node nd)) ops"
  shows "nd_locked nd' \<and> \<not> nd_unlocked nd' \<and> nd_passphrase nd' = None \<and> nd_env_passphrase nd' = None
    \<and> \<not> ps_running (nd_provider nd') \<and> \<not> ps_running (nd_consumer nd')
    \<and> nd_files nd' (keystore_path nd') = nd_files nd (keystore_path nd)
    \<and> fst (route_provider_start E U nd') \<in> {Err_Reply SETUP_INCOMPLETE 412, Err_Reply NODE_LOCKED 423}
    \<and> fst (route_consumer_start E U nd') \<in> {Err_Reply SETUP_INCOMPLETE 412, Err_Reply NODE_LOCKED 423}
    \<and> fst (route_unlock E U p nd') = Ok_Reply"
proof -
  let ?f = "nd_files nd (keystore_path nd)"
  have s: "sealed (nd_dir nd) ?f nd'"
    unfolding assms(7) by (rule sealed_run [OF lock_node_sealed assms(4,1,2,5,6)])
  obtain e where e: "e \<in> {Precondition_Exn, Locked_Exn}"
      "start_provider E (rl_draw U 0) (rl_up U) (rl_now U) nd' = (Inl e, nd')"
      "start_consumer E (rl_bound U) (rl_now U) nd' = (Inl e, nd')"
    using sealed_starts_nothing [OF s, of E "rl_draw U 0" "rl_up U" "rl_now U" "rl_bound U"] by blast
  have "fst (use_keystore E (keystore_path nd') p (rl_draw U 0) nd') \<in> range Inr"
    using holds_keys_loads [OF assms(4,1,2,3)] s by (auto simp: use_keystore_def sealed_def)
  then have "fst (route_unlock E U p nd') = Ok_Reply"
    by (auto simp: route_unlock_def unlock_def split: prod.splits sum.splits)
  with s e show ?thesis
    by (auto simp: sealed_def route_provider_start_def route_consumer_start_def proc_reply_def)
qed

section \<open>Starting the provider\<close>

text \<open>What a successful \<open>start_provider\<close> has checked: setup is complete, the node is not locked, the provider
  was not running, both configurations load, and the keystore they name opens with the passphrase in
  memory, which the environment now holds for the handshakes. A failed start leaves the provider's
  status as it was. But success is also reported when the provider's task fails while starting: then it
  is not running.\<close>

theorem start_provider_needs:
  assumes "start_provider E d up now nd = (r, nd')"
  shows "case r of
      Inr _ \<Rightarrow> nd_setup_complete nd \<and> \<not> nd_locked nd \<and> \<not> ps_running (nd_provider nd)
        \<and> (\<exists>raw c a keys. load_raw_config E nd = Inr raw \<and> load_config (en_rt E) raw = Inr c \<and> load_adapter_config raw = Inr a
             \<and> fst (get_or_create_keypairs (en_keys E) (held_passphrase nd) (fst d) (snd d) (nd_files nd (cc_keystore_path c))) = Inr keys)
        \<and> nd_env_passphrase nd' = Some (held_passphrase nd)
        \<and> (ps_running (nd_provider nd') \<longleftrightarrow> up)
    | Inl e \<Rightarrow> nd_provider nd' = nd_provider nd \<and> lock_view nd' = lock_view nd"
proof -
  note c = start_provider_cases [OF assms]
  show ?thesis
  proof (cases r)
    case (Inl e)
    with c show ?thesis by simp
  next
    case (Inr u)
    with c have ready: "check_ready nd = Inr ()" and off: "\<not> ps_running (nd_provider nd)" by auto
    let ?nd1 = "propagate_passphrase nd"
    have held: "held_passphrase ?nd1 = held_passphrase nd" "load_raw_config E ?nd1 = load_raw_config E nd" "nd_files ?nd1 = nd_files nd"
      by (simp_all add: propagate_passphrase_def held_passphrase_def load_raw_config_def)
    from assms Inr ready off obtain raw c a where conf: "load_raw_config E nd = Inr raw" "load_config (en_rt E) raw = Inr c"
        "load_adapter_config raw = Inr a"
      and s: "(case use_keystore E (cc_keystore_path c) (held_passphrase nd) d ?nd1 of (Inl e, nd2) \<Rightarrow> (Inl (Proc_Failed e), nd2)
        | (Inr _, nd2) \<Rightarrow> (Inr (), if up then nd2\<lparr>nd_provider := \<lparr>ps_running = True, ps_started_at = Some now\<rparr>\<rparr> else nd2)) = (r, nd')"
      by (auto simp: start_provider_def Let_def held rbind_Inr_iff split: sum.splits)
    obtain r1 nd2 where use: "use_keystore E (cc_keystore_path c) (held_passphrase nd) d ?nd1 = (r1, nd2)" by fastforce
    with s Inr obtain keys where "r1 = Inr keys" by (cases r1) auto
    with use have keys: "fst (get_or_create_keypairs (en_keys E) (held_passphrase nd) (fst d) (snd d)
        (nd_files nd (cc_keystore_path c))) = Inr keys"
      by (simp add: use_keystore_def held split: prod.splits)
    have env: "nd_env_passphrase nd' = Some (held_passphrase nd)"
      using s use use_keystore_all [OF use] Inr by (cases r1) (auto simp: propagate_passphrase_def)
    from ready have "nd_setup_complete nd" "\<not> nd_locked nd" by (auto simp: check_ready_def split: if_splits)
    with Inr c off conf keys env show ?thesis by (cases keys) auto
  qed
qed

section \<open>Passphrases during setup and rotation\<close>

text \<open>Setting up a seller whose key pair has a passphrase fails. The key pair step protects the keystore
  but does not keep the passphrase, so the registration of the final step opens it with the empty one:
  whatever the market answers, the request ends with 500 and setup stays incomplete, until the
  node is unlocked with the passphrase, which setup does not ask for.\<close>

theorem passphrase_setup_fails:
  assumes "fernet_ok (en_keys E)" and "pubs_ok (en_keys E)"
    and "nd_files nd (keystore_path nd) = None" and "nd_passphrase nd = None" and "rl_draw U 0 = (R, Inr ())"
    and "derive_fernet_key (en_keys E) [] (fk_ed_salt R) \<noteq> derive_fernet_key (en_keys E) p (fk_ed_salt R)"
    and "setup_keypair E U (Some p) nd = (rep, nd1)" and "valid_finalize q" and "provides (fr_mode q)"
  shows "fst (setup_finalize E U2 uuid q market nd1) = Err_Reply INTERNAL_ERROR 500
    \<and> nd_setup_complete (snd (setup_finalize E U2 uuid q market nd1)) = nd_setup_complete nd"
proof -
  obtain r nda where u: "use_keystore E (keystore_path nd) p (R, Inr ()) nd = (r, nda)" by fastforce
  have r: "\<exists>keys. get_or_create_keypairs (en_keys E) p R (Inr ()) None = (Inr keys, nd_files nda (keystore_path nd))"
    and h: "holds_keys (en_keys E) p R (nd_files nda (keystore_path nd))"
  proof -
    obtain x f where g: "get_or_create_keypairs (en_keys E) p R (Inr ()) None = (x, f)" by fastforce
    have blank: "read_keystore None = Inr JNull" "has_keys JNull = Inr False" by (simp_all add: read_keystore_def has_keys_def)
    obtain f1 where f1: "save_keys (en_keys E) p R (Inr ()) None = (Inr (), f1)"
      by (auto simp: save_keys_def read_keystore_def kept_fields_def write_keystore_def)
    with g blank have "f = f1" "\<exists>keys. x = Inr keys" by (auto simp: get_or_create_keypairs_def)
    with save_keys_holds [OF f1] g u assms(3)
    show "\<exists>keys. get_or_create_keypairs (en_keys E) p R (Inr ()) None = (Inr keys, nd_files nda (keystore_path nd))"
      "holds_keys (en_keys E) p R (nd_files nda (keystore_path nd))"
      by (auto simp: use_keystore_def)
  qed
  from r u assms(3) obtain keys where "r = Inr keys" by (auto simp: use_keystore_def)
  with assms(3,5,7) u have nd1: "nd_files nd1 = nd_files nda" "nd_passphrase nd1 = nd_passphrase nda" "nd_dir nd1 = nd_dir nda"
      "nd_setup_complete nd1 = nd_setup_complete nda"
    by (auto simp: setup_keypair_def Let_def node_write_def mark_setup_step_def split: sum.splits)
  note view = use_keystore_all [OF u]
  have kp: "keystore_path nd1 = keystore_path nd" using nd1 view by (simp add: keystore_path_def)
  have none: "held_passphrase nd1 = []" using nd1 view assms(4) by (simp add: held_passphrase_def)
  obtain k nd2 where k: "use_keystore E (keystore_path nd1) [] (rl_draw U2 0) nd1 = (k, nd2)" by fastforce
  with holds_keys_refuses [OF h assms(1,2,6)] kp nd1 have "k = Inl (LibError ''InvalidToken'')"
    by (auto simp: use_keystore_def split: prod.splits)
  with k none have "\<exists>nd3. register_seller E U2 q market nd1 = (Inl (Err_Reply INTERNAL_ERROR 500), nd3)"
    by (auto simp: register_seller_def split: sum.splits)
  then obtain nd3 where reg: "register_seller E U2 q market nd1 = (Inl (Err_Reply INTERNAL_ERROR 500), nd3)" by blast
  from register_seller_view [OF reg] have "nd_setup_complete nd3 = nd_setup_complete nd1" by blast
  with reg nd1 view assms(8,9) show ?thesis by (simp add: setup_finalize_def)
qed

lemma keypair_rotate_config: "nd_config (snd (keypair_rotate E U told nd)) = nd_config nd"
proof -
  define nda where "nda = (if nd_files nd (keystore_path nd) \<noteq> None
      then nd\<lparr>nd_files := (nd_files nd)(backup_path nd := nd_files nd (keystore_path nd), keystore_path nd := None)\<rparr> else nd)"
  obtain r ndb where u: "use_keystore E (keystore_path nda) (held_passphrase nda) (rl_draw U 0) nda = (r, ndb)" by fastforce
  have "snd (keypair_rotate E U told nd) = ndb"
    unfolding keypair_rotate_def nda_def [symmetric] Let_def u by (auto split: sum.splits option.splits)
  then show ?thesis using use_keystore_all [OF u] by (simp add: nda_def)
qed

text \<open>Key rotation undoes the lock. On a locked node the rotation makes the new keystore under the empty
  passphrase, so after it a reload of the configuration finds the keystore open and the node ready,
  although no passphrase was given.\<close>

theorem rotation_opens_lock:
  assumes "fernet_ok (en_keys E)" and "pubs_ok (en_keys E)" and "fresh_ok R"
    and "nd = snd (lock_node nd0)" and "rl_draw U 0 = (R, Inr ())"
    and "nd1 = snd (keypair_rotate E U told nd)"
    and "load_store_config E nd1 = (Inr c, nd2)" and "nd_setup_complete nd2"
  shows "nd_locked nd1 \<and> nd_unlocked (snd (provider_reload E U2 nd1)) \<and> \<not> nd_locked (snd (provider_reload E U2 nd1))
    \<and> nd_phase (snd (provider_reload E U2 nd1)) = Phase_Ready"
proof -
  define nda where "nda = (if nd_files nd (keystore_path nd) \<noteq> None
      then nd\<lparr>nd_files := (nd_files nd)(backup_path nd := nd_files nd (keystore_path nd), keystore_path nd := None)\<rparr> else nd)"
  obtain r ndb where u: "use_keystore E (keystore_path nda) (held_passphrase nda) (rl_draw U 0) nda = (r, ndb)" by fastforce
  have nd1: "nd1 = ndb"
    unfolding assms(6) keypair_rotate_def nda_def [symmetric] Let_def u by (auto split: sum.splits option.splits)
  have kp: "keystore_path nda = keystore_path nd" by (simp add: nda_def keystore_path_def)
  have gone: "nd_files nda (keystore_path nd) = None" by (simp add: nda_def)
  have held: "held_passphrase nda = []" by (simp add: nda_def held_passphrase_def assms(4) lock_node_effect)
  have locked: "nd_locked nda" "\<not> nd_unlocked nda" "\<not> ps_running (nd_provider nda)" "nd_dir nda = nd_dir nd"
    by (simp_all add: nda_def assms(4) lock_node_effect stopped_def)
  note view = use_keystore_all [OF u]
  obtain f1 where f1: "save_keys (en_keys E) [] R (Inr ()) None = (Inr (), f1)"
    by (auto simp: save_keys_def read_keystore_def kept_fields_def write_keystore_def)
  have blank: "read_keystore None = Inr JNull" "has_keys JNull = Inr False" by (simp_all add: read_keystore_def has_keys_def)
  from u f1 blank held gone kp assms(5) have "nd_files ndb (keystore_path nd) = f1"
    by (auto simp: use_keystore_def get_or_create_keypairs_def)
  with save_keys_holds [OF f1] have h: "holds_keys (en_keys E) [] R (nd_files ndb (keystore_path nd))" by simp
  note cfg = load_store_config_view [OF assms(7)]
  have kp2: "keystore_path nd2 = keystore_path nd" using cfg nd1 view locked(4) by (simp add: keystore_path_def)
  have h2: "holds_keys (en_keys E) [] R (nd_files nd2 (keystore_path nd2))" using h cfg nd1 kp2 by simp
  then have "nd_files nd2 (keystore_path nd2) \<noteq> None" by (auto simp: holds_keys_def)
  with holds_keys_loads [OF h2 assms(1-3)] have open_ks: "fst (check_keystore_locked E d nd2) = False" for d
    by (simp add: check_keystore_locked_def use_keystore_def)
  have det: "nd_unlocked (determine_node_state E d nd2) \<and> \<not> nd_locked (determine_node_state E d nd2)
      \<and> nd_phase (determine_node_state E d nd2) = Phase_Ready \<and> \<not> ps_running (nd_provider (determine_node_state E d nd2))" for d
  proof -
    obtain nd3 where "check_keystore_locked E d nd2 = (False, nd3)" using open_ks [of d] by (metis prod.collapse)
    with determine_cases [OF refl, of E d nd2] assms(8) cfg nd1 view locked show ?thesis by auto
  qed
  then show ?thesis using assms(7) nd1 view locked by (simp add: provider_reload_def Let_def)
qed

section \<open>Concrete runs\<close>

definition demo_node_env :: node_env where
  "demo_node_env = \<lparr>en_keys = demo_keys, en_toml = demo_toml, en_rt = demo_rt\<rparr>"

definition demo_luck :: request_luck where
  "demo_luck = \<lparr>rl_draw = \<lambda>_. (demo_fresh, Inr ()), rl_write = \<lambda>_. Written, rl_up = True, rl_bound = Inr 8080, rl_now = 0\<rparr>"

definition demo_file :: keystore_file where
  "demo_file = snd (save_keys demo_keys ''pw'' demo_fresh (Inr ()) None)"

lemma demo_file_holds: "holds_keys demo_keys ''pw'' demo_fresh demo_file"
proof -
  have "\<exists>f. save_keys demo_keys ''pw'' demo_fresh (Inr ()) None = (Inr (), f)"
    by (simp add: save_keys_def read_keystore_def kept_fields_def write_keystore_def)
  then show ?thesis unfolding demo_file_def using save_keys_holds by fastforce
qed

lemma demo_key_ne:
  "derive_fernet_key demo_keys [] (fk_ed_salt demo_fresh) \<noteq> derive_fernet_key demo_keys ''pw'' (fk_ed_salt demo_fresh)"
  "derive_fernet_key demo_keys ''no'' (fk_ed_salt demo_fresh) \<noteq> derive_fernet_key demo_keys ''pw'' (fk_ed_salt demo_fresh)"
  by code_simp+

text \<open>A configuration after setup, as the demo library stores it.\<close>

definition demo_config :: "(string \<times> json) list" where
  "demo_config = [(''core'', JObj [(''node_serial'', JStr ''s'')]),
     (''provider'', JObj [(''adapter'', JObj [(''endpoint_url'', JStr ''http://up'')])]),
     (''management'', JObj [(''setup_complete'', JBool True), (''setup_step'', JInt 5), (''mode'', JStr ''provider'')])]"

lemma demo_config_loads: "tl_load demo_toml (config_text demo_toml demo_rt demo_config) = Inr (JObj demo_config)"
proof -
  have "jwf (JObj demo_config)" by (simp add: demo_config_def)
  from loads_dumps [OF this] show ?thesis by (simp add: demo_toml_def config_text_def)
qed

definition demo_node :: node where
  "demo_node = (blank_node ''/d'' (Some (config_text demo_toml demo_rt demo_config)) (\<lambda>_. demo_file) None)
     \<lparr>nd_setup_complete := True\<rparr>"

theorem node_run_witness:
  "\<exists>nd0. new_store demo_node_env (demo_fresh, Inr ()) ''/d'' None (\<lambda>_. None) None = Inr nd0
     \<and> (let nd = foldl (node_apply demo_node_env) nd0 [Op_Unlock demo_luck ''x'', Op_Lock]
        in \<not> (nd_locked nd \<and> nd_unlocked nd) \<and> (nd_phase nd = Phase_Locked \<longrightarrow> nd_locked nd))"
proof -
  have "\<exists>nd0. new_store demo_node_env (demo_fresh, Inr ()) ''/d'' None (\<lambda>_. None) None = Inr nd0"
    by (simp add: new_store_def load_store_config_def blank_node_def)
  then obtain nd0 where n: "new_store demo_node_env (demo_fresh, Inr ()) ''/d'' None (\<lambda>_. None) None = Inr nd0" by blast
  from node_run [OF n refl, of "[Op_Unlock demo_luck ''x'', Op_Lock]"] n show ?thesis
    unfolding Let_def by blast
qed

theorem locked_stays_locked_witness:
  "let nd = foldl (node_apply demo_node_env) (snd (lock_node demo_node)) [Op_Unlock demo_luck ''no'', Op_Reload demo_luck]
   in nd_locked nd \<and> nd_passphrase nd = None \<and> fst (route_unlock demo_node_env demo_luck ''pw'' nd) = Ok_Reply"
proof -
  have en: "en_keys demo_node_env = demo_keys" by (simp add: demo_node_env_def)
  have f: "nd_files demo_node (keystore_path demo_node) = demo_file" by (simp add: demo_node_def blank_node_def)
  have ops: "list_all (keeps_lock demo_node_env ''pw'' demo_fresh) [Op_Unlock demo_luck ''no'', Op_Reload demo_luck]"
    using demo_key_ne(2) by (simp add: en)
  from locked_stays_locked [of demo_node_env, unfolded en, OF demo_keys_ok(1,2,4) _ demo_key_ne(1) ops refl, of demo_node]
    demo_file_holds f show ?thesis by (simp add: Let_def del: foldl.simps)
qed

theorem start_provider_needs_witness:
  "\<exists>nd. start_provider demo_node_env (demo_fresh, Inr ()) True 0 (demo_node\<lparr>nd_passphrase := Some ''pw''\<rparr>) = (Inr (), nd)
     \<and> ps_running (nd_provider nd) \<and> nd_env_passphrase nd = Some ''pw''"
proof -
  let ?nd = "demo_node\<lparr>nd_passphrase := Some ''pw''\<rparr>"
  have conf: "load_config demo_rt demo_config = Inr \<lparr>cc_keystore_path = ''.aim-node/keystore.json'', cc_node_serial = ''s'',
      cc_market_api_url = ''https://api.ai.market'', cc_market_ws_url = ''wss://api.ai.market/ws'', cc_data_dir = ''.aim-node'',
      cc_reconnect_delay = FNum 5, cc_reconnect_max_delay = FNum 60, cc_reconnect_jitter = FNum (5404319552844595 / 18014398509481984),
      cc_api_key = None, cc_node_id = None, cc_upstream_url = Some ''http://up''\<rparr>"
    "\<exists>a. load_adapter_config demo_config = Inr a"
    by (simp_all add: load_config_def load_adapter_config_def demo_config_def get_section_def jget_or_def jget_def core_value_def
        upstream_endpoint_def or_str_def Let_def)
  have "nd_files ?nd ''.aim-node/keystore.json'' = demo_file" by (simp add: demo_node_def blank_node_def)
  with holds_keys_loads [OF demo_file_holds demo_keys_ok(1,2,4)] conf
  have "\<exists>nd. start_provider demo_node_env (demo_fresh, Inr ()) True 0 ?nd = (Inr (), nd)"
    by (auto simp: start_provider_def check_ready_def propagate_passphrase_def held_passphrase_def load_raw_config_def
        demo_node_env_def demo_node_def blank_node_def stopped_def demo_config_loads use_keystore_def)
  then obtain nd where s: "start_provider demo_node_env (demo_fresh, Inr ()) True 0 ?nd = (Inr (), nd)" by blast
  from start_provider_needs [OF s] s show ?thesis by (simp add: held_passphrase_def)
qed

theorem passphrase_setup_fails_witness:
  "fst (setup_finalize demo_node_env demo_luck ''u'' demo_setup (\<lambda>_. Inr [(''node_id'', JStr ''n'')])
      (snd (setup_keypair demo_node_env demo_luck (Some ''pw'') (blank_node ''/d'' None (\<lambda>_. None) None))))
   = Err_Reply INTERNAL_ERROR 500"
proof -
  let ?nd = "blank_node ''/d'' None (\<lambda>_. None) None"
  have en: "en_keys demo_node_env = demo_keys" by (simp add: demo_node_env_def)
  have q: "valid_finalize demo_setup" "provides (fr_mode demo_setup)"
    by (simp_all add: valid_finalize_def demo_setup_def valid_http_url_def opt_url_ok_def given_def provides_def)
  have h: "nd_files ?nd (keystore_path ?nd) = None" "nd_passphrase ?nd = None" "rl_draw demo_luck 0 = (demo_fresh, Inr ())"
    by (simp_all add: blank_node_def demo_luck_def)
  obtain rep nd1 where k: "setup_keypair demo_node_env demo_luck (Some ''pw'') ?nd = (rep, nd1)" by fastforce
  from passphrase_setup_fails [of demo_node_env, unfolded en, OF demo_keys_ok(1,2) h demo_key_ne(1) k q] k show ?thesis
    by simp
qed

theorem rotation_opens_lock_witness:
  "nd_phase (snd (provider_reload demo_node_env demo_luck (snd (keypair_rotate demo_node_env demo_luck None (snd (lock_node demo_node))))))
   = Phase_Ready"
proof -
  let ?nd = "snd (lock_node demo_node)" and ?nd1 = "snd (keypair_rotate demo_node_env demo_luck None (snd (lock_node demo_node)))"
  have en: "en_keys demo_node_env = demo_keys" by (simp add: demo_node_env_def)
  have luck: "rl_draw demo_luck 0 = (demo_fresh, Inr ())" by (simp add: demo_luck_def)
  have cfg: "nd_config ?nd1 = Some (config_text demo_toml demo_rt demo_config)"
    by (simp add: keypair_rotate_config lock_node_effect demo_node_def blank_node_def)
  have "\<exists>c nd2. load_store_config demo_node_env ?nd1 = (Inr c, nd2) \<and> nd_setup_complete nd2"
    unfolding load_store_config_def cfg by (simp add: demo_node_env_def demo_config_loads) (simp add: demo_config_def jget_or_def)
  then obtain c nd2 where "load_store_config demo_node_env ?nd1 = (Inr c, nd2)" "nd_setup_complete nd2" by blast
  from rotation_opens_lock [of demo_node_env, unfolded en, OF demo_keys_ok(1,2,4) refl luck refl this] show ?thesis by blast
qed

end
