(* ===== verification/ProcessTasks.thy ===== *)
theory ProcessTasks
  imports NodeSafety
begin

text \<open>
  \<open>management/process.py\<close> under asyncio: the requests that start and stop the provider and the consumer, lock and
  unlock, reload and finish the setup, and the provider's own task, as coroutines over one \<open>ProcessManager\<close>. NodeRoutes has
  each request in one piece; here a request runs from one await to the next - the 0.1 s pause of \<open>start_provider\<close>, the
  binding and the closing of the local proxy, the wait for a cancelled provider task, and the seller's registration - and
  others may run in between.
\<close>

section \<open>State\<close>

text \<open>
  The task of \<open>start_provider\<close>: created, running, in the \<open>finally\<close> block that awaits \<open>handler.stop()\<close>, or over; the flag of
  the last two is \<open>True\<close> when no exception is on its way.
\<close>

datatype provider_task = Created | Up | Stopping bool | Over bool

text \<open>What a request goes on with after it has stopped a process.\<close>

datatype goal = Then_Return | Then_Restart | Then_Lock

text \<open>
  Where a request is suspended: in the pause (and whether \<open>autostart\<close> goes on to the consumer), in \<open>proxy.start\<close>, in the
  wait for the provider task, in \<open>proxy.stop\<close>, or in the registration of \<open>setup_finalize\<close>, with its request and the keys.
\<close>

datatype call = Pausing bool | Binding | Awaiting nat goal | Closing_Proxy goal
  | Registering string finalize_request keypairs

record processes =
  pm_node :: node
  pm_tasks :: "provider_task list"
  pm_current :: "nat option"
  pm_proxy :: bool
  pm_calls :: "call list"

abbreviation provider_runs :: "processes \<Rightarrow> bool" where
  "provider_runs P \<equiv> ps_running (nd_provider (pm_node P))"

abbreviation consumer_runs :: "processes \<Rightarrow> bool" where
  "consumer_runs P \<equiv> ps_running (nd_consumer (pm_node P))"

section \<open>From await to await\<close>

text \<open>
  Each stretch gives the await it ends in (\<open>None\<close> when the request has returned or raised). \<open>start_provider\<close> creates the
  task and pauses; the \<open>False\<close> in the sequential function is the task that has not run yet.
\<close>

definition begin_consumer :: "node_env \<Rightarrow> processes \<Rightarrow> call option \<times> processes" where
  "begin_consumer E P =
    (case check_ready (pm_node P) of
       Inl _ \<Rightarrow> (None, P)
     | Inr _ \<Rightarrow>
        if consumer_runs P then (None, P)
        else (let P1 = P\<lparr>pm_node := propagate_passphrase (pm_node P)\<rparr>
              in case rbind (load_raw_config E (pm_node P1)) (load_config (en_rt E)) of
                   Inl _ \<Rightarrow> (None, P1)
                 | Inr _ \<Rightarrow> (Some Binding, P1\<lparr>pm_proxy := True\<rparr>)))"

definition bound_consumer :: "int res \<Rightarrow> rat \<Rightarrow> processes \<Rightarrow> processes" where
  "bound_consumer bound now P = (case bound of
     Inl _ \<Rightarrow> P
   | Inr _ \<Rightarrow> P\<lparr>pm_node := (pm_node P)\<lparr>nd_consumer := \<lparr>ps_running = True, ps_started_at = Some now\<rparr>\<rparr>\<rparr>)"

definition begin_provider :: "node_env \<Rightarrow> draw \<Rightarrow> bool \<Rightarrow> processes \<Rightarrow> call option \<times> processes" where
  "begin_provider E d follow P = (case start_provider E d False 0 (pm_node P) of
     (Inl _, nd) \<Rightarrow> if follow then begin_consumer E (P\<lparr>pm_node := nd\<rparr>) else (None, P\<lparr>pm_node := nd\<rparr>)
   | (Inr _, nd) \<Rightarrow> (Some (Pausing follow), P\<lparr>pm_node := nd, pm_tasks := pm_tasks P @ [Created],
                                              pm_current := Some (length (pm_tasks P))\<rparr>))"

text \<open>
  \<open>autostart\<close> asks the mode of the node for each of the two processes.
\<close>

definition begin_autostart :: "node_env \<Rightarrow> draw \<Rightarrow> processes \<Rightarrow> call option \<times> processes" where
  "begin_autostart E d P =
    (let md = nd_mode (pm_node P); consumer = md \<in> {JStr ''consumer'', JStr ''both''}
     in if md \<in> {JStr ''provider'', JStr ''both''} then begin_provider E d consumer P
        else if consumer then begin_consumer E P else (None, P))"

text \<open>
  \<open>task.cancel()\<close>: a task that has not begun never runs its body; one that waits enters its \<open>finally\<close> block; one that is
  in that block leaves it with the exception, unless it is at one of the awaits of \<open>handler.stop()\<close> that suppress the
  cancellation (\<open>deaf\<close>).
\<close>

fun cancelled :: "bool \<Rightarrow> provider_task \<Rightarrow> provider_task" where
  "cancelled deaf Created = Over False"
| "cancelled deaf Up = Stopping True"
| "cancelled deaf (Stopping ok) = (if deaf then Stopping ok else Over False)"
| "cancelled deaf (Over ok) = Over ok"

definition shut :: "node \<Rightarrow> node" where
  "shut nd = nd\<lparr>nd_env_passphrase := None, nd_passphrase := None, nd_locked := True, nd_unlocked := False,
     nd_phase := Phase_Locked\<rparr>"

definition end_consumer :: "goal \<Rightarrow> processes \<Rightarrow> call option \<times> processes" where
  "end_consumer g P = (None, P\<lparr>pm_node := (if g = Then_Lock then shut else id) ((pm_node P)\<lparr>nd_consumer := stopped\<rparr>)\<rparr>)"

definition begin_stop_consumer :: "goal \<Rightarrow> processes \<Rightarrow> call option \<times> processes" where
  "begin_stop_consumer g P =
    (if \<not> consumer_runs P then (None, P)
     else if pm_proxy P then (Some (Closing_Proxy g), P) else end_consumer g P)"

definition lock_consumer :: "processes \<Rightarrow> call option \<times> processes" where
  "lock_consumer P = (if consumer_runs P then begin_stop_consumer Then_Lock P
                      else (None, P\<lparr>pm_node := shut (pm_node P)\<rparr>))"

definition after_stop :: "node_env \<Rightarrow> draw \<Rightarrow> goal \<Rightarrow> processes \<Rightarrow> call option \<times> processes" where
  "after_stop E d g P = (case g of
     Then_Return \<Rightarrow> (None, P) | Then_Restart \<Rightarrow> begin_provider E d False P | Then_Lock \<Rightarrow> lock_consumer P)"

definition begin_stop :: "node_env \<Rightarrow> draw \<Rightarrow> bool \<Rightarrow> goal \<Rightarrow> processes \<Rightarrow> call option \<times> processes" where
  "begin_stop E d deaf g P =
    (if \<not> provider_runs P then (None, P)
     else case pm_current P of
       None \<Rightarrow> after_stop E d g P
     | Some i \<Rightarrow> (Some (Awaiting i g), P\<lparr>pm_tasks := (pm_tasks P)[i := cancelled deaf (pm_tasks P ! i)]\<rparr>))"

text \<open>The awaited task is over: an exception of it is raised here, and ends the request.\<close>

definition resume_stop :: "node_env \<Rightarrow> draw \<Rightarrow> nat \<Rightarrow> goal \<Rightarrow> processes \<Rightarrow> call option \<times> processes" where
  "resume_stop E d i g P = (if pm_tasks P ! i = Over True then after_stop E d g (P\<lparr>pm_current := None\<rparr>) else (None, P))"

definition begin_lock :: "node_env \<Rightarrow> draw \<Rightarrow> bool \<Rightarrow> processes \<Rightarrow> call option \<times> processes" where
  "begin_lock E d deaf P = (if provider_runs P then begin_stop E d deaf Then_Lock P else lock_consumer P)"

text \<open>\<open>provider_reload\<close>: the configuration, the state of the lock, then the restart of a running provider.\<close>

definition begin_reload :: "node_env \<Rightarrow> request_luck \<Rightarrow> bool \<Rightarrow> processes \<Rightarrow> call option \<times> processes" where
  "begin_reload E U deaf P = (case load_store_config E (pm_node P) of
     (Inl _, nd) \<Rightarrow> (None, P\<lparr>pm_node := nd\<rparr>)
   | (Inr _, nd) \<Rightarrow>
      (let P1 = P\<lparr>pm_node := determine_node_state E (rl_draw U 0) nd\<rparr>
       in if provider_runs P1 then begin_stop E (rl_draw U 1) deaf Then_Restart P1 else (None, P1)))"

text \<open>
  \<open>setup_finalize\<close> for a seller, up to the request to the market; what is made of the market's answer; the writes that
  follow; and \<open>autostart\<close>.
\<close>

definition prepare_registration :: "node_env \<Rightarrow> request_luck \<Rightarrow> finalize_request \<Rightarrow> node \<Rightarrow> (route_reply + keypairs) \<times> node" where
  "prepare_registration E U q nd =
    (case read_config (en_toml E) (nd_config nd) of
       Inl _ \<Rightarrow> (Inl (Err_Reply INTERNAL_ERROR 500), nd)
     | Inr raw \<Rightarrow>
        (case runtime_config_from_setup (en_rt E) (nd_dir nd) q raw of
           Inl _ \<Rightarrow> (Inl (Err_Reply INTERNAL_ERROR 500), nd)
         | Inr c \<Rightarrow>
            if \<not> given (cc_upstream_url c) then (Inl (Err_Reply INTERNAL_ERROR 500), nd)
            else (case use_keystore E (keystore_path nd) (held_passphrase nd) (rl_draw U 0) nd of
                (Inl _, nd1) \<Rightarrow> (Inl (Err_Reply INTERNAL_ERROR 500), nd1)
              | (Inr keys, nd1) \<Rightarrow> (Inr keys, nd1))))"

definition registered :: "market_exn + (string \<times> json) list \<Rightarrow> route_reply + string" where
  "registered r = (case r of
     Inl e \<Rightarrow> Inl (registration_failure e)
   | Inr reg \<Rightarrow> (case jget reg ''node_id'' of
        JStr s \<Rightarrow> if s = [] then Inl (Err_Reply INTERNAL_ERROR 500) else Inr s
      | _ \<Rightarrow> Inl (Err_Reply INTERNAL_ERROR 500)))"

definition write_setup ::
    "node_env \<Rightarrow> request_luck \<Rightarrow> string \<Rightarrow> finalize_request \<Rightarrow> string option \<Rightarrow> node \<Rightarrow> (config_exn + unit) \<times> node" where
  "write_setup E U uuid q node_id nd =
    (case write_steps (setup_steps E U uuid q node_id) nd of
       (Inl e, nd1) \<Rightarrow> (Inl e, nd1)
     | (Inr _, nd1) \<Rightarrow> (Inr (), determine_node_state E (rl_draw U 1) (mark_setup_complete (fr_mode q) nd1)))"

definition begin_finish ::
    "node_env \<Rightarrow> request_luck \<Rightarrow> string \<Rightarrow> finalize_request \<Rightarrow> string option \<Rightarrow> processes \<Rightarrow> call option \<times> processes" where
  "begin_finish E U uuid q node_id P = (case write_setup E U uuid q node_id (pm_node P) of
     (Inl _, nd) \<Rightarrow> (None, P\<lparr>pm_node := nd\<rparr>)
   | (Inr _, nd) \<Rightarrow> begin_autostart E (rl_draw U 2) (P\<lparr>pm_node := nd\<rparr>))"

definition begin_finalize :: "node_env \<Rightarrow> request_luck \<Rightarrow> string \<Rightarrow> finalize_request \<Rightarrow> processes \<Rightarrow> call option \<times> processes" where
  "begin_finalize E U uuid q P =
    (if \<not> valid_finalize q then (None, P)
     else if provides (fr_mode q) then
       (case prepare_registration E U q (pm_node P) of
          (Inl _, nd) \<Rightarrow> (None, P\<lparr>pm_node := nd\<rparr>)
        | (Inr keys, nd) \<Rightarrow> (Some (Registering uuid q keys), P\<lparr>pm_node := nd\<rparr>))
     else begin_finish E U uuid q None P)"

text \<open>The requests whose work on the node is one stretch: setup of the keys, rotation, and those that write only the configuration or the sessions.\<close>

fun one_stretch :: "node_op \<Rightarrow> bool" where
  "one_stretch (Op_Keypair _ _) = True"
| "one_stretch (Op_Test_Connection _ _) = True"
| "one_stretch (Op_Rotate _ _) = True"
| "one_stretch (Op_Config _ _) = True"
| "one_stretch (Op_Session _) = True"
| "one_stretch (Op_Kill _) = True"
| "one_stretch _ = False"

definition begin_unlock :: "node_env \<Rightarrow> draw \<Rightarrow> draw \<Rightarrow> string \<Rightarrow> processes \<Rightarrow> call option \<times> processes" where
  "begin_unlock E d d' pass P = (case unlock E d pass (pm_node P) of
     (False, nd) \<Rightarrow> (None, P\<lparr>pm_node := nd\<rparr>)
   | (True, nd) \<Rightarrow> begin_autostart E d' (P\<lparr>pm_node := nd\<rparr>))"

section \<open>Steps\<close>

fun suspend :: "call option \<times> processes \<Rightarrow> processes" where
  "suspend (None, P) = P"
| "suspend (Some c, P) = P\<lparr>pm_calls := pm_calls P @ [c]\<rparr>"

datatype request = Start_Provider | Stop_Provider | Restart_Provider | Start_Consumer | Stop_Consumer | Lock
  | Unlock string | Autostart | Reload | Finalize string finalize_request | Plain node_op

definition arrive :: "node_env \<Rightarrow> request_luck \<Rightarrow> bool \<Rightarrow> request \<Rightarrow> processes \<Rightarrow> call option \<times> processes" where
  "arrive E U deaf q P = (case q of
     Start_Provider \<Rightarrow> begin_provider E (rl_draw U 0) False P
   | Stop_Provider \<Rightarrow> begin_stop E (rl_draw U 0) deaf Then_Return P
   | Restart_Provider \<Rightarrow> begin_stop E (rl_draw U 0) deaf Then_Restart P
   | Start_Consumer \<Rightarrow> begin_consumer E P
   | Stop_Consumer \<Rightarrow> begin_stop_consumer Then_Return P
   | Lock \<Rightarrow> begin_lock E (rl_draw U 0) deaf P
   | Unlock pass \<Rightarrow> begin_unlock E (rl_draw U 0) (rl_draw U 1) pass P
   | Autostart \<Rightarrow> begin_autostart E (rl_draw U 0) P
   | Reload \<Rightarrow> begin_reload E U deaf P
   | Finalize uuid r \<Rightarrow> begin_finalize E U uuid r P
   | Plain x \<Rightarrow> (None, if one_stretch x then P\<lparr>pm_node := node_apply E (pm_node P) x\<rparr> else P))"

text \<open>The await of a suspended request is over; a request that waits for a task goes on when the task is over.\<close>

fun awake :: "call \<Rightarrow> processes \<Rightarrow> bool" where
  "awake (Awaiting i g) P = (\<exists>ok. pm_tasks P ! i = Over ok)"
| "awake c P = True"

definition resume :: "node_env \<Rightarrow> request_luck \<Rightarrow> (keypairs \<Rightarrow> market_exn + (string \<times> json) list) \<Rightarrow> int res \<Rightarrow> rat \<Rightarrow> call \<Rightarrow> processes \<Rightarrow> call option \<times> processes" where
  "resume E U market bound now c P = (case c of
     Pausing follow \<Rightarrow> if follow then begin_consumer E P else (None, P)
   | Binding \<Rightarrow> (None, bound_consumer bound now P)
   | Awaiting i g \<Rightarrow> resume_stop E (rl_draw U 0) i g P
   | Registering uuid q keys \<Rightarrow> (case registered (market keys) of Inl _ \<Rightarrow> (None, P) | Inr s \<Rightarrow> begin_finish E U uuid q (Some s) P)
   | Closing_Proxy g \<Rightarrow> end_consumer g (P\<lparr>pm_proxy := False\<rparr>))"

text \<open>
  A request is \<open>Gone\<close> when it is cancelled or its await raises; to cancel one that waits for a task is to cancel the task
  (\<open>Interrupted\<close>). The task itself comes up, or \<open>handler.start()\<close> raises in it and it is stopping; then \<open>handler.stop()\<close> is through
  and the status is reset, or it raises and the status is left. \<open>Elsewhere\<close> is the rest of the node - the reads, the tools, the
  logs, the market and the assistant - which leaves the lock, the passphrases, the two processes and the keystore alone.
\<close>

inductive process_step :: "node_env \<Rightarrow> request set \<Rightarrow> processes \<Rightarrow> processes \<Rightarrow> bool" for E Q where
  Arrive: "q \<in> Q \<Longrightarrow> process_step E Q P (suspend (arrive E U deaf q P))"
| Resume: "pm_calls P = before @ c # rest \<Longrightarrow> awake c P \<Longrightarrow>
    process_step E Q P (suspend (resume E U market bound now c (P\<lparr>pm_calls := before @ rest\<rparr>)))"
| Gone: "pm_calls P = before @ c # rest \<Longrightarrow> awake c P \<Longrightarrow> process_step E Q P (P\<lparr>pm_calls := before @ rest\<rparr>)"
| Interrupted: "Awaiting i g \<in> set (pm_calls P) \<Longrightarrow>
    process_step E Q P (P\<lparr>pm_tasks := (pm_tasks P)[i := cancelled deaf (pm_tasks P ! i)]\<rparr>)"
| Comes_Up: "i < length (pm_tasks P) \<Longrightarrow> pm_tasks P ! i = Created \<Longrightarrow>
    process_step E Q P (P\<lparr>pm_tasks := (pm_tasks P)[i := Up],
      pm_node := (pm_node P)\<lparr>nd_provider := \<lparr>ps_running = True, ps_started_at = Some now\<rparr>\<rparr>\<rparr>)"
| Start_Fails: "i < length (pm_tasks P) \<Longrightarrow> pm_tasks P ! i = Created \<Longrightarrow>
    process_step E Q P (P\<lparr>pm_tasks := (pm_tasks P)[i := Stopping False]\<rparr>)"
| Stopped: "i < length (pm_tasks P) \<Longrightarrow> pm_tasks P ! i = Stopping ok \<Longrightarrow>
    process_step E Q P (P\<lparr>pm_tasks := (pm_tasks P)[i := Over ok], pm_node := (pm_node P)\<lparr>nd_provider := stopped\<rparr>\<rparr>)"
| Stop_Fails: "i < length (pm_tasks P) \<Longrightarrow> pm_tasks P ! i = Stopping ok \<Longrightarrow>
    process_step E Q P (P\<lparr>pm_tasks := (pm_tasks P)[i := Over False]\<rparr>)"
| Elsewhere: "lock_view nd = lock_view (pm_node P) \<Longrightarrow> proc_view nd = proc_view (pm_node P) \<Longrightarrow>
    nd_env_passphrase nd = nd_env_passphrase (pm_node P) \<Longrightarrow> nd_dir nd = nd_dir (pm_node P) \<Longrightarrow>
    nd_files nd (keystore_path nd) = nd_files (pm_node P) (keystore_path nd) \<Longrightarrow> process_step E Q P (P\<lparr>pm_node := nd\<rparr>)"

inductive_cases process_stepE: "process_step E Q P P'"

abbreviation process_steps :: "node_env \<Rightarrow> request set \<Rightarrow> processes \<Rightarrow> processes \<Rightarrow> bool" where
  "process_steps E Q \<equiv> (process_step E Q)\<^sup>*\<^sup>*"


section \<open>The pieces are the routes\<close>

lemma register_seller_pieces:
  "register_seller E U q market nd = (case prepare_registration E U q nd of
     (Inl rep, nd1) \<Rightarrow> (Inl rep, nd1)
   | (Inr keys, nd1) \<Rightarrow> (registered (market keys), nd1))"
  by (auto simp: register_seller_def prepare_registration_def registered_def split: sum.split prod.split json.split)

lemma finish_setup_pieces:
  "finish_setup E U uuid q i nd = (case write_setup E U uuid q i nd of
     (Inl e, nd1) \<Rightarrow> (reply_of_config e, nd1)
   | (Inr _, nd1) \<Rightarrow> (Ok_Reply, route_autostart E (rl_draw U 2) U nd1))"
  by (auto simp: finish_setup_def write_setup_def split: sum.split prod.split)

section \<open>A lock that nothing overlaps\<close>

text \<open>No process runs, and none is being started.\<close>

definition idle :: "processes \<Rightarrow> bool" where
  "idle P \<longleftrightarrow> \<not> provider_runs P \<and> \<not> consumer_runs P \<and> Created \<notin> set (pm_tasks P) \<and> Binding \<notin> set (pm_calls P)"

text \<open>The keystore file opens under a passphrase and not under the empty one, and the library keeps its laws.\<close>

definition keyed :: "node_env \<Rightarrow> string \<Rightarrow> fresh_keys \<Rightarrow> keystore_file \<Rightarrow> bool" where
  "keyed E p R f \<longleftrightarrow> holds_keys (en_keys E) p R f \<and> fernet_ok (en_keys E) \<and> pubs_ok (en_keys E)
     \<and> derive_fernet_key (en_keys E) [] (fk_ed_salt R) \<noteq> derive_fernet_key (en_keys E) p (fk_ed_salt R)"

text \<open>The requests that cannot open the lock: all but a rotation and an unlock with a passphrase that gives the keystore's key.\<close>

fun keeps_sealed :: "node_env \<Rightarrow> string \<Rightarrow> fresh_keys \<Rightarrow> request \<Rightarrow> bool" where
  "keeps_sealed E p R (Unlock q) \<longleftrightarrow>
     derive_fernet_key (en_keys E) q (fk_ed_salt R) \<noteq> derive_fernet_key (en_keys E) p (fk_ed_salt R)"
| "keeps_sealed E p R (Plain x) \<longleftrightarrow> keeps_lock E p R x"
| "keeps_sealed E p R _ \<longleftrightarrow> True"

definition quiet :: "string \<Rightarrow> keystore_file \<Rightarrow> processes \<Rightarrow> bool" where
  "quiet dir f P \<longleftrightarrow> idle P \<and> sealed dir f (pm_node P)"

definition quiet_stretch :: "string \<Rightarrow> keystore_file \<Rightarrow> call option \<times> processes \<Rightarrow> bool" where
  "quiet_stretch dir f x \<longleftrightarrow> quiet dir f (snd x) \<and> fst x \<noteq> Some Binding"

lemma quiet_suspend: "quiet_stretch dir f x \<Longrightarrow> quiet dir f (suspend x)"
  by (cases x; cases "fst x") (auto simp: quiet_stretch_def quiet_def idle_def)

lemma quiet_return: "quiet dir f P \<Longrightarrow> quiet_stretch dir f (None, P)"
  by (simp add: quiet_stretch_def)

lemma quiet_sealed: "quiet dir f P \<Longrightarrow> sealed dir f (pm_node P)"
  by (simp add: quiet_def)

lemma quiet_idle: "quiet dir f P \<Longrightarrow> idle P"
  by (simp add: quiet_def)

lemma quiet_node: "quiet dir f P \<Longrightarrow> sealed dir f nd \<Longrightarrow> quiet dir f (P\<lparr>pm_node := nd\<rparr>)"
  by (simp add: quiet_def idle_def sealed_def)

lemma node_back: "P\<lparr>pm_node := pm_node P\<rparr> = P"
  by simp

lemma quiet_begin_consumer: "quiet dir f P \<Longrightarrow> quiet_stretch dir f (begin_consumer E P)"
  using quiet_sealed [of dir f P] by (auto simp: begin_consumer_def check_ready_def sealed_def quiet_stretch_def)

lemma quiet_begin_provider: "quiet dir f P \<Longrightarrow> quiet_stretch dir f (begin_provider E d follow P)"
  using sealed_starts_nothing [OF quiet_sealed, of dir f P E d False 0 "Inl OSError"]
  by (auto simp: begin_provider_def node_back quiet_begin_consumer quiet_return)

lemma quiet_begin_autostart: "quiet dir f P \<Longrightarrow> quiet_stretch dir f (begin_autostart E d P)"
  by (simp add: begin_autostart_def Let_def quiet_begin_provider quiet_begin_consumer quiet_return)

lemma idle_runs: "idle P \<Longrightarrow> \<not> consumer_runs P" "idle P \<Longrightarrow> \<not> provider_runs P"
  by (simp_all add: idle_def)

lemma idle_shut: "idle P \<Longrightarrow> nd_dir (pm_node P) = dir \<Longrightarrow> nd_files (pm_node P) (keystore_path (pm_node P)) = f \<Longrightarrow>
    quiet dir f (P\<lparr>pm_node := shut (pm_node P)\<rparr>)"
  by (simp add: quiet_def idle_def sealed_def shut_def keystore_path_def)

lemma idle_lock_consumer: "idle P \<Longrightarrow> nd_dir (pm_node P) = dir \<Longrightarrow> nd_files (pm_node P) (keystore_path (pm_node P)) = f \<Longrightarrow>
    quiet_stretch dir f (lock_consumer P)"
  by (simp add: lock_consumer_def idle_runs idle_shut quiet_return)

lemma quiet_lock_consumer: "quiet dir f P \<Longrightarrow> quiet_stretch dir f (lock_consumer P)"
  using idle_lock_consumer [OF quiet_idle] quiet_sealed by (simp add: sealed_def)

lemma quiet_after_stop: "quiet dir f P \<Longrightarrow> quiet_stretch dir f (after_stop E d g P)"
  by (cases g) (simp_all add: after_stop_def quiet_begin_provider quiet_lock_consumer quiet_return)

lemma quiet_begin_stop: "quiet dir f P \<Longrightarrow> quiet_stretch dir f (begin_stop E d deaf g P)"
  by (simp add: begin_stop_def quiet_idle idle_runs quiet_return)

lemma quiet_begin_stop_consumer: "quiet dir f P \<Longrightarrow> quiet_stretch dir f (begin_stop_consumer g P)"
  by (simp add: begin_stop_consumer_def quiet_idle idle_runs quiet_return)

lemma quiet_end_consumer: "quiet dir f P \<Longrightarrow> quiet_stretch dir f (end_consumer g P)"
  by (auto simp: end_consumer_def quiet_stretch_def quiet_def idle_def sealed_def shut_def stopped_def keystore_path_def)

lemma quiet_begin_lock: "quiet dir f P \<Longrightarrow> quiet_stretch dir f (begin_lock E d deaf P)"
  by (simp add: begin_lock_def quiet_idle idle_runs quiet_lock_consumer)

lemma quiet_begin_unlock:
  assumes "quiet dir f P" and "keyed E p R f" and "keeps_sealed E p R (Unlock q)"
  shows "quiet_stretch dir f (begin_unlock E d d' q P)"
  using sealed_use [OF quiet_sealed [OF assms(1)], of E p R q d] assms
  by (simp add: keyed_def begin_unlock_def unlock_def node_back quiet_return)

lemma sealed_determine_keyed: "keyed E p R f \<Longrightarrow> sealed dir f nd \<Longrightarrow> sealed dir f (determine_node_state E d nd)"
  using sealed_determine [of dir f nd E p R d] by (simp add: keyed_def)

lemma quiet_begin_reload:
  assumes "quiet dir f P" and "keyed E p R f"
  shows "quiet_stretch dir f (begin_reload E U deaf P)"
proof -
  obtain r nd where l: "load_store_config E (pm_node P) = (r, nd)" by fastforce
  from sealed_cong [OF quiet_sealed [OF assms(1)] load_store_config_view(1,2,3,4,5) [OF l]] have s: "sealed dir f nd" .
  from quiet_node [OF assms(1) s] quiet_node [OF assms(1) sealed_determine_keyed [OF assms(2) s]] l
  show ?thesis by (cases r) (auto simp: begin_reload_def Let_def quiet_return quiet_begin_stop)
qed

lemma sealed_write_setup:
  assumes "sealed dir f nd" and "keyed E p R f"
  shows "sealed dir f (snd (write_setup E U uuid q i nd))"
proof -
  obtain r nd1 where w: "write_steps (setup_steps E U uuid q i) nd = (r, nd1)" by fastforce
  have s: "sealed dir f nd1" using sealed_cong [OF assms(1)] write_steps_view [OF w] by simp
  then have "sealed dir f (mark_setup_complete (fr_mode q) nd1)"
    by (auto simp: sealed_def mark_setup_complete_def keystore_path_def)
  from sealed_determine_keyed [OF assms(2) this] s w show ?thesis by (cases r) (simp_all add: write_setup_def)
qed

lemma quiet_begin_finish:
  assumes "quiet dir f P" and "keyed E p R f"
  shows "quiet_stretch dir f (begin_finish E U uuid q i P)"
proof -
  obtain r nd where w: "write_setup E U uuid q i (pm_node P) = (r, nd)" by fastforce
  with sealed_write_setup [OF quiet_sealed [OF assms(1)] assms(2), of U uuid q i] have "sealed dir f nd" by simp
  from quiet_node [OF assms(1) this] w show ?thesis
    by (cases r) (simp_all add: begin_finish_def quiet_return quiet_begin_autostart)
qed

lemma quiet_begin_finalize:
  assumes "quiet dir f P" and "keyed E p R f"
  shows "quiet_stretch dir f (begin_finalize E U uuid q P)"
proof -
  have "held_passphrase (pm_node P) = []" using quiet_sealed [OF assms(1)] by (simp add: sealed_def held_passphrase_def)
  with sealed_use [OF quiet_sealed [OF assms(1)], of E p R "[]" "rl_draw U 0"] assms(2)
  have "\<exists>rep. prepare_registration E U q (pm_node P) = (Inl rep, pm_node P)"
    by (auto simp: keyed_def prepare_registration_def split: sum.split)
  then show ?thesis
    by (auto simp: begin_finalize_def node_back quiet_return assms(1) quiet_begin_finish [OF assms])
qed

lemma quiet_plain:
  assumes "quiet dir f P" and "keyed E p R f" and "keeps_lock E p R x"
  shows "quiet dir f (P\<lparr>pm_node := node_apply E (pm_node P) x\<rparr>)"
  by (rule quiet_node [OF assms(1) sealed_step [OF quiet_sealed [OF assms(1)]]]) (use assms in \<open>simp_all add: keyed_def\<close>)

lemma quiet_arrive:
  assumes "quiet dir f P" and "keyed E p R f" and "keeps_sealed E p R q"
  shows "quiet_stretch dir f (arrive E U deaf q P)"
proof (cases q)
  case (Unlock pass)
  with quiet_begin_unlock [OF assms(1,2)] assms(3) show ?thesis by (simp add: arrive_def)
next
  case (Plain x)
  with quiet_plain [OF assms(1,2)] assms(1,3) show ?thesis by (simp add: arrive_def quiet_return)
qed (simp_all add: arrive_def quiet_begin_provider quiet_begin_stop quiet_begin_consumer quiet_begin_autostart
      quiet_begin_lock quiet_begin_stop_consumer quiet_begin_reload [OF assms(1,2)] quiet_begin_finalize [OF assms(1,2)] assms(1))

lemma quiet_calls:
  "quiet dir f P \<Longrightarrow> set cs \<subseteq> set (pm_calls P) \<Longrightarrow> quiet dir f (P\<lparr>pm_calls := cs\<rparr>)"
  by (auto simp: quiet_def idle_def)

lemma quiet_upd [simp]: "quiet dir f (P\<lparr>pm_current := c\<rparr>) = quiet dir f P" "quiet dir f (P\<lparr>pm_proxy := b\<rparr>) = quiet dir f P"
  by (simp_all add: quiet_def idle_def)

lemma quiet_task: "quiet dir f P \<Longrightarrow> x \<noteq> Created \<Longrightarrow> quiet dir f (P\<lparr>pm_tasks := (pm_tasks P)[i := x]\<rparr>)"
  by (auto simp: quiet_def idle_def dest!: set_update_subset_insert [THEN subsetD])

lemma quiet_stopped: "quiet dir f P \<Longrightarrow> quiet dir f (P\<lparr>pm_node := (pm_node P)\<lparr>nd_provider := stopped\<rparr>\<rparr>)"
  by (auto simp: quiet_def idle_def sealed_def stopped_def keystore_path_def)

lemma cancelled_not_created: "cancelled deaf x \<noteq> Created"
  by (cases x) simp_all

lemma quiet_no_start: "quiet dir f P \<Longrightarrow> i < length (pm_tasks P) \<Longrightarrow> pm_tasks P ! i \<noteq> Created"
  unfolding quiet_def idle_def by (metis nth_mem)

lemma quiet_resume:
  assumes "quiet dir f P" and "c \<noteq> Binding" and "keyed E p R f"
  shows "quiet_stretch dir f (resume E U market bound now c P)"
  using assms(1,2)
  by (cases c) (auto simp: resume_def resume_stop_def quiet_begin_consumer quiet_after_stop quiet_end_consumer quiet_return
      quiet_begin_finish [OF assms(1,3)] split: sum.split)

lemma quiet_step:
  assumes "process_step E Q P P'" and "quiet dir f P" and "\<forall>q \<in> Q. keeps_sealed E p R q" and "keyed E p R f"
  shows "quiet dir f P'"
  using assms(1)
proof (cases rule: process_step.cases)
  case (Arrive q U deaf)
  with assms(3) have "keeps_sealed E p R q" by blast
  from quiet_arrive [OF assms(2,4) this] Arrive show ?thesis by (simp add: quiet_suspend)
next
  case (Resume before c rest U market bound now)
  then have "c \<noteq> Binding" using assms(2) by (auto simp: quiet_def idle_def)
  moreover have "quiet dir f (P\<lparr>pm_calls := before @ rest\<rparr>)" using Resume by (auto intro: quiet_calls [OF assms(2)])
  ultimately show ?thesis using Resume quiet_resume [OF _ _ assms(4)] by (simp add: quiet_suspend)
next
  case (Gone before c rest)
  then show ?thesis by (auto intro: quiet_calls [OF assms(2)])
next
  case (Stopped i ok)
  with quiet_stopped [OF quiet_task [OF assms(2), of "Over ok" i]] show ?thesis by simp
next
  case (Elsewhere nd)
  with assms(2) show ?thesis by (auto simp: quiet_def idle_def sealed_def keystore_path_def)
qed (use assms(2) quiet_no_start in \<open>auto simp: quiet_task cancelled_not_created\<close>)


section \<open>In one piece\<close>

text \<open>Nothing else running in between, the requests do what NodeRoutes says.\<close>

lemma step_arrive: "q \<in> Q \<Longrightarrow> process_steps E Q P (suspend (arrive E U deaf q P))"
  by (rule r_into_rtranclp) (rule process_step.Arrive)

lemma step_resume: "pm_calls P = before @ [c] \<Longrightarrow> awake c P \<Longrightarrow>
    process_steps E Q P (suspend (resume E U market bound now c (P\<lparr>pm_calls := before\<rparr>)))"
  using process_step.Resume [of P before c "[]" E Q U market bound now] by (simp add: r_into_rtranclp)

lemma step_stopped: "i < length (pm_tasks P) \<Longrightarrow> pm_tasks P ! i = Stopping ok \<Longrightarrow>
    process_steps E Q P (P\<lparr>pm_tasks := (pm_tasks P)[i := Over ok], pm_node := (pm_node P)\<lparr>nd_provider := stopped\<rparr>\<rparr>)"
  by (rule r_into_rtranclp) (rule process_step.Stopped)

lemma step_comes_up: "i < length (pm_tasks P) \<Longrightarrow> pm_tasks P ! i = Created \<Longrightarrow>
    process_steps E Q P (P\<lparr>pm_tasks := (pm_tasks P)[i := Up],
      pm_node := (pm_node P)\<lparr>nd_provider := \<lparr>ps_running = True, ps_started_at = Some now\<rparr>\<rparr>\<rparr>)"
  by (rule r_into_rtranclp) (rule process_step.Comes_Up)

lemma start_provider_up:
  assumes "start_provider E d False 0 nd = (Inr (), nd')"
  shows "start_provider E d True now nd = (Inr (), nd'\<lparr>nd_provider := \<lparr>ps_running = True, ps_started_at = Some now\<rparr>\<rparr>)"
  using assms by (auto simp: start_provider_def Let_def split: sum.splits prod.splits if_splits)

lemma provider_start_steps:
  fixes U :: request_luck
  assumes "start_provider E (rl_draw U 0) False 0 (pm_node P) = (Inr (), nd)"
  shows "\<exists>P'. process_steps E {Start_Provider} P P' \<and> pm_node P' = snd (start_provider E (rl_draw U 0) True now (pm_node P))
    \<and> pm_tasks P' = pm_tasks P @ [Up] \<and> pm_current P' = Some (length (pm_tasks P)) \<and> pm_calls P' = pm_calls P @ [Pausing False]"
proof -
  let ?P1 = "suspend (arrive E U False Start_Provider P)"
  have P1: "?P1 = P\<lparr>pm_node := nd, pm_tasks := pm_tasks P @ [Created], pm_current := Some (length (pm_tasks P)),
      pm_calls := pm_calls P @ [Pausing False]\<rparr>"
    using assms by (simp add: arrive_def begin_provider_def)
  have "process_steps E {Start_Provider} P ?P1" by (rule step_arrive) simp
  also have "process_steps E {Start_Provider} ?P1 (?P1\<lparr>pm_tasks := (pm_tasks ?P1)[length (pm_tasks P) := Up],
      pm_node := (pm_node ?P1)\<lparr>nd_provider := \<lparr>ps_running = True, ps_started_at = Some now\<rparr>\<rparr>\<rparr>)"
    by (rule step_comes_up) (simp_all add: P1)
  finally show ?thesis
    by (intro exI conjI) (assumption, simp_all add: P1 start_provider_up [OF assms])
qed

text \<open>With the provider running in its task and the local proxy up, a lock runs to its end like \<open>lock_node\<close>.\<close>

lemma lock_steps:
  assumes "provider_runs P" and "pm_current P = Some i" and "i < length (pm_tasks P)" and "pm_tasks P ! i = Up"
    and "consumer_runs P" and "pm_proxy P"
  shows "\<exists>P'. process_steps E {Lock} P P' \<and> pm_node P' = snd (lock_node (pm_node P)) \<and> pm_calls P' = pm_calls P"
proof -
  let ?P1 = "P\<lparr>pm_tasks := (pm_tasks P)[i := Stopping True], pm_calls := pm_calls P @ [Awaiting i Then_Lock]\<rparr>"
  let ?P2 = "?P1\<lparr>pm_tasks := (pm_tasks P)[i := Over True], pm_node := (pm_node P)\<lparr>nd_provider := stopped\<rparr>\<rparr>"
  let ?P3 = "?P2\<lparr>pm_current := None, pm_calls := pm_calls P @ [Closing_Proxy Then_Lock]\<rparr>"
  have "process_steps E {Lock} P (suspend (arrive E U False Lock P))" for U by (rule step_arrive) simp
  then have s1: "process_steps E {Lock} P ?P1" using assms by (simp add: arrive_def begin_lock_def begin_stop_def)
  have s2: "process_steps E {Lock} ?P1 ?P2"
    using step_stopped [of i ?P1 True E "{Lock}"] assms(3) by simp
  have s3: "process_steps E {Lock} ?P2 ?P3"
    using step_resume [of ?P2 "pm_calls P" "Awaiting i Then_Lock" E "{Lock}"] assms(3,5,6)
    by (simp add: resume_def resume_stop_def after_stop_def lock_consumer_def begin_stop_consumer_def ex_bool_eq)
  have s4: "process_steps E {Lock} ?P3 (suspend (resume E U market bound now (Closing_Proxy Then_Lock) (?P3\<lparr>pm_calls := pm_calls P\<rparr>)))"
    for U market bound now by (rule step_resume) simp_all
  show ?thesis
    using rtranclp_trans [OF rtranclp_trans [OF rtranclp_trans [OF s1 s2] s3] s4] assms(1,5)
    by (intro exI conjI) (assumption, simp_all add: resume_def end_consumer_def shut_def lock_node_def stop_provider_def stop_consumer_def)
qed

section \<open>What overlapping requests do\<close>

text \<open>Locked, with no passphrase left.\<close>

definition secured :: "node \<Rightarrow> bool" where
  "secured nd \<longleftrightarrow> nd_locked nd \<and> nd_passphrase nd = None \<and> nd_env_passphrase nd = None"

text \<open>
  The check of \<open>start_consumer\<close> precedes the binding of the proxy, the running flag follows it: a lock that arrives in between
  finds no consumer to stop, and the consumer comes up on the locked node.
\<close>

lemma lock_overtakes_consumer_start:
  assumes "\<not> provider_runs P" and "\<not> consumer_runs P" and "pm_calls P = [Binding]"
  shows "\<exists>P'. process_steps E {Lock} P P' \<and> secured (pm_node P') \<and> consumer_runs P'"
proof -
  let ?P1 = "P\<lparr>pm_node := shut (pm_node P)\<rparr>"
  have "process_steps E {Lock} P (suspend (arrive E U False Lock P))" for U by (rule step_arrive) simp
  then have s1: "process_steps E {Lock} P ?P1"
    using assms by (simp add: arrive_def begin_lock_def lock_consumer_def)
  have s2: "process_steps E {Lock} ?P1 (suspend (resume E U market (Inr port) now Binding (?P1\<lparr>pm_calls := []\<rparr>)))" for U market port now
    by (rule step_resume) (simp_all add: assms(3))
  show ?thesis using rtranclp_trans [OF s1 s2]
    by (intro exI conjI) (assumption, simp_all add: resume_def bound_consumer_def secured_def shut_def)
qed

text \<open>\<open>lock_node\<close> sets the flag only after it has closed the proxy: a start that arrives while it waits is let through.\<close>

lemma start_overtakes_lock:
  fixes U :: request_luck
  assumes "\<not> provider_runs P" and "consumer_runs P" and "pm_proxy P" and "pm_calls P = []"
    and "start_provider E (rl_draw U 0) False 0 (pm_node P) = (Inr (), nd)"
  shows "\<exists>P'. process_steps E {Lock, Start_Provider} P P' \<and> secured (pm_node P') \<and> provider_runs P'"
proof -
  let ?Q = "{Lock, Start_Provider}" and ?n = "length (pm_tasks P)"
  let ?P1 = "P\<lparr>pm_calls := [Closing_Proxy Then_Lock]\<rparr>"
  let ?P2 = "?P1\<lparr>pm_node := nd, pm_tasks := pm_tasks P @ [Created], pm_current := Some ?n,
      pm_calls := [Closing_Proxy Then_Lock, Pausing False]\<rparr>"
  let ?P3 = "?P2\<lparr>pm_tasks := pm_tasks P @ [Up], pm_node := nd\<lparr>nd_provider := \<lparr>ps_running = True, ps_started_at = Some 0\<rparr>\<rparr>\<rparr>"
  have "process_steps E ?Q P (suspend (arrive E U False Lock P))" for U by (rule step_arrive) simp
  then have s1: "process_steps E ?Q P ?P1"
    using assms by (simp add: arrive_def begin_lock_def lock_consumer_def begin_stop_consumer_def)
  have "process_steps E ?Q ?P1 (suspend (arrive E U False Start_Provider ?P1))" by (rule step_arrive) simp
  then have s2: "process_steps E ?Q ?P1 ?P2" using assms(5) by (simp add: arrive_def begin_provider_def)
  have s3: "process_steps E ?Q ?P2 ?P3" using step_comes_up [of ?n ?P2 E ?Q 0] by simp
  have s4: "process_steps E ?Q ?P3 (suspend (resume E U market bound now (Closing_Proxy Then_Lock) (?P3\<lparr>pm_calls := [Pausing False]\<rparr>)))"
    for U market bound now using process_step.Resume [of ?P3 "[]" "Closing_Proxy Then_Lock" "[Pausing False]" E ?Q U market bound now]
    by (simp add: r_into_rtranclp)
  show ?thesis using rtranclp_trans [OF rtranclp_trans [OF rtranclp_trans [OF s1 s2] s3] s4]
    by (intro exI conjI) (assumption, simp_all add: resume_def end_consumer_def secured_def shut_def)
qed

text \<open>
  A second stop cancels the task again. In \<open>transport.close\<close> and \<open>adapter.stop\<close> nothing suppresses the cancellation: it ends the
  \<open>finally\<close> block before the status is reset. From then on the provider counts as running for good: it cannot be started, and
  every stop and lock awaits the failed task and raises.
\<close>

definition stuck :: "processes \<Rightarrow> bool" where
  "stuck P \<longleftrightarrow> provider_runs P \<and> pm_tasks P = [Over False] \<and> pm_current P = Some 0
     \<and> (\<forall>c \<in> set (pm_calls P). case c of Awaiting i _ \<Rightarrow> i = 0 | _ \<Rightarrow> True)"

lemma second_stop_sticks:
  assumes "provider_runs P" and "pm_tasks P = [Up]" and "pm_current P = Some 0" and "pm_calls P = []"
  shows "\<exists>P'. process_steps E {Stop_Provider} P P' \<and> stuck P'"
proof -
  let ?Q = "{Stop_Provider}"
  let ?P1 = "P\<lparr>pm_tasks := [Stopping True], pm_calls := [Awaiting 0 Then_Return]\<rparr>"
  have "process_steps E ?Q P (suspend (arrive E U False Stop_Provider P))" for U by (rule step_arrive) simp
  then have s1: "process_steps E ?Q P ?P1" using assms by (simp add: arrive_def begin_stop_def)
  have s2: "process_steps E ?Q ?P1 (suspend (arrive E U False Stop_Provider ?P1))" for U by (rule step_arrive) simp
  show ?thesis using rtranclp_trans [OF s1 s2] assms
    by (intro exI conjI) (assumption, simp add: stuck_def arrive_def begin_stop_def)
qed

lemma stuck_same:
  assumes "stuck P" and "nd_provider (pm_node P') = nd_provider (pm_node P)" and "pm_tasks P' = pm_tasks P"
    and "pm_current P' = pm_current P" and "set (pm_calls P') \<subseteq> set (pm_calls P)"
  shows "stuck P'"
  using assms by (auto simp: stuck_def)

definition stuck_stretch :: "call option \<times> processes \<Rightarrow> bool" where
  "stuck_stretch x \<longleftrightarrow> stuck (snd x) \<and> (\<forall>i g. fst x = Some (Awaiting i g) \<longrightarrow> i = 0)"

lemma stuck_suspend: "stuck_stretch x \<Longrightarrow> stuck (suspend x)"
  by (cases x; cases "fst x") (auto simp: stuck_stretch_def stuck_def split: call.splits)

lemma stuck_return: "stuck P \<Longrightarrow> stuck_stretch (None, P)"
  by (simp add: stuck_stretch_def)

lemma stuck_begin_consumer: "stuck P \<Longrightarrow> stuck_stretch (begin_consumer E P)"
  by (auto simp: begin_consumer_def stuck_stretch_def Let_def propagate_passphrase_def stuck_def split: sum.splits)

lemma stuck_refuses: "stuck P \<Longrightarrow> \<exists>e. start_provider E d up now (pm_node P) = (Inl e, pm_node P)"
  by (auto simp: stuck_def start_provider_def split: sum.splits)

lemma stuck_begin_provider: "stuck P \<Longrightarrow> stuck_stretch (begin_provider E d follow P)"
  using stuck_refuses [of P E d False 0] by (auto simp: begin_provider_def node_back stuck_begin_consumer stuck_return)

lemma stuck_begin_autostart: "stuck P \<Longrightarrow> stuck_stretch (begin_autostart E d P)"
  by (simp add: begin_autostart_def Let_def stuck_begin_provider stuck_begin_consumer stuck_return)

lemma stuck_end_consumer: "stuck P \<Longrightarrow> stuck_stretch (end_consumer g P)"
  by (auto simp: end_consumer_def stuck_stretch_def stuck_def shut_def)

lemma stuck_begin_stop: "stuck P \<Longrightarrow> stuck_stretch (begin_stop E d deaf g P)"
  by (auto simp: begin_stop_def stuck_stretch_def stuck_def)

lemma stuck_begin_stop_consumer: "stuck P \<Longrightarrow> stuck_stretch (begin_stop_consumer g P)"
  by (simp add: begin_stop_consumer_def stuck_return stuck_end_consumer) (simp add: stuck_stretch_def)

lemma stuck_unlock: "stuck P \<Longrightarrow> unlock E d pass (pm_node P) = (b, nd) \<Longrightarrow> stuck (P\<lparr>pm_node := nd\<rparr>)"
  by (auto simp: stuck_def unlock_def use_keystore_def split: prod.splits sum.splits)

lemma stuck_runs: "stuck P \<Longrightarrow> provider_runs P"
  by (simp add: stuck_def)

text \<open>What the other requests do to the node leaves the status of the provider.\<close>

lemma determine_provider: "nd_provider (determine_node_state E d nd) = nd_provider nd"
  using determine_cases [OF refl, of E d nd] by simp

lemma prepare_provider: "nd_provider (snd (prepare_registration E U q nd)) = nd_provider nd"
proof -
  obtain r nd1 where u: "use_keystore E (keystore_path nd) (held_passphrase nd) (rl_draw U 0) nd = (r, nd1)" by fastforce
  from use_keystore_all [OF u] u show ?thesis by (auto simp: prepare_registration_def split: sum.split)
qed

lemma write_setup_provider: "nd_provider (snd (write_setup E U uuid q i nd)) = nd_provider nd"
proof -
  obtain r nd1 where w: "write_steps (setup_steps E U uuid q i) nd = (r, nd1)" by fastforce
  from write_steps_view [OF w] w show ?thesis
    by (cases r) (simp_all add: write_setup_def determine_provider mark_setup_complete_def)
qed

lemma stretch_provider: "one_stretch x \<Longrightarrow> nd_provider (node_apply E nd x) = nd_provider nd"
proof (cases x)
  case (Op_Keypair U pass)
  obtain r nd1 where "use_keystore E (keystore_path nd) (case pass of None \<Rightarrow> [] | Some p \<Rightarrow> p) (rl_draw U 0) nd = (r, nd1)" by fastforce
  with use_keystore_all [OF this] Op_Keypair show ?thesis
    by (auto simp: node_apply_def setup_keypair_def node_write_def mark_setup_step_def Let_def split: sum.split)
next
  case (Op_Rotate U told)
  with keypair_rotate_view [of E U told nd] show ?thesis by (simp add: node_apply_def)
qed (auto simp: node_apply_def setup_test_connection_def node_write_def mark_setup_step_def route_config_update_def
      store_add_session_def session_kill_def store_remove_session_def Let_def split: sum.split prod.split update_reply.split)

lemma stuck_node: "stuck P \<Longrightarrow> nd_provider nd = nd_provider (pm_node P) \<Longrightarrow> stuck (P\<lparr>pm_node := nd\<rparr>)"
  by (simp add: stuck_def)

lemma stuck_begin_reload: "stuck P \<Longrightarrow> stuck_stretch (begin_reload E U deaf P)"
proof -
  assume s: "stuck P"
  obtain r nd where l: "load_store_config E (pm_node P) = (r, nd)" by fastforce
  with load_store_config_view(2) [OF l] stuck_node [OF s] show ?thesis
    by (cases r) (auto simp: begin_reload_def Let_def determine_provider stuck_return stuck_begin_stop)
qed

lemma stuck_begin_finish: "stuck P \<Longrightarrow> stuck_stretch (begin_finish E U uuid q i P)"
  using write_setup_provider [of E U uuid q i "pm_node P"] stuck_node [of P]
  by (auto simp: begin_finish_def stuck_return stuck_begin_autostart split: prod.split sum.split)

lemma stuck_begin_finalize: "stuck P \<Longrightarrow> stuck_stretch (begin_finalize E U uuid q P)"
  using prepare_provider [of E U q "pm_node P"] stuck_node [of P]
  by (auto simp: begin_finalize_def stuck_return stuck_begin_finish stuck_stretch_def [of "(Some _, _)"] split: prod.split sum.split)

lemma stuck_arrive: "stuck P \<Longrightarrow> stuck_stretch (arrive E U deaf q P)"
  by (cases q) (auto simp: arrive_def begin_lock_def begin_unlock_def stuck_runs stuck_begin_provider stuck_begin_consumer
      stuck_begin_autostart stuck_begin_stop stuck_begin_stop_consumer stuck_begin_reload stuck_begin_finalize stuck_return
      stuck_node stretch_provider dest: stuck_unlock split: prod.splits bool.splits)

lemma stuck_resume:
  assumes "stuck P" and "\<And>i g. c = Awaiting i g \<Longrightarrow> i = 0"
  shows "stuck_stretch (resume E U market bound now c P)"
proof (cases c)
  case (Awaiting i g)
  with assms show ?thesis by (auto simp: resume_def resume_stop_def stuck_return) (simp add: stuck_def)
next
  case Binding
  with assms(1) show ?thesis by (auto simp: resume_def bound_consumer_def stuck_stretch_def stuck_def split: sum.splits)
next
  case (Closing_Proxy g)
  have "stuck (P\<lparr>pm_proxy := False\<rparr>)" using assms(1) by (simp add: stuck_def)
  with Closing_Proxy show ?thesis by (simp add: resume_def stuck_end_consumer)
next
  case (Registering uuid q keys)
  with assms(1) show ?thesis by (simp add: resume_def stuck_return stuck_begin_finish split: sum.split)
qed (simp add: resume_def stuck_begin_consumer stuck_return assms(1))

lemma stuck_step:
  assumes "process_step E Q P P'" and "stuck P"
  shows "stuck P'"
  using assms(1)
proof (cases rule: process_step.cases)
  case (Arrive q U deaf)
  with stuck_arrive [OF assms(2)] show ?thesis by (simp add: stuck_suspend)
next
  case (Resume before c rest U market bound now)
  have "stuck (P\<lparr>pm_calls := before @ rest\<rparr>)" by (rule stuck_same [OF assms(2)]) (use Resume in auto)
  moreover have "i = 0" if "c = Awaiting i g" for i g using Resume that assms(2) by (auto simp: stuck_def)
  ultimately show ?thesis using Resume by (auto intro: stuck_suspend stuck_resume)
next
  case (Gone before c rest)
  with assms(2) show ?thesis by (auto intro: stuck_same)
next
  case (Elsewhere nd)
  with assms(2) show ?thesis by (auto intro: stuck_same)
qed (use assms(2) in \<open>auto simp: stuck_def split: if_splits nat.splits\<close>)

text \<open>The provider of a stuck manager counts as running whatever requests and tasks follow.\<close>

lemma stuck_for_good: "process_steps E Q P P' \<Longrightarrow> stuck P \<Longrightarrow> provider_runs P'"
proof -
  assume "process_steps E Q P P'" and "stuck P"
  then have "stuck P'" by (induction rule: rtranclp_induct) (auto intro: stuck_step)
  then show ?thesis by (rule stuck_runs)
qed

section \<open>A concrete run\<close>

text \<open>An autostart is in its pause, its provider has failed; a lock arrives, and the autostart goes on to the consumer.\<close>

definition paused_processes :: processes where
  "paused_processes = \<lparr>pm_node = demo_node\<lparr>nd_passphrase := Some ''pw'', nd_env_passphrase := Some ''pw''\<rparr>,
     pm_tasks = [Over False], pm_current = Some 0, pm_proxy = False, pm_calls = [Pausing True]\<rparr>"


end
