(* ===== verification/Tools.thy ===== *)
theory Tools
  imports PyObject NodeRoutes
begin

text \<open>
  \<open>aim_node/management/tools.py\<close>: discovery of the upstream's tools, the sample argument a JSON
  schema gets, the check of an answer against a schema, the cached tool list in the store and the
  routes. The upstream's answers are arguments, SHA-256 (in hexadecimal) is the parameter
  \<open>sha\<close>, times are texts.
\<close>

section \<open>Reading a tool list\<close>

record tool_info =
  ti_name :: string
  ti_version :: string
  ti_description :: string
  ti_input :: json
  ti_output :: json

definition tool_id_of :: "(bytes \<Rightarrow> string) \<Rightarrow> string \<Rightarrow> string \<Rightarrow> string" where
  "tool_id_of sha name version = take 12 (sha (utf8_encode (name @ '':'' @ version)))"

definition tools_list_url :: "string \<Rightarrow> string" where
  "tools_list_url u = rstrip_char CHR ''/'' u @ ''/tools/list''"

definition tools_call_url :: "string \<Rightarrow> string" where
  "tools_call_url u = rstrip_char CHR ''/'' u @ ''/tools/call''"

text \<open>\<open>str(item.get(k) or d)\<close>\<close>

definition str_field :: "pyrt \<Rightarrow> (string \<times> json) list \<Rightarrow> string \<Rightarrow> string \<Rightarrow> string" where
  "str_field rt m k d = py_str rt (or_else (jget m k) (JStr d))"

fun normalize_item :: "pyrt \<Rightarrow> json \<Rightarrow> tool_info option" where
  "normalize_item rt (JObj m) =
     (if str_field rt m ''name'' [] = [] then None
      else Some \<lparr>ti_name = str_field rt m ''name'' [], ti_version = str_field rt m ''version'' ''unknown'',
                 ti_description = str_field rt m ''description'' [],
                 ti_input = or_else (or_else (jget m ''input_schema'') (jget m ''inputSchema'')) (JObj []),
                 ti_output = or_else (or_else (jget m ''output_schema'') (jget m ''outputSchema'')) (JObj [])\<rparr>)"
| "normalize_item rt _ = None"

definition tool_candidates :: "json \<Rightarrow> json list res" where
  "tool_candidates payload = (case payload of
     JObj m \<Rightarrow> py_iter (jget_or m ''tools'' (JArr []))
   | JArr xs \<Rightarrow> Inr xs
   | _ \<Rightarrow> Inr [])"

definition normalize_tools :: "pyrt \<Rightarrow> json \<Rightarrow> tool_info list res" where
  "normalize_tools rt payload =
     rbind (tool_candidates payload) (\<lambda>xs. Inr (List.map_filter (normalize_item rt) xs))"

section \<open>Schemas\<close>

lemma json_size_member [termination_simp]:
  "map_of m k = Some v \<Longrightarrow> size v < size (JObj m)"
  by (induction m) (auto split: if_splits)

text \<open>
  \<open>_minimal_value\<close> and its loop over the required keys. A required key that is a list or an object is
  not hashable; one that is a number, a boolean or null would become a key that is not a string,
  which the model's dictionaries do not have (\<open>Unrepresentable\<close>).
\<close>

fun required_key :: "json \<Rightarrow> string res" where
  "required_key (JStr k) = Inr k"
| "required_key (JArr _) = Inl TypeError"
| "required_key (JObj _) = Inl TypeError"
| "required_key _ = Inl Unrepresentable"

fun enum_first :: "(string \<times> json) list \<Rightarrow> json option" where
  "enum_first s = (case map_of s ''enum'' of Some (JArr (e # _)) \<Rightarrow> Some e | _ \<Rightarrow> None)"

definition schema_properties :: "(string \<times> json) list \<Rightarrow> json" where
  "schema_properties s = jget_or s ''properties'' (JObj [])"

fun plain_minimal :: "json \<Rightarrow> json" where
  "plain_minimal (JStr t) =
     (if t = ''array'' then JArr []
      else if t = ''integer'' \<or> t = ''number'' then JInt 0
      else if t = ''boolean'' then JBool False
      else JStr [])"
| "plain_minimal _ = JStr []"

lemma schema_properties_smaller:
  assumes "schema_properties s = JObj ps" and "jget s ''type'' = JStr t"
  shows "size (JObj ps) < size (JObj s)"
proof (cases "map_of s ''properties''")
  case None
  with assms(1) have "ps = []" by (simp add: schema_properties_def jget_or_def)
  moreover from assms(2) have "s \<noteq> []" by (auto simp: jget_def)
  ultimately show ?thesis by (cases s) auto
next
  case (Some v)
  with assms(1) have "v = JObj ps" by (simp add: schema_properties_def jget_or_def)
  with Some show ?thesis using json_size_member by blast
qed

function (sequential) minimal_value :: "json \<Rightarrow> json res"
  and minimal_members :: "(string \<times> json) list \<Rightarrow> json list \<Rightarrow> (string \<times> json) list \<Rightarrow> json res" where
  "minimal_value (JObj s) =
     (case map_of s ''default'' of
        Some d \<Rightarrow> Inr d
      | None \<Rightarrow>
     (case enum_first s of
        Some e \<Rightarrow> Inr e
      | None \<Rightarrow>
     (if jget s ''type'' = JStr ''object'' then
        (case schema_properties s of
           JObj ps \<Rightarrow> rbind (py_iter (jget_or s ''required'' (JArr []))) (\<lambda>ks. minimal_members ps ks [])
         | _ \<Rightarrow> Inr (JObj []))
      else Inr (plain_minimal (jget s ''type'')))))"
| "minimal_value _ = Inl AttributeError"
| "minimal_members ps [] acc = Inr (JObj acc)"
| "minimal_members ps (k # ks) acc =
     rbind (required_key k) (\<lambda>key.
       case map_of ps key of
         None \<Rightarrow> minimal_members ps ks (dict_set key (JStr []) acc)
       | Some (JObj q) \<Rightarrow>
           rbind (minimal_value (JObj q)) (\<lambda>v. minimal_members ps ks (dict_set key v acc))
       | Some _ \<Rightarrow> minimal_members ps ks acc)"
  by pat_completeness auto
termination
  by (relation "measures [\<lambda>x. case x of Inl s \<Rightarrow> size s | Inr (ps, _) \<Rightarrow> size (JObj ps),
                          \<lambda>x. case x of Inl _ \<Rightarrow> 0 | Inr (_, ks, _) \<Rightarrow> Suc (length ks)]")
    (auto simp del: json.size dest: json_size_member schema_properties_smaller)

text \<open>\<open>_matches_schema\<close>: members are checked in the order of \<open>properties\<close>.\<close>

fun has_required :: "(string \<times> json) list \<Rightarrow> json \<Rightarrow> bool res" where
  "has_required m (JArr []) = Inr True"
| "has_required m (JArr (k # ks)) =
     (case k of
        JArr _ \<Rightarrow> Inl TypeError
      | JObj _ \<Rightarrow> Inl TypeError
      | JStr key \<Rightarrow> if key \<in> set (dict_keys m) then has_required m (JArr ks) else Inr False
      | _ \<Rightarrow> Inr False)"
| "has_required m _ = Inr True"

fun is_number :: "json \<Rightarrow> bool" where
  "is_number (JInt _) = True"
| "is_number (JFloat _) = True"
| "is_number _ = False"

fun is_arr :: "json \<Rightarrow> bool" where
  "is_arr (JArr _) = True"
| "is_arr _ = False"

fun is_bool :: "json \<Rightarrow> bool" where
  "is_bool (JBool _) = True"
| "is_bool _ = False"

fun plain_match :: "json \<Rightarrow> json \<Rightarrow> bool" where
  "plain_match v (JStr t) =
     (if t = ''array'' then is_arr v
      else if t = ''string'' then is_str v
      else if t = ''boolean'' then is_bool v
      else if t = ''integer'' then is_int v
      else if t = ''number'' then is_number v
      else True)"
| "plain_match v _ = True"

function (sequential) matches_schema :: "json \<Rightarrow> json \<Rightarrow> bool res"
  and matches_members :: "(string \<times> json) list \<Rightarrow> (string \<times> json) list \<Rightarrow> bool res" where
  "matches_schema v (JObj s) =
     (if jget s ''type'' = JStr ''object'' then
        (case v of
           JObj m \<Rightarrow>
             rbind (has_required m (jget_or s ''required'' (JArr []))) (\<lambda>b.
               if \<not> b then Inr False
               else (case schema_properties s of JObj ps \<Rightarrow> matches_members m ps | _ \<Rightarrow> Inr True))
         | _ \<Rightarrow> Inr False)
      else Inr (plain_match v (jget s ''type'')))"
| "matches_schema v _ = Inl AttributeError"
| "matches_members m [] = Inr True"
| "matches_members m ((k, q) # ps) =
     (case (map_of m k, q) of
        (Some v, JObj q') \<Rightarrow> rbind (matches_schema v (JObj q')) (\<lambda>b. if b then matches_members m ps else Inr False)
      | _ \<Rightarrow> matches_members m ps)"
  by pat_completeness auto
termination
  by (relation "measure (\<lambda>x. case x of Inl (_, s) \<Rightarrow> size s | Inr (_, ps) \<Rightarrow> size (JObj ps))")
    (auto dest: schema_properties_smaller)

section \<open>The sample argument conforms to its schema\<close>

text \<open>
  Which schemas accept their own sample, read off the schema: what is given as a default, or else as the first
  enumerated value, passes the check of that schema; in an object without either, every required name that
  \<open>properties\<close> describes is described by a schema with this property (not by a boolean, which the sample leaves out),
  and none is required when \<open>properties\<close> is not an object. Properties that are not required do not matter.
\<close>

fun text_of :: "json \<Rightarrow> string" where
  "text_of (JStr t) = t"
| "text_of _ = []"

definition required_names :: "(string \<times> json) list \<Rightarrow> string list" where
  "required_names s = (case map_of s ''required'' of Some (JArr ks) \<Rightarrow> map text_of ks | _ \<Rightarrow> [])"

function (sequential) sample_fits :: "json \<Rightarrow> bool" where
  "sample_fits (JObj s) =
     (case map_of s ''default'' of
        Some d \<Rightarrow> matches_schema d (JObj s) = Inr True
      | None \<Rightarrow>
     (case enum_first s of
        Some e \<Rightarrow> matches_schema e (JObj s) = Inr True
      | None \<Rightarrow>
     (if jget s ''type'' = JStr ''object'' then
        (case schema_properties s of
           JObj ps \<Rightarrow> list_all (\<lambda>k. case map_of ps k of None \<Rightarrow> True | Some q \<Rightarrow> is_obj q \<and> sample_fits q) (required_names s)
         | _ \<Rightarrow> required_names s = [])
      else True)))"
| "sample_fits _ = False"
  by pat_completeness auto
termination
  by (relation "measure size") (auto simp del: json.size dest!: json_size_member schema_properties_smaller)

text \<open>The shape of a schema: at every depth, the properties have different names and the required ones are a list of names.\<close>

lemma schema_properties_member:
  "schema_properties s = JObj ps \<Longrightarrow> (k, q) \<in> set ps \<Longrightarrow> size q < size (JObj s)"
proof -
  assume ps: "schema_properties s = JObj ps" and q: "(k, q) \<in> set ps"
  then have "map_of s ''properties'' = Some (JObj ps)" by (auto simp: schema_properties_def jget_or_def split: option.splits)
  then have "size (JObj ps) < size (JObj s)" by (rule json_size_member)
  moreover have "size q < size (JObj ps)" using q by (induction ps) auto
  ultimately show ?thesis by simp
qed

function (sequential) well_shaped :: "json \<Rightarrow> bool" where
  "well_shaped (JObj s) \<longleftrightarrow>
     (case map_of s ''required'' of None \<Rightarrow> True | Some (JArr ks) \<Rightarrow> list_all is_str ks | _ \<Rightarrow> False)
     \<and> (case schema_properties s of
          JObj ps \<Rightarrow> distinct (dict_keys ps) \<and> list_all (\<lambda>kq. well_shaped (snd kq)) ps
        | _ \<Rightarrow> True)"
| "well_shaped _ \<longleftrightarrow> True"
  by pat_completeness auto
termination
  by (relation "measure size") (auto simp del: json.size dest: schema_properties_member)

lemma required_list:
  assumes "case map_of s ''required'' of None \<Rightarrow> True | Some (JArr ks) \<Rightarrow> list_all is_str ks | _ \<Rightarrow> False"
  shows "jget_or s ''required'' (JArr []) = JArr (map JStr (required_names s))"
proof (cases "map_of s ''required''")
  case (Some v)
  have "list_all is_str ks \<Longrightarrow> map (JStr \<circ> text_of) ks = ks" for ks
  proof (induction ks)
    case (Cons k ks)
    then show ?case by (cases k) auto
  qed simp
  with assms Some show ?thesis by (cases v) (simp_all add: jget_or_def required_names_def)
qed (simp add: jget_or_def required_names_def)

definition conforms :: "json \<Rightarrow> bool" where
  "conforms q \<longleftrightarrow> (\<exists>v. minimal_value q = Inr v \<and> matches_schema v q = Inr True)"

text \<open>What the sample of an object holds: under each name the sample of its description.\<close>

definition sampled :: "(string \<times> json) list \<Rightarrow> (string \<times> json) list \<Rightarrow> bool" where
  "sampled ps m \<longleftrightarrow> (\<forall>k v q. map_of m k = Some v \<and> map_of ps k = Some q \<longrightarrow> is_obj q \<and> minimal_value q = Inr v)"

lemma minimal_members_sampled:
  "minimal_members ps (map JStr ks) acc = Inr r \<Longrightarrow> sampled ps acc \<Longrightarrow>
    \<exists>m. r = JObj m \<and> sampled ps m \<and> set (dict_keys acc) \<subseteq> set (dict_keys m)
      \<and> set (dict_keys m) = set (dict_keys acc) \<union> {k \<in> set ks. \<forall>q. map_of ps k = Some q \<longrightarrow> is_obj q}"
proof (induction ks arbitrary: acc)
  case (Cons k ks)
  show ?case
  proof (cases "map_of ps k")
    case None
    with Cons.prems have "sampled ps (dict_set k (JStr []) acc)" by (auto simp: sampled_def)
    with Cons.IH [of "dict_set k (JStr []) acc"] Cons.prems(1) None show ?thesis by auto
  next
    case (Some q)
    show ?thesis
    proof (cases "is_obj q")
      case True
      then obtain q' where q: "q = JObj q'" by (cases q) auto
      with Cons.prems(1) Some obtain v where v: "minimal_value q = Inr v"
        "minimal_members ps (map JStr ks) (dict_set k v acc) = Inr r" by (auto simp: rbind_Inr_iff)
      with Cons.prems(2) Some True have "sampled ps (dict_set k v acc)" by (auto simp: sampled_def)
      with Cons.IH [OF v(2)] Some True show ?thesis by auto
    next
      case False
      with Cons.prems(1) Some have "minimal_members ps (map JStr ks) acc = Inr r" by (cases q) auto
      with Cons.IH [OF _ Cons.prems(2)] Some False show ?thesis by auto
    qed
  qed
qed auto

lemma minimal_members_total:
  assumes "\<And>k q. k \<in> set ks \<Longrightarrow> map_of ps k = Some q \<Longrightarrow> is_obj q \<Longrightarrow> \<exists>v. minimal_value q = Inr v"
  shows "\<exists>r. minimal_members ps (map JStr ks) acc = Inr r"
  using assms
proof (induction ks arbitrary: acc)
  case (Cons k ks)
  have rest: "\<exists>r. minimal_members ps (map JStr ks) acc' = Inr r" for acc'
    by (rule Cons.IH) (use Cons.prems in auto)
  show ?case
  proof (cases "map_of ps k")
    case (Some q)
    with Cons.prems [of k q] rest show ?thesis by (cases q) (auto simp del: minimal_value.simps)
  qed (use rest in simp)
qed simp

lemma has_required_names: "has_required m (JArr (map JStr ks)) = Inr (set ks \<subseteq> set (dict_keys m))"
  by (induction ks) auto

lemma matches_members_iff:
  "matches_members m ps = Inr True \<longleftrightarrow>
    (\<forall>k q v. (k, q) \<in> set ps \<longrightarrow> is_obj q \<longrightarrow> map_of m k = Some v \<longrightarrow> matches_schema v q = Inr True)"
proof (induction ps)
  case (Cons kq ps)
  obtain k q where kq: "kq = (k, q)" by (cases kq)
  show ?case
  proof (cases "is_obj q \<and> map_of m k \<noteq> None")
    case True
    then obtain q' v where q: "q = JObj q'" "map_of m k = Some v" by (cases q) auto
    then have "matches_members m (kq # ps) = Inr True \<longleftrightarrow> matches_schema v q = Inr True \<and> matches_members m ps = Inr True"
      by (auto simp: kq rbind_Inr_iff)
    with Cons q show ?thesis by (auto simp: kq)
  next
    case False
    then have "matches_members m (kq # ps) = matches_members m ps" by (cases q) (auto simp: kq split: option.split)
    with Cons False show ?thesis by (auto simp: kq)
  qed
qed simp

lemma plain_minimal_matches: "t \<noteq> JStr ''object'' \<Longrightarrow> plain_match (plain_minimal t) t"
  by (cases t) auto

text \<open>An object: the sample exists and conforms exactly when the descriptions of its required names do.\<close>

lemma object_conforms:
  assumes "map_of s ''default'' = None" and "enum_first s = None" and "jget s ''type'' = JStr ''object''"
    and "schema_properties s = JObj ps" and "distinct (dict_keys ps)"
    and "jget_or s ''required'' (JArr []) = JArr (map JStr ks)"
  shows "conforms (JObj s) \<longleftrightarrow> (\<forall>k \<in> set ks. \<forall>q. map_of ps k = Some q \<longrightarrow> is_obj q \<and> conforms q)"
proof -
  have unfold: "conforms (JObj s) \<longleftrightarrow> (\<exists>m. minimal_members ps (map JStr ks) [] = Inr (JObj m)
      \<and> set ks \<subseteq> set (dict_keys m) \<and> matches_members m ps = Inr True)"
  proof -
    have "minimal_value (JObj s) = minimal_members ps (map JStr ks) []" using assms by simp
    moreover have "matches_schema v (JObj s) = Inr True \<longleftrightarrow> (\<exists>m. v = JObj m \<and> set ks \<subseteq> set (dict_keys m) \<and> matches_members m ps = Inr True)" for v
      by (cases v) (simp_all add: has_required_names assms(3,4,6) rbind_Inr_iff)
    ultimately show ?thesis unfolding conforms_def by auto
  qed
  have empty: "sampled ps []" by (simp add: sampled_def)
  have in_ps: "(k, q) \<in> set ps \<longleftrightarrow> map_of ps k = Some q" for k q using assms(5) by (simp add: map_of_eq_Some_iff)
  show ?thesis
  proof
    assume "conforms (JObj s)"
    then obtain m where m: "minimal_members ps (map JStr ks) [] = Inr (JObj m)" "set ks \<subseteq> set (dict_keys m)" "matches_members m ps = Inr True"
      unfolding unfold by blast
    have sm: "sampled ps m" using minimal_members_sampled [OF m(1) empty] by auto
    show "\<forall>k \<in> set ks. \<forall>q. map_of ps k = Some q \<longrightarrow> is_obj q \<and> conforms q"
    proof (intro ballI allI impI)
      fix k q assume k: "k \<in> set ks" and q: "map_of ps k = Some q"
      from k m(2) have "map_of m k \<noteq> None" by (auto simp: map_of_eq_None_iff)
      then obtain v where v: "map_of m k = Some v" by blast
      with sm q have "is_obj q" "minimal_value q = Inr v" unfolding sampled_def by blast+
      with m(3) v q show "is_obj q \<and> conforms q" unfolding matches_members_iff in_ps conforms_def by blast
    qed
  next
    assume fits: "\<forall>k \<in> set ks. \<forall>q. map_of ps k = Some q \<longrightarrow> is_obj q \<and> conforms q"
    then have "\<exists>r. minimal_members ps (map JStr ks) [] = Inr r" by (intro minimal_members_total) (auto simp: conforms_def)
    then obtain r where r: "minimal_members ps (map JStr ks) [] = Inr r" ..
    from minimal_members_sampled [OF r empty] obtain m where m: "r = JObj m" "sampled ps m"
      "set (dict_keys m) = {k \<in> set ks. \<forall>q. map_of ps k = Some q \<longrightarrow> is_obj q}" by auto
    with fits have keys: "set (dict_keys m) = set ks" by auto
    have "matches_schema v q = Inr True" if "map_of ps k = Some q" "map_of m k = Some v" for k q v
    proof -
      from that(2) have "k \<in> set (dict_keys m)" by (metis map_of_eq_None_iff option.distinct(1) set_map)
      with keys fits that(1) have "conforms q" by blast
      moreover from m(2) that have "minimal_value q = Inr v" unfolding sampled_def by blast
      ultimately show ?thesis unfolding conforms_def by auto
    qed
    then have "matches_members m ps = Inr True" unfolding matches_members_iff in_ps by blast
    with r m(1) keys show "conforms (JObj s)" unfolding unfold by auto
  qed
qed

lemma other_object_conforms:
  assumes "map_of s ''default'' = None" and "enum_first s = None" and "jget s ''type'' = JStr ''object''"
    and "\<And>ps. schema_properties s \<noteq> JObj ps"
    and "jget_or s ''required'' (JArr []) = JArr (map JStr ks)"
  shows "conforms (JObj s) \<longleftrightarrow> ks = []"
  using assms by (cases "schema_properties s") (auto simp: conforms_def has_required_names)

lemma conforms_iff: "well_shaped q \<Longrightarrow> conforms q \<longleftrightarrow> sample_fits q"
proof (induction q rule: sample_fits.induct)
  case (1 s)
  from 1(2) have req: "jget_or s ''required'' (JArr []) = JArr (map JStr (required_names s))"
    by (intro required_list) (simp split: option.splits json.splits)
  show ?case
  proof (cases "map_of s ''default'' = None \<and> enum_first s = None \<and> jget s ''type'' = JStr ''object''")
    case False
    then show ?thesis by (auto simp: conforms_def plain_minimal_matches split: option.splits)
  next
    case True
    show ?thesis
    proof (cases "\<exists>ps. schema_properties s = JObj ps")
      case True': True
      then obtain ps where ps: "schema_properties s = JObj ps" by blast
      with 1(2) have dist: "distinct (dict_keys ps)" and sub: "map_of ps k = Some q \<Longrightarrow> well_shaped q" for k q
        by (auto simp: list_all_iff dest: map_of_SomeD)
      have "is_obj q \<and> conforms q \<longleftrightarrow> is_obj q \<and> sample_fits q" if "k \<in> set (required_names s)" "map_of ps k = Some q" for k q
        using 1(1) True ps that sub by blast
      with object_conforms [OF _ _ _ ps dist req] True ps show ?thesis
        by (auto simp: list_all_iff split: option.splits)
    next
      case False
      with other_object_conforms [OF _ _ _ _ req] True show ?thesis by (cases "schema_properties s") auto
    qed
  qed
qed (simp_all add: conforms_def)

text \<open>C26: the sample argument that is sent to a tool for a schema - the required names of an object are a list of names, as
  JSON Schema has it - exists and is accepted by the check against that very schema exactly when the defaults and first
  enumerated values on the way pass the check of the schemas that give them and every required property is
  described by a schema, at every depth. So a schema without defaults and enumerations whose required properties
  are described by objects, or not at all, always has a sample that it accepts.\<close>

theorem minimal_value_conforms:
  assumes "well_shaped s"
  shows "(\<exists>v. minimal_value s = Inr v \<and> matches_schema v s = Inr True) \<longleftrightarrow> sample_fits s"
  using conforms_iff [OF assms] by (simp add: conforms_def)

definition demo_schema :: json where
  "demo_schema = JObj [(''type'', JStr ''object''), (''required'', JArr [JStr ''q'', JStr ''opts'', JStr ''k'']),
     (''properties'', JObj [(''q'', JObj [(''type'', JStr ''string'')]),
        (''opts'', JObj [(''type'', JStr ''object''), (''required'', JArr [JStr ''n'']),
           (''properties'', JObj [(''n'', JObj [(''type'', JStr ''integer''), (''enum'', JArr [JInt 7])])])]),
        (''k'', JObj [(''type'', JStr ''array''), (''default'', JArr [JInt 1])])])]"

lemma demo_schema_fits: "well_shaped demo_schema \<and> sample_fits demo_schema"
  by (simp add: demo_schema_def schema_properties_def jget_or_def jget_def required_names_def)

lemma demo_sample:
  "minimal_value demo_schema = Inr (JObj [(''q'', JStr []), (''opts'', JObj [(''n'', JInt 7)]), (''k'', JArr [JInt 1])])"
  by (simp add: demo_schema_def jget_def jget_or_def schema_properties_def)

theorem minimal_value_conforms_witness:
  "matches_schema (JObj [(''q'', JStr []), (''opts'', JObj [(''n'', JInt 7)]), (''k'', JArr [JInt 1])]) demo_schema = Inr True"
  using minimal_value_conforms [of demo_schema] demo_schema_fits by (simp add: demo_sample)

text \<open>A property described by a boolean schema, which JSON Schema allows, is left out of the sample.\<close>

lemma boolean_property_schema:
  "minimal_value (JObj [(''type'', JStr ''object''), (''required'', JArr [JStr ''a'']), (''properties'', JObj [(''a'', JBool True)])])
     = Inr (JObj [])
   \<and> matches_schema (JObj []) (JObj [(''type'', JStr ''object''), (''required'', JArr [JStr ''a'']), (''properties'', JObj [(''a'', JBool True)])])
     = Inr False"
  by (simp add: jget_def jget_or_def schema_properties_def)

section \<open>The cached tool list\<close>

definition tools_key :: string where
  "tools_key = ''discovered_tools''"

datatype tool_exn =
    Upstream_Unreachable string
  | Upstream_Timeout
  | Tool_Lookup
  | Tool_Validation_Failed string
  | Tool_Other exn

definition or_tool_exn :: "'a res \<Rightarrow> tool_exn + 'a" where
  "or_tool_exn r = (case r of Inl e \<Rightarrow> Inl (Tool_Other e) | Inr x \<Rightarrow> Inr x)"

lemma or_tool_exn_simps [simp]:
  "or_tool_exn (Inl e) = Inl (Tool_Other e)" "or_tool_exn (Inr x) = Inr x"
  by (simp_all add: or_tool_exn_def)

definition load_cached_tools :: "pyrt \<Rightarrow> store_files \<Rightarrow> json res" where
  "load_cached_tools rt files = rbind (read_store rt files tools_key) (\<lambda>v.
     Inr (if v = JNull then JObj [(''scanned_at'', JNull), (''tools'', JArr [])] else v))"

definition cached_items :: "pyrt \<Rightarrow> store_files \<Rightarrow> json list res" where
  "cached_items rt files =
     rbind (load_cached_tools rt files) (\<lambda>cached. rbind (py_get cached ''tools'' (JArr [])) py_iter)"

text \<open>The first cached tool with the id, and the list with that tool's status replaced.\<close>

fun first_tool :: "string \<Rightarrow> json list \<Rightarrow> (string \<times> json) list option res" where
  "first_tool tid [] = Inr None"
| "first_tool tid (JObj t # ts) = (if jget t ''tool_id'' = JStr tid then Inr (Some t) else first_tool tid ts)"
| "first_tool tid (_ # ts) = Inl AttributeError"

definition with_status :: "string \<Rightarrow> string \<Rightarrow> (string \<times> json) list \<Rightarrow> (string \<times> json) list" where
  "with_status status now t = dict_set ''last_validated_at'' (JStr now) (dict_set ''validation_status'' (JStr status) t)"

fun update_first :: "string \<Rightarrow> string \<Rightarrow> string \<Rightarrow> json list \<Rightarrow> json list" where
  "update_first tid status now [] = []"
| "update_first tid status now (JObj t # ts) =
     (if jget t ''tool_id'' = JStr tid then JObj (with_status status now t) # ts
      else JObj t # update_first tid status now ts)"
| "update_first tid status now (t # ts) = t # ts"

definition update_cached_tool ::
    "pyrt \<Rightarrow> store_files \<Rightarrow> string \<Rightarrow> string \<Rightarrow> string \<Rightarrow> (tool_exn + (string \<times> json) list) \<times> store_files" where
  "update_cached_tool rt files tid status now =
    (case rbind (load_cached_tools rt files) (\<lambda>cached. rbind (expect_obj AttributeError cached) (\<lambda>c.
       rbind (py_iter (jget_or c ''tools'' (JArr []))) (\<lambda>ts. rbind (first_tool tid ts) (\<lambda>t. Inr (c, ts, t))))) of
       Inl e \<Rightarrow> (Inl (Tool_Other e), files)
     | Inr (c, ts, None) \<Rightarrow> (Inl Tool_Lookup, files)
     | Inr (c, ts, Some t) \<Rightarrow>
         (Inr (with_status status now t),
          write_store rt tools_key (JObj (dict_set ''tools'' (JArr (update_first tid status now ts)) c)) files))"

section \<open>Discovery\<close>

text \<open>An answer of the upstream: status, parsed body, latency in milliseconds.\<close>

datatype upstream_answer = Up_Timeout | Up_Unreachable | Up_Answer int "json res" int

definition is_success_status :: "int \<Rightarrow> bool" where
  "is_success_status st \<longleftrightarrow> 200 \<le> st \<and> st \<le> 299"

definition get_json :: "upstream_answer \<Rightarrow> tool_exn + (json \<times> int)" where
  "get_json ans = (case ans of
     Up_Timeout \<Rightarrow> Inl Upstream_Timeout
   | Up_Unreachable \<Rightarrow> Inl (Upstream_Unreachable ''Unable to reach upstream'')
   | Up_Answer st js latency \<Rightarrow>
       if is_success_status st then rbind (or_tool_exn js) (\<lambda>v. Inr (v, latency))
       else Inl (Upstream_Unreachable (''Upstream returned HTTP '' @ str_of_int st)))"

definition config_upstream_url :: "core_config \<Rightarrow> tool_exn + string" where
  "config_upstream_url c = (case cc_upstream_url c of
     None \<Rightarrow> Inl (Upstream_Unreachable ''Upstream URL is not configured'')
   | Some u \<Rightarrow> if u = [] then Inl (Upstream_Unreachable ''Upstream URL is not configured'') else Inr u)"

definition discovered_tool :: "(bytes \<Rightarrow> string) \<Rightarrow> string \<Rightarrow> tool_info \<Rightarrow> json" where
  "discovered_tool sha scanned_at ti = JObj [
     (''tool_id'', JStr (tool_id_of sha (ti_name ti) (ti_version ti))),
     (''name'', JStr (ti_name ti)), (''version'', JStr (ti_version ti)),
     (''description'', JStr (ti_description ti)),
     (''input_schema'', ti_input ti), (''output_schema'', ti_output ti),
     (''last_scanned_at'', JStr scanned_at), (''last_validated_at'', JNull),
     (''validation_status'', JStr ''pending'')]"

text \<open>\<open>fetch\<close> answers the request for a URL.\<close>

definition scan_upstream ::
    "pyrt \<Rightarrow> (bytes \<Rightarrow> string) \<Rightarrow> core_config \<Rightarrow> (string \<Rightarrow> upstream_answer) \<Rightarrow> string \<Rightarrow> store_files
      \<Rightarrow> (tool_exn + json list) \<times> store_files" where
  "scan_upstream rt sha c fetch now files =
    (case rbind (config_upstream_url c) (\<lambda>u. rbind (get_json (fetch (tools_list_url u))) (\<lambda>(payload, _).
       or_tool_exn (normalize_tools rt payload))) of
       Inl e \<Rightarrow> (Inl e, files)
     | Inr tis \<Rightarrow>
        (let tools = map (discovered_tool sha now) tis
         in (Inr tools, write_store rt tools_key (JObj [(''scanned_at'', JStr now), (''tools'', JArr tools)]) files)))"

definition probe_upstream :: "pyrt \<Rightarrow> string \<Rightarrow> (string \<Rightarrow> upstream_answer) \<Rightarrow> tool_exn + (int \<times> nat)" where
  "probe_upstream rt url fetch = rbind (get_json (fetch (tools_list_url url))) (\<lambda>(payload, latency).
     rbind (or_tool_exn (normalize_tools rt payload)) (\<lambda>tis. Inr (latency, length tis)))"

section \<open>Validation\<close>

text \<open>
  The request of \<open>validate_tool\<close>: the tool and its sample argument. While the request is under way
  other handlers run: the upstream is a function from the request body and the store files to its answer and the
  store files as they are when the answer is there.
\<close>

definition find_tool :: "pyrt \<Rightarrow> store_files \<Rightarrow> string \<Rightarrow> tool_exn + (string \<times> json) list" where
  "find_tool rt files tid = rbind (or_tool_exn (rbind (cached_items rt files) (first_tool tid))) (\<lambda>t.
     case t of None \<Rightarrow> Inl Tool_Lookup | Some t \<Rightarrow> Inr t)"

definition tool_call :: "(string \<times> json) list \<Rightarrow> tool_exn + json" where
  "tool_call t = or_tool_exn (rbind (minimal_value (or_else (jget t ''input_schema'') (JObj []))) (\<lambda>args.
     rbind (jitem t ''name'') (\<lambda>name. Inr (JObj [(''name'', name), (''arguments'', args)]))))"

fun call_result :: "json \<Rightarrow> json" where
  "call_result (JObj m) = (case map_of m ''result'' of Some r \<Rightarrow> r
     | None \<Rightarrow> (case map_of m ''output'' of Some r \<Rightarrow> r | None \<Rightarrow> JObj m))"
| "call_result v = v"

definition record_failure ::
    "pyrt \<Rightarrow> store_files \<Rightarrow> string \<Rightarrow> string \<Rightarrow> string \<Rightarrow> (tool_exn + 'a) \<times> store_files" where
  "record_failure rt files tid now msg =
    (case update_cached_tool rt files tid ''failed'' now of
       (Inl e, files') \<Rightarrow> (Inl e, files')
     | (Inr _, files') \<Rightarrow> (Inl (Tool_Validation_Failed msg), files'))"

definition judge_answer ::
    "pyrt \<Rightarrow> string \<Rightarrow> string \<Rightarrow> (string \<times> json) list \<Rightarrow> upstream_answer \<Rightarrow> store_files
      \<Rightarrow> (tool_exn + int) \<times> store_files" where
  "judge_answer rt tid now t ans files = (case ans of
     Up_Timeout \<Rightarrow> (Inl Upstream_Timeout, files)
   | Up_Unreachable \<Rightarrow> (Inl (Upstream_Unreachable ''Unable to reach upstream''), files)
   | Up_Answer st js latency \<Rightarrow>
       if \<not> is_success_status st
       then record_failure rt files tid now (''Tool invocation failed with HTTP '' @ str_of_int st)
       else (case rbind js (\<lambda>payload. matches_schema (call_result payload) (or_else (jget t ''output_schema'') (JObj []))) of
          Inl e \<Rightarrow> (Inl (Tool_Other e), files)
        | Inr False \<Rightarrow> record_failure rt files tid now ''Tool response did not match output schema''
        | Inr True \<Rightarrow> (case update_cached_tool rt files tid ''passed'' now of
             (Inl e, files') \<Rightarrow> (Inl e, files')
           | (Inr _, files') \<Rightarrow> (Inr latency, files'))))"

definition validate_tool ::
    "pyrt \<Rightarrow> string \<Rightarrow> core_config \<Rightarrow> (json \<Rightarrow> store_files \<Rightarrow> upstream_answer \<times> store_files) \<Rightarrow> string
      \<Rightarrow> store_files \<Rightarrow> (tool_exn + int) \<times> store_files" where
  "validate_tool rt tid c call now files =
    (case rbind (config_upstream_url c) (\<lambda>_. rbind (find_tool rt files tid) (\<lambda>t.
       rbind (tool_call t) (\<lambda>body. Inr (t, body)))) of
       Inl e \<Rightarrow> (Inl e, files)
     | Inr (t, body) \<Rightarrow> (case call body files of (ans, files') \<Rightarrow> judge_answer rt tid now t ans files'))"


section \<open>What a validation does to the store\<close>

lemma find_toolE:
  assumes "find_tool rt files tid = Inr t"
  obtains c ts where "load_cached_tools rt files = Inr (JObj c)" "jget_or c ''tools'' (JArr []) = JArr ts"
    "first_tool tid ts = Inr (Some t)"
proof -
  from assms obtain v xs where v: "load_cached_tools rt files = Inr v" "rbind (py_get v ''tools'' (JArr [])) py_iter = Inr xs"
    and first: "first_tool tid xs = Inr (Some t)"
    by (auto simp: find_tool_def cached_items_def rbind_Inr_iff or_tool_exn_def split: sum.splits option.splits)
  then obtain c where c: "v = JObj c" "py_iter (jget_or c ''tools'' (JArr [])) = Inr xs"
    by (cases v) auto
  with first have "jget_or c ''tools'' (JArr []) = JArr xs"
    by (cases "jget_or c ''tools'' (JArr [])"; cases xs) auto
  with that v(1) c(1) first show ?thesis by simp
qed

lemma first_tool_id: "first_tool tid ts = Inr (Some t) \<Longrightarrow> jget t ''tool_id'' = JStr tid \<and> JObj t \<in> set ts"
  by (induction tid ts rule: first_tool.induct) (auto split: if_splits)

lemma with_status_simps [simp]:
  "jget (with_status st now t) ''tool_id'' = jget t ''tool_id''"
  "jget (with_status st now t) ''validation_status'' = JStr st"
  "jget (with_status st now t) ''last_validated_at'' = JStr now"
  by (simp_all add: with_status_def jget_def)

lemma first_tool_update:
  "first_tool tid ts = Inr (Some t) \<Longrightarrow>
     first_tool tid' (update_first tid st now ts) =
       (if tid' = tid then Inr (Some (with_status st now t)) else first_tool tid' ts)"
  by (induction tid ts rule: first_tool.induct) (auto split: if_splits)

lemma jwf_dict_set: "jwf v \<Longrightarrow> jwf (JObj c) \<Longrightarrow> jwf (JObj (dict_set k v c))"
  by (induction c) auto

lemma jwf_with_status: "jwf (JObj t) \<Longrightarrow> jwf (JObj (with_status st now t))"
  by (simp add: with_status_def jwf_dict_set del: jwf.simps(3))

lemma jwf_update_first: "list_all jwf ts \<Longrightarrow> list_all jwf (update_first tid st now ts)"
  by (induction tid st now ts rule: update_first.induct) (auto simp: jwf_with_status simp del: jwf.simps(3))

lemma jwf_jget_or: "jwf (JObj c) \<Longrightarrow> jwf d \<Longrightarrow> jwf (jget_or c k d)"
  by (auto simp: jget_or_def list_all_iff split: option.splits dest!: map_of_SomeD)

definition store_printable :: "pyrt \<Rightarrow> store_files \<Rightarrow> bool" where
  "store_printable rt files \<longleftrightarrow> (case load_cached_tools rt files of Inl _ \<Rightarrow> True | Inr v \<Rightarrow> jwf v)"

lemma update_cached_tool_found:
  assumes "find_tool rt files tid = Inr t" and "store_printable rt files"
  shows "fst (update_cached_tool rt files tid st now) = Inr (with_status st now t)"
    and "find_tool rt (snd (update_cached_tool rt files tid st now)) tid' =
           (if tid' = tid then Inr (with_status st now t) else find_tool rt files tid')"
    and "k \<noteq> tools_key \<Longrightarrow> read_store rt (snd (update_cached_tool rt files tid st now)) k = read_store rt files k"
proof -
  from assms(1) obtain c ts where load: "load_cached_tools rt files = Inr (JObj c)"
    and ts: "jget_or c ''tools'' (JArr []) = JArr ts" and first: "first_tool tid ts = Inr (Some t)"
    by (rule find_toolE)
  define c' where "c' = dict_set ''tools'' (JArr (update_first tid st now ts)) c"
  define files' where "files' = write_store rt tools_key (JObj c') files"
  have upd: "update_cached_tool rt files tid st now = (Inr (with_status st now t), files')"
    by (simp add: update_cached_tool_def load ts first files'_def c'_def)
  have jwf_c: "jwf (JObj c)" using assms(2) load by (simp add: store_printable_def del: jwf.simps(3))
  then have "jwf (JArr ts)" using jwf_jget_or [of c "JArr []" "''tools''"] ts by simp
  then have "jwf (JObj c')"
    using jwf_c by (simp add: c'_def jwf_dict_set jwf_update_first del: jwf.simps(3))
  then have "load_cached_tools rt files' = Inr (JObj c')"
    by (simp add: load_cached_tools_def files'_def)
  then have items: "cached_items rt files' = Inr (update_first tid st now ts)" "cached_items rt files = Inr ts"
    using load ts by (simp_all add: cached_items_def c'_def jget_or_def)
  show "fst (update_cached_tool rt files tid st now) = Inr (with_status st now t)"
    by (simp add: upd)
  show "find_tool rt (snd (update_cached_tool rt files tid st now)) tid' =
           (if tid' = tid then Inr (with_status st now t) else find_tool rt files tid')"
    by (simp add: upd find_tool_def items first_tool_update [OF first])
  show "k \<noteq> tools_key \<Longrightarrow> read_store rt (snd (update_cached_tool rt files tid st now)) k = read_store rt files k"
    by (simp add: upd files'_def)
qed

text \<open>What \<open>judge_answer\<close> concludes, with the file left behind.\<close>

definition accepts_answer :: "(string \<times> json) list \<Rightarrow> upstream_answer \<Rightarrow> int \<Rightarrow> bool" where
  "accepts_answer t ans latency \<longleftrightarrow> (case ans of
     Up_Answer st (Inr payload) l \<Rightarrow> l = latency \<and> is_success_status st \<and>
        matches_schema (call_result payload) (or_else (jget t ''output_schema'') (JObj [])) = Inr True
   | _ \<Rightarrow> False)"

lemma judge_answer_verdict:
  assumes "find_tool rt files tid = Inr t" and "store_printable rt files"
    and "judge_answer rt tid now t ans files = (r, files')"
  shows "case r of
      Inr latency \<Rightarrow> files' = snd (update_cached_tool rt files tid ''passed'' now) \<and> accepts_answer t ans latency
    | Inl (Tool_Validation_Failed _) \<Rightarrow> files' = snd (update_cached_tool rt files tid ''failed'' now)
        \<and> (\<forall>l. \<not> accepts_answer t ans l)
    | Inl _ \<Rightarrow> files' = files"
proof -
  have upd: "\<exists>f. update_cached_tool rt files tid st now = (Inr (with_status st now t), f)" for st
    using update_cached_tool_found(1) [OF assms(1,2)] by (metis prod.collapse)
  from assms(3) upd [of "''passed''"] upd [of "''failed''"] show ?thesis
    by (auto simp: judge_answer_def record_failure_def accepts_answer_def rbind_Inl_iff rbind_Inr_iff
        split: upstream_answer.splits sum.splits if_splits bool.splits)
qed

text \<open>Validating a cached tool records the verdict and nothing else: a successful validation, which is one with
  a success status and a result that matches the output schema, marks the tool passed; a refused call or a result
  that does not match marks it failed; after any other outcome (upstream down, timeout, unreadable answer) the store
  is unchanged. The entries of all other tools stay as they were.\<close>

theorem validate_tool_verdict:
  assumes "validate_tool rt tid c (\<lambda>body fs. (answer body, fs)) now files = (r, files')"
    and "find_tool rt files tid = Inr t" and "store_printable rt files"
  shows "(case r of
      Inr latency \<Rightarrow> find_tool rt files' tid = Inr (with_status ''passed'' now t) \<and>
        (\<exists>body. tool_call t = Inr body \<and> accepts_answer t (answer body) latency)
    | Inl (Tool_Validation_Failed _) \<Rightarrow> find_tool rt files' tid = Inr (with_status ''failed'' now t)
    | Inl _ \<Rightarrow> files' = files)
    \<and> (\<forall>tid'. tid' \<noteq> tid \<longrightarrow> find_tool rt files' tid' = find_tool rt files tid')"
proof (cases "\<exists>u body. config_upstream_url c = Inr u \<and> tool_call t = Inr body")
  case True
  then obtain u body where "config_upstream_url c = Inr u" and body: "tool_call t = Inr body" by blast
  with assms(1,2) have "judge_answer rt tid now t (answer body) files = (r, files')"
    by (simp add: validate_tool_def)
  from judge_answer_verdict [OF assms(2,3) this] body show ?thesis
    by (auto simp: update_cached_tool_found(2) [OF assms(2,3)] split: sum.splits tool_exn.splits)
next
  case False
  with assms(1,2) have "(\<exists>e. r = Inl e \<and> (\<forall>m. e \<noteq> Tool_Validation_Failed m)) \<and> files' = files"
    by (auto simp: validate_tool_def config_upstream_url_def tool_call_def or_tool_exn_def
        split: option.splits if_splits sum.splits)
  then show ?thesis by (auto split: tool_exn.splits)
qed

section \<open>Routes\<close>

datatype tool_reply = Tool_Ok json | Tool_Error error_code int | Tool_Fault route_reply

text \<open>
  The exception clauses of the routes and \<open>_error_response\<close>. What they do not name goes to the exception
  handlers of the application.
\<close>

fun tool_error :: "tool_exn \<Rightarrow> tool_reply" where
  "tool_error Tool_Lookup = Tool_Error NOT_FOUND 404"
| "tool_error (Tool_Validation_Failed _) = Tool_Error TOOL_VALIDATION_FAILED 422"
| "tool_error (Upstream_Unreachable _) = Tool_Error UPSTREAM_UNREACHABLE 502"
| "tool_error Upstream_Timeout = Tool_Error UPSTREAM_TIMEOUT 504"
| "tool_error (Tool_Other e) = Tool_Fault (reply_of_exn e)"

text \<open>The response models take strings where they ask for them and raise a \<open>ValidationError\<close> otherwise.\<close>

definition validation_error :: exn where
  "validation_error = ValueError ''validation error''"

definition str_item :: "(string \<times> json) list \<Rightarrow> string \<Rightarrow> json res" where
  "str_item t k = rbind (jitem t k) (\<lambda>v. if is_str v then Inr v else Inl validation_error)"

definition summary_fields :: "string list" where
  "summary_fields = [''tool_id'', ''name'', ''version'', ''description'', ''validation_status'', ''last_scanned_at'']"

text \<open>All subscripts of one summary are evaluated before the model checks any of them.\<close>

fun tool_summary :: "json \<Rightarrow> json res" where
  "tool_summary (JObj t) =
     rbind (res_map (jitem t) summary_fields) (\<lambda>_.
     rbind (res_map (str_item t) summary_fields) (\<lambda>vs. Inr (JObj (zip summary_fields vs))))"
| "tool_summary _ = Inl TypeError"

definition tools_list_response :: "pyrt \<Rightarrow> store_files \<Rightarrow> json res" where
  "tools_list_response rt files =
     rbind (load_cached_tools rt files) (\<lambda>cached.
     rbind (rbind (py_get cached ''tools'' (JArr [])) py_iter) (\<lambda>items.
     rbind (res_map tool_summary items) (\<lambda>tools.
     rbind (py_get cached ''scanned_at'' JNull) (\<lambda>sat.
       if is_str sat \<or> sat = JNull then Inr (JObj [(''tools'', JArr tools), (''scanned_at'', sat)])
       else Inl validation_error))))"

definition tool_detail_response :: "pyrt \<Rightarrow> store_files \<Rightarrow> string \<Rightarrow> tool_exn + json" where
  "tool_detail_response rt files tid = rbind (find_tool rt files tid) (\<lambda>t.
     if list_all (\<lambda>k. is_str (jget t k)) summary_fields \<and> is_obj (jget t ''input_schema'') \<and> is_obj (jget t ''output_schema'')
        \<and> (is_str (jget t ''last_validated_at'') \<or> jget t ''last_validated_at'' = JNull)
     then Inr (JObj (map (\<lambda>k. (k, jget t k))
       [''tool_id'', ''name'', ''version'', ''description'', ''input_schema'', ''output_schema'',
        ''validation_status'', ''last_scanned_at'', ''last_validated_at'']))
     else Inl (Tool_Other validation_error))"

definition reply_of :: "tool_exn + json \<Rightarrow> tool_reply" where
  "reply_of r = (case r of Inl e \<Rightarrow> tool_error e | Inr v \<Rightarrow> Tool_Ok v)"

definition route_tools_list :: "pyrt \<Rightarrow> store_files \<Rightarrow> tool_reply" where
  "route_tools_list rt files = reply_of (or_tool_exn (tools_list_response rt files))"

definition route_tools_detail :: "pyrt \<Rightarrow> store_files \<Rightarrow> string \<Rightarrow> tool_reply" where
  "route_tools_detail rt files tid = reply_of (tool_detail_response rt files tid)"

text \<open>\<open>_state_config\<close> may raise, and is \<open>None\<close> when the configuration does not load.\<close>

definition route_tools_discover ::
    "pyrt \<Rightarrow> (bytes \<Rightarrow> string) \<Rightarrow> core_config option res \<Rightarrow> (string \<Rightarrow> upstream_answer) \<Rightarrow> string
      \<Rightarrow> store_files \<Rightarrow> tool_reply \<times> store_files" where
  "route_tools_discover rt sha cfg fetch now files = (case cfg of
     Inl e \<Rightarrow> (tool_error (Tool_Other e), files)
   | Inr None \<Rightarrow> (tool_error (Upstream_Unreachable ''Upstream URL is not configured''), files)
   | Inr (Some c) \<Rightarrow> (case scan_upstream rt sha c fetch now files of
       (Inl e, files') \<Rightarrow> (tool_error e, files')
     | (Inr _, files') \<Rightarrow> (reply_of (or_tool_exn (tools_list_response rt files')), files')))"

definition route_tools_validate ::
    "pyrt \<Rightarrow> core_config option res \<Rightarrow> string \<Rightarrow> (json \<Rightarrow> store_files \<Rightarrow> upstream_answer \<times> store_files) \<Rightarrow> string
      \<Rightarrow> store_files \<Rightarrow> tool_reply \<times> store_files" where
  "route_tools_validate rt cfg tid call now files = (case cfg of
     Inl e \<Rightarrow> (tool_error (Tool_Other e), files)
   | Inr None \<Rightarrow> (tool_error (Upstream_Unreachable ''Upstream URL is not configured''), files)
   | Inr (Some c) \<Rightarrow> (case validate_tool rt tid c call now files of
       (Inl e, files') \<Rightarrow> (tool_error e, files')
     | (Inr latency, files') \<Rightarrow>
         (Tool_Ok (JObj [(''tool_id'', JStr tid), (''status'', JStr ''passed''), (''latency_ms'', JInt latency),
                         (''error'', JNull)]), files')))"

text \<open>\<open>setup_test_upstream\<close>, after the request model has accepted the body.\<close>

definition setup_test_upstream :: "pyrt \<Rightarrow> string \<Rightarrow> (string \<Rightarrow> upstream_answer) \<Rightarrow> tool_reply" where
  "setup_test_upstream rt url fetch = (case probe_upstream rt url fetch of
     Inl e \<Rightarrow> tool_error e
   | Inr (latency, n) \<Rightarrow> Tool_Ok (JObj [(''reachable'', JBool True), (''latency_ms'', JInt latency),
       (''tools_found'', JInt (int n)), (''error'', JNull)]))"

section \<open>Discovery and validation together\<close>

text \<open>A discovery replaces the whole list: every tool is pending again, whatever its verdict was.\<close>

lemma first_tool_discovered:
  "first_tool tid (map (discovered_tool sha now) tis) =
     Inr (case find (\<lambda>ti. tool_id_of sha (ti_name ti) (ti_version ti) = tid) tis of
            None \<Rightarrow> None
          | Some ti \<Rightarrow> (case discovered_tool sha now ti of JObj t \<Rightarrow> Some t | _ \<Rightarrow> None))"
  by (induction tis) (auto simp: discovered_tool_def jget_def)

lemma scan_resets_verdicts:
  assumes "scan_upstream rt sha c fetch now files = (Inr tools, files')"
    and "list_all jwf tools" and "find_tool rt files' tid = Inr t"
  shows "jget t ''validation_status'' = JStr ''pending'' \<and> jget t ''last_validated_at'' = JNull \<and> JObj t \<in> set tools"
proof -
  from assms(1) obtain tis where tools: "tools = map (discovered_tool sha now) tis"
    and f: "files' = write_store rt tools_key (JObj [(''scanned_at'', JStr now), (''tools'', JArr tools)]) files"
    by (auto simp: scan_upstream_def Let_def split: sum.splits)
  from assms(2) have "cached_items rt files' = Inr tools"
    by (simp add: cached_items_def load_cached_tools_def f jget_or_def)
  with assms(3) have "first_tool tid tools = Inr (Some t)"
    by (auto simp: find_tool_def or_tool_exn_def rbind_Inr_iff split: sum.splits option.splits)
  with first_tool_id [OF this] show ?thesis
    by (auto simp: tools first_tool_discovered discovered_tool_def jget_def split: option.splits)
qed

text \<open>Two tools whose name and version differ can have the same identifier, whatever the hash.\<close>

lemma tool_id_ambiguous: "tool_id_of sha ''a'' ''b:c'' = tool_id_of sha ''a:b'' ''c''"
  by (simp add: tool_id_of_def)

definition demo_tools :: json where
  "demo_tools = JObj [(''scanned_at'', JStr ''t0''), (''tools'', JArr [
     JObj [(''tool_id'', JStr ''one''), (''name'', JStr ''n1''), (''validation_status'', JStr ''pending'')],
     JObj [(''tool_id'', JStr ''two''), (''name'', JStr ''n2''), (''output_schema'', JObj [(''type'', JStr ''array'')]),
           (''validation_status'', JStr ''pending'')]])]"

definition demo_store :: store_files where
  "demo_store = write_store demo_rt tools_key demo_tools []"

lemma demo_cached: "load_cached_tools demo_rt demo_store = Inr demo_tools"
proof -
  have "jwf demo_tools" by (simp add: demo_tools_def)
  then show ?thesis by (simp add: load_cached_tools_def demo_store_def) (simp add: demo_tools_def)
qed

definition demo_core :: core_config where
  "demo_core = \<lparr>cc_keystore_path = [], cc_node_serial = [], cc_market_api_url = [], cc_market_ws_url = [],
     cc_data_dir = [], cc_reconnect_delay = FNum 1, cc_reconnect_max_delay = FNum 2, cc_reconnect_jitter = FNum 0,
     cc_api_key = None, cc_node_id = None, cc_upstream_url = Some ''http://up''\<rparr>"

theorem validate_tool_verdict_witness:
  "\<exists>files'. validate_tool demo_rt ''two'' demo_core (\<lambda>b fs. (Up_Answer 200 (Inr (JObj [(''result'', JArr [])])) 3, fs)) ''t1'' demo_store = (Inr 3, files')
     \<and> rbind (find_tool demo_rt files' ''two'') (\<lambda>t. Inr (jget t ''validation_status'')) = Inr (JStr ''passed'')
     \<and> find_tool demo_rt files' ''one'' = find_tool demo_rt demo_store ''one''"
proof -
  let ?call = "\<lambda>b fs. (Up_Answer 200 (Inr (JObj [(''result'', JArr [])])) 3, fs)"
  have t: "find_tool demo_rt demo_store ''two'' = Inr [(''tool_id'', JStr ''two''), (''name'', JStr ''n2''),
      (''output_schema'', JObj [(''type'', JStr ''array'')]), (''validation_status'', JStr ''pending'')]"
    by (simp add: find_tool_def cached_items_def demo_cached demo_tools_def jget_or_def jget_def)
  have p: "store_printable demo_rt demo_store"
    by (simp add: store_printable_def demo_cached demo_tools_def)
  obtain files' where upd: "\<exists>s. update_cached_tool demo_rt demo_store ''two'' ''passed'' ''t1'' = (Inr s, files')"
    using update_cached_tool_found(1) [OF t p, of "''passed''" "''t1''"] by (metis prod.collapse)
  have run: "validate_tool demo_rt ''two'' demo_core ?call ''t1'' demo_store = (Inr 3, files')"
    using upd
    by (auto simp: validate_tool_def demo_core_def config_upstream_url_def t tool_call_def judge_answer_def
        is_success_status_def jget_def or_else_def jitem_def jget_or_def split: prod.splits)
  from validate_tool_verdict [OF run t p] run show ?thesis
    by (auto simp: t)
qed

end
