(* ===== verification/GatewayContracts.thy ===== *)
theory GatewayContracts
  imports PyObject MarketAccess
begin

text \<open>
  \<open>aim_node/gateway_v2/contracts.py\<close>: the surfaces of the gateway and the field names that may not
  leave the node, and what the HTTP clients of \<open>gateway_v2\<close> share: the request they build, its headers,
  the reading of the answer. The HTTP client is an argument of each call, a function from the
  request to its outcome.
\<close>

section \<open>Surfaces\<close>

datatype gateway_surface =
    DISCOVER | QUOTE_CREATE | QUOTE_GET | CONNECT | INVOKE | METER_RECORD | METER_LIST | RECEIPT_GET
  | RECEIPT_LOOKUP | PUBLISH | VERIFY_PROVIDER | REQUEST_ACCESS | ESTIMATE_COST | CREATE_BILLING_SESSION

definition all_surfaces :: "gateway_surface list" where
  "all_surfaces = [DISCOVER, QUOTE_CREATE, QUOTE_GET, CONNECT, INVOKE, METER_RECORD, METER_LIST, RECEIPT_GET,
     RECEIPT_LOOKUP, PUBLISH, VERIFY_PROVIDER, REQUEST_ACCESS, ESTIMATE_COST, CREATE_BILLING_SESSION]"

fun surface_value :: "gateway_surface \<Rightarrow> string" where
  "surface_value DISCOVER = ''discover''"
| "surface_value QUOTE_CREATE = ''quote.create''"
| "surface_value QUOTE_GET = ''quote.get''"
| "surface_value CONNECT = ''connect''"
| "surface_value INVOKE = ''invoke''"
| "surface_value METER_RECORD = ''meter.record''"
| "surface_value METER_LIST = ''meter.list''"
| "surface_value RECEIPT_GET = ''receipt.get''"
| "surface_value RECEIPT_LOOKUP = ''receipt.lookup''"
| "surface_value PUBLISH = ''publish''"
| "surface_value VERIFY_PROVIDER = ''verify_provider''"
| "surface_value REQUEST_ACCESS = ''request_access''"
| "surface_value ESTIMATE_COST = ''estimate_cost''"
| "surface_value CREATE_BILLING_SESSION = ''create_billing_session''"

record gateway_client_method =
  cm_surface :: gateway_surface
  cm_sdk_method :: string
  cm_idempotency_required :: bool
  cm_source_of_truth :: string

definition client_method :: "gateway_surface \<Rightarrow> string \<Rightarrow> bool \<Rightarrow> string \<Rightarrow> gateway_client_method" where
  "client_method s m i src = \<lparr>cm_surface = s, cm_sdk_method = m, cm_idempotency_required = i, cm_source_of_truth = src\<rparr>"

definition client_methods :: "(gateway_surface, gateway_client_method) dict" where
  "client_methods = map (\<lambda>(s, m, i, src). (s, client_method s m i src)) [
     (DISCOVER, ''gateway.discover'', False, ''ai-market-backend''),
     (QUOTE_CREATE, ''gateway.quote.create'', True, ''ai-market-backend''),
     (QUOTE_GET, ''gateway.quote.get'', False, ''ai-market-backend''),
     (CONNECT, ''gateway.connect'', True, ''ai-market-backend''),
     (INVOKE, ''gateway.invoke'', True, ''local-or-seller-edge-runtime''),
     (METER_RECORD, ''gateway.meter.record'', True, ''ai-market-backend''),
     (METER_LIST, ''gateway.meter.list'', False, ''ai-market-backend''),
     (RECEIPT_GET, ''gateway.receipt.get'', False, ''ai-market-backend''),
     (RECEIPT_LOOKUP, ''gateway.receipt.lookup'', False, ''ai-market-backend''),
     (PUBLISH, ''gateway.publish'', True, ''ai-market-backend''),
     (VERIFY_PROVIDER, ''gateway.verify_provider'', False, ''ai-market-backend''),
     (REQUEST_ACCESS, ''gateway.request_access'', True, ''ai-market-backend''),
     (ESTIMATE_COST, ''gateway.estimate_cost'', False, ''ai-market-backend''),
     (CREATE_BILLING_SESSION, ''gateway.create_billing_session'', True, ''ai-market-backend'')]"

text \<open>Every surface has its method, named after it.\<close>

lemma client_methods_total:
  "case map_of client_methods s of None \<Rightarrow> False
   | Some m \<Rightarrow> cm_surface m = s \<and> cm_sdk_method m = ''gateway.'' @ surface_value s"
  by (cases s) (simp_all add: client_methods_def client_method_def)

section \<open>Field names that carry payload\<close>

definition forbidden_tokens :: "string list" where
  "forbidden_tokens = [''payload'', ''payload_bytes'', ''dataset_bytes'', ''raw_bytes'', ''file_bytes'', ''content_bytes'',
     ''sample_bytes'', ''sample_payload'', ''raw_secret'', ''seller_secret'']"

definition payload_key :: "string \<Rightarrow> bool" where
  "payload_key field \<longleftrightarrow> list_ex (\<lambda>token. contains token (lower field)) forbidden_tokens"

text \<open>The exception names the offending fields in a list, printed by the interpreter.\<close>

definition reject_payload_contract_fields :: "pyrt \<Rightarrow> string list \<Rightarrow> unit res" where
  "reject_payload_contract_fields rt field_names =
    (let forbidden = filter payload_key field_names
     in if forbidden = [] then Inr ()
        else Inl (ValueError (''payload-bearing fields are forbidden: '' @ rt_repr rt (JArr (map JStr forbidden)))))"

lemma reject_payload_ok [simp]:
  "reject_payload_contract_fields rt fs = Inr u \<longleftrightarrow> list_all (\<lambda>k. \<not> payload_key k) fs"
  by (auto simp: reject_payload_contract_fields_def Let_def list_all_iff filter_empty_conv)

lemma reject_payload_fails:
  "reject_payload_contract_fields rt fs = Inl e \<Longrightarrow> list_ex payload_key fs \<and> is_value_error e"
  by (auto simp: reject_payload_contract_fields_def Let_def list_ex_iff filter_empty_conv split: if_splits)

text \<open>Two of the tokens contain a third: they forbid nothing more.\<close>

lemma payload_tokens_redundant: "payload_key field \<longleftrightarrow> list_ex (\<lambda>t. contains t (lower field))
   [''payload'', ''dataset_bytes'', ''raw_bytes'', ''file_bytes'', ''content_bytes'', ''sample_bytes'', ''raw_secret'', ''seller_secret'']"
proof -
  have p: "sublist ''payload'' ''payload_bytes''"
    by code_simp
  have s: "sublist ''payload'' ''sample_payload''"
    by code_simp
  show ?thesis
    using sublist_order.order_trans [OF p] sublist_order.order_trans [OF s]
    by (auto simp: payload_key_def forbidden_tokens_def contains_def)
qed

section \<open>Requests and answers\<close>

record gw_request =
  gr_method :: string
  gr_url :: string
  gr_headers :: "(string \<times> string) list"
  gr_params :: "(string \<times> json) list"
  gr_body :: json

record gw_client =
  gc_base_url :: string
  gc_api_key :: "string option"

definition new_gw_client :: "string \<Rightarrow> string option \<Rightarrow> gw_client" where
  "new_gw_client base_url api_key = \<lparr>gc_base_url = rstrip_char CHR ''/'' base_url, gc_api_key = api_key\<rparr>"

text \<open>The header dictionary: request id, idempotency key if there is one, credentials if there are any.\<close>

definition gw_headers :: "pyrt \<Rightarrow> gw_client \<Rightarrow> json \<Rightarrow> json \<Rightarrow> (string \<times> string) list" where
  "gw_headers rt cl rid idem =
     [(''content-type'', ''application/json''), (''x-request-id'', py_str rt rid)]
     @ (if truthy idem then [(''idempotency-key'', py_str rt idem)] else [])
     @ (case gc_api_key cl of Some k \<Rightarrow> if k \<noteq> [] then [(''authorization'', ''Bearer '' @ k)] else [] | None \<Rightarrow> [])"

text \<open>\<open>_pick\<close> of the metadata, a dictionary.\<close>

definition meta_pick :: "(string \<times> json) list \<Rightarrow> string list \<Rightarrow> json" where
  "meta_pick meta ks = (case find (\<lambda>k. map_of meta k \<noteq> None) ks of None \<Rightarrow> JNull | Some k \<Rightarrow> jget meta k)"

lemma meta_pick_pick: "pick (JObj meta) ks = Inr (meta_pick meta ks)"
  unfolding pick_def meta_pick_def by (induction ks) (auto simp: jget_def jitem_def)

definition camel_headers :: "pyrt \<Rightarrow> gw_client \<Rightarrow> (string \<times> json) list \<Rightarrow> (string \<times> string) list" where
  "camel_headers rt cl meta =
     gw_headers rt cl (meta_pick meta [''requestId'', ''request_id'']) (meta_pick meta [''idempotencyKey'', ''idempotency_key''])"

definition drop_none :: "(string \<times> json) list \<Rightarrow> (string \<times> json) list" where
  "drop_none m = filter (\<lambda>kv. snd kv \<noteq> JNull) m"

definition opt_json :: "('a \<Rightarrow> json) \<Rightarrow> 'a option \<Rightarrow> json" where
  "opt_json f x = (case x of None \<Rightarrow> JNull | Some y \<Rightarrow> f y)"

lemma opt_json_simps [simp]: "opt_json f None = JNull" "opt_json f (Some y) = f y"
  by (simp_all add: opt_json_def)

text \<open>\<open>raise_for_status\<close> and \<open>response.json()\<close>.\<close>

definition gateway_answer :: "http_answer \<Rightarrow> json res" where
  "gateway_answer ans = (case ans of
     Transport_Error m \<Rightarrow> Inl (LibError m)
   | Answer st body js \<Rightarrow> if 200 \<le> st \<and> st \<le> 299 then js else Inl (LibError ''HTTPStatusError''))"

text \<open>
  A call: either it stops before anything is sent or the request goes out and its answer is parsed. The first
  component is the request that was sent, if any.
\<close>

definition gateway_call ::
    "gw_request res \<Rightarrow> (gw_request \<Rightarrow> http_answer) \<Rightarrow> (json \<Rightarrow> 'a res) \<Rightarrow> gw_request option \<times> 'a res" where
  "gateway_call req send parse = (case req of
     Inl e \<Rightarrow> (None, Inl e)
   | Inr r \<Rightarrow> (Some r, rbind (gateway_answer (send r)) parse))"

lemma fst_gateway_call [simp]:
  "fst (gateway_call req send parse) = Some r \<longleftrightarrow> req = Inr r"
  "fst (gateway_call req send parse) = None \<longleftrightarrow> (\<exists>e. req = Inl e)"
  by (auto simp: gateway_call_def split: sum.splits)

section \<open>The check at every depth\<close>

fun assert_no_payload_deep :: "pyrt \<Rightarrow> json \<Rightarrow> unit res"
  and assert_no_payload_items :: "pyrt \<Rightarrow> json list \<Rightarrow> unit res"
  and assert_no_payload_values :: "pyrt \<Rightarrow> (string \<times> json) list \<Rightarrow> unit res" where
  "assert_no_payload_deep rt (JObj m) =
     rbind (reject_payload_contract_fields rt (dict_keys m)) (\<lambda>_. assert_no_payload_values rt m)"
| "assert_no_payload_deep rt (JArr xs) = assert_no_payload_items rt xs"
| "assert_no_payload_deep rt _ = Inr ()"
| "assert_no_payload_items rt [] = Inr ()"
| "assert_no_payload_items rt (x # xs) = rbind (assert_no_payload_deep rt x) (\<lambda>_. assert_no_payload_items rt xs)"
| "assert_no_payload_values rt [] = Inr ()"
| "assert_no_payload_values rt ((k, v) # m) = rbind (assert_no_payload_deep rt v) (\<lambda>_. assert_no_payload_values rt m)"

text \<open>The reference: the keys that occur anywhere in a value.\<close>

fun keys_within :: "json \<Rightarrow> string list" where
  "keys_within (JObj m) = dict_keys m @ concat (map (\<lambda>kv. keys_within (snd kv)) m)"
| "keys_within (JArr xs) = concat (map keys_within xs)"
| "keys_within _ = []"

abbreviation clean_keys :: "string list \<Rightarrow> bool" where
  "clean_keys \<equiv> list_all (\<lambda>k. \<not> payload_key k)"

lemma rbind_unit_iff: "rbind (r :: 'e + unit) (\<lambda>_. s) = Inr y \<longleftrightarrow> r = Inr () \<and> s = Inr y"
  by (cases r) auto

lemma assert_deep_iff:
  "assert_no_payload_deep rt v = Inr () \<longleftrightarrow> clean_keys (keys_within v)"
  "assert_no_payload_items rt xs = Inr () \<longleftrightarrow> clean_keys (concat (map keys_within xs))"
  "assert_no_payload_values rt m = Inr () \<longleftrightarrow> clean_keys (concat (map (\<lambda>kv. keys_within (snd kv)) m))"
  by (induction rt v and rt xs and rt m
      rule: assert_no_payload_deep_assert_no_payload_items_assert_no_payload_values.induct)
    (simp_all add: rbind_unit_iff)

text \<open>A recursive \<open>_drop_none\<close> (objects only) never adds a key.\<close>

fun drop_none_deep :: "(string \<times> json) list \<Rightarrow> (string \<times> json) list" where
  "drop_none_deep [] = []"
| "drop_none_deep ((k, JNull) # m) = drop_none_deep m"
| "drop_none_deep ((k, JObj c) # m) = (k, JObj (drop_none_deep c)) # drop_none_deep m"
| "drop_none_deep ((k, v) # m) = (k, v) # drop_none_deep m"

lemma keys_within_Cons:
  "set (keys_within (JObj ((k, v) # m))) = insert k (set (keys_within v) \<union> set (keys_within (JObj m)))"
  by auto

lemma keys_drop_none_deep: "set (keys_within (JObj (drop_none_deep m))) \<subseteq> set (keys_within (JObj m))"
  by (induction m rule: drop_none_deep.induct)
    (simp_all only: drop_none_deep.simps keys_within_Cons order.refl, blast+)

lemma clean_drop_none_deep: "clean_keys (keys_within (JObj m)) \<Longrightarrow> clean_keys (keys_within (JObj (drop_none_deep m)))"
  using keys_drop_none_deep [of m] unfolding list_all_iff by blast

end
