(* ===== verification/GatewayPublish.thy ===== *)
theory GatewayPublish
  imports GatewayContracts
begin

text \<open>
  \<open>aim_node/gateway_v2/publish.py\<close>: the publish and patch requests, the cache of drafts, the reading of a
  published listing. Fields the code copies without looking at them are JSON values; fields it passes
  through \<open>str\<close>, \<open>int\<close> or \<open>bool\<close> have that type.
\<close>

section \<open>Data\<close>

record signed_reference =
  sr_ref :: json
  sr_signer_identity :: string
  sr_signature_state :: string
  sr_verification_state :: string
  sr_artifact_hash :: json
  sr_expires_at :: json

record listing_metadata =
  lm_title :: json
  lm_summary :: json
  lm_tags :: json
  lm_category :: json

record listing_pricing =
  lp_model :: json
  lp_currency :: json
  lp_unit_amount_cents :: int
  lp_billing_unit :: string

record sample_policy =
  sp_preview_refs :: "signed_reference list option"
  sp_summary :: json
  sp_row_count :: json
  sp_column_names :: json

record license_terms =
  lt_terms_ref :: signed_reference
  lt_commercial_use :: json
  lt_retention_days :: json

record publish_request =
  pb_metadata :: "(string \<times> json) list"
  pb_seller_id :: string
  pb_listing_metadata :: listing_metadata
  pb_delivery_modes :: "json list"
  pb_pricing :: listing_pricing
  pb_license_terms :: license_terms
  pb_sample_policy :: "sample_policy option"
  pb_trust_artifact_refs :: "signed_reference list option"
  pb_seller_verification_ref :: "signed_reference option"
  pb_listing_review_policy :: json
  pb_abuse_signals :: json

record patch_listing_request =
  pt_metadata :: "(string \<times> json) list"
  pt_listing_version_id :: json
  pt_listing_metadata :: "listing_metadata option"
  pt_delivery_modes :: json
  pt_pricing :: "listing_pricing option"
  pt_sample_policy :: "sample_policy option"
  pt_license_terms :: "license_terms option"
  pt_trust_artifact_refs :: "signed_reference list option"
  pt_seller_verification_ref :: "signed_reference option"
  pt_listing_review_policy :: json
  pt_abuse_signals :: json

record published_listing =
  pl_listing_id :: string
  pl_listing_version_id :: string
  pl_seller_id :: string
  pl_state :: string
  pl_discoverable :: bool
  pl_quote_eligible :: bool
  pl_listing_metadata :: listing_metadata
  pl_delivery_modes :: "json list"
  pl_pricing :: listing_pricing
  pl_sample_policy :: sample_policy
  pl_license_terms :: license_terms
  pl_trust_artifact_refs :: "signed_reference list"
  pl_seller_verification_ref :: "signed_reference option"
  pl_listing_review_policy :: json
  pl_governance_events :: json
  pl_reason_code :: json

section \<open>\<open>asdict\<close>\<close>

definition signed_reference_dict :: "signed_reference \<Rightarrow> json" where
  "signed_reference_dict r = JObj [
     (''ref'', sr_ref r), (''signer_identity'', JStr (sr_signer_identity r)),
     (''signature_state'', JStr (sr_signature_state r)), (''verification_state'', JStr (sr_verification_state r)),
     (''artifact_hash'', sr_artifact_hash r), (''expires_at'', sr_expires_at r)]"

definition listing_metadata_dict :: "listing_metadata \<Rightarrow> json" where
  "listing_metadata_dict m = JObj [(''title'', lm_title m), (''summary'', lm_summary m), (''tags'', lm_tags m), (''category'', lm_category m)]"

definition listing_pricing_dict :: "listing_pricing \<Rightarrow> json" where
  "listing_pricing_dict p = JObj [(''model'', lp_model p), (''currency'', lp_currency p),
     (''unit_amount_cents'', JInt (lp_unit_amount_cents p)), (''billing_unit'', JStr (lp_billing_unit p))]"

definition sample_policy_dict :: "sample_policy \<Rightarrow> json" where
  "sample_policy_dict s = JObj [(''preview_refs'', opt_json (\<lambda>rs. JArr (map signed_reference_dict rs)) (sp_preview_refs s)),
     (''summary'', sp_summary s), (''row_count'', sp_row_count s), (''column_names'', sp_column_names s)]"

definition license_terms_dict :: "license_terms \<Rightarrow> json" where
  "license_terms_dict l = JObj [(''terms_ref'', signed_reference_dict (lt_terms_ref l)),
     (''commercial_use'', lt_commercial_use l), (''retention_days'', lt_retention_days l)]"

definition publish_request_dict :: "publish_request \<Rightarrow> (string \<times> json) list" where
  "publish_request_dict r = [
     (''metadata'', JObj (pb_metadata r)), (''seller_id'', JStr (pb_seller_id r)),
     (''listing_metadata'', listing_metadata_dict (pb_listing_metadata r)),
     (''delivery_modes'', JArr (pb_delivery_modes r)),
     (''pricing'', listing_pricing_dict (pb_pricing r)),
     (''license_terms'', license_terms_dict (pb_license_terms r)),
     (''sample_policy'', opt_json sample_policy_dict (pb_sample_policy r)),
     (''trust_artifact_refs'', opt_json (\<lambda>rs. JArr (map signed_reference_dict rs)) (pb_trust_artifact_refs r)),
     (''seller_verification_ref'', opt_json signed_reference_dict (pb_seller_verification_ref r)),
     (''listing_review_policy'', pb_listing_review_policy r), (''abuse_signals'', pb_abuse_signals r)]"

definition patch_request_dict :: "patch_listing_request \<Rightarrow> (string \<times> json) list" where
  "patch_request_dict r = [
     (''metadata'', JObj (pt_metadata r)), (''listing_version_id'', pt_listing_version_id r),
     (''listing_metadata'', opt_json listing_metadata_dict (pt_listing_metadata r)),
     (''delivery_modes'', pt_delivery_modes r),
     (''pricing'', opt_json listing_pricing_dict (pt_pricing r)),
     (''sample_policy'', opt_json sample_policy_dict (pt_sample_policy r)),
     (''license_terms'', opt_json license_terms_dict (pt_license_terms r)),
     (''trust_artifact_refs'', opt_json (\<lambda>rs. JArr (map signed_reference_dict rs)) (pt_trust_artifact_refs r)),
     (''seller_verification_ref'', opt_json signed_reference_dict (pt_seller_verification_ref r)),
     (''listing_review_policy'', pt_listing_review_policy r), (''abuse_signals'', pt_abuse_signals r)]"

definition assert_publish_request_has_no_payload :: "pyrt \<Rightarrow> publish_request \<Rightarrow> unit res" where
  "assert_publish_request_has_no_payload rt r = assert_no_payload_deep rt (JObj (publish_request_dict r))"

section \<open>Drafts\<close>

type_synonym draft_cache = "(string, publish_request) dict"

definition save_draft :: "pyrt \<Rightarrow> string \<Rightarrow> publish_request \<Rightarrow> draft_cache \<Rightarrow> unit res \<times> draft_cache" where
  "save_draft rt key draft c = (case assert_publish_request_has_no_payload rt draft of
     Inl e \<Rightarrow> (Inl e, c)
   | Inr _ \<Rightarrow> (Inr (), dict_set key draft c))"

definition get_draft :: "string \<Rightarrow> draft_cache \<Rightarrow> publish_request option" where
  "get_draft key c = map_of c key"

definition delete_draft :: "string \<Rightarrow> draft_cache \<Rightarrow> bool \<times> draft_cache" where
  "delete_draft key c = (map_of c key \<noteq> None, dict_del key c)"

interpretation drafts: lookup_table "\<lambda>c k. get_draft k c" dict_set "\<lambda>k c. snd (delete_draft k c)"
  by unfold_locales (auto simp: get_draft_def delete_draft_def)

section \<open>Reading a listing\<close>

definition pick_required :: "json \<Rightarrow> string list \<Rightarrow> json res" where
  "pick_required data ks = rbind (pick data ks) (\<lambda>v. if v = JNull then Inl (KeyError (hd ks)) else Inr v)"

definition parse_signed_reference :: "pyrt \<Rightarrow> json \<Rightarrow> signed_reference res" where
  "parse_signed_reference rt d =
     rbind (py_item d ''ref'') (\<lambda>ref.
     rbind (pick d [''artifact_hash'', ''artifactHash'']) (\<lambda>ah.
     rbind (pick_required d [''signer_identity'', ''signerIdentity'']) (\<lambda>si.
     rbind (pick_required d [''signature_state'', ''signatureState'']) (\<lambda>ss.
     rbind (pick_required d [''verification_state'', ''verificationState'']) (\<lambda>vs.
     rbind (pick d [''expires_at'', ''expiresAt'']) (\<lambda>ea.
       Inr \<lparr>sr_ref = ref, sr_signer_identity = py_str rt si, sr_signature_state = py_str rt ss,
            sr_verification_state = py_str rt vs, sr_artifact_hash = ah, sr_expires_at = ea\<rparr>))))))"

definition parse_optional_signed_reference :: "pyrt \<Rightarrow> json \<Rightarrow> signed_reference option res" where
  "parse_optional_signed_reference rt d =
     (if truthy d then rbind (parse_signed_reference rt d) (\<lambda>r. Inr (Some r)) else Inr None)"

definition parse_references :: "pyrt \<Rightarrow> json \<Rightarrow> string list \<Rightarrow> signed_reference list res" where
  "parse_references rt d ks =
     rbind (pick d ks) (\<lambda>v. rbind (py_iter (or_else v (JArr []))) (res_map (parse_signed_reference rt)))"

definition parse_listing_metadata :: "json \<Rightarrow> listing_metadata res" where
  "parse_listing_metadata d =
     rbind (py_item d ''title'') (\<lambda>t. rbind (py_item d ''summary'') (\<lambda>s.
     rbind (py_get d ''tags'' JNull) (\<lambda>tags. rbind (py_get d ''category'' JNull) (\<lambda>c.
       Inr \<lparr>lm_title = t, lm_summary = s, lm_tags = tags, lm_category = c\<rparr>))))"

definition parse_pricing :: "pyrt \<Rightarrow> json \<Rightarrow> listing_pricing res" where
  "parse_pricing rt d =
     rbind (py_item d ''model'') (\<lambda>m. rbind (py_item d ''currency'') (\<lambda>c.
     rbind (rbind (pick_required d [''unit_amount_cents'', ''unitAmountCents'']) py_int) (\<lambda>n.
     rbind (pick_required d [''billing_unit'', ''billingUnit'']) (\<lambda>u.
       Inr \<lparr>lp_model = m, lp_currency = c, lp_unit_amount_cents = n, lp_billing_unit = py_str rt u\<rparr>))))"

definition parse_sample_policy :: "pyrt \<Rightarrow> json \<Rightarrow> sample_policy res" where
  "parse_sample_policy rt d =
     rbind (parse_references rt d [''preview_refs'', ''previewRefs'']) (\<lambda>rs.
     rbind (py_get d ''summary'' JNull) (\<lambda>s.
     rbind (pick d [''row_count'', ''rowCount'']) (\<lambda>n.
     rbind (pick d [''column_names'', ''columnNames'']) (\<lambda>cs.
       Inr \<lparr>sp_preview_refs = Some rs, sp_summary = s, sp_row_count = n, sp_column_names = cs\<rparr>))))"

definition parse_license_terms :: "pyrt \<Rightarrow> json \<Rightarrow> license_terms res" where
  "parse_license_terms rt d =
     rbind (rbind (pick_required d [''terms_ref'', ''termsRef'']) (parse_signed_reference rt)) (\<lambda>t.
     rbind (pick d [''commercial_use'', ''commercialUse'']) (\<lambda>c.
     rbind (pick d [''retention_days'', ''retentionDays'']) (\<lambda>r.
       Inr \<lparr>lt_terms_ref = t, lt_commercial_use = c, lt_retention_days = r\<rparr>)))"

definition parse_published_listing :: "pyrt \<Rightarrow> json \<Rightarrow> published_listing res" where
  "parse_published_listing rt d =
     rbind (pick_required d [''listing_id'', ''listingId'']) (\<lambda>lid.
     rbind (pick_required d [''listing_version_id'', ''listingVersionId'']) (\<lambda>lvid.
     rbind (pick_required d [''seller_id'', ''sellerId'']) (\<lambda>sid.
     rbind (pick_required d [''state'']) (\<lambda>st.
     rbind (pick_required d [''discoverable'']) (\<lambda>disc.
     rbind (pick_required d [''quote_eligible'', ''quoteEligible'']) (\<lambda>qe.
     rbind (rbind (pick_required d [''listing_metadata'', ''listingMetadata'']) parse_listing_metadata) (\<lambda>lm.
     rbind (rbind (pick_required d [''delivery_modes'', ''deliveryModes'']) py_iter) (\<lambda>dm.
     rbind (rbind (pick_required d [''pricing'']) (parse_pricing rt)) (\<lambda>pr.
     rbind (rbind (pick_required d [''sample_policy'', ''samplePolicy'']) (parse_sample_policy rt)) (\<lambda>sp.
     rbind (rbind (pick_required d [''license_terms'', ''licenseTerms'']) (parse_license_terms rt)) (\<lambda>lt.
     rbind (parse_references rt d [''trust_artifact_refs'', ''trustArtifactRefs'']) (\<lambda>tr.
     rbind (rbind (pick d [''seller_verification_ref'', ''sellerVerificationRef'']) (parse_optional_signed_reference rt)) (\<lambda>sv.
     rbind (pick d [''listing_review_policy'', ''listingReviewPolicy'']) (\<lambda>rp.
     rbind (pick d [''governance_events'', ''governanceEvents'']) (\<lambda>ge.
     rbind (pick d [''reason_code'', ''reasonCode'']) (\<lambda>rc.
       Inr \<lparr>pl_listing_id = py_str rt lid, pl_listing_version_id = py_str rt lvid, pl_seller_id = py_str rt sid,
            pl_state = py_str rt st, pl_discoverable = truthy disc, pl_quote_eligible = truthy qe,
            pl_listing_metadata = lm, pl_delivery_modes = dm, pl_pricing = pr, pl_sample_policy = sp,
            pl_license_terms = lt, pl_trust_artifact_refs = tr, pl_seller_verification_ref = sv,
            pl_listing_review_policy = rp, pl_governance_events = ge, pl_reason_code = rc\<rparr>))))))))))))))))"

section \<open>The client\<close>

definition gw_publish ::
    "pyrt \<Rightarrow> gw_client \<Rightarrow> (gw_request \<Rightarrow> http_answer) \<Rightarrow> publish_request \<Rightarrow> gw_request option \<times> published_listing res" where
  "gw_publish rt cl send r = gateway_call
     (rbind (assert_publish_request_has_no_payload rt r) (\<lambda>_.
        Inr \<lparr>gr_method = ''POST'', gr_url = gc_base_url cl @ ''/v1/gateway/publish'',
             gr_headers = camel_headers rt cl (pb_metadata r), gr_params = [],
             gr_body = JObj (drop_none_deep (publish_request_dict r))\<rparr>))
     send (parse_published_listing rt)"

definition gw_patch_listing ::
    "pyrt \<Rightarrow> gw_client \<Rightarrow> (gw_request \<Rightarrow> http_answer) \<Rightarrow> string \<Rightarrow> patch_listing_request \<Rightarrow> string option
      \<Rightarrow> gw_request option \<times> published_listing res" where
  "gw_patch_listing rt cl send lid r if_match = gateway_call
     (rbind (assert_no_payload_deep rt (JObj (patch_request_dict r))) (\<lambda>_.
        Inr \<lparr>gr_method = ''PATCH'', gr_url = gc_base_url cl @ ''/v1/gateway/listings/'' @ lid,
             gr_headers = camel_headers rt cl (pt_metadata r)
               @ (case if_match of Some t \<Rightarrow> if t \<noteq> [] then [(''if-match'', t)] else [] | None \<Rightarrow> []),
             gr_params = [], gr_body = JObj (drop_none_deep (patch_request_dict r))\<rparr>))
     send (parse_published_listing rt)"

section \<open>What leaves the node\<close>

text \<open>The keys the classes themselves contribute are harmless.\<close>

lemma class_keys_clean:
  "clean_keys [''ref'', ''signer_identity'', ''signature_state'', ''verification_state'', ''artifact_hash'', ''expires_at'',
     ''title'', ''summary'', ''tags'', ''category'', ''model'', ''currency'', ''unit_amount_cents'', ''billing_unit'',
     ''preview_refs'', ''row_count'', ''column_names'', ''terms_ref'', ''commercial_use'', ''retention_days'',
     ''metadata'', ''seller_id'', ''listing_metadata'', ''delivery_modes'', ''pricing'', ''license_terms'', ''sample_policy'',
     ''trust_artifact_refs'', ''seller_verification_ref'', ''listing_review_policy'', ''abuse_signals'', ''listing_version_id'']"
  by code_simp

text \<open>C13: the check by recursion over the request is exactly the absence of payload-bearing keys: a publish request
  goes out if and only if no key at any depth of it contains a forbidden token in any case, and a request that goes out has
  no such key in its body; a draft is kept under exactly the same condition, and a refused one changes nothing.\<close>

theorem publish_payload_guard:
  "(fst (gw_publish rt cl send r) \<noteq> None) = clean_keys (keys_within (JObj (publish_request_dict r)))
   \<and> (case fst (gw_publish rt cl send r) of None \<Rightarrow> isl (snd (gw_publish rt cl send r))
      | Some req \<Rightarrow> clean_keys (keys_within (gr_body req)))
   \<and> (if clean_keys (keys_within (JObj (publish_request_dict r)))
      then get_draft key (snd (save_draft rt key r drafts)) = Some r
      else snd (save_draft rt key r drafts) = drafts \<and> isl (fst (save_draft rt key r drafts)))"
proof (cases "clean_keys (keys_within (JObj (publish_request_dict r)))")
  case True
  then have "assert_publish_request_has_no_payload rt r = Inr ()"
    by (simp add: assert_publish_request_has_no_payload_def assert_deep_iff del: keys_within.simps assert_no_payload_deep.simps)
  with True clean_drop_none_deep [OF True] show ?thesis
    by (simp add: gw_publish_def gateway_call_def save_draft_def get_draft_def del: keys_within.simps)
next
  case False
  then obtain e where "assert_publish_request_has_no_payload rt r = Inl e"
    using assert_deep_iff(1) [of rt "JObj (publish_request_dict r)"]
    by (cases "assert_publish_request_has_no_payload rt r")
      (auto simp: assert_publish_request_has_no_payload_def simp del: keys_within.simps assert_no_payload_deep.simps)
  with False show ?thesis
    by (simp add: gw_publish_def gateway_call_def save_draft_def del: keys_within.simps)
qed


section \<open>Both spellings of a listing\<close>

text \<open>
  A server may spell the keys of a listing in snake case (as \<open>asdict\<close> does) or in camel case. The
  reading gives the listing back from either.
\<close>

definition spelled :: "bool \<Rightarrow> string \<Rightarrow> string \<Rightarrow> string" where
  "spelled camel s c = (if camel then c else s)"

definition reference_json :: "bool \<Rightarrow> signed_reference \<Rightarrow> json" where
  "reference_json b r = JObj [
     (''ref'', sr_ref r), (spelled b ''signer_identity'' ''signerIdentity'', JStr (sr_signer_identity r)),
     (spelled b ''signature_state'' ''signatureState'', JStr (sr_signature_state r)),
     (spelled b ''verification_state'' ''verificationState'', JStr (sr_verification_state r)),
     (spelled b ''artifact_hash'' ''artifactHash'', sr_artifact_hash r), (spelled b ''expires_at'' ''expiresAt'', sr_expires_at r)]"

definition pricing_json :: "bool \<Rightarrow> listing_pricing \<Rightarrow> json" where
  "pricing_json b p = JObj [(''model'', lp_model p), (''currency'', lp_currency p),
     (spelled b ''unit_amount_cents'' ''unitAmountCents'', JInt (lp_unit_amount_cents p)),
     (spelled b ''billing_unit'' ''billingUnit'', JStr (lp_billing_unit p))]"

definition policy_json :: "bool \<Rightarrow> sample_policy \<Rightarrow> json" where
  "policy_json b s = JObj [(spelled b ''preview_refs'' ''previewRefs'', opt_json (\<lambda>rs. JArr (map (reference_json b) rs)) (sp_preview_refs s)),
     (''summary'', sp_summary s), (spelled b ''row_count'' ''rowCount'', sp_row_count s),
     (spelled b ''column_names'' ''columnNames'', sp_column_names s)]"

definition terms_json :: "bool \<Rightarrow> license_terms \<Rightarrow> json" where
  "terms_json b l = JObj [(spelled b ''terms_ref'' ''termsRef'', reference_json b (lt_terms_ref l)),
     (spelled b ''commercial_use'' ''commercialUse'', lt_commercial_use l),
     (spelled b ''retention_days'' ''retentionDays'', lt_retention_days l)]"

definition listing_json :: "bool \<Rightarrow> published_listing \<Rightarrow> json" where
  "listing_json b l = JObj [
     (spelled b ''listing_id'' ''listingId'', JStr (pl_listing_id l)),
     (spelled b ''listing_version_id'' ''listingVersionId'', JStr (pl_listing_version_id l)),
     (spelled b ''seller_id'' ''sellerId'', JStr (pl_seller_id l)), (''state'', JStr (pl_state l)),
     (''discoverable'', JBool (pl_discoverable l)), (spelled b ''quote_eligible'' ''quoteEligible'', JBool (pl_quote_eligible l)),
     (spelled b ''listing_metadata'' ''listingMetadata'', listing_metadata_dict (pl_listing_metadata l)),
     (spelled b ''delivery_modes'' ''deliveryModes'', JArr (pl_delivery_modes l)), (''pricing'', pricing_json b (pl_pricing l)),
     (spelled b ''sample_policy'' ''samplePolicy'', policy_json b (pl_sample_policy l)),
     (spelled b ''license_terms'' ''licenseTerms'', terms_json b (pl_license_terms l)),
     (spelled b ''trust_artifact_refs'' ''trustArtifactRefs'', JArr (map (reference_json b) (pl_trust_artifact_refs l))),
     (spelled b ''seller_verification_ref'' ''sellerVerificationRef'', opt_json (reference_json b) (pl_seller_verification_ref l)),
     (spelled b ''listing_review_policy'' ''listingReviewPolicy'', pl_listing_review_policy l),
     (spelled b ''governance_events'' ''governanceEvents'', pl_governance_events l),
     (spelled b ''reason_code'' ''reasonCode'', pl_reason_code l)]"

lemma parse_reference_json: "parse_signed_reference rt (reference_json b r) = Inr r"
  by (cases b) (simp_all add: parse_signed_reference_def reference_json_def spelled_def pick_required_def pick_def jitem_def)

lemma parse_reference_jsons: "res_map (parse_signed_reference rt) (map (reference_json b) rs) = Inr rs"
  by (induction rs) (auto simp: parse_reference_json)

lemma reference_json_obj: "reference_json b r \<noteq> JNull" "truthy (reference_json b r)"
  by (simp_all add: reference_json_def)

lemma parse_references_value:
  "pick d ks = Inr (JArr (map (reference_json b) rs)) \<Longrightarrow> parse_references rt d ks = Inr rs"
  "pick d ks = Inr JNull \<Longrightarrow> parse_references rt d ks = Inr []"
  by (auto simp: parse_references_def or_else_def parse_reference_jsons)

lemma parse_pricing_json: "parse_pricing rt (pricing_json b p) = Inr p"
  by (cases b) (simp_all add: parse_pricing_def pricing_json_def spelled_def pick_required_def pick_def jitem_def)

lemma parse_metadata_dict: "parse_listing_metadata (listing_metadata_dict m) = Inr m"
  by (simp add: parse_listing_metadata_def listing_metadata_dict_def jitem_def jget_or_def)

lemma parse_terms_json: "parse_license_terms rt (terms_json b l) = Inr l"
  by (cases b) (simp_all add: parse_license_terms_def terms_json_def spelled_def pick_required_def pick_def jitem_def
      reference_json_obj parse_reference_json)

definition listed_refs :: "sample_policy \<Rightarrow> sample_policy" where
  "listed_refs s = s\<lparr>sp_preview_refs := Some (case sp_preview_refs s of None \<Rightarrow> [] | Some rs \<Rightarrow> rs)\<rparr>"

lemma parse_policy_json: "parse_sample_policy rt (policy_json b s) = Inr (listed_refs s)"
proof -
  have "pick (policy_json b s) [''preview_refs'', ''previewRefs''] = Inr (opt_json (\<lambda>rs. JArr (map (reference_json b) rs)) (sp_preview_refs s))"
    by (cases b) (simp_all add: policy_json_def spelled_def pick_def jitem_def)
  then have "parse_references rt (policy_json b s) [''preview_refs'', ''previewRefs''] = Inr (the (sp_preview_refs (listed_refs s)))"
    by (cases "sp_preview_refs s") (simp_all add: parse_references_value listed_refs_def)
  then show ?thesis
    by (cases b) (simp_all add: parse_sample_policy_def listed_refs_def, simp_all add: policy_json_def spelled_def pick_def jitem_def jget_or_def)
qed

lemma listing_json_picks:
  "pick (listing_json b l) [''listing_id'', ''listingId''] = Inr (JStr (pl_listing_id l))"
  "pick (listing_json b l) [''listing_version_id'', ''listingVersionId''] = Inr (JStr (pl_listing_version_id l))"
  "pick (listing_json b l) [''seller_id'', ''sellerId''] = Inr (JStr (pl_seller_id l))"
  "pick (listing_json b l) [''state''] = Inr (JStr (pl_state l))"
  "pick (listing_json b l) [''discoverable''] = Inr (JBool (pl_discoverable l))"
  "pick (listing_json b l) [''quote_eligible'', ''quoteEligible''] = Inr (JBool (pl_quote_eligible l))"
  "pick (listing_json b l) [''listing_metadata'', ''listingMetadata''] = Inr (listing_metadata_dict (pl_listing_metadata l))"
  "pick (listing_json b l) [''delivery_modes'', ''deliveryModes''] = Inr (JArr (pl_delivery_modes l))"
  "pick (listing_json b l) [''pricing''] = Inr (pricing_json b (pl_pricing l))"
  "pick (listing_json b l) [''sample_policy'', ''samplePolicy''] = Inr (policy_json b (pl_sample_policy l))"
  "pick (listing_json b l) [''license_terms'', ''licenseTerms''] = Inr (terms_json b (pl_license_terms l))"
  "pick (listing_json b l) [''trust_artifact_refs'', ''trustArtifactRefs''] = Inr (JArr (map (reference_json b) (pl_trust_artifact_refs l)))"
  "pick (listing_json b l) [''seller_verification_ref'', ''sellerVerificationRef''] = Inr (opt_json (reference_json b) (pl_seller_verification_ref l))"
  "pick (listing_json b l) [''listing_review_policy'', ''listingReviewPolicy''] = Inr (pl_listing_review_policy l)"
  "pick (listing_json b l) [''governance_events'', ''governanceEvents''] = Inr (pl_governance_events l)"
  "pick (listing_json b l) [''reason_code'', ''reasonCode''] = Inr (pl_reason_code l)"
  by (cases b; simp add: listing_json_def spelled_def pick_def jitem_def)+

lemma parse_optional_reference_json:
  "parse_optional_signed_reference rt (opt_json (reference_json b) r) = Inr r"
  by (cases r) (simp_all add: parse_optional_signed_reference_def reference_json_obj parse_reference_json)

text \<open>A published listing is read back unchanged from the market's answer in either spelling of its keys, at every
  level of nesting; only a missing list of preview references comes back as the empty list.\<close>

theorem listing_roundtrip:
  "parse_published_listing rt (listing_json camel l) = Inr (l\<lparr>pl_sample_policy := listed_refs (pl_sample_policy l)\<rparr>)"
  by (simp add: parse_published_listing_def pick_required_def listing_json_picks parse_references_value(1)
      parse_policy_json parse_metadata_dict parse_pricing_json parse_terms_json parse_optional_reference_json)
    (simp add: listing_metadata_dict_def pricing_json_def policy_json_def terms_json_def)

end
