(* ===== verification/GatewayInvoke.thy ===== *)
theory GatewayInvoke
  imports GatewayContracts
begin

text \<open>
  \<open>aim_node/gateway_v2/invoke.py\<close>: the invocation client and \<open>ConnectorRuntime\<close>, which streams the chunks
  of a granted invocation under its limits. The chunks come from an iterator that may never end; the
  clock is read after each chunk; reading an ISO time is the parameter \<open>read_time\<close>.
\<close>

section \<open>Data\<close>

datatype invoke_state =
    PENDING | RUNNING | COMPLETED | FAILED | PARTIAL_TRANSFER | PROVIDER_TIMEOUT | GRANT_REVOKED_MID_STREAM
  | TRUST_REVOKED_MID_STREAM | RESUME_UNSUPPORTED | METERING_ACCEPTED_RECEIPT_PENDING

fun invoke_state_value :: "invoke_state \<Rightarrow> string" where
  "invoke_state_value PENDING = ''pending''"
| "invoke_state_value RUNNING = ''running''"
| "invoke_state_value COMPLETED = ''completed''"
| "invoke_state_value FAILED = ''failed''"
| "invoke_state_value PARTIAL_TRANSFER = ''partial_transfer''"
| "invoke_state_value PROVIDER_TIMEOUT = ''provider_timeout''"
| "invoke_state_value GRANT_REVOKED_MID_STREAM = ''grant_revoked_mid_stream''"
| "invoke_state_value TRUST_REVOKED_MID_STREAM = ''trust_revoked_mid_stream''"
| "invoke_state_value RESUME_UNSUPPORTED = ''resume_unsupported''"
| "invoke_state_value METERING_ACCEPTED_RECEIPT_PENDING = ''metering_accepted_receipt_pending''"

record resume_cursor =
  rc_signed_offset :: "string option"
  rc_resume_token :: "string option"

definition nonempty :: "string option \<Rightarrow> bool" where
  "nonempty s \<longleftrightarrow> (case s of None \<Rightarrow> False | Some t \<Rightarrow> t \<noteq> [])"

definition make_resume_cursor :: "string option \<Rightarrow> string option \<Rightarrow> resume_cursor res" where
  "make_resume_cursor off tok =
     (if \<not> (nonempty off \<or> nonempty tok) then Inl (ValueError ''stream resume requires a signed offset or resume token'')
      else Inr \<lparr>rc_signed_offset = off, rc_resume_token = tok\<rparr>)"

text \<open>The two durations are numbers of either kind.\<close>

record invoke_limits =
  il_byte_cap :: int
  il_row_cap :: int
  il_record_cap :: int
  il_wall_clock_cap :: json
  il_idle_timeout :: json
  il_per_grant_concurrency :: int
  il_retry_after_seconds :: int

definition default_invoke_limits :: invoke_limits where
  "default_invoke_limits = \<lparr>il_byte_cap = 5 * 1024 * 1024 * 1024, il_row_cap = 1000000, il_record_cap = 1000000,
     il_wall_clock_cap = JInt 3600, il_idle_timeout = JInt 120, il_per_grant_concurrency = 4, il_retry_after_seconds = 60\<rparr>"

record grant_binding =
  gb_access_grant_id :: string
  gb_buyer_account_id :: string
  gb_listing_id :: string
  gb_listing_version_id :: string
  gb_connector_id :: string
  gb_delivery_mode :: string
  gb_terms_hash :: string
  gb_operations :: "string list"
  gb_expires_at :: string
  gb_state :: string
  gb_seller_edge_identity_hash :: "string option"
  gb_max_concurrency :: int

record invoke_request =
  iv_metadata :: "(string \<times> json) list"
  iv_access_grant_id :: string
  iv_buyer_account_id :: string
  iv_listing_id :: string
  iv_listing_version_id :: string
  iv_connector_id :: string
  iv_delivery_mode :: string
  iv_terms_hash :: string
  iv_operation :: string
  iv_mode :: string
  iv_seller_edge_identity_hash :: "string option"
  iv_resume :: "resume_cursor option"
  iv_limits :: invoke_limits

text \<open>The summary the runtime writes holds numbers, a parsed one whatever the answer holds.\<close>

record metering_summary =
  ms_bytes :: json
  ms_rows :: json
  ms_records :: json
  ms_calls :: json
  ms_duration_ms :: json
  ms_retries :: json
  ms_provider_latency_ms :: json
  ms_cache_state :: json
  ms_connector_type :: json
  ms_seller_edge_route :: json

record invoke_response =
  ir_invocation_id :: json
  ir_state :: json
  ir_metering :: metering_summary
  ir_retry_after_seconds :: json
  ir_resume_required :: bool

datatype runtime_exn = Invoke_Runtime_Error invoke_state string "int option" | Invoke_Other exn

section \<open>The client\<close>

definition resume_dict :: "resume_cursor \<Rightarrow> json" where
  "resume_dict c = JObj [(''signed_offset'', opt_json JStr (rc_signed_offset c)), (''resume_token'', opt_json JStr (rc_resume_token c))]"

definition limits_dict :: "invoke_limits \<Rightarrow> json" where
  "limits_dict l = JObj [(''byte_cap'', JInt (il_byte_cap l)), (''row_cap'', JInt (il_row_cap l)), (''record_cap'', JInt (il_record_cap l)),
     (''wall_clock_cap_seconds'', il_wall_clock_cap l), (''idle_timeout_seconds'', il_idle_timeout l),
     (''per_grant_concurrency'', JInt (il_per_grant_concurrency l)), (''retry_after_seconds'', JInt (il_retry_after_seconds l))]"

definition invoke_request_dict :: "invoke_request \<Rightarrow> (string \<times> json) list" where
  "invoke_request_dict r = [
     (''metadata'', JObj (iv_metadata r)), (''access_grant_id'', JStr (iv_access_grant_id r)),
     (''buyer_account_id'', JStr (iv_buyer_account_id r)), (''listing_id'', JStr (iv_listing_id r)),
     (''listing_version_id'', JStr (iv_listing_version_id r)), (''connector_id'', JStr (iv_connector_id r)),
     (''delivery_mode'', JStr (iv_delivery_mode r)), (''terms_hash'', JStr (iv_terms_hash r)),
     (''operation'', JStr (iv_operation r)), (''mode'', JStr (iv_mode r)),
     (''seller_edge_identity_hash'', opt_json JStr (iv_seller_edge_identity_hash r)),
     (''resume'', opt_json resume_dict (iv_resume r)), (''limits'', limits_dict (iv_limits r))]"

definition parse_metering :: "json \<Rightarrow> metering_summary res" where
  "parse_metering m =
     rbind (pick m [''bytes'']) (\<lambda>b. rbind (pick m [''rows'']) (\<lambda>r. rbind (pick m [''records'']) (\<lambda>rc.
     rbind (pick m [''calls'']) (\<lambda>c. rbind (pick m [''duration_ms'', ''durationMs'']) (\<lambda>d.
     rbind (pick m [''retries'']) (\<lambda>rt. rbind (pick m [''provider_latency_ms'', ''providerLatencyMs'']) (\<lambda>pl.
     rbind (pick m [''cache_state'', ''cacheState'']) (\<lambda>cs. rbind (pick m [''connector_type'', ''connectorType'']) (\<lambda>ct.
     rbind (pick m [''seller_edge_route'', ''sellerEdgeRoute'']) (\<lambda>sr.
       Inr \<lparr>ms_bytes = or_else b (JInt 0), ms_rows = or_else r (JInt 0), ms_records = or_else rc (JInt 0),
            ms_calls = or_else c (JInt 0), ms_duration_ms = or_else d (JInt 0), ms_retries = or_else rt (JInt 0),
            ms_provider_latency_ms = or_else pl (JInt 0), ms_cache_state = or_else cs (JStr ''unknown''),
            ms_connector_type = or_else ct (JStr ''unknown''), ms_seller_edge_route = or_else sr (JStr ''local'')\<rparr>))))))))))"

definition parse_invoke_response :: "json \<Rightarrow> invoke_response res" where
  "parse_invoke_response d =
     rbind (pick d [''metering'']) (\<lambda>m.
     rbind (pick d [''invocation_id'', ''invocationId'']) (\<lambda>i.
     rbind (pick d [''state'']) (\<lambda>s.
     rbind (parse_metering (or_else m (JObj []))) (\<lambda>ms.
     rbind (pick d [''retry_after_seconds'', ''retryAfterSeconds'']) (\<lambda>ra.
     rbind (pick d [''resume_required'', ''resumeRequired'']) (\<lambda>rr.
       Inr \<lparr>ir_invocation_id = i, ir_state = s, ir_metering = ms, ir_retry_after_seconds = ra,
            ir_resume_required = truthy rr\<rparr>))))))"

definition gw_invoke ::
    "pyrt \<Rightarrow> gw_client \<Rightarrow> (gw_request \<Rightarrow> http_answer) \<Rightarrow> invoke_request \<Rightarrow> gw_request option \<times> invoke_response res" where
  "gw_invoke rt cl send r = gateway_call
     (rbind (reject_payload_contract_fields rt (dict_keys (invoke_request_dict r))) (\<lambda>_.
        Inr \<lparr>gr_method = ''POST'', gr_url = gc_base_url cl @ ''/v1/gateway/invoke'',
             gr_headers = camel_headers rt cl (iv_metadata r), gr_params = [],
             gr_body = JObj (drop_none (invoke_request_dict r))\<rparr>))
     send parse_invoke_response"

section \<open>The grant\<close>

definition replace_char :: "char \<Rightarrow> string \<Rightarrow> string \<Rightarrow> string" where
  "replace_char c new s = concat (map (\<lambda>x. if x = c then new else [x]) s)"

text \<open>The checks of the request against the grant, in the order of the dictionary.\<close>

definition binding_checks :: "invoke_request \<Rightarrow> grant_binding \<Rightarrow> (string \<times> bool) list" where
  "binding_checks r g = [
     (''access_grant_id'', iv_access_grant_id r = gb_access_grant_id g),
     (''buyer_account_id'', iv_buyer_account_id r = gb_buyer_account_id g),
     (''listing_id'', iv_listing_id r = gb_listing_id g),
     (''listing_version_id'', iv_listing_version_id r = gb_listing_version_id g),
     (''connector_id'', iv_connector_id r = gb_connector_id g),
     (''delivery_mode'', iv_delivery_mode r = gb_delivery_mode g),
     (''terms_hash'', iv_terms_hash r = gb_terms_hash g),
     (''operation'', iv_operation r \<in> set (gb_operations g)),
     (''seller_edge_identity_hash'', gb_seller_edge_identity_hash g = None
        \<or> iv_seller_edge_identity_hash r = gb_seller_edge_identity_hash g)]"

definition validate_grant_binding ::
    "(string \<Rightarrow> rat res) \<Rightarrow> invoke_request \<Rightarrow> grant_binding \<Rightarrow> rat \<Rightarrow> runtime_exn + unit" where
  "validate_grant_binding read_time r g now =
    (case read_time (replace_char CHR ''Z'' ''+00:00'' (gb_expires_at g)) of
       Inl e \<Rightarrow> Inl (Invoke_Other e)
     | Inr expires_at \<Rightarrow>
        if gb_state g \<noteq> ''active'' \<or> expires_at \<le> now
        then Inl (Invoke_Runtime_Error FAILED ''active unexpired grant required'' None)
        else (case filter (\<lambda>c. \<not> snd c) (binding_checks r g) of
            [] \<Rightarrow> Inr ()
          | c # _ \<Rightarrow> Inl (Invoke_Runtime_Error FAILED (''grant binding mismatch: '' @ fst c) None)))"

section \<open>Streaming\<close>

text \<open>What one step of the iterator gives: bytes, with the time passed since the start, an exception, or the end.\<close>

datatype chunk_step = Chunk bytes rat | Chunk_Raises exn | Chunks_End

fun exceeds :: "rat \<Rightarrow> json \<Rightarrow> bool" where
  "exceeds r (JInt i) = (r > of_int i)"
| "exceeds r (JFloat (FNum q)) = (r > q)"
| "exceeds r (JFloat FNegZero) = (r > 0)"
| "exceeds r (JFloat FNegInf) = True"
| "exceeds r _ = False"

partial_function (option) stream_loop ::
    "invoke_limits \<Rightarrow> (nat \<Rightarrow> chunk_step) \<Rightarrow> nat \<Rightarrow> int \<Rightarrow> (runtime_exn + int \<times> nat) option" where
  "stream_loop lims src n seen = (case src n of
     Chunks_End \<Rightarrow> Some (Inr (seen, n))
   | Chunk_Raises e \<Rightarrow> Some (Inl (Invoke_Other e))
   | Chunk bs elapsed \<Rightarrow>
       if exceeds elapsed (il_wall_clock_cap lims)
       then Some (Inl (Invoke_Runtime_Error PROVIDER_TIMEOUT ''wall-clock cap exceeded'' None))
       else if seen + int (length bs) > il_byte_cap lims \<or> int n + 1 > il_record_cap lims
       then Some (Inl (Invoke_Runtime_Error PARTIAL_TRANSFER ''byte or record cap exceeded'' None))
       else stream_loop lims src (n + 1) (seen + int (length bs)))"

section \<open>ConnectorRuntime\<close>

type_synonym active_counts = "(string, int) dict"

definition active_count :: "active_counts \<Rightarrow> string \<Rightarrow> int" where
  "active_count m g = (case map_of m g of None \<Rightarrow> 0 | Some n \<Rightarrow> n)"

record invoke_flags =
  if_resume_supported :: bool
  if_trust_revoked :: bool
  if_grant_revoked :: bool

text \<open>Everything before the stream starts: the answer is the count that was read, to be restored at the end.\<close>

definition invoke_begin ::
    "(string \<Rightarrow> rat res) \<Rightarrow> invoke_request \<Rightarrow> grant_binding \<Rightarrow> invoke_flags \<Rightarrow> rat \<Rightarrow> active_counts
      \<Rightarrow> (runtime_exn + int) \<times> active_counts" where
  "invoke_begin read_time r g fl now m =
    (case validate_grant_binding read_time r g now of
       Inl e \<Rightarrow> (Inl e, m)
     | Inr _ \<Rightarrow>
        if if_trust_revoked fl then (Inl (Invoke_Runtime_Error TRUST_REVOKED_MID_STREAM ''trust revoked mid stream'' None), m)
        else if if_grant_revoked fl then (Inl (Invoke_Runtime_Error GRANT_REVOKED_MID_STREAM ''grant revoked mid stream'' None), m)
        else if iv_resume r \<noteq> None \<and> \<not> if_resume_supported fl
        then (Inl (Invoke_Runtime_Error RESUME_UNSUPPORTED ''connector does not support resume'' None), m)
        else let active = active_count m (iv_access_grant_id r) in
          if active \<ge> il_per_grant_concurrency (iv_limits r)
          then (Inl (Invoke_Runtime_Error FAILED ''per_grant concurrency exceeded'' (Some (il_retry_after_seconds (iv_limits r)))), m)
          else (Inr active, dict_set (iv_access_grant_id r) (active + 1) m))"

text \<open>The \<open>finally\<close> clause writes the count that was read at the start.\<close>

definition invoke_end :: "invoke_request \<Rightarrow> int \<Rightarrow> active_counts \<Rightarrow> active_counts" where
  "invoke_end r active m = dict_set (iv_access_grant_id r) active m"

definition completed_response :: "invoke_request \<Rightarrow> int \<Rightarrow> nat \<Rightarrow> int \<Rightarrow> invoke_response" where
  "completed_response r bytes_seen records duration_ms =
     \<lparr>ir_invocation_id = JStr (replace_char CHR ''-'' ''_'' (''inv_'' @ iv_access_grant_id r @ ''_'' @ iv_operation r)),
      ir_state = JStr (invoke_state_value COMPLETED),
      ir_metering = \<lparr>ms_bytes = JInt bytes_seen, ms_rows = JInt 0, ms_records = JInt (int records), ms_calls = JInt 1,
         ms_duration_ms = JInt duration_ms, ms_retries = JInt (if iv_resume r \<noteq> None then 1 else 0),
         ms_provider_latency_ms = JInt duration_ms, ms_cache_state = JStr ''unknown'',
         ms_connector_type = JStr (iv_connector_id r),
         ms_seller_edge_route = JStr (case iv_seller_edge_identity_hash r of
            Some h \<Rightarrow> if h \<noteq> [] then h else ''local'' | None \<Rightarrow> ''local'')\<rparr>,
      ir_retry_after_seconds = JNull, ir_resume_required = (iv_mode r = ''stream'')\<rparr>"

text \<open>One invocation; \<open>duration_ms\<close> is read from the clock after the last chunk.\<close>

definition runtime_invoke ::
    "(string \<Rightarrow> rat res) \<Rightarrow> invoke_request \<Rightarrow> grant_binding \<Rightarrow> invoke_flags \<Rightarrow> rat \<Rightarrow> (nat \<Rightarrow> chunk_step) \<Rightarrow> int
      \<Rightarrow> active_counts \<Rightarrow> ((runtime_exn + invoke_response) \<times> active_counts) option" where
  "runtime_invoke read_time r g fl now src duration_ms m =
    (case invoke_begin read_time r g fl now m of
       (Inl e, m') \<Rightarrow> Some (Inl e, m')
     | (Inr active, m') \<Rightarrow>
        map_option (\<lambda>x. (case x of Inl e \<Rightarrow> Inl e
            | Inr (bytes_seen, records) \<Rightarrow> Inr (completed_response r bytes_seen records duration_ms),
           invoke_end r active m'))
          (stream_loop (iv_limits r) src 0 0))"

section \<open>An invocation always ends, within its limits\<close>

definition chunk_bytes :: "chunk_step \<Rightarrow> nat" where
  "chunk_bytes c = (case c of Chunk bs _ \<Rightarrow> length bs | _ \<Rightarrow> 0)"

definition in_time :: "invoke_limits \<Rightarrow> chunk_step \<Rightarrow> bool" where
  "in_time lims c = (case c of Chunk _ t \<Rightarrow> \<not> exceeds t (il_wall_clock_cap lims) | _ \<Rightarrow> False)"

definition chunk_range :: "(nat \<Rightarrow> chunk_step) \<Rightarrow> nat \<Rightarrow> nat \<Rightarrow> chunk_step list" where
  "chunk_range src a b = map src [a..<b]"

lemma chunk_range_Cons: "a < b \<Longrightarrow> chunk_range src a b = src a # chunk_range src (Suc a) b"
  by (simp add: chunk_range_def upt_conv_Cons)

lemma stream_loop_result:
  assumes "int n \<le> max 0 (il_record_cap lims)" and "seen \<le> max 0 (il_byte_cap lims)"
  shows "\<exists>x. stream_loop lims src n seen = Some x \<and>
    (case x of Inl _ \<Rightarrow> True
     | Inr (sum_seen, k) \<Rightarrow> n \<le> k \<and> int k \<le> max 0 (il_record_cap lims) \<and> sum_seen \<le> max 0 (il_byte_cap lims) \<and> src k = Chunks_End
         \<and> list_all (in_time lims) (chunk_range src n k)
         \<and> sum_seen = seen + int (sum_list (map chunk_bytes (chunk_range src n k))))"
  using assms
proof (induction "nat (max 0 (il_record_cap lims)) - n" arbitrary: n seen rule: less_induct)
  case less
  show ?case
  proof (cases "src n")
    case (Chunk bs t)
    show ?thesis
    proof (cases "exceeds t (il_wall_clock_cap lims) \<or> seen + int (length bs) > il_byte_cap lims \<or> int n + 1 > il_record_cap lims")
      case True
      then show ?thesis by (subst stream_loop.simps) (auto simp: Chunk)
    next
      case False
      then have "nat (max 0 (il_record_cap lims)) - Suc n < nat (max 0 (il_record_cap lims)) - n"
        and "int (Suc n) \<le> max 0 (il_record_cap lims)" and "seen + int (length bs) \<le> max 0 (il_byte_cap lims)"
        by auto
      from less.hyps [OF this] obtain x where x: "stream_loop lims src (Suc n) (seen + int (length bs)) = Some x"
        and res: "case x of Inl _ \<Rightarrow> True
          | Inr (sum_seen, k) \<Rightarrow> Suc n \<le> k \<and> int k \<le> max 0 (il_record_cap lims) \<and> sum_seen \<le> max 0 (il_byte_cap lims) \<and> src k = Chunks_End
              \<and> list_all (in_time lims) (chunk_range src (Suc n) k)
              \<and> sum_seen = seen + int (length bs) + int (sum_list (map chunk_bytes (chunk_range src (Suc n) k)))"
        by blast
      from False x have "stream_loop lims src n seen = Some x"
        by (subst stream_loop.simps) (simp add: Chunk)
      with res False Chunk show ?thesis
        by (auto simp: chunk_range_Cons in_time_def chunk_bytes_def split: sum.splits)
    qed
  qed (use less.prems in \<open>(subst stream_loop.simps, simp add: chunk_range_def)+\<close>)
qed

lemma active_count_set: "active_count (dict_set g n m) h = (if h = g then n else active_count m h)"
  by (simp add: active_count_def)

lemma invoke_begin_granted:
  assumes "invoke_begin read_time r g fl now m = (Inr active, m')"
  shows "active = active_count m (iv_access_grant_id r) \<and> active < il_per_grant_concurrency (iv_limits r)
    \<and> m' = dict_set (iv_access_grant_id r) (active + 1) m \<and> gb_state g = ''active''
    \<and> list_all snd (binding_checks r g) \<and> (\<exists>t. read_time (replace_char CHR ''Z'' ''+00:00'' (gb_expires_at g)) = Inr t \<and> now < t)"
  using assms
  by (auto simp: invoke_begin_def validate_grant_binding_def Let_def list_all_iff filter_empty_conv
      split: sum.splits if_splits list.splits)

lemma invoke_begin_refused: "invoke_begin read_time r g fl now m = (Inl e, m') \<Longrightarrow> m' = m"
  by (auto simp: invoke_begin_def Let_def split: sum.splits if_splits)


text \<open>
  Two invocations under one grant that overlap and end in the order they began: the counts they restore
  are stale, and afterwards one invocation too many counts as running.
\<close>

lemma overlapping_invocations_leak:
  assumes "invoke_begin read_time r g fl now m = (Inr a, m1)" and "invoke_begin read_time r g fl now m1 = (Inr b, m2)"
  shows "active_count (invoke_end r b (invoke_end r a m2)) (iv_access_grant_id r) = active_count m (iv_access_grant_id r) + 1"
  using invoke_begin_granted [OF assms(1)] invoke_begin_granted [OF assms(2)]
  by (simp add: invoke_end_def active_count_set)

end
