(* ===== verification/GatewayMeter.thy ===== *)
theory GatewayMeter
  imports GatewayContracts "HOL-Library.While_Combinator"
begin

text \<open>
  \<open>aim_node/gateway_v2/meter.py\<close>: metering requests and events, the client that records and lists
  them, and the local buffer in front of it. Times are seconds; \<open>send\<close>, which the buffer calls for
  each event, is a function of the state of its environment.
\<close>

section \<open>Requests and events\<close>

text \<open>The measures of a request are numbers; those of a parsed event are whatever the answer holds.\<close>

record 'n meter_measures =
  mm_bytes :: 'n
  mm_rows :: 'n
  mm_records :: 'n
  mm_calls :: 'n
  mm_duration_ms :: 'n
  mm_retries :: 'n

definition measure_names :: "string list" where
  "measure_names = [''bytes'', ''rows'', ''records'', ''calls'', ''duration_ms'', ''retries'']"

definition measures_dict :: "int meter_measures \<Rightarrow> json" where
  "measures_dict m = JObj [(''bytes'', JInt (mm_bytes m)), (''rows'', JInt (mm_rows m)), (''records'', JInt (mm_records m)),
     (''calls'', JInt (mm_calls m)), (''duration_ms'', JInt (mm_duration_ms m)), (''retries'', JInt (mm_retries m))]"

record meter_request =
  mr_metadata :: "(string \<times> json) list"
  mr_access_grant_id :: string
  mr_invocation_id :: string
  mr_buyer_account_id :: string
  mr_seller_account_id :: string
  mr_listing_id :: string
  mr_listing_version_id :: string
  mr_connector_id :: string
  mr_event_type :: string
  mr_measures :: "int meter_measures"
  mr_artifact_hash :: string
  mr_occurred_at :: string
  mr_seller_edge_identity_hash :: "string option"
  mr_signed_reference :: "(string \<times> json) list"

definition meter_request_dict :: "meter_request \<Rightarrow> (string \<times> json) list" where
  "meter_request_dict r = [
     (''metadata'', JObj (mr_metadata r)), (''access_grant_id'', JStr (mr_access_grant_id r)),
     (''invocation_id'', JStr (mr_invocation_id r)), (''buyer_account_id'', JStr (mr_buyer_account_id r)),
     (''seller_account_id'', JStr (mr_seller_account_id r)), (''listing_id'', JStr (mr_listing_id r)),
     (''listing_version_id'', JStr (mr_listing_version_id r)), (''connector_id'', JStr (mr_connector_id r)),
     (''event_type'', JStr (mr_event_type r)), (''measures'', measures_dict (mr_measures r)),
     (''artifact_hash'', JStr (mr_artifact_hash r)), (''occurred_at'', JStr (mr_occurred_at r)),
     (''seller_edge_identity_hash'', opt_json JStr (mr_seller_edge_identity_hash r)),
     (''signed_reference'', JObj (mr_signed_reference r))]"

text \<open>\<open>__post_init__\<close>: the request itself, or why it cannot be built.\<close>

definition post_init :: "pyrt \<Rightarrow> meter_request \<Rightarrow> meter_request res" where
  "post_init rt r =
     rbind (reject_payload_contract_fields rt (dict_keys (meter_request_dict r))) (\<lambda>_.
     rbind (reject_payload_contract_fields rt measure_names) (\<lambda>_.
       let meta = mr_metadata r; m = mr_measures r in
       if \<not> truthy (jget meta ''signed_envelope'')
          \<and> \<not> (truthy (jget meta ''request_timestamp'') \<and> truthy (jget meta ''nonce''))
       then Inl (ValueError ''meter events require a signed envelope or timestamp/nonce'')
       else if mm_bytes m + mm_rows m + mm_records m + mm_calls m \<le> 0
       then Inl (ValueError ''METERING_REJECTED: meter event must include evidence measures'')
       else Inr r))"

record meter_event =
  me_meter_event_id :: string
  me_access_grant_id :: string
  me_invocation_id :: string
  me_buyer_account_id :: string
  me_seller_account_id :: string
  me_listing_id :: string
  me_listing_version_id :: string
  me_connector_id :: string
  me_event_type :: string
  me_measures :: "json meter_measures"
  me_artifact_hash :: string
  me_occurred_at :: string
  me_accepted_at :: string
  me_state :: string
  me_seller_edge_identity_hash :: json

text \<open>\<open>MeterMeasures(**v)\<close>\<close>

fun measures_of :: "json \<Rightarrow> json meter_measures res" where
  "measures_of (JObj m) =
     (if list_all (\<lambda>k. k \<in> set measure_names) (dict_keys m)
      then Inr \<lparr>mm_bytes = jget_or m ''bytes'' (JInt 0), mm_rows = jget_or m ''rows'' (JInt 0),
                mm_records = jget_or m ''records'' (JInt 0), mm_calls = jget_or m ''calls'' (JInt 0),
                mm_duration_ms = jget_or m ''duration_ms'' (JInt 0), mm_retries = jget_or m ''retries'' (JInt 0)\<rparr>
      else Inl TypeError)"
| "measures_of _ = Inl TypeError"

definition str_pick :: "pyrt \<Rightarrow> json \<Rightarrow> string list \<Rightarrow> string res" where
  "str_pick rt d ks = rbind (pick_strict d ks) (\<lambda>v. Inr (py_str rt v))"

definition parse_meter_event :: "pyrt \<Rightarrow> json \<Rightarrow> meter_event res" where
  "parse_meter_event rt d =
     rbind (str_pick rt d [''meter_event_id'', ''meterEventId'']) (\<lambda>mid.
     rbind (str_pick rt d [''access_grant_id'', ''accessGrantId'']) (\<lambda>gid.
     rbind (str_pick rt d [''invocation_id'', ''invocationId'']) (\<lambda>iid.
     rbind (str_pick rt d [''buyer_account_id'', ''buyerAccountId'']) (\<lambda>bid.
     rbind (str_pick rt d [''seller_account_id'', ''sellerAccountId'']) (\<lambda>sid.
     rbind (str_pick rt d [''listing_id'', ''listingId'']) (\<lambda>lid.
     rbind (str_pick rt d [''listing_version_id'', ''listingVersionId'']) (\<lambda>lvid.
     rbind (str_pick rt d [''connector_id'', ''connectorId'']) (\<lambda>cid.
     rbind (str_pick rt d [''event_type'', ''eventType'']) (\<lambda>ty.
     rbind (rbind (pick_strict d [''measures'']) measures_of) (\<lambda>m.
     rbind (str_pick rt d [''artifact_hash'', ''artifactHash'']) (\<lambda>ah.
     rbind (str_pick rt d [''occurred_at'', ''occurredAt'']) (\<lambda>oa.
     rbind (str_pick rt d [''accepted_at'', ''acceptedAt'']) (\<lambda>aa.
     rbind (str_pick rt d [''state'']) (\<lambda>st.
     rbind (pick_strict d [''seller_edge_identity_hash'', ''sellerEdgeIdentityHash'']) (\<lambda>ih.
       Inr \<lparr>me_meter_event_id = mid, me_access_grant_id = gid, me_invocation_id = iid, me_buyer_account_id = bid,
            me_seller_account_id = sid, me_listing_id = lid, me_listing_version_id = lvid, me_connector_id = cid,
            me_event_type = ty, me_measures = m, me_artifact_hash = ah, me_occurred_at = oa, me_accepted_at = aa,
            me_state = st, me_seller_edge_identity_hash = ih\<rparr>)))))))))))))))"

text \<open>Both keys are looked up whether or not the call is idempotent; a missing one is a \<open>KeyError\<close>.\<close>

definition meter_headers :: "pyrt \<Rightarrow> gw_client \<Rightarrow> (string \<times> json) list \<Rightarrow> bool \<Rightarrow> (string \<times> string) list res" where
  "meter_headers rt cl meta idempotent =
     rbind (pick_strict (JObj meta) [''request_id'', ''requestId'']) (\<lambda>rid.
     rbind (pick_strict (JObj meta) [''idempotency_key'', ''idempotencyKey'']) (\<lambda>key.
       Inr (gw_headers rt cl rid (if idempotent then key else JNull))))"

definition meter_record ::
    "pyrt \<Rightarrow> gw_client \<Rightarrow> (gw_request \<Rightarrow> http_answer) \<Rightarrow> meter_request \<Rightarrow> gw_request option \<times> meter_event res" where
  "meter_record rt cl send r = gateway_call
     (rbind (meter_headers rt cl (mr_metadata r) True) (\<lambda>hs.
        Inr \<lparr>gr_method = ''POST'', gr_url = gc_base_url cl @ ''/v1/gateway/meter'', gr_headers = hs, gr_params = [],
             gr_body = JObj (drop_none (meter_request_dict r))\<rparr>))
     send (parse_meter_event rt)"

record meter_list_request =
  ml_metadata :: "(string \<times> json) list"
  ml_account_id :: string
  ml_access_grant_id :: "string option"
  ml_invocation_id :: "string option"
  ml_artifact_hash :: "string option"

definition meter_list_params :: "meter_list_request \<Rightarrow> (string \<times> json) list" where
  "meter_list_params r = drop_none [(''account_id'', JStr (ml_account_id r)),
     (''access_grant_id'', opt_json JStr (ml_access_grant_id r)), (''invocation_id'', opt_json JStr (ml_invocation_id r)),
     (''artifact_hash'', opt_json JStr (ml_artifact_hash r))]"

definition meter_list ::
    "pyrt \<Rightarrow> gw_client \<Rightarrow> (gw_request \<Rightarrow> http_answer) \<Rightarrow> meter_list_request \<Rightarrow> gw_request option \<times> meter_event list res" where
  "meter_list rt cl send r = gateway_call
     (rbind (reject_payload_contract_fields rt [''metadata'', ''account_id'', ''access_grant_id'', ''invocation_id'', ''artifact_hash'']) (\<lambda>_.
      rbind (meter_headers rt cl (ml_metadata r) False) (\<lambda>hs.
        Inr \<lparr>gr_method = ''GET'', gr_url = gc_base_url cl @ ''/v1/gateway/meter'', gr_headers = hs,
             gr_params = meter_list_params r, gr_body = JNull\<rparr>)))
     send (\<lambda>v. rbind (py_iter v) (res_map (parse_meter_event rt)))"

section \<open>The buffer\<close>

datatype buffer_state = Open_Buffer | Buffering | Degraded | Fail_Closed

record buffer_policy =
  bp_threshold_events :: int
  bp_max_events :: int
  bp_drain_deadline :: rat

definition default_policy :: buffer_policy where
  "default_policy = \<lparr>bp_threshold_events = 100, bp_max_events = 10000, bp_drain_deadline = 300\<rparr>"

text \<open>The spans and metrics the buffer emits, by the parts that vary.\<close>

datatype meter_signal =
    Depth_Metric nat buffer_state
  | Rejected_Span string buffer_state nat
  | Rejected_Metric string buffer_state nat
  | Degraded_Span string

record meter_buffer =
  mb_queue :: "meter_request list"
  mb_state :: buffer_state
  mb_deadline :: "rat option"
  mb_dropped :: nat
  mb_spans :: "meter_signal list"
  mb_metrics :: "meter_signal list"

definition new_meter_buffer :: meter_buffer where
  "new_meter_buffer = \<lparr>mb_queue = [], mb_state = Open_Buffer, mb_deadline = None, mb_dropped = 0, mb_spans = [], mb_metrics = []\<rparr>"

datatype meter_exn = Meter_Buffer_Error string buffer_state | Send_Failed exn

definition depth_metric :: "meter_buffer \<Rightarrow> meter_buffer" where
  "depth_metric b = b\<lparr>mb_metrics := mb_metrics b @ [Depth_Metric (length (mb_queue b)) (mb_state b)]\<rparr>"

definition rejected :: "string \<Rightarrow> meter_buffer \<Rightarrow> meter_buffer" where
  "rejected reason b = b\<lparr>mb_spans := mb_spans b @ [Rejected_Span reason (mb_state b) (mb_dropped b)],
     mb_metrics := mb_metrics b @ [Rejected_Metric reason (mb_state b) (mb_dropped b)]\<rparr>"

definition blocked :: "meter_buffer \<Rightarrow> bool" where
  "blocked b \<longleftrightarrow> mb_state b = Degraded \<or> mb_state b = Fail_Closed"

definition deadline_missed :: "buffer_policy \<Rightarrow> rat \<Rightarrow> meter_buffer \<Rightarrow> bool" where
  "deadline_missed p now b \<longleftrightarrow> (case mb_deadline b of None \<Rightarrow> False | Some t \<Rightarrow> now - t > bp_drain_deadline p)"

definition meter_enqueue :: "buffer_policy \<Rightarrow> rat \<Rightarrow> meter_request \<Rightarrow> meter_buffer \<Rightarrow> (meter_exn + unit) \<times> meter_buffer" where
  "meter_enqueue p now r b =
    (if blocked b
     then (Inl (Meter_Buffer_Error ''METERING_REJECTED: local meter buffer is degraded'' (mb_state b)), rejected ''degraded'' b)
     else if deadline_missed p now b
     then (Inl (Meter_Buffer_Error ''METERING_REJECTED: meter_buffer drain deadline missed'' Fail_Closed),
           rejected ''drain_deadline_missed'' (b\<lparr>mb_state := Fail_Closed\<rparr>))
     else if int (length (mb_queue b)) \<ge> bp_max_events p
     then (Inl (Meter_Buffer_Error ''METERING_REJECTED: meter_buffer max depth reached'' Fail_Closed),
           rejected ''max_depth'' (b\<lparr>mb_state := Fail_Closed, mb_dropped := mb_dropped b + 1\<rparr>))
     else
       let b1 = b\<lparr>mb_queue := mb_queue b @ [r]\<rparr>;
           b2 = (if int (length (mb_queue b1)) \<ge> bp_threshold_events p
                 then b1\<lparr>mb_state := Buffering,
                         mb_deadline := (case mb_deadline b1 of None \<Rightarrow> Some now | Some t \<Rightarrow> Some t)\<rparr>
                 else b1)
       in (Inr (), depth_metric b2))"

definition mark_degraded :: "string \<Rightarrow> meter_buffer \<Rightarrow> meter_buffer" where
  "mark_degraded reason b = b\<lparr>mb_state := Degraded, mb_spans := mb_spans b @ [Degraded_Span reason]\<rparr>"

text \<open>
  \<open>drain\<close>: the loop pops an event before it is sent, so an event whose sending raises is no longer in the
  queue. The loop is a \<open>while\<close> that may a priori not end: its value is an option.
\<close>

record 'e drain_run =
  dr_buffer :: meter_buffer
  dr_accepted :: "meter_event list"
  dr_error :: "exn option"
  dr_env :: 'e

definition drain_turn :: "('e \<Rightarrow> meter_request \<Rightarrow> meter_event res \<times> 'e) \<Rightarrow> 'e drain_run \<Rightarrow> 'e drain_run" where
  "drain_turn send s =
    (let b = dr_buffer s; b' = b\<lparr>mb_queue := tl (mb_queue b)\<rparr> in
     case send (dr_env s) (hd (mb_queue b)) of
       (Inl e, env) \<Rightarrow> s\<lparr>dr_buffer := b', dr_error := Some e, dr_env := env\<rparr>
     | (Inr ev, env) \<Rightarrow> s\<lparr>dr_buffer := depth_metric b', dr_accepted := dr_accepted s @ [ev], dr_env := env\<rparr>)"

definition drain_loop :: "('e \<Rightarrow> meter_request \<Rightarrow> meter_event res \<times> 'e) \<Rightarrow> 'e drain_run \<Rightarrow> 'e drain_run option" where
  "drain_loop send = while_option (\<lambda>s. dr_error s = None \<and> mb_queue (dr_buffer s) \<noteq> []) (drain_turn send)"

text \<open>The callback is awaited; here it does not use the buffer itself, nor does another task while a drain runs.\<close>

definition meter_drain ::
    "('e \<Rightarrow> meter_request \<Rightarrow> meter_event res \<times> 'e) \<Rightarrow> 'e \<Rightarrow> meter_buffer
      \<Rightarrow> ((meter_exn + meter_event list) \<times> meter_buffer \<times> 'e) option" where
  "meter_drain send env b =
    (if blocked b
     then Some (Inl (Meter_Buffer_Error ''METERING_REJECTED: meter_buffer cannot drain while fail-closed'' (mb_state b)),
                rejected ''drain_blocked'' b, env)
     else map_option (\<lambda>s. case dr_error s of
         Some e \<Rightarrow> (Inl (Send_Failed e), dr_buffer s, dr_env s)
       | None \<Rightarrow> (Inr (dr_accepted s), (dr_buffer s)\<lparr>mb_state := Open_Buffer, mb_deadline := None\<rparr>, dr_env s))
       (drain_loop send \<lparr>dr_buffer = b, dr_accepted = [], dr_error = None, dr_env = env\<rparr>))"


section \<open>Draining ends\<close>

text \<open>The reference: events are sent in order until one fails; then the rest, without the failed one, is left.\<close>

fun send_each :: "('e \<Rightarrow> meter_request \<Rightarrow> meter_event res \<times> 'e) \<Rightarrow> 'e \<Rightarrow> meter_request list
    \<Rightarrow> meter_event list \<times> (exn \<times> meter_request list) option \<times> 'e" where
  "send_each send env [] = ([], None, env)"
| "send_each send env (r # rs) = (case send env r of
     (Inl e, env') \<Rightarrow> ([], Some (e, rs), env')
   | (Inr ev, env') \<Rightarrow> (case send_each send env' rs of (evs, f, env'') \<Rightarrow> (ev # evs, f, env'')))"

definition run_fields :: "'e drain_run \<Rightarrow> buffer_state \<times> rat option \<times> nat \<times> meter_signal list" where
  "run_fields s = (mb_state (dr_buffer s), mb_deadline (dr_buffer s), mb_dropped (dr_buffer s), mb_spans (dr_buffer s))"

lemma drain_loop_send_each:
  assumes "dr_error s = None"
  shows "\<exists>s'. drain_loop send s = Some s' \<and> run_fields s' = run_fields s \<and>
     (case send_each send (dr_env s) (mb_queue (dr_buffer s)) of (evs, f, env') \<Rightarrow>
        dr_accepted s' = dr_accepted s @ evs \<and> dr_env s' = env' \<and> dr_error s' = map_option fst f \<and>
        mb_queue (dr_buffer s') = (case f of None \<Rightarrow> [] | Some (e, rest) \<Rightarrow> rest))"
  using assms
proof (induction "mb_queue (dr_buffer s)" arbitrary: s)
  case Nil
  then show ?case by (simp add: drain_loop_def while_option_unfold)
next
  case (Cons r rs)
  then have queue: "mb_queue (dr_buffer s) = r # rs" by simp
  define t where "t = drain_turn send s"
  have unfold: "drain_loop send s = drain_loop send t"
    using Cons.prems by (simp add: drain_loop_def t_def queue while_option_unfold [of _ _ s])
  obtain out env1 where snd_r: "send (dr_env s) r = (out, env1)" by (cases "send (dr_env s) r")
  show ?case
  proof (cases out)
    case (Inl e)
    then have t: "dr_error t = Some e" "mb_queue (dr_buffer t) = rs" "dr_env t = env1" "dr_accepted t = dr_accepted s"
        "run_fields t = run_fields s"
      using snd_r by (simp_all add: t_def drain_turn_def queue Let_def run_fields_def)
    then have "drain_loop send t = Some t" by (simp add: drain_loop_def while_option_unfold)
    with t unfold snd_r Inl show ?thesis by (simp add: queue)
  next
    case (Inr ev)
    then have t: "dr_error t = None" "rs = mb_queue (dr_buffer t)" "dr_env t = env1" "dr_accepted t = dr_accepted s @ [ev]"
        "run_fields t = run_fields s"
      using snd_r Cons.prems by (simp_all add: t_def drain_turn_def queue Let_def run_fields_def depth_metric_def)
    from Cons.hyps(1) [OF t(2,1)] t unfold snd_r Inr show ?thesis
      by (auto simp: queue split: prod.splits)
  qed
qed

lemma drain_blocked:
  "blocked b \<Longrightarrow> \<exists>x. meter_drain send env b = Some (Inl x, rejected ''drain_blocked'' b, env)"
  by (simp add: meter_drain_def)

lemma drain_open:
  assumes "\<not> blocked b"
  shows "\<exists>r b'. case send_each send env (mb_queue b) of (evs, f, e) \<Rightarrow>
    meter_drain send env b = Some (r, b', e) \<and>
    (case f of
       None \<Rightarrow> r = Inr evs \<and> mb_queue b' = [] \<and> mb_state b' = Open_Buffer \<and> mb_deadline b' = None
     | Some (err, rest) \<Rightarrow> r = Inl (Send_Failed err) \<and> mb_queue b' = rest \<and> mb_state b' = mb_state b \<and> mb_deadline b' = mb_deadline b)"
proof -
  let ?s = "\<lparr>dr_buffer = b, dr_accepted = [], dr_error = None, dr_env = env\<rparr>"
  obtain evs f e where all: "send_each send env (mb_queue b) = (evs, f, e)" by (cases "send_each send env (mb_queue b)")
  from drain_loop_send_each [of ?s send] obtain s' where
    s': "drain_loop send ?s = Some s'" "run_fields s' = run_fields ?s" "dr_accepted s' = evs" "dr_env s' = e"
      "dr_error s' = map_option fst f" "mb_queue (dr_buffer s') = (case f of None \<Rightarrow> [] | Some (e, rest) \<Rightarrow> rest)"
    by (auto simp: all)
  with assms show ?thesis
    by (cases f) (auto simp: meter_drain_def all run_fields_def)
qed

text \<open>C27: draining always returns, whatever the callback answers: a blocked buffer refuses and keeps everything; otherwise the
  events go out in order until one fails, the buffer opens again exactly when all went out, and after a failure it
  holds precisely the events behind the failed one, which is itself in neither place.\<close>

theorem meter_drain_returns:
  "case meter_drain send env b of
     None \<Rightarrow> False
   | Some (r, b', env') \<Rightarrow>
      (if blocked b then isl r \<and> mb_queue b' = mb_queue b \<and> mb_state b' = mb_state b \<and> env' = env
       else (case send_each send env (mb_queue b) of
          (evs, None, e) \<Rightarrow> r = Inr evs \<and> mb_queue b' = [] \<and> mb_state b' = Open_Buffer \<and> mb_deadline b' = None \<and> env' = e
        | (evs, Some (err, rest), e) \<Rightarrow> r = Inl (Send_Failed err) \<and> mb_queue b' = rest \<and> mb_state b' = mb_state b
             \<and> mb_deadline b' = mb_deadline b \<and> env' = e))"
proof (cases "blocked b")
  case True
  then obtain x where "meter_drain send env b = Some (Inl x, rejected ''drain_blocked'' b, env)"
    using drain_blocked [of b send env] by blast
  with True show ?thesis by (simp add: rejected_def)
next
  case False
  obtain evs f e where all: "send_each send env (mb_queue b) = (evs, f, e)" by (cases "send_each send env (mb_queue b)")
  from drain_open [OF False, of send env] False show ?thesis
    by (cases f) (auto simp: all)
qed

section \<open>Every event is handed over at most once, in order\<close>

text \<open>
  Calls on a buffer, with two ghost lists: the requests the buffer took and those it handed to
  \<open>send\<close>, whose answers may depend on everything handed over before.
\<close>

datatype meter_op = M_Enqueue rat meter_request | M_Drain | M_Degrade string

type_synonym meter_history = "meter_buffer \<times> meter_request list \<times> meter_request list"

definition logged :: "(meter_request list \<Rightarrow> meter_request \<Rightarrow> meter_event res)
    \<Rightarrow> meter_request list \<Rightarrow> meter_request \<Rightarrow> meter_event res \<times> meter_request list" where
  "logged answers handed r = (answers handed r, handed @ [r])"

fun meter_step :: "buffer_policy \<Rightarrow> (meter_request list \<Rightarrow> meter_request \<Rightarrow> meter_event res)
    \<Rightarrow> meter_history \<Rightarrow> meter_op \<Rightarrow> meter_history" where
  "meter_step p answers (b, handed, taken) (M_Enqueue now r) =
     (case meter_enqueue p now r b of
        (Inl _, b') \<Rightarrow> (b', handed, taken)
      | (Inr _, b') \<Rightarrow> (b', handed, taken @ [r]))"
| "meter_step p answers (b, handed, taken) M_Drain =
     (case meter_drain (logged answers) handed b of
        None \<Rightarrow> (b, handed, taken)
      | Some (_, b', handed') \<Rightarrow> (b', handed', taken))"
| "meter_step p answers (b, handed, taken) (M_Degrade reason) = (mark_degraded reason b, handed, taken)"

definition meter_consistent :: "buffer_policy \<Rightarrow> meter_history \<Rightarrow> bool" where
  "meter_consistent p h = (case h of (b, handed, taken) \<Rightarrow>
     taken = handed @ mb_queue b \<and> int (length (mb_queue b)) \<le> max 0 (bp_max_events p))"

lemma send_each_logged:
  "send_each (logged answers) handed rs = (evs, f, handed') \<Longrightarrow>
     handed' @ (case f of None \<Rightarrow> [] | Some (e, rest) \<Rightarrow> rest) = handed @ rs"
proof (induction rs arbitrary: handed evs)
  case (Cons r rs)
  then show ?case by (auto simp: logged_def split: sum.splits prod.splits)
qed simp

lemma send_each_grows: "send_each (logged answers) handed rs = (evs, f, handed') \<Longrightarrow> length handed \<le> length handed'"
proof (induction rs arbitrary: handed evs)
  case (Cons r rs)
  then show ?case
    using Cons.IH [of "handed @ [r]"] by (auto simp: logged_def split: sum.splits prod.splits)
qed simp

lemma enqueue_queue:
  "meter_enqueue p now r b = (out, b') \<Longrightarrow>
     mb_queue b' = (if isl out then mb_queue b else mb_queue b @ [r])
     \<and> (\<not> isl out \<longrightarrow> int (length (mb_queue b)) < bp_max_events p)"
  by (auto simp: meter_enqueue_def rejected_def depth_metric_def Let_def split: if_splits)

lemma drain_consistent:
  assumes "meter_drain (logged answers) handed b = Some (r, b', handed')"
  shows "handed' @ mb_queue b' = handed @ mb_queue b"
proof (cases "blocked b")
  case True
  with assms drain_blocked [of b "logged answers" handed] show ?thesis by (auto simp: rejected_def)
next
  case False
  obtain evs f e where all: "send_each (logged answers) handed (mb_queue b) = (evs, f, e)"
    by (cases "send_each (logged answers) handed (mb_queue b)")
  from drain_open [OF False, of "logged answers" handed] assms send_each_logged [OF all] show ?thesis
    by (cases f) (auto simp: all)
qed

lemma drain_queue_shorter:
  assumes "meter_drain (logged answers) handed b = Some (r, b', handed')"
  shows "length (mb_queue b') \<le> length (mb_queue b)"
proof -
  have "length (mb_queue b') + length handed' = length (mb_queue b) + length handed"
    using arg_cong [OF drain_consistent [OF assms], of length] by simp
  moreover have "length handed \<le> length handed'"
  proof (cases "blocked b")
    case True
    with assms drain_blocked [of b "logged answers" handed] show ?thesis by auto
  next
    case False
    from drain_open [OF this, of "logged answers" handed] assms send_each_grows show ?thesis
      by (auto split: prod.splits)
  qed
  ultimately show ?thesis by simp
qed

lemma meter_step_consistent: "meter_consistent p h \<Longrightarrow> meter_consistent p (meter_step p answers h op)"
proof (induction p answers h op rule: meter_step.induct)
  case (1 p answers b handed taken now r)
  obtain out b' where run: "meter_enqueue p now r b = (out, b')" by (cases "meter_enqueue p now r b")
  from 1 enqueue_queue [OF run] show ?case
    by (cases out) (simp_all add: meter_consistent_def run)
next
  case (2 p answers b handed taken)
  show ?case
  proof (cases "meter_drain (logged answers) handed b")
    case (Some x)
    then obtain r b' handed' where run: "meter_drain (logged answers) handed b = Some (r, b', handed')"
      by (cases x) auto
    with 2 drain_consistent [OF run] drain_queue_shorter [OF run] show ?thesis
      by (simp add: meter_consistent_def)
  qed (use 2 in simp)
qed (simp add: meter_consistent_def mark_degraded_def)

interpretation meter: op_system "meter_step p answers" "meter_consistent p" for p answers
  by unfold_locales (rule meter_step_consistent)

text \<open>C14: along every sequence of enqueues, drains and degradations, whatever the callback answers, the events the
  buffer took are exactly the ones it handed over followed by the ones it still holds, in order: none is handed over
  twice, reordered or lost before its sending, and the buffer never holds more than the policy allows.\<close>

theorem meter_events_once:
  "case foldl (meter_step p answers) (new_meter_buffer, [], []) ops of (b, handed, taken) \<Rightarrow>
     taken = handed @ mb_queue b \<and> int (length (mb_queue b)) \<le> max 0 (bp_max_events p)"
proof -
  have "meter_consistent p (new_meter_buffer, [], [])"
    by (simp add: meter_consistent_def new_meter_buffer_def)
  from meter.run_keeps [OF this, of answers ops] show ?thesis
    by (simp add: meter_consistent_def)
qed

section \<open>A queue with a capacity\<close>

definition meter_ready :: "buffer_policy \<Rightarrow> rat \<Rightarrow> meter_buffer \<Rightarrow> bool" where
  "meter_ready p now b \<longleftrightarrow> 0 \<le> bp_drain_deadline p \<and>
     (length (mb_queue b) < nat (bp_max_events p) \<longrightarrow> \<not> blocked b \<and> \<not> deadline_missed p now b)"

interpretation meter_fifo: bounded_fifo mb_queue "\<lambda>r b. snd (meter_enqueue p now r b)" "meter_ready p now" "\<lambda>_. True"
    "nat (bp_max_events p)" for p now
  by unfold_locales
    (auto simp: meter_enqueue_def meter_ready_def blocked_def deadline_missed_def rejected_def depth_metric_def Let_def
      split: if_splits option.splits)

text \<open>Events that arrive together fill the queue up to the policy's limit; the first one past it blocks the buffer for good.\<close>

lemma meter_burst:
  assumes "meter_ready p now b"
  shows "mb_queue (foldl (\<lambda>b r. snd (meter_enqueue p now r b)) b rs) =
    mb_queue b @ take (nat (bp_max_events p) - length (mb_queue b)) rs"
  using meter_fifo.puts_contents [OF assms, of rs] by (simp add: list_all_iff)

lemma blocked_stays: "blocked b \<Longrightarrow> blocked (fst (meter_step p answers (b, handed, taken) op))"
  by (cases op) (auto simp: meter_enqueue_def meter_drain_def rejected_def mark_degraded_def blocked_def)

section \<open>What the requests can be\<close>

text \<open>The sum of the measures is what is checked: one of them may be negative, and durations are no evidence.\<close>

lemma negative_measure_accepted:
  "post_init rt (r\<lparr>mr_metadata := [(''signed_envelope'', JStr ''x'')],
     mr_measures := \<lparr>mm_bytes = -5, mm_rows = 0, mm_records = 6, mm_calls = 0, mm_duration_ms = 0, mm_retries = 0\<rparr>\<rparr>) = Inr
     (r\<lparr>mr_metadata := [(''signed_envelope'', JStr ''x'')],
     mr_measures := \<lparr>mm_bytes = -5, mm_rows = 0, mm_records = 6, mm_calls = 0, mm_duration_ms = 0, mm_retries = 0\<rparr>\<rparr>)"
proof -
  have request: "reject_payload_contract_fields rt (dict_keys (meter_request_dict s)) = Inr ()" for s
    unfolding reject_payload_ok meter_request_dict_def list.map fst_conv by code_simp
  have measures: "reject_payload_contract_fields rt measure_names = Inr ()"
    unfolding reject_payload_ok by code_simp
  show ?thesis by (simp add: post_init_def request measures jget_def Let_def del: reject_payload_ok)
qed

text \<open>Listing events fails without an idempotency key, which listing does not use.\<close>

lemma meter_list_needs_key:
  "meter_list rt cl send \<lparr>ml_metadata = [(''request_id'', JStr ''r'')], ml_account_id = acc, ml_access_grant_id = None,
     ml_invocation_id = None, ml_artifact_hash = None\<rparr> = (None, Inl (KeyError ''idempotency_key''))"
proof -
  have ok: "reject_payload_contract_fields rt [''metadata'', ''account_id'', ''access_grant_id'', ''invocation_id'', ''artifact_hash''] = Inr ()"
    unfolding reject_payload_ok by code_simp
  show ?thesis
    by (simp add: ok meter_list_def meter_headers_def pick_strict_def gateway_call_def jitem_def)
qed

end
