(* ===== verification/GatewayClients.thy ===== *)
theory GatewayClients
  imports GatewayMeter
begin

text \<open>
  The remaining clients of \<open>aim_node/gateway_v2\<close>: \<open>connect.py\<close>, \<open>quote.py\<close>, \<open>discover.py\<close>,
  \<open>receipt.py\<close> and \<open>buyer.py\<close>: the requests they send and how they read the answers. A field an
  answer supplies is the JSON value it supplies.
\<close>

section \<open>connect\<close>

definition local_secret_ref_prefix :: string where
  "local_secret_ref_prefix = ''local://aim-node/secrets/''"

record connector_preferences =
  cp_preferred_connector_ids :: "string list option"
  cp_preferred_seller_edge_id :: "string option"
  cp_connection_types :: "string list option"
  cp_region :: "string option"

record connect_request =
  cq_metadata :: "(string \<times> json) list"
  cq_quote_id :: string
  cq_billing_session_id :: string
  cq_delivery_mode :: string
  cq_accepted_terms_hash :: string
  cq_connector_preferences :: "connector_preferences option"
  cq_seller_edge_id :: "string option"

record seller_edge_binding =
  se_seller_edge_id :: json
  se_seller_id :: json
  se_connector_id :: json
  se_listing_id :: json
  se_identity_hash :: json

record grant_connection =
  gn_type :: json
  gn_local_secret_ref :: string
  gn_seller_edge :: "seller_edge_binding option"

record allowed_scope =
  as_listing_id :: json
  as_quote_id :: json
  as_billing_session_id :: json
  as_delivery_mode :: json
  as_operations :: "json list"
  as_max_concurrency :: json

record connect_response =
  cr_access_grant_id :: json
  cr_connector_id :: json
  cr_state :: json
  cr_expires_at :: json
  cr_connection :: grant_connection
  cr_allowed_scope :: allowed_scope
  cr_terms_hash :: json

definition str_list :: "string list \<Rightarrow> json" where
  "str_list xs = JArr (map JStr xs)"

definition preferences_dict :: "connector_preferences \<Rightarrow> json" where
  "preferences_dict p = JObj [(''preferred_connector_ids'', opt_json str_list (cp_preferred_connector_ids p)),
     (''preferred_seller_edge_id'', opt_json JStr (cp_preferred_seller_edge_id p)),
     (''connection_types'', opt_json str_list (cp_connection_types p)), (''region'', opt_json JStr (cp_region p))]"

definition connect_request_dict :: "connect_request \<Rightarrow> (string \<times> json) list" where
  "connect_request_dict r = [
     (''metadata'', JObj (cq_metadata r)), (''quote_id'', JStr (cq_quote_id r)),
     (''billing_session_id'', JStr (cq_billing_session_id r)), (''delivery_mode'', JStr (cq_delivery_mode r)),
     (''accepted_terms_hash'', JStr (cq_accepted_terms_hash r)),
     (''connector_preferences'', opt_json preferences_dict (cq_connector_preferences r)),
     (''seller_edge_id'', opt_json JStr (cq_seller_edge_id r))]"

definition reject_raw_seller_secret_fields :: "(string \<times> json) list \<Rightarrow> unit res" where
  "reject_raw_seller_secret_fields m =
     (if list_ex (\<lambda>k. contains ''raw_secret'' (lower k) \<or> contains ''seller_secret'' (lower k)) (dict_keys m)
      then Inl (ValueError ''raw seller secrets are forbidden in gateway.connect'') else Inr ())"

definition local_grant_secret_ref :: "string \<Rightarrow> string res" where
  "local_grant_secret_ref gid = (if gid = [] then Inl (ValueError ''access_grant_id is required'')
     else Inr (local_secret_ref_prefix @ ''grants/'' @ gid))"

fun assert_local_secret_ref :: "json \<Rightarrow> string res" where
  "assert_local_secret_ref (JStr s) =
     (if prefix local_secret_ref_prefix s then Inr s
      else Inl (ValueError ''secret_ref must point to the local aim-node secret store''))"
| "assert_local_secret_ref _ = Inl (ValueError ''secret_ref must point to the local aim-node secret store'')"

definition parse_seller_edge :: "json \<Rightarrow> seller_edge_binding option res" where
  "parse_seller_edge d =
     (if \<not> truthy d then Inr None else
      rbind (pick d [''seller_edge_id'', ''sellerEdgeId'']) (\<lambda>e.
      rbind (pick d [''seller_id'', ''sellerId'']) (\<lambda>s.
      rbind (pick d [''connector_id'', ''connectorId'']) (\<lambda>c.
      rbind (pick d [''listing_id'', ''listingId'']) (\<lambda>l.
      rbind (pick d [''identity_hash'', ''identityHash'']) (\<lambda>h.
        Inr (Some \<lparr>se_seller_edge_id = e, se_seller_id = s, se_connector_id = c, se_listing_id = l, se_identity_hash = h\<rparr>)))))))"

definition parse_allowed_scope :: "json \<Rightarrow> allowed_scope res" where
  "parse_allowed_scope d =
     rbind (pick d [''listing_id'', ''listingId'']) (\<lambda>l.
     rbind (pick d [''quote_id'', ''quoteId'']) (\<lambda>q.
     rbind (pick d [''billing_session_id'', ''billingSessionId'']) (\<lambda>b.
     rbind (pick d [''delivery_mode'', ''deliveryMode'']) (\<lambda>m.
     rbind (rbind (py_item d ''operations'') py_iter) (\<lambda>ops.
     rbind (pick d [''max_concurrency'', ''maxConcurrency'']) (\<lambda>mc.
       Inr \<lparr>as_listing_id = l, as_quote_id = q, as_billing_session_id = b, as_delivery_mode = m,
            as_operations = ops, as_max_concurrency = mc\<rparr>))))))"

definition parse_connect_response :: "json \<Rightarrow> connect_response res" where
  "parse_connect_response d =
     rbind (pick d [''connection'']) (\<lambda>conn.
     rbind (pick d [''allowed_scope'', ''allowedScope'']) (\<lambda>scope.
     rbind (rbind (pick conn [''local_secret_ref'', ''localSecretRef'']) assert_local_secret_ref) (\<lambda>secret.
     rbind (pick d [''access_grant_id'', ''accessGrantId'']) (\<lambda>gid.
     rbind (pick d [''connector_id'', ''connectorId'']) (\<lambda>cid.
     rbind (py_item d ''state'') (\<lambda>st.
     rbind (pick d [''expires_at'', ''expiresAt'']) (\<lambda>ea.
     rbind (py_item conn ''type'') (\<lambda>ty.
     rbind (rbind (pick conn [''seller_edge'', ''sellerEdge'']) parse_seller_edge) (\<lambda>edge.
     rbind (parse_allowed_scope scope) (\<lambda>sc.
     rbind (pick d [''terms_hash'', ''termsHash'']) (\<lambda>th.
       Inr \<lparr>cr_access_grant_id = gid, cr_connector_id = cid, cr_state = st, cr_expires_at = ea,
            cr_connection = \<lparr>gn_type = ty, gn_local_secret_ref = secret, gn_seller_edge = edge\<rparr>,
            cr_allowed_scope = sc, cr_terms_hash = th\<rparr>)))))))))))"

definition gw_connect ::
    "pyrt \<Rightarrow> gw_client \<Rightarrow> (gw_request \<Rightarrow> http_answer) \<Rightarrow> connect_request \<Rightarrow> gw_request option \<times> connect_response res" where
  "gw_connect rt cl send r = gateway_call
     (rbind (reject_payload_contract_fields rt (dict_keys (connect_request_dict r))) (\<lambda>_.
      rbind (reject_raw_seller_secret_fields (connect_request_dict r)) (\<lambda>_.
        Inr \<lparr>gr_method = ''POST'', gr_url = gc_base_url cl @ ''/v1/gateway/connect'',
             gr_headers = camel_headers rt cl (cq_metadata r), gr_params = [],
             gr_body = JObj (drop_none (connect_request_dict r))\<rparr>)))
     send parse_connect_response"

text \<open>Whatever the market answers, an accepted grant points into the node's own secret store.\<close>

lemma connect_secret_local:
  "snd (gw_connect rt cl send r) = Inr resp \<Longrightarrow>
     prefix local_secret_ref_prefix (gn_local_secret_ref (cr_connection resp))"
proof -
  have secret: "assert_local_secret_ref v = Inr s \<Longrightarrow> prefix local_secret_ref_prefix s" for v s
    by (cases v) (auto split: if_splits)
  show "snd (gw_connect rt cl send r) = Inr resp \<Longrightarrow> ?thesis"
    by (auto simp: gw_connect_def gateway_call_def parse_connect_response_def rbind_Inr_iff split: sum.splits dest!: secret)
qed

lemma local_grant_secret_ref_accepted:
  "local_grant_secret_ref gid = Inr s \<Longrightarrow> assert_local_secret_ref (JStr s) = Inr s"
  by (auto simp: local_grant_secret_ref_def split: if_splits)

section \<open>quote\<close>

record quote_request =
  qr_metadata :: "(string \<times> json) list"
  qr_listing_id :: string
  qr_listing_version_id :: "string option"
  qr_seller_id :: "string option"
  qr_provider_id :: "string option"
  qr_quantity :: "int option"
  qr_units :: "string option"
  qr_usage_estimate :: "(string \<times> json) list option"
  qr_buyer_context :: "(string \<times> json) list option"
  qr_expires_after_seconds :: "int option"

record quote_line_item =
  qi_code :: json
  qi_amount :: json
  qi_currency :: json
  qi_description :: json
  qi_quantity :: json
  qi_unit_amount :: json

record quote_response =
  qo_quote_id :: json
  qo_listing_id :: json
  qo_amount :: json
  qo_currency :: json
  qo_status :: json
  qo_listing_version_id :: json
  qo_seller_id :: json
  qo_provider_id :: json
  qo_line_items :: "quote_line_item list option"
  qo_expires_at :: json
  qo_request_id :: json

definition quote_request_dict :: "quote_request \<Rightarrow> (string \<times> json) list" where
  "quote_request_dict r = [
     (''metadata'', JObj (qr_metadata r)), (''listing_id'', JStr (qr_listing_id r)),
     (''listing_version_id'', opt_json JStr (qr_listing_version_id r)), (''seller_id'', opt_json JStr (qr_seller_id r)),
     (''provider_id'', opt_json JStr (qr_provider_id r)), (''quantity'', opt_json JInt (qr_quantity r)),
     (''units'', opt_json JStr (qr_units r)), (''usage_estimate'', opt_json JObj (qr_usage_estimate r)),
     (''buyer_context'', opt_json JObj (qr_buyer_context r)),
     (''expires_after_seconds'', opt_json JInt (qr_expires_after_seconds r))]"

text \<open>\<open>data[a] if a in data else data[b]\<close>\<close>

definition item_of_two :: "json \<Rightarrow> string \<Rightarrow> string \<Rightarrow> json res" where
  "item_of_two d a b = rbind (py_in a d) (\<lambda>p. if p then py_item d a else py_item d b)"

definition parse_quote_line_item :: "json \<Rightarrow> quote_line_item res" where
  "parse_quote_line_item d =
     rbind (py_item d ''code'') (\<lambda>c. rbind (py_get d ''description'' JNull) (\<lambda>ds.
     rbind (py_get d ''quantity'' JNull) (\<lambda>q. rbind (pick d [''unit_amount'', ''unitAmount'']) (\<lambda>u.
     rbind (py_item d ''amount'') (\<lambda>a. rbind (py_item d ''currency'') (\<lambda>cu.
       Inr \<lparr>qi_code = c, qi_amount = a, qi_currency = cu, qi_description = ds, qi_quantity = q, qi_unit_amount = u\<rparr>))))))"

definition parse_line_items :: "json \<Rightarrow> quote_line_item list option res" where
  "parse_line_items v = (if truthy v then rbind (rbind (py_iter v) (res_map parse_quote_line_item)) (\<lambda>xs. Inr (Some xs)) else Inr None)"

definition parse_quote_response :: "json \<Rightarrow> quote_response res" where
  "parse_quote_response d =
     rbind (rbind (py_get d ''line_items'' JNull) (\<lambda>v. if truthy v then Inr v else py_get d ''lineItems'' JNull)) (\<lambda>items.
     rbind (item_of_two d ''quote_id'' ''quoteId'') (\<lambda>q.
     rbind (item_of_two d ''listing_id'' ''listingId'') (\<lambda>l.
     rbind (pick d [''listing_version_id'', ''listingVersionId'']) (\<lambda>lv.
     rbind (pick d [''seller_id'', ''sellerId'']) (\<lambda>s.
     rbind (pick d [''provider_id'', ''providerId'']) (\<lambda>p.
     rbind (py_item d ''amount'') (\<lambda>a.
     rbind (py_item d ''currency'') (\<lambda>c.
     rbind (py_item d ''status'') (\<lambda>st.
     rbind (parse_line_items items) (\<lambda>li.
     rbind (pick d [''expires_at'', ''expiresAt'']) (\<lambda>ea.
     rbind (pick d [''request_id'', ''requestId'']) (\<lambda>ri.
       Inr \<lparr>qo_quote_id = q, qo_listing_id = l, qo_amount = a, qo_currency = c, qo_status = st,
            qo_listing_version_id = lv, qo_seller_id = s, qo_provider_id = p, qo_line_items = li,
            qo_expires_at = ea, qo_request_id = ri\<rparr>))))))))))))"

definition gw_quote ::
    "pyrt \<Rightarrow> gw_client \<Rightarrow> (gw_request \<Rightarrow> http_answer) \<Rightarrow> quote_request \<Rightarrow> gw_request option \<times> quote_response res" where
  "gw_quote rt cl send r = gateway_call
     (Inr \<lparr>gr_method = ''POST'', gr_url = gc_base_url cl @ ''/v1/gateway/quotes'',
           gr_headers = camel_headers rt cl (qr_metadata r), gr_params = [],
           gr_body = JObj (drop_none (quote_request_dict r))\<rparr>)
     send parse_quote_response"

section \<open>discover\<close>

record discover_request =
  dq_metadata :: "(string \<times> json) list"
  dq_query :: "string option"
  dq_categories :: "string list option"
  dq_tags :: "string list option"
  dq_seller_ids :: "string list option"
  dq_provider_ids :: "string list option"
  dq_capabilities :: "string list option"
  dq_limit :: "int option"
  dq_cursor :: "string option"

record discover_listing =
  dl_listing_id :: json
  dl_listing_version_id :: json
  dl_seller_id :: json
  dl_provider_id :: json
  dl_title :: json
  dl_description :: json
  dl_categories :: json
  dl_tags :: json
  dl_capabilities :: json
  dl_quote_required :: json
  dl_pricing_summary :: json

record discover_response =
  ds_listings :: "discover_listing list"
  ds_next_cursor :: json
  ds_request_id :: json

definition discover_request_dict :: "discover_request \<Rightarrow> (string \<times> json) list" where
  "discover_request_dict r = [
     (''metadata'', JObj (dq_metadata r)), (''query'', opt_json JStr (dq_query r)),
     (''categories'', opt_json str_list (dq_categories r)), (''tags'', opt_json str_list (dq_tags r)),
     (''seller_ids'', opt_json str_list (dq_seller_ids r)), (''provider_ids'', opt_json str_list (dq_provider_ids r)),
     (''capabilities'', opt_json str_list (dq_capabilities r)), (''limit'', opt_json JInt (dq_limit r)),
     (''cursor'', opt_json JStr (dq_cursor r))]"

definition parse_discover_listing :: "json \<Rightarrow> discover_listing res" where
  "parse_discover_listing d =
     rbind (item_of_two d ''listing_id'' ''listingId'') (\<lambda>l.
     rbind (item_of_two d ''listing_version_id'' ''listingVersionId'') (\<lambda>lv.
     rbind (item_of_two d ''seller_id'' ''sellerId'') (\<lambda>s.
     rbind (pick d [''provider_id'', ''providerId'']) (\<lambda>p.
     rbind (py_get d ''title'' (JStr [])) (\<lambda>t.
     rbind (py_get d ''description'' JNull) (\<lambda>ds.
     rbind (py_get d ''categories'' JNull) (\<lambda>ca.
     rbind (py_get d ''tags'' JNull) (\<lambda>ta.
     rbind (py_get d ''capabilities'' JNull) (\<lambda>cp.
     rbind (pick d [''quote_required'', ''quoteRequired'']) (\<lambda>q.
     rbind (pick d [''pricing_summary'', ''pricingSummary'']) (\<lambda>ps.
       Inr \<lparr>dl_listing_id = l, dl_listing_version_id = lv, dl_seller_id = s, dl_provider_id = p, dl_title = t,
            dl_description = ds, dl_categories = ca, dl_tags = ta, dl_capabilities = cp, dl_quote_required = q,
            dl_pricing_summary = ps\<rparr>)))))))))))"

definition parse_discover_response :: "json \<Rightarrow> discover_response res" where
  "parse_discover_response d =
     rbind (rbind (rbind (py_get d ''listings'' (JArr [])) py_iter) (res_map parse_discover_listing)) (\<lambda>ls.
     rbind (pick d [''next_cursor'', ''nextCursor'']) (\<lambda>n.
     rbind (pick d [''request_id'', ''requestId'']) (\<lambda>r.
       Inr \<lparr>ds_listings = ls, ds_next_cursor = n, ds_request_id = r\<rparr>)))"

definition gw_discover ::
    "pyrt \<Rightarrow> gw_client \<Rightarrow> (gw_request \<Rightarrow> http_answer) \<Rightarrow> discover_request \<Rightarrow> gw_request option \<times> discover_response res" where
  "gw_discover rt cl send r = gateway_call
     (Inr \<lparr>gr_method = ''POST'', gr_url = gc_base_url cl @ ''/v1/gateway/discover'',
           gr_headers = gw_headers rt cl (meta_pick (dq_metadata r) [''requestId'', ''request_id'']) JNull,
           gr_params = [], gr_body = JObj (drop_none (discover_request_dict r))\<rparr>)
     send parse_discover_response"

section \<open>receipts\<close>

record receipt_principal =
  rp_principal_type :: string
  rp_principal_id :: string
  rp_account_id :: "string option"
  rp_delegated_account_id :: "string option"
  rp_audit_reason :: "string option"

definition make_receipt_principal :: "receipt_principal \<Rightarrow> receipt_principal res" where
  "make_receipt_principal p =
     (if rp_principal_type p = ''support_governance'' \<and> (case rp_audit_reason p of None \<Rightarrow> True | Some t \<Rightarrow> t = [])
      then Inl (ValueError ''support/governance receipt access requires an audit reason'') else Inr p)"

record metering_receipt_summary =
  rs_meter_event_ids :: "json list"
  rs_measures :: "json meter_measures"
  rs_artifact_hashes :: "json list"
  rs_connector_ids :: "json list"

record receipt =
  re_receipt_id :: string
  re_quote_id :: string
  re_access_grant_id :: string
  re_buyer_account_id :: string
  re_seller_account_id :: string
  re_listing_id :: string
  re_listing_version_id :: string
  re_terms_hash :: string
  re_trust_artifact_references :: json
  re_metering_summary :: metering_receipt_summary
  re_payment_state :: string
  re_issued_at :: string

definition list_pick :: "json \<Rightarrow> string list \<Rightarrow> json list res" where
  "list_pick d ks = rbind (pick_strict d ks) py_iter"

definition parse_receipt_summary :: "json \<Rightarrow> metering_receipt_summary res" where
  "parse_receipt_summary s =
     rbind (list_pick s [''meter_event_ids'', ''meterEventIds'']) (\<lambda>ids.
     rbind (rbind (pick_strict s [''measures'']) measures_of) (\<lambda>m.
     rbind (list_pick s [''artifact_hashes'', ''artifactHashes'']) (\<lambda>hs.
     rbind (list_pick s [''connector_ids'', ''connectorIds'']) (\<lambda>cs.
       Inr \<lparr>rs_meter_event_ids = ids, rs_measures = m, rs_artifact_hashes = hs, rs_connector_ids = cs\<rparr>))))"

definition parse_receipt :: "pyrt \<Rightarrow> json \<Rightarrow> receipt res" where
  "parse_receipt rt d =
     rbind (pick_strict d [''metering_summary'', ''meteringSummary'']) (\<lambda>summary.
     rbind (str_pick rt d [''receipt_id'', ''receiptId'']) (\<lambda>rid.
     rbind (str_pick rt d [''quote_id'', ''quoteId'']) (\<lambda>qid.
     rbind (str_pick rt d [''access_grant_id'', ''accessGrantId'']) (\<lambda>gid.
     rbind (str_pick rt d [''buyer_account_id'', ''buyerAccountId'']) (\<lambda>bid.
     rbind (str_pick rt d [''seller_account_id'', ''sellerAccountId'']) (\<lambda>sid.
     rbind (str_pick rt d [''listing_id'', ''listingId'']) (\<lambda>lid.
     rbind (str_pick rt d [''listing_version_id'', ''listingVersionId'']) (\<lambda>lvid.
     rbind (str_pick rt d [''terms_hash'', ''termsHash'']) (\<lambda>th.
     rbind (pick_strict d [''trust'', ''trustArtifactReferences'']) (\<lambda>tr.
     rbind (parse_receipt_summary summary) (\<lambda>ms.
     rbind (str_pick rt d [''payment_state'', ''paymentState'']) (\<lambda>ps.
     rbind (str_pick rt d [''issued_at'', ''issuedAt'']) (\<lambda>ia.
       Inr \<lparr>re_receipt_id = rid, re_quote_id = qid, re_access_grant_id = gid, re_buyer_account_id = bid,
            re_seller_account_id = sid, re_listing_id = lid, re_listing_version_id = lvid, re_terms_hash = th,
            re_trust_artifact_references = tr, re_metering_summary = ms, re_payment_state = ps, re_issued_at = ia\<rparr>)))))))))))))"

definition receipt_headers :: "pyrt \<Rightarrow> gw_client \<Rightarrow> (string \<times> json) list \<Rightarrow> (string \<times> string) list res" where
  "receipt_headers rt cl meta =
     rbind (pick_strict (JObj meta) [''request_id'', ''requestId'']) (\<lambda>rid. Inr (gw_headers rt cl rid JNull))"

definition receipt_get ::
    "pyrt \<Rightarrow> gw_client \<Rightarrow> (gw_request \<Rightarrow> http_answer) \<Rightarrow> (string \<times> json) list \<Rightarrow> string \<Rightarrow> gw_request option \<times> receipt res" where
  "receipt_get rt cl send meta rid = gateway_call
     (rbind (reject_payload_contract_fields rt [''metadata'', ''receipt_id'', ''principal'']) (\<lambda>_.
      rbind (receipt_headers rt cl meta) (\<lambda>hs.
        Inr \<lparr>gr_method = ''GET'', gr_url = gc_base_url cl @ ''/v1/gateway/receipts/'' @ rid, gr_headers = hs,
             gr_params = [], gr_body = JNull\<rparr>)))
     send (parse_receipt rt)"

definition receipt_lookup ::
    "pyrt \<Rightarrow> gw_client \<Rightarrow> (gw_request \<Rightarrow> http_answer) \<Rightarrow> (string \<times> json) list \<Rightarrow> string option \<Rightarrow> string option
      \<Rightarrow> string option \<Rightarrow> gw_request option \<times> receipt list res" where
  "receipt_lookup rt cl send meta quote_id grant_id invocation_id = gateway_call
     (rbind (reject_payload_contract_fields rt [''metadata'', ''principal'', ''quote_id'', ''access_grant_id'', ''invocation_id'']) (\<lambda>_.
      rbind (receipt_headers rt cl meta) (\<lambda>hs.
        Inr \<lparr>gr_method = ''GET'', gr_url = gc_base_url cl @ ''/v1/gateway/receipts'', gr_headers = hs,
             gr_params = drop_none [(''quote_id'', opt_json JStr quote_id), (''access_grant_id'', opt_json JStr grant_id),
               (''invocation_id'', opt_json JStr invocation_id)], gr_body = JNull\<rparr>)))
     send (\<lambda>v. rbind (py_iter v) (res_map (parse_receipt rt)))"

section \<open>buyer\<close>

record budget_cap =
  bc_per_session_cents :: int
  bc_lifetime_cents :: int
  bc_lifetime_spend_cents :: int
  bc_currency :: string

record policy_envelope =
  pe_agent_id :: string
  pe_delegated_user_id :: string
  pe_delegated_account_id :: string
  pe_scopes :: "string list"
  pe_budget_cap :: budget_cap
  pe_human_approval_required :: bool
  pe_human_approval_state :: string

definition envelope_dict :: "policy_envelope \<Rightarrow> json" where
  "envelope_dict e = JObj [(''agent_id'', JStr (pe_agent_id e)), (''delegated_user_id'', JStr (pe_delegated_user_id e)),
     (''delegated_account_id'', JStr (pe_delegated_account_id e)), (''scopes'', str_list (pe_scopes e)),
     (''budget_cap'', JObj [(''per_session_cents'', JInt (bc_per_session_cents (pe_budget_cap e))),
        (''lifetime_cents'', JInt (bc_lifetime_cents (pe_budget_cap e))),
        (''lifetime_spend_cents'', JInt (bc_lifetime_spend_cents (pe_budget_cap e))),
        (''currency'', JStr (bc_currency (pe_budget_cap e)))]),
     (''human_approval_required'', JBool (pe_human_approval_required e)),
     (''human_approval_state'', JStr (pe_human_approval_state e))]"

text \<open>The four requests, one constructor per class, without the metadata and the envelope they share.\<close>

datatype buyer_request =
    Verify_Provider string string string string string string string
  | Request_Access string string string string
  | Estimate_Cost string string int
  | Create_Billing_Session string string string string string int string

fun buyer_request_dict :: "(string \<times> json) list \<Rightarrow> policy_envelope \<Rightarrow> buyer_request \<Rightarrow> (string \<times> json) list" where
  "buyer_request_dict meta e (Verify_Provider seller listing ver prov terms quality sample) =
     [(''metadata'', JObj meta), (''seller_id'', JStr seller), (''listing_id'', JStr listing), (''policy_envelope'', envelope_dict e),
      (''seller_verification_ref'', JStr ver), (''provenance_attestation_ref'', JStr prov), (''terms_use_rights_ref'', JStr terms),
      (''quality_profile_ref'', JStr quality), (''sample_receipt_ref'', JStr sample)]"
| "buyer_request_dict meta e (Request_Access buyer seller listing use) =
     [(''metadata'', JObj meta), (''buyer_account_id'', JStr buyer), (''seller_id'', JStr seller), (''listing_id'', JStr listing),
      (''requested_use'', JStr use), (''policy_envelope'', envelope_dict e)]"
| "buyer_request_dict meta e (Estimate_Cost buyer listing units) =
     [(''metadata'', JObj meta), (''buyer_account_id'', JStr buyer), (''listing_id'', JStr listing),
      (''policy_envelope'', envelope_dict e), (''requested_units'', JInt units)]"
| "buyer_request_dict meta e (Create_Billing_Session buyer seller quote access terms cents payment) =
     [(''metadata'', JObj meta), (''buyer_account_id'', JStr buyer), (''seller_id'', JStr seller), (''quote_id'', JStr quote),
      (''access_request_id'', JStr access), (''terms_acceptance_id'', JStr terms), (''budget_cap_cents'', JInt cents),
      (''payment_state'', JStr payment), (''policy_envelope'', envelope_dict e)]"

fun buyer_path :: "buyer_request \<Rightarrow> string \<times> bool" where
  "buyer_path (Verify_Provider _ _ _ _ _ _ _) = (''/v1/gateway/buyer/verify_provider'', False)"
| "buyer_path (Request_Access _ _ _ _) = (''/v1/gateway/buyer/request_access'', True)"
| "buyer_path (Estimate_Cost _ _ _) = (''/v1/gateway/buyer/estimate_cost'', False)"
| "buyer_path (Create_Billing_Session _ _ _ _ _ _ _) = (''/v1/gateway/buyer/billing_sessions'', True)"

definition buyer_post ::
    "pyrt \<Rightarrow> gw_client \<Rightarrow> (gw_request \<Rightarrow> http_answer) \<Rightarrow> (string \<times> json) list \<Rightarrow> policy_envelope \<Rightarrow> buyer_request
      \<Rightarrow> gw_request option \<times> json res" where
  "buyer_post rt cl send meta e r = gateway_call
     (let data = drop_none (buyer_request_dict meta e r); (path, idempotent) = buyer_path r in
      rbind (reject_payload_contract_fields rt (dict_keys data)) (\<lambda>_.
        Inr \<lparr>gr_method = ''POST'', gr_url = gc_base_url cl @ path,
             gr_headers = gw_headers rt cl (meta_pick meta [''requestId'', ''request_id''])
               (if idempotent then meta_pick meta [''idempotencyKey'', ''idempotency_key''] else JNull),
             gr_params = [], gr_body = JObj data\<rparr>))
     send Inr"

text \<open>A buyer request always goes out: its own field names are harmless, and the metadata is not looked into.\<close>

lemma buyer_always_sends: "fst (buyer_post rt cl send meta e r) \<noteq> None"
proof -
  have "clean_keys (dict_keys (drop_none (buyer_request_dict meta e r)))"
  proof -
    have "clean_keys (dict_keys (buyer_request_dict meta e r))"
      by (cases r; simp only: buyer_request_dict.simps list.map fst_conv; code_simp)
    then show ?thesis by (auto simp: drop_none_def list_all_iff)
  qed
  then have ok: "reject_payload_contract_fields rt (dict_keys (drop_none (buyer_request_dict meta e r))) = Inr ()"
    by (simp only: reject_payload_ok)
  show ?thesis by (simp add: buyer_post_def gateway_call_def Let_def ok split: prod.splits)
qed

end
