(* ===== verification/Logs.thy ===== *)
theory Logs
  imports PyObject Middleware
begin

text \<open>
  \<open>aim_node/management/logs.py\<close>: the ring buffer of log entries, the subscribers of the log stream,
  the tail route with its query parameters and the admission of a web socket. Formatting a time and
  reading one (\<open>_parse_iso8601\<close>, in seconds), and \<open>urlparse(origin).scheme\<close>, are parameters.
\<close>

section \<open>Entries and the ring buffer\<close>

definition buffer_size :: nat where "buffer_size = 1000"
definition default_tail_limit :: int where "default_tail_limit = 100"
definition max_tail_limit :: int where "max_tail_limit = 1000"
definition subscriber_queue_size :: nat where "subscriber_queue_size = 100"

record log_entry =
  le_timestamp :: string
  le_level :: string
  le_logger :: string
  le_message :: string
  le_extra :: "(string \<times> json) list option"

text \<open>A record of the logging module: its attributes, with the parts the handler reads by name.\<close>

record log_record =
  lr_created :: rat
  lr_levelname :: string
  lr_name :: string
  lr_get_message :: string
  lr_dict :: "(string \<times> json) list"

definition format_entry :: "(rat \<Rightarrow> string) \<Rightarrow> string list \<Rightarrow> log_record \<Rightarrow> log_entry" where
  "format_entry fmt_time standard_fields r =
    (let extra = filter (\<lambda>kv. fst kv \<notin> set standard_fields \<and> \<not> prefix ''_'' (fst kv)) (lr_dict r)
     in \<lparr>le_timestamp = fmt_time (lr_created r), le_level = lr_levelname r, le_logger = lr_name r,
         le_message = lr_get_message r, le_extra = (if extra = [] then None else Some extra)\<rparr>)"

text \<open>The handler: its bounded deque and the queues of the subscribers, each under its identity.\<close>

record ring_handler =
  rh_maxlen :: nat
  rh_buffer :: "log_entry list"
  rh_subscribers :: "(nat \<times> log_entry list) list"

definition new_ring :: "nat \<Rightarrow> ring_handler" where
  "new_ring maxlen = \<lparr>rh_maxlen = maxlen, rh_buffer = [], rh_subscribers = []\<rparr>"

text \<open>\<open>deque(maxlen=n).append\<close> drops from the left; \<open>put_nowait\<close> on a full queue loses the entry.\<close>

definition deque_append :: "nat \<Rightarrow> 'a \<Rightarrow> 'a list \<Rightarrow> 'a list" where
  "deque_append n x xs = last_n n (xs @ [x])"

definition put_nowait :: "'a \<Rightarrow> 'a list \<Rightarrow> 'a list" where
  "put_nowait x q = (if length q < subscriber_queue_size then q @ [x] else q)"

definition emit :: "log_entry \<Rightarrow> ring_handler \<Rightarrow> ring_handler" where
  "emit e h = h\<lparr>rh_buffer := deque_append (rh_maxlen h) e (rh_buffer h),
     rh_subscribers := map (\<lambda>(i, q). (i, put_nowait e q)) (rh_subscribers h)\<rparr>"

text \<open>Subscribing, taking the next entry, and leaving the stream.\<close>

definition subscribe :: "nat \<Rightarrow> ring_handler \<Rightarrow> ring_handler" where
  "subscribe i h = h\<lparr>rh_subscribers := rh_subscribers h @ [(i, [])]\<rparr>"

definition next_entry :: "nat \<Rightarrow> ring_handler \<Rightarrow> log_entry option \<times> ring_handler" where
  "next_entry i h = (case map_of (rh_subscribers h) i of
     Some (e # q) \<Rightarrow> (Some e, h\<lparr>rh_subscribers := dict_set i q (rh_subscribers h)\<rparr>)
   | _ \<Rightarrow> (None, h))"

definition unsubscribe :: "nat \<Rightarrow> ring_handler \<Rightarrow> ring_handler" where
  "unsubscribe i h = h\<lparr>rh_subscribers := dict_del i (rh_subscribers h)\<rparr>"

section \<open>The tail\<close>

definition log_levels :: "(string, int) dict" where
  "log_levels = [(''DEBUG'', 10), (''INFO'', 20), (''WARNING'', 30), (''ERROR'', 40), (''CRITICAL'', 50)]"

definition level_no :: "string \<Rightarrow> int" where
  "level_no l = (case map_of log_levels l of None \<Rightarrow> 0 | Some n \<Rightarrow> n)"

definition parse_limit :: "string option \<Rightarrow> int res" where
  "parse_limit raw = (case raw of
     None \<Rightarrow> Inr default_tail_limit
   | Some s \<Rightarrow>
      if s = [] then Inr default_tail_limit
      else (case int_of_text s of
          Inl _ \<Rightarrow> Inl (ValueError ''limit must be an integer'')
        | Inr n \<Rightarrow> if n < 1 \<or> n > max_tail_limit then Inl (ValueError ''limit must be between 1 and 1000'') else Inr n))"

text \<open>\<open>str.upper\<close> on ASCII letters; no text with another letter that has an upper case is a level.\<close>

definition upper_char :: "char \<Rightarrow> char" where
  "upper_char c = (if 97 \<le> code c \<and> code c \<le> 122 then chr (code c - 32) else c)"

definition parse_level :: "string option \<Rightarrow> int res" where
  "parse_level raw = (case raw of
     None \<Rightarrow> Inr 0
   | Some s \<Rightarrow> if s = [] then Inr 0
      else (case map_of log_levels (map upper_char s) of
          None \<Rightarrow> Inl (ValueError ''level must be one of DEBUG, INFO, WARNING, ERROR, CRITICAL'')
        | Some n \<Rightarrow> Inr n))"

text \<open>\<open>_tail_entries\<close>; the time of an entry is read only when \<open>since\<close> is given and its level passes.\<close>

fun filter_entries :: "(string \<Rightarrow> rat res) \<Rightarrow> int \<Rightarrow> rat option \<Rightarrow> log_entry list \<Rightarrow> log_entry list res" where
  "filter_entries read level since [] = Inr []"
| "filter_entries read level since (e # es) =
     (if level_no (le_level e) < level then filter_entries read level since es
      else (case since of
          None \<Rightarrow> rbind (filter_entries read level since es) (\<lambda>r. Inr (e # r))
        | Some t \<Rightarrow> rbind (read (le_timestamp e)) (\<lambda>u.
            if u < t then filter_entries read level since es
            else rbind (filter_entries read level since es) (\<lambda>r. Inr (e # r)))))"

definition tail_entries :: "(string \<Rightarrow> rat res) \<Rightarrow> ring_handler \<Rightarrow> int \<Rightarrow> int \<Rightarrow> rat option \<Rightarrow> log_entry list res" where
  "tail_entries read h level limit since =
     rbind (filter_entries read level since (rh_buffer h)) (\<lambda>es. Inr (last_n (nat limit) es))"

datatype tail_reply = Tail_Entries "log_entry list" | Tail_Invalid string | Tail_Fault exn

text \<open>The route: a \<open>ValueError\<close> of the parameters is answered with 422; one of the tail itself is not caught.\<close>

definition logs_tail :: "(string \<Rightarrow> rat res) \<Rightarrow> string option \<Rightarrow> string option \<Rightarrow> string option \<Rightarrow> ring_handler \<Rightarrow> tail_reply" where
  "logs_tail read level limit since h =
    (case rbind (parse_level level) (\<lambda>l. rbind (parse_limit limit) (\<lambda>n.
        rbind (case since of None \<Rightarrow> Inr None
            | Some s \<Rightarrow> if s = [] then Inr None else rbind (read s) (\<lambda>t. Inr (Some t))) (\<lambda>t. Inr (l, n, t)))) of
       Inl e \<Rightarrow> (if is_value_error e then Tail_Invalid (case e of ValueError m \<Rightarrow> m | _ \<Rightarrow> []) else Tail_Fault e)
     | Inr (l, n, t) \<Rightarrow> (case tail_entries read h l n t of Inl e \<Rightarrow> Tail_Fault e | Inr es \<Rightarrow> Tail_Entries es))"

section \<open>The web socket\<close>

definition websocket_origin_allowed :: "(string \<Rightarrow> string res) \<Rightarrow> string option \<Rightarrow> bool res" where
  "websocket_origin_allowed scheme_of org = (case org of
     None \<Rightarrow> Inr False
   | Some s \<Rightarrow> if s = [] then Inr False
       else rbind (scheme_of s) (\<lambda>sch. Inr (sch = ''http'' \<and> origin_is_loopback org)))"

datatype stream_admission = Denied | Streaming nat | Stream_Fault exn

text \<open>
  \<open>logs_stream_ws\<close> up to its loop: the origin, then under a remote bind the session token of the query, then the
  new subscriber. The flag is what is recorded in the metrics, if anything.
\<close>

definition logs_stream_open ::
    "(string \<Rightarrow> string res) \<Rightarrow> nat \<Rightarrow> string option \<Rightarrow> bool \<Rightarrow> string option \<Rightarrow> string option \<Rightarrow> ring_handler
      \<Rightarrow> stream_admission \<times> bool option \<times> ring_handler" where
  "logs_stream_open scheme_of i org remote_bind expected provided h =
    (case websocket_origin_allowed scheme_of org of
       Inl e \<Rightarrow> (Stream_Fault e, None, h)
     | Inr False \<Rightarrow> (Denied, Some True, h)
     | Inr True \<Rightarrow>
        if remote_bind \<and> ((case expected of None \<Rightarrow> True | Some t \<Rightarrow> t = []) \<or> provided \<noteq> expected)
        then (Denied, Some True, h)
        else (Streaming i, Some False, subscribe i h))"

section \<open>The buffer is the end of the log\<close>

text \<open>What can happen to a handler; the ghost list holds everything that was emitted.\<close>

datatype log_op = Log_Emit log_entry | Log_Subscribe nat | Log_Next nat | Log_Leave nat

fun log_step :: "ring_handler \<times> log_entry list \<Rightarrow> log_op \<Rightarrow> ring_handler \<times> log_entry list" where
  "log_step (h, entries) (Log_Emit e) = (emit e h, entries @ [e])"
| "log_step (h, entries) (Log_Subscribe i) = (subscribe i h, entries)"
| "log_step (h, entries) (Log_Next i) = (snd (next_entry i h), entries)"
| "log_step (h, entries) (Log_Leave i) = (unsubscribe i h, entries)"

definition ring_ok :: "ring_handler \<times> log_entry list \<Rightarrow> bool" where
  "ring_ok s = (case s of (h, entries) \<Rightarrow> rh_buffer h = last_n (rh_maxlen h) entries
     \<and> list_all (\<lambda>(i, q). length q \<le> subscriber_queue_size) (rh_subscribers h))"

lemma last_n_last_n_snoc: "last_n n (last_n n xs @ [x]) = last_n n (xs @ [x])"
proof (cases "length xs \<le> n")
  case False
  then show ?thesis by (cases n) (auto simp: last_n_def Suc_diff_le Suc_diff_Suc)
qed simp

lemma list_all_dict_set:
  "list_all (\<lambda>(i, q). P q) d \<Longrightarrow> P q \<Longrightarrow> list_all (\<lambda>(i, q). P q) (dict_set i q d)"
  by (induction d) auto

lemma ring_step: "ring_ok s \<Longrightarrow> ring_ok (log_step s op)"
proof (induction s op rule: log_step.induct)
  case (1 h entries e)
  then show ?case
    by (auto simp: ring_ok_def emit_def deque_append_def last_n_last_n_snoc put_nowait_def list_all_iff)
next
  case (2 h entries i)
  then show ?case by (simp add: ring_ok_def subscribe_def)
next
  case (3 h entries i)
  have "length q \<le> subscriber_queue_size" if "map_of (rh_subscribers h) i = Some (e # q)" for e q
    using 3 map_of_SomeD [OF that] by (fastforce simp: ring_ok_def list_all_iff)
  with 3 show ?case
    by (auto simp: ring_ok_def next_entry_def intro!: list_all_dict_set split: option.splits list.splits)
next
  case (4 h entries i)
  then show ?case by (auto simp: ring_ok_def unsubscribe_def dict_del_def list_all_iff)
qed

interpretation ring: op_system log_step ring_ok
  by unfold_locales (rule ring_step)

lemma log_step_maxlen: "rh_maxlen (fst (log_step s op)) = rh_maxlen (fst s)"
  by (induction s op rule: log_step.induct)
    (auto simp: emit_def subscribe_def next_entry_def unsubscribe_def split: option.splits list.splits)

lemma log_run_maxlen: "rh_maxlen (fst (foldl log_step s ops)) = rh_maxlen (fst s)"
  by (induction ops arbitrary: s) (simp_all add: log_step_maxlen)

lemma log_run_log:
  "snd (foldl log_step (h, entries) ops) = entries @ List.map_filter (\<lambda>op. case op of Log_Emit e \<Rightarrow> Some e | _ \<Rightarrow> None) ops"
proof (induction ops arbitrary: h entries)
  case (Cons op ops)
  then show ?case by (cases op) auto
qed simp

text \<open>Without \<open>since\<close>, the tail of a level is the end of the filtered buffer.\<close>

lemma filter_entries_level: "filter_entries read level None es = Inr (filter (\<lambda>e. level \<le> level_no (le_level e)) es)"
  by (induction es) auto

lemma parse_limit_cases: "case parse_limit raw of Inl e \<Rightarrow> \<exists>m. e = ValueError m | Inr n \<Rightarrow> 1 \<le> n \<and> n \<le> 1000"
  by (auto simp: parse_limit_def default_tail_limit_def max_tail_limit_def split: option.splits sum.splits)

lemma parse_level_cases: "case parse_level raw of Inl e \<Rightarrow> \<exists>m. e = ValueError m | Inr n \<Rightarrow> True"
  by (auto simp: parse_level_def split: option.splits sum.splits)

text \<open>C28: whatever is emitted and whoever subscribes, reads or leaves, the buffer holds exactly the last thousand entries of
  the entries in order and no subscriber's queue grows past its hundred entries; the tail route refuses a bad level
  or limit and otherwise answers with the last entries, at most a thousand, of the asked level.\<close>

theorem logs_refine_log:
  "case foldl log_step (new_ring buffer_size, []) ops of (h, entries) \<Rightarrow>
     entries = List.map_filter (\<lambda>op. case op of Log_Emit e \<Rightarrow> Some e | _ \<Rightarrow> None) ops
   \<and> rh_buffer h = last_n 1000 entries
   \<and> list_all (\<lambda>(i, q). length q \<le> 100) (rh_subscribers h)
   \<and> (case (parse_level lv, parse_limit lm) of
        (Inr l, Inr n) \<Rightarrow> 1 \<le> n \<and> n \<le> 1000 \<and> logs_tail read lv lm None h
           = Tail_Entries (last_n (nat n) (filter (\<lambda>e. l \<le> level_no (le_level e)) (last_n 1000 entries)))
      | _ \<Rightarrow> \<exists>m. logs_tail read lv lm None h = Tail_Invalid m)"
proof -
  let ?s = "foldl log_step (new_ring buffer_size, []) ops"
  obtain h entries where s: "?s = (h, entries)" by (cases ?s)
  have "ring_ok (new_ring buffer_size, [])" by (simp add: ring_ok_def new_ring_def)
  from ring.run_keeps [OF this, of ops] have ok: "ring_ok (h, entries)" by (simp add: s)
  have len: "rh_maxlen h = 1000"
    using log_run_maxlen [of "(new_ring buffer_size, [])" ops] by (simp add: s) (simp add: new_ring_def buffer_size_def)
  have "entries = List.map_filter (\<lambda>op. case op of Log_Emit e \<Rightarrow> Some e | _ \<Rightarrow> None) ops"
    using log_run_log [of "new_ring buffer_size" "[]" ops] by (simp add: s)
  with ok parse_limit_cases [of lm] parse_level_cases [of lv] show ?thesis
    by (auto simp: s ring_ok_def len subscriber_queue_size_def logs_tail_def tail_entries_def filter_entries_level
        split: sum.splits)
qed

end
