(* ===== verification/Marketplace.thy ===== *)
theory Marketplace
  imports MarketAccess
begin

text \<open>
  \<open>aim_node/management/marketplace.py\<close>: the routes that pass requests on to the market through the
  facade, with the responses they cache and what invalidates them. What the market answers to a call is a
  parameter, as are the clock and the interpreter's text of a parameter dictionary.
\<close>

section \<open>The facade of the application\<close>

text \<open>A call to the market, and what one request meets: the market's answers and the clock before and after them.\<close>

record market_call =
  mk_method :: string
  mk_path :: string
  mk_params :: json
  mk_body :: json

record market_world =
  mw_answer :: "market_call \<Rightarrow> facade_env"
  mw_rt :: pyrt
  mw_now :: rat
  mw_later :: rat

record market_facade =
  fc_node_id :: string
  fc_cache :: "(string \<times> json) list cache"

definition get_call :: "string \<Rightarrow> json \<Rightarrow> market_call" where
  "get_call path params = \<lparr>mk_method = ''GET'', mk_path = path, mk_params = params, mk_body = JNull\<rparr>"

definition facade_obtain ::
    "market_world \<Rightarrow> string \<Rightarrow> json \<Rightarrow> rat option \<Rightarrow> market_facade
      \<Rightarrow> (facade_exn + (string \<times> json) list) \<times> market_facade" where
  "facade_obtain w path params ttl f =
    (case facade_get (mw_answer w (get_call path params)) (mw_now w) (mw_later w) path (py_str (mw_rt w) params) ttl (fc_cache f) of
       (r, c) \<Rightarrow> (r, f\<lparr>fc_cache := c\<rparr>))"

definition facade_post :: "market_world \<Rightarrow> string \<Rightarrow> json \<Rightarrow> facade_exn + (string \<times> json) list" where
  "facade_post w path body = fst (facade_request (mw_answer w
     \<lparr>mk_method = ''POST'', mk_path = path, mk_params = JNull, mk_body = body\<rparr>) path)"

definition facade_put :: "market_world \<Rightarrow> string \<Rightarrow> json \<Rightarrow> facade_exn + (string \<times> json) list" where
  "facade_put w path body = fst (facade_request (mw_answer w
     \<lparr>mk_method = ''PUT'', mk_path = path, mk_params = JNull, mk_body = body\<rparr>) path)"

definition facade_delete :: "market_world \<Rightarrow> string \<Rightarrow> facade_exn + (string \<times> json) list" where
  "facade_delete w path = fst (facade_request (mw_answer w
     \<lparr>mk_method = ''DELETE'', mk_path = path, mk_params = JNull, mk_body = JNull\<rparr>) path)"

text \<open>\<open>create\<close>: a configuration without a node id is refused.\<close>

definition facade_create :: "string option \<Rightarrow> market_facade res" where
  "facade_create node_id = (case node_id of
     None \<Rightarrow> Inl (ValueError ''node_id not set in config'')
   | Some n \<Rightarrow> if n = [] then Inl (ValueError ''node_id not set in config'') else Inr \<lparr>fc_node_id = n, fc_cache = []\<rparr>)"

section \<open>Replies\<close>

datatype market_reply = Market_Json "(string \<times> json) list" | Market_Refusal normalized_error int | Market_Raised exn

definition facade_unavailable :: "string \<Rightarrow> market_reply" where
  "facade_unavailable fresh = Market_Refusal (make_error fresh SETUP_INCOMPLETE ''Node not yet configured'' None None None) 412"

definition facade_reply :: "facade_exn + (string \<times> json) list \<Rightarrow> market_reply" where
  "facade_reply r = (case r of
     Inr m \<Rightarrow> Market_Json m
   | Inl (Facade_Error n st) \<Rightarrow> Market_Refusal n st
   | Inl (Facade_Other e) \<Rightarrow> Market_Raised e)"

lemma facade_reply_Json [simp]: "facade_reply r = Market_Json v \<longleftrightarrow> r = Inr v"
  by (cases r) (auto simp: facade_reply_def split: facade_exn.split)

text \<open>The common shapes of the handlers: a read, and a change that drops the cached list of tools when it succeeded.\<close>

definition market_read ::
    "string \<Rightarrow> market_world \<Rightarrow> (market_facade \<Rightarrow> string \<times> json) \<Rightarrow> rat option \<Rightarrow> market_facade option
      \<Rightarrow> market_reply \<times> market_facade option" where
  "market_read fresh w target ttl fo = (case fo of
     None \<Rightarrow> (facade_unavailable fresh, None)
   | Some f \<Rightarrow> (case facade_obtain w (fst (target f)) (snd (target f)) ttl f of (r, f') \<Rightarrow> (facade_reply r, Some f')))"

definition tools_path :: "market_facade \<Rightarrow> string" where
  "tools_path f = ''/aim/nodes/'' @ fc_node_id f @ ''/tools''"

definition market_change ::
    "string \<Rightarrow> (market_facade \<Rightarrow> facade_exn + (string \<times> json) list) \<Rightarrow> market_facade option
      \<Rightarrow> market_reply \<times> market_facade option" where
  "market_change fresh call fo = (case fo of
     None \<Rightarrow> (facade_unavailable fresh, None)
   | Some f \<Rightarrow> (case call f of
        Inl e \<Rightarrow> (facade_reply (Inl e), Some f)
      | Inr m \<Rightarrow> (Market_Json m, Some (f\<lparr>fc_cache := invalidate_cache (''GET:'' @ tools_path f) (fc_cache f)\<rparr>))))"

text \<open>\<open>await request.json()\<close>, any failure giving the empty object; a query parameter with its default.\<close>

definition body_json :: "json res \<Rightarrow> json" where
  "body_json b = (case b of Inl _ \<Rightarrow> JObj [] | Inr v \<Rightarrow> v)"

definition query_or :: "string \<Rightarrow> string option \<Rightarrow> string" where
  "query_or d q = (case q of None \<Rightarrow> d | Some s \<Rightarrow> s)"

section \<open>The handlers\<close>

definition marketplace_node :: "string \<Rightarrow> market_world \<Rightarrow> market_facade option \<Rightarrow> market_reply \<times> market_facade option" where
  "marketplace_node fresh w = market_read fresh w (\<lambda>f. (''/aim/nodes/mine'', JNull)) (Some 30)"

definition tools_list :: "string \<Rightarrow> market_world \<Rightarrow> market_facade option \<Rightarrow> market_reply \<times> market_facade option" where
  "tools_list fresh w = market_read fresh w (\<lambda>f. (tools_path f, JNull)) (Some 30)"

definition tools_publish :: "string \<Rightarrow> market_world \<Rightarrow> json res \<Rightarrow> market_facade option \<Rightarrow> market_reply \<times> market_facade option" where
  "tools_publish fresh w body =
     market_change fresh (\<lambda>f. facade_post w (tools_path f @ ''/publish'') (body_json body))"

definition tool_update :: "string \<Rightarrow> market_world \<Rightarrow> string \<Rightarrow> json res \<Rightarrow> market_facade option \<Rightarrow> market_reply \<times> market_facade option" where
  "tool_update fresh w tool_id body =
     market_change fresh (\<lambda>f. facade_put w (tools_path f @ ''/'' @ tool_id) (body_json body))"

definition tool_delete :: "string \<Rightarrow> market_world \<Rightarrow> string \<Rightarrow> market_facade option \<Rightarrow> market_reply \<times> market_facade option" where
  "tool_delete fresh w tool_id = market_change fresh (\<lambda>f. facade_delete w (tools_path f @ ''/'' @ tool_id))"

definition range_params :: "string \<Rightarrow> market_facade \<Rightarrow> json" where
  "range_params rng f = JObj [(''node_id'', JStr (fc_node_id f)), (''range'', JStr rng)]"

definition marketplace_earnings :: "string \<Rightarrow> market_world \<Rightarrow> string option \<Rightarrow> market_facade option \<Rightarrow> market_reply \<times> market_facade option" where
  "marketplace_earnings fresh w rng =
     market_read fresh w (\<lambda>f. (''/aim/payouts/summary'', range_params (query_or ''7d'' rng) f)) (Some 60)"

definition earnings_history :: "string \<Rightarrow> market_world \<Rightarrow> market_facade option \<Rightarrow> market_reply \<times> market_facade option" where
  "earnings_history fresh w = market_read fresh w (\<lambda>f. (''/aim/payouts/history'', JNull)) (Some 60)"

definition market_sessions :: "string \<Rightarrow> market_world \<Rightarrow> string option \<Rightarrow> market_facade option \<Rightarrow> market_reply \<times> market_facade option" where
  "market_sessions fresh w rng =
     market_read fresh w (\<lambda>f. (''/aim/sessions'', range_params (query_or ''7d'' rng) f)) None"

definition settlements :: "string \<Rightarrow> market_world \<Rightarrow> string option \<Rightarrow> market_facade option \<Rightarrow> market_reply \<times> market_facade option" where
  "settlements fresh w rng =
     market_read fresh w (\<lambda>f. (''/aim/settlements'', range_params (query_or ''30d'' rng) f)) (Some 60)"

definition marketplace_trust :: "string \<Rightarrow> market_world \<Rightarrow> market_facade option \<Rightarrow> market_reply \<times> market_facade option" where
  "marketplace_trust fresh w = market_read fresh w (\<lambda>f. (''/aim/nodes/'' @ fc_node_id f @ ''/trust'', JNull)) (Some 300)"

definition trust_events :: "string \<Rightarrow> market_world \<Rightarrow> market_facade option \<Rightarrow> market_reply \<times> market_facade option" where
  "trust_events fresh w = market_read fresh w (\<lambda>f. (''/aim/nodes/'' @ fc_node_id f @ ''/trust/events'', JNull)) (Some 300)"

definition traces :: "string \<Rightarrow> market_world \<Rightarrow> string option \<Rightarrow> market_facade option \<Rightarrow> market_reply \<times> market_facade option" where
  "traces fresh w limit = market_read fresh w (\<lambda>f. (''/aim/observability/traces'',
     JObj [(''node_id'', JStr (fc_node_id f)), (''limit'', JStr (query_or ''50'' limit))])) None"

definition listings :: "string \<Rightarrow> market_world \<Rightarrow> market_facade option \<Rightarrow> market_reply \<times> market_facade option" where
  "listings fresh w = market_read fresh w (\<lambda>f. (''/listings'', JObj [(''node_id'', JStr (fc_node_id f))])) (Some 30)"

definition discover :: "string \<Rightarrow> market_world \<Rightarrow> json res \<Rightarrow> market_facade option \<Rightarrow> market_reply \<times> market_facade option" where
  "discover fresh w body fo = (case fo of
     None \<Rightarrow> (facade_unavailable fresh, None)
   | Some f \<Rightarrow> (facade_reply (facade_post w ''/aim/discover/search'' (body_json body)), Some f))"

section \<open>Requests to the routes\<close>

datatype market_op =
    Read_Node | Read_Tools | Read_Earnings "string option" | Read_History | Read_Sessions "string option"
  | Read_Settlements "string option" | Read_Trust | Read_Trust_Events | Read_Traces "string option" | Read_Listings
  | Publish_Tool "json res" | Update_Tool string "json res" | Delete_Tool string | Search "json res"

fun market_route :: "string \<Rightarrow> market_world \<times> market_op \<Rightarrow> market_facade option \<Rightarrow> market_reply \<times> market_facade option" where
  "market_route fresh (w, Read_Node) = marketplace_node fresh w"
| "market_route fresh (w, Read_Tools) = tools_list fresh w"
| "market_route fresh (w, Read_Earnings rng) = marketplace_earnings fresh w rng"
| "market_route fresh (w, Read_History) = earnings_history fresh w"
| "market_route fresh (w, Read_Sessions rng) = market_sessions fresh w rng"
| "market_route fresh (w, Read_Settlements rng) = settlements fresh w rng"
| "market_route fresh (w, Read_Trust) = marketplace_trust fresh w"
| "market_route fresh (w, Read_Trust_Events) = trust_events fresh w"
| "market_route fresh (w, Read_Traces limit) = traces fresh w limit"
| "market_route fresh (w, Read_Listings) = listings fresh w"
| "market_route fresh (w, Publish_Tool body) = tools_publish fresh w body"
| "market_route fresh (w, Update_Tool i body) = tool_update fresh w i body"
| "market_route fresh (w, Delete_Tool i) = tool_delete fresh w i"
| "market_route fresh (w, Search body) = discover fresh w body"

definition market_run :: "string \<Rightarrow> market_facade \<Rightarrow> (market_world \<times> market_op) list \<Rightarrow> market_facade option" where
  "market_run fresh f reqs = foldl (\<lambda>s r. snd (market_route fresh r s)) (Some f) reqs"

section \<open>What a cached response says\<close>

text \<open>The target and the time to live of a read, its cache key, and the market's own answer to it.\<close>

fun read_target :: "market_op \<Rightarrow> ((market_facade \<Rightarrow> string \<times> json) \<times> rat option) option" where
  "read_target Read_Node = Some (\<lambda>f. (''/aim/nodes/mine'', JNull), Some 30)"
| "read_target Read_Tools = Some (\<lambda>f. (tools_path f, JNull), Some 30)"
| "read_target (Read_Earnings rng) = Some (\<lambda>f. (''/aim/payouts/summary'', range_params (query_or ''7d'' rng) f), Some 60)"
| "read_target Read_History = Some (\<lambda>f. (''/aim/payouts/history'', JNull), Some 60)"
| "read_target (Read_Sessions rng) = Some (\<lambda>f. (''/aim/sessions'', range_params (query_or ''7d'' rng) f), None)"
| "read_target (Read_Settlements rng) = Some (\<lambda>f. (''/aim/settlements'', range_params (query_or ''30d'' rng) f), Some 60)"
| "read_target Read_Trust = Some (\<lambda>f. (''/aim/nodes/'' @ fc_node_id f @ ''/trust'', JNull), Some 300)"
| "read_target Read_Trust_Events = Some (\<lambda>f. (''/aim/nodes/'' @ fc_node_id f @ ''/trust/events'', JNull), Some 300)"
| "read_target (Read_Traces limit) = Some (\<lambda>f. (''/aim/observability/traces'',
     JObj [(''node_id'', JStr (fc_node_id f)), (''limit'', JStr (query_or ''50'' limit))]), None)"
| "read_target Read_Listings = Some (\<lambda>f. (''/listings'', JObj [(''node_id'', JStr (fc_node_id f))]), Some 30)"
| "read_target _ = None"

definition market_key :: "market_facade \<Rightarrow> market_world \<times> market_op \<Rightarrow> string option" where
  "market_key f r = map_option (\<lambda>(target, _). ''GET:'' @ fst (target f) @ '':'' @ py_str (mw_rt (fst r)) (snd (target f)))
     (read_target (snd r))"

definition market_says :: "market_facade \<Rightarrow> market_world \<times> market_op \<Rightarrow> (string \<times> json) list \<Rightarrow> bool" where
  "market_says f r v = (case read_target (snd r) of
     None \<Rightarrow> False
   | Some (target, _) \<Rightarrow> fst (facade_request (mw_answer (fst r) (get_call (fst (target f)) (snd (target f)))) (fst (target f))) = Inr v)"

definition read_ttl :: "market_op \<Rightarrow> rat option" where
  "read_ttl op = (case read_target op of None \<Rightarrow> None | Some (_, ttl) \<Rightarrow> ttl)"

text \<open>A change of the published tools that the market accepted.\<close>

fun change_accepted :: "market_facade \<Rightarrow> market_world \<times> market_op \<Rightarrow> bool" where
  "change_accepted f (w, Publish_Tool body) = (\<not> isl (facade_post w (tools_path f @ ''/publish'') (body_json body)))"
| "change_accepted f (w, Update_Tool i body) = (\<not> isl (facade_put w (tools_path f @ ''/'' @ i) (body_json body)))"
| "change_accepted f (w, Delete_Tool i) = (\<not> isl (facade_delete w (tools_path f @ ''/'' @ i)))"
| "change_accepted f _ = False"

lemma market_route_read:
  "read_target op = Some (target, ttl) \<Longrightarrow> market_route fresh (w, op) = market_read fresh w target ttl"
  by (cases op) (auto simp: marketplace_node_def tools_list_def marketplace_earnings_def earnings_history_def
      market_sessions_def settlements_def marketplace_trust_def trust_events_def traces_def listings_def)

lemma market_route_other:
  assumes "read_target op = None"
  shows "snd (market_route fresh (w, op) (Some f)) = Some (if change_accepted f (w, op)
    then f\<lparr>fc_cache := invalidate_cache (''GET:'' @ tools_path f) (fc_cache f)\<rparr> else f)"
  using assms by (cases op) (auto simp: tools_publish_def tool_update_def tool_delete_def discover_def market_change_def
      split: sum.split)

text \<open>Every cached response has a read that fetched it, and no accepted change since when it is the list of tools.\<close>

definition fetched_by :: "market_facade \<Rightarrow> (market_world \<times> market_op) list \<Rightarrow> string \<Rightarrow> rat \<times> (string \<times> json) list \<Rightarrow> nat \<Rightarrow> bool" where
  "fetched_by f reqs k e m \<longleftrightarrow> m < length reqs \<and> market_key f (reqs ! m) = Some k \<and> market_says f (reqs ! m) (snd e)
     \<and> (\<exists>s. read_ttl (snd (reqs ! m)) = Some s \<and> fst e = mw_later (fst (reqs ! m)) + s)
     \<and> (prefix (''GET:'' @ tools_path f) k \<longrightarrow> (\<forall>j. m < j \<and> j < length reqs \<longrightarrow> \<not> change_accepted f (reqs ! j)))"

definition cache_explained :: "market_facade \<Rightarrow> (market_world \<times> market_op) list \<Rightarrow> (string \<times> json) list cache \<Rightarrow> bool" where
  "cache_explained f reqs c \<longleftrightarrow> (\<forall>k e. map_of c k = Some e \<longrightarrow> (\<exists>m. fetched_by f reqs k e m))"

lemma change_accepted_cong: "fc_node_id g = fc_node_id f \<Longrightarrow> change_accepted g r = change_accepted f r"
  by (induction f r rule: change_accepted.induct) (simp_all add: tools_path_def)

lemma read_target_cong: "read_target op = Some (target, ttl) \<Longrightarrow> fc_node_id g = fc_node_id f \<Longrightarrow> target g = target f"
  by (cases op) (auto simp: tools_path_def range_params_def)

lemma fetched_by_snoc:
  "fetched_by f reqs k e m \<Longrightarrow> (prefix (''GET:'' @ tools_path f) k \<Longrightarrow> \<not> change_accepted f r) \<Longrightarrow> fetched_by f (reqs @ [r]) k e m"
  by (auto simp: fetched_by_def nth_append less_Suc_eq)

lemma fetched_by_last:
  assumes "read_target op = Some (target, Some s)"
    and "fst (facade_request (mw_answer w (get_call (fst (target f)) (snd (target f)))) (fst (target f))) = Inr v"
  shows "fetched_by f (reqs @ [(w, op)]) (''GET:'' @ fst (target f) @ '':'' @ py_str (mw_rt w) (snd (target f)))
    (mw_later w + s, v) (length reqs)"
  using assms by (auto simp: fetched_by_def market_key_def market_says_def read_ttl_def)

lemma explained_snoc:
  assumes "cache_explained f reqs c" and "map_of c k = Some e"
    and "prefix (''GET:'' @ tools_path f) k \<Longrightarrow> \<not> change_accepted f r"
  shows "\<exists>m. fetched_by f (reqs @ [r]) k e m"
proof -
  from assms(1,2) obtain m where "fetched_by f reqs k e m" unfolding cache_explained_def by blast
  from fetched_by_snoc [OF this assms(3)] show ?thesis ..
qed

text \<open>What a cached read returns, and what it leaves in the cache.\<close>

lemma facade_get_cases:
  assumes "facade_get F now later path params (Some s) c = (r, c')"
  defines "key \<equiv> ''GET:'' @ path @ '':'' @ params"
  shows "(\<exists>e v. map_of c key = Some (e, v) \<and> now \<le> e \<and> r = Inr v \<and> c' = c)
    \<or> (r = fst (facade_request F path) \<and>
       (\<forall>k e. map_of c' k = Some e \<longrightarrow> map_of c k = Some e \<or> (\<exists>v. r = Inr v \<and> k = key \<and> e = (later + s, v))))"
  using assms by (auto simp: facade_get_def get_cache_def set_cache_def Let_def split: option.splits if_splits sum.splits)

lemma cache_explained_other:
  assumes "cache_explained f reqs c"
  shows "cache_explained f (reqs @ [r]) (if change_accepted f r then invalidate_cache (''GET:'' @ tools_path f) c else c)"
proof (unfold cache_explained_def, intro allI impI)
  fix k e
  let ?c = "if change_accepted f r then invalidate_cache (''GET:'' @ tools_path f) c else c"
  assume e: "map_of ?c k = Some e"
  then have "map_of c k = Some e" "prefix (''GET:'' @ tools_path f) k \<Longrightarrow> \<not> change_accepted f r"
    using map_of_filter_key [of "\<lambda>k. \<not> prefix (''GET:'' @ tools_path f) k" c k]
    by (auto simp: invalidate_cache_def split: if_splits)
  with assms show "\<exists>m. fetched_by f (reqs @ [r]) k e m" by (rule explained_snoc)
qed

lemma cache_explained_read:
  assumes "cache_explained f reqs c" and target: "read_target op = Some (target, ttl)"
    and get: "facade_get (mw_answer w (get_call (fst (target f)) (snd (target f)))) (mw_now w) (mw_later w) (fst (target f))
      (py_str (mw_rt w) (snd (target f))) ttl c = (r, c')"
  shows "cache_explained f (reqs @ [(w, op)]) c'"
proof -
  have no_change: "\<not> change_accepted f (w, op)" using target by (cases op) auto
  have old: "\<exists>m. fetched_by f (reqs @ [(w, op)]) k e m" if "map_of c k = Some e" for k e
    using assms(1) that no_change by (rule explained_snoc)
  show ?thesis
  proof (cases ttl)
    case None
    with get old show ?thesis by (auto simp: cache_explained_def facade_get_def)
  next
    case (Some s)
    from facade_get_cases [OF get [unfolded Some]] fetched_by_last [OF target [unfolded Some], of w f] old
    show ?thesis unfolding cache_explained_def by metis
  qed
qed

lemma market_run_explained:
  "\<exists>c. market_run fresh f reqs = Some (f\<lparr>fc_cache := c\<rparr>) \<and> (fc_cache f = [] \<longrightarrow> cache_explained f reqs c)"
proof (induction reqs rule: rev_induct)
  case Nil
  show ?case by (intro exI [of _ "fc_cache f"]) (simp add: market_run_def cache_explained_def)
next
  case (snoc r reqs)
  then obtain c where run: "market_run fresh f reqs = Some (f\<lparr>fc_cache := c\<rparr>)"
    and ok: "fc_cache f = [] \<longrightarrow> cache_explained f reqs c" by blast
  obtain w op where r: "r = (w, op)" by (cases r)
  have step: "market_run fresh f (reqs @ [r]) = snd (market_route fresh r (Some (f\<lparr>fc_cache := c\<rparr>)))"
    using run by (simp add: market_run_def)
  show ?case
  proof (cases "read_target op")
    case None
    have "change_accepted (f\<lparr>fc_cache := c\<rparr>) r = change_accepted f r" by (rule change_accepted_cong) simp
    moreover have "tools_path (f\<lparr>fc_cache := c\<rparr>) = tools_path f" by (simp add: tools_path_def)
    ultimately have "market_run fresh f (reqs @ [r]) = Some (f\<lparr>fc_cache :=
        (if change_accepted f r then invalidate_cache (''GET:'' @ tools_path f) c else c)\<rparr>)"
      using step market_route_other [OF None, of fresh w "f\<lparr>fc_cache := c\<rparr>"]
      by (simp add: r)
    with ok cache_explained_other [of f reqs c r] show ?thesis by blast
  next
    case (Some x)
    obtain target ttl where x: "read_target op = Some (target, ttl)" using Some by (cases x) simp
    have tgt: "target (f\<lparr>fc_cache := c\<rparr>) = target f" by (rule read_target_cong [OF x]) simp
    obtain rep c' where get: "facade_get (mw_answer w (get_call (fst (target f)) (snd (target f)))) (mw_now w) (mw_later w)
        (fst (target f)) (py_str (mw_rt w) (snd (target f))) ttl c = (rep, c')" by fastforce
    have "market_run fresh f (reqs @ [r]) = Some (f\<lparr>fc_cache := c'\<rparr>)"
      using step get by (simp add: r market_route_read [OF x] market_read_def facade_obtain_def tgt)
    with ok cache_explained_read [OF _ x get] show ?thesis by (auto simp: r)
  qed
qed

text \<open>Requests one after the other: a read is answered with the market's own answer: the one to this request, or one that the
  market gave to an earlier request for the same thing and that is not older than its time to live; the published
  tools are then never read from before the last change that the market accepted. MarketTasks has the
  requests in every interleaving.\<close>

theorem marketplace_reads_fresh:
  assumes "fc_cache f = []" and "read_target op = Some (target, ttl)"
    and "fst (market_route fresh (w, op) (market_run fresh f reqs)) = Market_Json v"
  shows "market_says f (w, op) v \<or>
    (\<exists>m < length reqs. \<exists>s. market_key f (reqs ! m) = market_key f (w, op) \<and> market_says f (reqs ! m) v
       \<and> read_ttl (snd (reqs ! m)) = Some s \<and> mw_now w \<le> mw_later (fst (reqs ! m)) + s
       \<and> (op = Read_Tools \<longrightarrow> (\<forall>j. m < j \<and> j < length reqs \<longrightarrow> \<not> change_accepted f (reqs ! j))))"
proof -
  let ?path = "fst (target f)" and ?par = "snd (target f)"
  let ?key = "''GET:'' @ ?path @ '':'' @ py_str (mw_rt w) ?par"
  obtain c where run: "market_run fresh f reqs = Some (f\<lparr>fc_cache := c\<rparr>)" and ok: "cache_explained f reqs c"
    using market_run_explained assms(1) by blast
  have tgt: "target (f\<lparr>fc_cache := c\<rparr>) = target f" by (rule read_target_cong [OF assms(2)]) simp
  obtain rep c' where get: "facade_get (mw_answer w (get_call ?path ?par)) (mw_now w) (mw_later w)
      ?path (py_str (mw_rt w) ?par) ttl c = (rep, c')" by fastforce
  have "fst (market_read fresh w target ttl (Some (f\<lparr>fc_cache := c\<rparr>))) = Market_Json v"
    using assms(3) by (simp only: run market_route_read [OF assms(2)])
  then have rep: "rep = Inr v" using get by (simp add: market_read_def facade_obtain_def tgt)
  have key: "market_key f (w, op) = Some ?key" unfolding market_key_def fst_conv snd_conv assms(2) by simp
  show ?thesis
  proof (cases "rep = fst (facade_request (mw_answer w (get_call ?path ?par)) ?path)")
    case True
    then show ?thesis using rep assms(2) by (simp add: market_says_def)
  next
    case False
    then obtain s where s: "ttl = Some s" using get by (cases ttl) (auto simp: facade_get_def)
    from facade_get_cases [OF get [unfolded s]] False rep obtain e where e: "map_of c ?key = Some (e, v)" "mw_now w \<le> e"
      by auto
    with ok obtain m where m: "fetched_by f reqs ?key (e, v) m" unfolding cache_explained_def by blast
    moreover have "prefix (''GET:'' @ tools_path f) ?key" if "op = Read_Tools"
      using assms(2) that by (auto simp: prefix_def)
    ultimately show ?thesis using e(2) key by (auto simp: fetched_by_def intro!: exI [of _ m])
  qed
qed

definition demo_world :: "rat \<Rightarrow> int \<Rightarrow> market_world" where
  "demo_world now x = \<lparr>mw_answer = \<lambda>_. \<lparr>fe_request = \<lambda>_. Inr [(''tools'', JInt x)], fe_auth = True, fe_refresh = Inr JNull, fe_fresh = []\<rparr>,
     mw_rt = demo_rt, mw_now = now, mw_later = now + 1\<rparr>"

definition demo_facade :: market_facade where
  "demo_facade = \<lparr>fc_node_id = ''n1'', fc_cache = []\<rparr>"

theorem marketplace_reads_fresh_witness:
  "market_says demo_facade (demo_world 20 2, Read_Tools) [(''tools'', JInt 1)] \<or>
    (\<exists>m < length [(demo_world 0 1, Read_Tools), (demo_world 5 3, Read_Trust)]. \<exists>s.
         market_key demo_facade ([(demo_world 0 1, Read_Tools), (demo_world 5 3, Read_Trust)] ! m) = market_key demo_facade (demo_world 20 2, Read_Tools)
       \<and> market_says demo_facade ([(demo_world 0 1, Read_Tools), (demo_world 5 3, Read_Trust)] ! m) [(''tools'', JInt 1)]
       \<and> read_ttl (snd ([(demo_world 0 1, Read_Tools), (demo_world 5 3, Read_Trust)] ! m)) = Some s
       \<and> mw_now (demo_world 20 2) \<le> mw_later (fst ([(demo_world 0 1, Read_Tools), (demo_world 5 3, Read_Trust)] ! m)) + s
       \<and> (Read_Tools = Read_Tools \<longrightarrow> (\<forall>j. m < j \<and> j < length [(demo_world 0 1, Read_Tools), (demo_world 5 3, Read_Trust)]
            \<longrightarrow> \<not> change_accepted demo_facade ([(demo_world 0 1, Read_Tools), (demo_world 5 3, Read_Trust)] ! j))))"
proof (rule marketplace_reads_fresh)
  show "fst (market_route [] (demo_world 20 2, Read_Tools)
      (market_run [] demo_facade [(demo_world 0 1, Read_Tools), (demo_world 5 3, Read_Trust)])) = Market_Json [(''tools'', JInt 1)]"
    by (simp add: market_run_def tools_list_def marketplace_trust_def market_read_def facade_obtain_def facade_get_def
        demo_world_def demo_facade_def get_cache_def set_cache_def facade_request_def tools_path_def demo_rt_def Let_def)
qed (simp_all add: demo_facade_def)

section \<open>A change during a read\<close>

text \<open>A read in two halves: while its request is on the way, other requests are handled.\<close>

definition store_answer :: "rat \<Rightarrow> string \<Rightarrow> rat \<Rightarrow> facade_exn + (string \<times> json) list \<Rightarrow> (string \<times> json) list cache \<Rightarrow> (string \<times> json) list cache" where
  "store_answer later key ttl r c = (case r of Inl _ \<Rightarrow> c | Inr v \<Rightarrow> set_cache later key v ttl c)"

lemma facade_get_halves:
  "facade_get F now later path params (Some s) c =
    (case get_cache now (''GET:'' @ path @ '':'' @ params) c of
       (Some v, c1) \<Rightarrow> (Inr v, c1)
     | (None, c1) \<Rightarrow> (fst (facade_request F path),
         store_answer later (''GET:'' @ path @ '':'' @ params) s (fst (facade_request F path)) c1))"
  by (auto simp: facade_get_def store_answer_def Let_def split: prod.split option.split sum.split)

text \<open>The list of tools is on its way while a tool is published: the publication drops the cached list, then the list from
  before the publication arrives, is stored, and is served for thirty seconds.\<close>

lemma stale_list_after_publish:
  assumes "market_change fresh call (Some f) = (Market_Json m, Some f1)"
    and "mw_now w \<le> later + 30"
  shows "fst (tools_list fresh w (Some (f1\<lparr>fc_cache := store_answer later
      (''GET:'' @ tools_path f1 @ '':'' @ py_str (mw_rt w) JNull) 30 (Inr old) (fc_cache f1)\<rparr>))) = Market_Json old"
  using assms by (simp add: tools_list_def market_read_def facade_obtain_def facade_get_halves store_answer_def
      get_cache_def set_cache_def tools_path_def)

end
