(* ===== verification/NodeReads.thy ===== *)
theory NodeReads
  imports Tools NodeSafety
begin

text \<open>
  The rest of \<open>aim_node/management/routes.py\<close> with the models of \<open>schemas.py\<close>: reading a request body into
  its model, and the routes that only read: health, setup status, dashboard, configuration, provider
  health, sessions and key pair. What pydantic takes for a float, the clock, the hash and the answers of a
  probed URL are parameters.
\<close>

section \<open>Request bodies\<close>

text \<open>\<open>_parse_body\<close>: what is not an object counts as an empty one; the model may raise a \<open>ValidationError\<close>.\<close>

definition parse_body :: "((string \<times> json) list \<Rightarrow> 'a res) \<Rightarrow> json res \<Rightarrow> 'a res" where
  "parse_body model body = model (case body of Inr (JObj m) \<Rightarrow> m | _ \<Rightarrow> [])"

text \<open>Fields of a model: a required string, an optional one, and one with a validator.\<close>

definition str_field_of :: "(string \<times> json) list \<Rightarrow> string \<Rightarrow> string res" where
  "str_field_of m k = (case map_of m k of Some (JStr s) \<Rightarrow> Inr s | _ \<Rightarrow> Inl validation_error)"

definition opt_str_field :: "(string \<times> json) list \<Rightarrow> string \<Rightarrow> string option res" where
  "opt_str_field m k = (case jget m k of JNull \<Rightarrow> Inr None | JStr s \<Rightarrow> Inr (Some s) | _ \<Rightarrow> Inl validation_error)"

definition checked :: "('a \<Rightarrow> bool) \<Rightarrow> 'a \<Rightarrow> 'a res" where
  "checked P x = (if P x then Inr x else Inl validation_error)"

definition mode_of_text :: "string \<Rightarrow> node_mode res" where
  "mode_of_text s = (case find (\<lambda>md. mode_text md = s) [Mode_Provider, Mode_Consumer, Mode_Both] of
     None \<Rightarrow> Inl validation_error | Some md \<Rightarrow> Inr md)"

definition keypair_request :: "(string \<times> json) list \<Rightarrow> string option res" where
  "keypair_request m = opt_str_field m ''passphrase''"

definition test_connection_request :: "(string \<times> json) list \<Rightarrow> (string \<times> string) res" where
  "test_connection_request m =
     rbind (rbind (str_field_of m ''api_url'') (checked valid_http_url)) (\<lambda>url.
     rbind (str_field_of m ''api_key'') (\<lambda>key. Inr (url, key)))"

definition finalize_request_of :: "(string \<times> json) list \<Rightarrow> finalize_request res" where
  "finalize_request_of m =
     rbind (rbind (str_field_of m ''mode'') mode_of_text) (\<lambda>md.
     rbind (str_field_of m ''api_url'') (\<lambda>url.
     rbind (str_field_of m ''api_key'') (\<lambda>key.
     rbind (opt_str_field m ''upstream_url'') (\<lambda>up.
       checked valid_finalize \<lparr>fr_mode = md, fr_api_url = url, fr_api_key = key, fr_upstream_url = up\<rparr>))))"

definition unlock_request :: "(string \<times> json) list \<Rightarrow> string res" where
  "unlock_request m = str_field_of m ''passphrase''"

definition config_update_request_of :: "(string \<times> json) list \<Rightarrow> config_update_request res" where
  "config_update_request_of m =
     rbind (rbind (opt_str_field m ''mode'') (\<lambda>s. case s of None \<Rightarrow> Inr None
        | Some t \<Rightarrow> rbind (mode_of_text t) (\<lambda>md. Inr (Some md)))) (\<lambda>md.
     rbind (opt_str_field m ''api_url'') (\<lambda>url.
     rbind (opt_str_field m ''api_key'') (\<lambda>key.
     rbind (opt_str_field m ''upstream_url'') (\<lambda>up.
       checked valid_config_update \<lparr>cu_mode = md, cu_api_url = url, cu_api_key = key, cu_upstream_url = up\<rparr>))))"

text \<open>\<open>read_float\<close> is how pydantic reads a float, \<open>Inl\<close> when it refuses the value.\<close>

definition test_upstream_request :: "(json \<Rightarrow> pyfloat res) \<Rightarrow> (string \<times> json) list \<Rightarrow> (string \<times> pyfloat) res" where
  "test_upstream_request read_float m =
     rbind (rbind (str_field_of m ''url'') (checked valid_http_url)) (\<lambda>url.
     rbind (case map_of m ''timeout_s'' of None \<Rightarrow> Inr (FNum 10) | Some v \<Rightarrow> read_float v) (\<lambda>t. Inr (url, t)))"

text \<open>The handlers with a body, from the body on; a \<open>ValidationError\<close> is answered by its exception handler.\<close>

definition with_body :: "((string \<times> json) list \<Rightarrow> 'a res) \<Rightarrow> json res \<Rightarrow> ('a \<Rightarrow> node \<Rightarrow> route_reply \<times> node) \<Rightarrow> node \<Rightarrow> route_reply \<times> node" where
  "with_body model body route nd = (case parse_body model body of Inl e \<Rightarrow> (reply_of_exn e, nd) | Inr q \<Rightarrow> route q nd)"

definition post_keypair :: "node_env \<Rightarrow> request_luck \<Rightarrow> json res \<Rightarrow> node \<Rightarrow> route_reply \<times> node" where
  "post_keypair E U body = with_body keypair_request body (setup_keypair E U)"

definition post_unlock :: "node_env \<Rightarrow> request_luck \<Rightarrow> json res \<Rightarrow> node \<Rightarrow> route_reply \<times> node" where
  "post_unlock E U body = with_body unlock_request body (route_unlock E U)"

definition post_finalize ::
    "node_env \<Rightarrow> request_luck \<Rightarrow> string \<Rightarrow> json res \<Rightarrow> (finalize_request \<Rightarrow> keypairs \<Rightarrow> market_exn + (string \<times> json) list)
      \<Rightarrow> node \<Rightarrow> route_reply \<times> node" where
  "post_finalize E U uuid body market =
     with_body finalize_request_of body (\<lambda>q. setup_finalize E U uuid q (market q))"

text \<open>
  The health endpoint answers with a status and a body; the response model takes its version when it is a string,
  and raises a \<open>ValidationError\<close> when it is something else, after the step has been recorded.
\<close>

definition health_version :: "int \<times> json res \<Rightarrow> json" where
  "health_version answer = (case answer of (st, js) \<Rightarrow>
     if st = 200 then (case js of Inr (JObj m) \<Rightarrow> jget m ''version'' | _ \<Rightarrow> JNull) else JNull)"

definition post_test_connection ::
    "node_env \<Rightarrow> request_luck \<Rightarrow> json res \<Rightarrow> (string \<Rightarrow> string \<Rightarrow> (int \<times> json res) option) \<Rightarrow> node \<Rightarrow> route_reply \<times> node" where
  "post_test_connection E U body probe = with_body test_connection_request body (\<lambda>(url, key) nd.
     let answer = probe (url @ ''/api/v1/health'') key in
     case setup_test_connection E U (map_option fst answer) nd of
       (Ok_Reply, nd') \<Rightarrow> (case answer of
          Some a \<Rightarrow> if is_str (health_version a) \<or> health_version a = JNull then (Ok_Reply, nd') else (reply_of_exn validation_error, nd')
        | None \<Rightarrow> (Ok_Reply, nd'))
     | r \<Rightarrow> r)"

definition put_config :: "node_env \<Rightarrow> request_luck \<Rightarrow> json res \<Rightarrow> node \<Rightarrow> route_reply \<times> node" where
  "put_config E U body = with_body config_update_request_of body (route_config_update E U)"

definition post_test_upstream ::
    "pyrt \<Rightarrow> (json \<Rightarrow> pyfloat res) \<Rightarrow> json res \<Rightarrow> (pyfloat \<Rightarrow> string \<Rightarrow> upstream_answer) \<Rightarrow> tool_reply" where
  "post_test_upstream rt read_float body fetch = (case parse_body (test_upstream_request read_float) body of
     Inl e \<Rightarrow> tool_error (Tool_Other e)
   | Inr (url, t) \<Rightarrow> setup_test_upstream rt url (fetch t))"

lemma checked_Inr_iff [simp]: "checked P x = Inr y \<longleftrightarrow> P x \<and> y = x"
  by (auto simp: checked_def)

lemma finalize_request_valid: "finalize_request_of m = Inr q \<Longrightarrow> valid_finalize q"
  by (auto simp: finalize_request_of_def rbind_Inr_iff)

lemma config_update_request_valid: "config_update_request_of m = Inr q \<Longrightarrow> valid_config_update q"
  by (auto simp: config_update_request_of_def rbind_Inr_iff)

section \<open>Responses\<close>

text \<open>A \<open>str\<close> field of a response model.\<close>

definition as_str :: "json \<Rightarrow> json res" where
  "as_str v = (if is_str v then Inr v else Inl validation_error)"

definition as_opt_str :: "json \<Rightarrow> json res" where
  "as_opt_str v = (if is_str v \<or> v = JNull then Inr v else Inl validation_error)"

type_synonym read_reply = "route_reply + json"

definition read_reply_of :: "json res \<Rightarrow> read_reply" where
  "read_reply_of r = (case r of Inl e \<Rightarrow> Inl (reply_of_exn e) | Inr v \<Rightarrow> Inr v)"

text \<open>\<open>read_config\<close> inside a route, and then a computation on the configuration.\<close>

definition with_config :: "node_env \<Rightarrow> node \<Rightarrow> ((string \<times> json) list \<Rightarrow> json res) \<Rightarrow> read_reply" where
  "with_config E nd k = (case read_config (en_toml E) (nd_config nd) of
     Inl e \<Rightarrow> Inl (reply_of_config e)
   | Inr config \<Rightarrow> read_reply_of (k config))"

section \<open>Health, status, dashboard\<close>

definition opt_text :: "string option \<Rightarrow> json" where
  "opt_text s = (case s of None \<Rightarrow> JNull | Some t \<Rightarrow> JStr t)"

text \<open>The body and, when there is a token, the \<open>X-CSRF-Token\<close> header.\<close>

definition health :: "string option \<Rightarrow> string option \<Rightarrow> node \<Rightarrow> json \<times> string option" where
  "health csrf_token session_token nd =
    (JObj [(''healthy'', JBool True), (''setup_complete'', JBool (nd_setup_complete nd)), (''locked'', JBool (nd_locked nd)),
       (''csrf_token'', opt_text csrf_token), (''session_token'', opt_text session_token)],
     if given csrf_token then csrf_token else None)"

definition setup_status :: "node \<Rightarrow> json" where
  "setup_status nd = JObj [(''setup_complete'', JBool (nd_setup_complete nd)), (''locked'', JBool (nd_locked nd)),
     (''unlocked'', JBool (nd_unlocked nd)), (''current_step'', JInt (nd_setup_step nd))]"

text \<open>\<open>get_dashboard\<close>; nothing ever sets the fingerprint or the version of the store.\<close>

definition get_dashboard :: "pyfloat \<Rightarrow> node \<Rightarrow> (string \<times> json) list" where
  "get_dashboard uptime nd = [(''fingerprint'', JNull), (''mode'', nd_mode nd), (''uptime_s'', JFloat uptime),
     (''version'', JStr []), (''provider_running'', JBool (ps_running (nd_provider nd))),
     (''consumer_running'', JBool (ps_running (nd_consumer nd)))]"

text \<open>\<open>probe\<close> is the status of the answer to a \<open>GET\<close> of a URL, \<open>None\<close> when there is none.\<close>

definition dashboard :: "node_env \<Rightarrow> (string \<Rightarrow> int option) \<Rightarrow> pyfloat \<Rightarrow> node \<Rightarrow> read_reply" where
  "dashboard E probe uptime nd = with_config E nd (\<lambda>config.
     let dash = get_dashboard uptime nd; core = jget_or config ''core'' (JObj []) in
     rbind (py_get core ''node_serial'' (JStr [])) (\<lambda>serial.
     rbind (py_get core ''market_api_url'' (JStr [])) (\<lambda>url0.
     let url = or_else url0 (JStr []);
         connected = truthy url \<and> probe (py_str (en_rt E) url @ ''/api/v1/health'') = Some 200 in
     rbind (as_str (or_else serial (JStr []))) (\<lambda>node_id.
     rbind (as_str (or_else (jget dash ''fingerprint'') (JStr []))) (\<lambda>fingerprint.
     rbind (as_str (or_else (jget dash ''mode'') (JStr []))) (\<lambda>md.
     rbind (as_str (or_else (jget dash ''version'') (JStr []))) (\<lambda>version.
       Inr (JObj [(''node_id'', node_id), (''fingerprint'', fingerprint), (''mode'', md),
         (''uptime_s'', or_else (jget dash ''uptime_s'') (JFloat (FNum 0))), (''version'', version),
         (''market_connected'', JBool connected),
         (''provider_running'', JBool (truthy (jget dash ''provider_running''))),
         (''consumer_running'', JBool (truthy (jget dash ''consumer_running'')))])))))))) "

section \<open>Configuration and provider\<close>

text \<open>\<open>config.get("provider", {})\<close> and then its adapter, each an empty table unless it is one.\<close>

definition provider_adapter :: "(string \<times> json) list \<Rightarrow> json" where
  "provider_adapter config = (case jget_or config ''provider'' (JObj []) of
     JObj provider \<Rightarrow> jget_or provider ''adapter'' (JObj [])
   | _ \<Rightarrow> JObj [])"

definition config_read :: "node_env \<Rightarrow> node \<Rightarrow> read_reply" where
  "config_read E nd = with_config E nd (\<lambda>config.
     let core = jget_or config ''core'' (JObj []); mgmt = jget_or config ''management'' (JObj []) in
     rbind (py_get (provider_adapter config) ''endpoint_url'' JNull) (\<lambda>upstream.
     rbind (py_get mgmt ''mode'' JNull) (\<lambda>md0.
     rbind (py_get core ''market_api_url'' JNull) (\<lambda>url0.
     rbind (py_get core ''api_key'' JNull) (\<lambda>key.
     rbind (as_str (or_else md0 (JStr []))) (\<lambda>md.
     rbind (as_str (or_else url0 (JStr []))) (\<lambda>url.
     rbind (as_opt_str upstream) (\<lambda>up.
       Inr (JObj [(''mode'', md), (''api_url'', url), (''api_key_set'', JBool (truthy key)), (''upstream_url'', up),
         (''data_dir'', JStr (nd_dir nd))]))))))))) "

text \<open>\<open>probe\<close> answers with a status and a latency.\<close>

definition provider_health :: "node_env \<Rightarrow> (json \<Rightarrow> (int \<times> pyfloat) option) \<Rightarrow> string \<Rightarrow> node \<Rightarrow> read_reply" where
  "provider_health E probe now nd = with_config E nd (\<lambda>config.
     rbind (py_get (provider_adapter config) ''endpoint_url'' JNull) (\<lambda>url.
     let answer = (if truthy url then probe url else None) in
       Inr (JObj [(''upstream_reachable'', JBool (case answer of None \<Rightarrow> False | Some (st, _) \<Rightarrow> 200 \<le> st \<and> st < 500)),
         (''latency_ms'', case answer of None \<Rightarrow> JNull | Some (_, l) \<Rightarrow> JFloat l), (''last_check'', JStr now)])))"

section \<open>Sessions\<close>

definition session_item :: "(rat \<Rightarrow> json) \<Rightarrow> session_snapshot \<Rightarrow> json" where
  "session_item num s = JObj (snapshot_fields num s)"

definition sessions_list :: "(rat \<Rightarrow> json) \<Rightarrow> node \<Rightarrow> json" where
  "sessions_list num nd = JObj [(''sessions'', JArr (map (session_item num) (nd_sessions nd)))]"

definition session_detail_fields :: "(string \<times> json) list \<Rightarrow> json" where
  "session_detail_fields s = JObj [(''id'', jget s ''id''), (''role'', jget s ''role''), (''state'', jget s ''state''),
     (''metering_events'', or_else (jget s ''metering_events'') (JArr [])), (''latency_ms'', jget s ''latency_ms''),
     (''error_count'', or_else (jget s ''error_count'') (JInt 0)), (''created_at'', jget s ''created_at'')]"

definition session_detail :: "(rat \<Rightarrow> json) \<Rightarrow> string \<Rightarrow> node \<Rightarrow> read_reply" where
  "session_detail num sid nd = (case route_session_detail num sid nd of
     Inr (JObj s) \<Rightarrow> Inr (session_detail_fields s)
   | r \<Rightarrow> r)"

section \<open>The key pair\<close>

definition fingerprint_of :: "(bytes \<Rightarrow> bytes) \<Rightarrow> bytes \<Rightarrow> string" where
  "fingerprint_of sha raw = to_hex (sha raw)"

text \<open>What the route falls back to when the keystore does not open: the public key as the file has it.\<close>

definition locked_fingerprint :: "(bytes \<Rightarrow> bytes) \<Rightarrow> keystore_file \<Rightarrow> route_reply + string" where
  "locked_fingerprint sha f = (case rbind (read_keystore f) (\<lambda>v. py_get v ''ed25519_public_key'' (JStr [])) of
     Inl e \<Rightarrow> Inl (reply_of_exn e)
   | Inr hex \<Rightarrow>
      if truthy hex then (case hex_field hex of Inl e \<Rightarrow> Inl (reply_of_exn e) | Inr raw \<Rightarrow> Inr (fingerprint_of sha raw))
      else Inl (Err_Reply INTERNAL_ERROR 500))"

definition keypair_info ::
    "node_env \<Rightarrow> (bytes \<Rightarrow> bytes) \<Rightarrow> string \<Rightarrow> draw \<Rightarrow> node \<Rightarrow> read_reply \<times> node" where
  "keypair_info E sha created_at d nd =
    (if nd_files nd (keystore_path nd) = None then (Inl (Err_Reply NOT_FOUND 404), nd)
     else case use_keystore E (keystore_path nd) (held_passphrase nd) d nd of
       (r, nd1) \<Rightarrow>
        (case (case r of Inr (_, ed_pub, _, _) \<Rightarrow> Inr (fingerprint_of sha ed_pub)
                 | Inl _ \<Rightarrow> locked_fingerprint sha (nd_files nd1 (keystore_path nd))) of
           Inl e \<Rightarrow> (Inl e, nd1)
         | Inr fp \<Rightarrow> (Inr (JObj [(''fingerprint'', JStr fp), (''algorithm'', JStr ''Ed25519''), (''created_at'', JStr created_at)]), nd1)))"

text \<open>The route reports the fingerprint of the device's public key, whether the node holds the passphrase of the
  keystore or one (or none) that does not open it, and leaves the keystore as it is.\<close>

theorem keypair_info_either_way:
  assumes "holds_keys (en_keys E) p R (nd_files nd (keystore_path nd))"
    and "fernet_ok (en_keys E)" and "pubs_ok (en_keys E)" and "fresh_ok R"
    and "held_passphrase nd = p
      \<or> derive_fernet_key (en_keys E) (held_passphrase nd) (fk_ed_salt R) \<noteq> derive_fernet_key (en_keys E) p (fk_ed_salt R)"
  shows "fst (keypair_info E sha created_at d nd) = Inr (JObj
      [(''fingerprint'', JStr (to_hex (sha (kl_ed_public (en_keys E) (fk_ed_private R))))),
       (''algorithm'', JStr ''Ed25519''), (''created_at'', JStr created_at)])
    \<and> nd_files (snd (keypair_info E sha created_at d nd)) = nd_files nd"
proof -
  from assms(1) obtain m where m: "nd_files nd (keystore_path nd) = Some (Inr (JObj m))"
    and "\<forall>(k, v) \<in> set (key_fields (en_keys E) p R). map_of m k = Some v"
    by (auto simp: holds_keys_def)
  then have pub: "jget_or m ''ed25519_public_key'' (JStr []) = JStr (to_hex (kl_ed_public (en_keys E) (fk_ed_private R)))"
    by (simp add: key_fields_def jget_or_def)
  have "length (kl_ed_public (en_keys E) (fk_ed_private R)) = 32" using assms(3) by (simp add: pubs_ok_def)
  then have "to_hex (kl_ed_public (en_keys E) (fk_ed_private R)) \<noteq> []" by (auto simp: to_hex_def)
  with pub m have locked: "locked_fingerprint sha (nd_files nd (keystore_path nd)) =
      Inr (to_hex (sha (kl_ed_public (en_keys E) (fk_ed_private R))))"
    by (simp add: locked_fingerprint_def read_keystore_def fingerprint_of_def)
  have "snd (get_or_create_keypairs (en_keys E) (held_passphrase nd) (fst d) (snd d) (nd_files nd (keystore_path nd)))
      = nd_files nd (keystore_path nd)"
    by (rule holds_keys_get [OF assms(1)])
  moreover have "fst (get_or_create_keypairs (en_keys E) (held_passphrase nd) (fst d) (snd d) (nd_files nd (keystore_path nd)))
      \<in> {Inr (fk_ed_private R, kl_ed_public (en_keys E) (fk_ed_private R), fk_x_private R, kl_x_public (en_keys E) (fk_x_private R)),
          Inl (LibError ''InvalidToken'')}"
    using assms(5) holds_keys_loads [OF assms(1-4)] holds_keys_refuses [OF assms(1-3)] by fastforce
  ultimately show ?thesis using m locked
    by (auto simp: keypair_info_def use_keystore_def fingerprint_of_def split: prod.splits)
qed

theorem keypair_info_either_way_witness:
  "fst (keypair_info demo_node_env (\<lambda>b. take 4 b) ''t'' (demo_fresh, Inr ()) demo_node) = Inr (JObj
      [(''fingerprint'', JStr (to_hex (take 4 (kl_ed_public (en_keys demo_node_env) (fk_ed_private demo_fresh))))),
       (''algorithm'', JStr ''Ed25519''), (''created_at'', JStr ''t'')])
    \<and> nd_files (snd (keypair_info demo_node_env (\<lambda>b. take 4 b) ''t'' (demo_fresh, Inr ()) demo_node)) = nd_files demo_node"
  by (rule keypair_info_either_way [of demo_node_env "''pw''"])
    (use demo_file_holds demo_keys_ok demo_key_ne in
      \<open>simp_all add: demo_node_env_def demo_node_def blank_node_def held_passphrase_def\<close>)

section \<open>What the reads do not tell\<close>

text \<open>A configuration with another API key.\<close>

definition with_api_key :: "string \<Rightarrow> (string \<times> json) list \<Rightarrow> (string \<times> json) list" where
  "with_api_key k config = (case jget_or config ''core'' (JObj []) of
     JObj core \<Rightarrow> dict_set ''core'' (JObj (dict_set ''api_key'' (JStr k) core)) config
   | _ \<Rightarrow> config)"

lemma with_api_key_other: "s \<noteq> ''core'' \<Longrightarrow> jget_or (with_api_key k config) s v = jget_or config s v"
  by (auto simp: with_api_key_def jget_or_def split: json.split)

lemma with_api_key_core:
  "c \<noteq> ''api_key'' \<Longrightarrow> py_get (jget_or (with_api_key k config) ''core'' (JObj [])) c d = py_get (jget_or config ''core'' (JObj [])) c d"
  by (cases "jget_or config ''core'' (JObj [])") (auto simp: with_api_key_def jget_or_def)

lemma with_api_key_adapter: "provider_adapter (with_api_key k config) = provider_adapter config"
  by (simp add: provider_adapter_def with_api_key_other)

lemma with_api_key_cases:
  obtains core where "\<And>k. jget_or (with_api_key k config) ''core'' (JObj []) = JObj (dict_set ''api_key'' (JStr k) core)"
    | "\<And>k. with_api_key k config = config"
  by (cases "jget_or config ''core'' (JObj [])") (auto simp: with_api_key_def jget_or_def)

text \<open>What a node answers to a read depends on its API key only by whether there is one, and not on its passphrases.\<close>

lemma config_read_hides:
  assumes "read_config (en_toml E) (nd_config nd) = Inr (with_api_key k config)"
    and "read_config (en_toml E) (nd_config nd') = Inr (with_api_key k' config)"
    and "k \<noteq> []" and "k' \<noteq> []" and "nd_dir nd' = nd_dir nd"
  shows "config_read E nd' = config_read E nd"
proof (cases rule: with_api_key_cases [of config])
  case (1 core)
  with assms show ?thesis
    by (simp add: config_read_def with_config_def Let_def with_api_key_adapter with_api_key_other jget_or_def [of "dict_set _ _ _"])
next
  case 2
  with assms show ?thesis by (simp add: config_read_def with_config_def)
qed

lemma dashboard_hides:
  assumes "read_config (en_toml E) (nd_config nd) = Inr (with_api_key k config)"
    and "read_config (en_toml E) (nd_config nd') = Inr (with_api_key k' config)"
    and "get_dashboard uptime nd' = get_dashboard uptime nd"
  shows "dashboard E probe uptime nd' = dashboard E probe uptime nd"
  using assms by (simp add: dashboard_def with_config_def with_api_key_core)

lemma provider_health_hides:
  assumes "read_config (en_toml E) (nd_config nd) = Inr (with_api_key k config)"
    and "read_config (en_toml E) (nd_config nd') = Inr (with_api_key k' config)"
  shows "provider_health E probe now nd' = provider_health E probe now nd"
  using assms by (simp add: provider_health_def with_config_def with_api_key_adapter)

end
