(* ===== verification/Allai.thy ===== *)
theory Allai
  imports Logs Marketplace NodeReads
begin

text \<open>
  \<open>aim_node/management/allai.py\<close>: the assistant chat of the management UI. The market's assistant is asked with
  what the node tells about itself; it may propose local actions, some of which run at once and the
  others after the user has confirmed them. What pydantic takes for a bool, the clock, the answer of a
  probed endpoint and the market's answers are parameters. The configuration file does not change
  during one request.
\<close>

section \<open>Data\<close>

record proposed_action =
  pa_action_id :: string
  pa_description :: string
  pa_tool_name :: string
  pa_params :: "(string \<times> json) list"
  pa_requires_confirmation :: bool

definition default_allowed_tools :: "string list" where
  "default_allowed_tools = [''inspect_local_config'', ''test_market_auth'', ''scan_provider_endpoint'',
     ''list_local_tools'', ''tail_recent_logs'', ''explain_last_failure'']"

definition max_auto_exec_depth :: nat where "max_auto_exec_depth = 5"

text \<open>What a request ends in when it does not end well.\<close>

datatype chat_exn =
    Action_Error error_code string int
  | Chat_Facade facade_exn
  | Chat_Config config_exn
  | Chat_Other exn

definition or_chat :: "'a res \<Rightarrow> chat_exn + 'a" where
  "or_chat r = (case r of Inl e \<Rightarrow> Inl (Chat_Other e) | Inr v \<Rightarrow> Inr v)"

text \<open>The application state the chat works on, and the outside.\<close>

record allai_app =
  aa_node :: node
  aa_files :: store_files
  aa_facade :: "market_facade option"
  aa_logs :: ring_handler
  aa_actions :: "(string, proposed_action) dict"

record allai_env =
  ae_node :: node_env
  ae_bool :: "json \<Rightarrow> bool res"
  ae_num :: "rat \<Rightarrow> json"
  ae_uptime :: pyfloat
  ae_fresh :: string
  ae_context :: "nat \<Rightarrow> market_world"
  ae_chat :: "nat \<Rightarrow> market_world"
  ae_tool :: "proposed_action \<Rightarrow> market_world"
  ae_probe :: "json \<Rightarrow> string + int \<times> pyfloat"

abbreviation ae_rt :: "allai_env \<Rightarrow> pyrt" where
  "ae_rt W \<equiv> en_rt (ae_node W)"

definition app_config :: "allai_env \<Rightarrow> allai_app \<Rightarrow> chat_exn + (string \<times> json) list" where
  "app_config W A = (case read_config (en_toml (ae_node W)) (nd_config (aa_node A)) of
     Inl e \<Rightarrow> Inl (Chat_Config e) | Inr m \<Rightarrow> Inr m)"

section \<open>What the configuration says\<close>

definition allowed_tools :: "(string \<times> json) list \<Rightarrow> string list" where
  "allowed_tools config =
    (let allowed = (case jget_or config ''allai'' (JObj []) of
         JObj al \<Rightarrow> (case jget al ''allowed_tools'' of
             JArr items \<Rightarrow> List.map_filter (\<lambda>v. case v of JStr s \<Rightarrow> if strip s \<noteq> [] then Some s else None | _ \<Rightarrow> None) items
           | _ \<Rightarrow> [])
       | _ \<Rightarrow> [])
     in if allowed \<noteq> [] then allowed else default_allowed_tools)"

definition config_node_id :: "pyrt \<Rightarrow> (string \<times> json) list \<Rightarrow> string res" where
  "config_node_id rt config =
     rbind (py_get (jget_or config ''core'' (JObj [])) ''node_id'' JNull) (\<lambda>v. Inr (strip (py_str rt (or_else v (JStr [])))))"

definition app_node_id :: "pyrt \<Rightarrow> market_facade option \<Rightarrow> (string \<times> json) list \<Rightarrow> string res" where
  "app_node_id rt fo config =
    (if (case fo of None \<Rightarrow> False | Some f \<Rightarrow> fc_node_id f \<noteq> []) then Inr (fc_node_id (the fo))
     else rbind (config_node_id rt config) (\<lambda>i. if i \<noteq> [] then Inr i
       else rbind (py_get (jget_or config ''core'' (JObj [])) ''node_serial'' JNull) (\<lambda>v. Inr (py_str rt (or_else v (JStr []))))))"

section \<open>What the assistant is told\<close>

definition pick_dict_fields :: "json \<Rightarrow> string list \<Rightarrow> (string \<times> json) list" where
  "pick_dict_fields source names = (case source of
     JObj m \<Rightarrow> List.map_filter (\<lambda>k. map_option (\<lambda>v. (k, v)) (map_of m k)) names
   | _ \<Rightarrow> [])"

definition has_field :: "string \<Rightarrow> (string \<times> json) list \<Rightarrow> bool" where
  "has_field k m \<longleftrightarrow> map_of m k \<noteq> None"

definition safe_status_context :: "json \<Rightarrow> bool \<Rightarrow> string res \<Rightarrow> json res" where
  "safe_status_context status running node_id =
    (let s0 = pick_dict_fields status [''healthy'', ''setup_complete'', ''locked'', ''provider_running'', ''node_id'', ''current_step'', ''mode''];
         s1 = (if has_field ''healthy'' s0 then s0 else dict_set ''healthy'' (JBool True) s0);
         s2 = (if has_field ''provider_running'' s1 then s1 else dict_set ''provider_running'' (JBool running) s1)
     in if has_field ''node_id'' s2 then Inr (JObj s2) else rbind node_id (\<lambda>i. Inr (JObj (dict_set ''node_id'' (JStr i) s2))))"

fun obj_part :: "json \<Rightarrow> (string \<times> json) list option" where
  "obj_part (JObj m) = Some m"
| "obj_part _ = None"

definition safe_session :: "(string \<times> json) list \<Rightarrow> json" where
  "safe_session s = JObj [(''session_id'', or_else (jget s ''session_id'') (jget s ''id'')), (''role'', jget s ''role''),
     (''started_at'', or_else (jget s ''started_at'') (jget s ''created_at'')),
     (''peer_node_id'', or_else (jget s ''peer_node_id'') (jget s ''peer_fingerprint''))]"

definition safe_sessions_context :: "json list \<Rightarrow> json" where
  "safe_sessions_context sessions = JArr (map safe_session (List.map_filter obj_part sessions))"

definition safe_dashboard_context :: "(string \<times> json) list \<Rightarrow> (string \<times> json) list" where
  "safe_dashboard_context d = [(''uptime_seconds'', jget_or d ''uptime_seconds'' (jget d ''uptime_s'')),
     (''active_sessions'', jget_or d ''active_sessions'' (JInt 0)),
     (''tools_registered'', if jget d ''tools_registered'' = JNull then JInt 0 else jget d ''tools_registered'')]"

definition safe_tool :: "(string \<times> json) list \<Rightarrow> json" where
  "safe_tool t = JObj [(''tool_name'', or_else (jget t ''tool_name'') (jget t ''name'')), (''description'', jget t ''description''),
     (''version'', jget t ''version''), (''status'', or_else (jget t ''status'') (jget t ''validation_status''))]"

definition safe_discovered_tools_context :: "json \<Rightarrow> json list res" where
  "safe_discovered_tools_context cached =
     rbind (py_iter (case cached of JObj m \<Rightarrow> jget_or m ''tools'' (JArr []) | JArr xs \<Rightarrow> JArr xs | _ \<Rightarrow> JArr [])) (\<lambda>items.
       Inr (map safe_tool (List.map_filter obj_part items)))"

text \<open>The first of the four keys that holds a list.\<close>

definition extract_marketplace_items :: "json \<Rightarrow> (string \<times> json) list list" where
  "extract_marketplace_items payload = (case payload of
     JArr xs \<Rightarrow> List.map_filter obj_part xs
   | JObj m \<Rightarrow> (case List.map_filter (\<lambda>k. case jget m k of JArr xs \<Rightarrow> Some xs | _ \<Rightarrow> None) [''tools'', ''items'', ''results'', ''data''] of
        xs # _ \<Rightarrow> List.map_filter obj_part xs
      | [] \<Rightarrow> [])
   | _ \<Rightarrow> [])"

definition published_name :: "pyrt \<Rightarrow> (string \<times> json) list \<Rightarrow> string option" where
  "published_name rt item =
    (if lower (strip (py_str rt (or_else (jget item ''status'') (JStr [])))) = ''not_published'' then None
     else case or_else (jget item ''tool_name'') (jget item ''name'') of
       JStr s \<Rightarrow> if strip s = [] then None else Some (strip s)
     | _ \<Rightarrow> None)"

definition safe_published_tools_context :: "pyrt \<Rightarrow> json \<Rightarrow> string list" where
  "safe_published_tools_context rt payload = List.map_filter (published_name rt) (extract_marketplace_items payload)"

definition safe_earnings_summary_context :: "json \<Rightarrow> json" where
  "safe_earnings_summary_context payload =
    (let summary = pick_dict_fields payload [''range'', ''currency'', ''gross_usd'', ''net_usd'', ''total_usd'', ''gross_cents'',
         ''net_cents'', ''total_cents'', ''sessions'', ''sessions_count'', ''payouts'', ''payouts_count'']
     in if summary = [] then JNull else JObj summary)"

text \<open>The two reads of the market; a failure of one leaves its part empty and marks the context degraded.\<close>

definition market_parts ::
    "allai_env \<Rightarrow> market_facade option \<Rightarrow> (string list \<times> json \<times> bool) \<times> market_facade option" where
  "market_parts W fo = (case fo of
     None \<Rightarrow> (([], JNull, False), None)
   | Some f \<Rightarrow>
      if fc_node_id f = [] then (([], JNull, False), Some f)
      else (case facade_obtain (ae_context W 0) (tools_path f) JNull (Some 30) f of (r1, f1) \<Rightarrow>
            case facade_obtain (ae_context W 1) ''/aim/payouts/summary'' (range_params ''7d'' f1) (Some 60) f1 of (r2, f2) \<Rightarrow>
             ((case r1 of Inl _ \<Rightarrow> [] | Inr m \<Rightarrow> safe_published_tools_context (ae_rt W) (JObj m),
               case r2 of Inl _ \<Rightarrow> JNull | Inr m \<Rightarrow> safe_earnings_summary_context (JObj m),
               isl r1 \<or> isl r2), Some f2)))"

definition safe_marketplace_context ::
    "allai_env \<Rightarrow> (string \<times> json) list \<Rightarrow> market_facade option \<Rightarrow> ((string \<times> json) list \<times> bool) res \<times> market_facade option" where
  "safe_marketplace_context W config fo = (case config_node_id (ae_rt W) config of
     Inl e \<Rightarrow> (Inl e, fo)
   | Inr i \<Rightarrow> (case market_parts W fo of ((published, earnings, degraded), fo') \<Rightarrow>
       (Inr ([(''marketplace_registered'', JBool (i \<noteq> [])), (''published_tools'', JArr (map JStr published)),
          (''marketplace_status'', JObj [(''registered'', JBool (i \<noteq> [])), (''node_id'', if i = [] then JNull else JStr i),
             (''published_tool_count'', JInt (int (length published))), (''earnings_summary'', earnings)])], degraded), fo')))"

text \<open>One part of the context: left out, and the context degraded, when it could not be made.\<close>

definition add_part :: "string \<Rightarrow> json res \<Rightarrow> (string \<times> json) list \<times> bool \<Rightarrow> (string \<times> json) list \<times> bool" where
  "add_part k r c = (case r of Inl _ \<Rightarrow> (fst c, True) | Inr v \<Rightarrow> (dict_set k v (fst c), snd c))"

definition dashboard_part :: "allai_env \<Rightarrow> allai_app \<Rightarrow> json res" where
  "dashboard_part W A =
     rbind (read_store (ae_rt W) (aa_files A) tools_key) (\<lambda>v.
     rbind (safe_discovered_tools_context (or_else v (JObj []))) (\<lambda>ts.
       Inr (JObj (dict_set ''tools_registered'' (JInt (int (length ts)))
         (dict_set ''active_sessions'' (JInt (int (length (get_sessions (ae_num W) (aa_node A)))))
           (safe_dashboard_context (get_dashboard (ae_uptime W) (aa_node A))))))))"

definition tools_part :: "allai_env \<Rightarrow> allai_app \<Rightarrow> json res" where
  "tools_part W A =
     rbind (read_store (ae_rt W) (aa_files A) tools_key) (\<lambda>v.
     rbind (safe_discovered_tools_context (or_else v (JObj []))) (\<lambda>ts. Inr (JArr ts)))"

definition gather_context ::
    "allai_env \<Rightarrow> (string \<times> json) list \<Rightarrow> allai_app \<Rightarrow> ((string \<times> json) list \<times> bool) \<times> market_facade option" where
  "gather_context W config A =
    (let nd = aa_node A;
         c1 = add_part ''status'' (safe_status_context (get_status nd) (ps_running (nd_provider nd))
                (app_node_id (ae_rt W) (aa_facade A) config)) ([], False);
         c2 = add_part ''sessions'' (Inr (safe_sessions_context (get_sessions (ae_num W) nd))) c1;
         c3 = add_part ''dashboard'' (dashboard_part W A) c2;
         c4 = add_part ''discovered_tools'' (tools_part W A) c3
     in case safe_marketplace_context W config (aa_facade A) of
          (Inl _, fo) \<Rightarrow> ((fst c4, True), fo)
        | (Inr (ctx, degraded), fo) \<Rightarrow>
            ((foldl (\<lambda>m (k, v). dict_set k v m) (fst c4) ctx, snd c4 \<or> degraded), fo))"

section \<open>The local tools\<close>

definition inspect_local_config :: "(string \<times> json) list \<Rightarrow> chat_exn + (string \<times> json) list" where
  "inspect_local_config config =
     rbind (or_chat (py_get (or_else (jget config ''provider'') (JObj [])) ''adapter'' JNull)) (\<lambda>adapter.
       Inr [(''config'', JObj [
         (''core'', JObj (pick_dict_fields (jget config ''core'') [''node_id'', ''node_serial'', ''market_api_url''])),
         (''management'', JObj (pick_dict_fields (jget config ''management'') [''setup_complete'', ''setup_step'', ''mode''])),
         (''provider'', JObj [(''adapter'', JObj (pick_dict_fields adapter [''endpoint_url'']))]),
         (''allai'', JObj [(''allowed_tools'', JArr (map JStr (allowed_tools config)))])])])"

definition test_market_auth :: "market_world \<Rightarrow> market_facade option \<Rightarrow> chat_exn + (string \<times> json) list" where
  "test_market_auth w fo = (case fo of
     None \<Rightarrow> Inr [(''ok'', JBool False), (''reason'', JStr ''facade_unavailable'')]
   | Some f \<Rightarrow> (case fst (facade_obtain w ''/aim/nodes/mine'' JNull None f) of
        Inl e \<Rightarrow> Inl (Chat_Facade e)
      | Inr m \<Rightarrow> Inr [(''ok'', JBool True), (''node'', JObj (pick_dict_fields (JObj m) [''node_id'', ''status'', ''healthy'']))]))"

definition scan_provider_endpoint :: "(json \<Rightarrow> string + int \<times> pyfloat) \<Rightarrow> (string \<times> json) list \<Rightarrow> chat_exn + (string \<times> json) list" where
  "scan_provider_endpoint probe config =
     rbind (or_chat (py_get (provider_adapter config) ''endpoint_url'' JNull)) (\<lambda>url.
       if \<not> truthy url then Inr [(''reachable'', JBool False), (''reason'', JStr ''endpoint_not_configured'')]
       else (case probe url of
          Inl msg \<Rightarrow> Inr [(''reachable'', JBool False), (''url'', url), (''error'', JStr msg)]
        | Inr (st, l) \<Rightarrow> Inr [(''reachable'', JBool (200 \<le> st \<and> st < 500)), (''url'', url), (''status_code'', JInt st),
            (''latency_ms'', JFloat l)]))"

definition list_local_tools :: "pyrt \<Rightarrow> store_files \<Rightarrow> chat_exn + (string \<times> json) list" where
  "list_local_tools rt files = or_chat (
     rbind (read_store rt files tools_key) (\<lambda>v.
     rbind (safe_discovered_tools_context (or_else v (JObj []))) (\<lambda>ts. Inr [(''tools'', JArr ts)])))"

definition entry_json :: "log_entry \<Rightarrow> json" where
  "entry_json e = JObj [(''timestamp'', JStr (le_timestamp e)), (''level'', JStr (le_level e)), (''logger'', JStr (le_logger e)),
     (''message'', JStr (le_message e)), (''extra'', case le_extra e of None \<Rightarrow> JNull | Some m \<Rightarrow> JObj m)]"

definition tail_limit :: "(string \<times> json) list \<Rightarrow> int" where
  "tail_limit params = (case py_int (jget_or params ''limit'' (JInt 20)) of Inl _ \<Rightarrow> 20 | Inr n \<Rightarrow> max 1 (min n 100))"

text \<open>Without \<open>since\<close> no time is read, so the reader given to \<open>tail_entries\<close> is never asked.\<close>

definition tail_recent_logs :: "ring_handler \<Rightarrow> (string \<times> json) list \<Rightarrow> chat_exn + (string \<times> json) list" where
  "tail_recent_logs h params = or_chat (
     rbind (tail_entries (\<lambda>_. Inl (ValueError [])) h 0 (tail_limit params) None) (\<lambda>es.
       Inr [(''entries'', JArr (map entry_json es))]))"

definition explain_last_failure :: "ring_handler \<Rightarrow> chat_exn + (string \<times> json) list" where
  "explain_last_failure h = (case find (\<lambda>e. le_level e = ''ERROR'' \<or> le_level e = ''CRITICAL'') (rev (rh_buffer h)) of
     Some e \<Rightarrow> Inr [(''summary'', JStr (if le_message e = [] then ''Recent failure found'' else le_message e)), (''entry'', entry_json e)]
   | None \<Rightarrow> Inr [(''summary'', JStr ''No recent failure found''), (''entry'', JNull)])"

text \<open>\<open>_LOCAL_TOOL_HANDLERS\<close>: the handler of a name, if there is one, applied to the action.\<close>

definition local_tool ::
    "allai_env \<Rightarrow> allai_app \<Rightarrow> (string \<times> json) list \<Rightarrow> proposed_action \<Rightarrow> (chat_exn + (string \<times> json) list) option" where
  "local_tool W A config a = map_of [
     (''inspect_local_config'', inspect_local_config config),
     (''test_market_auth'', test_market_auth (ae_tool W a) (aa_facade A)),
     (''scan_provider_endpoint'', scan_provider_endpoint (ae_probe W) config),
     (''list_local_tools'', list_local_tools (ae_rt W) (aa_files A)),
     (''tail_recent_logs'', tail_recent_logs (aa_logs A) (pa_params a)),
     (''explain_last_failure'', explain_last_failure (aa_logs A))] (pa_tool_name a)"

definition execute_action :: "allai_env \<Rightarrow> allai_app \<Rightarrow> proposed_action \<Rightarrow> chat_exn + (string \<times> json) list" where
  "execute_action W A a = rbind (app_config W A) (\<lambda>config.
     if pa_tool_name a \<notin> set (allowed_tools config)
     then Inl (Action_Error FORBIDDEN (''Tool '' @ pa_tool_name a @ '' is not allowed'') 403)
     else (case local_tool W A config a of
        None \<Rightarrow> Inl (Action_Error NOT_FOUND (''Tool '' @ pa_tool_name a @ '' is not available'') 404)
      | Some r \<Rightarrow> r))"

section \<open>Actions proposed by the market\<close>

definition read_action :: "(json \<Rightarrow> bool res) \<Rightarrow> (string \<times> json) list \<Rightarrow> proposed_action res" where
  "read_action read_bool m =
     rbind (str_field_of m ''action_id'') (\<lambda>i.
     rbind (str_field_of m ''description'') (\<lambda>d.
     rbind (str_field_of m ''tool_name'') (\<lambda>n.
     rbind (case map_of m ''params'' of Some (JObj p) \<Rightarrow> Inr p | _ \<Rightarrow> Inl validation_error) (\<lambda>p.
     rbind (case map_of m ''requires_confirmation'' of None \<Rightarrow> Inl validation_error | Some v \<Rightarrow> read_bool v) (\<lambda>c.
       Inr \<lparr>pa_action_id = i, pa_description = d, pa_tool_name = n, pa_params = p, pa_requires_confirmation = c\<rparr>)))))"

definition coerce_actions :: "(json \<Rightarrow> bool res) \<Rightarrow> json \<Rightarrow> proposed_action list res" where
  "coerce_actions read_bool items = (case items of
     JArr xs \<Rightarrow> res_map (read_action read_bool) (List.map_filter obj_part xs)
   | _ \<Rightarrow> Inr [])"

definition cache_action :: "proposed_action \<Rightarrow> (string, proposed_action) dict \<Rightarrow> (string, proposed_action) dict" where
  "cache_action a cache = dict_set (pa_action_id a) a cache"

text \<open>Which actions run at once, and which wait for the user; a tool that is not allowed waits too.\<close>

definition confirmed_copy :: "proposed_action \<Rightarrow> proposed_action" where
  "confirmed_copy a = a\<lparr>pa_requires_confirmation := True\<rparr>"

definition auto_actions :: "string list \<Rightarrow> proposed_action list \<Rightarrow> proposed_action list" where
  "auto_actions allowed acts = filter (\<lambda>a. \<not> pa_requires_confirmation a \<and> pa_tool_name a \<in> set allowed) acts"

definition waiting_actions :: "string list \<Rightarrow> proposed_action list \<Rightarrow> proposed_action list" where
  "waiting_actions allowed acts = List.map_filter (\<lambda>a.
     if pa_requires_confirmation a then Some a
     else if pa_tool_name a \<in> set allowed then None else Some (confirmed_copy a)) acts"

section \<open>The chat\<close>

text \<open>The locals of \<open>allai_chat\<close> that survive a turn, and what a turn does that can be seen from outside.\<close>

record chat_state =
  ch_reply :: string
  ch_conversation :: string
  ch_suggestions :: json
  ch_pending :: "proposed_action list"
  ch_executed :: "(proposed_action \<times> (string \<times> json) list) list"
  ch_results :: "json list"

datatype chat_event = Asked json | Ran proposed_action

text \<open>\<open>AllAIChatResponse\<close> of the market's data.\<close>

definition suggestions_ok :: "json \<Rightarrow> bool" where
  "suggestions_ok v = (case v of JNull \<Rightarrow> True | JArr xs \<Rightarrow> list_all is_str xs | _ \<Rightarrow> False)"

definition chat_answer ::
    "allai_env \<Rightarrow> string \<Rightarrow> (string \<times> json) list \<Rightarrow> (string \<times> string \<times> proposed_action list \<times> json) res" where
  "chat_answer W conversation data =
     rbind (coerce_actions (ae_bool W) (jget data ''proposed_actions'')) (\<lambda>acts.
     if suggestions_ok (jget data ''suggestions'') then
       Inr (py_str (ae_rt W) (or_else (jget data ''reply'') (JStr [])),
            py_str (ae_rt W) (or_else (or_else (jget data ''conversation_id'') (JStr conversation)) (JStr [])),
            acts, jget data ''suggestions'')
     else Inl validation_error)"

text \<open>Running the actions of a turn one after the other, up to the first error; the second part lists those begun.\<close>

fun execute_all ::
    "allai_env \<Rightarrow> allai_app \<Rightarrow> proposed_action list
      \<Rightarrow> (chat_exn + (proposed_action \<times> (string \<times> json) list) list) \<times> proposed_action list" where
  "execute_all W A [] = (Inr [], [])"
| "execute_all W A (a # as) = (case execute_action W A a of
     Inl e \<Rightarrow> (Inl e, [a])
   | Inr r \<Rightarrow> (case execute_all W A as of
        (Inl e, begun) \<Rightarrow> (Inl e, a # begun)
      | (Inr rs, begun) \<Rightarrow> (Inr ((a, r) # rs), a # begun)))"

definition tool_result :: "proposed_action \<times> (string \<times> json) list \<Rightarrow> json" where
  "tool_result x = JObj [(''action_id'', JStr (pa_action_id (fst x))), (''tool_name'', JStr (pa_tool_name (fst x))), (''result'', JObj (snd x))]"

definition chat_payload :: "(string \<times> json) list \<Rightarrow> json list \<Rightarrow> json" where
  "chat_payload base results = JObj (if results = [] then base else dict_set ''tool_results'' (JArr results) base)"

text \<open>The loop over \<open>range(MAX_AUTO_EXEC_DEPTH)\<close>; the number counts the turns that are left.\<close>

fun chat_loop ::
    "allai_env \<Rightarrow> allai_app \<Rightarrow> market_facade \<Rightarrow> string list \<Rightarrow> (string \<times> json) list \<Rightarrow> nat \<Rightarrow> chat_state
      \<Rightarrow> (chat_exn + chat_state) \<times> chat_event list" where
  "chat_loop W A f allowed base 0 s = (Inr s, [])"
| "chat_loop W A f allowed base (Suc left) s =
    (let payload = chat_payload base (ch_results s); asked = Asked payload in
     case facade_post (ae_chat W left) ''/allie/chat/agentic'' payload of
       Inl e \<Rightarrow> (Inl (Chat_Facade e), [asked])
     | Inr data \<Rightarrow> (case chat_answer W (ch_conversation s) data of
          Inl e \<Rightarrow> (Inl (Chat_Other e), [asked])
        | Inr (rep, conv, acts, sugg) \<Rightarrow>
           (let auto = auto_actions allowed acts; waiting = waiting_actions allowed acts;
                s1 = s\<lparr>ch_reply := rep, ch_conversation := conv, ch_suggestions := sugg, ch_pending := waiting\<rparr>
            in if auto = [] then (Inr s1, [asked])
               else if left = 0 then (Inr (s1\<lparr>ch_pending := waiting @ map confirmed_copy auto\<rparr>), [asked])
               else (case execute_all W A auto of
                   (Inl e, begun) \<Rightarrow> (Inl e, asked # map Ran begun)
                 | (Inr rs, begun) \<Rightarrow>
                    (let s2 = s1\<lparr>ch_executed := ch_executed s @ rs, ch_results := map tool_result rs\<rparr>
                     in if waiting \<noteq> [] then (Inr s2, asked # map Ran begun)
                        else (case chat_loop W A f allowed base left s2 of
                            (r, evs) \<Rightarrow> (r, asked # map Ran begun @ evs)))))))"

fun join_lines :: "string list \<Rightarrow> string" where
  "join_lines [] = []"
| "join_lines [x] = x"
| "join_lines (x # xs) = x @ nl_char # join_lines xs"

definition append_execution_reply :: "pyrt \<Rightarrow> string \<Rightarrow> (proposed_action \<times> (string \<times> json) list) list \<Rightarrow> string" where
  "append_execution_reply rt reply executed =
    (if executed = [] then reply
     else join_lines ([rstrip reply, [], ''Local action results:'']
       @ map (\<lambda>(a, r). ''- '' @ pa_tool_name a @ '': '' @ dumps rt '', '' '': '' (jsort (JObj r))) executed))"

definition chat_request :: "(string \<times> json) list \<Rightarrow> (string \<times> string option) res" where
  "chat_request m = rbind (str_field_of m ''message'') (\<lambda>msg. rbind (opt_str_field m ''conversation_id'') (\<lambda>c. Inr (msg, c)))"

definition chat_base :: "string \<times> string option \<Rightarrow> (string \<times> json) list \<times> bool \<Rightarrow> string \<Rightarrow> string list \<Rightarrow> (string \<times> json) list" where
  "chat_base body ctx node_id allowed =
     [(''message'', JStr (fst body)), (''context'', JObj (fst ctx)), (''node_id'', JStr node_id),
      (''conversation_id'', opt_text (snd body)), (''allowed_tools'', JArr (map JStr allowed))]
     @ (if snd ctx then [(''degraded_context'', JBool True)] else [])"

text \<open>
  What the client sees: the answer, an error response of the route, or what an exception handler of the
  application makes of what the route lets through; a \<open>FacadeError\<close> has no handler of its own.
\<close>

datatype chat_reply =
    Chat_Answer string string "proposed_action list" json
  | Confirm_Denied
  | Confirm_Executed "(string \<times> json) list"
  | Chat_Refused error_code string int
  | Chat_Fault route_reply

fun chat_failure :: "chat_exn \<Rightarrow> chat_reply" where
  "chat_failure (Action_Error c m st) = Chat_Refused c m st"
| "chat_failure (Chat_Facade (Facade_Error n st)) = Chat_Fault (Err_Reply INTERNAL_ERROR 500)"
| "chat_failure (Chat_Facade (Facade_Other e)) = Chat_Fault (reply_of_exn e)"
| "chat_failure (Chat_Config e) = Chat_Fault (reply_of_config e)"
| "chat_failure (Chat_Other e) = Chat_Fault (reply_of_exn e)"

definition first_chat_state :: "string option \<Rightarrow> chat_state" where
  "first_chat_state c = \<lparr>ch_reply = [], ch_conversation = (case c of None \<Rightarrow> [] | Some s \<Rightarrow> s), ch_suggestions = JNull,
     ch_pending = [], ch_executed = [], ch_results = []\<rparr>"

definition cache_pending :: "proposed_action list \<Rightarrow> allai_app \<Rightarrow> allai_app" where
  "cache_pending acts A = A\<lparr>aa_actions := foldl (\<lambda>c a. cache_action a c) (aa_actions A) acts\<rparr>"

definition allai_chat :: "allai_env \<Rightarrow> json res \<Rightarrow> allai_app \<Rightarrow> chat_reply \<times> allai_app \<times> chat_event list" where
  "allai_chat W body A = (case parse_body chat_request body of
     Inl e \<Rightarrow> (Chat_Fault (reply_of_exn e), A, [])
   | Inr req \<Rightarrow> (case aa_facade A of
       None \<Rightarrow> (Chat_Refused SETUP_INCOMPLETE ''Node not yet configured'' 412, A, [])
     | Some f \<Rightarrow> (case app_config W A of
         Inl e \<Rightarrow> (chat_failure e, A, [])
       | Inr config \<Rightarrow> (case gather_context W config A of
           (ctx, fo) \<Rightarrow>
             (let A1 = A\<lparr>aa_facade := fo\<rparr>; allowed = allowed_tools config in
              case app_node_id (ae_rt W) (aa_facade A) config of
                Inl e \<Rightarrow> (chat_failure (Chat_Other e), A1, [])
              | Inr node_id \<Rightarrow>
                 (case chat_loop W A1 f allowed (chat_base req ctx node_id allowed) max_auto_exec_depth (first_chat_state (snd req)) of
                    (Inl e, evs) \<Rightarrow> (chat_failure e, A1, evs)
                  | (Inr s, evs) \<Rightarrow>
                     (Chat_Answer (append_execution_reply (ae_rt W) (ch_reply s) (ch_executed s)) (ch_conversation s)
                        (ch_pending s) (ch_suggestions s), cache_pending (ch_pending s) A1, evs)))))))"

definition confirm_request :: "(json \<Rightarrow> bool res) \<Rightarrow> (string \<times> json) list \<Rightarrow> (string \<times> bool) res" where
  "confirm_request read_bool m = rbind (str_field_of m ''action_id'') (\<lambda>i.
     rbind (case map_of m ''approved'' of None \<Rightarrow> Inl validation_error | Some v \<Rightarrow> read_bool v) (\<lambda>b. Inr (i, b)))"

definition allai_confirm :: "allai_env \<Rightarrow> json res \<Rightarrow> allai_app \<Rightarrow> chat_reply \<times> allai_app \<times> chat_event list" where
  "allai_confirm W body A = (case parse_body (confirm_request (ae_bool W)) body of
     Inl e \<Rightarrow> (Chat_Fault (reply_of_exn e), A, [])
   | Inr (i, approved) \<Rightarrow> (case map_of (aa_actions A) i of
       None \<Rightarrow> (Chat_Refused NOT_FOUND ''Unknown action_id'' 404, A, [])
     | Some a \<Rightarrow>
        (let A1 = A\<lparr>aa_actions := dict_del i (aa_actions A)\<rparr> in
         if \<not> approved then (Confirm_Denied, A1, [])
         else (case execute_action W A1 a of
            Inl e \<Rightarrow> (chat_failure e, A1, [Ran a])
          | Inr r \<Rightarrow> (Confirm_Executed r, A1, [Ran a])))))"

end
