(* ===== verification/AllaiSafety.thy ===== *)
theory AllaiSafety
  imports Allai
begin

text \<open>
  What the assistant chat can do to a node: only allowed tools run without the user, a bounded number of
  requests goes to the market, what the user confirms runs at most once per proposal, and nothing that
  is sent or answered depends on the node's API key or passphrase.
\<close>

section \<open>One chat\<close>

definition proposed :: "allai_env \<Rightarrow> proposed_action \<Rightarrow> bool" where
  "proposed W a \<longleftrightarrow> (\<exists>left payload data acts. facade_post (ae_chat W left) ''/allie/chat/agentic'' payload = Inr data
     \<and> coerce_actions (ae_bool W) (jget data ''proposed_actions'') = Inr acts \<and> a \<in> set acts)"

definition runs_at_once :: "allai_env \<Rightarrow> string list \<Rightarrow> proposed_action set" where
  "runs_at_once W allowed = {a. proposed W a \<and> \<not> pa_requires_confirmation a \<and> pa_tool_name a \<in> set allowed}"

fun is_asked :: "chat_event \<Rightarrow> bool" where
  "is_asked (Asked _) = True"
| "is_asked (Ran _) = False"

definition ran_in :: "chat_event list \<Rightarrow> proposed_action set" where
  "ran_in evs = {a. Ran a \<in> set evs}"

lemma ran_in_simps [simp]:
  "ran_in [] = {}" "ran_in (Asked p # evs) = ran_in evs" "ran_in (Ran a # evs) = insert a (ran_in evs)"
  "ran_in (xs @ ys) = ran_in xs \<union> ran_in ys" "ran_in (map Ran as) = set as"
  by (auto simp: ran_in_def)

lemma no_asked_in_runs [simp]: "filter is_asked (map Ran as) = []"
  by (induction as) simp_all

lemma waiting_confirm: "list_all pa_requires_confirmation (waiting_actions allowed acts)"
  by (auto simp: waiting_actions_def List.map_filter_def list_all_iff confirmed_copy_def)

lemma confirmed_copies_confirm: "list_all pa_requires_confirmation (map confirmed_copy as)"
  by (simp add: list_all_iff confirmed_copy_def)

lemma begun_subset: "set (snd (execute_all W A as)) \<subseteq> set as"
  by (induction as) (auto split: sum.split prod.split)

lemma execute_all_begun: "execute_all W A as = (r, begun) \<Longrightarrow> set begun \<subseteq> set as"
  using begun_subset [of W A as] by simp

lemma chat_answer_coerced:
  "chat_answer W conv data = Inr (rep, conv', acts, sugg) \<Longrightarrow> coerce_actions (ae_bool W) (jget data ''proposed_actions'') = Inr acts"
  by (auto simp: chat_answer_def rbind_Inr_iff split: if_splits)

lemma auto_actions_run:
  assumes "facade_post (ae_chat W left) ''/allie/chat/agentic'' payload = Inr data"
    and "chat_answer W conv data = Inr (rep, conv', acts, sugg)"
  shows "set (auto_actions allowed acts) \<subseteq> runs_at_once W allowed"
proof -
  have "proposed W a" if "a \<in> set acts" for a
    unfolding proposed_def using assms(1) chat_answer_coerced [OF assms(2)] that by blast
  then show ?thesis by (auto simp: auto_actions_def runs_at_once_def)
qed

text \<open>
  One turn: it asks once, fails or answers, and with an answer runs some actions and stops, or goes on with their
  results.
\<close>

lemma chat_turn:
  assumes "chat_loop W A f allowed base (Suc left) s = (r, evs)"
  shows "\<exists>payload begun. set begun \<subseteq> runs_at_once W allowed
    \<and> (evs = Asked payload # map Ran begun
          \<and> (case r of Inl _ \<Rightarrow> True | Inr s' \<Rightarrow> list_all pa_requires_confirmation (ch_pending s'))
       \<or> (\<exists>s2 evs'. chat_loop W A f allowed base left s2 = (r, evs') \<and> ch_pending s2 = []
            \<and> evs = Asked payload # map Ran begun @ evs'))"
proof -
  let ?payload = "chat_payload base (ch_results s)"
  have stop: ?thesis if "evs = [Asked ?payload]" "case r of Inl _ \<Rightarrow> True | Inr s' \<Rightarrow> list_all pa_requires_confirmation (ch_pending s')"
    using that by (intro exI [of _ ?payload] exI [of _ "[]"]) simp
  have "(\<exists>e. r = Inl e) \<and> evs = [Asked ?payload]
      \<or> (\<exists>data x. facade_post (ae_chat W left) ''/allie/chat/agentic'' ?payload = Inr data
           \<and> chat_answer W (ch_conversation s) data = Inr x)"
    using assms by (cases "facade_post (ae_chat W left) ''/allie/chat/agentic'' ?payload")
      (auto simp: Let_def split: sum.splits)
  then show ?thesis
  proof (elim disjE exE conjE)
    fix e assume "r = Inl e" "evs = [Asked ?payload]"
    then show ?thesis by (intro stop) simp_all
  next
    fix data x assume post: "facade_post (ae_chat W left) ''/allie/chat/agentic'' ?payload = Inr data"
      and ans: "chat_answer W (ch_conversation s) data = Inr x"
    obtain rep conv acts sugg where x: "x = (rep, conv, acts, sugg)" by (cases x)
    let ?auto = "auto_actions allowed acts" and ?waiting = "waiting_actions allowed acts"
    obtain er begun where ex: "execute_all W A ?auto = (er, begun)" by (cases "execute_all W A ?auto")
    with auto_actions_run [OF post ans [unfolded x]] execute_all_begun
    have begun: "set begun \<subseteq> runs_at_once W allowed" by blast
    note loop = assms(1) [unfolded chat_loop.simps Let_def post ans x sum.case prod.case]
    show ?thesis
    proof (cases "?auto = [] \<or> left = 0")
      case True
      then show ?thesis using loop waiting_confirm confirmed_copies_confirm by (intro stop) (auto split: if_splits)
    next
      case False
      note loop = loop [unfolded ex prod.case]
      show ?thesis
      proof (cases "\<exists>rs. er = Inr rs \<and> ?waiting = []")
        case True
        then obtain rs where rs: "er = Inr rs" "?waiting = []" by blast
        let ?s2 = "s\<lparr>ch_reply := rep, ch_conversation := conv, ch_suggestions := sugg, ch_pending := ?waiting,
          ch_executed := ch_executed s @ rs, ch_results := map tool_result rs\<rparr>"
        obtain r' evs' where rec: "chat_loop W A f allowed base left ?s2 = (r', evs')" by fastforce
        with loop False rs have "r' = r" "evs = Asked ?payload # map Ran begun @ evs'" by simp_all
        with rec begun rs(2) show ?thesis
          by (intro exI [of _ ?payload] exI [of _ begun] conjI disjI2 exI [of _ ?s2] exI [of _ evs']) simp_all
      next
        case stops: False
        then show ?thesis using loop False begun waiting_confirm [of allowed acts]
          by (intro exI [of _ ?payload] exI [of _ begun]) (auto split: sum.splits)
      qed
    qed
  qed
qed

lemma chat_loop_safe:
  assumes "chat_loop W A f allowed base left s = (r, evs)" and "list_all pa_requires_confirmation (ch_pending s)"
  shows "length (filter is_asked evs) \<le> left \<and> ran_in evs \<subseteq> runs_at_once W allowed
    \<and> (case r of Inl _ \<Rightarrow> True | Inr s' \<Rightarrow> list_all pa_requires_confirmation (ch_pending s'))"
  using assms
proof (induction left arbitrary: s r evs)
  case 0
  then show ?case by auto
next
  case (Suc left)
  from chat_turn [OF Suc.prems(1)] obtain payload begun where b: "set begun \<subseteq> runs_at_once W allowed"
    and "evs = Asked payload # map Ran begun \<and> (case r of Inl _ \<Rightarrow> True | Inr s' \<Rightarrow> list_all pa_requires_confirmation (ch_pending s'))
      \<or> (\<exists>s2 evs'. chat_loop W A f allowed base left s2 = (r, evs') \<and> ch_pending s2 = [] \<and> evs = Asked payload # map Ran begun @ evs')"
    by blast
  then show ?case
  proof (elim disjE exE conjE)
    fix s2 evs' assume l: "chat_loop W A f allowed base left s2 = (r, evs')" "ch_pending s2 = []"
      and e: "evs = Asked payload # map Ran begun @ evs'"
    from Suc.IH [OF l(1)] l(2) b show ?thesis unfolding e by simp
  qed (use b in simp)
qed

text \<open>The actions a reply shows to the client.\<close>

fun offered :: "chat_reply \<Rightarrow> proposed_action list" where
  "offered (Chat_Answer _ _ acts _) = acts"
| "offered _ = []"

lemma offered_failure [simp]: "offered (chat_failure e) = []"
  by (induction e rule: chat_failure.induct) simp_all

lemma cache_pending_Nil [simp]: "cache_pending [] A = A"
  by (simp add: cache_pending_def)

lemma same_facade: "\<exists>fo. A = A\<lparr>aa_facade := fo\<rparr>"
  by (intro exI [of _ "aa_facade A"]) simp

lemma chat_runs_facts:
  "case allai_chat W body A of (reply, A', evs) \<Rightarrow>
     length (filter is_asked evs) \<le> 5
   \<and> ran_in evs \<subseteq> (case app_config W A of Inl _ \<Rightarrow> {} | Inr config \<Rightarrow> runs_at_once W (allowed_tools config))
   \<and> list_all pa_requires_confirmation (offered reply)
   \<and> (\<exists>fo. A' = cache_pending (offered reply) (A\<lparr>aa_facade := fo\<rparr>))"
proof (cases "\<exists>req f config. parse_body chat_request body = Inr req \<and> aa_facade A = Some f \<and> app_config W A = Inr config")
  case False
  then show ?thesis using same_facade by (auto simp: allai_chat_def split: sum.splits option.splits)
next
  case True
  then obtain req f config where go: "parse_body chat_request body = Inr req" "aa_facade A = Some f" "app_config W A = Inr config"
    by blast
  obtain ctx fo where ctx: "gather_context W config A = (ctx, fo)" by (cases "gather_context W config A")
  show ?thesis
  proof (cases "app_node_id (ae_rt W) (aa_facade A) config")
    case (Inl e)
    then show ?thesis using go ctx by (auto simp: allai_chat_def Let_def)
  next
    case (Inr node_id)
    define r where "r = chat_loop W (A\<lparr>aa_facade := fo\<rparr>) f (allowed_tools config)
        (chat_base req ctx node_id (allowed_tools config)) max_auto_exec_depth (first_chat_state (snd req))"
    obtain res evs where res: "r = (res, evs)" by (cases r)
    have "list_all pa_requires_confirmation (ch_pending (first_chat_state (snd req)))" by (simp add: first_chat_state_def)
    from chat_loop_safe [OF r_def [symmetric, unfolded res] this] r_def [symmetric, unfolded res] go ctx Inr show ?thesis
      by (cases res) (auto simp: allai_chat_def Let_def max_auto_exec_depth_def)
  qed
qed

text \<open>C31: whatever the market answers, a chat puts the conversation to the market's assistant at most five times (events
  \<open>Asked\<close>; the two reads for the context, the reads of a tool that runs and the facade's own repetition after
  a 401 are not among them); every tool that runs without the user was
  proposed by the market without asking for confirmation and is in the node's list of allowed tools; every action that the
  client gets to see asks for confirmation; and the chat leaves the application as it was except for the facade's cache
  and the actions that now wait for the user.\<close>

theorem chat_runs_only_allowed:
  "case allai_chat W body A of (reply, A', evs) \<Rightarrow>
     length (filter is_asked evs) \<le> 5
   \<and> ran_in evs \<subseteq> (case app_config W A of Inl _ \<Rightarrow> {} | Inr config \<Rightarrow> runs_at_once W (allowed_tools config))
   \<and> list_all pa_requires_confirmation (offered reply)
   \<and> (\<exists>fo. A' = cache_pending (offered reply) (A\<lparr>aa_facade := fo\<rparr>))"
  by (rule chat_runs_facts)

section \<open>Confirming\<close>

text \<open>Requests to the two routes, each with what it meets outside, and the history of what happened.\<close>

datatype allai_op = Op_Chat allai_env "json res" | Op_Confirm allai_env "json res"

type_synonym allai_fact = "allai_op \<times> chat_reply \<times> chat_event list"

fun allai_step :: "allai_app \<times> allai_fact list \<Rightarrow> allai_op \<Rightarrow> allai_app \<times> allai_fact list" where
  "allai_step (A, hist) (Op_Chat W body) =
     (case allai_chat W body A of (reply, A', evs) \<Rightarrow> (A', hist @ [(Op_Chat W body, reply, evs)]))"
| "allai_step (A, hist) (Op_Confirm W body) =
     (case allai_confirm W body A of (reply, A', evs) \<Rightarrow> (A', hist @ [(Op_Confirm W body, reply, evs)]))"

text \<open>A chat that offers an action under an identifier, and a confirmation that runs one.\<close>

fun offers :: "string \<Rightarrow> allai_fact \<Rightarrow> bool" where
  "offers i (Op_Chat _ _, reply, _) \<longleftrightarrow> i \<in> set (map pa_action_id (offered reply))"
| "offers i (Op_Confirm _ _, _, _) \<longleftrightarrow> False"

fun runs_confirmed :: "string \<Rightarrow> allai_fact \<Rightarrow> bool" where
  "runs_confirmed i (Op_Confirm W body, _, evs) \<longleftrightarrow> evs \<noteq> [] \<and> parse_body (confirm_request (ae_bool W)) body = Inr (i, True)"
| "runs_confirmed i (Op_Chat _ _, _, _) \<longleftrightarrow> False"

text \<open>What waits for the user has been offered, under its own identifier and as an action to be confirmed.\<close>

definition waiting_ok :: "allai_app \<times> allai_fact list \<Rightarrow> bool" where
  "waiting_ok s = (case s of (A, hist) \<Rightarrow>
     (\<forall>i a. map_of (aa_actions A) i = Some a \<longrightarrow> pa_action_id a = i \<and> pa_requires_confirmation a
        \<and> (\<exists>fact \<in> set hist. offers i fact \<and> a \<in> set (offered (fst (snd fact)))))
   \<and> (\<forall>i. length (filter (runs_confirmed i) hist) + of_bool (map_of (aa_actions A) i \<noteq> None) \<le> length (filter (offers i) hist)))"

lemma cache_pending_lookup:
  "map_of (aa_actions (cache_pending acts A)) i = Some a
   \<Longrightarrow> (a \<in> set acts \<and> pa_action_id a = i) \<or> (map_of (aa_actions A) i = Some a \<and> i \<notin> set (map pa_action_id acts))"
proof -
  have "map_of (foldl (\<lambda>c a. cache_action a c) c acts) i = Some a
    \<Longrightarrow> (a \<in> set acts \<and> pa_action_id a = i) \<or> (map_of c i = Some a \<and> i \<notin> set (map pa_action_id acts))" for c
    by (induction acts rule: rev_induct) (auto simp: cache_action_def split: if_splits)
  then show "map_of (aa_actions (cache_pending acts A)) i = Some a
   \<Longrightarrow> (a \<in> set acts \<and> pa_action_id a = i) \<or> (map_of (aa_actions A) i = Some a \<and> i \<notin> set (map pa_action_id acts))"
    by (simp add: cache_pending_def)
qed

lemma waiting_chat:
  assumes "waiting_ok (A, hist)"
  shows "waiting_ok (allai_step (A, hist) (Op_Chat W body))"
proof -
  obtain reply A' evs where c: "allai_chat W body A = (reply, A', evs)" by (cases "allai_chat W body A")
  from chat_runs_facts [of W A body] c obtain fo where conf: "list_all pa_requires_confirmation (offered reply)"
    and A': "A' = cache_pending (offered reply) (A\<lparr>aa_facade := fo\<rparr>)" by auto
  let ?fact = "(Op_Chat W body, reply, evs)"
  have look: "(a \<in> set (offered reply) \<and> pa_action_id a = i) \<or> (map_of (aa_actions A) i = Some a \<and> \<not> offers i ?fact)"
    if "map_of (aa_actions A') i = Some a" for i a
    using cache_pending_lookup [OF that [unfolded A']] by auto
  have counts: "length (filter (runs_confirmed i) hist) + of_bool (map_of (aa_actions A) i \<noteq> None) \<le> length (filter (offers i) hist)" for i
    using assms by (simp add: waiting_ok_def)
  have "length (filter (runs_confirmed i) (hist @ [?fact])) + of_bool (map_of (aa_actions A') i \<noteq> None)
      \<le> length (filter (offers i) (hist @ [?fact]))" for i
    using counts [of i] look [of i] by (cases "map_of (aa_actions A') i") auto
  moreover have "pa_action_id a = i \<and> pa_requires_confirmation a
      \<and> (\<exists>fact \<in> set (hist @ [?fact]). offers i fact \<and> a \<in> set (offered (fst (snd fact))))"
    if "map_of (aa_actions A') i = Some a" for i a
    using look [OF that] assms conf by (fastforce simp: waiting_ok_def list_all_iff)
  ultimately show ?thesis by (simp add: waiting_ok_def c)
qed

lemma waiting_confirm_step:
  assumes "waiting_ok (A, hist)"
  shows "waiting_ok (allai_step (A, hist) (Op_Confirm W body))"
proof -
  obtain reply A' evs where c: "allai_confirm W body A = (reply, A', evs)" by (cases "allai_confirm W body A")
  let ?fact = "(Op_Confirm W body, reply, evs)"
  have cache: "map_of (aa_actions A') i = Some a \<Longrightarrow> map_of (aa_actions A) i = Some a" for i a
    using c by (auto simp: allai_confirm_def Let_def split: sum.splits prod.splits option.splits if_splits)
  have used: "map_of (aa_actions A') i = None \<and> map_of (aa_actions A) i \<noteq> None" if "runs_confirmed i ?fact" for i
    using c that by (auto simp: allai_confirm_def Let_def split: sum.splits prod.splits option.splits if_splits)
  have counts: "length (filter (runs_confirmed i) hist) + of_bool (map_of (aa_actions A) i \<noteq> None) \<le> length (filter (offers i) hist)" for i
    using assms by (simp add: waiting_ok_def)
  have "length (filter (runs_confirmed i) (hist @ [?fact])) + of_bool (map_of (aa_actions A') i \<noteq> None)
      \<le> length (filter (offers i) (hist @ [?fact]))" for i
    using counts [of i] used [of i] cache [of i] by (cases "map_of (aa_actions A') i"; cases "runs_confirmed i ?fact") auto
  moreover have "pa_action_id a = i \<and> pa_requires_confirmation a
      \<and> (\<exists>fact \<in> set (hist @ [?fact]). offers i fact \<and> a \<in> set (offered (fst (snd fact))))"
    if "map_of (aa_actions A') i = Some a" for i a
    using cache [OF that] assms by (fastforce simp: waiting_ok_def)
  ultimately show ?thesis by (simp add: waiting_ok_def c)
qed

interpretation waiting: op_system allai_step waiting_ok
proof unfold_locales
  show "waiting_ok (allai_step s op)" if "waiting_ok s" for s op
    using that by (cases s; cases op) (simp_all only: waiting_chat waiting_confirm_step)
qed

lemma confirm_runs:
  assumes "allai_confirm W body A = (reply, A', evs)" and "evs \<noteq> []"
  obtains i a where "parse_body (confirm_request (ae_bool W)) body = Inr (i, True)" "map_of (aa_actions A) i = Some a" "evs = [Ran a]"
    "reply = (case execute_action W A' a of Inl e \<Rightarrow> chat_failure e | Inr r \<Rightarrow> Confirm_Executed r)"
    "A' = A\<lparr>aa_actions := dict_del i (aa_actions A)\<rparr>"
  using assms that by (auto simp: allai_confirm_def Let_def split: sum.splits prod.splits option.splits if_splits)

lemma chat_failure_not_executed [simp]: "chat_failure e \<noteq> Confirm_Executed r" "Confirm_Executed r \<noteq> chat_failure e"
  by (induction e rule: chat_failure.induct) simp_all

lemma execute_action_allowed:
  "execute_action W A a = Inr r \<Longrightarrow> \<exists>config. app_config W A = Inr config \<and> pa_tool_name a \<in> set (allowed_tools config)"
  by (auto simp: execute_action_def rbind_Inr_iff split: if_splits)

text \<open>C32: along every sequence of chats and confirmations, an identifier is run at most as often as it was offered to the user;
  what a confirmation runs is an action that an earlier reply offered under that identifier as one to be confirmed, that the
  user approved in this request, and that no longer waits afterwards; it is executed only if its tool is allowed.\<close>

theorem confirmed_runs_were_offered:
  assumes "aa_actions A0 = []" and "foldl allai_step (A0, []) ops = (A, hist)" and "allai_confirm W body A = (reply, A', evs)"
  shows "(\<forall>i. length (filter (runs_confirmed i) hist) \<le> length (filter (offers i) hist))
    \<and> (evs = [] \<or> (\<exists>a. evs = [Ran a] \<and> parse_body (confirm_request (ae_bool W)) body = Inr (pa_action_id a, True)
         \<and> pa_requires_confirmation a \<and> (\<exists>fact \<in> set hist. a \<in> set (offered (fst (snd fact))))
         \<and> map_of (aa_actions A') (pa_action_id a) = None
         \<and> (\<forall>r. reply = Confirm_Executed r \<longrightarrow> (\<exists>config. app_config W A' = Inr config \<and> pa_tool_name a \<in> set (allowed_tools config)))))"
proof -
  have "waiting_ok (A0, [])" using assms(1) by (simp add: waiting_ok_def)
  from waiting.run_keeps [OF this, of ops] have ok: "waiting_ok (A, hist)" by (simp add: assms(2))
  then have counts: "length (filter (runs_confirmed i) hist) \<le> length (filter (offers i) hist)" for i
    by (auto simp: waiting_ok_def dest!: spec [of _ i])
  show ?thesis
  proof (cases "evs = []")
    case False
    from confirm_runs [OF assms(3) this] obtain i a where run: "parse_body (confirm_request (ae_bool W)) body = Inr (i, True)"
      "map_of (aa_actions A) i = Some a" "evs = [Ran a]"
      "reply = (case execute_action W A' a of Inl e \<Rightarrow> chat_failure e | Inr r \<Rightarrow> Confirm_Executed r)"
      "A' = A\<lparr>aa_actions := dict_del i (aa_actions A)\<rparr>" .
    from ok run(2) have a: "pa_action_id a = i" "pa_requires_confirmation a" "\<exists>fact \<in> set hist. a \<in> set (offered (fst (snd fact)))"
      unfolding waiting_ok_def by blast+
    have "\<exists>config. app_config W A' = Inr config \<and> pa_tool_name a \<in> set (allowed_tools config)" if "reply = Confirm_Executed r" for r
      using run(4) that execute_action_allowed by (cases "execute_action W A' a") auto
    with a run counts show ?thesis by auto
  qed (use counts in simp)
qed

section \<open>Secrets\<close>

text \<open>None of the values that the chat takes from the configuration is the API key.\<close>

lemma allowed_tools_hides [simp]: "allowed_tools (with_api_key k config) = allowed_tools config"
  by (simp add: allowed_tools_def with_api_key_other)

lemma config_node_id_hides [simp]: "config_node_id rt (with_api_key k config) = config_node_id rt config"
  by (simp add: config_node_id_def with_api_key_core)

lemma app_node_id_hides [simp]: "app_node_id rt fo (with_api_key k config) = app_node_id rt fo config"
  by (simp add: app_node_id_def with_api_key_core cong: if_cong)

lemma map_filter_single: "k \<notin> set names \<Longrightarrow> List.map_filter (\<lambda>n. map_option (\<lambda>v. (n, v)) (if n = k then Some x else None)) names = []"
  by (induction names) (auto simp: List.map_filter_simps)

lemma pick_core_hides:
  assumes "''api_key'' \<notin> set names"
  shows "pick_dict_fields (jget (with_api_key k config) ''core'') names = pick_dict_fields (jget config ''core'') names"
proof -
  have "List.map_filter (\<lambda>n. map_option (\<lambda>v. (n, v)) (map_of (dict_set ''api_key'' (JStr k) core) n)) names
    = List.map_filter (\<lambda>n. map_option (\<lambda>v. (n, v)) (map_of core n)) names" for core
    using assms by (induction names) (auto simp: List.map_filter_simps split: option.split)
  then show ?thesis
    using assms by (cases "map_of config ''core''"; cases "jget_or config ''core'' (JObj [])")
      (auto simp: with_api_key_def pick_dict_fields_def jget_def jget_or_def map_filter_single)
qed

lemma jget_hides: "s \<noteq> ''core'' \<Longrightarrow> jget (with_api_key k config) s = jget config s"
  using with_api_key_other [of s k config JNull] by (simp add: jget_def jget_or_def)

lemma inspect_hides [simp]: "inspect_local_config (with_api_key k config) = inspect_local_config config"
  by (simp add: inspect_local_config_def pick_core_hides jget_hides)

lemma scan_hides [simp]: "scan_provider_endpoint probe (with_api_key k config) = scan_provider_endpoint probe config"
  by (simp add: scan_provider_endpoint_def with_api_key_adapter)

lemma marketplace_context_hides [simp]: "safe_marketplace_context W (with_api_key k config) fo = safe_marketplace_context W config fo"
  by (simp add: safe_marketplace_context_def)

text \<open>The same application with another key in its file and other passphrases.\<close>

definition other_secrets :: "config_file \<Rightarrow> string option \<Rightarrow> string option \<Rightarrow> allai_app \<Rightarrow> allai_app" where
  "other_secrets f p q A = A\<lparr>aa_node := (aa_node A)\<lparr>nd_config := f, nd_passphrase := p, nd_env_passphrase := q\<rparr>\<rparr>"

lemma other_secrets_simps [simp]:
  "aa_facade (other_secrets f p q A) = aa_facade A" "aa_actions (other_secrets f p q A) = aa_actions A"
  "aa_files (other_secrets f p q A) = aa_files A" "aa_logs (other_secrets f p q A) = aa_logs A"
  "get_status (aa_node (other_secrets f p q A)) = get_status (aa_node A)"
  "get_sessions num (aa_node (other_secrets f p q A)) = get_sessions num (aa_node A)"
  "get_dashboard u (aa_node (other_secrets f p q A)) = get_dashboard u (aa_node A)"
  "nd_provider (aa_node (other_secrets f p q A)) = nd_provider (aa_node A)"
  "(other_secrets f p q A)\<lparr>aa_facade := fo\<rparr> = other_secrets f p q (A\<lparr>aa_facade := fo\<rparr>)"
  "(other_secrets f p q A)\<lparr>aa_actions := c\<rparr> = other_secrets f p q (A\<lparr>aa_actions := c\<rparr>)"
  by (simp_all add: other_secrets_def get_status_def get_sessions_def get_dashboard_def)

text \<open>Two files that differ in the key.\<close>

definition key_only_differs :: "allai_env \<Rightarrow> config_file \<Rightarrow> config_file \<Rightarrow> bool" where
  "key_only_differs W f g \<longleftrightarrow> (\<exists>config k k'. read_config (en_toml (ae_node W)) f = Inr (with_api_key k config)
     \<and> read_config (en_toml (ae_node W)) g = Inr (with_api_key k' config))"

lemma local_tool_hides: "local_tool W (other_secrets f p q A) (with_api_key k' config) a = local_tool W A (with_api_key k config) a"
  by (simp add: local_tool_def)

lemma execute_action_hides:
  assumes "key_only_differs W (nd_config (aa_node A)) f"
  shows "execute_action W (other_secrets f p q A) a = execute_action W A a"
proof -
  from assms obtain config k k' where "app_config W A = Inr (with_api_key k config)"
    "app_config W (other_secrets f p q A) = Inr (with_api_key k' config)"
    by (auto simp: key_only_differs_def app_config_def other_secrets_def)
  then show ?thesis by (simp add: execute_action_def local_tool_hides [of W f p q A k' config a k])
qed

lemma parts_hide:
  "dashboard_part W (other_secrets f p q A) = dashboard_part W A" "tools_part W (other_secrets f p q A) = tools_part W A"
  by (simp_all add: dashboard_part_def tools_part_def)

lemma gather_context_hides:
  "gather_context W (with_api_key k' config) (other_secrets f p q A) = gather_context W (with_api_key k config) A"
  by (simp add: gather_context_def Let_def parts_hide cong: sum.case_cong prod.case_cong)

lemma execute_all_hides:
  "key_only_differs W (nd_config (aa_node A)) f \<Longrightarrow> execute_all W (other_secrets f p q A) as = execute_all W A as"
  by (induction as) (simp_all add: execute_action_hides cong: sum.case_cong)

lemma chat_loop_hides:
  assumes "key_only_differs W (nd_config (aa_node A)) g"
  shows "chat_loop W (other_secrets g p q A) f allowed base left s = chat_loop W A f allowed base left s"
  by (induction left arbitrary: s)
    (simp_all add: execute_all_hides [OF assms] Let_def cong: sum.case_cong prod.case_cong if_cong)

lemma allai_chat_hides:
  assumes "key_only_differs W (nd_config (aa_node A)) f"
  shows "allai_chat W body (other_secrets f p q A)
    = (case allai_chat W body A of (reply, A', evs) \<Rightarrow> (reply, other_secrets f p q A', evs))"
proof -
  from assms obtain config k k' where conf: "app_config W A = Inr (with_api_key k config)"
    "app_config W (other_secrets f p q A) = Inr (with_api_key k' config)"
    by (auto simp: key_only_differs_def app_config_def other_secrets_def)
  have "key_only_differs W (nd_config (aa_node (A\<lparr>aa_facade := fo\<rparr>))) f" for fo using assms by simp
  note loop = chat_loop_hides [OF this]
  show ?thesis
    by (simp add: allai_chat_def conf gather_context_hides [of W k' config f p q A k] Let_def loop cache_pending_def
        split: sum.split option.split prod.split)
qed

lemma allai_confirm_hides:
  assumes "key_only_differs W (nd_config (aa_node A)) f"
  shows "allai_confirm W body (other_secrets f p q A)
    = (case allai_confirm W body A of (reply, A', evs) \<Rightarrow> (reply, other_secrets f p q A', evs))"
proof -
  have "key_only_differs W (nd_config (aa_node (A\<lparr>aa_actions := c\<rparr>))) f" for c using assms by simp
  note run = execute_action_hides [OF this]
  show ?thesis
    by (simp add: allai_confirm_def Let_def run split: sum.split option.split prod.split)
qed

fun op_env :: "allai_op \<Rightarrow> allai_env" where
  "op_env (Op_Chat W _) = W"
| "op_env (Op_Confirm W _) = W"

lemma allai_step_node: "aa_node (fst (allai_step s op)) = aa_node (fst s)"
proof (cases s; cases op)
  fix A hist W body
  assume s: "s = (A, hist)" "op = Op_Chat W body"
  obtain reply A' evs where c: "allai_chat W body A = (reply, A', evs)" by (cases "allai_chat W body A")
  from chat_runs_facts [of W A body] c s show ?thesis by (auto simp: cache_pending_def)
next
  fix A hist W body
  assume s: "s = (A, hist)" "op = Op_Confirm W body"
  then show ?thesis by (auto simp: allai_confirm_def Let_def split: sum.split option.split prod.split)
qed

lemma allai_step_hides:
  assumes "key_only_differs (op_env op) (nd_config (aa_node A)) f"
  shows "allai_step (other_secrets f p q A, hist) op = (case allai_step (A, hist) op of (A', h) \<Rightarrow> (other_secrets f p q A', h))"
  using assms by (cases op) (simp_all add: allai_chat_hides allai_confirm_hides split: prod.split)

text \<open>C33: the API key in the configuration file and the passphrases of the node never show: along every sequence of chats and
  confirmations, the requests sent to the market, the local tools run, the replies to the client and the actions that wait are the
  same for any two values of these secrets.\<close>

theorem chat_hides_secrets:
  assumes "list_all (\<lambda>op. key_only_differs (op_env op) (nd_config (aa_node A)) f) ops"
    and "foldl allai_step (A, hist) ops = (A', hist')"
  shows "foldl allai_step (other_secrets f p q A, hist) ops = (other_secrets f p q A', hist')"
  using assms
proof (induction ops arbitrary: A hist)
  case (Cons op ops)
  obtain A1 h1 where s: "allai_step (A, hist) op = (A1, h1)" by (cases "allai_step (A, hist) op")
  with allai_step_node [of "(A, hist)" op] have "aa_node A1 = aa_node A" by simp
  with Cons s show ?case by (simp add: allai_step_hides)
qed simp

section \<open>A concrete run\<close>

text \<open>
  The market proposes, first, to read the list of tools, which runs at once; having seen the result it proposes
  to show the configuration, which needs a confirmation.
\<close>

definition demo_proposal :: "string \<Rightarrow> string \<Rightarrow> bool \<Rightarrow> json" where
  "demo_proposal i tool c = JObj [(''action_id'', JStr i), (''description'', JStr ''d''), (''tool_name'', JStr tool),
     (''params'', JObj []), (''requires_confirmation'', JBool c)]"

definition demo_market :: "json list \<Rightarrow> market_world" where
  "demo_market acts = \<lparr>mw_answer = \<lambda>_. \<lparr>fe_request = \<lambda>_. Inr [(''reply'', JStr ''ok''), (''proposed_actions'', JArr acts)],
     fe_auth = True, fe_refresh = Inr JNull, fe_fresh = []\<rparr>, mw_rt = demo_rt, mw_now = 0, mw_later = 0\<rparr>"

definition demo_allai :: allai_env where
  "demo_allai = \<lparr>ae_node = demo_node_env, ae_bool = (\<lambda>v. case v of JBool b \<Rightarrow> Inr b | _ \<Rightarrow> Inl validation_error),
     ae_num = (\<lambda>r. JFloat (FNum r)), ae_uptime = FNum 1, ae_fresh = [],
     ae_context = (\<lambda>_. demo_market []),
     ae_chat = (\<lambda>left. demo_market [if left = 4 then demo_proposal ''a'' ''list_local_tools'' False else demo_proposal ''b'' ''inspect_local_config'' True]),
     ae_tool = (\<lambda>_. demo_market []), ae_probe = (\<lambda>_. Inl [])\<rparr>"

definition demo_app :: "string \<Rightarrow> allai_app" where
  "demo_app key = \<lparr>aa_node = demo_node\<lparr>nd_config := Some (config_text demo_toml demo_rt (with_api_key key demo_config))\<rparr>,
     aa_files = [], aa_facade = Some demo_facade, aa_logs = new_ring buffer_size, aa_actions = []\<rparr>"

definition demo_message :: "json res" where
  "demo_message = Inr (JObj [(''message'', JStr ''hello'')])"

definition demo_approval :: "json res" where
  "demo_approval = Inr (JObj [(''action_id'', JStr ''b''), (''approved'', JBool True)])"

definition demo_action :: proposed_action where
  "demo_action = \<lparr>pa_action_id = ''b'', pa_description = ''d'', pa_tool_name = ''inspect_local_config'', pa_params = [],
     pa_requires_confirmation = True\<rparr>"

lemma demo_app_config: "read_config demo_toml (Some (config_text demo_toml demo_rt (with_api_key key demo_config)))
    = Inr (with_api_key key demo_config)"
proof -
  have "jwf (JObj (with_api_key key demo_config))"
    by (simp add: demo_config_def with_api_key_def jget_or_def)
  from loads_dumps [OF this] show ?thesis by (simp add: demo_toml_def config_text_def read_config_def)
qed

lemma demo_app_reads: "app_config demo_allai (demo_app key) = Inr (with_api_key key demo_config)"
  by (simp add: app_config_def demo_app_def demo_allai_def demo_node_env_def demo_app_config)

lemma demo_post: "facade_post (demo_market acts) path payload = Inr [(''reply'', JStr ''ok''), (''proposed_actions'', JArr acts)]"
  by (simp add: facade_post_def facade_request_def demo_market_def)

lemma demo_read_action: "chat_answer demo_allai conv [(''reply'', JStr ''ok''), (''proposed_actions'', JArr [demo_proposal i n c])]
    = Inr (''ok'', conv, [\<lparr>pa_action_id = i, pa_description = ''d'', pa_tool_name = n, pa_params = [], pa_requires_confirmation = c\<rparr>], JNull)"
  by (simp add: chat_answer_def coerce_actions_def jget_def demo_proposal_def List.map_filter_simps read_action_def str_field_of_def
      demo_allai_def suggestions_ok_def or_else_def demo_node_env_def)

lemma demo_allowed: "allowed_tools demo_config = default_allowed_tools"
  by code_simp

lemma demo_list_tools:
  "pa_tool_name a = ''list_local_tools'' \<Longrightarrow> execute_action demo_allai ((demo_app key)\<lparr>aa_facade := fo\<rparr>) a = Inr [(''tools'', JArr [])]"
  using demo_app_reads [of key]
  by (simp add: execute_action_def app_config_def demo_allowed default_allowed_tools_def local_tool_def list_local_tools_def
      read_store_def demo_app_def or_else_def safe_discovered_tools_context_def jget_or_def List.map_filter_simps or_chat_def)

lemma demo_chat_offers: "offered (fst (allai_chat demo_allai demo_message (demo_app key))) = [demo_action]"
proof -
  obtain ctx fo where ctx: "gather_context demo_allai (with_api_key key demo_config) (demo_app key) = (ctx, fo)"
    by (cases "gather_context demo_allai (with_api_key key demo_config) (demo_app key)")
  have node: "app_node_id rt (Some demo_facade) c = Inr ''n1''" for rt c by (simp add: app_node_id_def demo_facade_def)
  have req: "parse_body chat_request demo_message = Inr (''hello'', None)"
    by (simp add: demo_message_def parse_body_def chat_request_def str_field_of_def opt_str_field_def jget_def)
  have world: "ae_chat demo_allai left = demo_market
      [if left = 4 then demo_proposal ''a'' ''list_local_tools'' False else demo_proposal ''b'' ''inspect_local_config'' True]" for left
    by (simp add: demo_allai_def)
  have depth: "max_auto_exec_depth = Suc (Suc 3)" by (simp add: max_auto_exec_depth_def)
  have loop: "\<exists>s evs. chat_loop demo_allai ((demo_app key)\<lparr>aa_facade := fo\<rparr>) f default_allowed_tools base (Suc (Suc 3)) (first_chat_state None)
      = (Inr s, evs) \<and> ch_pending s = [demo_action]" for f base
    by (simp add: world demo_post demo_read_action auto_actions_def waiting_actions_def List.map_filter_simps
        default_allowed_tools_def demo_list_tools demo_action_def Let_def eval_nat_numeral)
  have fac: "aa_facade (demo_app key) = Some demo_facade" by (simp add: demo_app_def)
  obtain s evs where "chat_loop demo_allai ((demo_app key)\<lparr>aa_facade := fo\<rparr>) demo_facade default_allowed_tools
      (chat_base (''hello'', None) ctx ''n1'' default_allowed_tools) max_auto_exec_depth (first_chat_state None) = (Inr s, evs)"
    and "ch_pending s = [demo_action]"
    using loop [of demo_facade "chat_base (''hello'', None) ctx ''n1'' default_allowed_tools"] unfolding depth by blast
  then show ?thesis
    unfolding allai_chat_def req sum.case fac option.case demo_app_reads ctx prod.case Let_def allowed_tools_hides demo_allowed node snd_conv
    by simp
qed

text \<open>After the chat the action waits; the user's approval runs it, and it shows the configuration without the key.\<close>

lemma demo_confirm:
  assumes "map_of (aa_actions A) ''b'' = Some demo_action" and "app_config demo_allai A = Inr (with_api_key key demo_config)"
  shows "\<exists>A'. allai_confirm demo_allai demo_approval A = (Confirm_Executed
      [(''config'', JObj [(''core'', JObj [(''node_serial'', JStr ''s'')]),
        (''management'', JObj [(''setup_complete'', JBool True), (''setup_step'', JInt 5), (''mode'', JStr ''provider'')]),
        (''provider'', JObj [(''adapter'', JObj [(''endpoint_url'', JStr ''http://up'')])]),
        (''allai'', JObj [(''allowed_tools'', JArr (map JStr default_allowed_tools))])])], A', [Ran demo_action])"
proof -
  have body: "parse_body (confirm_request (ae_bool demo_allai)) demo_approval = Inr (''b'', True)"
    by (simp add: demo_approval_def parse_body_def confirm_request_def str_field_of_def demo_allai_def)
  have tool: "local_tool W B demo_config demo_action = Some (Inr
      [(''config'', JObj [(''core'', JObj [(''node_serial'', JStr ''s'')]),
        (''management'', JObj [(''setup_complete'', JBool True), (''setup_step'', JInt 5), (''mode'', JStr ''provider'')]),
        (''provider'', JObj [(''adapter'', JObj [(''endpoint_url'', JStr ''http://up'')])]),
        (''allai'', JObj [(''allowed_tools'', JArr (map JStr default_allowed_tools))])])])" for W B
    by (simp add: local_tool_def demo_action_def inspect_local_config_def demo_allowed)
      (simp add: demo_config_def jget_def jget_or_def or_else_def pick_dict_fields_def List.map_filter_simps or_chat_def)
  have "local_tool W B (with_api_key key demo_config) demo_action = local_tool W B demo_config demo_action" for W B
    by (simp add: local_tool_def)
  with tool assms have "execute_action demo_allai (A\<lparr>aa_actions := c\<rparr>) demo_action = Inr
      [(''config'', JObj [(''core'', JObj [(''node_serial'', JStr ''s'')]),
        (''management'', JObj [(''setup_complete'', JBool True), (''setup_step'', JInt 5), (''mode'', JStr ''provider'')]),
        (''provider'', JObj [(''adapter'', JObj [(''endpoint_url'', JStr ''http://up'')])]),
        (''allai'', JObj [(''allowed_tools'', JArr (map JStr default_allowed_tools))])])]" for c
    by (simp add: execute_action_def app_config_def demo_allowed) (simp add: demo_action_def default_allowed_tools_def)
  with body assms(1) show ?thesis by (simp add: allai_confirm_def Let_def)
qed

theorem confirmed_runs_were_offered_witness:
  "\<exists>A hist A' r a. foldl allai_step (demo_app ''k'', []) [Op_Chat demo_allai demo_message] = (A, hist)
     \<and> allai_confirm demo_allai demo_approval A = (Confirm_Executed r, A', [Ran a])
     \<and> pa_requires_confirmation a \<and> (\<exists>fact \<in> set hist. a \<in> set (offered (fst (snd fact)))) \<and> map_of (aa_actions A') (pa_action_id a) = None"
proof -
  obtain reply A evs where c: "allai_chat demo_allai demo_message (demo_app ''k'') = (reply, A, evs)"
    by (cases "allai_chat demo_allai demo_message (demo_app ''k'')")
  let ?hist = "[(Op_Chat demo_allai demo_message, reply, evs)]"
  have off: "offered reply = [demo_action]" using demo_chat_offers [of "''k''"] c by simp
  with chat_runs_facts [of demo_allai "demo_app ''k''" demo_message] c
  obtain fo where A: "A = cache_pending [demo_action] ((demo_app ''k'')\<lparr>aa_facade := fo\<rparr>)" by auto
  have wait: "map_of (aa_actions A) ''b'' = Some demo_action"
    by (simp add: A cache_pending_def cache_action_def demo_action_def)
  have conf: "app_config demo_allai A = Inr (with_api_key ''k'' demo_config)"
    using demo_app_reads [of "''k''"] by (simp add: A cache_pending_def app_config_def)
  obtain r A' where run: "allai_confirm demo_allai demo_approval A = (Confirm_Executed r, A', [Ran demo_action])"
    using demo_confirm [OF wait conf] by blast
  have steps: "foldl allai_step (demo_app ''k'', []) [Op_Chat demo_allai demo_message] = (A, ?hist)" by (simp add: c)
  have "aa_actions (demo_app ''k'') = []" by (simp add: demo_app_def)
  from confirmed_runs_were_offered [OF this steps run] steps run show ?thesis by auto
qed

theorem chat_hides_secrets_witness:
  "\<exists>A' hist. foldl allai_step (demo_app ''k'', []) [Op_Chat demo_allai demo_message, Op_Confirm demo_allai demo_approval] = (A', hist)
    \<and> foldl allai_step (other_secrets (Some (config_text demo_toml demo_rt (with_api_key ''other'' demo_config))) (Some ''p'') None (demo_app ''k''), [])
        [Op_Chat demo_allai demo_message, Op_Confirm demo_allai demo_approval]
      = (other_secrets (Some (config_text demo_toml demo_rt (with_api_key ''other'' demo_config))) (Some ''p'') None A', hist)"
proof -
  let ?ops = "[Op_Chat demo_allai demo_message, Op_Confirm demo_allai demo_approval]"
  obtain A' hist where s: "foldl allai_step (demo_app ''k'', []) ?ops = (A', hist)"
    by (cases "foldl allai_step (demo_app ''k'', []) ?ops")
  have en: "en_toml (ae_node demo_allai) = demo_toml" by (simp add: demo_allai_def demo_node_env_def)
  have "list_all (\<lambda>op. key_only_differs (op_env op) (nd_config (aa_node (demo_app ''k'')))
      (Some (config_text demo_toml demo_rt (with_api_key ''other'' demo_config)))) ?ops"
    unfolding key_only_differs_def using demo_app_config [of "''k''"] demo_app_config [of "''other''"]
    by (auto simp: demo_app_def en)
  from chat_hides_secrets [OF this s] s show ?thesis by blast
qed

end
