(* ===== verification/MarketTasks.thy ===== *)
theory MarketTasks
  imports Marketplace
begin

text \<open>
  \<open>aim_node/management/facade.py\<close> under asyncio: any number of requests to the marketplace routes on one
  \<open>MarketplaceFacade\<close>. A route looks into the cache before its request to the market leaves, and touches the
  cache again when the answer is there (\<open>get\<close> stores it, the three changes of the published tools drop
  the list); between the two other requests run. Marketplace has the same routes as functions: they are
  the runs in which a request is not interrupted (\<open>uninterrupted_request\<close>).
\<close>

section \<open>From await to await\<close>

text \<open>
  The facade, the requests whose call to the market is on its way, and the history of the answers the routes
  gave, oldest first: out of the cache, or with the answer of the market.
\<close>

datatype market_event =
    Out_Of_Cache "market_world \<times> market_op" "(string \<times> json) list"
  | From_Market "market_world \<times> market_op" market_reply

record market_desk =
  md_facade :: market_facade
  md_waiting :: "(market_world \<times> market_op) list"
  md_history :: "market_event list"

definition desk_of :: "market_facade \<Rightarrow> market_desk" where
  "desk_of f = \<lparr>md_facade = f, md_waiting = [], md_history = []\<rparr>"

definition cache_key :: "market_world \<Rightarrow> string \<times> json \<Rightarrow> string" where
  "cache_key w t = ''GET:'' @ fst t @ '':'' @ py_str (mw_rt w) (snd t)"

definition market_call_result :: "market_world \<Rightarrow> string \<times> json \<Rightarrow> facade_exn + (string \<times> json) list" where
  "market_call_result w t = fst (facade_request (mw_answer w (get_call (fst t) (snd t))) (fst t))"

text \<open>A request to a route, up to \<open>await self._request(...)\<close>: a cached read is answered at once.\<close>

definition ask_market :: "market_world \<times> market_op \<Rightarrow> market_desk \<Rightarrow> market_desk" where
  "ask_market r d = (case r of (w, op) \<Rightarrow> (case read_target op of
     Some (target, Some ttl) \<Rightarrow>
       (case get_cache (mw_now w) (cache_key w (target (md_facade d))) (fc_cache (md_facade d)) of
          (Some v, c) \<Rightarrow> d\<lparr>md_facade := (md_facade d)\<lparr>fc_cache := c\<rparr>, md_history := md_history d @ [Out_Of_Cache r v]\<rparr>
        | (None, c) \<Rightarrow> d\<lparr>md_facade := (md_facade d)\<lparr>fc_cache := c\<rparr>, md_waiting := md_waiting d @ [r]\<rparr>)
   | _ \<Rightarrow> d\<lparr>md_waiting := md_waiting d @ [r]\<rparr>))"

text \<open>The answer is there: a read is stored when the route caches it, an accepted change drops the cached list of tools.\<close>

definition take_answer :: "string \<Rightarrow> market_world \<times> market_op \<Rightarrow> market_facade \<Rightarrow> market_reply \<times> market_facade" where
  "take_answer fresh r f = (case r of (w, op) \<Rightarrow> (case read_target op of
     Some (target, ttl) \<Rightarrow> (facade_reply (market_call_result w (target f)),
       (case ttl of
          None \<Rightarrow> f
        | Some s \<Rightarrow> f\<lparr>fc_cache := store_answer (mw_later w) (cache_key w (target f)) s (market_call_result w (target f)) (fc_cache f)\<rparr>))
   | None \<Rightarrow> (fst (market_route fresh r (Some f)), the (snd (market_route fresh r (Some f))))))"

definition answer_market :: "string \<Rightarrow> nat \<Rightarrow> market_desk \<Rightarrow> market_desk" where
  "answer_market fresh i d = (case take_answer fresh (md_waiting d ! i) (md_facade d) of (reply, f) \<Rightarrow>
     \<lparr>md_facade = f, md_waiting = take i (md_waiting d) @ drop (Suc i) (md_waiting d),
      md_history = md_history d @ [From_Market (md_waiting d ! i) reply]\<rparr>)"

text \<open>A request comes in, the answer to one of the waiting requests is there, or a waiting request is cancelled.\<close>

inductive market_step :: "string \<Rightarrow> market_desk \<Rightarrow> market_desk \<Rightarrow> bool" for fresh where
  Asks: "market_step fresh d (ask_market r d)"
| Answers: "i < length (md_waiting d) \<Longrightarrow> market_step fresh d (answer_market fresh i d)"
| Leaves: "i < length (md_waiting d) \<Longrightarrow>
    market_step fresh d (d\<lparr>md_waiting := take i (md_waiting d) @ drop (Suc i) (md_waiting d)\<rparr>)"

section \<open>Requests that are not interrupted\<close>

definition answer_now :: "string \<Rightarrow> market_desk \<Rightarrow> market_desk" where
  "answer_now fresh d = (if md_waiting d = [] then d else answer_market fresh (length (md_waiting d) - 1) d)"

lemma market_route_keeps_facade: "\<exists>reply f'. market_route fresh r (Some f) = (reply, Some f') \<and> fc_node_id f' = fc_node_id f"
  by (cases r, cases "snd r")
    (auto simp: marketplace_node_def tools_list_def marketplace_earnings_def earnings_history_def
      market_sessions_def settlements_def marketplace_trust_def trust_events_def traces_def listings_def
      tools_publish_def tool_update_def tool_delete_def discover_def market_change_def market_read_def facade_obtain_def
      split: prod.split sum.split)

lemma uninterrupted_request:
  assumes "market_route fresh r (Some f) = (reply, Some f')"
  defines "d \<equiv> answer_now fresh (ask_market r (desk_of f))"
  shows "md_facade d = f' \<and> md_waiting d = []
    \<and> (md_history d = [From_Market r reply] \<or> (\<exists>v. reply = Market_Json v \<and> md_history d = [Out_Of_Cache r v]))"
proof -
  obtain w op where r: "r = (w, op)" by (cases r)
  show ?thesis
  proof (cases "read_target op")
    case None
    then show ?thesis using assms(1) by (simp add: d_def r ask_market_def answer_now_def answer_market_def take_answer_def desk_of_def)
  next
    case (Some x)
    obtain target ttl where x: "read_target op = Some (target, ttl)" using Some by (cases x) simp
    have same: "target (f\<lparr>fc_cache := c\<rparr>) = target f" for c by (rule read_target_cong [OF x]) simp
    show ?thesis
    proof (cases ttl)
      case None
      then show ?thesis using assms(1) unfolding d_def r market_route_read [OF x]
        by (auto simp: x ask_market_def answer_now_def answer_market_def take_answer_def desk_of_def
            market_read_def facade_obtain_def facade_get_def market_call_result_def)
    next
      case (Some s)
      show ?thesis using assms(1) Some unfolding d_def r market_route_read [OF x]
        by (auto simp: x ask_market_def answer_now_def answer_market_def take_answer_def desk_of_def cache_key_def same
            market_read_def facade_obtain_def facade_get_halves market_call_result_def facade_reply_def
            split: prod.splits option.splits)
    qed
  qed
qed

section \<open>Every cached response has come from the market\<close>

text \<open>An event that stored a response under a key, and one that changed the published tools.\<close>

definition stores :: "market_facade \<Rightarrow> string \<Rightarrow> rat \<times> (string \<times> json) list \<Rightarrow> market_event \<Rightarrow> bool" where
  "stores f k e ev \<longleftrightarrow> (\<exists>r s. ev = From_Market r (Market_Json (snd e))
     \<and> market_key f r = Some k \<and> market_says f r (snd e) \<and> read_ttl (snd r) = Some s \<and> fst e = mw_later (fst r) + s)"

definition changes_tools :: "market_facade \<Rightarrow> market_event \<Rightarrow> bool" where
  "changes_tools f ev = (case ev of Out_Of_Cache _ _ \<Rightarrow> False | From_Market r _ \<Rightarrow> change_accepted f r)"

definition answered_at :: "market_facade \<Rightarrow> market_event list \<Rightarrow> string \<Rightarrow> rat \<times> (string \<times> json) list \<Rightarrow> nat \<Rightarrow> bool" where
  "answered_at f h k e m \<longleftrightarrow> m < length h \<and> stores f k e (h ! m)
     \<and> (prefix (''GET:'' @ tools_path f) k \<longrightarrow> (\<forall>j. m < j \<and> j < length h \<longrightarrow> \<not> changes_tools f (h ! j)))"

definition event_holds :: "market_facade \<Rightarrow> market_event list \<Rightarrow> market_event \<Rightarrow> bool" where
  "event_holds f h e = (case e of
     Out_Of_Cache r v \<Rightarrow> (\<exists>k m x. market_key f r = Some k \<and> answered_at f h k (x, v) m \<and> mw_now (fst r) \<le> x)
   | From_Market r reply \<Rightarrow> (\<forall>v. read_target (snd r) \<noteq> None \<and> reply = Market_Json v \<longrightarrow> market_says f r v))"

definition desk_ok :: "market_facade \<Rightarrow> market_desk \<Rightarrow> bool" where
  "desk_ok f d \<longleftrightarrow> fc_node_id (md_facade d) = fc_node_id f
     \<and> (\<forall>k e. map_of (fc_cache (md_facade d)) k = Some e \<longrightarrow> (\<exists>m. answered_at f (md_history d) k e m))
     \<and> (\<forall>n < length (md_history d). event_holds f (take n (md_history d)) (md_history d ! n))"

lemma answered_at_snoc:
  "answered_at f h k e m \<Longrightarrow> (prefix (''GET:'' @ tools_path f) k \<Longrightarrow> \<not> changes_tools f x) \<Longrightarrow> answered_at f (h @ [x]) k e m"
  by (auto simp: answered_at_def nth_append less_Suc_eq)

text \<open>One more event: it holds over the history so far, and the cache it leaves is explained by the longer one.\<close>

lemma desk_ok_snoc:
  assumes "desk_ok f d" and "md_history d' = md_history d @ [x]" and "fc_node_id (md_facade d') = fc_node_id f"
    and "event_holds f (md_history d) x"
    and "\<And>k e. map_of (fc_cache (md_facade d')) k = Some e \<Longrightarrow> \<exists>m. answered_at f (md_history d @ [x]) k e m"
  shows "desk_ok f d'"
  using assms unfolding desk_ok_def by (auto simp: nth_append less_Suc_eq)

lemma desk_ok_cached: "desk_ok f d \<Longrightarrow> map_of (fc_cache (md_facade d)) k = Some e \<Longrightarrow> \<exists>m. answered_at f (md_history d) k e m"
  unfolding desk_ok_def by blast

lemma desk_ok_node: "desk_ok f d \<Longrightarrow> fc_node_id (md_facade d) = fc_node_id f"
  unfolding desk_ok_def by blast

lemma desk_ok_same:
  assumes "desk_ok f d" and "md_history d' = md_history d" and "fc_node_id (md_facade d') = fc_node_id (md_facade d)"
    and "\<And>k e. map_of (fc_cache (md_facade d')) k = Some e \<Longrightarrow> map_of (fc_cache (md_facade d)) k = Some e"
  shows "desk_ok f d'"
  using assms unfolding desk_ok_def by metis

lemma get_cache_facts:
  "get_cache now k c = (Some v, c') \<Longrightarrow> c' = c \<and> (\<exists>x. map_of c k = Some (x, v) \<and> now \<le> x)"
  "get_cache now k c = (None, c') \<Longrightarrow> map_of c' j = Some e \<Longrightarrow> map_of c j = Some e"
  by (auto simp: get_cache_def split: option.splits if_splits)

lemma market_key_cache_key: "read_target op = Some (target, ttl) \<Longrightarrow> market_key f (w, op) = Some (cache_key w (target f))"
  by (simp add: market_key_def cache_key_def)

lemma market_says_result: "read_target op = Some (target, ttl) \<Longrightarrow> market_says f (w, op) v \<longleftrightarrow> market_call_result w (target f) = Inr v"
  by (simp add: market_says_def market_call_result_def)

lemma ask_keeps:
  assumes ok: "desk_ok f d"
  shows "desk_ok f (ask_market r d)"
proof -
  obtain w op where r: "r = (w, op)" by (cases r)
  show ?thesis
  proof (cases "\<exists>target s. read_target op = Some (target, Some s)")
    case False
    then have "ask_market r d = d\<lparr>md_waiting := md_waiting d @ [r]\<rparr>"
      by (auto simp: r ask_market_def split: option.split)
    then show ?thesis by (intro desk_ok_same [OF ok]) simp_all
  next
    case True
    then obtain target s where x: "read_target op = Some (target, Some s)" by blast
    have same: "target (md_facade d) = target f" by (rule read_target_cong [OF x desk_ok_node [OF ok]])
    show ?thesis
    proof (cases "get_cache (mw_now w) (cache_key w (target f)) (fc_cache (md_facade d))")
      case (Pair hit c)
      show ?thesis
      proof (cases hit)
        case None
        with Pair have d': "ask_market r d = d\<lparr>md_facade := (md_facade d)\<lparr>fc_cache := c\<rparr>, md_waiting := md_waiting d @ [r]\<rparr>"
          by (simp add: r ask_market_def x same)
        show ?thesis unfolding d' by (rule desk_ok_same [OF ok]) (use get_cache_facts(2) Pair None in auto)
      next
        case (Some v)
        with Pair have d': "ask_market r d = d\<lparr>md_facade := (md_facade d)\<lparr>fc_cache := c\<rparr>, md_history := md_history d @ [Out_Of_Cache r v]\<rparr>"
          by (simp add: r ask_market_def x same)
        from get_cache_facts(1) [OF Pair [unfolded Some]] obtain e where c: "c = fc_cache (md_facade d)"
          and e: "map_of c (cache_key w (target f)) = Some (e, v)" "mw_now w \<le> e" by blast
        have "event_holds f (md_history d) (Out_Of_Cache r v)"
          using desk_ok_cached [OF ok e(1) [unfolded c]] e(2) market_key_cache_key [OF x, of f w] by (auto simp: event_holds_def r)
        moreover have "\<exists>m. answered_at f (md_history d @ [Out_Of_Cache r v]) k e m" if "map_of c k = Some e" for k e
          using desk_ok_cached [OF ok that [unfolded c]] answered_at_snoc [of f "md_history d" k e _ "Out_Of_Cache r v"]
          by (auto simp: changes_tools_def)
        ultimately show ?thesis unfolding d' by (intro desk_ok_snoc [OF ok]) (use desk_ok_node [OF ok] in auto)
      qed
    qed
  qed
qed

lemma take_answer_keeps:
  assumes ok: "desk_ok f d" and take: "take_answer fresh r (md_facade d) = (reply, f')"
  shows "fc_node_id f' = fc_node_id f \<and> event_holds f (md_history d) (From_Market r reply)
    \<and> (\<forall>k e. map_of (fc_cache f') k = Some e \<longrightarrow> (\<exists>m. answered_at f (md_history d @ [From_Market r reply]) k e m))"
proof -
  obtain w op where r: "r = (w, op)" by (cases r)
  note node = desk_ok_node [OF ok]
  have old: "\<exists>m. answered_at f (md_history d @ [From_Market r reply]) k e m"
    if "map_of (fc_cache (md_facade d)) k = Some e" "prefix (''GET:'' @ tools_path f) k \<Longrightarrow> \<not> change_accepted f r" for k e
    using desk_ok_cached [OF ok that(1)] answered_at_snoc [of f "md_history d" k e _ "From_Market r reply"] that(2)
    by (auto simp: changes_tools_def)
  show ?thesis
  proof (cases "read_target op")
    case None
    let ?pre = "''GET:'' @ tools_path f"
    have "change_accepted (md_facade d) r = change_accepted f r" by (rule change_accepted_cong [OF node])
    moreover have "tools_path (md_facade d) = tools_path f" by (simp add: tools_path_def node)
    ultimately have f': "f' = (if change_accepted f r
        then (md_facade d)\<lparr>fc_cache := invalidate_cache ?pre (fc_cache (md_facade d))\<rparr> else md_facade d)"
      using take market_route_other [OF None, of fresh w "md_facade d"] by (auto simp: take_answer_def r None)
    have "map_of (fc_cache (md_facade d)) k = Some e \<and> (prefix ?pre k \<longrightarrow> \<not> change_accepted f r)"
      if "map_of (fc_cache f') k = Some e" for k e
      using that map_of_filter_key [of "\<lambda>k. \<not> prefix ?pre k" "fc_cache (md_facade d)" k]
      by (auto simp: f' invalidate_cache_def split: if_splits)
    moreover have "event_holds f (md_history d) (From_Market r reply)" by (simp add: event_holds_def r None)
    moreover have "fc_node_id f' = fc_node_id f" by (simp add: f' node)
    ultimately show ?thesis using old by blast
  next
    case (Some x)
    obtain target ttl where x: "read_target op = Some (target, ttl)" using Some by (cases x) simp
    have same: "target (md_facade d) = target f" by (rule read_target_cong [OF x node])
    have no_change: "\<not> change_accepted f r" using x by (cases op) (auto simp: r)
    have reply: "reply = facade_reply (market_call_result w (target f))" using take by (simp add: take_answer_def r x same)
    have new: "\<exists>m. answered_at f (md_history d @ [From_Market r reply]) k e m"
      if "ttl = Some s" "market_call_result w (target f) = Inr v" "k = cache_key w (target f)" "e = (mw_later w + s, v)" for s v k e
      using that market_key_cache_key [OF x, of f w] market_says_result [OF x, of f w v]
      by (intro exI [of _ "length (md_history d)"]) (auto simp: answered_at_def stores_def reply r x read_ttl_def facade_reply_def)
    have "event_holds f (md_history d) (From_Market r reply)"
      by (simp add: event_holds_def r reply market_says_result [OF x])
    moreover have "\<exists>m. answered_at f (md_history d @ [From_Market r reply]) k e m" if "map_of (fc_cache f') k = Some e" for k e
    proof (cases "map_of (fc_cache (md_facade d)) k = Some e")
      case True
      then show ?thesis using old no_change by blast
    next
      case False
      with take that obtain s v where "ttl = Some s" "market_call_result w (target f) = Inr v" "k = cache_key w (target f)"
        "e = (mw_later w + s, v)"
        by (auto simp: take_answer_def r x same store_answer_def set_cache_def split: option.splits sum.splits if_splits)
      then show ?thesis by (rule new)
    qed
    ultimately show ?thesis using take node by (auto simp: take_answer_def r x split: option.splits)
  qed
qed

lemma market_step_keeps: "market_step fresh d d' \<Longrightarrow> desk_ok f d \<Longrightarrow> desk_ok f d'"
proof (induction rule: market_step.induct)
  case (Asks d r)
  then show ?case by (rule ask_keeps)
next
  case (Answers i d)
  obtain reply f' where take: "take_answer fresh (md_waiting d ! i) (md_facade d) = (reply, f')" by fastforce
  from take_answer_keeps [OF Answers.prems take] show ?case
    by (intro desk_ok_snoc [OF Answers.prems]) (auto simp: answer_market_def take)
next
  case (Leaves i d)
  from Leaves.prems show ?case by (rule desk_ok_same) auto
qed

lemma market_steps_keep: "(market_step fresh)\<^sup>*\<^sup>* (desk_of f) d \<Longrightarrow> fc_cache f = [] \<Longrightarrow> desk_ok f d"
  by (induction rule: rtranclp_induct) (simp add: desk_ok_def desk_of_def, blast intro: market_step_keeps)

section \<open>Reads in every interleaving\<close>

text \<open>C30: however the requests to the marketplace routes of one facade interleave, a read that is not answered out of
  the cache has the market's own answer to it; one that is answered out of the cache has the answer that the
  market gave to an earlier request for the same thing, stored when that answer arrived and not longer ago than
  its time to live, and for the published tools no change that the market accepted was answered between that
  arrival and now. (A list that was asked for before such a change and arrives after it is stored and served:
  \<open>stale_list_after_publish\<close>.)\<close>

theorem marketplace_reads_interleaved:
  assumes "(market_step fresh)\<^sup>*\<^sup>* (desk_of f) d" and "fc_cache f = []" and "n < length (md_history d)"
  shows "case md_history d ! n of
      From_Market (w, op) reply \<Rightarrow> (\<forall>v. read_target op \<noteq> None \<and> reply = Market_Json v \<longrightarrow> market_says f (w, op) v)
    | Out_Of_Cache (w, op) v \<Rightarrow> (\<exists>m < n. \<exists>r s. md_history d ! m = From_Market r (Market_Json v)
        \<and> market_key f r = market_key f (w, op) \<and> market_says f r v
        \<and> read_ttl (snd r) = Some s \<and> mw_now w \<le> mw_later (fst r) + s
        \<and> (op = Read_Tools \<longrightarrow> (\<forall>j. m < j \<and> j < n \<longrightarrow> \<not> changes_tools f (md_history d ! j))))"
proof -
  from market_steps_keep [OF assms(1,2)] assms(3)
  have event: "event_holds f (take n (md_history d)) (md_history d ! n)" unfolding desk_ok_def by blast
  show ?thesis
  proof (cases "md_history d ! n")
    case (From_Market r reply)
    with event show ?thesis by (cases r) (simp add: event_holds_def)
  next
    case (Out_Of_Cache r v)
    obtain w op where r: "r = (w, op)" by (cases r)
    from event obtain k m e where k: "market_key f (w, op) = Some k" and now: "mw_now w \<le> e"
      and m: "answered_at f (take n (md_history d)) k (e, v) m"
      by (auto simp: event_holds_def Out_Of_Cache r)
    have "prefix (''GET:'' @ tools_path f) k" if "op = Read_Tools"
      using k that by (auto simp: market_key_def prefix_def)
    with m k now assms(3) show ?thesis by (auto simp: Out_Of_Cache r answered_at_def stores_def intro!: exI [of _ m])
  qed
qed

text \<open>The tools are asked for, then the trust score; both answers arrive, and the tools are asked for again.\<close>

definition demo_desk :: market_desk where
  "demo_desk = ask_market (demo_world 20 2, Read_Tools) (answer_market [] 0 (answer_market [] 0
     (ask_market (demo_world 5 3, Read_Trust) (ask_market (demo_world 0 1, Read_Tools) (desk_of demo_facade)))))"

lemma steps_ask: "(market_step fresh)\<^sup>*\<^sup>* d d' \<Longrightarrow> (market_step fresh)\<^sup>*\<^sup>* d (ask_market r d')"
  by (erule rtranclp.rtrancl_into_rtrancl) (rule Asks)

lemma steps_answer:
  "(market_step fresh)\<^sup>*\<^sup>* d d' \<Longrightarrow> i < length (md_waiting d') \<Longrightarrow> (market_step fresh)\<^sup>*\<^sup>* d (answer_market fresh i d')"
  by (erule rtranclp.rtrancl_into_rtrancl) (rule Answers)

lemma demo_desk_history:
  "md_history demo_desk = [From_Market (demo_world 0 1, Read_Tools) (Market_Json [(''tools'', JInt 1)]),
     From_Market (demo_world 5 3, Read_Trust) (Market_Json [(''tools'', JInt 3)]),
     Out_Of_Cache (demo_world 20 2, Read_Tools) [(''tools'', JInt 1)]]"
  by (simp add: demo_desk_def ask_market_def answer_market_def take_answer_def desk_of_def cache_key_def market_call_result_def
      get_cache_def set_cache_def store_answer_def facade_request_def facade_reply_def tools_path_def demo_facade_def demo_world_def
      demo_rt_def)

lemma demo_desk_reached: "(market_step [])\<^sup>*\<^sup>* (desk_of demo_facade) demo_desk"
  unfolding demo_desk_def
  by (intro steps_ask steps_answer rtranclp.rtrancl_refl)
    (simp_all add: ask_market_def answer_market_def take_answer_def desk_of_def cache_key_def market_call_result_def
      get_cache_def set_cache_def store_answer_def facade_request_def facade_reply_def tools_path_def demo_facade_def demo_world_def
      demo_rt_def)

theorem marketplace_reads_interleaved_witness:
  "\<exists>m < 2. \<exists>r s. md_history demo_desk ! m = From_Market r (Market_Json [(''tools'', JInt 1)])
     \<and> market_key demo_facade r = market_key demo_facade (demo_world 20 2, Read_Tools) \<and> market_says demo_facade r [(''tools'', JInt 1)]
     \<and> read_ttl (snd r) = Some s \<and> mw_now (demo_world 20 2) \<le> mw_later (fst r) + s
     \<and> (\<forall>j. m < j \<and> j < 2 \<longrightarrow> \<not> changes_tools demo_facade (md_history demo_desk ! j))"
proof -
  have last: "md_history demo_desk ! 2 = Out_Of_Cache (demo_world 20 2, Read_Tools) [(''tools'', JInt 1)]"
    by (simp add: demo_desk_history)
  from marketplace_reads_interleaved [OF demo_desk_reached, of 2] show ?thesis
    unfolding last by (simp add: demo_desk_history demo_facade_def)
qed

text \<open>The stale list in this model: the list leaves the market, a publication is accepted, the list arrives.\<close>

lemma stale_list_interleaved:
  "md_history (ask_market (demo_world 20 2, Read_Tools) (answer_market [] 0 (answer_market [] 1
     (ask_market (demo_world 5 3, Publish_Tool (Inr (JObj []))) (ask_market (demo_world 0 1, Read_Tools) (desk_of demo_facade))))))
   = [From_Market (demo_world 5 3, Publish_Tool (Inr (JObj []))) (Market_Json [(''tools'', JInt 3)]),
      From_Market (demo_world 0 1, Read_Tools) (Market_Json [(''tools'', JInt 1)]),
      Out_Of_Cache (demo_world 20 2, Read_Tools) [(''tools'', JInt 1)]]"
  by (simp add: ask_market_def answer_market_def take_answer_def desk_of_def cache_key_def market_call_result_def
      get_cache_def set_cache_def store_answer_def facade_request_def facade_reply_def tools_path_def demo_facade_def demo_world_def
      demo_rt_def tools_publish_def market_change_def facade_post_def)

end
