(* ===== verification/SellerSetup.thy ===== *)
theory SellerSetup
  imports NodeSafety
begin

text \<open>
  The whole of \<open>setup_finalize\<close> (\<open>aim_node/management/routes.py\<close>) for a seller: the configuration and the key the
  node is registered with, and the configuration and the keystore that the node then runs with.
\<close>

section \<open>What follows the writes leaves the file\<close>

lemma start_provider_config: "nd_config (snd (start_provider E d up now nd)) = nd_config nd"
  by (auto simp: start_provider_def propagate_passphrase_def Let_def split: sum.split prod.split dest: use_keystore_view(6))

lemma start_consumer_config: "nd_config (snd (start_consumer E b now nd)) = nd_config nd"
  by (auto simp: start_consumer_def propagate_passphrase_def Let_def split: sum.split)

lemma determine_config: "nd_config (determine_node_state E d nd) = nd_config nd"
  by (auto simp: determine_node_state_def check_keystore_locked_def split: prod.split sum.split dest: use_keystore_view(6))

lemma autostart_config: "nd_config (route_autostart E d U nd) = nd_config nd"
  by (simp add: route_autostart_def autostart_def Let_def start_provider_config start_consumer_config)

section \<open>Registration and the three writes\<close>

lemma register_seller_success:
  assumes "register_seller E U q market nd = (Inr s, nd1)"
  obtains raw c keys reg where "read_config (en_toml E) (nd_config nd) = Inr raw"
    and "runtime_config_from_setup (en_rt E) (nd_dir nd) q raw = Inr c"
    and "fst (use_keystore E (keystore_path nd) (held_passphrase nd) (rl_draw U 0) nd) = Inr keys"
    and "market keys = Inr reg" and "jget reg ''node_id'' = JStr s" and "nd_config nd1 = nd_config nd"
proof -
  obtain k nda where u: "use_keystore E (keystore_path nd) (held_passphrase nd) (rl_draw U 0) nd = (k, nda)" by fastforce
  from use_keystore_view(6) [OF u] assms u that show thesis
    by (auto simp: register_seller_def split: sum.splits if_splits json.splits)
qed

lemma register_seller_fails: "register_seller E U q market nd = (Inl rep, nd1) \<Longrightarrow> rep \<noteq> Ok_Reply"
proof -
  have "registration_failure e \<noteq> Ok_Reply" for e by (cases e) simp_all
  then show "register_seller E U q market nd = (Inl rep, nd1) \<Longrightarrow> rep \<noteq> Ok_Reply"
    by (auto simp: register_seller_def split: sum.splits prod.splits if_splits json.splits)
qed

lemma write_config_Inr: "write_config L rt w m f = (Inr u, f') \<Longrightarrow> w = Written"
  by (cases w) (simp_all add: write_config_def)

lemma rewrite_config_Inr: "rewrite_config L rt w change f = (Inr u, f') \<Longrightarrow> w = Written"
  by (auto simp: rewrite_config_def split: sum.splits dest: write_config_Inr)

lemma write_steps_three:
  assumes "write_steps [a, b, c] nd = (Inr u, nd')"
  obtains f1 f2 where "a (nd_config nd) = (Inr (), f1)" and "b f1 = (Inr (), f2)" and "c f2 = (Inr (), nd_config nd')"
proof -
  obtain r1 f1 r2 f2 r3 f3 where "a (nd_config nd) = (r1, f1)" "b f1 = (r2, f2)" "c f2 = (r3, f3)" by fastforce
  with assms that show thesis by (auto simp: node_write_def split: sum.splits)
qed

lemma reply_of_config_fails: "reply_of_config e \<noteq> Ok_Reply"
  by (cases e) simp_all

lemma setup_finalize_success:
  assumes "setup_finalize E U uuid q market nd = (Ok_Reply, nd')" and "provides (fr_mode q)"
  obtains s nd1 f1 f2 where "valid_finalize q" and "register_seller E U q market nd = (Inr s, nd1)"
    and "persist_node_id (en_toml E) (en_rt E) Written s (nd_config nd1) = (Inr (), f1)"
    and "finalize_setup (en_toml E) (en_rt E) Written uuid q None f1 = (Inr (), f2)"
    and "persist_node_id (en_toml E) (en_rt E) Written s f2 = (Inr (), nd_config nd')"
proof -
  from assms obtain s nd1 where v: "valid_finalize q" and reg: "register_seller E U q market nd = (Inr s, nd1)"
    and fin: "finish_setup E U uuid q (Some s) nd1 = (Ok_Reply, nd')"
    by (auto simp: setup_finalize_def split: if_splits prod.splits sum.splits dest: register_seller_fails)
  from fin obtain nd2 where steps: "write_steps (setup_steps E U uuid q (Some s)) nd1 = (Inr (), nd2)"
    and cfg: "nd_config nd' = nd_config nd2"
    by (auto simp: finish_setup_def autostart_config determine_config mark_setup_complete_def reply_of_config_fails
        split: prod.splits sum.splits)
  from write_steps_three [OF steps [unfolded setup_steps_def Let_def option.case]] cfg obtain f1 f2 where
    w: "persist_node_id (en_toml E) (en_rt E) (rl_write U 0) s (nd_config nd1) = (Inr (), f1)"
      "finalize_setup (en_toml E) (en_rt E) (rl_write U 1) uuid q None f1 = (Inr (), f2)"
      "persist_node_id (en_toml E) (en_rt E) (rl_write U 2) s f2 = (Inr (), nd_config nd')" by metis
  moreover from w have "rl_write U 0 = Written" "rl_write U 1 = Written" "rl_write U 2 = Written"
    unfolding persist_node_id_def finalize_setup_def by (auto dest: rewrite_config_Inr)
  ultimately show thesis using v reg that by simp
qed

section \<open>What the node runs with\<close>

text \<open>C11: a seller's setup that answers 200. The market was given the public keys of the keystore of the data directory
  and a valid configuration, the one of the file completed by the request. When the file named neither a
  keystore nor a data directory, the runtime afterwards loads from the file that very configuration - addresses, API
  key, upstream, delays - with four values changed: the new node serial, the node id that the market gave,
  and the keystore and data directory, which are \<open>.aim-node/keystore.json\<close> and \<open>.aim-node\<close> of the working
  directory and not those of the registration. The node counts as set up in the requested mode.\<close>

theorem setup_takes_effect:
  assumes "toml_ok (en_toml E) (en_rt E)" and "read_config (en_toml E) (nd_config nd) = Inr m" and "storable (JObj m)"
    and "provides (fr_mode q)" and "uuid \<noteq> []"
    and "jget m ''keystore_path'' = JNull" and "jget m ''data_dir'' = JNull"
    and "json_walk (JObj m) [''core'', ''keystore_path''] = JNull" and "json_walk (JObj m) [''core'', ''data_dir''] = JNull"
    and "setup_finalize E U uuid q market nd = (Ok_Reply, nd')"
  shows "\<exists>c keys reg s m'. runtime_config_from_setup (en_rt E) (nd_dir nd) q m = Inr c
    \<and> cc_keystore_path c = nd_dir nd @ ''/keystore.json'' \<and> cc_upstream_url c = fr_upstream_url q
    \<and> fst (use_keystore E (cc_keystore_path c) (held_passphrase nd) (rl_draw U 0) nd) = Inr keys
    \<and> market keys = Inr reg \<and> jget reg ''node_id'' = JStr s
    \<and> read_config (en_toml E) (nd_config nd') = Inr m'
    \<and> load_config (en_rt E) m' = Inr (c\<lparr>cc_node_serial := uuid, cc_node_id := Some s,
          cc_keystore_path := ''.aim-node/keystore.json'', cc_data_dir := ''.aim-node''\<rparr>)
    \<and> json_walk (JObj m') [''management'', ''setup_complete''] = JBool True
    \<and> json_walk (JObj m') [''management'', ''mode''] = JStr (mode_text (fr_mode q))"
proof -
  from setup_finalize_success [OF assms(10,4)] obtain s nd1 f1 f2 where v: "valid_finalize q"
    and reg: "register_seller E U q market nd = (Inr s, nd1)"
    and w: "persist_node_id (en_toml E) (en_rt E) Written s (nd_config nd1) = (Inr (), f1)"
      "finalize_setup (en_toml E) (en_rt E) Written uuid q None f1 = (Inr (), f2)"
      "persist_node_id (en_toml E) (en_rt E) Written s f2 = (Inr (), nd_config nd')" .
  from v assms(4) obtain u where u: "fr_upstream_url q = Some u" "u \<noteq> []"
    by (auto simp: valid_finalize_def given_def split: option.splits)
  from register_seller_success [OF reg] assms(2) obtain c keys r where
    c: "runtime_config_from_setup (en_rt E) (nd_dir nd) q m = Inr c"
    and keys: "fst (use_keystore E (keystore_path nd) (held_passphrase nd) (rl_draw U 0) nd) = Inr keys"
    and r: "market keys = Inr r" "jget r ''node_id'' = JStr s" and cfg: "nd_config nd1 = nd_config nd" by fastforce
  from setup_writes_load [OF assms(1,2,3) c u assms(4,5,6,7,8,9) w(1) [unfolded cfg] w(2,3)] obtain m'
    where "read_config (en_toml E) (nd_config nd') = Inr m'"
      "load_config (en_rt E) m' = Inr (c\<lparr>cc_node_serial := uuid, cc_node_id := Some s,
          cc_keystore_path := ''.aim-node/keystore.json'', cc_data_dir := ''.aim-node''\<rparr>)"
      "json_walk (JObj m') [''management'', ''setup_complete''] = JBool True"
      "json_walk (JObj m') [''management'', ''mode''] = JStr (mode_text (fr_mode q))"
    and k: "cc_keystore_path c = nd_dir nd @ ''/keystore.json''" "cc_upstream_url c = fr_upstream_url q" unfolding u(1) by blast
  moreover have "fst (use_keystore E (cc_keystore_path c) (held_passphrase nd) (rl_draw U 0) nd) = Inr keys"
    using keys unfolding k keystore_path_def .
  ultimately show ?thesis using c r by (intro exI conjI) assumption+
qed

theorem setup_takes_effect_witness:
  "\<exists>m' c. read_config demo_toml (nd_config (snd (setup_finalize demo_node_env demo_luck ''u1'' demo_setup
        (\<lambda>_. Inr [(''node_id'', JStr ''n1'')]) (blank_node ''/d'' None (\<lambda>_. None) None)))) = Inr m'
     \<and> load_config demo_rt m' = Inr c \<and> cc_node_serial c = ''u1'' \<and> cc_node_id c = Some ''n1''
     \<and> cc_keystore_path c = ''.aim-node/keystore.json''"
proof -
  let ?nd = "blank_node ''/d'' None (\<lambda>_. None) None" and ?market = "\<lambda>_. Inr [(''node_id'', JStr ''n1'')]"
  have "fst (setup_finalize demo_node_env demo_luck ''u1'' demo_setup ?market ?nd) = Ok_Reply"
  proof -
    have keys: "\<exists>keys nd1. use_keystore demo_node_env (keystore_path ?nd) [] (demo_fresh, Inr ()) ?nd = (Inr keys, nd1)"
      by (auto simp: use_keystore_def get_or_create_keypairs_def save_keys_def write_keystore_def read_keystore_def has_keys_def
          blank_node_def kept_fields_def split: sum.split)
    then obtain keys nd1 where u: "use_keystore demo_node_env (keystore_path ?nd) [] (demo_fresh, Inr ()) ?nd = (Inr keys, nd1)" by blast
    have c: "\<exists>c. runtime_config_from_setup demo_rt ''/d'' demo_setup [] = Inr c \<and> given (cc_upstream_url c)"
      by (simp add: runtime_config_from_setup_def demo_setup_def set_default_def jget_def setup_core_def given_def
          default_endpoint_def put_in_def load_config_def get_section_def jget_or_def core_value_def
          upstream_endpoint_def Let_def)
    have reg: "register_seller demo_node_env demo_luck demo_setup ?market ?nd = (Inr ''n1'', nd1)"
      using c u by (auto simp: register_seller_def read_config_def blank_node_def demo_luck_def held_passphrase_def demo_node_env_def
          jget_def)
    have steps: "\<exists>nd2. write_steps (setup_steps demo_node_env demo_luck ''u1'' demo_setup (Some ''n1'')) nd1 = (Inr (), nd2)"
      using use_keystore_view(6) [OF u]
      by (simp add: setup_steps_def demo_node_env_def demo_luck_def blank_node_def node_write_def persist_node_id_def
          finalize_setup_def rewrite_config_def read_config_def write_config_def demo_reads
          finalize_config_def demo_setup_def put_all_def ensure_table_def put_in_def jget_def provides_def
          put_endpoint_def or_str_def Let_def)
    have "valid_finalize demo_setup" "provides (fr_mode demo_setup)"
      by (simp_all add: valid_finalize_def demo_setup_def valid_http_url_def opt_url_ok_def given_def provides_def)
    with reg steps show ?thesis by (auto simp: setup_finalize_def finish_setup_def)
  qed
  then have fin: "setup_finalize demo_node_env demo_luck ''u1'' demo_setup ?market ?nd
      = (Ok_Reply, snd (setup_finalize demo_node_env demo_luck ''u1'' demo_setup ?market ?nd))" by (metis prod.collapse)
  have env: "en_toml demo_node_env = demo_toml" "en_rt demo_node_env = demo_rt" by (simp_all add: demo_node_env_def)
  have "read_config demo_toml (nd_config ?nd) = Inr []" by (simp add: read_config_def blank_node_def)
  moreover have "provides (fr_mode demo_setup)" by (simp add: provides_def demo_setup_def)
  ultimately show ?thesis
    using setup_takes_effect [of demo_node_env, unfolded env, OF demo_toml_ok _ _ _ _ _ _ _ _ fin] by (fastforce simp: jget_def)
qed

end
