(* ===== verification/Metrics.thy ===== *)
theory Metrics
  imports PyObject MarketAccess
begin

text \<open>
  \<open>aim_node/management/metrics.py\<close>: the call counters, the history in five-minute buckets, their
  persistence, the middleware that records each request and the two routes. Floating-point arithmetic on
  latencies is a parameter (\<open>float_ops\<close>), as are formatting and reading a time; times are
  microseconds since the epoch.
\<close>

section \<open>Data\<close>

record 'f float_ops =
  fl_zero :: 'f
  fl_add :: "'f \<Rightarrow> 'f \<Rightarrow> 'f"
  fl_mul :: "'f \<Rightarrow> int \<Rightarrow> 'f"
  fl_div :: "'f \<Rightarrow> int \<Rightarrow> 'f"
  fl_round3 :: "'f \<Rightarrow> 'f"
  fl_read :: "json \<Rightarrow> 'f res"
  fl_json :: "'f \<Rightarrow> json"

record 'f bucket =
  bk_timestamp :: string
  bk_calls :: int
  bk_errors :: int
  bk_avg :: 'f
  bk_sum :: 'f

record 'f collector =
  mc_total_calls :: int
  mc_total_errors :: int
  mc_active_sessions :: int
  mc_timeseries :: "'f bucket list"

definition max_buckets :: nat where "max_buckets = 7 * 24 * 12"

definition metrics_key :: string where "metrics_key = ''local_metrics''"
definition timeseries_key :: string where "timeseries_key = ''metrics_timeseries''"

section \<open>Loading and flushing\<close>

definition int_get :: "(string \<times> json) list \<Rightarrow> string \<Rightarrow> int res" where
  "int_get m k = py_int (jget_or m k (JInt 0))"

text \<open>An item of the persisted list; what is not an object is skipped.\<close>

fun load_bucket :: "'f float_ops \<Rightarrow> pyrt \<Rightarrow> json \<Rightarrow> 'f bucket option res" where
  "load_bucket F rt (JObj item) =
     rbind (int_get item ''calls'') (\<lambda>calls.
     rbind (fl_read F (jget_or item ''avg_latency_ms'' (JFloat (FNum 0)))) (\<lambda>avg.
     rbind (int_get item ''errors'') (\<lambda>errors.
       Inr (Some \<lparr>bk_timestamp = py_str rt (jget item ''timestamp''), bk_calls = calls, bk_errors = errors,
                  bk_avg = avg, bk_sum = fl_mul F avg calls\<rparr>))))"
| "load_bucket F rt _ = Inr None"

definition persisted_buckets :: "json \<Rightarrow> json list res" where
  "persisted_buckets v = rbind (py_get (or_else v (JObj [])) ''buckets'' (JArr [])) (\<lambda>b.
     Inr (case b of JArr xs \<Rightarrow> xs | _ \<Rightarrow> []))"

definition new_collector :: "'f float_ops \<Rightarrow> pyrt \<Rightarrow> store_files \<Rightarrow> 'f collector res" where
  "new_collector F rt files =
     rbind (rbind (read_store rt files metrics_key) (\<lambda>v. expect_obj AttributeError (or_else v (JObj [])))) (\<lambda>counters.
     rbind (int_get counters ''total_calls'') (\<lambda>calls.
     rbind (int_get counters ''total_errors'') (\<lambda>errors.
     rbind (int_get counters ''active_sessions'') (\<lambda>active.
     rbind (rbind (read_store rt files timeseries_key) persisted_buckets) (\<lambda>items.
     rbind (res_map (load_bucket F rt) items) (\<lambda>bs.
       Inr \<lparr>mc_total_calls = calls, mc_total_errors = errors, mc_active_sessions = active,
            mc_timeseries = last_n max_buckets (List.map_filter id bs)\<rparr>))))))"

definition public_bucket :: "'f float_ops \<Rightarrow> 'f bucket \<Rightarrow> 'f bucket" where
  "public_bucket F b = b\<lparr>bk_avg := fl_round3 F (bk_avg b)\<rparr>"

definition bucket_json :: "'f float_ops \<Rightarrow> 'f bucket \<Rightarrow> json" where
  "bucket_json F b = JObj [(''timestamp'', JStr (bk_timestamp b)), (''calls'', JInt (bk_calls b)),
     (''errors'', JInt (bk_errors b)), (''avg_latency_ms'', fl_json F (bk_avg (public_bucket F b)))]"

definition flush_metrics :: "'f float_ops \<Rightarrow> pyrt \<Rightarrow> 'f collector \<Rightarrow> store_files \<Rightarrow> store_files" where
  "flush_metrics F rt c files =
     write_store rt timeseries_key (JObj [(''buckets'', JArr (map (bucket_json F) (mc_timeseries c)))])
       (write_store rt metrics_key (JObj [(''total_calls'', JInt (mc_total_calls c)),
          (''total_errors'', JInt (mc_total_errors c)), (''active_sessions'', JInt (mc_active_sessions c))]) files)"

definition sync_active_sessions :: "nat \<Rightarrow> 'f collector \<Rightarrow> 'f collector" where
  "sync_active_sessions n c = c\<lparr>mc_active_sessions := int n\<rparr>"

section \<open>Recording\<close>

text \<open>The start of the bucket: the minutes past a multiple of five, the seconds and the microseconds are taken off.\<close>

definition bucket_start :: "int \<Rightarrow> int" where
  "bucket_start now =
    (let microsecond = now mod 1000000; second = now div 1000000 mod 60; minute = now div 60000000 mod 60
     in now - (minute mod 5) * 60000000 - second * 1000000 - microsecond)"

lemma bucket_start_floor: "bucket_start now = now - now mod 300000000"
proof -
  have m: "now mod (1000000 * 60) = 1000000 * (now div 1000000 mod 60) + now mod 1000000"
    by (rule zmod_zmult2_eq) simp
  have f: "now mod (60000000 * 5) = 60000000 * (now div 60000000 mod 5) + now mod 60000000"
    by (rule zmod_zmult2_eq) simp
  have c: "now div 60000000 mod 60 mod 5 = now div 60000000 mod 5"
    by (rule mod_mod_cancel) simp
  have "(1000000 * 60 :: int) = 60000000" "(60000000 * 5 :: int) = 300000000" by simp_all
  with m f c show ?thesis
    unfolding bucket_start_def Let_def by (metis (no_types) add.commute diff_diff_add mult.commute)
qed

text \<open>The series with the current bucket last.\<close>

definition current_bucket :: "'f float_ops \<Rightarrow> string \<Rightarrow> 'f bucket list \<Rightarrow> 'f bucket list" where
  "current_bucket F ts bs =
    (if bs \<noteq> [] \<and> bk_timestamp (last bs) = ts then bs
     else last_n max_buckets (bs @ [\<lparr>bk_timestamp = ts, bk_calls = 0, bk_errors = 0, bk_avg = fl_zero F, bk_sum = fl_zero F\<rparr>]))"

definition count_call :: "'f float_ops \<Rightarrow> 'f \<Rightarrow> bool \<Rightarrow> 'f bucket \<Rightarrow> 'f bucket" where
  "count_call F latency err b =
    (let calls = bk_calls b + 1; s = fl_add F (bk_sum b) latency
     in b\<lparr>bk_calls := calls, bk_errors := bk_errors b + of_bool err, bk_sum := s,
          bk_avg := (if calls \<noteq> 0 then fl_div F s calls else fl_zero F)\<rparr>)"

definition record_call :: "'f float_ops \<Rightarrow> (int \<Rightarrow> string) \<Rightarrow> int \<Rightarrow> 'f \<Rightarrow> bool \<Rightarrow> 'f collector \<Rightarrow> 'f collector" where
  "record_call F fmt now latency err c =
    (let bs = current_bucket F (fmt (bucket_start now)) (mc_timeseries c)
     in c\<lparr>mc_total_calls := mc_total_calls c + 1, mc_total_errors := mc_total_errors c + of_bool err,
          mc_timeseries := butlast bs @ [count_call F latency err (last bs)]\<rparr>)"

text \<open>The middleware: an exception or a status from 400 counts as an error.\<close>

datatype 'r handled = Raised exn | Answered int 'r

definition metrics_dispatch ::
    "'f float_ops \<Rightarrow> (int \<Rightarrow> string) \<Rightarrow> int \<Rightarrow> 'f \<Rightarrow> bool \<Rightarrow> 'r handled \<Rightarrow> 'f collector option \<Rightarrow> 'r handled \<times> 'f collector option" where
  "metrics_dispatch F fmt now latency is_http out c = (case c of
     None \<Rightarrow> (out, None)
   | Some m \<Rightarrow> if \<not> is_http then (out, Some m)
       else (out, Some (record_call F fmt now latency (case out of Raised _ \<Rightarrow> True | Answered st _ \<Rightarrow> st \<ge> 400) m)))"

section \<open>Reading\<close>

datatype 'f metric_value = Count int | Average 'f

definition range_window :: "string \<Rightarrow> int option" where
  "range_window k = map_of [(''1h'', 3600000000), (''24h'', 86400000000), (''7d'', 604800000000)] k"

definition series_for ::
    "'f float_ops \<Rightarrow> (string \<Rightarrow> int res) \<Rightarrow> int \<Rightarrow> string \<Rightarrow> string \<Rightarrow> 'f collector \<Rightarrow> (string \<times> 'f metric_value) list res" where
  "series_for F read now rng metric c = (case range_window rng of
     None \<Rightarrow> Inl (ValueError ''range must be one of 1h, 24h, 7d'')
   | Some w \<Rightarrow>
      if metric \<notin> {''calls'', ''errors'', ''latency''} then Inl (ValueError ''metric must be one of calls, errors, latency'')
      else rbind (res_map (\<lambda>b. rbind (read (bk_timestamp b)) (\<lambda>t. Inr (t, b))) (map (public_bucket F) (mc_timeseries c))) (\<lambda>tbs.
        Inr (map (\<lambda>(t, b). (bk_timestamp b,
               if metric = ''latency'' then Average (bk_avg b) else if metric = ''errors'' then Count (bk_errors b)
               else Count (bk_calls b)))
             (filter (\<lambda>(t, b). \<not> t < now - w) tbs))))"

datatype 'f series_reply = Series string string "(string \<times> 'f metric_value) list" | Series_Invalid string | Series_Fault exn

definition route_timeseries ::
    "'f float_ops \<Rightarrow> (string \<Rightarrow> int res) \<Rightarrow> int \<Rightarrow> string option \<Rightarrow> string option \<Rightarrow> 'f collector \<Rightarrow> 'f series_reply" where
  "route_timeseries F read now rng metric c =
    (let r = (case rng of None \<Rightarrow> ''1h'' | Some x \<Rightarrow> x); m = (case metric of None \<Rightarrow> ''calls'' | Some x \<Rightarrow> x)
     in case series_for F read now r m c of
          Inl (ValueError msg) \<Rightarrow> Series_Invalid msg
        | Inl e \<Rightarrow> if is_value_error e then Series_Invalid [] else Series_Fault e
        | Inr ps \<Rightarrow> Series r m ps)"

definition route_summary :: "nat option \<Rightarrow> 'f collector \<Rightarrow> (int \<times> int \<times> int) \<times> 'f collector" where
  "route_summary sessions c =
    (let c' = (case sessions of None \<Rightarrow> c | Some n \<Rightarrow> sync_active_sessions n c)
     in ((mc_total_calls c', mc_total_errors c', mc_active_sessions c'), c'))"

section \<open>What the counters say\<close>

definition bucket_ok :: "'f bucket \<Rightarrow> bool" where
  "bucket_ok b \<longleftrightarrow> 0 \<le> bk_errors b \<and> bk_errors b \<le> bk_calls b \<and> 0 < bk_calls b"

definition sum_calls :: "'f bucket list \<Rightarrow> int" where
  "sum_calls bs = sum_list (map bk_calls bs)"

definition collector_ok :: "'f collector \<Rightarrow> bool" where
  "collector_ok c \<longleftrightarrow> list_all bucket_ok (mc_timeseries c) \<and> length (mc_timeseries c) \<le> max_buckets
     \<and> 0 \<le> mc_total_errors c \<and> mc_total_errors c \<le> mc_total_calls c
     \<and> sum_calls (mc_timeseries c) \<le> mc_total_calls c
     \<and> (length (mc_timeseries c) = max_buckets \<or> sum_calls (mc_timeseries c) = mc_total_calls c)"

lemma sum_calls_append [simp]: "sum_calls (xs @ ys) = sum_calls xs + sum_calls ys"
  by (simp add: sum_calls_def)

lemma sum_calls_single [simp]: "sum_calls [b] = bk_calls b"
  by (simp add: sum_calls_def)

lemma sum_calls_nonneg: "list_all bucket_ok bs \<Longrightarrow> 0 \<le> sum_calls bs"
  by (induction bs) (auto simp: sum_calls_def bucket_ok_def)

lemma max_buckets_pos [simp]: "0 < max_buckets"
  by (simp add: max_buckets_def)

text \<open>Where the call is counted: a bucket not before seen, or the last one.\<close>

lemma current_bucket_cases:
  assumes "list_all bucket_ok bs" and "length bs \<le> max_buckets"
  obtains pre b where "current_bucket F ts bs = pre @ [b]" "list_all bucket_ok pre" "0 \<le> bk_errors b" "bk_errors b \<le> bk_calls b"
    "length pre < max_buckets" "sum_calls (pre @ [b]) \<le> sum_calls bs"
    "sum_calls (pre @ [b]) = sum_calls bs \<or> length (pre @ [b]) = max_buckets"
    "length bs \<le> length (pre @ [b])"
proof (cases "bs \<noteq> [] \<and> bk_timestamp (last bs) = ts")
  case True
  then have "current_bucket F ts bs = butlast bs @ [last bs]" by (simp add: current_bucket_def)
  moreover from True have bs: "bs = butlast bs @ [last bs]" by simp
  then have "list_all bucket_ok (butlast bs)" "bucket_ok (last bs)" using assms(1) by (metis list_all_append list.pred_inject(2))+
  moreover have "length (butlast bs) < max_buckets" using True assms(2) by (cases bs) auto
  ultimately show ?thesis
    using True bs by (intro that [of "butlast bs" "last bs"]) (auto simp: bucket_ok_def)
next
  case False
  let ?b = "\<lparr>bk_timestamp = ts, bk_calls = 0, bk_errors = 0, bk_avg = fl_zero F, bk_sum = fl_zero F\<rparr>"
  let ?pre = "last_n (max_buckets - 1) bs"
  have cur: "current_bucket F ts bs = ?pre @ [?b]"
    using False by (auto simp: current_bucket_def last_n_snoc)
  have split_bs: "bs = take (length bs - (max_buckets - 1)) bs @ ?pre" by (simp add: last_n_def)
  then have ok: "list_all bucket_ok (take (length bs - (max_buckets - 1)) bs)" "list_all bucket_ok ?pre"
    using assms(1) by (metis list_all_append)+
  from split_bs have "sum_calls bs = sum_calls (take (length bs - (max_buckets - 1)) bs) + sum_calls ?pre"
    by (metis sum_calls_append)
  with sum_calls_nonneg [OF ok(1)] have le: "sum_calls ?pre \<le> sum_calls bs" by simp
  show ?thesis
  proof (rule that [OF cur ok(2)])
    show "sum_calls (?pre @ [?b]) = sum_calls bs \<or> length (?pre @ [?b]) = max_buckets"
      by (cases "length bs \<le> max_buckets - 1") (auto simp: max_buckets_def)
  qed (use assms(2) le in \<open>auto simp: max_buckets_def\<close>)
qed

lemma record_call_ok:
  assumes "collector_ok c"
  shows "collector_ok (record_call F fmt now latency err c)"
proof -
  from assms have "list_all bucket_ok (mc_timeseries c)" "length (mc_timeseries c) \<le> max_buckets"
    by (auto simp: collector_ok_def)
  then obtain pre b where cur: "current_bucket F (fmt (bucket_start now)) (mc_timeseries c) = pre @ [b]"
    and pre: "list_all bucket_ok pre" "0 \<le> bk_errors b" "bk_errors b \<le> bk_calls b" "length pre < max_buckets"
    and sums: "sum_calls (pre @ [b]) \<le> sum_calls (mc_timeseries c)"
      "sum_calls (pre @ [b]) = sum_calls (mc_timeseries c) \<or> length (pre @ [b]) = max_buckets"
      "length (mc_timeseries c) \<le> length (pre @ [b])"
    by (rule current_bucket_cases)
  then have "mc_timeseries (record_call F fmt now latency err c) = pre @ [count_call F latency err b]"
    by (simp add: record_call_def)
  with assms pre sums show ?thesis
    by (auto simp: collector_ok_def record_call_def count_call_def bucket_ok_def Let_def)
qed

type_synonym 'f call = "int \<times> 'f \<times> bool"

definition metrics_step :: "'f float_ops \<Rightarrow> (int \<Rightarrow> string) \<Rightarrow> 'f collector \<Rightarrow> 'f call \<Rightarrow> 'f collector" where
  "metrics_step F fmt c call = (case call of (now, latency, err) \<Rightarrow> record_call F fmt now latency err c)"

interpretation metrics: monotone_system "metrics_step F fmt" collector_ok mc_total_calls for F fmt
proof unfold_locales
  show "collector_ok (metrics_step F fmt s x)" if "collector_ok s" for s x
    using that by (cases x) (simp add: metrics_step_def record_call_ok)
  show "mc_total_calls s \<le> mc_total_calls (metrics_step F fmt s x)" for s x
    by (cases x) (simp add: metrics_step_def record_call_def Let_def)
qed

lemma metrics_totals:
  "mc_total_calls (foldl (metrics_step F fmt) c calls) = mc_total_calls c + int (length calls)
   \<and> mc_total_errors (foldl (metrics_step F fmt) c calls) = mc_total_errors c + int (length (filter (\<lambda>(_, _, err). err) calls))"
  by (induction calls arbitrary: c) (auto simp: metrics_step_def record_call_def Let_def split: prod.splits)

definition empty_collector :: "'f collector" where
  "empty_collector = \<lparr>mc_total_calls = 0, mc_total_errors = 0, mc_active_sessions = 0, mc_timeseries = []\<rparr>"

lemma new_collector_empty: "new_collector F rt [] = Inr empty_collector"
  by (simp add: new_collector_def read_store_def or_else_def int_get_def jget_or_def persisted_buckets_def
      empty_collector_def List.map_filter_def)


text \<open>The counters survive a flush and a restart.\<close>

lemma restart_keeps_totals:
  assumes "new_collector F rt (flush_metrics F' rt c files) = Inr c'"
  shows "mc_total_calls c' = mc_total_calls c \<and> mc_total_errors c' = mc_total_errors c
    \<and> mc_active_sessions c' = mc_active_sessions c"
proof -
  have "read_store rt (flush_metrics F' rt c files) metrics_key = Inr (JObj [(''total_calls'', JInt (mc_total_calls c)),
      (''total_errors'', JInt (mc_total_errors c)), (''active_sessions'', JInt (mc_active_sessions c))])"
    by (simp add: flush_metrics_def metrics_key_def timeseries_key_def)
  with assms show ?thesis
    by (auto simp: new_collector_def rbind_Inr_iff or_else_def int_get_def jget_or_def)
qed

end
