(* ===== verification/App.thy ===== *)
theory App
  imports NodeReads Marketplace Metrics Logs
begin

text \<open>
  \<open>aim_node/management/app.py\<close>: the table of routes, the exception handlers, the middlewares around a handler, and
  the life of the application from its creation to its shutdown, with the parts of \<open>routes.py\<close> that
  rebuild the marketplace facade. Starlette calls the handlers; what it does for a request is written out here
  only as far as the middlewares are this program's.
\<close>

section \<open>The table of routes\<close>

datatype endpoint =
    Ep_Health | Ep_Setup_Status | Ep_Setup_Keypair | Ep_Setup_Test_Connection | Ep_Setup_Test_Upstream |
    Ep_Setup_Finalize | Ep_Dashboard | Ep_Config_Read | Ep_Config_Update | Ep_Provider_Start | Ep_Provider_Stop |
    Ep_Provider_Restart | Ep_Provider_Reload | Ep_Provider_Health | Ep_Consumer_Start | Ep_Consumer_Stop |
    Ep_Lock_Node | Ep_Sessions_List | Ep_Session_Detail | Ep_Session_Kill | Ep_Unlock | Ep_Keypair_Info |
    Ep_Keypair_Rotate | Ep_Logs_Tail | Ep_Logs_Stream_Ws | Ep_Metrics_Summary | Ep_Metrics_Timeseries |
    Ep_Tools_List_Local | Ep_Tools_Discover | Ep_Tools_Detail | Ep_Tools_Validate | Ep_Marketplace_Node |
    Ep_Tools_List | Ep_Tools_Publish | Ep_Tool_Update | Ep_Tool_Delete | Ep_Marketplace_Earnings |
    Ep_Earnings_History | Ep_Sessions | Ep_Settlements | Ep_Marketplace_Trust | Ep_Trust_Events | Ep_Traces |
    Ep_Listings | Ep_Discover | Ep_Allai_Chat | Ep_Allai_Confirm

text \<open>Method (a web socket has none of HTTP's), path pattern and handler, in the order of \<open>_routes\<close>.\<close>

definition routes :: "(string \<times> string \<times> endpoint) list" where
  "routes = [
     (''GET'', ''/api/mgmt/health'', Ep_Health),
     (''GET'', ''/api/mgmt/setup/status'', Ep_Setup_Status),
     (''POST'', ''/api/mgmt/setup/keypair'', Ep_Setup_Keypair),
     (''POST'', ''/api/mgmt/setup/test-connection'', Ep_Setup_Test_Connection),
     (''POST'', ''/api/mgmt/setup/test-upstream'', Ep_Setup_Test_Upstream),
     (''POST'', ''/api/mgmt/setup/finalize'', Ep_Setup_Finalize),
     (''GET'', ''/api/mgmt/status'', Ep_Dashboard),
     (''GET'', ''/api/mgmt/config'', Ep_Config_Read),
     (''PUT'', ''/api/mgmt/config'', Ep_Config_Update),
     (''POST'', ''/api/mgmt/provider/start'', Ep_Provider_Start),
     (''POST'', ''/api/mgmt/provider/stop'', Ep_Provider_Stop),
     (''POST'', ''/api/mgmt/provider/restart'', Ep_Provider_Restart),
     (''POST'', ''/api/mgmt/provider/reload'', Ep_Provider_Reload),
     (''GET'', ''/api/mgmt/provider/health'', Ep_Provider_Health),
     (''POST'', ''/api/mgmt/consumer/start'', Ep_Consumer_Start),
     (''POST'', ''/api/mgmt/consumer/stop'', Ep_Consumer_Stop),
     (''POST'', ''/api/mgmt/lock'', Ep_Lock_Node),
     (''GET'', ''/api/mgmt/sessions'', Ep_Sessions_List),
     (''GET'', ''/api/mgmt/sessions/{session_id}'', Ep_Session_Detail),
     (''DELETE'', ''/api/mgmt/sessions/{session_id}'', Ep_Session_Kill),
     (''POST'', ''/api/mgmt/unlock'', Ep_Unlock),
     (''GET'', ''/api/mgmt/keypair'', Ep_Keypair_Info),
     (''POST'', ''/api/mgmt/keypair/rotate'', Ep_Keypair_Rotate),
     (''GET'', ''/api/mgmt/logs'', Ep_Logs_Tail),
     (''WEBSOCKET'', ''/api/mgmt/logs/stream'', Ep_Logs_Stream_Ws),
     (''GET'', ''/api/mgmt/metrics/summary'', Ep_Metrics_Summary),
     (''GET'', ''/api/mgmt/metrics/timeseries'', Ep_Metrics_Timeseries),
     (''GET'', ''/api/mgmt/tools'', Ep_Tools_List_Local),
     (''POST'', ''/api/mgmt/tools/discover'', Ep_Tools_Discover),
     (''GET'', ''/api/mgmt/tools/{tool_id}'', Ep_Tools_Detail),
     (''POST'', ''/api/mgmt/tools/{tool_id}/validate'', Ep_Tools_Validate),
     (''GET'', ''/api/mgmt/marketplace/node'', Ep_Marketplace_Node),
     (''GET'', ''/api/mgmt/marketplace/tools'', Ep_Tools_List),
     (''POST'', ''/api/mgmt/marketplace/tools/publish'', Ep_Tools_Publish),
     (''PUT'', ''/api/mgmt/marketplace/tools/{tool_id}'', Ep_Tool_Update),
     (''DELETE'', ''/api/mgmt/marketplace/tools/{tool_id}'', Ep_Tool_Delete),
     (''GET'', ''/api/mgmt/marketplace/earnings'', Ep_Marketplace_Earnings),
     (''GET'', ''/api/mgmt/marketplace/earnings/history'', Ep_Earnings_History),
     (''GET'', ''/api/mgmt/marketplace/sessions'', Ep_Sessions),
     (''GET'', ''/api/mgmt/marketplace/settlements'', Ep_Settlements),
     (''GET'', ''/api/mgmt/marketplace/trust'', Ep_Marketplace_Trust),
     (''GET'', ''/api/mgmt/marketplace/trust/events'', Ep_Trust_Events),
     (''GET'', ''/api/mgmt/marketplace/traces'', Ep_Traces),
     (''GET'', ''/api/mgmt/marketplace/listings'', Ep_Listings),
     (''POST'', ''/api/mgmt/marketplace/discover'', Ep_Discover),
     (''POST'', ''/allai/chat'', Ep_Allai_Chat),
     (''POST'', ''/allai/confirm'', Ep_Allai_Confirm)]"

text \<open>A pattern and a path in parts; a variable stands for one part that is not empty.\<close>

datatype path_part = Fixed string | Variable string

definition pattern_parts :: "string \<Rightarrow> path_part list" where
  "pattern_parts p = map (\<lambda>s. if s \<noteq> [] \<and> hd s = CHR ''{'' then Variable (butlast (tl s)) else Fixed s) (split_char CHR ''/'' p)"

fun part_matches :: "path_part \<Rightarrow> string \<Rightarrow> bool" where
  "part_matches (Fixed s) t \<longleftrightarrow> s = t"
| "part_matches (Variable _) t \<longleftrightarrow> t \<noteq> []"

definition path_matches :: "string \<Rightarrow> string \<Rightarrow> bool" where
  "path_matches pattern path \<longleftrightarrow> list_all2 part_matches (pattern_parts pattern) (split_char CHR ''/'' path)"

fun parts_meet :: "path_part \<Rightarrow> path_part \<Rightarrow> bool" where
  "parts_meet (Fixed s) (Fixed t) \<longleftrightarrow> s = t"
| "parts_meet (Fixed s) (Variable _) \<longleftrightarrow> s \<noteq> []"
| "parts_meet (Variable _) (Fixed t) \<longleftrightarrow> t \<noteq> []"
| "parts_meet (Variable _) (Variable _) \<longleftrightarrow> True"

fun patterns_meet :: "path_part list \<Rightarrow> path_part list \<Rightarrow> bool" where
  "patterns_meet [] [] \<longleftrightarrow> True"
| "patterns_meet (p # ps) (q # qs) \<longleftrightarrow> parts_meet p q \<and> patterns_meet ps qs"
| "patterns_meet _ _ \<longleftrightarrow> False"

lemma parts_meet_common: "part_matches p t \<Longrightarrow> part_matches q t \<Longrightarrow> parts_meet p q"
  by (cases p; cases q) auto

lemma patterns_meet_common:
  "list_all2 part_matches ps ts \<Longrightarrow> list_all2 part_matches qs ts \<Longrightarrow> patterns_meet ps qs"
  by (induction ps qs arbitrary: ts rule: patterns_meet.induct) (auto simp: list_all2_Cons1 parts_meet_common)

fun no_two_meet :: "(string \<times> path_part list) list \<Rightarrow> bool" where
  "no_two_meet [] \<longleftrightarrow> True"
| "no_two_meet ((m, p) # rs) \<longleftrightarrow> list_all (\<lambda>(m', p'). m = m' \<longrightarrow> \<not> patterns_meet p p') rs \<and> no_two_meet rs"

lemma routes_no_two_meet: "no_two_meet (map (\<lambda>(m, p, _). (m, pattern_parts p)) routes)"
  by code_simp

lemma no_two_meet_unique:
  assumes "no_two_meet (map (\<lambda>(m, p, _). (m, pattern_parts p)) rs)" and "r \<in> set rs" and "r' \<in> set rs" and "fst r = fst r'"
    and "patterns_meet (pattern_parts (fst (snd r))) (pattern_parts (fst (snd r')))"
    and "patterns_meet (pattern_parts (fst (snd r'))) (pattern_parts (fst (snd r)))"
  shows "r = r'"
proof -
  obtain m p e p' e' where "r = (m, p, e)" "r' = (m, p', e')" using assms(4) by (cases r; cases r') auto
  with assms show ?thesis by (induction rs) (auto simp: list_all_iff)
qed

text \<open>The order of the table does not matter: a method and a path select at most one of its rows.\<close>

lemma routes_unambiguous:
  assumes "r \<in> set routes" and "r' \<in> set routes" and "fst r = fst r'"
    and "path_matches (fst (snd r)) path" and "path_matches (fst (snd r')) path"
  shows "r = r'"
  using assms no_two_meet_unique [OF routes_no_two_meet assms(1-3)]
  by (auto simp: path_matches_def dest: patterns_meet_common)

section \<open>Exception handlers\<close>

text \<open>What a handler may raise, with its text; \<open>details\<close> are pydantic's descriptions of the fields.\<close>

datatype app_exn =
    Precondition_Failed string | Node_Locked string | Already_Running string | Not_Running string
  | File_Exists string | Config_Failed string | Validation_Failed json | Value_Failed string
  | Http_Failed int string | Unhandled

definition text_or :: "string \<Rightarrow> string \<Rightarrow> string" where
  "text_or m d = (if m = [] then d else m)"

fun exception_response :: "string \<Rightarrow> app_exn \<Rightarrow> normalized_error \<times> int" where
  "exception_response fresh (Precondition_Failed m) =
     (make_error fresh SETUP_INCOMPLETE (text_or m ''Precondition failed'') None (Some ''Complete node setup first'') None, 412)"
| "exception_response fresh (Node_Locked m) =
     (make_error fresh NODE_LOCKED (text_or m ''Node locked'') None (Some ''Unlock the node before proceeding'') None, 423)"
| "exception_response fresh (Already_Running m) = (make_error fresh ALREADY_RUNNING (text_or m ''Already running'') None None None, 409)"
| "exception_response fresh (Not_Running m) = (make_error fresh NOT_RUNNING (text_or m ''Not running'') None None None, 409)"
| "exception_response fresh (File_Exists m) = (make_error fresh ALREADY_EXISTS (text_or m ''Already exists'') None None None, 409)"
| "exception_response fresh (Validation_Failed details) =
     (make_error fresh CONFIG_INVALID ''Validation failed'' (Some [(''fields'', details)]) None None, 422)"
| "exception_response fresh (Config_Failed m) =
     (make_error fresh CONFIG_INVALID (text_or m ''Config error'') None (Some ''Check configuration file'') None, 422)"
| "exception_response fresh (Value_Failed m) = (make_error fresh CONFIG_INVALID (text_or m ''Invalid configuration'') None None None, 422)"
| "exception_response fresh (Http_Failed st m) =
     (make_error fresh (case http_status_to_code st of None \<Rightarrow> INTERNAL_ERROR | Some c \<Rightarrow> c) (text_or m ''Request failed'') None None None, st)"
| "exception_response fresh Unhandled = (make_error fresh INTERNAL_ERROR ''An unexpected error occurred'' None None None, 500)"

text \<open>The status that goes with the code, except where the framework chose the status.\<close>

lemma exception_status:
  "(\<And>st m. x \<noteq> Http_Failed st m) \<Longrightarrow> snd (exception_response fresh x) = error_http_status (ne_code (fst (exception_response fresh x)))"
  by (cases x) (auto simp: make_error_def)

text \<open>The replies of the node's routes are those of the handlers.\<close>

fun proc_app_exn :: "proc_exn \<Rightarrow> app_exn" where
  "proc_app_exn Precondition_Exn = Precondition_Failed []"
| "proc_app_exn Locked_Exn = Node_Locked []"
| "proc_app_exn Already_Running_Exn = Already_Running []"
| "proc_app_exn Not_Running_Exn = Not_Running []"
| "proc_app_exn (Proc_Failed e) = (if is_value_error e then Value_Failed [] else Unhandled)"

lemma reply_of_proc_handlers:
  "reply_of_proc e = Err_Reply (ne_code (fst (exception_response fresh (proc_app_exn e)))) (snd (exception_response fresh (proc_app_exn e)))"
  by (cases e) (auto simp: make_error_def)

section \<open>The user interface\<close>

text \<open>The fallback route serves the page for every path of the interface; \<open>index\<close> is the page, if it was built.\<close>

definition spa_fallback :: "string option \<Rightarrow> string \<Rightarrow> app_exn + string" where
  "spa_fallback index path =
    (if prefix ''/api/'' path \<or> prefix ''/assets/'' path then Inl (Http_Failed 404 ''Not found'')
     else case index of None \<Rightarrow> Inl (Http_Failed 404 ''UI not built'') | Some page \<Rightarrow> Inr page)"

definition static_cache_header :: "string \<Rightarrow> int \<Rightarrow> bool" where
  "static_cache_header path st \<longleftrightarrow> prefix ''/assets/'' path \<and> st < 400"

section \<open>The middlewares around a handler\<close>

text \<open>
  An application for any state \<open>'s\<close> of the handlers: the tokens, the counters, the handlers' state. The handler of a request answers
  with a status or raises; the counting middleware stands around the CSRF check, and what is still raised
  outside of both becomes a 500.
\<close>

record ('f, 's) served =
  sv_tokens :: app_state
  sv_metrics :: "'f collector"
  sv_state :: 's

record 'f request_env =
  rq_fresh_csrf :: string
  rq_fresh_session :: string
  rq_fresh_id :: string
  rq_now :: int
  rq_latency :: 'f

definition gated :: "('q \<Rightarrow> 's \<Rightarrow> unit handled \<times> 's) \<Rightarrow> 'f request_env \<Rightarrow> http_request \<times> 'q \<Rightarrow> ('f, 's) served \<Rightarrow> unit handled \<times> ('f, 's) served" where
  "gated handler V q A =
    (case dispatch (rq_fresh_csrf V) (rq_fresh_session V) (rq_fresh_id V) (sv_tokens A) (fst q) of
       (Reject n st, tokens) \<Rightarrow> (Answered st (), A\<lparr>sv_tokens := tokens\<rparr>)
     | (Raise e, tokens) \<Rightarrow> (Raised e, A\<lparr>sv_tokens := tokens\<rparr>)
     | (Forward csrf cookie, tokens) \<Rightarrow>
        (case handler (snd q) (sv_state A) of (out, s) \<Rightarrow> (out, A\<lparr>sv_tokens := tokens, sv_state := s\<rparr>)))"

definition serve ::
    "'f float_ops \<Rightarrow> (int \<Rightarrow> string) \<Rightarrow> ('q \<Rightarrow> 's \<Rightarrow> unit handled \<times> 's) \<Rightarrow> 'f request_env \<Rightarrow> http_request \<times> 'q \<Rightarrow> ('f, 's) served
      \<Rightarrow> int \<times> ('f, 's) served" where
  "serve F fmt handler V q A = (case gated handler V q A of (out, A1) \<Rightarrow>
     (case metrics_dispatch F fmt (rq_now V) (rq_latency V) True out (Some (sv_metrics A1)) of (out', m) \<Rightarrow>
       (case out' of Raised _ \<Rightarrow> 500 | Answered st _ \<Rightarrow> st, A1\<lparr>sv_metrics := (case m of None \<Rightarrow> sv_metrics A1 | Some c \<Rightarrow> c)\<rparr>)))"

text \<open>A run of requests with the statuses they were answered with.\<close>

fun serve_all ::
    "'f float_ops \<Rightarrow> (int \<Rightarrow> string) \<Rightarrow> ('q \<Rightarrow> 's \<Rightarrow> unit handled \<times> 's) \<Rightarrow> ('f request_env \<times> http_request \<times> 'q) list \<Rightarrow> ('f, 's) served
      \<Rightarrow> int list \<times> ('f, 's) served" where
  "serve_all F fmt handler [] A = ([], A)"
| "serve_all F fmt handler ((V, q) # qs) A =
    (case serve F fmt handler V q A of (st, A1) \<Rightarrow> (case serve_all F fmt handler qs A1 of (sts, A2) \<Rightarrow> (st # sts, A2)))"

lemma serve_counts:
  assumes "serve F fmt handler V q A = (st, A')"
  shows "mc_total_calls (sv_metrics A') = mc_total_calls (sv_metrics A) + 1
    \<and> mc_total_errors (sv_metrics A') = mc_total_errors (sv_metrics A) + of_bool (st \<ge> 400)"
proof -
  obtain out A1 where g: "gated handler V q A = (out, A1)" by (cases "gated handler V q A")
  have "sv_metrics A1 = sv_metrics A"
    using g by (auto simp: gated_def split: prod.splits middleware_result.splits)
  with assms g show ?thesis
    by (cases out) (auto simp: serve_def metrics_dispatch_def record_call_def Let_def)
qed

text \<open>A request that the gate does not let through never reaches a handler.\<close>

lemma serve_state:
  assumes "serve F fmt handler V q A = (st, A')"
    and "hq_method (fst q) \<notin> set safe_methods" and "\<not> origin_is_loopback (hq_origin (fst q))"
    and "app_csrf_token (sv_tokens A) = Some t" and "hq_csrf_header (fst q) \<noteq> Some t"
  shows "sv_state A' = sv_state A \<and> st \<ge> 400"
proof -
  obtain r tokens where d: "dispatch (rq_fresh_csrf V) (rq_fresh_session V) (rq_fresh_id V) (sv_tokens A) (fst q) = (r, tokens)"
    by (cases "dispatch (rq_fresh_csrf V) (rq_fresh_session V) (rq_fresh_id V) (sv_tokens A) (fst q)")
  have "(\<exists>n k. r = Reject n k \<and> k \<in> {401, 403}) \<or> (\<exists>e. r = Raise e)"
    using d assms(2-5) by (auto simp: dispatch_def session_check_def csrf_token_ok_def compare_digest_def Let_def
        split: if_splits option.splits sum.splits)
  with assms(1) d show ?thesis
    by (auto simp: serve_def gated_def metrics_dispatch_def split: prod.splits)
qed

text \<open>C34: the counters of the application agree with what its clients saw: for every run of requests, whatever the gate and
  the handlers do with them, the calls grow by the number of requests and the errors by the number of answers with a
  status from 400, among them every request that the gate refused and every exception that no handler caught.\<close>

theorem served_requests_counted:
  "case serve_all F fmt handler qs A of (sts, A') \<Rightarrow>
     length sts = length qs
   \<and> mc_total_calls (sv_metrics A') = mc_total_calls (sv_metrics A) + int (length qs)
   \<and> mc_total_errors (sv_metrics A') = mc_total_errors (sv_metrics A) + int (length (filter (\<lambda>st. st \<ge> 400) sts))"
proof (induction qs arbitrary: A)
  case (Cons x qs)
  obtain V q where x: "x = (V, q)" by (cases x)
  obtain st A1 where s: "serve F fmt handler V q A = (st, A1)" by (cases "serve F fmt handler V q A")
  obtain sts A2 where r: "serve_all F fmt handler qs A1 = (sts, A2)" by (cases "serve_all F fmt handler qs A1")
  from Cons.IH [of A1] r serve_counts [OF s] s x show ?case by auto
qed simp

section \<open>From creation to shutdown\<close>

record 'f management_app =
  ma_node :: node
  ma_files :: store_files
  ma_facade :: "market_facade option"
  ma_metrics :: "'f collector"
  ma_tokens :: app_state

text \<open>The facade of a configuration file, if the file is a configuration with a node id.\<close>

definition config_facade :: "node_env \<Rightarrow> config_file \<Rightarrow> market_facade option" where
  "config_facade E f = (case read_config (en_toml E) f of
     Inl _ \<Rightarrow> None
   | Inr raw \<Rightarrow> (case load_config (en_rt E) raw of
        Inl _ \<Rightarrow> None
      | Inr c \<Rightarrow> (case facade_create (cc_node_id c) of Inl _ \<Rightarrow> None | Inr fc \<Rightarrow> Some fc)))"

text \<open>The state store is the one of the process, if an application has made it already: then the directory is not looked at.\<close>

definition process_store ::
    "node option \<Rightarrow> node_env \<Rightarrow> draw \<Rightarrow> string \<Rightarrow> config_file \<Rightarrow> (string \<Rightarrow> keystore_file) \<Rightarrow> string option \<Rightarrow> node res" where
  "process_store instance_now E d dir cfg keys env = (case instance_now of
     Some nd \<Rightarrow> Inr nd
   | None \<Rightarrow> new_store E d dir cfg keys env)"

definition create_management_app ::
    "'f float_ops \<Rightarrow> node option \<Rightarrow> node_env \<Rightarrow> draw \<Rightarrow> bool \<Rightarrow> string \<Rightarrow> config_file \<Rightarrow> (string \<Rightarrow> keystore_file) \<Rightarrow> string option \<Rightarrow> store_files
      \<Rightarrow> 'f management_app res" where
  "create_management_app F instance_now E d remote dir cfg keys env files =
     rbind (new_collector F (en_rt E) files) (\<lambda>c.
     rbind (process_store instance_now E d dir cfg keys env) (\<lambda>nd.
       Inr \<lparr>ma_node = nd, ma_files = files, ma_facade = config_facade E cfg, ma_metrics = c,
            ma_tokens = \<lparr>app_csrf_token = None, app_remote_bind = remote, app_session_token = None\<rparr>\<rparr>))"

text \<open>
  An application for another directory in the same process keeps the node of the first one: its directory, its lock, its
  sessions.
\<close>

lemma second_app_keeps_first_node:
  "create_management_app F (Some nd) E d remote dir cfg keys env files = Inr A \<Longrightarrow> ma_node A = nd"
  by (auto simp: create_management_app_def process_store_def rbind_Inr_iff)

text \<open>The end of \<open>lifespan\<close>: the counters are written, then the processes are stopped.\<close>

definition end_of_life :: "'f float_ops \<Rightarrow> node_env \<Rightarrow> 'f management_app \<Rightarrow> 'f management_app" where
  "end_of_life F E A =
    (let c = sync_active_sessions (length (nd_sessions (ma_node A))) (ma_metrics A)
     in A\<lparr>ma_metrics := c, ma_files := flush_metrics F (en_rt E) c (ma_files A), ma_node := shutdown (ma_node A)\<rparr>)"

text \<open>\<open>provider_reload\<close> with the facade, which is made anew from the file or given up.\<close>

definition app_reload :: "node_env \<Rightarrow> request_luck \<Rightarrow> 'f management_app \<Rightarrow> route_reply \<times> 'f management_app" where
  "app_reload E U A = (case provider_reload E U (ma_node A) of (rep, nd) \<Rightarrow>
     (rep, A\<lparr>ma_node := nd, ma_facade := (case fst (load_store_config E (ma_node A)) of
        Inl _ \<Rightarrow> ma_facade A | Inr _ \<Rightarrow> config_facade E (nd_config (ma_node A)))\<rparr>))"

text \<open>\<open>setup_finalize\<close> with \<open>_rebuild_marketplace_facade\<close>: after a seller's registration, once its node id is in the file.\<close>

definition app_finalize ::
    "node_env \<Rightarrow> request_luck \<Rightarrow> string \<Rightarrow> finalize_request \<Rightarrow> (keypairs \<Rightarrow> market_exn + (string \<times> json) list) \<Rightarrow> 'f management_app
      \<Rightarrow> route_reply \<times> 'f management_app" where
  "app_finalize E U uuid q market A =
    (let facade = (if \<not> valid_finalize q \<or> \<not> provides (fr_mode q) then ma_facade A
        else case register_seller E U q market (ma_node A) of
          (Inl _, _) \<Rightarrow> ma_facade A
        | (Inr s, nd1) \<Rightarrow> (case fst (persist_node_id (en_toml E) (en_rt E) (rl_write U 0) s (nd_config nd1)) of
             Inl _ \<Rightarrow> ma_facade A
           | Inr _ \<Rightarrow> (case facade_create (Some s) of Inl _ \<Rightarrow> ma_facade A | Inr f \<Rightarrow> Some f)))
     in case setup_finalize E U uuid q market (ma_node A) of (rep, nd) \<Rightarrow> (rep, A\<lparr>ma_node := nd, ma_facade := facade\<rparr>))"

text \<open>\<open>keypair_rotate\<close> with the facade, through which the market is told the new public key.\<close>

definition app_rotate :: "node_env \<Rightarrow> request_luck \<Rightarrow> market_world \<Rightarrow> 'f management_app \<Rightarrow> route_reply \<times> 'f management_app" where
  "app_rotate E U w A = (case keypair_rotate E U None (ma_node A) of
     (Ok_Reply, nd) \<Rightarrow>
       ((case (ma_facade A, get_public_keys_b64 (nd_files nd (keystore_path nd))) of
           (Some f, Inr (ed, _)) \<Rightarrow>
             (case facade_post w ''/aim/nodes/keypair'' (JObj [(''public_key'', JStr ed)]) of
                Inl (Facade_Other e) \<Rightarrow> reply_of_exn e
              | Inl (Facade_Error _ _) \<Rightarrow> Err_Reply INTERNAL_ERROR 500
              | Inr _ \<Rightarrow> Ok_Reply)
         | _ \<Rightarrow> Ok_Reply), A\<lparr>ma_node := nd\<rparr>)
   | (rep, nd) \<Rightarrow> (rep, A\<lparr>ma_node := nd\<rparr>))"

section \<open>Counters across a restart\<close>

text \<open>What the code relies on of Python's floats: the text of a history in the JSON file is read back as that history, and
  \<open>float\<close> of a number that was a float is that float.\<close>

definition history_json :: "'f float_ops \<Rightarrow> 'f bucket list \<Rightarrow> json" where
  "history_json F bs = JObj [(''buckets'', JArr (map (bucket_json F) bs))]"

definition floats_kept :: "pyrt \<Rightarrow> 'f float_ops \<Rightarrow> bool" where
  "floats_kept rt F \<longleftrightarrow> (\<forall>x. fl_read F (fl_json F x) = Inr x)
     \<and> (\<forall>bs. loads rt (dumps rt '', '' '': '' (history_json F bs)) = Inr (history_json F bs))"

definition reloaded_bucket :: "'f float_ops \<Rightarrow> 'f bucket \<Rightarrow> 'f bucket" where
  "reloaded_bucket F b = b\<lparr>bk_avg := fl_round3 F (bk_avg b), bk_sum := fl_mul F (fl_round3 F (bk_avg b)) (bk_calls b)\<rparr>"

lemma load_bucket_json: "floats_kept rt F \<Longrightarrow> load_bucket F rt (bucket_json F b) = Inr (Some (reloaded_bucket F b))"
  by (cases b) (simp add: bucket_json_def int_get_def jget_or_def jget_def floats_kept_def public_bucket_def reloaded_bucket_def)

lemma flush_read_back:
  assumes "floats_kept rt F" and "length (mc_timeseries c) \<le> max_buckets"
  shows "new_collector F rt (flush_metrics F rt c files) = Inr (c\<lparr>mc_timeseries := map (reloaded_bucket F) (mc_timeseries c)\<rparr>)"
proof -
  let ?buckets = "JArr (map (bucket_json F) (mc_timeseries c))"
  have "loads rt (dumps rt '', '' '': '' (history_json F (mc_timeseries c))) = Inr (history_json F (mc_timeseries c))"
    using assms(1) by (simp add: floats_kept_def)
  then have ts: "read_store rt (flush_metrics F rt c files) timeseries_key = Inr (JObj [(''buckets'', ?buckets)])"
    by (simp add: flush_metrics_def read_store_def write_store_def history_json_def)
  have ct: "read_store rt (flush_metrics F rt c files) metrics_key = Inr (JObj [(''total_calls'', JInt (mc_total_calls c)),
      (''total_errors'', JInt (mc_total_errors c)), (''active_sessions'', JInt (mc_active_sessions c))])"
    by (simp add: flush_metrics_def metrics_key_def timeseries_key_def)
  have "res_map (load_bucket F rt) (map (bucket_json F) bs) = Inr (map (\<lambda>b. Some (reloaded_bucket F b)) bs)" for bs
    by (induction bs) (simp_all add: load_bucket_json [OF assms(1)])
  moreover have "List.map_filter id (map (\<lambda>b. Some (g b)) xs) = map g xs" for g :: "'a bucket \<Rightarrow> 'a bucket" and xs
    by (induction xs) (simp_all add: List.map_filter_simps)
  ultimately show ?thesis using assms(2)
    by (simp add: new_collector_def ct ts or_else_def int_get_def jget_or_def persisted_buckets_def)
qed

text \<open>An application that is shut down and created again over the same data directory counts on where it stopped: the totals are
  those of the first life, the active sessions those of its last moment, and the history has the same buckets, their
  averages rounded; and before that every process was stopped.\<close>

theorem restart_counts_on:
  assumes "floats_kept (en_rt E) F" and "length (mc_timeseries (ma_metrics A)) \<le> max_buckets"
    and "create_management_app F instance_now E d remote dir cfg keys env (ma_files (end_of_life F E A)) = Inr A'"
  shows "mc_total_calls (ma_metrics A') = mc_total_calls (ma_metrics A)
    \<and> mc_total_errors (ma_metrics A') = mc_total_errors (ma_metrics A)
    \<and> mc_active_sessions (ma_metrics A') = int (length (nd_sessions (ma_node A)))
    \<and> mc_timeseries (ma_metrics A') = map (reloaded_bucket F) (mc_timeseries (ma_metrics A))
    \<and> \<not> ps_running (nd_provider (ma_node (end_of_life F E A))) \<and> \<not> ps_running (nd_consumer (ma_node (end_of_life F E A)))"
proof -
  let ?c = "sync_active_sessions (length (nd_sessions (ma_node A))) (ma_metrics A)"
  have "length (mc_timeseries ?c) \<le> max_buckets" using assms(2) by (simp add: sync_active_sessions_def)
  note reread = flush_read_back [OF assms(1) this]
  have "ma_metrics A' = ?c\<lparr>mc_timeseries := map (reloaded_bucket F) (mc_timeseries ?c)\<rparr>"
    using assms(3) by (auto simp: create_management_app_def end_of_life_def Let_def reread rbind_Inr_iff)
  moreover have "\<not> ps_running (nd_provider (shutdown nd)) \<and> \<not> ps_running (nd_consumer (shutdown nd))" for nd
    by (auto simp: shutdown_def stop_provider_def stop_consumer_def stopped_def)
  ultimately show ?thesis by (simp add: sync_active_sessions_def end_of_life_def Let_def)
qed

text \<open>Floats that are whole numbers, for a concrete life.\<close>

definition whole_floats :: "int float_ops" where
  "whole_floats = \<lparr>fl_zero = 0, fl_add = (+), fl_mul = (\<lambda>x y. x * y), fl_div = (div), fl_round3 = id, fl_read = py_int, fl_json = JInt\<rparr>"

theorem restart_counts_on_witness:
  "\<exists>A A'. create_management_app whole_floats None demo_node_env (demo_fresh, Inr ()) False ''/d'' None (\<lambda>_. None) None [] = Inr A
    \<and> (let B = A\<lparr>ma_metrics := record_call whole_floats str_of_int 1000 7 True (ma_metrics A)\<rparr> in
       create_management_app whole_floats None demo_node_env (demo_fresh, Inr ()) False ''/d'' None (\<lambda>_. None) None
         (ma_files (end_of_life whole_floats demo_node_env B)) = Inr A'
       \<and> mc_total_calls (ma_metrics A') = 1 \<and> mc_total_errors (ma_metrics A') = 1)"
proof -
  let ?create = "create_management_app whole_floats None demo_node_env (demo_fresh, Inr ()) False ''/d'' None (\<lambda>_. None) None"
  have "jwf (history_json whole_floats bs)" for bs
    by (simp add: history_json_def bucket_json_def whole_floats_def list_all_iff)
  then have kept: "floats_kept (en_rt demo_node_env) whole_floats"
    unfolding floats_kept_def by (simp add: loads_dumps) (simp add: whole_floats_def)
  obtain nd where nd: "new_store demo_node_env (demo_fresh, Inr ()) ''/d'' None (\<lambda>_. None) None = Inr nd"
    by (simp add: new_store_def load_store_config_def blank_node_def)
  have nd: "process_store None demo_node_env (demo_fresh, Inr ()) ''/d'' None (\<lambda>_. None) None = Inr nd" using nd by (simp add: process_store_def)
  obtain A where A: "?create [] = Inr A" "ma_metrics A = empty_collector"
    by (auto simp: create_management_app_def nd new_collector_empty)
  let ?B = "A\<lparr>ma_metrics := record_call whole_floats str_of_int 1000 7 True (ma_metrics A)\<rparr>"
  have len: "length (mc_timeseries (ma_metrics ?B)) \<le> max_buckets"
    by (simp add: A record_call_def empty_collector_def current_bucket_def max_buckets_def Let_def)
  let ?c = "sync_active_sessions (length (nd_sessions (ma_node ?B))) (ma_metrics ?B)"
  have "length (mc_timeseries ?c) \<le> max_buckets" using len by (simp add: sync_active_sessions_def)
  from flush_read_back [OF kept this] obtain A' where A': "?create (ma_files (end_of_life whole_floats demo_node_env ?B)) = Inr A'"
    by (auto simp: create_management_app_def nd end_of_life_def Let_def)
  from restart_counts_on [OF kept len A'] A A' show ?thesis
    by (auto simp: Let_def record_call_def empty_collector_def)
qed

end
