(* ===== verification/Cli.thy ===== *)
theory Cli
  imports App RelayService
begin

text \<open>
  \<open>aim_node/cli.py\<close>: the commands \<open>init\<close>, \<open>status\<close>, \<open>provider\<close>, \<open>consumer\<close> and \<open>serve\<close>, and the configuration template of
  \<open>aim_node/config_loader.py\<close>. The working directory holds the configuration file and the keystores; click's prompts and the
  event loop are not modelled, the calls of a command are listed in their order.
\<close>

section \<open>The template\<close>

text \<open>\<open>s.replace(old, new)\<close> with an \<open>old\<close> that is not empty.\<close>

function replace_all :: "string \<Rightarrow> string \<Rightarrow> string \<Rightarrow> string" where
  "replace_all old new [] = []"
| "replace_all old new (c # s) =
    (if old \<noteq> [] \<and> prefix old (c # s) then new @ replace_all old new (drop (length old - 1) s)
     else c # replace_all old new s)"
  by pat_completeness auto
termination by (relation "measure (\<lambda>(_, _, s). length s)") auto

definition text_lines :: "string list \<Rightarrow> string" where
  "text_lines ls = concat (map (\<lambda>l. l @ [nl_char]) ls)"

definition generate_default_config :: string where
  "generate_default_config = text_lines [
     ''[core]'',
     ''node_serial = \"__NODE_SERIAL__\"'',
     ''keystore_path = \".aim-node/keystore.json\"'',
     ''data_dir = \".aim-node\"'',
     ''market_api_url = \"https://api.ai.market\"'',
     ''market_ws_url = \"wss://api.ai.market/ws\"'',
     ''reconnect_delay_s = 5.0'',
     ''reconnect_max_delay_s = 60.0'',
     ''reconnect_jitter = 0.3'',
     ''api_key = \"\"'',
     [],
     ''[provider.adapter]'',
     ''endpoint_url = \"http://127.0.0.1:8000/invoke\"'',
     ''health_check_url = \"http://127.0.0.1:8000/health\"'',
     ''timeout_seconds = 30'',
     ''max_concurrent = 10'',
     ''max_body_bytes = 32768'',
     ''input_path = \"$\"'',
     ''wrap_key = \"input\"'',
     ''output_path = \"$\"'']"

definition config_template :: "string \<Rightarrow> string" where
  "config_template node_id = replace_all ''__NODE_SERIAL__'' node_id generate_default_config"

text \<open>The template around the node's serial.\<close>

definition template_head :: string where
  "template_head = ''[core]'' @ nl_char # ''node_serial = \"''"

definition template_rest :: string where
  "template_rest = drop (length template_head + length ''__NODE_SERIAL__'') generate_default_config"

fun no_pair :: "string \<Rightarrow> bool" where
  "no_pair [] \<longleftrightarrow> True"
| "no_pair [c] \<longleftrightarrow> True"
| "no_pair (c # d # s) \<longleftrightarrow> \<not> (c = CHR ''_'' \<and> d = CHR ''_'') \<and> no_pair (d # s)"

lemma replace_all_at: "old \<noteq> [] \<Longrightarrow> replace_all old new (old @ s) = new @ replace_all old new s"
  by (cases old) simp_all

lemma replace_all_skip:
  "no_pair s \<Longrightarrow> s = [] \<or> last s \<noteq> CHR ''_'' \<Longrightarrow>
     replace_all (CHR ''_'' # CHR ''_'' # r) new (s @ t) = s @ replace_all (CHR ''_'' # CHR ''_'' # r) new t"
  by (induction s rule: no_pair.induct) (auto split: if_splits)

lemma config_template_parts: "config_template x = template_head @ x @ template_rest"
proof -
  have whole: "generate_default_config = template_head @ ''__NODE_SERIAL__'' @ template_rest" by code_simp
  have head: "no_pair template_head \<and> last template_head \<noteq> CHR ''_''" by code_simp
  have rest: "no_pair template_rest \<and> last template_rest \<noteq> CHR ''_''" by code_simp
  have "replace_all ''__NODE_SERIAL__'' x template_rest = template_rest"
    using replace_all_skip [of template_rest "''NODE_SERIAL__''" x "[]"] rest by simp
  then have "replace_all ''__NODE_SERIAL__'' x (''__NODE_SERIAL__'' @ template_rest) = x @ template_rest"
    using replace_all_at [of "''__NODE_SERIAL__''" x template_rest] by simp
  then show ?thesis
    using replace_all_skip [of template_head "''NODE_SERIAL__''" x "''__NODE_SERIAL__'' @ template_rest"] head
    unfolding config_template_def whole by simp
qed

section \<open>The working directory\<close>

record cli_files =
  cl_config :: config_file
  cl_keys :: "string \<Rightarrow> keystore_file"

text \<open>A \<open>ClickException\<close> shows the text of the exception it was made from.\<close>

datatype cli_exn = Click_Error exn | Cli_Raised exn

definition cli_raw_config :: "node_env \<Rightarrow> cli_files \<Rightarrow> cli_exn + (string \<times> json) list" where
  "cli_raw_config E F = (case cl_config F of
     None \<Rightarrow> Inr []
   | Some txt \<Rightarrow> (case tl_load (en_toml E) txt of
        Inl e \<Rightarrow> Inl (Cli_Raised e)
      | Inr (JObj m) \<Rightarrow> Inr m
      | Inr _ \<Rightarrow> Inl (Cli_Raised TypeError)))"

definition click_guard :: "'a res \<Rightarrow> cli_exn + 'a" where
  "click_guard r = map_sum (\<lambda>e. if is_value_error e then Click_Error e else Cli_Raised e) id r"

definition build_core_config :: "node_env \<Rightarrow> (string \<times> json) list \<Rightarrow> cli_exn + core_config" where
  "build_core_config E raw = click_guard (load_config (en_rt E) raw)"

definition build_adapter_config :: "(string \<times> json) list \<Rightarrow> cli_exn + adapter_config" where
  "build_adapter_config raw = click_guard (load_adapter_config raw)"

text \<open>\<open>DeviceCrypto(config, passphrase).get_or_create_keypairs()\<close> on the files of the working directory.\<close>

definition cli_keypairs :: "node_env \<Rightarrow> core_config \<Rightarrow> string \<Rightarrow> draw \<Rightarrow> cli_files \<Rightarrow> (cli_exn + keypairs) \<times> cli_files" where
  "cli_keypairs E c p d F =
    (case get_or_create_keypairs (en_keys E) p (fst d) (snd d) (cl_keys F (cc_keystore_path c)) of
       (r, f) \<Rightarrow> (map_sum Cli_Raised id r, F\<lparr>cl_keys := (cl_keys F)(cc_keystore_path c := f)\<rparr>))"

section \<open>\<open>init\<close>\<close>

definition bootstrap_config :: "(string \<times> json) list" where
  "bootstrap_config = [(''core'', JObj [(''node_serial'', JStr ''pending-node-id''),
     (''keystore_path'', JStr ''.aim-node/keystore.json''), (''data_dir'', JStr ''.aim-node'')])]"

definition write_template :: "string \<Rightarrow> write_outcome \<Rightarrow> cli_files \<Rightarrow> (cli_exn + unit) \<times> cli_files" where
  "write_template node_id w F = (case cl_config F of
     Some _ \<Rightarrow> (Inr (), F)
   | None \<Rightarrow> (case w of
        Written \<Rightarrow> (Inr (), F\<lparr>cl_config := Some (config_template node_id)\<rparr>)
      | Not_Opened \<Rightarrow> (Inl (Cli_Raised OSError), F)
      | Broken_Off n \<Rightarrow> (Inl (Cli_Raised OSError), F\<lparr>cl_config := Some (take n (config_template node_id))\<rparr>)))"

definition init_command ::
    "node_env \<Rightarrow> (bytes \<Rightarrow> bytes) \<Rightarrow> string \<Rightarrow> draw \<Rightarrow> write_outcome \<Rightarrow> cli_files \<Rightarrow> (cli_exn + string list) \<times> cli_files" where
  "init_command E sha p d w F = (case load_config (en_rt E) bootstrap_config of
     Inl e \<Rightarrow> (Inl (Cli_Raised e), F)
   | Inr c \<Rightarrow> (case cli_keypairs E c p d F of
        (Inl e, F1) \<Rightarrow> (Inl e, F1)
      | (Inr keys, F1) \<Rightarrow>
         (let node_id = fingerprint_of sha (fst (snd keys)) in
          case write_template node_id w F1 of
            (Inl e, F2) \<Rightarrow> (Inl e, F2)
          | (Inr _, F2) \<Rightarrow> (Inr [''Initialized AIM Node: '' @ node_id, ''Keystore: .aim-node/keystore.json'', ''Config: aim-node.toml''], F2))))"

section \<open>\<open>status\<close>\<close>

definition status_lines :: "core_config \<Rightarrow> string list" where
  "status_lines c = [''node_serial: '' @ cc_node_serial c, ''keystore_path: '' @ cc_keystore_path c, ''data_dir: '' @ cc_data_dir c,
     ''market_api_url: '' @ cc_market_api_url c, ''market_ws_url: '' @ cc_market_ws_url c,
     ''api_key_configured: '' @ (if given (cc_api_key c) then ''yes'' else ''no'')]"

definition status_command :: "node_env \<Rightarrow> cli_files \<Rightarrow> cli_exn + string list" where
  "status_command E F = rbind (cli_raw_config E F) (\<lambda>raw. rbind (build_core_config E raw) (\<lambda>c. Inr (status_lines c)))"

text \<open>What is shown of an API key is whether there is one.\<close>

lemma status_hides_key: "k \<noteq> [] \<Longrightarrow> k' \<noteq> [] \<Longrightarrow> status_lines (c\<lparr>cc_api_key := Some k\<rparr>) = status_lines (c\<lparr>cc_api_key := Some k'\<rparr>)"
  by (simp add: status_lines_def given_def)

section \<open>\<open>provider\<close> and \<open>consumer\<close>\<close>

text \<open>
  The configurations and keys a command starts with. \<open>provider\<close> drops the key pairs again - its handler opens the
  keystore once more for every session -; they are in the result here so that it can be said which they are.
\<close>

definition open_provider ::
    "node_env \<Rightarrow> string \<Rightarrow> draw \<Rightarrow> cli_files \<Rightarrow> (cli_exn + core_config \<times> adapter_config \<times> keypairs) \<times> cli_files" where
  "open_provider E p d F = (case rbind (cli_raw_config E F) (\<lambda>raw.
       rbind (build_core_config E raw) (\<lambda>c. rbind (build_adapter_config raw) (\<lambda>a. Inr (c, a)))) of
     Inl e \<Rightarrow> (Inl e, F)
   | Inr (c, a) \<Rightarrow> (case cli_keypairs E c p d F of
        (Inl e, F1) \<Rightarrow> (Inl e, F1)
      | (Inr keys, F1) \<Rightarrow> (Inr (c, a, keys), F1)))"

definition open_consumer :: "node_env \<Rightarrow> string \<Rightarrow> draw \<Rightarrow> cli_files \<Rightarrow> (cli_exn + core_config \<times> keypairs) \<times> cli_files" where
  "open_consumer E p d F = (case rbind (cli_raw_config E F) (build_core_config E) of
     Inl e \<Rightarrow> (Inl e, F)
   | Inr c \<Rightarrow> (case cli_keypairs E c p d F of
        (Inl e, F1) \<Rightarrow> (Inl e, F1)
      | (Inr keys, F1) \<Rightarrow> (Inr (c, keys), F1)))"

datatype cli_call =
    Trust_Run | Handler_Start | Proxy_Start | Echo_Running | Wait_For_Signal
  | Handler_Stop | Adapter_Stop | Trust_Stop | Trust_Awaited | Proxy_Stop | Sessions_Shutdown

text \<open>The calls made, in order, up to one that raises.\<close>

fun calls :: "(cli_call \<Rightarrow> exn option) \<Rightarrow> cli_call list \<Rightarrow> unit res \<times> cli_call list" where
  "calls raises [] = (Inr (), [])"
| "calls raises (c # cs) = (case raises c of
     Some e \<Rightarrow> (Inl e, [c])
   | None \<Rightarrow> (case calls raises cs of (r, made) \<Rightarrow> (r, c # made)))"

text \<open>\<open>try: body finally: final\<close>; an exception of \<open>final\<close> replaces that of the body.\<close>

definition with_finally :: "(cli_call \<Rightarrow> exn option) \<Rightarrow> cli_call list \<Rightarrow> cli_call list \<Rightarrow> unit res \<times> cli_call list" where
  "with_finally raises body final = (case calls raises body of (r, made) \<Rightarrow>
     (case calls raises final of (r', made') \<Rightarrow> (case r' of Inl e \<Rightarrow> Inl e | Inr _ \<Rightarrow> r, made @ made')))"

definition run_provider_calls :: "(cli_call \<Rightarrow> exn option) \<Rightarrow> unit res \<times> cli_call list" where
  "run_provider_calls raises = with_finally raises [Trust_Run, Handler_Start, Echo_Running, Wait_For_Signal]
     [Handler_Stop, Adapter_Stop, Trust_Stop, Trust_Awaited]"

definition run_consumer_calls :: "(cli_call \<Rightarrow> exn option) \<Rightarrow> unit res \<times> cli_call list" where
  "run_consumer_calls raises = with_finally raises [Proxy_Start, Echo_Running, Wait_For_Signal] [Proxy_Stop, Sessions_Shutdown]"

definition run_provider_command ::
    "node_env \<Rightarrow> (cli_call \<Rightarrow> exn option) \<Rightarrow> string \<Rightarrow> draw \<Rightarrow> cli_files \<Rightarrow> (cli_exn + unit) \<times> cli_call list \<times> cli_files" where
  "run_provider_command E raises p d F = (case open_provider E p d F of
     (Inl e, F1) \<Rightarrow> (Inl e, [], F1)
   | (Inr _, F1) \<Rightarrow> (case run_provider_calls raises of (r, made) \<Rightarrow> (map_sum Cli_Raised id r, made, F1)))"

definition run_consumer_command ::
    "node_env \<Rightarrow> (cli_call \<Rightarrow> exn option) \<Rightarrow> string \<Rightarrow> draw \<Rightarrow> cli_files \<Rightarrow> (cli_exn + unit) \<times> cli_call list \<times> cli_files" where
  "run_consumer_command E raises p d F = (case open_consumer E p d F of
     (Inl e, F1) \<Rightarrow> (Inl e, [], F1)
   | (Inr _, F1) \<Rightarrow> (case run_consumer_calls raises of (r, made) \<Rightarrow> (map_sum Cli_Raised id r, made, F1)))"

text \<open>What was started is stopped, whatever happens while it runs, if the calls of the \<open>finally\<close> return.\<close>

lemma provider_stops: "(\<And>c. c \<in> {Handler_Stop, Adapter_Stop, Trust_Stop} \<Longrightarrow> raises c = None) \<Longrightarrow>
     {Handler_Stop, Adapter_Stop, Trust_Stop, Trust_Awaited} \<subseteq> set (snd (run_provider_calls raises))"
  by (auto simp: run_provider_calls_def with_finally_def split: prod.splits option.splits)

text \<open>But a \<open>stop\<close> that raises leaves out the rest: the trust channel keeps running.\<close>

lemma failed_stop_skips: "raises Handler_Stop = Some e \<Longrightarrow> Trust_Stop \<notin> set (snd (run_provider_calls raises)) \<and> fst (run_provider_calls raises) = Inl e"
  by (auto simp: run_provider_calls_def with_finally_def split: prod.splits option.splits)

section \<open>\<open>serve\<close>\<close>

definition remote_host :: "string \<Rightarrow> bool" where
  "remote_host host \<longleftrightarrow> host \<notin> {''127.0.0.1'', ''localhost'', ''::1''}"

definition serve_command ::
    "'f float_ops \<Rightarrow> node_env \<Rightarrow> draw \<Rightarrow> string \<Rightarrow> string \<Rightarrow> config_file \<Rightarrow> (string \<Rightarrow> keystore_file) \<Rightarrow> string option \<Rightarrow> store_files
      \<Rightarrow> 'f management_app res" where
  "serve_command F E d data_dir host = create_management_app F None E d (remote_host host) data_dir"

section \<open>From \<open>init\<close> to \<open>provider\<close>\<close>

text \<open>The template as a table, as TOML says it is read.\<close>

definition template_table :: "pyrt \<Rightarrow> string \<Rightarrow> (string \<times> json) list" where
  "template_table rt node_id = [
     (''core'', JObj [(''node_serial'', JStr node_id), (''keystore_path'', JStr ''.aim-node/keystore.json''),
        (''data_dir'', JStr ''.aim-node''), (''market_api_url'', JStr ''https://api.ai.market''),
        (''market_ws_url'', JStr ''wss://api.ai.market/ws''), (''reconnect_delay_s'', JFloat (rt_float rt ''5.0'')),
        (''reconnect_max_delay_s'', JFloat (rt_float rt ''60.0'')), (''reconnect_jitter'', JFloat (rt_float rt ''0.3'')),
        (''api_key'', JStr [])]),
     (''provider'', JObj [(''adapter'', JObj [(''endpoint_url'', JStr ''http://127.0.0.1:8000/invoke''),
        (''health_check_url'', JStr ''http://127.0.0.1:8000/health''), (''timeout_seconds'', JInt 30), (''max_concurrent'', JInt 10),
        (''max_body_bytes'', JInt 32768), (''input_path'', JStr ''$''), (''wrap_key'', JStr ''input''), (''output_path'', JStr ''$'')])])]"

definition template_read :: "toml_lib \<Rightarrow> pyrt \<Rightarrow> bool" where
  "template_read L rt \<longleftrightarrow> (\<forall>bs. tl_load L (config_template (to_hex bs)) = Inr (JObj (template_table rt (to_hex bs))))"

lemma template_core_config:
  assumes "x \<noteq> []"
  shows "\<exists>c. load_config rt (template_table rt x) = Inr c \<and> cc_node_serial c = x \<and> cc_keystore_path c = ''.aim-node/keystore.json''
    \<and> cc_data_dir c = ''.aim-node'' \<and> \<not> given (cc_api_key c)"
  using assms
  by (simp add: load_config_def template_table_def core_value_def jget_or_def jget_def upstream_endpoint_def get_section_def or_str_def given_def)

lemma template_adapter_config:
  "\<exists>a. load_adapter_config (template_table rt x) = Inr a \<and> ac_endpoint_url a = ''http://127.0.0.1:8000/invoke'' \<and> ac_max_body_bytes a = 32768"
  by (simp add: load_adapter_config_def template_table_def jget_def jget_or_def get_section_def)

lemma bootstrap_keystore: "\<exists>c. load_config rt bootstrap_config = Inr c \<and> cc_keystore_path c = ''.aim-node/keystore.json''"
  by (simp add: load_config_def bootstrap_config_def core_value_def jget_or_def jget_def upstream_endpoint_def get_section_def or_str_def)

lemma cli_keypairs_path:
  "cc_keystore_path c = path \<Longrightarrow> cli_keypairs E c p d F =
     (case get_or_create_keypairs (en_keys E) p (fst d) (snd d) (cl_keys F path) of
        (r, f) \<Rightarrow> (map_sum Cli_Raised id r, F\<lparr>cl_keys := (cl_keys F)(path := f)\<rparr>))"
  by (simp add: cli_keypairs_def)

lemma init_made:
  assumes "init_command E sha p d Written F = (Inr out, F')" and "cl_config F = None"
  obtains keys f where "get_or_create_keypairs (en_keys E) p (fst d) (snd d) (cl_keys F ''.aim-node/keystore.json'') = (Inr keys, f)"
    and "F' = F\<lparr>cl_keys := (cl_keys F)(''.aim-node/keystore.json'' := f), cl_config := Some (config_template (fingerprint_of sha (fst (snd keys))))\<rparr>"
proof -
  obtain c where c: "load_config (en_rt E) bootstrap_config = Inr c" "cc_keystore_path c = ''.aim-node/keystore.json''"
    using bootstrap_keystore by blast
  obtain r f where g: "get_or_create_keypairs (en_keys E) p (fst d) (snd d) (cl_keys F ''.aim-node/keystore.json'') = (r, f)"
    by fastforce
  from assms c obtain keys where "r = Inr keys"
    by (cases r) (auto simp: init_command_def cli_keypairs_path [OF c(2)] g)
  with assms c g that show thesis
    by (auto simp: init_command_def cli_keypairs_path [OF c(2)] write_template_def Let_def)
qed

text \<open>The configuration and the keys with which \<open>provider\<close> starts, when the configuration file is the template.\<close>

lemma open_provider_template:
  assumes "template_read (en_toml E) (en_rt E)" and "cl_config F = Some (config_template (to_hex x))" and "x \<noteq> []"
  shows "\<exists>c a. cc_node_serial c = to_hex x \<and> ac_endpoint_url a = ''http://127.0.0.1:8000/invoke''
    \<and> (\<forall>q d. open_provider E q d F =
         (case get_or_create_keypairs (en_keys E) q (fst d) (snd d) (cl_keys F ''.aim-node/keystore.json'') of
            (r, f) \<Rightarrow> (map_sum Cli_Raised (\<lambda>keys. (c, a, keys)) r, F\<lparr>cl_keys := (cl_keys F)(''.aim-node/keystore.json'' := f)\<rparr>)))"
proof -
  have "to_hex x \<noteq> []" using assms(3) by (cases x) (simp_all add: to_hex_def)
  then obtain c where c: "load_config (en_rt E) (template_table (en_rt E) (to_hex x)) = Inr c" "cc_node_serial c = to_hex x"
    "cc_keystore_path c = ''.aim-node/keystore.json''" using template_core_config by blast
  obtain a where a: "load_adapter_config (template_table (en_rt E) (to_hex x)) = Inr a" "ac_endpoint_url a = ''http://127.0.0.1:8000/invoke''"
    using template_adapter_config by blast
  have "cli_raw_config E F = Inr (template_table (en_rt E) (to_hex x))"
    using assms(1,2) by (simp add: cli_raw_config_def template_read_def)
  then have "open_provider E q d F =
         (case get_or_create_keypairs (en_keys E) q (fst d) (snd d) (cl_keys F ''.aim-node/keystore.json'') of
            (r, f) \<Rightarrow> (map_sum Cli_Raised (\<lambda>keys. (c, a, keys)) r, F\<lparr>cl_keys := (cl_keys F)(''.aim-node/keystore.json'' := f)\<rparr>))" for q d
    by (simp add: open_provider_def build_core_config_def build_adapter_config_def click_guard_def c(1) a(1)
        cli_keypairs_path [OF c(3)] map_sum_def split: prod.split sum.split)
  with c(2) a(2) show ?thesis by blast
qed

text \<open>C37: a node made by \<open>init\<close> in an empty directory is one that \<open>provider\<close> can run: with the passphrase of \<open>init\<close> it starts with the
  key pairs that \<open>init\<close> made, under a configuration whose node serial is the fingerprint of their public key and whose
  adapter is the template's; with a passphrase that derives another key it is refused, and neither attempt changes a file.\<close>

theorem init_then_provider:
  assumes "template_read (en_toml E) (en_rt E)" and "\<And>b. length (sha b) = 32"
    and "fernet_ok (en_keys E)" and "pubs_ok (en_keys E)" and "fresh_ok (fst d)"
    and "cl_config F = None" and "cl_keys F ''.aim-node/keystore.json'' = None"
    and "init_command E sha p d Written F = (Inr out, F')"
  shows "\<exists>c a keys. open_provider E p d' F' = (Inr (c, a, keys), F')
    \<and> cc_node_serial c = fingerprint_of sha (fst (snd keys)) \<and> ac_endpoint_url a = ''http://127.0.0.1:8000/invoke''
    \<and> (derive_fernet_key (en_keys E) q (fk_ed_salt (fst d)) \<noteq> derive_fernet_key (en_keys E) p (fk_ed_salt (fst d)) \<longrightarrow>
         open_provider E q d' F' = (Inl (Cli_Raised (LibError ''InvalidToken'')), F'))"
proof -
  obtain keys f where keys: "get_or_create_keypairs (en_keys E) p (fst d) (snd d) None = (Inr keys, f)"
    and F': "F' = F\<lparr>cl_keys := (cl_keys F)(''.aim-node/keystore.json'' := f), cl_config := Some (config_template (fingerprint_of sha (fst (snd keys))))\<rparr>"
    using init_made [OF assms(8,6)] assms(7) by metis
  have blank: "read_keystore None = Inr JNull" "has_keys JNull = Inr False" by (simp_all add: read_keystore_def has_keys_def)
  have h: "holds_keys (en_keys E) p (fst d) f"
    and made: "keys = (fk_ed_private (fst d), kl_ed_public (en_keys E) (fk_ed_private (fst d)), fk_x_private (fst d), kl_x_public (en_keys E) (fk_x_private (fst d)))"
    using keys blank by (auto simp: get_or_create_keypairs_def split: prod.splits sum.splits dest: save_keys_holds)
  have "sha (fst (snd keys)) \<noteq> []" using assms(2) [of "fst (snd keys)"] by auto
  from open_provider_template [OF assms(1) _ this, of F'] obtain c a where
    ca: "cc_node_serial c = fingerprint_of sha (fst (snd keys))" "ac_endpoint_url a = ''http://127.0.0.1:8000/invoke''"
      "\<And>q d. open_provider E q d F' =
         (case get_or_create_keypairs (en_keys E) q (fst d) (snd d) (cl_keys F' ''.aim-node/keystore.json'') of
            (r, f) \<Rightarrow> (map_sum Cli_Raised (\<lambda>keys. (c, a, keys)) r, F'\<lparr>cl_keys := (cl_keys F')(''.aim-node/keystore.json'' := f)\<rparr>))"
    by (auto simp: F' fingerprint_of_def)
  have same: "F'\<lparr>cl_keys := (cl_keys F')(''.aim-node/keystore.json'' := f)\<rparr> = F'" by (simp add: F')
  have opens: "get_or_create_keypairs (en_keys E) p (fst d') (snd d') f = (Inr keys, f)"
    using holds_keys_loads [OF h assms(3-5)] made by simp
  have refuses: "derive_fernet_key (en_keys E) q (fk_ed_salt (fst d)) \<noteq> derive_fernet_key (en_keys E) p (fk_ed_salt (fst d)) \<Longrightarrow>
      get_or_create_keypairs (en_keys E) q (fst d') (snd d') f = (Inl (LibError ''InvalidToken''), f)"
    using holds_keys_refuses [OF h assms(3,4)] by simp
  have "cl_keys F' ''.aim-node/keystore.json'' = f" by (simp add: F')
  with ca opens refuses same show ?thesis by (intro exI [of _ c] exI [of _ a] exI [of _ keys]) simp
qed

text \<open>A TOML reader that knows the template.\<close>

definition template_toml :: toml_lib where
  "template_toml = \<lparr>tl_load = \<lambda>txt. Inr (JObj (template_table demo_rt (takeWhile (\<lambda>c. c \<noteq> CHR 0x22) (drop (length template_head) txt)))),
     tl_dump = None\<rparr>"

definition template_env :: node_env where
  "template_env = \<lparr>en_keys = demo_keys, en_toml = template_toml, en_rt = demo_rt\<rparr>"

lemma hex_char_no_quote: "n < 16 \<Longrightarrow> CHR 0x22 \<noteq> hex_char n"
  by (auto simp: hex_char_def dest!: arg_cong [of _ _ code] split: if_splits)

lemma to_hex_no_quote: "CHR 0x22 \<notin> set (to_hex bs)"
proof (induction bs)
  case (Cons b bs)
  have "unat b div 16 < 16" using unat_byte_lt [of b] by (intro less_mult_imp_div_less) simp
  then show ?case using Cons by (simp add: to_hex_def hex_char_no_quote)
qed (simp add: to_hex_def)

lemma template_toml_reads: "template_read template_toml demo_rt"
proof -
  have "hd template_rest = CHR 0x22 \<and> template_rest \<noteq> []" by code_simp
  then obtain r where r: "template_rest = CHR 0x22 # r" by (metis list.collapse)
  have "takeWhile (\<lambda>c. c \<noteq> CHR 0x22) template_rest = []" by (simp add: r)
  then have "takeWhile (\<lambda>c. c \<noteq> CHR 0x22) (to_hex bs @ template_rest) = to_hex bs" for bs
    by (subst takeWhile_append2) (use to_hex_no_quote [of bs] in auto)
  then show ?thesis by (simp add: template_read_def template_toml_def config_template_parts)
qed

theorem init_then_provider_witness:
  "\<exists>out F' c a keys. init_command template_env (\<lambda>_. replicate 32 5) ''pw'' (demo_fresh, Inr ()) Written \<lparr>cl_config = None, cl_keys = \<lambda>_. None\<rparr> = (Inr out, F')
     \<and> open_provider template_env ''pw'' (demo_fresh, Inr ()) F' = (Inr (c, a, keys), F') \<and> cc_node_serial c = to_hex (replicate 32 5)
     \<and> open_provider template_env ''guess'' (demo_fresh, Inr ()) F' = (Inl (Cli_Raised (LibError ''InvalidToken'')), F')"
proof -
  let ?F = "\<lparr>cl_config = None, cl_keys = \<lambda>_. None\<rparr>" and ?sha = "\<lambda>_ :: bytes. replicate 32 (5 :: 8 word)"
  have reads: "template_read (en_toml template_env) (en_rt template_env)"
    and laws: "fernet_ok (en_keys template_env)" "pubs_ok (en_keys template_env)" "fresh_ok (fst (demo_fresh, Inr () :: unit res))"
    using template_toml_reads demo_keys_ok by (simp_all add: template_env_def)
  obtain c where c: "load_config demo_rt bootstrap_config = Inr c" "cc_keystore_path c = ''.aim-node/keystore.json''"
    using bootstrap_keystore by blast
  have "\<exists>keys f. get_or_create_keypairs demo_keys ''pw'' demo_fresh (Inr ()) None = (Inr keys, f)"
    by (simp add: get_or_create_keypairs_def read_keystore_def has_keys_def save_keys_def kept_fields_def write_keystore_def)
  then obtain out F' where made: "init_command template_env ?sha ''pw'' (demo_fresh, Inr ()) Written ?F = (Inr out, F')"
    by (auto simp: init_command_def template_env_def c(1) cli_keypairs_path [OF c(2)] write_template_def Let_def)
  have other: "derive_fernet_key (en_keys template_env) ''guess'' (fk_ed_salt (fst (demo_fresh, Inr () :: unit res)))
      \<noteq> derive_fernet_key (en_keys template_env) ''pw'' (fk_ed_salt (fst (demo_fresh, Inr () :: unit res)))"
    unfolding template_env_def by code_simp
  from init_then_provider [OF reads _ laws _ _ made, of "(demo_fresh, Inr ())" "''guess''"] other made show ?thesis
    by (auto simp: fingerprint_of_def)
qed

section \<open>The end of \<open>consumer\<close>\<close>

text \<open>
  \<open>_shutdown_consumer_sessions\<close>: every session is closed, whatever the market answers and whatever a closing raises. The result
  lists the sessions with their closed transports.
\<close>

fun close_sessions ::
    "crypto_lib \<Rightarrow> pyrt \<Rightarrow> (string \<Rightarrow> unit res) \<Rightarrow> string list \<Rightarrow> session_manager \<Rightarrow> session_manager \<times> (string \<times> relay_transport option) list" where
  "close_sessions C rt market [] sm = (sm, [])"
| "close_sessions C rt market (sid # sids) sm = (case sm_close C rt sm sid (market sid) of (_, sm1, tp) \<Rightarrow>
     (case close_sessions C rt market sids sm1 of (sm2, shut) \<Rightarrow> (sm2, (sid, tp) # shut)))"

definition shutdown_consumer_sessions ::
    "crypto_lib \<Rightarrow> pyrt \<Rightarrow> (string \<Rightarrow> unit res) \<Rightarrow> session_manager \<Rightarrow> session_manager \<times> (string \<times> relay_transport option) list" where
  "shutdown_consumer_sessions C rt market sm = close_sessions C rt market (dict_keys (sm_sessions sm)) sm"

definition transport_down :: "keepalive option \<Rightarrow> session_state \<Rightarrow> relay_transport option \<Rightarrow> bool" where
  "transport_down task st tp \<longleftrightarrow> await_keepalive task = Inr () \<longrightarrow> (case ss_transport st of None \<Rightarrow> tp = None | Some _ \<Rightarrow> \<exists>t. tp = Some t \<and> tp_state t = Closed)"

lemma sm_close_down:
  assumes "map_of (sm_sessions sm) sid = Some st"
  shows "\<exists>r tp. sm_close C rt sm sid ans = (r, sm\<lparr>sm_sessions := dict_del sid (sm_sessions sm),
      sm_keepalive_tasks := dict_del sid (sm_keepalive_tasks sm)\<rparr>, tp)
    \<and> transport_down (map_of (sm_keepalive_tasks sm) sid) st tp"
proof -
  have "tp_state (snd (close_transport C rt t r)) = Closed" for t r
    using close_transport_closes [of t C rt r]
    by (cases "tp_state t = Closed") (auto simp: close_transport_def close_ws_def)
  with assms show ?thesis
    by (cases "ss_transport st"; cases "await_keepalive (map_of (sm_keepalive_tasks sm) sid)")
       (auto simp: sm_close_def transport_down_def Let_def)
qed

lemma dict_del_head: "distinct (dict_keys ((k, v) # d)) \<Longrightarrow> dict_del k ((k, v) # d) = d"
  by (auto simp: dict_del_def filter_id_conv)

lemma close_sessions_down:
  "distinct (dict_keys ss) \<Longrightarrow> sm_sessions sm = ss \<Longrightarrow> close_sessions C rt market (dict_keys ss) sm = (sm', closed_now) \<Longrightarrow>
     sm_sessions sm' = [] \<and> list_all2 (\<lambda>(sid, st) (sid', tp). sid = sid'
       \<and> transport_down (map_of (sm_keepalive_tasks sm) sid) st tp) ss closed_now"
proof (induction ss arbitrary: sm closed_now)
  case (Cons x ss)
  obtain sid st where x: "x = (sid, st)" by (cases x)
  let ?sm = "sm\<lparr>sm_sessions := ss, sm_keepalive_tasks := dict_del sid (sm_keepalive_tasks sm)\<rparr>"
  have here: "map_of (sm_sessions sm) sid = Some st" and gone: "dict_del sid (sm_sessions sm) = ss"
    using Cons.prems(1,2) dict_del_head [of sid st ss] by (simp_all add: x)
  from sm_close_down [OF here, of C rt "market sid"] obtain r tp where
    tp: "sm_close C rt sm sid (market sid) = (r, ?sm, tp)" "transport_down (map_of (sm_keepalive_tasks sm) sid) st tp"
    unfolding gone by blast
  obtain cs where "close_sessions C rt market (dict_keys ss) ?sm = (sm', cs)" "closed_now = (sid, tp) # cs"
    using Cons.prems(3) by (auto simp: x tp(1) split: prod.splits)
  moreover have "map_of (sm_keepalive_tasks ?sm) k = map_of (sm_keepalive_tasks sm) k" if "(k, s) \<in> set ss" for k s
    using Cons.prems(1) that by (force simp: x)
  ultimately show ?case using Cons.IH [of ?sm cs] Cons.prems(1) tp(2)
    by (auto simp: x elim!: list.rel_mono_strong)
qed simp

text \<open>After the command no session is left, and the transport of every session whose keepalive task had not failed is
  closed, if it had one, also when the market refuses every closing.\<close>

lemma shutdown_closes_sessions:
  "distinct (dict_keys (sm_sessions sm)) \<Longrightarrow> shutdown_consumer_sessions C rt market sm = (sm', closed_now) \<Longrightarrow>
     sm_sessions sm' = [] \<and> list_all2 (\<lambda>(sid, st) (sid', tp). sid = sid'
       \<and> transport_down (map_of (sm_keepalive_tasks sm) sid) st tp) (sm_sessions sm) closed_now"
  unfolding shutdown_consumer_sessions_def by (rule close_sessions_down) simp_all

end
