(* ===== verification/LogFormat.thy ===== *)
theory LogFormat
  imports OfflineQueue
begin

text \<open>
  \<open>aim_node/core/logging.py\<close>: the JSON lines of the log file, and the handlers that \<open>setup_logging\<close> and the ring buffer of
  \<open>aim_node/management/logs.py\<close> install. The reading of the clock as text is an argument; the rotation of the file is the
  standard library's.
\<close>

section \<open>The formatter\<close>

record logging_record =
  lr_created :: rat
  lr_levelname :: string
  lr_name :: string
  lr_message :: string
  lr_exception :: "string option"

text \<open>The three context variables.\<close>

record log_context =
  lc_request_id :: "string option"
  lc_correlation_id :: "string option"
  lc_session_id :: "string option"

definition service_name :: string where
  "service_name = ''aim-node''"

definition context_member :: "string \<Rightarrow> string option \<Rightarrow> (string \<times> json) list" where
  "context_member k v = (case v of None \<Rightarrow> [] | Some s \<Rightarrow> if s = [] then [] else [(k, JStr s)])"

definition log_payload :: "(rat \<Rightarrow> string) \<Rightarrow> string \<Rightarrow> log_context \<Rightarrow> logging_record \<Rightarrow> json" where
  "log_payload gmtime version X r = JObj ([
     (''ts'', JStr (gmtime (lr_created r))), (''level'', JStr (lower (lr_levelname r))), (''logger'', JStr (lr_name r)),
     (''event'', JStr (lr_message r)), (''service'', JStr service_name), (''version'', JStr version)]
     @ (case lr_exception r of None \<Rightarrow> [] | Some t \<Rightarrow> [(''exception'', JStr t)])
     @ context_member ''request_id'' (lc_request_id X)
     @ context_member ''correlation_id'' (lc_correlation_id X)
     @ context_member ''session_id'' (lc_session_id X))"

definition format_record :: "pyrt \<Rightarrow> (rat \<Rightarrow> string) \<Rightarrow> string \<Rightarrow> log_context \<Rightarrow> logging_record \<Rightarrow> string" where
  "format_record rt gmtime version X r = dumps rt '', '' '': '' (log_payload gmtime version X r)"

text \<open>The handler writes every record with a line break behind it.\<close>

definition log_file_text :: "pyrt \<Rightarrow> (rat \<Rightarrow> string) \<Rightarrow> string \<Rightarrow> (log_context \<times> logging_record) list \<Rightarrow> string" where
  "log_file_text rt gmtime version rs = concat (map (\<lambda>(X, r). format_record rt gmtime version X r @ [nl]) rs)"

lemma log_payload_jwf: "jwf (log_payload gmtime version X r)"
  by (cases "lr_exception r"; cases "lc_request_id X"; cases "lc_correlation_id X"; cases "lc_session_id X")
     (simp_all add: log_payload_def context_member_def)

lemma split_lines_read: "list_all (list_all visible) ls \<Longrightarrow> file_lines (concat (map (\<lambda>l. l @ [nl]) ls)) = ls"
  using lines_of_file [of ls] by (simp add: file_lines_def Let_def)

text \<open>The log file is one JSON object to a line: whatever the messages, the names and the tracebacks contain, line breaks
  and quotation marks among it, the file has as many lines as records, and every line is read back as the payload of its
  record with the message unchanged.\<close>

theorem log_lines_read_back:
  "map (loads rt) (file_lines (log_file_text rt gmtime version rs)) = map (\<lambda>(X, r). Inr (log_payload gmtime version X r)) rs
   \<and> list_all (\<lambda>(X, r). \<exists>m. log_payload gmtime version X r = JObj m \<and> jget m ''event'' = JStr (lr_message r)
        \<and> (case lc_session_id X of Some s \<Rightarrow> s = [] \<or> jget m ''session_id'' = JStr s | None \<Rightarrow> True)) rs"
proof -
  let ?ls = "map (\<lambda>(X, r). format_record rt gmtime version X r) rs"
  have "log_file_text rt gmtime version rs = concat (map (\<lambda>l. l @ [nl]) ?ls)"
    by (simp add: log_file_text_def comp_def case_prod_unfold)
  moreover have "list_all (list_all visible) ?ls"
    using dumps_visible(1) [OF log_payload_jwf]
    by (auto simp: list.pred_map list_all_iff [of _ rs] format_record_def comp_def)
  ultimately have "file_lines (log_file_text rt gmtime version rs) = ?ls" by (simp only: split_lines_read)
  moreover have "map (loads rt) ?ls = map (\<lambda>(X, r). Inr (log_payload gmtime version X r)) rs"
    by (auto simp: format_record_def loads_dumps log_payload_jwf)
  ultimately show ?thesis
    by (auto simp: list_all_iff log_payload_def jget_def context_member_def split: option.split)
qed

section \<open>Handlers\<close>

datatype log_handler = Console_Handler | File_Handler string | Ring_Handler nat | Other_Handler nat

record logger_state =
  lg_level :: int
  lg_handlers :: "log_handler list"

definition noisy_loggers :: "string list" where
  "noisy_loggers = [''httpcore'', ''httpx'', ''urllib3'', ''asyncio'', ''watchfiles'', ''websockets'']"

text \<open>The root logger and the levels of the others; \<open>opened\<close> is whether the log file can be opened.\<close>

definition setup_logging ::
    "bool \<Rightarrow> string \<Rightarrow> string \<Rightarrow> int \<Rightarrow> logger_state \<Rightarrow> (string, int) dict \<Rightarrow> logger_state \<times> (string, int) dict" where
  "setup_logging opened log_dir log_file level lg levels =
    (lg\<lparr>lg_level := level, lg_handlers := Console_Handler # (if opened then [File_Handler (log_dir @ CHR ''/'' # log_file)] else [])\<rparr>,
     fold (\<lambda>name. dict_set name 30) noisy_loggers levels)"

fun is_ring :: "log_handler \<Rightarrow> bool" where
  "is_ring (Ring_Handler _) = True"
| "is_ring _ = False"

definition install_ring_buffer_handler :: "nat \<Rightarrow> logger_state \<Rightarrow> logger_state" where
  "install_ring_buffer_handler i lg = lg\<lparr>lg_handlers := filter (\<lambda>h. \<not> is_ring h) (lg_handlers lg) @ [Ring_Handler i]\<rparr>"

definition remove_ring_buffer_handler :: "nat option \<Rightarrow> logger_state \<Rightarrow> logger_state" where
  "remove_ring_buffer_handler h lg = (case h of
     None \<Rightarrow> lg
   | Some i \<Rightarrow> if Ring_Handler i \<in> set (lg_handlers lg) then lg\<lparr>lg_handlers := remove1 (Ring_Handler i) (lg_handlers lg)\<rparr> else lg)"

text \<open>An application that is created while another one runs takes the log over: the first one's handler is gone, and the
  first one's shutdown does not take the second one's away.\<close>

lemma ring_taken_over:
  assumes "i \<noteq> j"
  shows "filter is_ring (lg_handlers (remove_ring_buffer_handler (Some i)
      (install_ring_buffer_handler j (install_ring_buffer_handler i lg)))) = [Ring_Handler j]"
  using assms by (auto simp: install_ring_buffer_handler_def remove_ring_buffer_handler_def filter_empty_conv)

lemma one_ring: "filter is_ring (lg_handlers (install_ring_buffer_handler i lg)) = [Ring_Handler i]"
  by (auto simp: install_ring_buffer_handler_def filter_empty_conv)

end
