(* ===== verification/SessionKill.thy ===== *)
theory SessionKill
  imports NodeSafety Consumer Provider
begin

text \<open>
  The sessions of a running node: the list of the state store, the buyer's session manager and the seller's session handler,
  and \<open>session_kill\<close> of \<open>aim_node/management/routes.py\<close>, which goes through all three.
\<close>

section \<open>Killing a session\<close>

text \<open>The managers exist while the consumer and the provider run.\<close>

record live_node =
  lv_node :: node
  lv_consumer :: "session_manager option"
  lv_provider :: "provider_handler option"

text \<open>\<open>session_mgr.close_session\<close> with every exception suppressed; the market's answer is an argument.\<close>

definition kill_in_consumer ::
    "crypto_lib \<Rightarrow> pyrt \<Rightarrow> unit res \<Rightarrow> string \<Rightarrow> session_manager option \<Rightarrow> session_manager option \<times> relay_transport option" where
  "kill_in_consumer C rt market sid mgr = (case mgr of
     None \<Rightarrow> (None, None)
   | Some sm \<Rightarrow> (case sm_close C rt sm sid market of (_, sm', tp) \<Rightarrow> (Some sm', tp)))"

definition kill_in_provider ::
    "crypto_lib \<Rightarrow> pyrt \<Rightarrow> string \<Rightarrow> provider_handler option \<Rightarrow> provider_handler option \<times> relay_transport option" where
  "kill_in_provider C rt sid handler = (case handler of
     None \<Rightarrow> (None, None)
   | Some p \<Rightarrow> (Some (p\<lparr>ph_session_tasks := dict_del sid (ph_session_tasks p),
                        ph_active_sessions := dict_del sid (ph_active_sessions p)\<rparr>),
                map_option (\<lambda>t. snd (close_transport C rt t ''admin_kill'')) (map_of (ph_active_sessions p) sid)))"

text \<open>The result lists the transports that were closed.\<close>

definition session_kill_live ::
    "crypto_lib \<Rightarrow> pyrt \<Rightarrow> unit res \<Rightarrow> string \<Rightarrow> live_node \<Rightarrow> route_reply \<times> live_node \<times> relay_transport option \<times> relay_transport option" where
  "session_kill_live C rt market sid L =
    (if find (\<lambda>s. sn_session_id s = sid) (nd_sessions (lv_node L)) = None then (Err_Reply NOT_FOUND 404, L, None, None)
     else (case kill_in_consumer C rt market sid (lv_consumer L) of (mgr, tp) \<Rightarrow>
       (case kill_in_provider C rt sid (lv_provider L) of (handler, tp') \<Rightarrow>
         (Ok_Reply, \<lparr>lv_node = store_remove_session sid (lv_node L), lv_consumer = mgr, lv_provider = handler\<rparr>, tp, tp'))))"

lemma session_kill_live_node:
  "session_kill_live C rt market sid L = (rep, L', tps) \<Longrightarrow> session_kill sid (lv_node L) = (rep, lv_node L')"
  by (auto simp: session_kill_live_def session_kill_def split: if_splits prod.splits)

section \<open>Where a session is\<close>

definition live_sessions :: "live_node \<Rightarrow> string \<Rightarrow> session_state option" where
  "live_sessions L = (case lv_consumer L of None \<Rightarrow> Map.empty | Some sm \<Rightarrow> map_of (sm_sessions sm))"

definition served_sessions :: "live_node \<Rightarrow> string \<Rightarrow> relay_transport option" where
  "served_sessions L = (case lv_provider L of None \<Rightarrow> Map.empty | Some p \<Rightarrow> map_of (ph_active_sessions p))"

definition listed_sessions :: "live_node \<Rightarrow> string set" where
  "listed_sessions L = sn_session_id ` set (nd_sessions (lv_node L))"

lemma close_transport_down: "tp_state (snd (close_transport C rt t r)) = Closed"
  using close_transport_closes [of t C rt r]
  by (cases "tp_state t = Closed") (auto simp: close_transport_def close_ws_def)

text \<open>The keepalive task of a session of the buyer has ended with an exception.\<close>

definition keepalive_failed :: "live_node \<Rightarrow> string \<Rightarrow> bool" where
  "keepalive_failed L sid = (case lv_consumer L of None \<Rightarrow> False
     | Some sm \<Rightarrow> await_keepalive (map_of (sm_keepalive_tasks sm) sid) \<noteq> Inr ())"

text \<open>What became of a transport, if there was one.\<close>

definition closed_transport :: "relay_transport option \<Rightarrow> relay_transport option \<Rightarrow> bool" where
  "closed_transport before tp \<longleftrightarrow> (case before of None \<Rightarrow> tp = None | Some _ \<Rightarrow> \<exists>t. tp = Some t \<and> tp_state t = Closed)"

lemma find_listed: "find (\<lambda>s. sn_session_id s = sid) xs = None \<longleftrightarrow> sid \<notin> sn_session_id ` set xs"
  by (auto simp: find_None_iff)

text \<open>C38: killing a listed session takes it away from the list, from the buyer's manager and from the seller's handler, stops its keepalive
  and its task, and closes the transport the seller has, and the one the buyer has unless the session's keepalive task
  had failed before - then, and only then, the buyer's transport is left as it is - even if the market refuses the closing; every
  other session stays where it is, with its transport. A session that is not listed is answered with 404 and nothing is done.\<close>

theorem session_kill_everywhere:
  "case session_kill_live C rt market sid L of (rep, L', tp, tp') \<Rightarrow>
     (if sid \<notin> listed_sessions L then rep = Err_Reply NOT_FOUND 404 \<and> L' = L
      else rep = Ok_Reply
        \<and> listed_sessions L' = listed_sessions L - {sid}
        \<and> live_sessions L' = (live_sessions L)(sid := None)
        \<and> served_sessions L' = (served_sessions L)(sid := None)
        \<and> (case lv_consumer L' of None \<Rightarrow> True | Some sm \<Rightarrow> map_of (sm_keepalive_tasks sm) sid = None)
        \<and> (case lv_provider L' of None \<Rightarrow> True | Some p \<Rightarrow> map_of (ph_session_tasks p) sid = None)
        \<and> (if keepalive_failed L sid then tp = None
           else closed_transport (case live_sessions L sid of None \<Rightarrow> None | Some st \<Rightarrow> ss_transport st) tp)
        \<and> closed_transport (served_sessions L sid) tp')"
  by (cases "lv_consumer L"; cases "lv_provider L")
     (auto simp: session_kill_live_def kill_in_consumer_def kill_in_provider_def find_listed listed_sessions_def
       live_sessions_def served_sessions_def store_remove_session_def sm_close_def keepalive_failed_def close_transport_down closed_transport_def Let_def
       split: option.splits sum.splits)

section \<open>What is listed\<close>

text \<open>
  \<open>add_session\<close> is called from nowhere in the program: every other operation leaves the list of sessions as it is, or
  takes sessions from it.
\<close>

named_theorems sessions_kept

lemma use_keystore_sessions [sessions_kept]: "nd_sessions (snd (use_keystore E path p d nd)) = nd_sessions nd"
  by (simp add: use_keystore_def split: prod.split)

lemma use_keystore_same: "use_keystore E path p d nd = (r, nd') \<Longrightarrow> nd_sessions nd' = nd_sessions nd"
  using use_keystore_sessions [of E path p d nd] by simp

lemma load_store_config_sessions [sessions_kept]: "nd_sessions (snd (load_store_config E nd)) = nd_sessions nd"
  by (simp add: load_store_config_def Let_def split: option.split sum.split json.split)

lemma check_keystore_sessions [sessions_kept]: "nd_sessions (snd (check_keystore_locked E d nd)) = nd_sessions nd"
  using use_keystore_sessions [of E "keystore_path nd" "[]" d nd]
  by (auto simp: check_keystore_locked_def split: prod.split sum.split)

lemma determine_sessions [sessions_kept]: "nd_sessions (determine_node_state E d nd) = nd_sessions nd"
  using check_keystore_sessions [of E d nd]
  by (auto simp: determine_node_state_def split: prod.split bool.split)

lemma start_provider_sessions [sessions_kept]: "nd_sessions (snd (start_provider E d up now nd)) = nd_sessions nd"
  by (auto simp: start_provider_def propagate_passphrase_def Let_def dest: use_keystore_same split: sum.split prod.split)

lemma stop_sessions [sessions_kept]:
  "nd_sessions (snd (stop_provider nd)) = nd_sessions nd" "nd_sessions (snd (stop_consumer nd)) = nd_sessions nd"
  "nd_sessions (shutdown nd) = nd_sessions nd"
  by (simp_all add: stop_provider_def stop_consumer_def shutdown_def)

lemma start_consumer_sessions [sessions_kept]: "nd_sessions (snd (start_consumer E bound now nd)) = nd_sessions nd"
  by (simp add: start_consumer_def propagate_passphrase_def Let_def split: sum.split)

lemma restart_sessions [sessions_kept]: "nd_sessions (snd (restart_provider E d U nd)) = nd_sessions nd"
  using stop_sessions(1) [of nd] by (auto simp: restart_provider_def start_provider_sessions split: prod.split sum.split)

lemma proc_reply_sessions [sessions_kept]: "nd_sessions (snd (proc_reply x)) = nd_sessions (snd x)"
  by (simp add: proc_reply_def)

lemma autostart_sessions [sessions_kept]: "nd_sessions (autostart E d up bound now nd) = nd_sessions nd"
  by (simp add: autostart_def Let_def sessions_kept)

lemma node_write_sessions [sessions_kept]: "nd_sessions (snd (node_write x nd)) = nd_sessions nd"
  by (simp add: node_write_def)

lemma write_steps_sessions [sessions_kept]: "nd_sessions (snd (write_steps steps nd)) = nd_sessions nd"
  by (induction steps arbitrary: nd) (auto simp: node_write_def split: prod.split sum.split)

lemma finish_setup_sessions [sessions_kept]: "nd_sessions (snd (finish_setup E U uuid q i nd)) = nd_sessions nd"
  using write_steps_sessions [of "setup_steps E U uuid q i" nd]
  by (auto simp: finish_setup_def route_autostart_def mark_setup_complete_def autostart_sessions determine_sessions split: prod.split sum.split)

lemma register_seller_sessions [sessions_kept]: "nd_sessions (snd (register_seller E U q market nd)) = nd_sessions nd"
  using use_keystore_sessions [of E "keystore_path nd" "held_passphrase nd" "rl_draw U 0" nd]
  by (auto simp: register_seller_def split: sum.split prod.split json.split)

lemma setup_finalize_sessions [sessions_kept]: "nd_sessions (snd (setup_finalize E U uuid q market nd)) = nd_sessions nd"
  using register_seller_sessions [of E U q market nd]
  by (auto simp: setup_finalize_def finish_setup_sessions split: prod.split sum.split)

lemma keypair_sessions [sessions_kept]:
  "nd_sessions (snd (setup_keypair E U pass nd)) = nd_sessions nd" "nd_sessions (snd (keypair_rotate E U told nd)) = nd_sessions nd"
  "nd_sessions (snd (route_unlock E U pw nd)) = nd_sessions nd"
  by (auto simp: setup_keypair_def keypair_rotate_def route_unlock_def unlock_def mark_setup_step_def route_autostart_def
      autostart_sessions node_write_def Let_def dest: use_keystore_same split: prod.split sum.split option.split bool.split)

lemma reload_sessions [sessions_kept]: "nd_sessions (snd (provider_reload E U nd)) = nd_sessions nd"
  using load_store_config_sessions [of E nd]
  by (auto simp: provider_reload_def determine_sessions restart_sessions proc_reply_sessions Let_def split: prod.split sum.split)

lemma node_request_sessions:
  "(\<And>s. x \<noteq> Op_Session s) \<Longrightarrow> nd_sessions nd = [] \<Longrightarrow> nd_sessions (snd (node_request E x nd)) = []"
  by (cases x) (auto simp: sessions_kept setup_test_connection_def mark_setup_step_def lock_node_def
      route_provider_start_def route_provider_stop_def route_provider_restart_def route_consumer_start_def route_consumer_stop_def
      route_config_update_def session_kill_def store_remove_session_def node_write_def Let_def
      split: prod.split sum.split update_reply.split)

text \<open>A node whose list of sessions nobody fills never lists a session: after every run of requests from a new store the list is empty, so
  \<open>session_kill\<close> answers 404 for every session, those that the buyer's manager and the seller's handler have open
  included, and leaves them open.\<close>

theorem unlisted_sessions_survive:
  assumes "\<And>s. Op_Session s \<notin> set xs" and "nd_sessions nd = []" and "lv_node L = foldl (node_apply E) nd xs"
  shows "listed_sessions L = {} \<and> session_kill_live C rt market sid L = (Err_Reply NOT_FOUND 404, L, None, None)"
proof -
  have "nd_sessions (foldl (node_apply E) nd xs) = []" using assms(1,2)
  proof (induction xs arbitrary: nd)
    case (Cons x xs)
    have "nd_sessions (node_apply E nd x) = []"
      unfolding node_apply_def using Cons.prems by (intro node_request_sessions) auto
    with Cons show ?case by simp
  qed simp
  then show ?thesis using assms(3) by (simp add: listed_sessions_def session_kill_live_def)
qed

theorem unlisted_sessions_survive_witness:
  "let st = \<lparr>ss_session_id = ''s'', ss_connection_mode = ''direct'', ss_endpoint_url = Some ''https://u'', ss_session_token = None,
             ss_transport = None, ss_expires_at = [], ss_created_at = 0, ss_request_count = 0\<rparr>;
       L = \<lparr>lv_node = node_apply demo_node_env demo_node Op_Lock,
            lv_consumer = Some \<lparr>sm_sessions = [(''s'', st)], sm_keepalive_tasks = []\<rparr>, lv_provider = None\<rparr>
   in live_sessions L ''s'' = Some st \<and> fst (session_kill_live demo_crypto demo_rt (Inr ()) ''s'' L) = Err_Reply NOT_FOUND 404"
proof -
  have "nd_sessions demo_node = []" by (simp add: demo_node_def blank_node_def)
  from unlisted_sessions_survive [OF _ this, of "[Op_Lock]"] show ?thesis
    by (simp add: Let_def live_sessions_def)
qed

end
