(* ===== verification/MarketClient.thy ===== *)
theory MarketClient
  imports MarketAccess Handshake NodeRoutes
begin

text \<open>
  The operations of \<open>MarketClient\<close> (\<open>aim_node/core/market_client.py\<close>) and \<open>ConnectivityTokenService\<close>
  (\<open>connectivity_token.py\<close>) as requests to the market, and the registration of a node with its proof that it has the
  private key. The market is a function of all the requests it has seen.
\<close>

section \<open>Requests\<close>

record market_request =
  mq_method :: string
  mq_url :: string
  mq_auth :: auth_header
  mq_body :: "json option"
  mq_query :: "(string \<times> string) list"

text \<open>
  The outside: the market's answer to the last of the requests so far, what the authentication endpoint answers before
  the n-th request, the time then, and the readers of \<open>auth.py\<close>.
\<close>

record market_side =
  ms_answer :: "market_request list \<Rightarrow> http_answer"
  ms_auth :: "nat \<Rightarrow> http_answer"
  ms_now :: "nat \<Rightarrow> rat"
  ms_parse :: "json \<Rightarrow> rat res"
  ms_int :: "json \<Rightarrow> int res"

record market_client =
  ml_base_url :: string
  ml_api_key :: "string option"
  ml_auth :: "auth_service option"
  ml_requests :: "market_request list"

definition new_market_client :: "string \<Rightarrow> string option \<Rightarrow> auth_service option \<Rightarrow> market_client" where
  "new_market_client api_url api_key auth =
    \<lparr>ml_base_url = rstrip_char CHR ''/'' api_url, ml_api_key = api_key, ml_auth = auth, ml_requests = []\<rparr>"

definition service_headers :: "market_side \<Rightarrow> auth_service \<Rightarrow> market_client \<Rightarrow> (market_exn + auth_header) \<times> market_client" where
  "service_headers W a c = (let n = length (ml_requests c) in
     case get_auth_headers (ms_parse W) (ms_int W) (ms_now W n) (ms_auth W n) a of (r, a') \<Rightarrow> (r, c\<lparr>ml_auth := Some a'\<rparr>))"

definition auth_headers :: "market_side \<Rightarrow> market_client \<Rightarrow> (market_exn + auth_header) \<times> market_client" where
  "auth_headers W c = (case ml_auth c of
     Some a \<Rightarrow> service_headers W a c
   | None \<Rightarrow> (case ml_api_key c of
       Some k \<Rightarrow> if k \<noteq> [] then (Inr (Api_Key k), c) else (Inl (Market_Error ''no authentication credentials configured''), c)
     | None \<Rightarrow> (Inl (Market_Error ''no authentication credentials configured''), c)))"

text \<open>A request with its headers, and the reading of its answer; without headers there is no request.\<close>

definition sends ::
    "(http_answer \<Rightarrow> market_exn + 'a) \<Rightarrow> market_side \<Rightarrow> string \<Rightarrow> string \<Rightarrow> json option \<Rightarrow> (string \<times> string) list
      \<Rightarrow> (market_exn + auth_header) \<times> market_client \<Rightarrow> (market_exn + 'a) \<times> market_client" where
  "sends answer W method path body query hc = (case hc of
     (Inl e, c) \<Rightarrow> (Inl e, c)
   | (Inr h, c) \<Rightarrow>
      (let sent_now = ml_requests c @ [\<lparr>mq_method = method, mq_url = ml_base_url c @ path, mq_auth = h, mq_body = body, mq_query = query\<rparr>]
       in (answer (ms_answer W sent_now), c\<lparr>ml_requests := sent_now\<rparr>)))"

definition client_request ::
    "market_side \<Rightarrow> string \<Rightarrow> string \<Rightarrow> json option \<Rightarrow> (string \<times> string) list \<Rightarrow> market_client
      \<Rightarrow> (market_exn + (string \<times> json) list) \<times> market_client" where
  "client_request W method path body query c = sends market_answer W method path body query (auth_headers W c)"

section \<open>MarketClient\<close>

definition negotiate_session ::
    "market_side \<Rightarrow> string \<Rightarrow> string \<Rightarrow> int \<Rightarrow> string \<Rightarrow> market_client \<Rightarrow> (market_exn + (string \<times> json) list) \<times> market_client" where
  "negotiate_session W listing_id buyer_node_id spend_cap_cents session_type =
     client_request W ''POST'' ''/sessions/negotiate''
       (Some (JObj [(''listing_id'', JStr listing_id), (''buyer_node_id'', JStr buyer_node_id),
                    (''spend_cap_cents'', JInt spend_cap_cents), (''session_type'', JStr session_type)])) []"

definition keepalive_session :: "market_side \<Rightarrow> string \<Rightarrow> market_client \<Rightarrow> (market_exn + unit) \<times> market_client" where
  "keepalive_session W sid c =
    (case client_request W ''POST'' (''/sessions/'' @ sid @ ''/keepalive'') None [] c of (r, c1) \<Rightarrow> (map_sum id (\<lambda>_. ()) r, c1))"

definition close_market_session :: "market_side \<Rightarrow> string \<Rightarrow> market_client \<Rightarrow> (market_exn + unit) \<times> market_client" where
  "close_market_session W sid c =
    (case client_request W ''POST'' (''/sessions/'' @ sid @ ''/close'') None [] c of (r, c1) \<Rightarrow> (map_sum id (\<lambda>_. ()) r, c1))"

definition request_listings :: "market_side \<Rightarrow> string \<Rightarrow> market_client \<Rightarrow> (market_exn + json list) \<times> market_client" where
  "request_listings W query c = sends search_listings W ''GET'' ''/listings/search'' None [(''query'', query)] (auth_headers W c)"

definition get_listing :: "market_side \<Rightarrow> string \<Rightarrow> market_client \<Rightarrow> (market_exn + (string \<times> json) list) \<times> market_client" where
  "get_listing W listing_id = client_request W ''GET'' (''/listings/'' @ listing_id) None []"

datatype key_arg = Key_Text string | Key_Bytes bytes

fun transport_public_key :: "key_arg \<Rightarrow> string" where
  "transport_public_key (Key_Text s) = s"
| "transport_public_key (Key_Bytes b) = b64encode b"

definition challenge_body :: "string \<Rightarrow> string \<Rightarrow> string \<Rightarrow> (string \<times> json) list" where
  "challenge_body key endpoint_url mode = [(''endpoint_url'', JStr endpoint_url), (''public_key'', JStr key), (''mode'', JStr mode)]"

definition register_challenge ::
    "market_side \<Rightarrow> key_arg \<Rightarrow> string \<Rightarrow> string \<Rightarrow> market_client \<Rightarrow> (market_exn + (string \<times> json) list) \<times> market_client" where
  "register_challenge W key endpoint_url mode =
     client_request W ''POST'' ''/api/v1/aim/nodes/register/challenge''
       (Some (JObj (challenge_body (transport_public_key key) endpoint_url mode))) []"

definition registration_body :: "string \<Rightarrow> string \<Rightarrow> string \<Rightarrow> string \<Rightarrow> bytes \<Rightarrow> json" where
  "registration_body key endpoint_url mode challenge signature =
     JObj (challenge_body key endpoint_url mode
       @ [(''challenge'', JStr challenge), (''pop_signature'', JStr (urlsafe_b64encode signature))])"

definition register_node ::
    "crypto_lib \<Rightarrow> market_side \<Rightarrow> key_arg \<Rightarrow> string \<Rightarrow> string \<Rightarrow> bytes \<Rightarrow> market_client
      \<Rightarrow> (market_exn + (string \<times> json) list) \<times> market_client" where
  "register_node C W key endpoint_url mode private_key c =
    (let text_key = transport_public_key key in
     case register_challenge W (Key_Text text_key) endpoint_url mode c of
       (Inl e, c1) \<Rightarrow> (Inl e, c1)
     | (Inr pl, c1) \<Rightarrow>
        (case jget pl ''challenge'' of
           JStr challenge \<Rightarrow>
             if challenge = [] then (Inl (Plain (ValueError ''registration challenge missing challenge'')), c1)
             else client_request W ''POST'' ''/api/v1/aim/nodes/register''
               (Some (registration_body text_key endpoint_url mode challenge (ed_sign C private_key (utf8_encode challenge)))) [] c1
         | _ \<Rightarrow> (Inl (Plain (ValueError ''registration challenge missing challenge'')), c1)))"

section \<open>ConnectivityTokenService\<close>

text \<open>Its authentication service is not optional.\<close>

definition connectivity_request ::
    "(http_answer \<Rightarrow> market_exn + 'a) \<Rightarrow> market_side \<Rightarrow> string \<Rightarrow> string \<Rightarrow> json option \<Rightarrow> auth_service \<Rightarrow> market_client
      \<Rightarrow> (market_exn + 'a) \<times> market_client" where
  "connectivity_request answer W method path body a c = sends answer W method path body [] (service_headers W a c)"

definition create_token ::
    "market_side \<Rightarrow> string \<Rightarrow> json list option \<Rightarrow> string option \<Rightarrow> auth_service \<Rightarrow> market_client
      \<Rightarrow> (market_exn + (string \<times> json) list) \<times> market_client" where
  "create_token W label scopes expires_at =
     connectivity_request connectivity_answer W ''POST'' ''/connectivity/tokens'' (Some (create_token_body label scopes expires_at))"

definition request_tokens :: "market_side \<Rightarrow> auth_service \<Rightarrow> market_client \<Rightarrow> (market_exn + json list) \<times> market_client" where
  "request_tokens W = connectivity_request list_tokens W ''GET'' ''/connectivity/tokens'' None"

definition revoke_token ::
    "market_side \<Rightarrow> string \<Rightarrow> auth_service \<Rightarrow> market_client \<Rightarrow> (market_exn + (string \<times> json) list) \<times> market_client" where
  "revoke_token W token_id = connectivity_request connectivity_answer W ''DELETE'' (''/connectivity/tokens/'' @ token_id) None"

definition verify_token ::
    "market_side \<Rightarrow> string \<Rightarrow> auth_service \<Rightarrow> market_client \<Rightarrow> (market_exn + (string \<times> json) list) \<times> market_client" where
  "verify_token W raw_token =
     connectivity_request connectivity_answer W ''POST'' ''/connectivity/tokens/verify'' (Some (JObj [(''token'', JStr raw_token)]))"

section \<open>Credentials\<close>

fun credential_given :: "auth_header \<Rightarrow> bool" where
  "credential_given (Bearer t) \<longleftrightarrow> truthy t"
| "credential_given (Api_Key k) \<longleftrightarrow> k \<noteq> []"

text \<open>A service that is never without a credential of its own.\<close>

definition service_ready :: "auth_service \<Rightarrow> bool" where
  "service_ready a \<longleftrightarrow> api_key_set a \<or> truthy (au_access_token a)"

lemma store_tokens_keeps:
  "store_tokens parse to_int now pl a = (r, a') \<Longrightarrow>
     au_api_key a' = au_api_key a \<and> (truthy (au_access_token a) \<longrightarrow> truthy (au_access_token a'))"
  by (auto simp: store_tokens_def Let_def split: if_splits sum.splits)

lemma obtain_token_keeps:
  assumes "obtain_token parse to_int now ans f a = (r, a')"
  shows "au_api_key a' = au_api_key a \<and> (truthy (au_access_token a) \<longrightarrow> truthy (au_access_token a'))"
    and "r = Inr v \<Longrightarrow> v = f a'"
  using assms by (auto simp: obtain_token_def split: sum.splits prod.splits dest: store_tokens_keeps)

lemma api_key_json_truthy: "api_key_set a \<Longrightarrow> truthy (api_key_json a)"
  by (auto simp: api_key_set_def api_key_json_def split: option.splits)

lemma truthy_or_json: "truthy (or_json a b) \<longleftrightarrow> truthy a \<or> truthy b"
  by (simp add: or_json_def)

lemma ready_kept:
  "service_ready a \<Longrightarrow> au_api_key a' = au_api_key a \<Longrightarrow> truthy (au_access_token a) \<longrightarrow> truthy (au_access_token a') \<Longrightarrow> service_ready a'"
  by (auto simp: service_ready_def api_key_set_def)

text \<open>A token handed out by a service that is ready is not empty, and the service stays ready.\<close>

definition hands_out :: "(market_exn + json) \<times> auth_service \<Rightarrow> bool" where
  "hands_out ra \<longleftrightarrow> service_ready (snd ra) \<and> (\<forall>t. fst ra = Inr t \<longrightarrow> truthy t)"

lemma obtain_token_hands_out:
  assumes "service_ready a" and "\<And>a'. service_ready a' \<Longrightarrow> truthy (f a')"
  shows "hands_out (obtain_token parse to_int now ans f a)"
proof (cases "obtain_token parse to_int now ans f a")
  case (Pair r a')
  from obtain_token_keeps(1) [OF Pair] assms(1) have "service_ready a'" by (auto intro: ready_kept)
  with obtain_token_keeps(2) [OF Pair] assms(2) show ?thesis by (auto simp: Pair hands_out_def)
qed

lemma authenticate_hands_out: "service_ready a \<Longrightarrow> hands_out (authenticate parse to_int now ans a)"
  unfolding authenticate_def
  by (auto simp: hands_out_def [of "(Inl _, _)"] truthy_or_json service_ready_def dest: api_key_json_truthy
      intro!: obtain_token_hands_out)

lemma refresh_hands_out: "service_ready a \<Longrightarrow> hands_out (refresh parse to_int now ans a)"
  unfolding refresh_def
  by (auto simp: authenticate_hands_out truthy_or_json service_ready_def dest: api_key_json_truthy
      intro!: obtain_token_hands_out)

lemma get_access_token_hands_out: "service_ready a \<Longrightarrow> hands_out (get_access_token parse to_int now ans a)"
  by (auto simp: get_access_token_def hands_out_def [of "(Inl _, _)"] hands_out_def [of "(Inr _, _)"]
      refresh_hands_out authenticate_hands_out)

lemma get_auth_headers_ready:
  "service_ready a \<Longrightarrow> get_auth_headers parse to_int now ans a = (r, a') \<Longrightarrow> service_ready a' \<and> (\<forall>h. r = Inr h \<longrightarrow> credential_given h)"
  using get_access_token_hands_out [of a parse to_int now ans]
  by (auto simp: get_auth_headers_def hands_out_def split: if_splits prod.splits sum.splits option.splits)

definition client_ready :: "market_client \<Rightarrow> bool" where
  "client_ready c \<longleftrightarrow> (case ml_auth c of None \<Rightarrow> True | Some a \<Rightarrow> service_ready a)"

text \<open>What an operation does to a client: more requests, each with a credential.\<close>

definition only_credentialed :: "market_client \<Rightarrow> market_client \<Rightarrow> bool" where
  "only_credentialed c c' \<longleftrightarrow> client_ready c' \<and> (\<exists>qs. ml_requests c' = ml_requests c @ qs \<and> list_all (\<lambda>q. credential_given (mq_auth q)) qs)"

lemma only_credentialed_refl: "client_ready c \<Longrightarrow> only_credentialed c c"
  by (simp add: only_credentialed_def)

lemma only_credentialed_trans: "only_credentialed c c1 \<Longrightarrow> only_credentialed c1 c2 \<Longrightarrow> only_credentialed c c2"
  by (auto simp: only_credentialed_def)

lemma service_headers_ready:
  "service_ready a \<Longrightarrow> service_headers W a c = (r, c') \<Longrightarrow>
     client_ready c' \<and> ml_requests c' = ml_requests c \<and> (\<forall>h. r = Inr h \<longrightarrow> credential_given h)"
  by (auto simp: service_headers_def client_ready_def Let_def split: prod.splits dest: get_auth_headers_ready)

lemma auth_headers_ready:
  "client_ready c \<Longrightarrow> auth_headers W c = (r, c') \<Longrightarrow>
     client_ready c' \<and> ml_requests c' = ml_requests c \<and> (\<forall>h. r = Inr h \<longrightarrow> credential_given h)"
  by (auto simp: auth_headers_def client_ready_def [of c] split: option.splits if_splits dest: service_headers_ready)
     (simp add: client_ready_def)+

lemma sends_credentialed:
  assumes "hc = (r, c1)" and "client_ready c1 \<and> ml_requests c1 = ml_requests c \<and> (\<forall>h. r = Inr h \<longrightarrow> credential_given h)"
  shows "only_credentialed c (snd (sends answer W method path body query hc))"
  using assms by (auto simp: sends_def only_credentialed_def client_ready_def Let_def split: sum.split)

lemma client_request_credentialed: "client_ready c \<Longrightarrow> only_credentialed c (snd (client_request W method path body query c))"
  unfolding client_request_def by (rule sends_credentialed [OF surjective_pairing]) (rule auth_headers_ready; simp)

lemma connectivity_credentialed:
  "service_ready a \<Longrightarrow> ml_auth c = Some a \<Longrightarrow> only_credentialed c (snd (connectivity_request answer W method path body a c))"
  unfolding connectivity_request_def by (rule sends_credentialed [OF surjective_pairing]) (rule service_headers_ready; simp)

lemma register_node_credentialed: "client_ready c \<Longrightarrow> only_credentialed c (snd (register_node C W key endpoint_url mode priv c))"
proof -
  assume "client_ready c"
  then have first: "only_credentialed c (snd (register_challenge W (Key_Text k) endpoint_url mode c))" for k
    by (simp add: register_challenge_def client_request_credentialed)
  then have "client_ready (snd (register_challenge W (Key_Text k) endpoint_url mode c))" for k by (simp add: only_credentialed_def)
  with first show ?thesis
    by (auto simp: register_node_def Let_def split: prod.split sum.split json.split
        intro!: only_credentialed_trans [OF _ client_request_credentialed]) (metis snd_conv)+
qed

section \<open>Runs of operations\<close>

datatype client_op =
    Do_Negotiate string string int string
  | Do_Keepalive string
  | Do_Close string
  | Do_Search string
  | Do_Get_Listing string
  | Do_Challenge key_arg string string
  | Do_Register key_arg string string bytes
  | Do_Create_Token string "json list option" "string option"
  | Do_List_Tokens
  | Do_Revoke string
  | Do_Verify string

definition with_service :: "(auth_service \<Rightarrow> market_client \<Rightarrow> (market_exn + 'a) \<times> market_client) \<Rightarrow> market_client \<Rightarrow> market_client" where
  "with_service f c = (case ml_auth c of None \<Rightarrow> c | Some a \<Rightarrow> snd (f a c))"

fun client_step :: "crypto_lib \<Rightarrow> market_side \<Rightarrow> client_op \<Rightarrow> market_client \<Rightarrow> market_client" where
  "client_step C W (Do_Negotiate l b n t) c = snd (negotiate_session W l b n t c)"
| "client_step C W (Do_Keepalive s) c = snd (keepalive_session W s c)"
| "client_step C W (Do_Close s) c = snd (close_market_session W s c)"
| "client_step C W (Do_Search q) c = snd (request_listings W q c)"
| "client_step C W (Do_Get_Listing l) c = snd (get_listing W l c)"
| "client_step C W (Do_Challenge k u m) c = snd (register_challenge W k u m c)"
| "client_step C W (Do_Register k u m p) c = snd (register_node C W k u m p c)"
| "client_step C W (Do_Create_Token l s x) c = with_service (create_token W l s x) c"
| "client_step C W Do_List_Tokens c = with_service (request_tokens W) c"
| "client_step C W (Do_Revoke i) c = with_service (revoke_token W i) c"
| "client_step C W (Do_Verify t) c = with_service (verify_token W t) c"

definition client_run :: "crypto_lib \<Rightarrow> market_side \<Rightarrow> client_op list \<Rightarrow> market_client \<Rightarrow> market_client" where
  "client_run C W ops c = fold (client_step C W) ops c"

lemma with_service_credentialed:
  "client_ready c \<Longrightarrow> (\<And>a. service_ready a \<Longrightarrow> ml_auth c = Some a \<Longrightarrow> only_credentialed c (snd (f a c))) \<Longrightarrow> only_credentialed c (with_service f c)"
  by (auto simp: with_service_def client_ready_def only_credentialed_refl split: option.splits)

lemma client_step_credentialed: "client_ready c \<Longrightarrow> only_credentialed c (client_step C W op c)"
proof (cases op)
  case (Do_Search q)
  assume "client_ready c"
  then show ?thesis unfolding Do_Search client_step.simps request_listings_def
    by (intro sends_credentialed [OF surjective_pairing]) (rule auth_headers_ready; simp)
qed (auto simp: negotiate_session_def get_listing_def register_challenge_def client_request_credentialed
    register_node_credentialed create_token_def request_tokens_def revoke_token_def verify_token_def
    keepalive_session_def close_market_session_def case_prod_unfold
    intro!: with_service_credentialed connectivity_credentialed)


definition demo_side :: market_side where
  "demo_side = \<lparr>ms_answer = \<lambda>qs. Answer 200 ''x'' (Inr (JObj (if length qs = 1 then [(''challenge'', JStr ''c'')] else [(''node_id'', JStr ''n'')]))),
     ms_auth = \<lambda>_. Answer 200 ''x'' (Inr (JObj [])), ms_now = \<lambda>_. 0, ms_parse = \<lambda>_. Inl TypeError, ms_int = \<lambda>_. Inl TypeError\<rparr>"

definition demo_client :: market_client where
  "demo_client = new_market_client ''https://m/'' (Some ''key'') None"


text \<open>
  A service with only a refresh token and no API key hands out an empty token when the endpoint's answer has none: the
  request is sent with \<open>Authorization: Bearer\<close> and nothing behind it.
\<close>

lemma refresh_can_hand_out_nothing:
  assumes "au_api_key a = None" and "\<not> truthy (au_access_token a)" and "truthy (au_refresh_token a)"
    and "auth_request_json ans = Inr []"
  shows "fst (get_auth_headers parse to_int now ans a) = Inr (Bearer (JStr []))"
  using assms
  by (simp add: get_auth_headers_def get_access_token_def refresh_def obtain_token_def store_tokens_def or_json_def
      api_key_json_def jget_def Let_def)

section \<open>Registration\<close>

text \<open>The two requests of a registration, the second with the signature of the challenge that answered the first.\<close>

definition proves_possession :: "crypto_lib \<Rightarrow> market_side \<Rightarrow> string \<Rightarrow> string \<Rightarrow> string \<Rightarrow> bytes \<Rightarrow> market_client \<Rightarrow> market_request list \<Rightarrow> bool" where
  "proves_possession C W key endpoint_url mode public c qs \<longleftrightarrow>
    (\<exists>q1 q2 pl challenge signature. qs = [q1, q2]
       \<and> mq_body q1 = Some (JObj (challenge_body key endpoint_url mode))
       \<and> market_answer (ms_answer W (ml_requests c @ [q1])) = Inr pl \<and> jget pl ''challenge'' = JStr challenge \<and> challenge \<noteq> []
       \<and> mq_body q2 = Some (registration_body key endpoint_url mode challenge signature)
       \<and> ed_verify C public signature (utf8_encode challenge))"

lemma client_request_cases:
  assumes "client_request W method path body query c = (r, c')"
  shows "(\<exists>e. r = Inl e) \<and> ml_requests c' = ml_requests c
    \<or> (\<exists>q. mq_body q = body \<and> ml_requests c' = ml_requests c @ [q] \<and> r = market_answer (ms_answer W (ml_requests c')))"
proof -
  obtain h c1 where h: "auth_headers W c = (h, c1)" by (cases "auth_headers W c")
  have "ml_requests c1 = ml_requests c"
    using h by (auto simp: auth_headers_def service_headers_def Let_def split: option.splits if_splits prod.splits)
  with assms h show ?thesis
    by (cases h) (auto simp: client_request_def sends_def Let_def)
qed

lemma registration_facts:
  assumes "sig_ok C" and "register_node C W key endpoint_url mode private_key c = (r, c')"
  shows "\<exists>qs. ml_requests c' = ml_requests c @ qs
    \<and> (length qs \<le> 1 \<and> list_all (\<lambda>q. mq_body q = Some (JObj (challenge_body (transport_public_key key) endpoint_url mode))) qs
         \<and> (\<exists>e. r = Inl e)
       \<or> proves_possession C W (transport_public_key key) endpoint_url mode (ed_public C private_key) c qs
         \<and> r = market_answer (ms_answer W (ml_requests c')))"
proof -
  let ?k = "transport_public_key key"
  obtain r1 c1 where r1: "register_challenge W (Key_Text ?k) endpoint_url mode c = (r1, c1)"
    by (cases "register_challenge W (Key_Text ?k) endpoint_url mode c")
  note first = client_request_cases [OF r1 [unfolded register_challenge_def transport_public_key.simps]]
  show ?thesis
  proof (cases "\<exists>pl s. r1 = Inr pl \<and> jget pl ''challenge'' = JStr s \<and> s \<noteq> []")
    case False
    with assms(2) r1 have "(\<exists>e. r = Inl e) \<and> c' = c1"
      by (auto simp: register_node_def Let_def split: sum.splits json.splits if_splits)
    with first show ?thesis by auto
  next
    case True
    then obtain pl s where s: "r1 = Inr pl" "jget pl ''challenge'' = JStr s" "s \<noteq> []" by blast
    with first obtain q1 where q1: "mq_body q1 = Some (JObj (challenge_body ?k endpoint_url mode))"
      "ml_requests c1 = ml_requests c @ [q1]" "market_answer (ms_answer W (ml_requests c @ [q1])) = Inr pl" by auto
    let ?sig = "ed_sign C private_key (utf8_encode s)"
    have "client_request W ''POST'' ''/api/v1/aim/nodes/register'' (Some (registration_body ?k endpoint_url mode s ?sig)) [] c1 = (r, c')"
      using assms(2) r1 s by (simp add: register_node_def Let_def)
    from client_request_cases [OF this] show ?thesis
      using q1 s assms(1) by (auto simp: proves_possession_def sig_ok_def) blast
  qed
qed



section \<open>The seller's registration during setup\<close>

text \<open>The market as \<open>setup_finalize\<close> talks to it: a client of the configuration that the setup is about to write.\<close>

definition setup_client :: "core_config \<Rightarrow> market_client" where
  "setup_client c = new_market_client (cc_market_api_url c) (cc_api_key c) None"

definition seller_registration ::
    "crypto_lib \<Rightarrow> market_side \<Rightarrow> core_config \<Rightarrow> keypairs \<Rightarrow> (market_exn + (string \<times> json) list) \<times> market_client" where
  "seller_registration C W c keys = (case keys of (private, public, _, _) \<Rightarrow>
     register_node C W (Key_Bytes public) (the (cc_upstream_url c)) ''seller'' private (setup_client c))"

text \<open>
  The node id that a seller's setup obtains is the market's answer to a request that proved possession of the device's
  private key and named the device's public key and the upstream of the configuration.
\<close>

lemma setup_proves_key:
  assumes "sig_ok C"
    and "read_config (en_toml E) (nd_config nd) = Inr raw" and "runtime_config_from_setup (en_rt E) (nd_dir nd) q raw = Inr c"
    and "use_keystore E (keystore_path nd) (held_passphrase nd) (rl_draw U 0) nd = (Inr (p, ed_public C p, x), nd1)"
    and "register_seller E U q (\<lambda>keys. fst (seller_registration C W c keys)) nd = (Inr node_id, nd')"
  shows "\<exists>qs reg. proves_possession C W (b64encode (ed_public C p)) (the (cc_upstream_url c)) ''seller'' (ed_public C p) (setup_client c) qs
    \<and> market_answer (ms_answer W qs) = Inr reg \<and> jget reg ''node_id'' = JStr node_id"
proof -
  obtain r c' where g: "register_node C W (Key_Bytes (ed_public C p)) (the (cc_upstream_url c)) ''seller'' p (setup_client c) = (r, c')"
    by fastforce
  have "fst (seller_registration C W c (p, ed_public C p, x)) = r" by (cases x) (simp add: seller_registration_def g)
  with assms(2-5) obtain reg where "r = Inr reg" "jget reg ''node_id'' = JStr node_id"
    by (auto simp: register_seller_def split: if_splits sum.splits json.splits)
  moreover have "ml_requests (setup_client c) = []" by (simp add: setup_client_def new_market_client_def)
  ultimately show ?thesis using registration_facts [OF assms(1) g] by auto metis
qed

end
