(* ===== verification/BuyerMarket.thy ===== *)
theory BuyerMarket
  imports MarketClient Consumer
begin

text \<open>
  The buyer's session manager with its market client (\<open>aim_node/consumer/session_manager.py\<close> over
  \<open>aim_node/core/market_client.py\<close>): what the manager asks the market, and what of the market's answers its sessions come
  from; and the rest of \<open>aim_node/consumer/proxy.py\<close>, the routes that only ask the market and the server's start and stop.
\<close>

section \<open>Sessions over the market\<close>

record buyer =
  bu_serial :: string
  bu_manager :: session_manager
  bu_client :: market_client

definition raised :: "market_exn + 'a \<Rightarrow> 'a res" where
  "raised r = map_sum (\<lambda>e. case e of Plain x \<Rightarrow> x | _ \<Rightarrow> LibError (exn_text e)) id r"

definition buyer_connect ::
    "market_side \<Rightarrow> relay_env \<Rightarrow> rat \<Rightarrow> string \<Rightarrow> int \<Rightarrow> buyer \<Rightarrow> session_state res option \<times> buyer" where
  "buyer_connect W E now listing_id max_spend_cents B =
    (case negotiate_session W listing_id (bu_serial B) max_spend_cents ''consumer'' (bu_client B) of (negotiation, c) \<Rightarrow>
     (case sm_connect E now (bu_manager B) (raised negotiation) of (r, sm) \<Rightarrow>
        (r, B\<lparr>bu_manager := sm, bu_client := c\<rparr>)))"

definition buyer_close ::
    "crypto_lib \<Rightarrow> pyrt \<Rightarrow> market_side \<Rightarrow> string \<Rightarrow> buyer \<Rightarrow> unit res \<times> buyer \<times> relay_transport option" where
  "buyer_close C rt W sid B =
    (case await_keepalive (map_of (sm_keepalive_tasks (bu_manager B)) sid) of
       Inl e \<Rightarrow> (Inl e, B\<lparr>bu_manager := fst (snd (sm_close C rt (bu_manager B) sid (Inl e)))\<rparr>, None)
     | Inr _ \<Rightarrow>
       (case close_market_session W sid (bu_client B) of (answer, c) \<Rightarrow>
        (case sm_close C rt (bu_manager B) sid (raised answer) of (r, sm, tp) \<Rightarrow>
           (r, B\<lparr>bu_manager := sm, bu_client := c\<rparr>, tp))))"

text \<open>One wake-up of a keepalive task: whether it pings.\<close>

definition buyer_keepalive :: "market_side \<Rightarrow> string \<Rightarrow> buyer \<Rightarrow> bool \<times> buyer" where
  "buyer_keepalive W sid B =
    (if fst (keepalive_wake (bu_manager B) sid (Inr ())) then
       (case keepalive_session W sid (bu_client B) of (answer, c) \<Rightarrow>
          (True, B\<lparr>bu_manager := snd (keepalive_wake (bu_manager B) sid (raised answer)), bu_client := c\<rparr>))
     else (False, B\<lparr>bu_manager := snd (keepalive_wake (bu_manager B) sid (Inr ()))\<rparr>))"

definition buyer_invoke ::
    "crypto_lib \<Rightarrow> pyrt \<Rightarrow> (string \<Rightarrow> (string \<times> string) list \<Rightarrow> bytes \<Rightarrow> http_result) \<Rightarrow> int \<Rightarrow> string \<Rightarrow> string \<Rightarrow> bytes \<Rightarrow> buyer
      \<Rightarrow> invoke_result option \<times> buyer" where
  "buyer_invoke C rt post latency_ms trace_id sid body B =
    (case sm_invoke C rt post latency_ms trace_id (bu_manager B) sid body of (r, sm) \<Rightarrow> (r, B\<lparr>bu_manager := sm\<rparr>))"

section \<open>The rest of the proxy\<close>

definition proxy_market_reply :: "market_exn + json \<Rightarrow> proxy_response" where
  "proxy_market_reply r = (case raised r of Inl e \<Rightarrow> Unhandled e | Inr v \<Rightarrow> Json_Reply 200 v)"

definition market_search :: "market_side \<Rightarrow> string option \<Rightarrow> buyer \<Rightarrow> proxy_response \<times> buyer" where
  "market_search W q B = (case request_listings W (case q of None \<Rightarrow> [] | Some s \<Rightarrow> s) (bu_client B) of
     (r, c) \<Rightarrow> (proxy_market_reply (map_sum id JArr r), B\<lparr>bu_client := c\<rparr>))"

definition market_listing :: "market_side \<Rightarrow> string \<Rightarrow> buyer \<Rightarrow> proxy_response \<times> buyer" where
  "market_listing W listing_id B = (case get_listing W listing_id (bu_client B) of
     (r, c) \<Rightarrow> (proxy_market_reply (map_sum id JObj r), B\<lparr>bu_client := c\<rparr>))"

datatype proxy_endpoint = Px_Invoke | Px_Connect | Px_List | Px_Session | Px_Search | Px_Listing

definition proxy_routes :: "(string \<times> proxy_endpoint \<times> string list) list" where
  "proxy_routes = [
     (''/aim/invoke/{session_id}'', Px_Invoke, [''POST'']),
     (''/aim/sessions/connect'', Px_Connect, [''POST'']),
     (''/aim/sessions'', Px_List, [''GET'']),
     (''/aim/sessions/{session_id}'', Px_Session, [''GET'', ''DELETE'']),
     (''/aim/marketplace/search'', Px_Search, [''GET'']),
     (''/aim/marketplace/listings/{listing_id}'', Px_Listing, [''GET''])]"

text \<open>The server: whether one is running, with host and port, and how many were started.\<close>

record proxy_server =
  px_host :: string
  px_port :: int
  px_running :: bool
  px_started :: nat

definition new_proxy :: "string \<Rightarrow> int option res \<Rightarrow> proxy_server res" where
  "new_proxy host port = rbind port (\<lambda>p.
     Inr \<lparr>px_host = host, px_port = (case p of None \<Rightarrow> 8400 | Some n \<Rightarrow> n), px_running = False, px_started = 0\<rparr>)"

definition proxy_start :: "proxy_server \<Rightarrow> proxy_server" where
  "proxy_start P = (if px_running P then P else P\<lparr>px_running := True, px_started := px_started P + 1\<rparr>)"

definition proxy_stop :: "proxy_server \<Rightarrow> proxy_server" where
  "proxy_stop P = (if \<not> px_running P then P else P\<lparr>px_running := False\<rparr>)"

lemma proxy_start_once: "proxy_start (proxy_start P) = proxy_start P" "px_started (proxy_start (proxy_start P)) \<le> px_started P + 1"
  by (simp_all add: proxy_start_def)

section \<open>Where the sessions come from\<close>

text \<open>A session that the market granted: its answer to one of the buyer's own negotiations names the session and its mode.\<close>

definition granted :: "market_side \<Rightarrow> string \<Rightarrow> market_request list \<Rightarrow> string \<Rightarrow> session_state \<Rightarrow> bool" where
  "granted W serial qs sid st \<longleftrightarrow>
    (\<exists>ps q listing cents pl ng. prefix (ps @ [q]) qs
       \<and> mq_body q = Some (JObj [(''listing_id'', JStr listing), (''buyer_node_id'', JStr serial),
                                 (''spend_cap_cents'', JInt cents), (''session_type'', JStr ''consumer'')])
       \<and> market_answer (ms_answer W (ps @ [q])) = Inr pl \<and> read_negotiation pl = Inr ng
       \<and> ng_session_id ng = sid \<and> ss_session_id st = sid \<and> ss_connection_mode st = ng_connection_mode ng
       \<and> ss_endpoint_url st = ng_endpoint_url ng \<and> ss_session_token st = ng_session_token ng)"

lemma granted_mono: "granted W serial qs sid st \<Longrightarrow> prefix qs qs' \<Longrightarrow> granted W serial qs' sid st"
  unfolding granted_def using prefix_order.order_trans by blast

definition all_granted :: "market_side \<Rightarrow> buyer \<Rightarrow> bool" where
  "all_granted W B \<longleftrightarrow> (\<forall>sid st. map_of (sm_sessions (bu_manager B)) sid = Some st
      \<longrightarrow> granted W (bu_serial B) (ml_requests (bu_client B)) sid st)"

lemma client_request_grows:
  "client_request W method path body query c = (r, c') \<Longrightarrow> prefix (ml_requests c) (ml_requests c')"
  by (auto dest: client_request_cases)

lemma sm_connect_result:
  assumes "sm_connect E now sm negotiation = (r, sm')"
  shows "sm' = sm \<and> \<not> (\<exists>st. r = Some (Inr st)) \<or> (\<exists>pl ng tp. negotiation = Inr pl \<and> read_negotiation pl = Inr ng \<and> sm' = add_session sm now ng tp)"
  using assms
  by (auto simp: sm_connect_def Let_def rbind_Inr_iff split: sum.splits prod.splits option.splits if_splits)

lemma buyer_connect_granted:
  assumes "buyer_connect W E now listing cents B = (r, B')" and "all_granted W B"
  shows "all_granted W B'"
proof -
  obtain neg c where n: "negotiate_session W listing (bu_serial B) cents ''consumer'' (bu_client B) = (neg, c)" by fastforce
  obtain sm where s: "sm_connect E now (bu_manager B) (raised neg) = (r, sm)" and B': "B' = B\<lparr>bu_manager := sm, bu_client := c\<rparr>"
    using assms(1) by (auto simp: buyer_connect_def n split: prod.splits)
  have old: "granted W (bu_serial B) (ml_requests c) sid st" if "map_of (sm_sessions (bu_manager B)) sid = Some st" for sid st
    using assms(2) that client_request_grows [OF n [unfolded negotiate_session_def]]
    by (auto simp: all_granted_def intro: granted_mono)
  from sm_connect_result [OF s] show ?thesis
  proof (elim disjE exE conjE)
    assume "sm = bu_manager B"
    then show ?thesis using old by (simp add: all_granted_def B')
  next
    fix pl ng tp
    assume pl: "raised neg = Inr pl" and ng: "read_negotiation pl = Inr ng" and sm: "sm = add_session (bu_manager B) now ng tp"
    from pl have "neg = Inr pl" by (cases neg) (auto simp: raised_def)
    with client_request_cases [OF n [unfolded negotiate_session_def]] obtain q where
      q: "mq_body q = Some (JObj [(''listing_id'', JStr listing), (''buyer_node_id'', JStr (bu_serial B)),
          (''spend_cap_cents'', JInt cents), (''session_type'', JStr ''consumer'')])"
        "ml_requests c = ml_requests (bu_client B) @ [q]" "market_answer (ms_answer W (ml_requests c)) = Inr pl"
      by auto
    let ?st = "the (map_of (sm_sessions sm) (ng_session_id ng))"
    have "granted W (bu_serial B) (ml_requests c) (ng_session_id ng) ?st"
      unfolding granted_def
      by (rule exI [of _ "ml_requests (bu_client B)"], rule exI [of _ q], rule exI [of _ listing], rule exI [of _ cents],
          rule exI [of _ pl], rule exI [of _ ng]) (use q ng in \<open>simp add: sm add_session_def\<close>)
    then show ?thesis using old by (auto simp: all_granted_def B' sm add_session_def)
  qed
qed

lemma sm_invoke_sessions:
  assumes "sm_invoke C rt post lat tid sm sid body = (r, sm')" and "map_of (sm_sessions sm') s = Some st'"
  shows "\<exists>st. map_of (sm_sessions sm) s = Some st \<and> ss_session_id st' = ss_session_id st \<and> ss_connection_mode st' = ss_connection_mode st
     \<and> ss_endpoint_url st' = ss_endpoint_url st \<and> ss_session_token st' = ss_session_token st"
  using assms
  by (auto simp: sm_invoke_def put_session_def Let_def split: option.splits if_splits prod.splits bool.splits)

lemma granted_same:
  "granted W serial qs sid st \<Longrightarrow> ss_session_id st' = ss_session_id st \<Longrightarrow> ss_connection_mode st' = ss_connection_mode st
     \<Longrightarrow> ss_endpoint_url st' = ss_endpoint_url st \<Longrightarrow> ss_session_token st' = ss_session_token st \<Longrightarrow> granted W serial qs sid st'"
  unfolding granted_def by simp

datatype buyer_op =
    Buyer_Connect relay_env rat string int
  | Buyer_Close string
  | Buyer_Keepalive string
  | Buyer_Invoke "string \<Rightarrow> (string \<times> string) list \<Rightarrow> bytes \<Rightarrow> http_result" int string string bytes
  | Buyer_Search "string option"
  | Buyer_Listing string

fun buyer_step :: "crypto_lib \<Rightarrow> pyrt \<Rightarrow> market_side \<Rightarrow> buyer \<Rightarrow> buyer_op \<Rightarrow> buyer" where
  "buyer_step C rt W B (Buyer_Connect E now l cents) = snd (buyer_connect W E now l cents B)"
| "buyer_step C rt W B (Buyer_Close sid) = fst (snd (buyer_close C rt W sid B))"
| "buyer_step C rt W B (Buyer_Keepalive sid) = snd (buyer_keepalive W sid B)"
| "buyer_step C rt W B (Buyer_Invoke post lat tid sid body) = snd (buyer_invoke C rt post lat tid sid body B)"
| "buyer_step C rt W B (Buyer_Search q) = snd (market_search W q B)"
| "buyer_step C rt W B (Buyer_Listing i) = snd (market_listing W i B)"

text \<open>An operation that adds no session and only adds requests.\<close>

lemma all_granted_fewer:
  assumes "all_granted W B" and "prefix (ml_requests (bu_client B)) (ml_requests (bu_client B'))" and "bu_serial B' = bu_serial B"
    and "\<And>s st'. map_of (sm_sessions (bu_manager B')) s = Some st' \<Longrightarrow> \<exists>st. map_of (sm_sessions (bu_manager B)) s = Some st
      \<and> ss_session_id st' = ss_session_id st \<and> ss_connection_mode st' = ss_connection_mode st
      \<and> ss_endpoint_url st' = ss_endpoint_url st \<and> ss_session_token st' = ss_session_token st"
  shows "all_granted W B'"
  unfolding all_granted_def assms(3)
proof (intro allI impI)
  fix s st'
  assume "map_of (sm_sessions (bu_manager B')) s = Some st'"
  from assms(4) [OF this] obtain st where "map_of (sm_sessions (bu_manager B)) s = Some st" and
    same: "ss_session_id st' = ss_session_id st" "ss_connection_mode st' = ss_connection_mode st"
      "ss_endpoint_url st' = ss_endpoint_url st" "ss_session_token st' = ss_session_token st" by blast
  with assms(1) have "granted W (bu_serial B) (ml_requests (bu_client B)) s st" by (simp add: all_granted_def)
  from granted_same [OF granted_mono [OF this assms(2)] same] show "granted W (bu_serial B) (ml_requests (bu_client B')) s st'" .
qed

lemma market_calls_grow:
  "prefix (ml_requests c) (ml_requests (snd (keepalive_session W sid c)))"
  "prefix (ml_requests c) (ml_requests (snd (close_market_session W sid c)))"
  "prefix (ml_requests c) (ml_requests (snd (get_listing W i c)))"
  using client_request_grows [OF surjective_pairing]
  by (auto simp: keepalive_session_def close_market_session_def get_listing_def case_prod_unfold)

lemma auth_headers_requests: "auth_headers W c = (h, c') \<Longrightarrow> ml_requests c' = ml_requests c"
  by (auto simp: auth_headers_def service_headers_def Let_def split: option.splits if_splits prod.splits)

lemma request_listings_grows: "prefix (ml_requests c) (ml_requests (snd (request_listings W q c)))"
  by (cases "auth_headers W c") (auto simp: request_listings_def sends_def Let_def dest: auth_headers_requests split: sum.split)

lemma buyer_close_facts:
  "bu_serial (fst (snd (buyer_close C rt W sid B))) = bu_serial B"
  "bu_manager (fst (snd (buyer_close C rt W sid B))) = (bu_manager B)\<lparr>sm_sessions := dict_del sid (sm_sessions (bu_manager B)),
     sm_keepalive_tasks := dict_del sid (sm_keepalive_tasks (bu_manager B))\<rparr>"
  "bu_client (fst (snd (buyer_close C rt W sid B))) = (if isl (await_keepalive (map_of (sm_keepalive_tasks (bu_manager B)) sid))
     then bu_client B else snd (close_market_session W sid (bu_client B)))"
  by (auto simp: buyer_close_def sm_close_manager case_prod_unfold split: sum.split)

lemma keepalive_wake_sessions: "sm_sessions (snd (keepalive_wake sm sid ans)) = sm_sessions sm"
  by (simp add: keepalive_wake_def split: sum.split)

lemma buyer_step_granted: "all_granted W B \<Longrightarrow> all_granted W (buyer_step C rt W B x)"
proof (cases x)
  case (Buyer_Connect E now l cents)
  assume "all_granted W B"
  then show ?thesis
    unfolding Buyer_Connect buyer_step.simps by (rule buyer_connect_granted [OF surjective_pairing])
next
  case (Buyer_Invoke post lat tid sid body)
  assume g: "all_granted W B"
  obtain r sm where i: "sm_invoke C rt post lat tid (bu_manager B) sid body = (r, sm)" by fastforce
  show ?thesis
    by (rule all_granted_fewer [OF g]) (auto simp: Buyer_Invoke buyer_invoke_def i dest: sm_invoke_sessions [OF i])
next
  case (Buyer_Close sid)
  assume g: "all_granted W B"
  show ?thesis
    by (rule all_granted_fewer [OF g])
       (use market_calls_grow(2) [of "bu_client B" W sid] in \<open>auto simp: Buyer_Close buyer_close_facts split: if_splits\<close>)
next
  case (Buyer_Keepalive sid)
  assume g: "all_granted W B"
  show ?thesis
    by (rule all_granted_fewer [OF g])
       (use market_calls_grow(1) [of "bu_client B" W sid] in \<open>auto simp: Buyer_Keepalive buyer_keepalive_def keepalive_wake_sessions case_prod_unfold split: if_splits\<close>)
next
  case (Buyer_Search q)
  assume g: "all_granted W B"
  show ?thesis
    by (rule all_granted_fewer [OF g])
       (use request_listings_grows [of "bu_client B" W "case q of None \<Rightarrow> [] | Some s \<Rightarrow> s"] in \<open>auto simp: Buyer_Search market_search_def case_prod_unfold split: if_splits\<close>)
next
  case (Buyer_Listing i)
  assume g: "all_granted W B"
  show ?thesis
    by (rule all_granted_fewer [OF g])
       (use market_calls_grow(3) [of "bu_client B" W i] in \<open>auto simp: Buyer_Listing market_listing_def case_prod_unfold split: if_splits\<close>)
qed

lemma buyer_step_serial: "bu_serial (buyer_step C rt W B x) = bu_serial B"
  by (cases x) (auto simp: buyer_connect_def buyer_close_facts buyer_keepalive_def buyer_invoke_def market_search_def market_listing_def
      split: prod.split)

definition buyer_inv :: "market_side \<Rightarrow> string \<Rightarrow> buyer \<Rightarrow> bool" where
  "buyer_inv W serial B \<longleftrightarrow> bu_serial B = serial \<and> all_granted W B"

interpretation buyer_ops: op_system "buyer_step C rt W" "buyer_inv W serial"
  by unfold_locales (simp add: buyer_inv_def buyer_step_granted buyer_step_serial)

definition new_buyer :: "string \<Rightarrow> market_client \<Rightarrow> buyer" where
  "new_buyer serial c = \<lparr>bu_serial = serial, bu_manager = new_session_manager, bu_client = c\<rparr>"

text \<open>C39: a buyer only holds sessions that the market granted to it: along every run of connects, invokes, keepalives, closings and
  searches, with any market, any relay and any endpoints, every session of the manager is one that the market's answer to one
  of the buyer's own negotiations named, with the mode, the endpoint and the token of that answer, and that negotiation
  named the buyer's own node.\<close>

theorem sessions_granted:
  "let B = foldl (buyer_step C rt W) (new_buyer serial c) xs in
   case map_of (sm_sessions (bu_manager B)) sid of
     None \<Rightarrow> True
   | Some st \<Rightarrow> granted W serial (ml_requests (bu_client B)) sid st"
proof -
  have "buyer_inv W serial (new_buyer serial c)"
    by (simp add: buyer_inv_def all_granted_def new_buyer_def new_session_manager_def)
  from buyer_ops.run_keeps [OF this, of C rt xs]
  have "bu_serial (foldl (buyer_step C rt W) (new_buyer serial c) xs) = serial"
    and "all_granted W (foldl (buyer_step C rt W) (new_buyer serial c) xs)" by (simp_all add: buyer_inv_def)
  then show ?thesis
    by (auto simp: all_granted_def Let_def split: option.split)
qed

text \<open>A connect that fails after the negotiation, in the handshake or for an unknown mode, does not close the session it negotiated:
  the market has seen the negotiation and nothing else.\<close>

lemma failed_connect_stays_open:
  assumes "buyer_connect W E now listing cents B = (Some (Inl e), B')"
    and "fst (negotiate_session W listing (bu_serial B) cents ''consumer'' (bu_client B)) = Inr pl"
  shows "\<exists>q. ml_requests (bu_client B') = ml_requests (bu_client B) @ [q] \<and> sm_sessions (bu_manager B') = sm_sessions (bu_manager B)"
proof -
  obtain c where n: "negotiate_session W listing (bu_serial B) cents ''consumer'' (bu_client B) = (Inr pl, c)"
    using assms(2) by (cases "negotiate_session W listing (bu_serial B) cents ''consumer'' (bu_client B)") simp
  with assms(1) have s: "sm_connect E now (bu_manager B) (Inr pl) = (Some (Inl e), bu_manager B')" and c: "bu_client B' = c"
    by (auto simp: buyer_connect_def raised_def split: prod.splits)
  have "bu_manager B' = bu_manager B"
    using s by (auto simp: sm_connect_def Let_def split: sum.splits prod.splits option.splits if_splits)
  with client_request_cases [OF n [unfolded negotiate_session_def]] show ?thesis by (auto simp: c)
qed

end
