(* ===== verification/Schemas.thy ===== *)
theory Schemas
  imports NodeReads
begin

text \<open>
  The response models of \<open>aim_node/management/schemas.py\<close> as tables of fields, and what it is for a reply to conform to
  one: the members of the model, in their order, each of its declared type.
\<close>

section \<open>Models\<close>

datatype field_type =
    Bool_Field | Str_Field | Int_Field | Float_Field | Dict_Field
  | Optional_Field field_type
  | List_Field field_type
  | Model_Field "(string \<times> field_type \<times> json option) list"

type_synonym response_model = "(string \<times> field_type \<times> json option) list"

fun bool_value :: "json \<Rightarrow> bool" where
  "bool_value (JBool _) = True"
| "bool_value _ = False"

fun int_value :: "json \<Rightarrow> bool" where
  "int_value (JInt _) = True"
| "int_value _ = False"

fun float_value :: "json \<Rightarrow> bool" where
  "float_value (JFloat _) = True"
| "float_value _ = False"

fun typed :: "field_type \<Rightarrow> json \<Rightarrow> bool" and typed_fields :: "response_model \<Rightarrow> (string \<times> json) list \<Rightarrow> bool" where
  "typed Bool_Field v = bool_value v"
| "typed Str_Field v = is_str v"
| "typed Int_Field v = int_value v"
| "typed Float_Field v = float_value v"
| "typed Dict_Field v = is_obj v"
| "typed (Optional_Field t) v = (v = JNull \<or> typed t v)"
| "typed (List_Field t) v = (case v of JArr xs \<Rightarrow> list_all (typed t) xs | _ \<Rightarrow> False)"
| "typed (Model_Field fs) v = (case v of JObj m \<Rightarrow> typed_fields fs m | _ \<Rightarrow> False)"
| "typed_fields [] m = (m = [])"
| "typed_fields ((k, t, _) # fs) m = (case m of [] \<Rightarrow> False | (k', v) # m' \<Rightarrow> k' = k \<and> typed t v \<and> typed_fields fs m')"

definition conforms_to :: "response_model \<Rightarrow> json \<Rightarrow> bool" where
  "conforms_to fs v = typed (Model_Field fs) v"

text \<open>\<open>Model().model_dump()\<close>, when every field has a default.\<close>

definition default_body :: "response_model \<Rightarrow> json" where
  "default_body fs = JObj (map (\<lambda>(k, _, d). (k, case d of None \<Rightarrow> JNull | Some v \<Rightarrow> v)) fs)"

definition health_response :: response_model where
  "health_response = [(''healthy'', Bool_Field, Some (JBool True)), (''setup_complete'', Bool_Field, None), (''locked'', Bool_Field, None),
     (''csrf_token'', Optional_Field Str_Field, Some JNull), (''session_token'', Optional_Field Str_Field, Some JNull)]"

definition setup_status_response :: response_model where
  "setup_status_response = [(''setup_complete'', Bool_Field, None), (''locked'', Bool_Field, None), (''unlocked'', Bool_Field, None),
     (''current_step'', Int_Field, None)]"

definition keypair_response :: response_model where
  "keypair_response = [(''fingerprint'', Str_Field, None), (''created'', Bool_Field, None)]"

definition test_connection_response :: response_model where
  "test_connection_response = [(''reachable'', Bool_Field, None), (''version'', Optional_Field Str_Field, Some JNull)]"

definition finalize_response :: response_model where
  "finalize_response = [(''ok'', Bool_Field, Some (JBool True))]"

definition dashboard_response :: response_model where
  "dashboard_response = [(''node_id'', Str_Field, None), (''fingerprint'', Str_Field, Some (JStr [])), (''mode'', Str_Field, Some (JStr [])),
     (''uptime_s'', Float_Field, None), (''version'', Str_Field, Some (JStr [])), (''market_connected'', Bool_Field, None),
     (''provider_running'', Bool_Field, None), (''consumer_running'', Bool_Field, None)]"

definition config_read_response :: response_model where
  "config_read_response = [(''mode'', Str_Field, None), (''api_url'', Str_Field, None), (''api_key_set'', Bool_Field, None),
     (''upstream_url'', Optional_Field Str_Field, Some JNull), (''data_dir'', Str_Field, None)]"

definition config_update_response :: response_model where
  "config_update_response = [(''ok'', Bool_Field, Some (JBool True)), (''restart_required'', Bool_Field, None)]"

definition provider_start_response :: response_model where
  "provider_start_response = [(''started'', Bool_Field, Some (JBool True))]"

definition provider_stop_response :: response_model where
  "provider_stop_response = [(''stopped'', Bool_Field, Some (JBool True))]"

definition provider_health_response :: response_model where
  "provider_health_response = [(''upstream_reachable'', Bool_Field, None), (''latency_ms'', Optional_Field Float_Field, Some JNull),
     (''last_check'', Str_Field, None)]"

definition consumer_start_response :: response_model where
  "consumer_start_response = [(''started'', Bool_Field, Some (JBool True)), (''proxy_port'', Int_Field, None)]"

definition consumer_stop_response :: response_model where
  "consumer_stop_response = [(''stopped'', Bool_Field, Some (JBool True))]"

definition session_item_model :: response_model where
  "session_item_model = [(''id'', Str_Field, None), (''role'', Str_Field, None), (''state'', Str_Field, None), (''created_at'', Float_Field, None),
     (''peer_fingerprint'', Str_Field, Some (JStr [])), (''bytes_transferred'', Int_Field, Some (JInt 0))]"

definition sessions_response :: response_model where
  "sessions_response = [(''sessions'', List_Field (Model_Field session_item_model), None)]"

definition session_detail_response :: response_model where
  "session_detail_response = [(''id'', Str_Field, None), (''role'', Str_Field, None), (''state'', Str_Field, None),
     (''metering_events'', List_Field Dict_Field, Some (JArr [])), (''latency_ms'', Optional_Field Float_Field, Some JNull),
     (''error_count'', Int_Field, Some (JInt 0)), (''created_at'', Float_Field, None)]"

definition unlock_response :: response_model where
  "unlock_response = [(''unlocked'', Bool_Field, Some (JBool True))]"

definition keypair_info_response :: response_model where
  "keypair_info_response = [(''fingerprint'', Str_Field, None), (''algorithm'', Str_Field, Some (JStr ''Ed25519'')), (''created_at'', Str_Field, None)]"

definition tool_summary_model :: response_model where
  "tool_summary_model = [(''tool_id'', Str_Field, None), (''name'', Str_Field, None), (''version'', Str_Field, None), (''description'', Str_Field, None),
     (''validation_status'', Str_Field, None), (''last_scanned_at'', Str_Field, None)]"

definition tool_list_response :: response_model where
  "tool_list_response = [(''tools'', List_Field (Model_Field tool_summary_model), None), (''scanned_at'', Optional_Field Str_Field, Some JNull)]"

definition tool_detail_model :: response_model where
  "tool_detail_model = [(''tool_id'', Str_Field, None), (''name'', Str_Field, None), (''version'', Str_Field, None), (''description'', Str_Field, None),
     (''input_schema'', Dict_Field, None), (''output_schema'', Dict_Field, None), (''validation_status'', Str_Field, None),
     (''last_scanned_at'', Str_Field, None), (''last_validated_at'', Optional_Field Str_Field, Some JNull)]"

definition tool_validation_response :: response_model where
  "tool_validation_response = [(''tool_id'', Str_Field, None), (''status'', Str_Field, None), (''latency_ms'', Int_Field, None),
     (''error'', Optional_Field Str_Field, Some JNull)]"

definition test_upstream_response :: response_model where
  "test_upstream_response = [(''reachable'', Bool_Field, None), (''latency_ms'', Optional_Field Int_Field, Some JNull),
     (''tools_found'', Int_Field, Some (JInt 0)), (''error'', Optional_Field Str_Field, Some JNull)]"

section \<open>Replies\<close>

text \<open>The bodies of the routes that change the node, when they succeed.\<close>

definition consumer_start_body :: "int \<Rightarrow> json" where
  "consumer_start_body port = JObj [(''started'', JBool True), (''proxy_port'', JInt port)]"

definition config_update_body :: "bool \<Rightarrow> json" where
  "config_update_body restart_required = JObj [(''ok'', JBool True), (''restart_required'', JBool restart_required)]"

definition keypair_body :: "(bytes \<Rightarrow> bytes) \<Rightarrow> bytes \<Rightarrow> json" where
  "keypair_body sha public = JObj [(''fingerprint'', JStr (fingerprint_of sha public)), (''created'', JBool True)]"

definition test_connection_body :: "(int \<times> json res) option \<Rightarrow> json" where
  "test_connection_body answer = (case answer of
     None \<Rightarrow> JObj [(''reachable'', JBool False), (''version'', JNull)]
   | Some a \<Rightarrow> JObj [(''reachable'', JBool (fst a = 200)), (''version'', if fst a = 200 then health_version a else JNull)])"

lemmas response_models =
  health_response_def setup_status_response_def keypair_response_def test_connection_response_def finalize_response_def
  dashboard_response_def config_read_response_def config_update_response_def provider_start_response_def
  provider_stop_response_def provider_health_response_def consumer_start_response_def consumer_stop_response_def
  session_item_model_def sessions_response_def session_detail_response_def unlock_response_def keypair_info_response_def
  tool_summary_model_def tool_list_response_def tool_detail_model_def tool_validation_response_def test_upstream_response_def

text \<open>A reply, if it is one.\<close>

definition reply_conforms :: "response_model \<Rightarrow> read_reply \<Rightarrow> bool" where
  "reply_conforms fs r \<longleftrightarrow> (case r of Inl _ \<Rightarrow> True | Inr v \<Rightarrow> conforms_to fs v)"

definition tool_reply_conforms :: "response_model \<Rightarrow> tool_reply \<Rightarrow> bool" where
  "tool_reply_conforms fs r \<longleftrightarrow> (case r of Tool_Ok v \<Rightarrow> conforms_to fs v | _ \<Rightarrow> True)"

lemma with_config_conforms:
  "(\<And>config v. k config = Inr v \<Longrightarrow> conforms_to fs v) \<Longrightarrow> reply_conforms fs (with_config E nd k)"
  by (auto simp: with_config_def reply_conforms_def read_reply_of_def split: sum.split)

lemma as_str_Inr: "as_str v = Inr w \<longleftrightarrow> w = v \<and> is_str v"
  by (auto simp: as_str_def)

lemma as_opt_str_Inr: "as_opt_str v = Inr w \<longleftrightarrow> w = v \<and> (is_str v \<or> v = JNull)"
  by (auto simp: as_opt_str_def)

lemma dashboard_uptime: "float_value (or_else (jget (get_dashboard uptime nd) ''uptime_s'') (JFloat (FNum 0)))"
  by (simp add: get_dashboard_def jget_def or_else_def)

lemma dashboard_conforms: "reply_conforms dashboard_response (dashboard E probe uptime nd)"
  unfolding dashboard_def Let_def
  by (rule with_config_conforms)
     (clarsimp simp: rbind_Inr_iff as_str_Inr conforms_to_def dashboard_response_def dashboard_uptime)

lemma config_read_conforms: "reply_conforms config_read_response (config_read E nd)"
  unfolding config_read_def
  by (rule with_config_conforms)
     (auto simp: Let_def rbind_Inr_iff as_str_Inr as_opt_str_Inr conforms_to_def config_read_response_def)

lemma provider_health_conforms: "reply_conforms provider_health_response (provider_health E check now nd)"
  unfolding provider_health_def
  by (rule with_config_conforms)
     (auto simp: Let_def rbind_Inr_iff conforms_to_def provider_health_response_def split: option.splits)

lemma session_item_typed: "typed (Model_Field session_item_model) (session_item (\<lambda>t. JFloat (num t)) s)"
  by (simp add: session_item_def snapshot_fields_def session_item_model_def)

lemma sessions_list_conforms: "conforms_to sessions_response (sessions_list (\<lambda>t. JFloat (num t)) nd)"
  using session_item_typed by (simp add: conforms_to_def sessions_response_def sessions_list_def list.pred_map comp_def list_all_iff)

lemma session_detail_conforms: "reply_conforms session_detail_response (session_detail (\<lambda>t. JFloat (num t)) sid nd)"
  by (cases "find (\<lambda>s. sn_session_id s = sid) (nd_sessions nd)")
     (simp_all add: reply_conforms_def session_detail_def route_session_detail_def get_session_def snapshot_fields_def
       session_detail_fields_def conforms_to_def session_detail_response_def jget_def or_else_def)

lemma keypair_info_conforms: "reply_conforms keypair_info_response (fst (keypair_info E sha created_at d nd))"
  by (simp add: keypair_info_def reply_conforms_def conforms_to_def keypair_info_response_def split: prod.split sum.split)

lemma tool_summary_typed: "tool_summary v = Inr w \<Longrightarrow> typed (Model_Field tool_summary_model) w"
  by (cases v) (auto simp: rbind_Inr_iff summary_fields_def str_item_def tool_summary_model_def split: if_splits)

lemma res_map_all: "res_map f xs = Inr ys \<Longrightarrow> (\<And>x y. f x = Inr y \<Longrightarrow> P y) \<Longrightarrow> list_all P ys"
  by (induction xs arbitrary: ys) (auto simp: rbind_Inr_iff)

lemma tools_list_conforms: "tools_list_response rt files = Inr v \<Longrightarrow> conforms_to tool_list_response v"
  by (auto simp: tools_list_response_def rbind_Inr_iff conforms_to_def tool_list_response_def split: if_splits
      intro!: res_map_all dest: tool_summary_typed)

lemma tool_detail_conforms: "tool_detail_response rt files tid = Inr v \<Longrightarrow> conforms_to tool_detail_model v"
  by (auto simp: tool_detail_response_def rbind_Inr_iff conforms_to_def tool_detail_model_def summary_fields_def split: if_splits)

lemma tool_reply_of: "(\<And>v. r = Inr v \<Longrightarrow> conforms_to fs v) \<Longrightarrow> tool_reply_conforms fs (reply_of r)"
proof (cases r)
  case (Inl e)
  then show ?thesis by (cases e) (simp_all add: reply_of_def tool_reply_conforms_def)
qed (simp add: reply_of_def tool_reply_conforms_def)

lemma tool_error_conforms: "tool_reply_conforms fs (tool_error e)"
  by (cases e) (simp_all add: tool_reply_conforms_def)

lemma tools_list_reply: "tool_reply_conforms tool_list_response (reply_of (or_tool_exn (tools_list_response rt files)))"
  by (rule tool_reply_of) (auto simp: or_tool_exn_def tools_list_conforms split: sum.splits)

text \<open>These replies of the management API have the fields their model declares, each with its type and in the model's order: health, setup
  status, dashboard, configuration, provider health, sessions, key pair, and the tools, whatever the configuration file, the
  keystore, the cached tools and the upstream hold; a value of another type in one of them becomes an error reply.\<close>

theorem replies_conform:
  "conforms_to health_response (fst (health csrf_token session_token nd))
   \<and> conforms_to setup_status_response (setup_status nd)
   \<and> reply_conforms dashboard_response (dashboard E probe uptime nd)
   \<and> reply_conforms config_read_response (config_read E nd)
   \<and> reply_conforms provider_health_response (provider_health E check now nd)
   \<and> conforms_to sessions_response (sessions_list (\<lambda>t. JFloat (num t)) nd)
   \<and> reply_conforms session_detail_response (session_detail (\<lambda>t. JFloat (num t)) sid nd)
   \<and> reply_conforms keypair_info_response (fst (keypair_info E sha created_at d nd))
   \<and> tool_reply_conforms tool_list_response (route_tools_list rt files)
   \<and> tool_reply_conforms tool_list_response (fst (route_tools_discover rt tool_hash cfg fetch now files))
   \<and> tool_reply_conforms tool_detail_model (route_tools_detail rt files tid)
   \<and> tool_reply_conforms tool_validation_response (fst (route_tools_validate rt cfg tid call now files))
   \<and> tool_reply_conforms test_upstream_response (setup_test_upstream rt url fetch)"
proof (intro conjI)
  show "conforms_to health_response (fst (health csrf_token session_token nd))"
    by (simp add: conforms_to_def health_response_def health_def opt_text_def split: option.split)
  show "conforms_to setup_status_response (setup_status nd)"
    by (simp add: conforms_to_def setup_status_response_def setup_status_def)
  show "tool_reply_conforms tool_list_response (route_tools_list rt files)"
    unfolding route_tools_list_def by (rule tools_list_reply)
  show "tool_reply_conforms tool_list_response (fst (route_tools_discover rt tool_hash cfg fetch now files))"
    by (auto simp: route_tools_discover_def tools_list_reply tool_error_conforms simp del: tool_error.simps split: sum.split option.split prod.split)
  show "tool_reply_conforms tool_detail_model (route_tools_detail rt files tid)"
    unfolding route_tools_detail_def by (rule tool_reply_of) (rule tool_detail_conforms)
  show "tool_reply_conforms tool_validation_response (fst (route_tools_validate rt cfg tid call now files))"
    by (auto simp: route_tools_validate_def tool_error_conforms tool_reply_conforms_def [of _ "Tool_Ok _"] conforms_to_def
        tool_validation_response_def simp del: tool_error.simps split: sum.split option.split prod.split)
  show "tool_reply_conforms test_upstream_response (setup_test_upstream rt url fetch)"
    by (auto simp: setup_test_upstream_def tool_error_conforms tool_reply_conforms_def [of _ "Tool_Ok _"] conforms_to_def
        test_upstream_response_def simp del: tool_error.simps split: sum.split)
qed (rule dashboard_conforms config_read_conforms provider_health_conforms sessions_list_conforms session_detail_conforms
  keypair_info_conforms)+

text \<open>The bodies of the other routes.\<close>

lemma action_bodies_conform:
  "conforms_to provider_start_response (default_body provider_start_response)"
  "conforms_to provider_stop_response (default_body provider_stop_response)"
  "conforms_to consumer_stop_response (default_body consumer_stop_response)"
  "conforms_to finalize_response (default_body finalize_response)"
  "conforms_to unlock_response (default_body unlock_response)"
  "conforms_to consumer_start_response (consumer_start_body port)"
  "conforms_to config_update_response (config_update_body restart)"
  "conforms_to keypair_response (keypair_body sha public)"
  by (simp_all add: conforms_to_def default_body_def response_models consumer_start_body_def config_update_body_def keypair_body_def)

end
