(* ===== verification/Spec2Isabelle.thy ===== *)
theory Spec2Isabelle
  imports RelayService RelayTasks ProviderTasks OfflineQueue TrustChannel NodeSafety ProcessTasks Tools GatewayPublish GatewayInvoke GatewayClients AllaiSafety MarketTasks SellerSetup Cli LogFormat SessionKill BuyerMarket Schemas
begin

text \<open>
  AIM Node is the program that a seller or a buyer of the ai.market runs. A buyer's node negotiates a session with
  the market and calls a seller's endpoint, directly or through a relay that neither of them trusts; a seller's node
  waits on a trust channel for negotiations and serves them with an adapter to an HTTP endpoint of its own; a management
  application, with a user interface and an assistant, sets the node up, locks it, starts and stops both sides and shows
  what they do; the gateway clients under \<open>src/python/aim_node/gateway_v2\<close> publish, quote, connect, invoke and meter
  against the market's gateway. This development models that program in HOL, one theory to a part, and proves what makes
  the parts and their composition correct. Paths below are under \<open>src/aim_node\<close> unless they say otherwise.

  \<^bold>\<open>Foundations.\<close> \<open>AimPrelude\<close> holds exceptions as values (\<open>'a res\<close> is \<open>exn + 'a\<close>), insertion-ordered dictionaries, and the
  interfaces the parts share as locales: \<open>op_system\<close> (a step function that keeps an invariant), \<open>monotone_system\<close> (one
  along which a reading only grows), \<open>lookup_table\<close>, \<open>bounded_fifo\<close> and \<open>codec\<close>. \<open>PyText\<close>, \<open>Base64\<close>, \<open>JsonText\<close>, \<open>JsonCodec\<close> and
  \<open>PyObject\<close> are what the program uses of Python's standard library: integers as text, UTF-8, base64, \<open>json.dumps\<close> and
  \<open>json.loads\<close> with their round trip, and operations on values of unknown type.

  \<^bold>\<open>The relay.\<close> \<open>RelayCrypto\<close> (\<open>core/relay_crypto.py\<close>) has traffic keys, nonces, frames and the sequence tracker;
  \<open>Handshake\<close> (\<open>core/handshake.py\<close>) the signed key exchange as a state machine; \<open>RelayProtocol\<close> (\<open>relay/protocol.py\<close>) the payloads;
  \<open>RelayTransport\<close> (\<open>relay/transport.py\<close>) one session over a web socket with its heartbeat; \<open>RelayChannel\<close> the properties of
  that session. \<open>RelayTasks\<close> runs the same transport as coroutines: a step relation with one rule to each way from one await to
  the next, whose runs are all interleavings of requests and sends, with the history of the numbers used; the sequential
  functions are its uninterrupted runs. \<open>Consumer\<close> (\<open>consumer/session_manager.py\<close>, \<open>proxy.py\<close>) and \<open>Provider\<close> (\<open>provider/adapter.py\<close>,
  \<open>session_handler.py\<close>) stand at its ends and \<open>RelayService\<close> puts the two together: two honest ends agree on their keys, what
  one reads is a prefix of what the other sent whatever the relay does, and a request is answered with the endpoint's
  answer or its numbered error. \<open>TrustChannel\<close> (\<open>core/trust_channel.py\<close>) delivers every message once, a reply to its own waiter, and reconnects with
  bounded delays; \<open>ProviderTasks\<close> lets the messages of that channel, the handler they start, the sessions, the health loop and
  \<open>stop\<close>, from await to await, interleave and shows that a seller serves only sessions that were offered and on whose own
  connection a fresh handshake arrived, signed under the offered key; \<open>OfflineQueue\<close> (\<open>core/offline_queue.py\<close>) refines a
  bounded list of entries, and its flush keeps what was not sent.

  \<^bold>\<open>The market.\<close> \<open>MarketAccess\<close> (\<open>core/auth.py\<close>, \<open>management/errors.py\<close>, \<open>facade.py\<close> and the answers of \<open>core/market_client.py\<close> and
  \<open>connectivity_token.py\<close>) has the tokens, the normalized errors, the retry and the cache; \<open>MarketClient\<close> the requests of both
  clients, with registration as a proof of possession of the device's key; \<open>Marketplace\<close> (\<open>management/marketplace.py\<close>) the routes
  over the facade, as functions; \<open>MarketTasks\<close> runs them as coroutines on one facade, each in two stretches around its
  request to the market: in every interleaving a cached answer came from the market within its time to live, and the list
  of tools arrived after the last accepted change; \<open>BuyerMarket\<close> the session
  manager with its client: a buyer holds only sessions the market granted it.

  \<^bold>\<open>The node.\<close> \<open>Keystore\<close> (\<open>core/crypto.py\<close>) is the keystore file; \<open>Config\<close> (\<open>config_loader.py\<close>, \<open>core/config.py\<close>,
  \<open>management/config_writer.py\<close>) loads and writes the configuration; \<open>NodeState\<close> (\<open>management/state.py\<close>, \<open>process.py\<close>) is the state
  of the node and its processes; \<open>NodeRoutes\<close> and \<open>NodeReads\<close> (\<open>management/routes.py\<close>, \<open>schemas.py\<close>) are the routes that change
  and that read it, and \<open>NodeSafety\<close> shows what the lock guarantees along every run of them; \<open>SellerSetup\<close> follows the setup
  of a seller from the request to the configuration the node then loads. \<open>ProcessTasks\<close> runs the process manager, lock, unlock,
  reload and the final setup step with its registration as coroutines: with a keystore under a passphrase a lock that overlaps no
  start holds in every interleaving without a key rotation; its last lemmas show what a lock or a stop that overlaps
  others can leave behind. \<open>SessionKill\<close> is the route that
  goes through the node, the session manager and the session handler. \<open>Middleware\<close> (\<open>management/middleware.py\<close>) is the gate
  in front of all routes; \<open>Metrics\<close> and \<open>Logs\<close> (\<open>management/metrics.py\<close>, \<open>logs.py\<close>) count and record, \<open>LogFormat\<close>
  (\<open>core/logging.py\<close>) writes JSON lines; \<open>App\<close> (\<open>management/app.py\<close>) has the table of routes, the exception handlers, the
  middlewares around a handler and the life of the application. \<open>Tools\<close> (\<open>management/tools.py\<close>) discovers and validates the
  upstream's tools. \<open>Allai\<close> and \<open>AllaiSafety\<close> (\<open>management/allai.py\<close>) are the assistant: it runs only allowed tools, runs a
  confirmed action at most as often as it was offered, and never shows a secret. \<open>Schemas\<close> has the reply models and the
  replies that conform to them. \<open>Cli\<close> (\<open>cli.py\<close>) has the commands.

  \<^bold>\<open>The gateway\<close> (\<open>src/python/aim_node/gateway_v2\<close>). \<open>GatewayContracts\<close> and \<open>GatewayPublish\<close> (\<open>contracts.py\<close>, \<open>publish.py\<close>) keep payload out
  of published metadata, proved equal to a check of every path; \<open>GatewayMeter\<close> (\<open>meter.py\<close>) buffers events, each handed over
  at most once, and its drain returns; \<open>GatewayInvoke\<close> (\<open>invoke.py\<close>) bounds an invocation; \<open>GatewayClients\<close> has \<open>connect.py\<close>,
  \<open>quote.py\<close>, \<open>discover.py\<close>, \<open>receipt.py\<close> and \<open>buyer.py\<close>.

  \<^bold>\<open>How the code is read.\<close> A class is a record and its methods take and return it; an exception is a value on the left of a
  sum, and an exception that leaves state changed returns both. An \<open>await\<close> on the network is a function argument or an
  argument of the call (the answer), so that a theorem holds for every answer; concurrent tasks are operations of one
  system, or rules of a step relation (\<open>relay_step\<close>, \<open>provider_step\<close>,
  \<open>process_step\<close>, \<open>market_step\<close>) where the code between two awaits matters, and a theorem
  about every run speaks of every interleaving of their steps. A receive that would wait is
  \<open>None\<close>. Strings are lists of 8-bit characters; a text with a code point above 255 is the exception \<open>Unrepresentable\<close>, which
  no property rests on. Python's integers are \<open>int\<close>; where the code fixes a width (frame lengths, sequence numbers,
  nonces) the bound is in the definition.

  \<^bold>\<open>Bounds and loops.\<close> The JSON reader has fuel of twice the text's length and two, which \<open>loads_dumps\<close> shows to be enough for
  what the printer writes. The loops over what has arrived end because every step takes something from the inbox, the
  stream of an invocation because its record cap counts down, so they are total functions; the drain of the meter buffer is
  a \<open>while_option\<close> that is proved to return; the assistant's loop counts its five turns.

  \<^bold>\<open>Parameters and their laws.\<close> The cryptographic primitives (\<open>crypto_lib\<close>, \<open>key_lib\<close>) with the laws a theorem names: a
  signature verifies, the exchange commutes, authenticated decryption inverts encryption. The TOML reader and writer
  (\<open>toml_lib\<close>), the reading and printing of floats and ISO times, SHA-256, the clock, random values, HTTP and web
  sockets, and the readings of \<open>pydantic\<close>. Every law has an instance in a witness.

  \<^bold>\<open>Not modelled.\<close> Starlette's dispatch, uvicorn, click's prompts and asyncio's scheduler, beyond the order in which they
  call the program; the rotation of log files; the installation
  of signal handlers; failures of the file system other than those of writing the keystore and the configuration; the
  front end, the scripts and the tests.
\<close>

end
